(* ===== verification/Harness_Prelude.thy ===== *)
theory Harness_Prelude
  imports Main "HOL-Library.List_Lexorder" "HOL-Library.Char_ord" "HOL-Library.Product_Lexorder"
    "HOL-Library.AList" "HOL-Library.Multiset"
begin

text \<open>
  Shared vocabulary of the development: the error values, the result type
  \<open>harness_error + 'a\<close> with its sequencing operators, Python dictionaries as association
  lists in insertion order, and the facts on sorting, mapping and lookup that the
  component theories use.

  Python strings are \<^typ>\<open>string\<close>: the UTF-8 bytes of the text. Byte order and code
  point order agree on UTF-8, so \<open>sorted\<close> on strings is the lexicographic \<^const>\<open>sort\<close>.
\<close>

named_theorems result_simps \<open>inversion of successful sequenced computations\<close>

section \<open>Errors as values\<close>

text \<open>
  The exceptions of the modelled modules. \<open>ControlledPlanningError\<close> and
  \<open>ControlledCoordinationError\<close> carry their code, \<open>SchemaValidationError\<close> the schema it
  names, the other exceptions their class only. The human readable messages are dropped.
\<close>

datatype harness_error =
    Planning_Error string
  | Coordination_Error string
  | Schema_Error string
  | Path_Boundary_Error
  | File_Not_Found
  | Assertion_Error
  | Key_Error

type_synonym 'a result = "harness_error + 'a"

definition bindE :: "'e + 'a \<Rightarrow> ('a \<Rightarrow> 'e + 'b) \<Rightarrow> 'e + 'b" where
  "bindE m f = (case m of Inl e \<Rightarrow> Inl e | Inr x \<Rightarrow> f x)"

lemma bindE_Inl [simp]: "bindE (Inl e) f = Inl e"
  and bindE_Inr [simp]: "bindE (Inr x) f = f x"
  by (simp_all add: bindE_def)

lemma bindE_eq_Inr [result_simps]:
  "bindE m f = Inr y \<longleftrightarrow> (\<exists>x. m = Inr x \<and> f x = Inr y)"
  by (cases m) auto

lemma bindE_eq_Inl:
  "bindE m f = Inl e \<longleftrightarrow> m = Inl e \<or> (\<exists>x. m = Inr x \<and> f x = Inl e)"
  by (cases m) auto

text \<open>\<open>check c e\<close> is \<open>if c: raise e\<close>.\<close>

definition raise_if :: "bool \<Rightarrow> 'e \<Rightarrow> 'e + unit" where
  "raise_if c e = (if c then Inl e else Inr ())"

lemma raise_if_eq_Inr [result_simps]: "raise_if c e = Inr u \<longleftrightarrow> \<not> c"
  by (simp add: raise_if_def)

lemma raise_if_True [simp]: "raise_if True e = Inl e"
  and raise_if_False [simp]: "raise_if False e = Inr ()"
  by (simp_all add: raise_if_def)

text \<open>A list comprehension whose body may raise: the first failure wins.\<close>

fun mapE :: "('a \<Rightarrow> 'e + 'b) \<Rightarrow> 'a list \<Rightarrow> 'e + 'b list" where
  "mapE f [] = Inr []"
| "mapE f (x # xs) = bindE (f x) (\<lambda>y. bindE (mapE f xs) (\<lambda>ys. Inr (y # ys)))"

lemma mapE_eq_Inr: "mapE f xs = Inr ys \<longleftrightarrow> list_all2 (\<lambda>x y. f x = Inr y) xs ys"
  by (induction xs arbitrary: ys) (auto simp: result_simps list_all2_Cons1)

lemma mapE_Inr_map: "(\<And>x. x \<in> set xs \<Longrightarrow> f x = Inr (g x)) \<Longrightarrow> mapE f xs = Inr (map g xs)"
  by (induction xs) auto

lemma mapE_Inr_imp_map:
  "mapE f xs = Inr ys \<Longrightarrow> (\<And>x y. f x = Inr y \<Longrightarrow> h y = k x) \<Longrightarrow> map h ys = map k xs"
  by (induction xs arbitrary: ys) (auto simp: result_simps)

lemma mapE_set: "mapE f xs = Inr ys \<Longrightarrow> y \<in> set ys \<Longrightarrow> \<exists>x\<in>set xs. f x = Inr y"
  by (induction xs arbitrary: ys) (auto simp: result_simps)

section \<open>Python dictionaries\<close>

text \<open>
  A dictionary is the list of its items in insertion order, with distinct keys:
  \<open>d.get(k)\<close> is \<^const>\<open>map_of\<close>, \<open>d[k] = v\<close> is \<^const>\<open>AList.update\<close>, which keeps the
  position of a key it overwrites, as Python does.
\<close>

type_synonym ('k, 'v) dict = "('k \<times> 'v) list"

definition dict_keys :: "('k, 'v) dict \<Rightarrow> 'k list" where
  "dict_keys d = map fst d"

text \<open>\<open>d[k]\<close>, which raises \<open>KeyError\<close>.\<close>

definition lookupE :: "('k, 'v) dict \<Rightarrow> 'k \<Rightarrow> 'v result" where
  "lookupE d k = (case map_of d k of None \<Rightarrow> Inl Key_Error | Some v \<Rightarrow> Inr v)"

lemma lookupE_eq_Inr [result_simps]: "lookupE d k = Inr v \<longleftrightarrow> map_of d k = Some v"
  by (simp add: lookupE_def split: option.split)

text \<open>\<open>{key(x): value(x) for x in xs}\<close>: later items overwrite earlier ones.\<close>

definition dict_of :: "('k \<times> 'v) list \<Rightarrow> ('k, 'v) dict" where
  "dict_of kvs = fold (\<lambda>(k, v) d. AList.update k v d) kvs []"

lemma map_of_fold_update:
  "map_of (fold (\<lambda>(k, v) d. AList.update k v d) kvs d) = map_of d ++ map_of (rev kvs)"
proof (induction kvs arbitrary: d)
  case Nil
  then show ?case by simp
next
  case (Cons kv kvs)
  obtain k v where kv: "kv = (k, v)" by fastforce
  show ?case
    by (rule ext) (simp add: kv Cons update_conv' map_add_def split: option.splits)
qed

lemma map_of_dict_of: "map_of (dict_of kvs) = map_of (rev kvs)"
  unfolding dict_of_def by (simp add: map_of_fold_update)

lemma map_of_rev_distinct:
  assumes "distinct (map fst xs)"
  shows "map_of (rev xs) = map_of xs"
  by (rule map_of_inject_set[THEN iffD2]) (use assms in \<open>simp_all add: rev_map[symmetric]\<close>)

lemma map_of_dict_of_distinct:
  "distinct (map fst kvs) \<Longrightarrow> map_of (dict_of kvs) = map_of kvs"
  by (simp add: map_of_dict_of map_of_rev_distinct)

lemma update_fresh: "k \<notin> fst ` set d \<Longrightarrow> AList.update k v d = d @ [(k, v)]"
  by (induction d) auto

text \<open>Without repeated keys the dictionary is the list of items itself.\<close>

lemma dict_of_distinct:
  assumes "distinct (map fst kvs)"
  shows "dict_of kvs = kvs"
proof -
  have "fold (\<lambda>(k, v) d. AList.update k v d) kvs d = d @ kvs"
    if "distinct (map fst (d @ kvs))" for d
    using that assms
  proof (induction kvs arbitrary: d)
    case (Cons kv kvs)
    from Cons.prems(1) have "fst kv \<notin> fst ` set d" by auto
    then have "AList.update (fst kv) (snd kv) d = d @ [kv]" by (simp add: update_fresh)
    moreover have "distinct (map fst ((d @ [kv]) @ kvs))" using Cons.prems(1) by simp
    ultimately show ?case using Cons.IH[of "d @ [kv]"] Cons.prems(2)
      by (simp add: case_prod_beta)
  qed simp
  from this[of "[]"] show ?thesis using assms by (simp add: dict_of_def)
qed

lemma dict_of_key_distinct:
  "distinct (map f xs) \<Longrightarrow> dict_of (map (\<lambda>x. (f x, g x)) xs) = map (\<lambda>x. (f x, g x)) xs"
  by (rule dict_of_distinct) (simp add: comp_def)

lemma map_of_map_key:
  assumes "distinct (map f xs)" and "x \<in> set xs"
  shows "map_of (map (\<lambda>x. (f x, g x)) xs) (f x) = Some (g x)"
proof (rule map_of_is_SomeI)
  show "distinct (map fst (map (\<lambda>x. (f x, g x)) xs))"
    using assms(1) by (simp add: comp_def)
qed (use assms(2) in auto)

lemma map_of_map_key_iff:
  assumes "distinct (map f xs)"
  shows "map_of (map (\<lambda>x. (f x, x)) xs) k = Some y \<longleftrightarrow> y \<in> set xs \<and> f y = k"
  using assms by (subst map_of_eq_Some_iff) (auto simp: comp_def)

section \<open>Sorting\<close>

lemma mset_eq_map_distinct:
  "mset xs = mset ys \<Longrightarrow> distinct (map f xs) \<longleftrightarrow> distinct (map f ys)"
  by (metis mset_eq_imp_distinct_iff mset_map)

text \<open>Sorting by a key that identifies the items forgets the order they came in.\<close>

lemma sort_key_permutation:
  assumes "mset xs = mset ys" and "distinct (map f xs)"
  shows "sort_key f xs = sort_key f ys"
proof (rule properties_for_sort_key)
  show "mset (sort_key f ys) = mset xs" using assms(1) by simp
  show "sorted (map f (sort_key f ys))" by simp
  fix k assume k: "k \<in> set (sort_key f ys)"
  then have kx: "k \<in> set xs" using assms(1) by (metis set_mset_mset set_sort)
  have d: "distinct (map f (sort_key f ys))"
    using assms mset_eq_map_distinct[of "sort_key f ys" ys f] mset_eq_map_distinct[of xs ys f]
    by simp
  have single: "filter (\<lambda>x. f k = f x) zs = [k]" if "distinct (map f zs)" "k \<in> set zs" for zs
    using that
  proof (induction zs)
    case (Cons z zs)
    show ?case
    proof (cases "k = z")
      case True
      with Cons.prems show ?thesis by (force simp: filter_empty_conv)
    next
      case False
      with Cons.prems have k: "k \<in> set zs" by simp
      then have "f k \<in> f ` set zs" by (rule imageI)
      with Cons.prems have "f k \<noteq> f z" by auto
      with Cons k show ?thesis by simp
    qed
  qed simp
  from kx have "filter (\<lambda>x. f k = f x) xs = [k]" using assms(2) by (simp add: single)
  with k d show
    "filter (\<lambda>x. f k = f x) (sort_key f ys) = filter (\<lambda>x. f k = f x) xs"
    by (simp add: single)
qed

lemma sort_permutation: "mset xs = mset ys \<Longrightarrow> sort xs = sort (ys :: 'a :: linorder list)"
  by (metis mset_sort properties_for_sort sorted_sort)

lemma distinct_map_sort_key [simp]: "distinct (map f (sort_key g xs)) \<longleftrightarrow> distinct (map f xs)"
  by (rule mset_eq_map_distinct) simp

lemma sort_idem [simp]: "sort (sort xs) = sort (xs :: 'a :: linorder list)"
  by (simp add: sorted_sort_id)

lemma sort_key_idem [simp]: "sort_key f (sort_key f xs) = sort_key f xs"
  by (simp add: sort_key_id_if_sorted)

lemma sort_Nil_iff [simp]: "sort_key f xs = [] \<longleftrightarrow> xs = []"
  by (metis length_0_conv length_sort)

section \<open>Small list facts\<close>

text \<open>\<open>next((x for x in xs if p(x)), None)\<close> is \<^const>\<open>List.find\<close>.\<close>

lemma find_Some_D: "List.find p xs = Some x \<Longrightarrow> x \<in> set xs \<and> p x"
  by (auto simp: find_Some_iff)

lemma find_None_D: "List.find p xs = None \<Longrightarrow> x \<in> set xs \<Longrightarrow> \<not> p x"
  by (auto simp: find_None_iff)

text \<open>A comprehension with a condition: at most one item per element.\<close>

lemma concat_map_if:
  "concat (map (\<lambda>x. if P x then [f x] else []) xs) = map f (filter P xs)"
  by (induction xs) simp_all

text \<open>\<open>itertools.combinations(xs, 2)\<close>, in its order.\<close>

fun pairs_of :: "'a list \<Rightarrow> ('a \<times> 'a) list" where
  "pairs_of [] = []"
| "pairs_of (x # xs) = map (Pair x) xs @ pairs_of xs"

lemma pairs_of_set: "(x, y) \<in> set (pairs_of xs) \<Longrightarrow> x \<in> set xs \<and> y \<in> set xs"
  by (induction xs) auto

lemma pairs_of_complete:
  "x \<in> set xs \<Longrightarrow> y \<in> set xs \<Longrightarrow> x \<noteq> y \<Longrightarrow> (x, y) \<in> set (pairs_of xs) \<or> (y, x) \<in> set (pairs_of xs)"
  by (induction xs) auto

lemma pairs_of_distinct: "distinct xs \<Longrightarrow> (x, y) \<in> set (pairs_of xs) \<Longrightarrow> x \<noteq> y"
  by (induction xs) (auto dest: pairs_of_set)

text \<open>\<open>separator.join(parts)\<close> for a one-character separator.\<close>

fun join :: "'a \<Rightarrow> 'a list list \<Rightarrow> 'a list" where
  "join c [] = []"
| "join c [x] = x"
| "join c (x # y # zs) = x @ c # join c (y # zs)"

lemma join_Cons: "xs \<noteq> [] \<Longrightarrow> join c (x # xs) = x @ c # join c xs"
  by (cases xs) auto

end
