(* ===== verification/Canonical_Json.thy ===== *)
theory Canonical_Json
  imports Harness_Prelude
begin

text \<open>
  \<open>hashing.py\<close>: canonical JSON text and the digests over it. \<open>json.dumps\<close> with sorted keys,
  compact separators and \<open>ensure_ascii=False\<close> is \<open>render\<close> after \<open>canon_form\<close>, which sorts the
  members of every object. \<open>loads_canonical\<close> is \<open>json.loads\<close> on canonical texts; the code
  only uses the result of \<open>json.loads\<close> after comparing its re-serialisation with the text,
  so texts outside that grammar are rejected by the code as well. Floating point numbers are
  not modelled. SHA-256 is a parameter \<open>sha\<close>, from a text to its hexadecimal digest.
\<close>

section \<open>JSON values\<close>

datatype json =
    JNull
  | JBool bool
  | JInt int
  | JStr string
  | JArr "json list"
  | JObj "(string \<times> json) list"

text \<open>A Python dictionary has distinct keys, at every level of a value.\<close>

fun json_wf :: "json \<Rightarrow> bool" where
  "json_wf (JArr vs) = (\<forall>v\<in>set vs. json_wf v)"
| "json_wf (JObj kvs) = (distinct (map fst kvs) \<and> (\<forall>kv\<in>set kvs. json_wf (snd kv)))"
| "json_wf _ = True"

fun canon_form :: "json \<Rightarrow> json" where
  "canon_form (JArr vs) = JArr (map canon_form vs)"
| "canon_form (JObj kvs) = JObj (sort_key fst (map (\<lambda>kv. (fst kv, canon_form (snd kv))) kvs))"
| "canon_form v = v"

text \<open>Python's \<open>==\<close> on JSON values ignores the order of dictionary items.\<close>

definition json_eq :: "json \<Rightarrow> json \<Rightarrow> bool" where
  "json_eq a b = (canon_form a = canon_form b)"

section \<open>Serialisation\<close>

definition digit_char :: "nat \<Rightarrow> char" where
  "digit_char n = char_of (48 + n)"

fun dec_nat :: "nat \<Rightarrow> string" where
  "dec_nat n = (if n < 10 then [digit_char n] else dec_nat (n div 10) @ [digit_char (n mod 10)])"

declare dec_nat.simps [simp del]

definition dec_int :: "int \<Rightarrow> string" where
  "dec_int i = (if i < 0 then CHR ''-'' # dec_nat (nat (- i)) else dec_nat (nat i))"

definition hex_char :: "nat \<Rightarrow> char" where
  "hex_char n = (if n < 10 then char_of (48 + n) else char_of (87 + n))"

abbreviation quote_char :: char where "quote_char \<equiv> CHR 0x22"
abbreviation backslash :: char where "backslash \<equiv> CHR 0x5C"

text \<open>The escapes of \<open>json.encoder\<close> with \<open>ensure_ascii=False\<close>.\<close>

definition escape_char :: "char \<Rightarrow> string" where
  "escape_char c =
     (if c = quote_char then [backslash, quote_char]
      else if c = backslash then [backslash, backslash]
      else if c = CHR 0x0A then [backslash, CHR ''n'']
      else if c = CHR 0x0D then [backslash, CHR ''r'']
      else if c = CHR 0x09 then [backslash, CHR ''t'']
      else if c = CHR 0x0C then [backslash, CHR ''f'']
      else if c = CHR 0x08 then [backslash, CHR ''b'']
      else if (of_char c :: nat) < 32
        then [backslash, CHR ''u'', CHR ''0'', CHR ''0'',
              hex_char (of_char c div 16), hex_char (of_char c mod 16)]
      else [c])"

text \<open>The same function on the bits of the byte, for evaluation.\<close>

lemma escape_char_bits [code]:
  "escape_char (Char b0 b1 b2 b3 b4 b5 b6 b7) =
     (let c = Char b0 b1 b2 b3 b4 b5 b6 b7 in
      if b5 \<or> b6 \<or> b7
      then (if c = quote_char then [backslash, quote_char]
            else if c = backslash then [backslash, backslash] else [c])
      else if c = CHR 0x0A then [backslash, CHR ''n'']
      else if c = CHR 0x0D then [backslash, CHR ''r'']
      else if c = CHR 0x09 then [backslash, CHR ''t'']
      else if c = CHR 0x0C then [backslash, CHR ''f'']
      else if c = CHR 0x08 then [backslash, CHR ''b'']
      else [backslash, CHR ''u'', CHR ''0'', CHR ''0'',
              hex_char (of_char c div 16), hex_char (of_char c mod 16)])"
  by (cases b0; cases b1; cases b2; cases b3; cases b4; cases b5; cases b6; cases b7)
    (simp_all add: escape_char_def Let_def)

definition quote :: "string \<Rightarrow> string" where
  "quote s = quote_char # concat (map escape_char s) @ [quote_char]"

fun render :: "json \<Rightarrow> string" where
  "render JNull = ''null''"
| "render (JBool b) = (if b then ''true'' else ''false'')"
| "render (JInt i) = dec_int i"
| "render (JStr s) = quote s"
| "render (JArr vs) = CHR ''['' # join (CHR '','') (map render vs) @ '']''"
| "render (JObj kvs) =
     CHR ''{'' # join (CHR '','') (map (\<lambda>kv. quote (fst kv) @ CHR '':'' # render (snd kv)) kvs) @ ''}''"

definition canonical_json_bytes :: "json \<Rightarrow> string" where
  "canonical_json_bytes v = render (canon_form v)"

definition sha256_json :: "(string \<Rightarrow> string) \<Rightarrow> json \<Rightarrow> string" where
  "sha256_json sha v = ''sha256:'' @ sha (canonical_json_bytes v)"

definition stable_id :: "(string \<Rightarrow> string) \<Rightarrow> string \<Rightarrow> json \<Rightarrow> string" where
  "stable_id sha prefix v = prefix @ CHR '':'' # take 24 (sha (canonical_json_bytes v))"

text \<open>The shape of \<open>hashlib.sha256(...).hexdigest()\<close>.\<close>

definition is_hex :: "char \<Rightarrow> bool" where
  "is_hex c = (c \<in> set ''0123456789abcdef'')"

definition hex_digest :: "(string \<Rightarrow> string) \<Rightarrow> bool" where
  "hex_digest sha = (\<forall>s. length (sha s) = 64 \<and> list_all is_hex (sha s))"

section \<open>Parsing canonical texts\<close>

definition is_digit :: "char \<Rightarrow> bool" where
  "is_digit c = (48 \<le> (of_char c :: nat) \<and> of_char c \<le> (57 :: nat))"

definition digit_value :: "char \<Rightarrow> nat" where
  "digit_value c = of_char c - 48"

definition hex_value :: "char \<Rightarrow> nat" where
  "hex_value c = (if is_digit c then of_char c - 48 else of_char c - 87)"

definition read_nat :: "string \<Rightarrow> nat" where
  "read_nat ds = foldl (\<lambda>n d. 10 * n + digit_value d) 0 ds"

definition parse_nat :: "string \<Rightarrow> (nat \<times> string) option" where
  "parse_nat s =
     (let ds = takeWhile is_digit s
      in if ds = [] then None else Some (read_nat ds, dropWhile is_digit s))"

definition unescape_char :: "char \<Rightarrow> char option" where
  "unescape_char e =
     (if e = quote_char then Some quote_char
      else if e = backslash then Some backslash
      else if e = CHR ''n'' then Some (CHR 0x0A)
      else if e = CHR ''r'' then Some (CHR 0x0D)
      else if e = CHR ''t'' then Some (CHR 0x09)
      else if e = CHR ''f'' then Some (CHR 0x0C)
      else if e = CHR ''b'' then Some (CHR 0x08)
      else None)"

text \<open>The rest of a string literal, after its opening quote.\<close>

fun parse_string :: "string \<Rightarrow> (string \<times> string) option" where
  "parse_string [] = None"
| "parse_string (c # s) =
     (if c = quote_char then Some ([], s)
      else if c = backslash then
        (case s of
           e # s1 \<Rightarrow>
             (if e = CHR ''u'' then
                (case s1 of
                   z1 # z2 # h1 # h2 # s2 \<Rightarrow>
                     (if z1 = CHR ''0'' \<and> z2 = CHR ''0''
                      then map_option (\<lambda>(t, r). (char_of (16 * hex_value h1 + hex_value h2) # t, r))
                             (parse_string s2)
                      else None)
                 | _ \<Rightarrow> None)
              else
                (case unescape_char e of
                   None \<Rightarrow> None
                 | Some d \<Rightarrow> map_option (\<lambda>(t, r). (d # t, r)) (parse_string s1)))
         | [] \<Rightarrow> None)
      else map_option (\<lambda>(t, r). (c # t, r)) (parse_string s))"

text \<open>\<open>strip p s\<close> removes the literal \<open>p\<close> from the front of \<open>s\<close>.\<close>

fun strip :: "string \<Rightarrow> string \<Rightarrow> string option" where
  "strip [] s = Some s"
| "strip (p # ps) [] = None"
| "strip (p # ps) (c # s) = (if p = c then strip ps s else None)"

fun parse_value :: "nat \<Rightarrow> string \<Rightarrow> (json \<times> string) option"
  and parse_elements :: "nat \<Rightarrow> string \<Rightarrow> (json list \<times> string) option"
  and parse_members :: "nat \<Rightarrow> string \<Rightarrow> ((string \<times> json) list \<times> string) option" where
  "parse_value 0 s = None"
| "parse_value (Suc n) [] = None"
| "parse_value (Suc n) (c # s) =
     (if c = quote_char then map_option (\<lambda>(t, r). (JStr t, r)) (parse_string s)
      else if c = CHR ''['' then
        (case s of
           d # r \<Rightarrow> (if d = CHR '']'' then Some (JArr [], r)
                     else map_option (\<lambda>(vs, r). (JArr vs, r)) (parse_elements n s))
         | [] \<Rightarrow> None)
      else if c = CHR ''{'' then
        (case s of
           d # r \<Rightarrow> (if d = CHR ''}'' then Some (JObj [], r)
                     else map_option (\<lambda>(kvs, r). (JObj kvs, r)) (parse_members n s))
         | [] \<Rightarrow> None)
      else if c = CHR ''n'' then map_option (\<lambda>r. (JNull, r)) (strip ''ull'' s)
      else if c = CHR ''t'' then map_option (\<lambda>r. (JBool True, r)) (strip ''rue'' s)
      else if c = CHR ''f'' then map_option (\<lambda>r. (JBool False, r)) (strip ''alse'' s)
      else if c = CHR ''-'' then map_option (\<lambda>(m, r). (JInt (- int m), r)) (parse_nat s)
      else map_option (\<lambda>(m, r). (JInt (int m), r)) (parse_nat (c # s)))"
| "parse_elements 0 s = None"
| "parse_elements (Suc n) s =
     (case parse_value n s of
        Some (v, c # r) \<Rightarrow>
          (if c = CHR '','' then map_option (\<lambda>(vs, r). (v # vs, r)) (parse_elements n r)
           else if c = CHR '']'' then Some ([v], r) else None)
      | _ \<Rightarrow> None)"
| "parse_members 0 s = None"
| "parse_members (Suc n) [] = None"
| "parse_members (Suc n) (q # s) =
     (if q \<noteq> quote_char then None
      else case parse_string s of
        Some (k, d # r0) \<Rightarrow>
          (if d \<noteq> CHR '':'' then None
           else case parse_value n r0 of
             Some (v, c # r) \<Rightarrow>
               (if c = CHR '','' then map_option (\<lambda>(kvs, r). ((k, v) # kvs, r)) (parse_members n r)
                else if c = CHR ''}'' then Some ([(k, v)], r) else None)
           | _ \<Rightarrow> None)
      | _ \<Rightarrow> None)"

definition loads_canonical :: "string \<Rightarrow> json option" where
  "loads_canonical s =
     (case parse_value (Suc (length s)) s of
        Some (v, []) \<Rightarrow> if json_wf v then Some v else None
      | _ \<Rightarrow> None)"

section \<open>Round trip\<close>

lemma of_char_digit_char [simp]: "n < 10 \<Longrightarrow> (of_char (digit_char n) :: nat) = 48 + n"
  by (simp add: digit_char_def)

lemma is_digit_digit_char [simp]: "n < 10 \<Longrightarrow> is_digit (digit_char n)"
  by (simp add: is_digit_def)

lemma digit_value_digit_char [simp]: "n < 10 \<Longrightarrow> digit_value (digit_char n) = n"
  by (simp add: digit_value_def)

lemma dec_nat_digits: "list_all is_digit (dec_nat n)"
proof (induction n rule: dec_nat.induct)
  case (1 n)
  show ?case
  proof (cases "n < 10")
    case True
    then show ?thesis by (subst dec_nat.simps) simp
  next
    case False
    moreover have "n mod 10 < 10" by simp
    ultimately show ?thesis using 1 by (subst dec_nat.simps) simp
  qed
qed

lemma dec_nat_not_Nil [simp]: "dec_nat n \<noteq> []"
  by (subst dec_nat.simps) simp

lemma read_nat_snoc: "read_nat (ds @ [d]) = 10 * read_nat ds + digit_value d"
  by (simp add: read_nat_def)

lemma read_nat_dec_nat: "read_nat (dec_nat n) = n"
proof (induction n rule: dec_nat.induct)
  case (1 n)
  show ?case
  proof (cases "n < 10")
    case True
    then show ?thesis by (subst dec_nat.simps) (simp add: read_nat_def)
  next
    case False
    with 1 show ?thesis by (subst dec_nat.simps) (simp add: read_nat_snoc)
  qed
qed

text \<open>What may follow a number: nothing that extends it.\<close>

definition ends_number :: "string \<Rightarrow> bool" where
  "ends_number r = (case r of [] \<Rightarrow> True | c # _ \<Rightarrow> \<not> is_digit c)"

lemma parse_nat_dec_nat:
  assumes "ends_number r"
  shows "parse_nat (dec_nat n @ r) = Some (n, r)"
proof -
  have all: "\<And>c. c \<in> set (dec_nat n) \<Longrightarrow> is_digit c"
    using dec_nat_digits by (simp add: list_all_iff)
  have tail: "takeWhile is_digit r = []" "dropWhile is_digit r = r"
    using assms by (auto simp: ends_number_def split: list.splits)
  have "takeWhile is_digit (dec_nat n @ r) = dec_nat n"
    and "dropWhile is_digit (dec_nat n @ r) = r"
    using all tail by (simp_all add: takeWhile_append2 dropWhile_append2)
  then show ?thesis by (simp add: parse_nat_def Let_def read_nat_dec_nat)
qed

lemma hex_value_hex_char: "n < 16 \<Longrightarrow> hex_value (hex_char n) = n"
  by (simp add: hex_value_def hex_char_def is_digit_def)

lemma parse_string_escape_char:
  "parse_string (escape_char c @ s) = map_option (\<lambda>(t, r). (c # t, r)) (parse_string s)"
proof -
  have control: "(of_char c :: nat) div 16 < 16" if "(of_char c :: nat) < 32"
    using that by simp
  have "16 * ((of_char c :: nat) div 16) + of_char c mod 16 = of_char c"
    by presburger
  with control show ?thesis
    by (simp add: escape_char_def unescape_char_def hex_value_hex_char)
qed

lemma parse_string_quote: "parse_string (concat (map escape_char t) @ quote_char # r) = Some (t, r)"
  by (induction t) (simp_all add: parse_string_escape_char)

text \<open>Enough fuel for a value: one unit per nesting level and per element.\<close>

fun json_fuel :: "json \<Rightarrow> nat" where
  "json_fuel (JArr vs) = Suc (sum_list (map json_fuel vs) + length vs)"
| "json_fuel (JObj kvs) = Suc (sum_list (map (\<lambda>kv. json_fuel (snd kv)) kvs) + length kvs)"
| "json_fuel _ = 1"

definition member_text :: "string \<times> json \<Rightarrow> string" where
  "member_text kv = quote (fst kv) @ CHR '':'' # render (snd kv)"

lemma member_text_Pair: "member_text (k, v) @ r = quote_char # concat (map escape_char k) @ quote_char # CHR '':'' # render v @ r"
  by (simp add: member_text_def quote_def)

lemma render_JObj:
  "render (JObj kvs) = CHR ''{'' # join (CHR '','') (map member_text kvs) @ ''}''"
  by (simp add: member_text_def[abs_def])

lemma parse_elements_render:
  assumes "\<And>v n r. v \<in> set vs \<Longrightarrow> json_fuel v \<le> n \<Longrightarrow> ends_number r \<Longrightarrow>
      parse_value n (render v @ r) = Some (v, r)"
    and "vs \<noteq> []" and "sum_list (map json_fuel vs) + length vs \<le> n"
  shows "parse_elements n (join (CHR '','') (map render vs) @ CHR '']'' # r) = Some (vs, r)"
  using assms
proof (induction vs arbitrary: n)
  case Nil
  then show ?case by simp
next
  case (Cons v vs)
  from Cons.prems(3) obtain m where n: "n = Suc m" by (cases n) auto
  with Cons.prems(3) have m: "json_fuel v \<le> m" "sum_list (map json_fuel vs) + length vs \<le> m"
    by simp_all
  show ?case
  proof (cases "vs = []")
    case True
    have "parse_value m (render v @ CHR '']'' # r) = Some (v, CHR '']'' # r)"
      by (rule Cons.prems(1)) (simp_all add: m ends_number_def is_digit_def)
    with True n show ?thesis by simp
  next
    case False
    let ?rest = "join (CHR '','') (map render vs) @ CHR '']'' # r"
    have "parse_value m (render v @ CHR '','' # ?rest) = Some (v, CHR '','' # ?rest)"
      by (rule Cons.prems(1)) (simp_all add: m ends_number_def is_digit_def)
    moreover have "parse_elements m ?rest = Some (vs, r)"
      by (rule Cons.IH) (use Cons.prems(1) False m in auto)
    ultimately show ?thesis using n False by (simp add: join_Cons)
  qed
qed

lemma parse_members_render:
  assumes "\<And>kv n r. kv \<in> set kvs \<Longrightarrow> json_fuel (snd kv) \<le> n \<Longrightarrow> ends_number r \<Longrightarrow>
      parse_value n (render (snd kv) @ r) = Some (snd kv, r)"
    and "kvs \<noteq> []" and "sum_list (map (\<lambda>kv. json_fuel (snd kv)) kvs) + length kvs \<le> n"
  shows "parse_members n (join (CHR '','') (map member_text kvs) @ CHR ''}'' # r) = Some (kvs, r)"
  using assms
proof (induction kvs arbitrary: n)
  case Nil
  then show ?case by simp
next
  case (Cons kv kvs)
  obtain k v where kv: "kv = (k, v)" by fastforce
  from Cons.prems(3) obtain m where n: "n = Suc m" by (cases n) auto
  with Cons.prems(3) kv have m: "json_fuel v \<le> m"
    "sum_list (map (\<lambda>kv. json_fuel (snd kv)) kvs) + length kvs \<le> m"
    by simp_all
  have val: "ends_number t \<Longrightarrow> parse_value m (render v @ t) = Some (v, t)" for t
    using Cons.prems(1)[of kv m t] m(1) kv by simp
  show ?case
  proof (cases "kvs = []")
    case True
    then show ?thesis
      by (simp add: n kv member_text_Pair parse_string_quote val ends_number_def is_digit_def)
  next
    case False
    let ?rest = "join (CHR '','') (map member_text kvs) @ CHR ''}'' # r"
    have "parse_members m ?rest = Some (kvs, r)"
      by (rule Cons.IH) (use Cons.prems(1) False m in auto)
    with False show ?thesis
      by (simp add: n kv member_text_Pair parse_string_quote val ends_number_def
          is_digit_def join_Cons)
  qed
qed

lemma render_first: "\<exists>c s. render v = c # s \<and> c \<noteq> CHR '']''"
proof (cases v)
  case (JInt i)
  have "\<exists>c s. dec_nat n = c # s \<and> c \<noteq> CHR '']''" for n
    using dec_nat_digits[of n] by (cases "dec_nat n") (auto simp: is_digit_def)
  with JInt show ?thesis by (auto simp: dec_int_def)
qed (auto simp: quote_def)

lemma is_digit_not_special:
  "is_digit c \<Longrightarrow> c \<noteq> quote_char \<and> c \<noteq> CHR ''['' \<and> c \<noteq> CHR ''{'' \<and> c \<noteq> CHR ''n'' \<and> c \<noteq> CHR ''t''
     \<and> c \<noteq> CHR ''f'' \<and> c \<noteq> CHR ''-''"
  by (intro conjI notI) (simp_all add: is_digit_def)

lemma parse_number:
  assumes "ends_number r"
  shows "parse_value (Suc n) (dec_int i @ r) = Some (JInt i, r)"
proof (cases "i < 0")
  case True
  then show ?thesis by (simp add: dec_int_def parse_nat_dec_nat assms)
next
  case False
  obtain c s where cs: "dec_nat (nat i) = c # s" and c: "is_digit c"
    using dec_nat_digits[of "nat i"] by (cases "dec_nat (nat i)") auto
  from parse_nat_dec_nat[OF assms, of "nat i"] cs
  have "parse_nat (c # s @ r) = Some (nat i, r)" by simp
  with is_digit_not_special[OF c] cs False show ?thesis by (simp add: dec_int_def)
qed

lemma parse_render:
  "json_fuel v \<le> n \<Longrightarrow> ends_number r \<Longrightarrow> parse_value n (render v @ r) = Some (v, r)"
proof (induction v arbitrary: n r)
  case (JArr vs)
  from JArr.prems obtain m where n: "n = Suc m" and m: "sum_list (map json_fuel vs) + length vs \<le> m"
    by (cases n) auto
  show ?case
  proof (cases vs)
    case Nil
    with n show ?thesis by simp
  next
    case (Cons w ws)
    obtain c t where "join (CHR '','') (map render vs) = c # t" "c \<noteq> CHR '']''"
      using render_first[of w] by (cases ws) (auto simp: Cons join_Cons)
    with parse_elements_render[OF JArr.IH _ m, of r] show ?thesis by (simp add: n Cons)
  qed
next
  case (JObj kvs)
  from JObj.prems obtain m where n: "n = Suc m"
    and m: "sum_list (map (\<lambda>kv. json_fuel (snd kv)) kvs) + length kvs \<le> m"
    by (cases n) auto
  have IH: "kv \<in> set kvs \<Longrightarrow> json_fuel (snd kv) \<le> n \<Longrightarrow> ends_number r \<Longrightarrow>
      parse_value n (render (snd kv) @ r) = Some (snd kv, r)" for kv n r
    using JObj.IH[of kv "snd kv" n r] by (cases kv) simp
  show ?case
  proof (cases kvs)
    case Nil
    with n show ?thesis by simp
  next
    case (Cons w ws)
    obtain t where "join (CHR '','') (map member_text kvs) = quote_char # t"
      by (cases ws) (auto simp: Cons join_Cons member_text_def quote_def)
    with parse_members_render[OF IH _ m, of r] show ?thesis
      by (simp add: n Cons render_JObj del: render.simps)
  qed
next
  case (JInt i)
  then show ?case using parse_number[of r "n - 1" i] by (cases n) simp_all
next
  case (JStr s)
  then show ?case by (cases n) (simp_all add: quote_def parse_string_quote)
next
  case (JBool b)
  then show ?case by (cases n) simp_all
next
  case JNull
  then show ?case by (cases n) simp_all
qed

lemma length_join: "xs \<noteq> [] \<Longrightarrow> Suc (length (join c xs)) = sum_list (map length xs) + length xs"
  by (induction xs rule: join.induct) simp_all

lemma sum_list_map_le: "(\<And>x. x \<in> set xs \<Longrightarrow> f x \<le> g x) \<Longrightarrow> sum_list (map f xs) \<le> (sum_list (map g xs) :: nat)"
  by (rule sum_list_mono)

lemma json_fuel_le: "json_fuel v \<le> length (render v)"
proof (induction v)
  case (JArr vs)
  have "sum_list (map json_fuel vs) \<le> sum_list (map (\<lambda>v. length (render v)) vs)"
    by (rule sum_list_map_le) (rule JArr)
  with length_join[of "map render vs" "CHR '',''"] show ?case
    by (cases "vs = []") (simp_all add: comp_def)
next
  case (JObj kvs)
  have "sum_list (map (\<lambda>kv. json_fuel (snd kv)) kvs) \<le> sum_list (map (\<lambda>kv. length (member_text kv)) kvs)"
    by (rule sum_list_map_le) (use JObj in \<open>auto simp: member_text_def intro!: le_SucI trans_le_add2\<close>)
  with length_join[of "map member_text kvs" "CHR '',''"] show ?case
    by (cases "kvs = []") (simp_all add: comp_def render_JObj del: render.simps)
next
  case (JInt i)
  have "1 \<le> length (dec_nat n)" for n by (cases "dec_nat n") (use dec_nat_not_Nil[of n] in auto)
  then show ?case by (simp add: dec_int_def)
qed (simp_all add: quote_def)

lemma parse_text: "parse_value (Suc (length (render v))) (render v) = Some (v, [])"
  using parse_render[of v "Suc (length (render v))" "[]"] json_fuel_le[of v]
  by (simp add: ends_number_def)

lemma render_inject: "render v = render w \<longleftrightarrow> v = w"
  by (metis parse_text option.inject prod.inject)

lemma canonical_json_bytes_inject: "canonical_json_bytes a = canonical_json_bytes b \<longleftrightarrow> json_eq a b"
  by (simp add: canonical_json_bytes_def json_eq_def render_inject)

lemma map_fst_canon: "map fst (map (\<lambda>kv. (fst kv, canon_form (snd kv))) kvs) = map fst kvs"
  by (simp add: comp_def)

lemma json_wf_canon_form [simp]: "json_wf (canon_form v) = json_wf v"
proof (induction v)
  case (JObj kvs)
  have "distinct (map fst (sort_key fst (map (\<lambda>kv. (fst kv, canon_form (snd kv))) kvs)))
      = distinct (map fst kvs)"
    by (simp only: distinct_map_sort_key map_fst_canon)
  moreover have "json_wf (canon_form (snd kv)) = json_wf (snd kv)" if "kv \<in> set kvs" for kv
    using JObj[of kv "snd kv"] that by (cases kv) simp
  ultimately show ?case by simp
qed simp_all

lemma loads_canonical_bytes:
  "json_wf v \<Longrightarrow> loads_canonical (canonical_json_bytes v) = Some (canon_form v)"
  by (simp add: loads_canonical_def canonical_json_bytes_def parse_text)

text \<open>Objects with the same items in any order are the same value.\<close>

lemma json_eq_permutation:
  assumes "mset kvs = mset kvs'" and "distinct (map fst kvs)"
  shows "json_eq (JObj kvs) (JObj kvs')"
  unfolding json_eq_def canon_form.simps
proof (intro arg_cong[of _ _ JObj] sort_key_permutation)
  show "mset (map (\<lambda>kv. (fst kv, canon_form (snd kv))) kvs) =
      mset (map (\<lambda>kv. (fst kv, canon_form (snd kv))) kvs')"
    using assms(1) by simp
  show "distinct (map fst (map (\<lambda>kv. (fst kv, canon_form (snd kv))) kvs))"
    using assms(2) by (simp only: map_fst_canon)
qed

lemma json_eq_refl [simp]: "json_eq a a"
  by (simp add: json_eq_def)

lemma json_eq_JStr [simp]: "json_eq (JStr a) (JStr b) \<longleftrightarrow> a = b"
  by (simp add: json_eq_def)

lemma json_eq_JArr: "json_eq (JArr as) (JArr bs) \<longleftrightarrow> map canon_form as = map canon_form bs"
  by (simp add: json_eq_def)

lemma json_eq_JInt [simp]: "json_eq (JInt a) (JInt b) \<longleftrightarrow> a = b"
  by (simp add: json_eq_def)

lemma same_keys_same_items:
  "map fst xs = map fst ys \<Longrightarrow> distinct (map fst xs) \<Longrightarrow> set xs = set ys \<Longrightarrow> xs = ys"
proof (induction xs arbitrary: ys)
  case Nil
  then show ?case by simp
next
  case (Cons x xs)
  obtain y zs where ys: "ys = y # zs" using Cons.prems(1) by (cases ys) auto
  from Cons.prems(1) ys have k: "fst x = fst y" "map fst xs = map fst zs" by simp_all
  have nx: "fst x \<notin> fst ` set xs" using Cons.prems(2) by simp
  with k(2) have "fst x \<notin> fst ` set zs" by (metis list.set_map)
  note ne = nx this k(1)
  have "x \<in> insert y (set zs)" using Cons.prems(3) ys by auto
  with ne(2) have xy: "x = y" by auto
  have "set xs = set zs"
  proof -
    have "x \<notin> set xs" "y \<notin> set zs" using ne xy by auto
    with Cons.prems(3) ys xy show ?thesis by auto
  qed
  with Cons ys xy show ?case by simp
qed

lemma json_eq_same_keys:
  assumes keys: "map fst kvs = map fst kvs'" and d: "distinct (map fst kvs)"
  shows "json_eq (JObj kvs) (JObj kvs') \<longleftrightarrow>
    list_all2 (\<lambda>a b. json_eq (snd a) (snd b)) kvs kvs'"
proof -
  define c :: "string \<times> json \<Rightarrow> string \<times> json" where "c = (\<lambda>kv. (fst kv, canon_form (snd kv)))"
  have cf: "map fst (map c xs) = map fst xs" for xs by (simp add: c_def comp_def)
  have "json_eq (JObj kvs) (JObj kvs') \<longleftrightarrow> sort_key fst (map c kvs) = sort_key fst (map c kvs')"
    by (simp add: json_eq_def c_def)
  also have "\<dots> \<longleftrightarrow> map c kvs = map c kvs'"
  proof
    assume "sort_key fst (map c kvs) = sort_key fst (map c kvs')"
    then have "set (map c kvs) = set (map c kvs')" by (metis set_sort)
    then show "map c kvs = map c kvs'"
      by (intro same_keys_same_items) (simp_all only: cf keys d[unfolded keys])
  qed simp
  also have "\<dots> \<longleftrightarrow> list_all2 (\<lambda>a b. json_eq (snd a) (snd b)) kvs kvs'"
  proof -
    have len: "length kvs = length kvs'" using keys by (rule map_eq_imp_length_eq)
    have "fst (kvs ! i) = fst (kvs' ! i)" if "i < length kvs" for i
      using keys that len by (metis nth_map)
    then have "c (kvs ! i) = c (kvs' ! i) \<longleftrightarrow> json_eq (snd (kvs ! i)) (snd (kvs' ! i))"
      if "i < length kvs" for i
      using that by (simp add: c_def json_eq_def)
    with len show ?thesis by (simp add: list_eq_iff_nth_eq list_all2_conv_all_nth)
  qed
  finally show ?thesis .
qed

section \<open>Digests\<close>

lemma sha256_json_cong: "json_eq a b \<Longrightarrow> sha256_json sha a = sha256_json sha b"
  by (simp add: sha256_json_def canonical_json_bytes_inject[THEN iffD2])

text \<open>
  Two payloads with the same digest are the same value, provided the hash does not collide
  on their two texts.
\<close>

definition no_collision :: "(string \<Rightarrow> string) \<Rightarrow> json \<Rightarrow> json \<Rightarrow> bool" where
  "no_collision sha a b =
     (sha (canonical_json_bytes a) = sha (canonical_json_bytes b)
        \<longrightarrow> canonical_json_bytes a = canonical_json_bytes b)"

lemma sha256_json_inject:
  "no_collision sha a b \<Longrightarrow> sha256_json sha a = sha256_json sha b \<longleftrightarrow> json_eq a b"
  using canonical_json_bytes_inject[of a b] by (auto simp: no_collision_def sha256_json_def)

text \<open>\<open>re.compile("^sha256:[0-9a-f]{64}$").search\<close>: \<open>$\<close> also matches before a final newline.\<close>

definition chomp :: "string \<Rightarrow> string" where
  "chomp s = (if s \<noteq> [] \<and> last s = CHR 0x0A then butlast s else s)"

definition is_hex_text :: "nat \<Rightarrow> string \<Rightarrow> bool" where
  "is_hex_text n s = (length s = n \<and> list_all is_hex s)"

definition has_prefix :: "string \<Rightarrow> string \<Rightarrow> bool" where
  "has_prefix p s = (take (length p) s = p)"

definition is_digest :: "string \<Rightarrow> bool" where
  "is_digest s = (has_prefix ''sha256:'' s \<and> is_hex_text 64 (drop 7 (chomp s)))"

definition is_stable_id :: "string \<Rightarrow> string \<Rightarrow> bool" where
  "is_stable_id prefix s =
     (has_prefix (prefix @ '':'') s \<and> is_hex_text 24 (drop (Suc (length prefix)) (chomp s)))"

lemma chomp_hex: "is_hex_text n t \<Longrightarrow> 0 < n \<Longrightarrow> chomp (p @ t) = p @ t"
proof -
  assume t: "is_hex_text n t" and n: "0 < n"
  then have ne: "t \<noteq> []" by (auto simp: is_hex_text_def)
  then have "last t \<in> set t" by (rule last_in_set)
  moreover from t have "\<forall>c\<in>set t. is_hex c" by (simp add: is_hex_text_def list_all_iff)
  moreover have "\<not> is_hex (CHR 0x0A)" by (simp add: is_hex_def)
  ultimately have "last t \<noteq> CHR 0x0A" by metis
  with ne show ?thesis by (simp add: chomp_def)
qed

lemma hex_digest_text: "hex_digest sha \<Longrightarrow> is_hex_text 64 (sha t)"
  by (simp add: hex_digest_def is_hex_text_def)

lemma is_digest_sha256_json:
  assumes "hex_digest sha"
  shows "is_digest (sha256_json sha v)"
proof -
  from assms have t: "is_hex_text 64 (sha (canonical_json_bytes v))" by (rule hex_digest_text)
  then show ?thesis using chomp_hex[OF t, of "''sha256:''"]
    by (simp add: is_digest_def has_prefix_def sha256_json_def)
qed

lemma is_stable_id_stable_id:
  assumes "hex_digest sha"
  shows "is_stable_id prefix (stable_id sha prefix v)"
proof -
  let ?t = "take 24 (sha (canonical_json_bytes v))"
  from hex_digest_text[OF assms] have t: "is_hex_text 24 ?t"
    by (auto simp: is_hex_text_def list_all_iff dest: in_set_takeD)
  then show ?thesis using chomp_hex[OF t, of "prefix @ '':''"]
    by (simp add: is_stable_id_def has_prefix_def stable_id_def)
qed

end
