(* ===== verification/Harness_Time.thy ===== *)
theory Harness_Time
  imports Canonical_Json "HOL-Library.Monad_Syntax"
begin

text \<open>
  \<open>parse_rfc3339\<close> of \<open>controlled_inputs.py\<close>: the regular expression, the range checks of
  \<open>datetime.fromisoformat\<close> (Python 3.12), and the instant the aware \<open>datetime\<close> denotes, in
  microseconds since the proleptic Gregorian epoch of \<open>date.toordinal\<close>. The callers only
  compare instants.
\<close>

type_synonym instant = int

definition read_int :: "string \<Rightarrow> int" where
  "read_int ds = foldl (\<lambda>n d. 10 * n + int (digit_value d)) 0 ds"

definition read_digits :: "nat \<Rightarrow> string \<Rightarrow> (int \<times> string) option" where
  "read_digits n s =
     (if n \<le> length s \<and> list_all is_digit (take n s)
      then Some (read_int (take n s), drop n s) else None)"

definition expect :: "char \<Rightarrow> string \<Rightarrow> string option" where
  "expect c s = (case s of [] \<Rightarrow> None | d # r \<Rightarrow> if d = c then Some r else None)"

text \<open>\<open>(?:\.\d+)?\<close>, as microseconds: the first six digits, padded on the right.\<close>

definition read_fraction :: "string \<Rightarrow> (int \<times> string) option" where
  "read_fraction s =
     (case s of
        c # r \<Rightarrow>
          if c = CHR ''.'' then
            (let ds = takeWhile is_digit r in
             if ds = [] then None
             else Some (read_int (take 6 (ds @ ''000000'')), dropWhile is_digit r))
          else Some (0, s)
      | [] \<Rightarrow> Some (0, s))"

text \<open>\<open>Z\<close> or a signed offset, in minutes; nothing may follow.\<close>

definition read_offset :: "string \<Rightarrow> int option" where
  "read_offset s =
     (if s = ''Z'' then Some 0
      else case s of
        [] \<Rightarrow> None
      | c # r \<Rightarrow>
          if c \<noteq> CHR ''+'' \<and> c \<noteq> CHR ''-'' then None
          else do {
            (h, r) \<leftarrow> read_digits 2 r;
            r \<leftarrow> expect (CHR '':'') r;
            (m, r) \<leftarrow> read_digits 2 r;
            if h \<le> 23 \<and> m \<le> 59 \<and> r = []
            then Some ((if c = CHR ''-'' then - 1 else 1) * (60 * h + m))
            else None
          })"

definition leap_year :: "int \<Rightarrow> bool" where
  "leap_year y = (4 dvd y \<and> (\<not> 100 dvd y \<or> 400 dvd y))"

definition month_lengths :: "int \<Rightarrow> int list" where
  "month_lengths y = [31, if leap_year y then 29 else 28, 31, 30, 31, 30, 31, 31, 30, 31, 30, 31]"

definition valid_date :: "int \<Rightarrow> int \<Rightarrow> int \<Rightarrow> bool" where
  "valid_date y m d =
     (1 \<le> y \<and> 1 \<le> m \<and> m \<le> 12 \<and> 1 \<le> d \<and> d \<le> month_lengths y ! nat (m - 1))"

definition ordinal :: "int \<Rightarrow> int \<Rightarrow> int \<Rightarrow> int" where
  "ordinal y m d =
     365 * (y - 1) + (y - 1) div 4 - (y - 1) div 100 + (y - 1) div 400
       + sum_list (take (nat (m - 1)) (month_lengths y)) + d"

definition parse_timestamp :: "string \<Rightarrow> instant option" where
  "parse_timestamp s = do {
     (y, r) \<leftarrow> read_digits 4 s;
     r \<leftarrow> expect (CHR ''-'') r;
     (mo, r) \<leftarrow> read_digits 2 r;
     r \<leftarrow> expect (CHR ''-'') r;
     (d, r) \<leftarrow> read_digits 2 r;
     r \<leftarrow> expect (CHR ''T'') r;
     (h, r) \<leftarrow> read_digits 2 r;
     r \<leftarrow> expect (CHR '':'') r;
     (mi, r) \<leftarrow> read_digits 2 r;
     r \<leftarrow> expect (CHR '':'') r;
     (sec, r) \<leftarrow> read_digits 2 r;
     (us, r) \<leftarrow> read_fraction r;
     off \<leftarrow> read_offset r;
     if valid_date y mo d \<and> h \<le> 23 \<and> mi \<le> 59 \<and> sec \<le> 59
     then Some ((((ordinal y mo d * 24 + h) * 60 + mi - off) * 60 + sec) * 1000000 + us)
     else None
   }"

definition parse_rfc3339 :: "string \<Rightarrow> instant result" where
  "parse_rfc3339 value =
     (case parse_timestamp value of
        None \<Rightarrow> Inl (Planning_Error ''TIMESTAMP_INVALID'')
      | Some t \<Rightarrow> Inr t)"

lemma parse_rfc3339_error:
  "parse_rfc3339 v = Inl e \<Longrightarrow> e = Planning_Error ''TIMESTAMP_INVALID''"
  by (auto simp: parse_rfc3339_def split: option.splits)

lemmas time_simps = parse_rfc3339_def parse_timestamp_def read_digits_def read_fraction_def
  read_offset_def expect_def is_digit_def read_int_def digit_value_def valid_date_def
  month_lengths_def leap_year_def ordinal_def Let_def

lemma parse_rfc3339_examples:
  "parse_rfc3339 ''2026-08-13T12:00:00Z'' = parse_rfc3339 ''2026-08-13T14:30:00.000+02:30''"
  "parse_rfc3339 ''2026-08-13T12:00:00+23:60'' = Inl (Planning_Error ''TIMESTAMP_INVALID'')"
  "parse_rfc3339 ''2026-02-29T12:00:00Z'' = Inl (Planning_Error ''TIMESTAMP_INVALID'')"
  by (simp_all add: time_simps)

end
