(* ===== verification/Harness_Paths.thy ===== *)
theory Harness_Paths
  imports Harness_Prelude
begin

text \<open>
  \<open>paths.py\<close>: \<open>PurePosixPath\<close> as the standard library parses it, the repository's notion
  of a safe relative path, and the two root-anchored resolvers. The file system enters the
  resolvers as parameters (\<open>resolve\<close>, \<open>is_symlink\<close>, \<open>exists\<close> on component lists).
\<close>

section \<open>Pure paths\<close>

fun split_on :: "char \<Rightarrow> string \<Rightarrow> string list" where
  "split_on c [] = [[]]"
| "split_on c (x # xs) =
     (if x = c then [] # split_on c xs
      else (case split_on c xs of [] \<Rightarrow> [[x]] | p # ps \<Rightarrow> (x # p) # ps))"

abbreviation slash :: char where "slash \<equiv> CHR ''/''"

text \<open>\<open>posixpath.splitroot\<close>: exactly two leading slashes are a root of their own.\<close>

definition path_root :: "string \<Rightarrow> string" where
  "path_root s =
     (case s of
        [] \<Rightarrow> []
      | c # r \<Rightarrow>
          if c \<noteq> slash then []
          else (case r of
                  d # r' \<Rightarrow> if d = slash \<and> (r' = [] \<or> hd r' \<noteq> slash) then ''//'' else ''/''
                | [] \<Rightarrow> ''/''))"

text \<open>The components after the root; empty and \<open>.\<close> components are dropped.\<close>

definition path_names :: "string \<Rightarrow> string list" where
  "path_names s = filter (\<lambda>p. p \<noteq> [] \<and> p \<noteq> ''.'') (split_on slash s)"

definition path_parts :: "string \<Rightarrow> string list" where
  "path_parts s = (if path_root s = [] then [] else [path_root s]) @ path_names s"

definition is_absolute :: "string \<Rightarrow> bool" where
  "is_absolute s = (path_root s \<noteq> [])"

text \<open>\<open>PurePosixPath(s).as_posix()\<close>.\<close>

definition path_str :: "string \<Rightarrow> string list \<Rightarrow> string" where
  "path_str root names = (if root = [] \<and> names = [] then ''.'' else root @ join slash names)"

definition as_posix :: "string \<Rightarrow> string" where
  "as_posix s = path_str (path_root s) (path_names s)"

section \<open>Safe relative paths\<close>

text \<open>The path is returned as its list of components.\<close>

definition safe_relative_path :: "string \<Rightarrow> string list result" where
  "safe_relative_path value =
     (if value = [] \<or> is_absolute value
         \<or> list_ex (\<lambda>part. part \<in> {[], ''.'', ''..''}) (path_parts value)
      then Inl Path_Boundary_Error
      else Inr (path_parts value))"

text \<open>\<open>safe_relative_path(value).as_posix()\<close>.\<close>

definition safe_posix :: "string \<Rightarrow> string result" where
  "safe_posix value = bindE (safe_relative_path value) (\<lambda>parts. Inr (path_str [] parts))"

definition resolve_within ::
    "(bool \<Rightarrow> string list \<Rightarrow> string list result) \<Rightarrow> string list \<Rightarrow> string \<Rightarrow> bool \<Rightarrow> string list result" where
  "resolve_within resolve root relative must_exist =
     bindE (resolve False root) (\<lambda>base.
     bindE (safe_relative_path relative) (\<lambda>rel.
     bindE (resolve must_exist (base @ rel)) (\<lambda>candidate.
       if take (length base) candidate \<noteq> base then Inl Path_Boundary_Error
       else Inr candidate)))"

fun walk_without_symlinks :: "(string list \<Rightarrow> bool) \<Rightarrow> string list \<Rightarrow> string list \<Rightarrow> string list result" where
  "walk_without_symlinks is_symlink current [] = Inr current"
| "walk_without_symlinks is_symlink current (part # parts) =
     (if is_symlink (current @ [part]) then Inl Path_Boundary_Error
      else walk_without_symlinks is_symlink (current @ [part]) parts)"

definition resolve_without_symlinks ::
    "(string list \<Rightarrow> bool) \<Rightarrow> (string list \<Rightarrow> bool) \<Rightarrow> string list \<Rightarrow> string \<Rightarrow> bool \<Rightarrow> string list result" where
  "resolve_without_symlinks is_symlink exists base relative must_exist =
     bindE (safe_relative_path relative) (\<lambda>rel.
     bindE (walk_without_symlinks is_symlink base rel) (\<lambda>current.
       if must_exist \<and> \<not> exists current then Inl File_Not_Found else Inr current))"

text \<open>
  \<open>_contains_path\<close> of \<open>controlled_planner.py\<close>: the components of \<open>prefix\<close> start those of
  \<open>path\<close>.
\<close>

definition contains_path :: "string \<Rightarrow> string \<Rightarrow> bool" where
  "contains_path prefix path =
     (let prefix_parts = path_parts prefix; parts = path_parts path
      in take (length prefix_parts) parts = prefix_parts)"

section \<open>Laws\<close>

lemma contains_path_refl [simp]: "contains_path p p"
  by (simp add: contains_path_def)

lemma contains_path_iff: "contains_path p q \<longleftrightarrow> (\<exists>r. path_parts q = path_parts p @ r)"
proof
  assume "contains_path p q"
  then have "take (length (path_parts p)) (path_parts q) = path_parts p"
    by (simp add: contains_path_def Let_def)
  then have "path_parts q = path_parts p @ drop (length (path_parts p)) (path_parts q)"
    by (metis append_take_drop_id)
  then show "\<exists>r. path_parts q = path_parts p @ r" ..
qed (auto simp: contains_path_def Let_def)

lemma contains_path_trans: "contains_path p q \<Longrightarrow> contains_path q r \<Longrightarrow> contains_path p r"
  by (auto simp: contains_path_iff)

text \<open>The current directory is a path of no components: it contains every path.\<close>

lemma contains_path_dot: "contains_path ''.'' p"
  by (simp add: contains_path_iff path_parts_def path_root_def path_names_def)

definition safe_component :: "string \<Rightarrow> bool" where
  "safe_component p = (p \<noteq> [] \<and> p \<noteq> ''.'' \<and> p \<noteq> ''..'' \<and> slash \<notin> set p)"

lemma split_on_not_Nil [simp]: "split_on c s \<noteq> []"
  by (induction s) (auto split: list.splits)

lemma split_on_no_sep: "p \<in> set (split_on c s) \<Longrightarrow> c \<notin> set p"
  by (induction s arbitrary: p) (auto split: list.splits if_splits)

lemma split_on_single: "c \<notin> set p \<Longrightarrow> split_on c p = [p]"
  by (induction p) auto

lemma split_on_append: "c \<notin> set p \<Longrightarrow> split_on c (p @ c # s) = p # split_on c s"
  by (induction p) auto

lemma split_on_join: "ps \<noteq> [] \<Longrightarrow> (\<And>p. p \<in> set ps \<Longrightarrow> c \<notin> set p) \<Longrightarrow> split_on c (join c ps) = ps"
  by (induction c ps rule: join.induct) (auto simp: split_on_single split_on_append)

lemma path_names_components:
  "p \<in> set (path_names s) \<Longrightarrow> p \<noteq> [] \<and> p \<noteq> ''.'' \<and> slash \<notin> set p"
  by (auto simp: path_names_def dest: split_on_no_sep)

lemma safe_relative_path_eq_Inr:
  "safe_relative_path v = Inr ps \<longleftrightarrow>
     v \<noteq> [] \<and> path_root v = [] \<and> ps = path_names v \<and> ''..'' \<notin> set (path_names v)"
  by (auto simp: safe_relative_path_def is_absolute_def path_parts_def list_ex_iff
      dest: path_names_components)

lemma safe_relative_path_components:
  "safe_relative_path v = Inr ps \<Longrightarrow> p \<in> set ps \<Longrightarrow> safe_component p"
  by (auto simp: safe_relative_path_eq_Inr safe_component_def dest: path_names_components)

lemma safe_component_head:
  assumes "ps \<noteq> []" and "\<And>p. p \<in> set ps \<Longrightarrow> safe_component p"
  shows "\<exists>c r. join slash ps = c # r \<and> c \<noteq> slash"
proof -
  obtain p qs where ps: "ps = p # qs" using assms(1) by (cases ps) auto
  with assms(2)[of p] obtain c r where "p = c # r" "c \<noteq> slash"
    by (cases p) (auto simp: safe_component_def)
  with ps show ?thesis by (cases qs) auto
qed

lemma path_names_join:
  assumes "ps \<noteq> []" and "\<And>p. p \<in> set ps \<Longrightarrow> safe_component p"
  shows "path_names (join slash ps) = ps" "path_root (join slash ps) = []" "join slash ps \<noteq> []"
proof -
  have "filter (\<lambda>p. p \<noteq> [] \<and> p \<noteq> ''.'') ps = ps"
    using assms(2) by (auto simp: filter_id_conv safe_component_def)
  with assms show "path_names (join slash ps) = ps"
    by (auto simp: path_names_def split_on_join safe_component_def)
  show "path_root (join slash ps) = []" "join slash ps \<noteq> []"
    using safe_component_head[OF assms] by (auto simp: path_root_def)
qed

text \<open>A list of safe components is what its own text parses to.\<close>

lemma safe_relative_path_path_str:
  assumes "\<And>p. p \<in> set ps \<Longrightarrow> safe_component p"
  shows "safe_relative_path (path_str [] ps) = Inr ps"
proof (cases "ps = []")
  case True
  then show ?thesis
    by (simp add: path_str_def safe_relative_path_eq_Inr path_root_def path_names_def)
next
  case False
  from False path_names_join[OF False assms] assms show ?thesis
    by (auto simp: path_str_def safe_relative_path_eq_Inr safe_component_def)
qed

lemma safe_posix_eq_Inr:
  "safe_posix v = Inr w \<longleftrightarrow> (\<exists>ps. safe_relative_path v = Inr ps \<and> w = path_str [] ps)"
  by (auto simp: safe_posix_def result_simps)

lemma safe_posix_idem: "safe_posix v = Inr w \<Longrightarrow> safe_posix w = Inr w"
  using safe_relative_path_path_str safe_relative_path_components
  by (fastforce simp: safe_posix_eq_Inr)

lemma safe_posix_parts:
  assumes "safe_posix v = Inr w"
  shows "path_parts w = path_names v" "path_root w = []"
proof -
  obtain ps where ps: "safe_relative_path v = Inr ps" and w: "w = path_str [] ps"
    using assms by (auto simp: safe_posix_eq_Inr)
  have "safe_relative_path w = Inr ps"
    unfolding w by (rule safe_relative_path_path_str) (rule safe_relative_path_components[OF ps])
  with ps show "path_parts w = path_names v" "path_root w = []"
    by (auto simp: safe_relative_path_eq_Inr path_parts_def)
qed

lemma walk_without_symlinks_eq_Inr:
  "walk_without_symlinks is_symlink cur parts = Inr r \<longleftrightarrow>
     r = cur @ parts \<and> (\<forall>n. 0 < n \<and> n \<le> length parts \<longrightarrow> \<not> is_symlink (cur @ take n parts))"
proof (induction parts arbitrary: cur)
  case (Cons p ps)
  have "(\<forall>n. 0 < n \<and> n \<le> length (p # ps) \<longrightarrow> \<not> is_symlink (cur @ take n (p # ps)))
      \<longleftrightarrow> \<not> is_symlink (cur @ [p]) \<and>
         (\<forall>n. 0 < n \<and> n \<le> length ps \<longrightarrow> \<not> is_symlink (cur @ p # take n ps))" (is "?l \<longleftrightarrow> ?r")
  proof
    assume l: ?l
    from l[rule_format, of 1] have "\<not> is_symlink (cur @ [p])" by simp
    moreover have "\<not> is_symlink (cur @ p # take n ps)" if "0 < n" "n \<le> length ps" for n
      using l[rule_format, of "Suc n"] that by simp
    ultimately show ?r by blast
  next
    assume r: ?r
    show ?l
    proof (intro allI impI)
      fix n assume n: "0 < n \<and> n \<le> length (p # ps)"
      show "\<not> is_symlink (cur @ take n (p # ps))"
        by (cases "n = 1") (use r n in \<open>auto simp: take_Cons'\<close>)
    qed
  qed
  with Cons show ?case by auto
qed auto

end
