(* ===== verification/Planning_Data.thy ===== *)
theory Planning_Data
  imports Harness_Time Harness_Paths
begin

text \<open>
  The data of controlled planning: slice descriptors, authorization envelopes, authority
  snapshots and planning requests, as the JSON schemas under \<open>core/schemas\<close> shape them,
  with their JSON encodings and the schemas' constraints as boolean functions. A schema field
  fixed to a constant that no code reads (\<open>schemaVersion\<close>, \<open>refreshPolicy\<close>) appears in the
  encodings only. \<open>uniqueItems\<close> is \<^const>\<open>distinct\<close>, \<open>minLength: 1\<close> is non-emptiness.
\<close>

section \<open>Schema vocabulary\<close>

definition id_head_char :: "char \<Rightarrow> bool" where
  "id_head_char c = (c \<in> set ''abcdefghijklmnopqrstuvwxyz0123456789'')"

definition id_char :: "char \<Rightarrow> bool" where
  "id_char c = (id_head_char c \<or> c \<in> set ''._:-'')"

text \<open>\<open>^[a-z0-9][a-z0-9._:-]*$\<close>\<close>

definition is_id :: "string \<Rightarrow> bool" where
  "is_id s = (case chomp s of [] \<Rightarrow> False | c # r \<Rightarrow> id_head_char c \<and> list_all id_char r)"

text \<open>\<open>^[0-9a-f]{40}([0-9a-f]{24})?$\<close>\<close>

definition is_commit :: "string \<Rightarrow> bool" where
  "is_commit s = (is_hex_text 40 (chomp s) \<or> is_hex_text 64 (chomp s))"

definition string_set :: "string list \<Rightarrow> bool" where
  "string_set xs = (list_all (\<lambda>s. s \<noteq> []) xs \<and> distinct xs)"

definition jstrs :: "string list \<Rightarrow> json" where
  "jstrs xs = JArr (map JStr xs)"

section \<open>Slice descriptors\<close>

record producer_consumer =
  producer :: string
  consumer :: string

definition producer_consumer_json :: "producer_consumer \<Rightarrow> json" where
  "producer_consumer_json r = JObj [(''producer'', JStr (producer r)), (''consumer'', JStr (consumer r))]"

definition producer_consumer_key :: "producer_consumer \<Rightarrow> string \<times> string" where
  "producer_consumer_key r = (producer r, consumer r)"

text \<open>The part of a descriptor that a conflict footprint repeats (\<open>_FOOTPRINT_FIELDS\<close>).\<close>

record slice_footprint =
  sliceId :: string
  ownerSet :: "string list"
  factFamilySet :: "string list"
  publicContractSet :: "string list"
  producerConsumerSet :: "producer_consumer list"
  bindingSet :: "string list"
  exactWriteSet :: "string list"
  ephemeralWriteSet :: "string list"
  sharedArtifactSet :: "string list"
  dependencySet :: "string list"
  migrationResourceSet :: "string list"
  authorityReferences :: "string list"

datatype slice_state =
    PROPOSED | READY | ADMITTED | ACTIVE | FIXED_CANDIDATE | REVIEW_GO
  | QUEUED_FOR_INTEGRATION | INTEGRATING | CLOSED | BLOCKED | NO_GO | STALE | CANCELLED

fun slice_state_str :: "slice_state \<Rightarrow> string" where
  "slice_state_str PROPOSED = ''PROPOSED''"
| "slice_state_str READY = ''READY''"
| "slice_state_str ADMITTED = ''ADMITTED''"
| "slice_state_str ACTIVE = ''ACTIVE''"
| "slice_state_str FIXED_CANDIDATE = ''FIXED_CANDIDATE''"
| "slice_state_str REVIEW_GO = ''REVIEW_GO''"
| "slice_state_str QUEUED_FOR_INTEGRATION = ''QUEUED_FOR_INTEGRATION''"
| "slice_state_str INTEGRATING = ''INTEGRATING''"
| "slice_state_str CLOSED = ''CLOSED''"
| "slice_state_str BLOCKED = ''BLOCKED''"
| "slice_state_str NO_GO = ''NO_GO''"
| "slice_state_str STALE = ''STALE''"
| "slice_state_str CANCELLED = ''CANCELLED''"

record review_policy =
  reviewerRole :: string
  minimumVerdict :: string

definition review_policy_json :: "review_policy \<Rightarrow> json" where
  "review_policy_json p =
     JObj [(''reviewerRole'', JStr (reviewerRole p)), (''minimumVerdict'', JStr (minimumVerdict p))]"

record slice_descriptor = slice_footprint +
  slice_state_of :: slice_state
  portfolioId :: string
  deliveryTrackId :: string
  sliceClass :: string
  priority :: int
  requiredGates :: "string list"
  reviewPolicy :: review_policy
  authorizationClass :: string
  descriptorDigest :: string

text \<open>The items of a footprint, in the order of \<open>_footprint\<close>.\<close>

definition footprint_items :: "'a slice_footprint_scheme \<Rightarrow> (string \<times> json) list" where
  "footprint_items f =
     [(''sliceId'', JStr (sliceId f)),
      (''ownerSet'', jstrs (ownerSet f)),
      (''factFamilySet'', jstrs (factFamilySet f)),
      (''publicContractSet'', jstrs (publicContractSet f)),
      (''producerConsumerSet'', JArr (map producer_consumer_json (producerConsumerSet f))),
      (''bindingSet'', jstrs (bindingSet f)),
      (''exactWriteSet'', jstrs (exactWriteSet f)),
      (''ephemeralWriteSet'', jstrs (ephemeralWriteSet f)),
      (''sharedArtifactSet'', jstrs (sharedArtifactSet f)),
      (''dependencySet'', jstrs (dependencySet f)),
      (''migrationResourceSet'', jstrs (migrationResourceSet f)),
      (''authorityReferences'', jstrs (authorityReferences f))]"

text \<open>A descriptor without its \<open>descriptorDigest\<close>, and with it.\<close>

definition descriptor_payload :: "slice_descriptor \<Rightarrow> (string \<times> json) list" where
  "descriptor_payload d =
     footprint_items d @
     [(''schemaVersion'', JStr ''controlled-slice-descriptor/v1''),
      (''state'', JStr (slice_state_str (slice_state_of d))),
      (''portfolioId'', JStr (portfolioId d)),
      (''deliveryTrackId'', JStr (deliveryTrackId d)),
      (''sliceClass'', JStr (sliceClass d)),
      (''priority'', JInt (priority d)),
      (''requiredGates'', jstrs (requiredGates d)),
      (''reviewPolicy'', review_policy_json (reviewPolicy d)),
      (''authorizationClass'', JStr (authorizationClass d))]"

definition descriptor_json :: "slice_descriptor \<Rightarrow> json" where
  "descriptor_json d = JObj (descriptor_payload d @ [(''descriptorDigest'', JStr (descriptorDigest d))])"

definition footprint_schema :: "'a slice_footprint_scheme \<Rightarrow> bool" where
  "footprint_schema f =
     (is_id (sliceId f)
      \<and> list_all string_set [ownerSet f, factFamilySet f, publicContractSet f, bindingSet f,
           exactWriteSet f, ephemeralWriteSet f, sharedArtifactSet f, dependencySet f,
           migrationResourceSet f, authorityReferences f]
      \<and> list_all (\<lambda>r. is_id (producer r) \<and> is_id (consumer r)) (producerConsumerSet f)
      \<and> distinct (producerConsumerSet f))"

text \<open>\<open>core/schemas/controlled-slice-descriptor.schema.json\<close>\<close>

definition descriptor_schema :: "slice_descriptor \<Rightarrow> bool" where
  "descriptor_schema d =
     (footprint_schema d
      \<and> is_id (portfolioId d) \<and> is_id (deliveryTrackId d) \<and> is_id (sliceClass d)
      \<and> 0 \<le> priority d
      \<and> string_set (requiredGates d)
      \<and> reviewerRole (reviewPolicy d) \<noteq> []
      \<and> minimumVerdict (reviewPolicy d) = ''GO_ZERO_FINDINGS''
      \<and> is_id (authorizationClass d)
      \<and> is_digest (descriptorDigest d))"

section \<open>Authorization envelopes\<close>

record authorization_envelope =
  envelopeId :: string
  issuerId :: string
  issuerAuthorityReference :: string
  issuerAuthorityDigest :: string
  env_projectId :: string
  env_portfolioId :: string
  permittedDeliveryTracks :: "string list"
  permittedSliceClasses :: "string list"
  permittedPathPrefixes :: "string list"
  permittedActionClasses :: "string list"
  maxParallelLanes :: int
  requiredTests :: "string list"
  env_requiredGates :: "string list"
  requiredReviewers :: "string list"
  minimumReviewVerdict :: string
  issuedAt :: string
  expiresAt :: string
  deniedActions :: "string list"
  stopConditions :: "string list"
  envelopeDigest :: string

definition envelope_payload :: "authorization_envelope \<Rightarrow> (string \<times> json) list" where
  "envelope_payload e =
     [(''schemaVersion'', JStr ''controlled-authorization-envelope/v1''),
      (''envelopeId'', JStr (envelopeId e)),
      (''issuerId'', JStr (issuerId e)),
      (''issuerAuthorityReference'', JStr (issuerAuthorityReference e)),
      (''issuerAuthorityDigest'', JStr (issuerAuthorityDigest e)),
      (''projectId'', JStr (env_projectId e)),
      (''portfolioId'', JStr (env_portfolioId e)),
      (''permittedDeliveryTracks'', jstrs (permittedDeliveryTracks e)),
      (''permittedSliceClasses'', jstrs (permittedSliceClasses e)),
      (''permittedPathPrefixes'', jstrs (permittedPathPrefixes e)),
      (''permittedActionClasses'', jstrs (permittedActionClasses e)),
      (''maxParallelLanes'', JInt (maxParallelLanes e)),
      (''requiredTests'', jstrs (requiredTests e)),
      (''requiredGates'', jstrs (env_requiredGates e)),
      (''requiredReviewers'', jstrs (requiredReviewers e)),
      (''minimumReviewVerdict'', JStr (minimumReviewVerdict e)),
      (''refreshPolicy'', JStr ''REVALIDATE_NO_SCOPE_WIDENING''),
      (''issuedAt'', JStr (issuedAt e)),
      (''expiresAt'', JStr (expiresAt e)),
      (''deniedActions'', jstrs (deniedActions e)),
      (''stopConditions'', jstrs (stopConditions e))]"

definition envelope_json :: "authorization_envelope \<Rightarrow> json" where
  "envelope_json e = JObj (envelope_payload e @ [(''envelopeDigest'', JStr (envelopeDigest e))])"

text \<open>\<open>core/schemas/controlled-authorization-envelope.schema.json\<close>\<close>

definition envelope_schema :: "authorization_envelope \<Rightarrow> bool" where
  "envelope_schema e =
     (is_id (envelopeId e) \<and> is_id (issuerId e) \<and> issuerAuthorityReference e \<noteq> []
      \<and> is_digest (issuerAuthorityDigest e)
      \<and> is_id (env_projectId e) \<and> is_id (env_portfolioId e)
      \<and> list_all string_set [permittedDeliveryTracks e, permittedSliceClasses e,
           permittedPathPrefixes e, permittedActionClasses e, requiredTests e,
           env_requiredGates e, requiredReviewers e, deniedActions e, stopConditions e]
      \<and> 1 \<le> maxParallelLanes e \<and> maxParallelLanes e \<le> 3
      \<and> minimumReviewVerdict e = ''GO_ZERO_FINDINGS''
      \<and> issuedAt e \<noteq> [] \<and> expiresAt e \<noteq> []
      \<and> is_digest (envelopeDigest e))"

section \<open>Authority snapshots\<close>

datatype revision_kind = GIT | CONTENT

datatype authority_set_status = CLEAN_FOR_AUTHORITY_SET | DIRTY_AUTHORITY_SET | CONTENT_SNAPSHOT

datatype gate = PASS | NO_GO_GATE

fun gate_str :: "gate \<Rightarrow> string" where
  "gate_str PASS = ''PASS''"
| "gate_str NO_GO_GATE = ''NO_GO''"

fun revision_kind_str :: "revision_kind \<Rightarrow> string" where
  "revision_kind_str GIT = ''GIT''"
| "revision_kind_str CONTENT = ''CONTENT''"

fun authority_set_status_str :: "authority_set_status \<Rightarrow> string" where
  "authority_set_status_str CLEAN_FOR_AUTHORITY_SET = ''CLEAN_FOR_AUTHORITY_SET''"
| "authority_set_status_str DIRTY_AUTHORITY_SET = ''DIRTY_AUTHORITY_SET''"
| "authority_set_status_str CONTENT_SNAPSHOT = ''CONTENT_SNAPSHOT''"

record source_revision =
  revision_kind_of :: revision_kind
  revision_head :: string
  revision_tree :: string
  authoritySetStatus :: authority_set_status
  authoritySetDigest :: string

record authority_record =
  authority_id :: string
  authority_path :: string
  authority_role :: string
  authority_sha256 :: string

type_synonym fact_object = "(string, json) dict"

record authority_snapshot =
  integrationId :: string
  snapshot_projectId :: string
  sourceRevision :: source_revision
  authorities :: "authority_record list"
  facts :: "(string, fact_object) dict"
  conflicts :: "json list"
  missingFacts :: "string list"
  excludedPaths :: "string list"
  snapshot_gate :: gate
  snapshotFingerprint :: string

definition authority_json :: "authority_record \<Rightarrow> json" where
  "authority_json a =
     JObj [(''id'', JStr (authority_id a)), (''path'', JStr (authority_path a)),
           (''role'', JStr (authority_role a)), (''sha256'', JStr (authority_sha256 a))]"

definition authorities_json :: "authority_record list \<Rightarrow> json" where
  "authorities_json as = JArr (map authority_json as)"

definition revision_json :: "source_revision \<Rightarrow> json" where
  "revision_json r =
     JObj [(''kind'', JStr (revision_kind_str (revision_kind_of r))),
           (''head'', JStr (revision_head r)), (''tree'', JStr (revision_tree r)),
           (''authoritySetStatus'', JStr (authority_set_status_str (authoritySetStatus r))),
           (''authoritySetDigest'', JStr (authoritySetDigest r))]"

definition snapshot_payload :: "authority_snapshot \<Rightarrow> (string \<times> json) list" where
  "snapshot_payload s =
     [(''schemaVersion'', JStr ''authority-snapshot/v1''),
      (''integrationId'', JStr (integrationId s)),
      (''projectId'', JStr (snapshot_projectId s)),
      (''sourceRevision'', revision_json (sourceRevision s)),
      (''authorities'', authorities_json (authorities s)),
      (''facts'', JObj (map (\<lambda>kv. (fst kv, JObj (snd kv))) (facts s))),
      (''conflicts'', JArr (conflicts s)),
      (''missingFacts'', jstrs (missingFacts s)),
      (''excludedPaths'', jstrs (excludedPaths s)),
      (''gate'', JStr (gate_str (snapshot_gate s)))]"

definition snapshot_json :: "authority_snapshot \<Rightarrow> json" where
  "snapshot_json s = JObj (snapshot_payload s @ [(''snapshotFingerprint'', JStr (snapshotFingerprint s))])"

fun is_object :: "json \<Rightarrow> bool" where
  "is_object (JObj _) = True"
| "is_object _ = False"

text \<open>\<open>core/schemas/authority-snapshot.schema.json\<close>\<close>

definition snapshot_schema :: "authority_snapshot \<Rightarrow> bool" where
  "snapshot_schema s =
     (integrationId s \<noteq> [] \<and> snapshot_projectId s \<noteq> []
      \<and> revision_head (sourceRevision s) \<noteq> [] \<and> revision_tree (sourceRevision s) \<noteq> []
      \<and> is_digest (authoritySetDigest (sourceRevision s))
      \<and> list_all (\<lambda>a. authority_id a \<noteq> [] \<and> authority_path a \<noteq> [] \<and> authority_role a \<noteq> []
                        \<and> is_hex_text 64 (chomp (authority_sha256 a))) (authorities s)
      \<and> list_all is_object (conflicts s)
      \<and> distinct (missingFacts s) \<and> distinct (excludedPaths s)
      \<and> is_digest (snapshotFingerprint s))"

section \<open>Planning requests\<close>

record planning_request =
  planningMode :: string
  request_projectId :: string
  batchBaseCommit :: string
  authoritySnapshot :: authority_snapshot
  contractRegistryDigest :: string
  dependencyGraphDigest :: string
  conflictPolicyVersion :: string
  harnessVersion :: string
  asOf :: string
  authorizationEnvelope :: authorization_envelope
  slices :: "slice_descriptor list"

text \<open>\<open>core/schemas/controlled-planning-request.schema.json\<close>\<close>

definition request_schema :: "planning_request \<Rightarrow> bool" where
  "request_schema r =
     (planningMode r = ''CONTROLLED_PARALLEL''
      \<and> is_id (request_projectId r)
      \<and> is_commit (batchBaseCommit r)
      \<and> snapshot_schema (authoritySnapshot r)
      \<and> is_digest (contractRegistryDigest r) \<and> is_digest (dependencyGraphDigest r)
      \<and> conflictPolicyVersion r = ''controlled-conflict-policy/v1''
      \<and> harnessVersion r = ''agent-evolution-harness/0.1.0''
      \<and> asOf r \<noteq> []
      \<and> envelope_schema (authorizationEnvelope r)
      \<and> slices r \<noteq> [] \<and> list_all descriptor_schema (slices r))"

end
