(* ===== verification/Planning_Inputs.thy ===== *)
theory Planning_Inputs
  imports Planning_Data
begin

text \<open>
  \<open>controlled_inputs.py\<close>: normalisation of slice descriptors and envelopes, the digests over
  the normal forms, and the validation of a planning request against its authority
  snapshot. \<open>sha\<close> is the hash; every function that raises returns a result value.
\<close>

section \<open>Normalisation\<close>

definition safe_path :: "string \<Rightarrow> string result" where
  "safe_path value =
     (case safe_posix value of
        Inl _ \<Rightarrow> Inl (Planning_Error ''UNSAFE_DECLARED_PATH'')
      | Inr p \<Rightarrow> Inr p)"

definition safe_path_set :: "string list \<Rightarrow> string list result" where
  "safe_path_set paths = bindE (mapE safe_path paths) (\<lambda>ps. Inr (sort ps))"

definition normalize_descriptor_fields :: "slice_descriptor \<Rightarrow> slice_descriptor result" where
  "normalize_descriptor_fields d =
     bindE (safe_path_set (exactWriteSet d)) (\<lambda>exact.
     bindE (safe_path_set (ephemeralWriteSet d)) (\<lambda>ephemeral.
     bindE (safe_path_set (authorityReferences d)) (\<lambda>references.
       Inr (d\<lparr>ownerSet := sort (ownerSet d),
              factFamilySet := sort (factFamilySet d),
              publicContractSet := sort (publicContractSet d),
              bindingSet := sort (bindingSet d),
              sharedArtifactSet := sort (sharedArtifactSet d),
              dependencySet := sort (dependencySet d),
              migrationResourceSet := sort (migrationResourceSet d),
              producerConsumerSet := sort_key producer_consumer_key (producerConsumerSet d),
              exactWriteSet := exact,
              ephemeralWriteSet := ephemeral,
              authorityReferences := references\<rparr>))))"

definition normalize_envelope_fields :: "authorization_envelope \<Rightarrow> authorization_envelope result" where
  "normalize_envelope_fields e =
     bindE (safe_path (issuerAuthorityReference e)) (\<lambda>issuer.
     bindE (safe_path_set (permittedPathPrefixes e)) (\<lambda>prefixes.
       Inr (e\<lparr>permittedDeliveryTracks := sort (permittedDeliveryTracks e),
              permittedSliceClasses := sort (permittedSliceClasses e),
              permittedActionClasses := sort (permittedActionClasses e),
              requiredTests := sort (requiredTests e),
              requiredReviewers := sort (requiredReviewers e),
              deniedActions := sort (deniedActions e),
              stopConditions := sort (stopConditions e),
              issuerAuthorityReference := issuer,
              permittedPathPrefixes := prefixes\<rparr>)))"

section \<open>Digests\<close>

definition descriptor_digest :: "(string \<Rightarrow> string) \<Rightarrow> slice_descriptor \<Rightarrow> string result" where
  "descriptor_digest sha d =
     bindE (normalize_descriptor_fields d) (\<lambda>payload.
       Inr (sha256_json sha (JObj (descriptor_payload payload))))"

definition exact_writeset_digest :: "(string \<Rightarrow> string) \<Rightarrow> 'a slice_footprint_scheme \<Rightarrow> string" where
  "exact_writeset_digest sha d = sha256_json sha (jstrs (sort (exactWriteSet d)))"

definition envelope_digest :: "(string \<Rightarrow> string) \<Rightarrow> authorization_envelope \<Rightarrow> string result" where
  "envelope_digest sha e =
     bindE (normalize_envelope_fields e) (\<lambda>payload.
       Inr (sha256_json sha (JObj (envelope_payload payload))))"

definition dependency_graph_digest :: "(string \<Rightarrow> string) \<Rightarrow> slice_descriptor list \<Rightarrow> string" where
  "dependency_graph_digest sha ds =
     sha256_json sha
       (JArr (map (\<lambda>d. JObj [(''sliceId'', JStr (sliceId d)),
                              (''dependsOn'', jstrs (sort (dependencySet d)))])
                  (sort_key sliceId ds)))"

definition normalize_slice_descriptor ::
    "(string \<Rightarrow> string) \<Rightarrow> slice_descriptor \<Rightarrow> slice_descriptor result" where
  "normalize_slice_descriptor sha value =
     bindE (raise_if (\<not> descriptor_schema value) (Schema_Error ''controlled-slice-descriptor'')) (\<lambda>_.
     bindE (normalize_descriptor_fields value) (\<lambda>normalized.
     bindE (raise_if (\<not> descriptor_schema normalized) (Schema_Error ''controlled-slice-descriptor'')) (\<lambda>_.
     bindE (descriptor_digest sha normalized) (\<lambda>digest.
     bindE (raise_if (digest \<noteq> descriptorDigest normalized) (Planning_Error ''DIGEST_MISMATCH'')) (\<lambda>_.
       Inr normalized)))))"

definition normalize_authorization_envelope ::
    "(string \<Rightarrow> string) \<Rightarrow> authorization_envelope \<Rightarrow> authorization_envelope result" where
  "normalize_authorization_envelope sha value =
     bindE (raise_if (\<not> envelope_schema value) (Schema_Error ''controlled-authorization-envelope'')) (\<lambda>_.
     bindE (normalize_envelope_fields value) (\<lambda>normalized.
     bindE (raise_if (\<not> envelope_schema normalized) (Schema_Error ''controlled-authorization-envelope'')) (\<lambda>_.
     bindE (envelope_digest sha normalized) (\<lambda>digest.
     bindE (raise_if (digest \<noteq> envelopeDigest normalized) (Planning_Error ''DIGEST_MISMATCH'')) (\<lambda>_.
       Inr normalized)))))"

section \<open>The authority snapshot\<close>

definition snapshot_fingerprint :: "(string \<Rightarrow> string) \<Rightarrow> authority_snapshot \<Rightarrow> string" where
  "snapshot_fingerprint sha s = sha256_json sha (JObj (snapshot_payload s))"

definition authority_set_digest :: "(string \<Rightarrow> string) \<Rightarrow> authority_snapshot \<Rightarrow> string" where
  "authority_set_digest sha s = sha256_json sha (authorities_json (authorities s))"

definition validate_snapshot ::
    "(string \<Rightarrow> string) \<Rightarrow> authority_snapshot \<Rightarrow> string \<Rightarrow> (string, authority_record) dict result" where
  "validate_snapshot sha s batch_base =
     bindE (raise_if (snapshotFingerprint s \<noteq> snapshot_fingerprint sha s)
              (Planning_Error ''AUTHORITY_SNAPSHOT_FINGERPRINT_MISMATCH'')) (\<lambda>_.
     bindE (raise_if (authoritySetDigest (sourceRevision s) \<noteq> authority_set_digest sha s)
              (Planning_Error ''AUTHORITY_SET_DIGEST_MISMATCH'')) (\<lambda>_.
     bindE (mapE (\<lambda>a. safe_path (authority_path a)) (authorities s)) (\<lambda>paths.
     bindE (raise_if (\<not> distinct (map authority_id (authorities s)) \<or> \<not> distinct paths)
              (Planning_Error ''AUTHORITY_RECORD_DUPLICATE'')) (\<lambda>_.
     bindE (raise_if (snapshot_gate s \<noteq> PASS \<or> conflicts s \<noteq> [] \<or> missingFacts s \<noteq> [])
              (Planning_Error ''AUTHORITY_SNAPSHOT_NO_GO'')) (\<lambda>_.
     bindE (raise_if (revision_kind_of (sourceRevision s) \<noteq> GIT
                       \<or> authoritySetStatus (sourceRevision s) \<noteq> CLEAN_FOR_AUTHORITY_SET)
              (Planning_Error ''AUTHORITY_SOURCE_NOT_CLEAN_GIT'')) (\<lambda>_.
     bindE (raise_if (revision_head (sourceRevision s) \<noteq> batch_base)
              (Planning_Error ''BATCH_BASE_MISMATCH'')) (\<lambda>_.
       Inr (dict_of (zip paths (authorities s))))))))))"

section \<open>Authority facts\<close>

text \<open>\<open>authorizes\<close>: the expected value itself, or a canonical JSON list that holds it.\<close>

definition authorizes :: "string \<Rightarrow> string \<Rightarrow> bool" where
  "authorizes normalized_value expected_value =
     (normalized_value = expected_value
      \<or> (case loads_canonical normalized_value of
           Some (JArr choices) \<Rightarrow>
             canonical_json_bytes (JArr choices) = normalized_value
             \<and> (let expected = (case loads_canonical expected_value of
                                   Some v \<Rightarrow> v | None \<Rightarrow> JStr expected_value)
                in list_ex (json_eq expected) choices)
         | _ \<Rightarrow> False))"

definition fact_ids :: "string list" where
  "fact_ids =
     [''controlled_planning.mode'',
      ''controlled_planning.contract_registry_digest'',
      ''controlled_planning.dependency_graph_digest'',
      ''controlled_planning.authorization_envelope_digest'',
      ''controlled_planning.slice_descriptor_digests'',
      ''controlled_planning.conflict_policy_version'']"

definition expected_facts ::
    "planning_request \<Rightarrow> slice_descriptor list \<Rightarrow> authorization_envelope \<Rightarrow> (string, string) dict" where
  "expected_facts r ds e =
     [(''controlled_planning.mode'', planningMode r),
      (''controlled_planning.contract_registry_digest'', contractRegistryDigest r),
      (''controlled_planning.dependency_graph_digest'', dependencyGraphDigest r),
      (''controlled_planning.authorization_envelope_digest'', envelopeDigest e),
      (''controlled_planning.slice_descriptor_digests'',
         canonical_json_bytes (jstrs (sort (map descriptorDigest ds)))),
      (''controlled_planning.conflict_policy_version'', conflictPolicyVersion r)]"

fun json_str :: "json option \<Rightarrow> string option" where
  "json_str (Some (JStr s)) = Some s"
| "json_str _ = None"

text \<open>One turn of the loop over \<open>_FACT_IDS\<close>: the (owner, path) pair the fact names.\<close>

definition check_fact ::
    "(string, fact_object) dict \<Rightarrow> (string, string) dict \<Rightarrow> string \<Rightarrow> (string \<times> string) result" where
  "check_fact fs expected fact_id =
     (case map_of fs fact_id of
        None \<Rightarrow> Inl (Planning_Error ''AUTHORITY_FACT_MISSING'')
      | Some fobj \<Rightarrow>
          (case json_str (map_of fobj ''sourcePath'') of
             None \<Rightarrow> Inl (Planning_Error ''AUTHORITY_FACT_MISMATCH'')
           | Some source_path \<Rightarrow>
               bindE (safe_path source_path) (\<lambda>canonical_source_path.
                 case (json_str (map_of fobj ''owner''), json_str (map_of fobj ''normalizedValue''),
                       map_of expected fact_id) of
                   (Some owner, Some value, Some expected_value) \<Rightarrow>
                     if authorizes value expected_value then Inr (owner, canonical_source_path)
                     else Inl (Planning_Error ''AUTHORITY_FACT_MISMATCH'')
                 | _ \<Rightarrow> Inl (Planning_Error ''AUTHORITY_FACT_MISMATCH''))))"

fun check_facts ::
    "(string, fact_object) dict \<Rightarrow> (string, string) dict \<Rightarrow> (string \<times> string) option \<Rightarrow> string list
      \<Rightarrow> (string \<times> string) option result" where
  "check_facts fs expected manifest [] = Inr manifest"
| "check_facts fs expected manifest (fact_id # ids) =
     bindE (check_fact fs expected fact_id) (\<lambda>current.
       case manifest of
         None \<Rightarrow> check_facts fs expected (Some current) ids
       | Some m \<Rightarrow>
           if current \<noteq> m then Inl (Planning_Error ''AUTHORITY_FACT_MISMATCH'')
           else check_facts fs expected manifest ids)"

definition validate_authority_facts ::
    "planning_request \<Rightarrow> slice_descriptor list \<Rightarrow> authorization_envelope
      \<Rightarrow> (string, authority_record) dict \<Rightarrow> unit result" where
  "validate_authority_facts r ds e by_path =
     bindE (check_facts (facts (authoritySnapshot r)) (expected_facts r ds e) None fact_ids) (\<lambda>identity.
       case identity of
         None \<Rightarrow> Inl Assertion_Error
       | Some (manifest_id, manifest_path) \<Rightarrow>
           bindE (raise_if (case map_of by_path manifest_path of
                              None \<Rightarrow> True
                            | Some manifest \<Rightarrow> authority_id manifest \<noteq> manifest_id)
                    (Planning_Error ''AUTHORITY_REFERENCE_UNBOUND'')) (\<lambda>_.
           raise_if (manifest_id = issuerId e \<or> manifest_path = issuerAuthorityReference e)
             (Planning_Error ''AUTHORITY_FACT_MISMATCH'')))"

definition validate_authority_references ::
    "(string, authority_record) dict \<Rightarrow> slice_descriptor list \<Rightarrow> authorization_envelope \<Rightarrow> unit result" where
  "validate_authority_references by_path ds e =
     bindE (raise_if (case map_of by_path (issuerAuthorityReference e) of
                        None \<Rightarrow> True
                      | Some issuer \<Rightarrow>
                          authority_id issuer \<noteq> issuerId e
                          \<or> issuerAuthorityDigest e \<noteq> ''sha256:'' @ authority_sha256 issuer)
              (Planning_Error ''AUTHORITY_REFERENCE_UNBOUND'')) (\<lambda>_.
     raise_if (list_ex (\<lambda>d. list_ex (\<lambda>reference. map_of by_path reference = None)
                                      (authorityReferences d)) ds)
       (Planning_Error ''AUTHORITY_REFERENCE_UNBOUND''))"

section \<open>Planning requests\<close>

definition normalize_planning_request ::
    "(string \<Rightarrow> string) \<Rightarrow> planning_request \<Rightarrow> planning_request result" where
  "normalize_planning_request sha value =
     bindE (raise_if (\<not> request_schema value) (Schema_Error ''controlled-planning-request'')) (\<lambda>_.
     bindE (raise_if (\<not> distinct (map sliceId (slices value))) (Planning_Error ''DUPLICATE_SLICE_ID'')) (\<lambda>_.
     bindE (mapE (normalize_slice_descriptor sha) (slices value)) (\<lambda>descriptors.
     bindE (normalize_authorization_envelope sha (authorizationEnvelope value)) (\<lambda>envelope.
     let normalized = value\<lparr>slices := descriptors, authorizationEnvelope := envelope\<rparr> in
     bindE (validate_snapshot sha (authoritySnapshot normalized) (batchBaseCommit normalized)) (\<lambda>by_path.
     bindE (raise_if (request_projectId normalized \<noteq> snapshot_projectId (authoritySnapshot normalized)
                       \<or> request_projectId normalized \<noteq> env_projectId envelope)
              (Planning_Error ''PROJECT_ID_MISMATCH'')) (\<lambda>_.
     bindE (raise_if (dependency_graph_digest sha descriptors \<noteq> dependencyGraphDigest normalized)
              (Planning_Error ''DEPENDENCY_GRAPH_DIGEST_MISMATCH'')) (\<lambda>_.
     bindE (validate_authority_facts normalized descriptors envelope by_path) (\<lambda>_.
     bindE (validate_authority_references by_path descriptors envelope) (\<lambda>_.
     bindE (parse_rfc3339 (asOf normalized)) (\<lambda>as_of.
     bindE (parse_rfc3339 (issuedAt envelope)) (\<lambda>issued_at.
     bindE (parse_rfc3339 (expiresAt envelope)) (\<lambda>expires_at.
     bindE (raise_if (issued_at \<ge> expires_at) (Planning_Error ''AUTHORIZATION_INTERVAL_INVALID'')) (\<lambda>_.
     bindE (raise_if (\<not> request_schema normalized) (Schema_Error ''controlled-planning-request'')) (\<lambda>_.
       Inr normalized))))))))))))))"

section \<open>Laws of normalisation\<close>

lemma safe_path_eq_Inr: "safe_path v = Inr w \<longleftrightarrow> safe_posix v = Inr w"
  by (auto simp: safe_path_def split: sum.splits)

lemma safe_path_idem: "safe_path v = Inr w \<Longrightarrow> safe_path w = Inr w"
  by (simp add: safe_path_eq_Inr safe_posix_idem)

lemma safe_path_Inl: "safe_path v = Inl e \<Longrightarrow> e = Planning_Error ''UNSAFE_DECLARED_PATH''"
  by (auto simp: safe_path_def split: sum.splits)

lemma safe_path_set_eq_Inr:
  "safe_path_set ps = Inr qs \<longleftrightarrow> (\<exists>rs. list_all2 (\<lambda>p r. safe_path p = Inr r) ps rs \<and> qs = sort rs)"
  by (auto simp: safe_path_set_def result_simps mapE_eq_Inr)

lemma safe_path_set_members:
  "safe_path_set ps = Inr qs \<Longrightarrow> sorted qs \<and> (\<forall>q\<in>set qs. safe_path q = Inr q)"
  by (auto simp: safe_path_set_eq_Inr list_all2_conv_all_nth in_set_conv_nth dest!: safe_path_idem)

lemma safe_path_set_idem: "safe_path_set ps = Inr qs \<Longrightarrow> safe_path_set qs = Inr qs"
  using safe_path_set_members[of ps qs]
  by (simp add: safe_path_set_def mapE_Inr_map[of _ _ "\<lambda>q. q"] sorted_sort_id)

lemma mapE_all_Inl:
  assumes "\<And>x e'. x \<in> set xs \<Longrightarrow> f x = Inl e' \<Longrightarrow> e' = e" and "x \<in> set xs" and "f x = Inl e'"
  shows "mapE f xs = Inl e"
  using assms
proof (induction xs)
  case (Cons y ys)
  show ?case
  proof (cases "f y")
    case (Inl e'')
    with Cons.prems(1)[of y] show ?thesis by simp
  next
    case (Inr r)
    with Cons.prems have x: "x \<in> set ys" by auto
    have "mapE f ys = Inl e" by (rule Cons.IH[OF _ x Cons.prems(3)]) (use Cons.prems(1) in auto)
    with Inr show ?thesis by simp
  qed
qed simp

text \<open>
  A set-valued path field is normalised to the same list whatever order its members are
  declared in and however each is spelled, and it fails the same way.
\<close>

lemma safe_path_set_cong:
  assumes "mset (map safe_path ps) = mset (map safe_path qs)"
  shows "safe_path_set ps = safe_path_set qs"
proof (cases "\<exists>p\<in>set ps. \<exists>e. safe_path p = Inl e")
  case True
  then obtain p e where p: "p \<in> set ps" "safe_path p = Inl e" by blast
  have "safe_path ` set ps = safe_path ` set qs"
    using arg_cong[OF assms, of set_mset] by simp
  with p have "Inl e \<in> safe_path ` set qs" by (metis image_eqI)
  then obtain q where q: "q \<in> set qs" "safe_path q = Inl e" by auto
  have "mapE safe_path ps = Inl (Planning_Error ''UNSAFE_DECLARED_PATH'')"
    using safe_path_Inl p by (intro mapE_all_Inl) auto
  moreover have "mapE safe_path qs = Inl (Planning_Error ''UNSAFE_DECLARED_PATH'')"
    using safe_path_Inl q by (intro mapE_all_Inl) auto
  ultimately show ?thesis by (simp add: safe_path_set_def)
next
  case False
  have set_eq: "safe_path ` set ps = safe_path ` set qs"
    using arg_cong[OF assms, of set_mset] by simp
  define g where "g p = projr (safe_path p)" for p
  have ps: "safe_path p = Inr (g p)" if "p \<in> set ps" for p
    using False that by (cases "safe_path p") (auto simp: g_def)
  have qs: "safe_path q = Inr (g q)" if q: "q \<in> set qs" for q
  proof -
    from q set_eq have "safe_path q \<in> safe_path ` set ps" by auto
    with ps show ?thesis by (auto simp: g_def)
  qed
  have "mset (map projr (map safe_path ps)) = mset (map projr (map safe_path qs))"
    using assms by (metis mset_map)
  then have "mset (map g ps) = mset (map g qs)" by (simp add: g_def[abs_def] comp_def)
  then have "sort (map g ps) = sort (map g qs)" by (rule sort_permutation)
  moreover have "mapE safe_path ps = Inr (map g ps)" by (rule mapE_Inr_map) (rule ps)
  moreover have "mapE safe_path qs = Inr (map g qs)" by (rule mapE_Inr_map) (rule qs)
  ultimately show ?thesis by (simp add: safe_path_set_def)
qed

lemma normalize_descriptor_fields_eq_Inr:
  "normalize_descriptor_fields d = Inr n \<longleftrightarrow>
    (\<exists>exact ephemeral references.
       safe_path_set (exactWriteSet d) = Inr exact \<and>
       safe_path_set (ephemeralWriteSet d) = Inr ephemeral \<and>
       safe_path_set (authorityReferences d) = Inr references \<and>
       n = d\<lparr>ownerSet := sort (ownerSet d), factFamilySet := sort (factFamilySet d),
              publicContractSet := sort (publicContractSet d), bindingSet := sort (bindingSet d),
              sharedArtifactSet := sort (sharedArtifactSet d), dependencySet := sort (dependencySet d),
              migrationResourceSet := sort (migrationResourceSet d),
              producerConsumerSet := sort_key producer_consumer_key (producerConsumerSet d),
              exactWriteSet := exact, ephemeralWriteSet := ephemeral,
              authorityReferences := references\<rparr>)"
  unfolding normalize_descriptor_fields_def result_simps by blast

lemma normalize_descriptor_fields_idem:
  "normalize_descriptor_fields d = Inr n \<Longrightarrow> normalize_descriptor_fields n = Inr n"
  by (auto simp: normalize_descriptor_fields_eq_Inr safe_path_set_idem)

lemma normalize_descriptor_fields_frame:
  assumes "normalize_descriptor_fields d = Inr n"
  shows "sliceId n = sliceId d" "descriptorDigest n = descriptorDigest d"
    "slice_state_of n = slice_state_of d" "set (dependencySet n) = set (dependencySet d)"
  using assms by (auto simp: normalize_descriptor_fields_eq_Inr)

lemma normalize_envelope_fields_eq_Inr:
  "normalize_envelope_fields e = Inr n \<longleftrightarrow>
    (\<exists>issuer prefixes.
       safe_path (issuerAuthorityReference e) = Inr issuer \<and>
       safe_path_set (permittedPathPrefixes e) = Inr prefixes \<and>
       n = e\<lparr>permittedDeliveryTracks := sort (permittedDeliveryTracks e),
              permittedSliceClasses := sort (permittedSliceClasses e),
              permittedActionClasses := sort (permittedActionClasses e),
              requiredTests := sort (requiredTests e),
              requiredReviewers := sort (requiredReviewers e),
              deniedActions := sort (deniedActions e),
              stopConditions := sort (stopConditions e),
              issuerAuthorityReference := issuer,
              permittedPathPrefixes := prefixes\<rparr>)"
  unfolding normalize_envelope_fields_def result_simps by blast

lemma normalize_envelope_fields_idem:
  "normalize_envelope_fields e = Inr n \<Longrightarrow> normalize_envelope_fields n = Inr n"
  by (auto simp: normalize_envelope_fields_eq_Inr safe_path_set_idem safe_path_idem)

lemma normalize_slice_descriptor_eq_Inr:
  "normalize_slice_descriptor sha d = Inr n \<longleftrightarrow>
     descriptor_schema d \<and> normalize_descriptor_fields d = Inr n \<and> descriptor_schema n \<and>
     descriptor_digest sha n = Inr (descriptorDigest n)"
  by (auto simp: normalize_slice_descriptor_def result_simps)

lemma normalize_authorization_envelope_eq_Inr:
  "normalize_authorization_envelope sha e = Inr n \<longleftrightarrow>
     envelope_schema e \<and> normalize_envelope_fields e = Inr n \<and> envelope_schema n \<and>
     envelope_digest sha n = Inr (envelopeDigest n)"
  by (auto simp: normalize_authorization_envelope_def result_simps)

lemma normalize_slice_descriptor_idem:
  "normalize_slice_descriptor sha d = Inr n \<Longrightarrow> normalize_slice_descriptor sha n = Inr n"
  by (auto simp: normalize_slice_descriptor_eq_Inr normalize_descriptor_fields_idem)

lemma normalize_authorization_envelope_idem:
  "normalize_authorization_envelope sha e = Inr n \<Longrightarrow> normalize_authorization_envelope sha n = Inr n"
  by (auto simp: normalize_authorization_envelope_eq_Inr normalize_envelope_fields_idem)

section \<open>What a digest binds\<close>

lemma json_eq_jstrs [simp]: "json_eq (jstrs a) (jstrs b) \<longleftrightarrow> a = b"
  by (auto simp: jstrs_def json_eq_JArr comp_def intro: map_injective[of JStr] injI)

lemma json_eq_producer_consumers:
  "json_eq (JArr (map producer_consumer_json a)) (JArr (map producer_consumer_json b)) \<longleftrightarrow> a = b"
proof -
  have "inj (\<lambda>r. canon_form (producer_consumer_json r))"
  proof (rule injI)
    fix r s assume "canon_form (producer_consumer_json r) = canon_form (producer_consumer_json s)"
    then have "json_eq (producer_consumer_json r) (producer_consumer_json s)"
      by (simp add: json_eq_def)
    then show "r = s"
      by (simp add: producer_consumer_json_def json_eq_same_keys)
  qed
  then show ?thesis by (auto simp: json_eq_JArr comp_def dest: map_injective[rotated])
qed

lemma json_eq_review_policy: "json_eq (review_policy_json p) (review_policy_json q) \<longleftrightarrow> p = q"
  by (auto simp: review_policy_json_def json_eq_same_keys)

lemma slice_state_str_inject [simp]: "slice_state_str a = slice_state_str b \<longleftrightarrow> a = b"
  by (cases a; cases b) simp_all

lemma descriptor_payload_inject:
  "json_eq (JObj (descriptor_payload p)) (JObj (descriptor_payload q)) \<longleftrightarrow>
     p\<lparr>descriptorDigest := []\<rparr> = q\<lparr>descriptorDigest := []\<rparr>"
  by (cases p; cases q; subst json_eq_same_keys)
    (simp_all add: descriptor_payload_def footprint_items_def json_eq_producer_consumers
      json_eq_review_policy conj_ac)

lemma envelope_payload_inject:
  "json_eq (JObj (envelope_payload p)) (JObj (envelope_payload q)) \<longleftrightarrow>
     p\<lparr>envelopeDigest := []\<rparr> = q\<lparr>envelopeDigest := []\<rparr>"
  by (cases p; cases q; subst json_eq_same_keys) (simp_all add: envelope_payload_def conj_ac)

text \<open>
  The interface descriptors and envelopes share: a record that carries the digest of its own
  normal form. Two accepted records with one digest are the same record.
\<close>

locale sealed_record =
  fixes normal :: "'a \<Rightarrow> 'a result" and payload :: "'a \<Rightarrow> (string \<times> json) list"
    and seal :: "'a \<Rightarrow> string" and unseal :: "'a \<Rightarrow> 'a"
  assumes normal_idem: "normal a = Inr b \<Longrightarrow> normal b = Inr b"
    and payload_binds: "json_eq (JObj (payload a)) (JObj (payload b)) \<Longrightarrow> unseal a = unseal b"
    and unseal_inject: "unseal a = unseal b \<Longrightarrow> seal a = seal b \<Longrightarrow> a = b"
begin

definition sealed :: "(string \<Rightarrow> string) \<Rightarrow> 'a \<Rightarrow> bool" where
  "sealed sha a = (normal a = Inr a \<and> seal a = sha256_json sha (JObj (payload a)))"

lemma sealed_inject:
  assumes "sealed sha a" and "sealed sha b" and "seal a = seal b"
    and "no_collision sha (JObj (payload a)) (JObj (payload b))"
  shows "a = b"
proof -
  have "sha256_json sha (JObj (payload a)) = sha256_json sha (JObj (payload b))"
    using assms(1-3) by (simp add: sealed_def)
  with assms(4) have "json_eq (JObj (payload a)) (JObj (payload b))" by (rule iffD1[OF sha256_json_inject])
  then have "unseal a = unseal b" by (rule payload_binds)
  then show ?thesis using assms(3) by (rule unseal_inject)
qed

lemma sealed_reseal: "normal a = Inr b \<Longrightarrow> seal b = sha256_json sha (JObj (payload b)) \<Longrightarrow> sealed sha b"
  unfolding sealed_def using normal_idem by blast

end

interpretation descriptor: sealed_record normalize_descriptor_fields descriptor_payload
  descriptorDigest "\<lambda>d. d\<lparr>descriptorDigest := []\<rparr>"
proof unfold_locales
  show "normalize_descriptor_fields a = Inr b \<Longrightarrow> normalize_descriptor_fields b = Inr b" for a b
    by (rule normalize_descriptor_fields_idem)
  show "json_eq (JObj (descriptor_payload a)) (JObj (descriptor_payload b)) \<Longrightarrow>
      a\<lparr>descriptorDigest := []\<rparr> = b\<lparr>descriptorDigest := []\<rparr>" for a b
    by (simp only: descriptor_payload_inject)
  show "a\<lparr>descriptorDigest := []\<rparr> = b\<lparr>descriptorDigest := []\<rparr> \<Longrightarrow> descriptorDigest a = descriptorDigest b \<Longrightarrow> a = b" for a b :: slice_descriptor
    by (cases a; cases b) simp
qed

interpretation envelope: sealed_record normalize_envelope_fields envelope_payload
  envelopeDigest "\<lambda>e. e\<lparr>envelopeDigest := []\<rparr>"
proof unfold_locales
  show "normalize_envelope_fields a = Inr b \<Longrightarrow> normalize_envelope_fields b = Inr b" for a b
    by (rule normalize_envelope_fields_idem)
  show "json_eq (JObj (envelope_payload a)) (JObj (envelope_payload b)) \<Longrightarrow>
      a\<lparr>envelopeDigest := []\<rparr> = b\<lparr>envelopeDigest := []\<rparr>" for a b
    by (simp only: envelope_payload_inject)
  show "a\<lparr>envelopeDigest := []\<rparr> = b\<lparr>envelopeDigest := []\<rparr> \<Longrightarrow> envelopeDigest a = envelopeDigest b \<Longrightarrow> a = b" for a b :: authorization_envelope
    by (cases a; cases b) simp
qed

lemma descriptor_sealed:
  assumes "normalize_slice_descriptor sha d = Inr n"
  shows "descriptor.sealed sha n"
proof -
  from assms have "normalize_descriptor_fields d = Inr n" "normalize_descriptor_fields n = Inr n"
    "descriptor_digest sha n = Inr (descriptorDigest n)"
    by (auto simp: normalize_slice_descriptor_eq_Inr intro: normalize_descriptor_fields_idem)
  then show ?thesis by (simp add: descriptor.sealed_def descriptor_digest_def)
qed

lemma envelope_sealed:
  assumes "normalize_authorization_envelope sha e = Inr n"
  shows "envelope.sealed sha n"
proof -
  from assms have "normalize_envelope_fields e = Inr n" "normalize_envelope_fields n = Inr n"
    "envelope_digest sha n = Inr (envelopeDigest n)"
    by (auto simp: normalize_authorization_envelope_eq_Inr intro: normalize_envelope_fields_idem)
  then show ?thesis by (simp add: envelope.sealed_def envelope_digest_def)
qed

section \<open>Accepted requests\<close>

text \<open>Everything the checks of \<open>normalize_planning_request\<close> establish about their result.\<close>

definition request_checked ::
    "(string \<Rightarrow> string) \<Rightarrow> planning_request \<Rightarrow> (string, authority_record) dict \<Rightarrow> bool" where
  "request_checked sha n by_path =
     (request_schema n
      \<and> distinct (map sliceId (slices n))
      \<and> (\<forall>d\<in>set (slices n). normalize_slice_descriptor sha d = Inr d)
      \<and> normalize_authorization_envelope sha (authorizationEnvelope n) = Inr (authorizationEnvelope n)
      \<and> validate_snapshot sha (authoritySnapshot n) (batchBaseCommit n) = Inr by_path
      \<and> request_projectId n = snapshot_projectId (authoritySnapshot n)
      \<and> request_projectId n = env_projectId (authorizationEnvelope n)
      \<and> dependency_graph_digest sha (slices n) = dependencyGraphDigest n
      \<and> validate_authority_facts n (slices n) (authorizationEnvelope n) by_path = Inr ()
      \<and> validate_authority_references by_path (slices n) (authorizationEnvelope n) = Inr ()
      \<and> (\<exists>as_of issued expires. parse_rfc3339 (asOf n) = Inr as_of
           \<and> parse_rfc3339 (issuedAt (authorizationEnvelope n)) = Inr issued
           \<and> parse_rfc3339 (expiresAt (authorizationEnvelope n)) = Inr expires \<and> issued < expires))"

lemma expected_facts_cong [simp]:
  "expected_facts (r\<lparr>slices := ds, authorizationEnvelope := e\<rparr>) = expected_facts r"
  by (intro ext) (simp add: expected_facts_def)

lemma validate_authority_facts_cong [simp]:
  "validate_authority_facts (r\<lparr>slices := ds, authorizationEnvelope := e\<rparr>) = validate_authority_facts r"
  by (intro ext) (simp add: validate_authority_facts_def)

lemma normalize_slices_frame:
  assumes "mapE (normalize_slice_descriptor sha) ds = Inr ns"
  shows "map sliceId ns = map sliceId ds" "\<forall>n\<in>set ns. normalize_slice_descriptor sha n = Inr n"
    "list_all descriptor_schema ns"
proof -
  show "map sliceId ns = map sliceId ds"
    using assms by (rule mapE_Inr_imp_map)
      (auto simp: normalize_slice_descriptor_eq_Inr dest: normalize_descriptor_fields_frame)
  show "\<forall>n\<in>set ns. normalize_slice_descriptor sha n = Inr n"
    using mapE_set[OF assms] normalize_slice_descriptor_idem by blast
  then show "list_all descriptor_schema ns"
    by (simp add: list_all_iff normalize_slice_descriptor_eq_Inr)
qed

lemma normalize_planning_request_checked:
  assumes "normalize_planning_request sha v = Inr n"
  obtains by_path where "request_checked sha n by_path"
    "n = v\<lparr>slices := slices n, authorizationEnvelope := authorizationEnvelope n\<rparr>"
    "mapE (normalize_slice_descriptor sha) (slices v) = Inr (slices n)"
    "normalize_authorization_envelope sha (authorizationEnvelope v) = Inr (authorizationEnvelope n)"
proof -
  from assms obtain ns e by_path t1 t2 t3 where
    d: "distinct (map sliceId (slices v))"
    and ns: "mapE (normalize_slice_descriptor sha) (slices v) = Inr ns"
    and e: "normalize_authorization_envelope sha (authorizationEnvelope v) = Inr e"
    and n: "n = v\<lparr>slices := ns, authorizationEnvelope := e\<rparr>"
    and s: "validate_snapshot sha (authoritySnapshot v) (batchBaseCommit v) = Inr by_path"
    and p: "request_projectId v = snapshot_projectId (authoritySnapshot v)"
      "request_projectId v = env_projectId e"
    and g: "dependency_graph_digest sha ns = dependencyGraphDigest v"
    and f: "validate_authority_facts v ns e by_path = Inr ()"
      "validate_authority_references by_path ns e = Inr ()"
    and t: "parse_rfc3339 (asOf v) = Inr t1" "parse_rfc3339 (issuedAt e) = Inr t2"
      "parse_rfc3339 (expiresAt e) = Inr t3" "t2 < t3"
    and sch: "request_schema n"
    unfolding normalize_planning_request_def Let_def result_simps
    by (auto simp: not_le)
  have "request_checked sha n by_path"
    unfolding request_checked_def
    using d s p g f t sch normalize_slices_frame[OF ns] normalize_authorization_envelope_idem[OF e]
    by (simp add: n)
  with that show thesis using ns e n by simp
qed

lemma request_checked_accepted:
  assumes "request_checked sha n by_path"
  shows "normalize_planning_request sha n = Inr n"
proof -
  have slices: "mapE (normalize_slice_descriptor sha) (slices n) = Inr (slices n)"
    using assms mapE_Inr_map[of "slices n" "normalize_slice_descriptor sha" "\<lambda>d. d"]
    by (simp add: request_checked_def)
  have same: "n\<lparr>slices := slices n, authorizationEnvelope := authorizationEnvelope n\<rparr> = n" by simp
  from assms slices show ?thesis
    unfolding normalize_planning_request_def request_checked_def
    by (auto simp: Let_def same)
qed

lemma request_checked_paths:
  assumes "request_checked sha n by_path" and "d \<in> set (slices n)"
    and "p \<in> set (exactWriteSet d) \<union> set (ephemeralWriteSet d) \<union> set (authorityReferences d)"
  shows "safe_path p = Inr p"
proof -
  from assms(1,2) have "normalize_descriptor_fields d = Inr d"
    by (simp add: request_checked_def normalize_slice_descriptor_eq_Inr)
  then have "safe_path_set (exactWriteSet d) = Inr (exactWriteSet d)"
    "safe_path_set (ephemeralWriteSet d) = Inr (ephemeralWriteSet d)"
    "safe_path_set (authorityReferences d) = Inr (authorityReferences d)"
    unfolding normalize_descriptor_fields_eq_Inr by (metis (no_types, lifting)
      slice_footprint.surjective slice_footprint.update_convs slice_footprint.select_convs)+
  with assms(3) safe_path_set_members show ?thesis by blast
qed

end
