(* ===== verification/Graph_Closure.thy ===== *)
theory Graph_Closure
  imports Harness_Prelude
begin

text \<open>
  The two graph algorithms of \<open>controlled_conflicts.py\<close>, on dictionaries from a node to the
  set of its successors: the transitive closure (\<open>_transitive_closure\<close>) and the search of
  one connected component inside \<open>_clusters\<close>. Python iterates over a set in no fixed order
  where the order is irrelevant; the model takes the sorted order there.
\<close>

type_synonym 'a graph = "('a, 'a set) dict"

text \<open>\<open>graph.get(node, set())\<close>\<close>

definition succs :: "'a graph \<Rightarrow> 'a \<Rightarrow> 'a set" where
  "succs g v = (case map_of g v of None \<Rightarrow> {} | Some S \<Rightarrow> S)"

definition graph_edges :: "'a graph \<Rightarrow> ('a \<times> 'a) set" where
  "graph_edges g = {(v, w). w \<in> succs g v}"

definition finite_graph :: "'a graph \<Rightarrow> bool" where
  "finite_graph g = (\<forall>v. finite (succs g v))"

text \<open>\<open>graph.setdefault(node, set())\<close>\<close>

definition setdefault :: "'a \<Rightarrow> 'a graph \<Rightarrow> 'a graph" where
  "setdefault v g = (case map_of g v of None \<Rightarrow> g @ [(v, {})] | Some _ \<Rightarrow> g)"

section \<open>Transitive closure\<close>

definition closure_row :: "'a \<Rightarrow> 'a graph \<Rightarrow> 'a \<Rightarrow> 'a graph" where
  "closure_row pivot closure source =
     (if pivot \<in> succs closure source
      then AList.update source (succs closure source \<union> succs closure pivot) closure
      else closure)"

definition add_targets :: "'a :: linorder graph \<Rightarrow> 'a graph" where
  "add_targets g =
     fold (\<lambda>(node, targets). fold setdefault (sorted_list_of_set targets)) g g"

definition transitive_closure :: "'a :: linorder graph \<Rightarrow> 'a graph" where
  "transitive_closure g =
     (let closure = add_targets g;
          nodes = sort (dict_keys closure)
      in foldl (\<lambda>c pivot. foldl (closure_row pivot) c nodes) closure nodes)"

lemma succs_update: "succs (AList.update k S g) v = (if v = k then S else succs g v)"
  by (simp add: succs_def update_conv')

lemma succs_setdefault [simp]: "succs (setdefault u g) v = succs g v"
  by (auto simp: succs_def setdefault_def split: option.splits if_splits)

lemma succs_fold_setdefault [simp]: "succs (fold setdefault us g) v = succs g v"
  by (induction us arbitrary: g) auto

lemma keys_setdefault: "set (dict_keys (setdefault u g)) = insert u (set (dict_keys g))"
  by (auto simp: setdefault_def dict_keys_def map_of_eq_None_iff split: option.splits
      dest!: map_of_SomeD intro: rev_image_eqI)

lemma keys_fold_setdefault: "set (dict_keys (fold setdefault us g)) = set us \<union> set (dict_keys g)"
  by (induction us arbitrary: g) (auto simp: keys_setdefault)

lemma add_targets_aux:
  "succs (fold (\<lambda>(node, targets). fold setdefault (sorted_list_of_set targets)) kvs g) v = succs g v"
  "set (dict_keys (fold (\<lambda>(node, targets). fold setdefault (sorted_list_of_set targets)) kvs g))
     = (\<Union>(node, targets)\<in>set kvs. set (sorted_list_of_set targets)) \<union> set (dict_keys g)"
  by (induction kvs arbitrary: g) (auto simp: keys_fold_setdefault)

lemma succs_add_targets [simp]: "succs (add_targets g) v = succs g v"
  by (simp add: add_targets_def add_targets_aux)

lemma succs_item: "w \<in> succs g v \<Longrightarrow> (v, succs g v) \<in> set g"
  by (auto simp: succs_def split: option.splits dest: map_of_SomeD)

lemma finite_succs: "finite_graph g \<Longrightarrow> finite (succs g v)"
  by (simp add: finite_graph_def)

lemma finite_graph_update:
  "finite_graph g \<Longrightarrow> finite S \<Longrightarrow> finite_graph (AList.update k S g)"
  by (simp add: finite_graph_def succs_update)

lemma finite_graph_Nil [simp]: "finite_graph []"
  by (simp add: finite_graph_def succs_def)

lemma finite_graph_setdefault [simp]: "finite_graph (setdefault v g) = finite_graph g"
  by (simp add: finite_graph_def)

lemma keys_add_targets:
  assumes "finite_graph g" and "w \<in> succs g v"
  shows "v \<in> set (dict_keys (add_targets g))" "w \<in> set (dict_keys (add_targets g))"
proof -
  have S: "(v, succs g v) \<in> set g" using assms(2) by (rule succs_item)
  with assms show "w \<in> set (dict_keys (add_targets g))"
    by (auto simp: add_targets_def add_targets_aux finite_succs intro!: bexI[of _ "(v, succs g v)"])
  from S have "v \<in> set (dict_keys g)" by (force simp: dict_keys_def)
  then show "v \<in> set (dict_keys (add_targets g))"
    unfolding add_targets_def add_targets_aux(2) by blast
qed

text \<open>One pivot: every source that reaches the pivot gains what the pivot reaches.\<close>

definition pivot_step :: "'a \<Rightarrow> ('a \<Rightarrow> 'a set) \<Rightarrow> 'a \<Rightarrow> 'a set" where
  "pivot_step p f v = (if p \<in> f v then f v \<union> f p else f v)"

lemma succs_closure_row:
  "succs (closure_row p c s) v = (if v = s then pivot_step p (succs c) v else succs c v)"
  by (simp add: closure_row_def succs_update pivot_step_def)

lemma pivot_step_partial:
  "pivot_step p (\<lambda>v. if v = s then pivot_step p f v else f v) = pivot_step p f"
  by (rule ext) (auto simp: pivot_step_def)

lemma succs_closure_pass:
  "succs (foldl (closure_row p) c nodes) v =
     (if v \<in> set nodes then pivot_step p (succs c) v else succs c v)"
proof (induction nodes arbitrary: c)
  case Nil
  then show ?case by simp
next
  case (Cons s nodes)
  have row: "succs (closure_row p c s) = (\<lambda>v. if v = s then pivot_step p (succs c) v else succs c v)"
    by (rule ext) (simp add: succs_closure_row)
  show ?case using Cons[of "closure_row p c s"] by (auto simp: row pivot_step_partial)
qed

text \<open>What holds of the closure after the pivots \<open>P\<close>.\<close>

definition closure_inv :: "('a \<times> 'a) set \<Rightarrow> 'a set \<Rightarrow> ('a \<Rightarrow> 'a set) \<Rightarrow> bool" where
  "closure_inv R P f =
     ((\<forall>v. R `` {v} \<subseteq> f v \<and> f v \<subseteq> R\<^sup>+ `` {v}) \<and> (\<forall>p\<in>P. \<forall>v. p \<in> f v \<longrightarrow> f p \<subseteq> f v))"

lemma closure_inv_step:
  assumes "closure_inv R P f"
  shows "closure_inv R (insert q P) (pivot_step q f)"
proof -
  from assms have low: "\<And>v. R `` {v} \<subseteq> f v" and up: "\<And>v. f v \<subseteq> R\<^sup>+ `` {v}"
    and tr: "\<And>p v. p \<in> P \<Longrightarrow> p \<in> f v \<Longrightarrow> f p \<subseteq> f v"
    by (auto simp: closure_inv_def)
  have "R `` {v} \<subseteq> pivot_step q f v" for v using low[of v] by (auto simp: pivot_step_def)
  moreover have "pivot_step q f v \<subseteq> R\<^sup>+ `` {v}" for v
    using up[of v] up[of q] by (auto simp: pivot_step_def intro: trancl_trans)
  moreover have "pivot_step q f p \<subseteq> pivot_step q f v"
    if p: "p \<in> insert q P" and m: "p \<in> pivot_step q f v" for p v
  proof -
    have sub: "f p \<subseteq> pivot_step q f v"
    proof (cases "p \<in> f v")
      case True
      show ?thesis
      proof (cases "p = q")
        case False
        with p tr True show ?thesis by (auto simp: pivot_step_def)
      qed (use True in \<open>auto simp: pivot_step_def\<close>)
    next
      case False
      with m have "q \<in> f v" "p \<in> f q" by (auto simp: pivot_step_def split: if_splits)
      with p tr[of p q] show ?thesis by (auto simp: pivot_step_def)
    qed
    show ?thesis
    proof (cases "q \<in> f p")
      case True
      from sub True have "q \<in> pivot_step q f v" by blast
      then have "q \<in> f v" by (auto simp: pivot_step_def split: if_splits)
      with sub True show ?thesis by (auto simp: pivot_step_def)
    next
      case False
      with sub show ?thesis by (simp add: pivot_step_def)
    qed
  qed
  ultimately show ?thesis unfolding closure_inv_def by blast
qed

lemma closure_passes:
  assumes "closure_inv R P (succs c)" and "\<And>v. v \<notin> set nodes \<Longrightarrow> succs c v = {}"
  shows "closure_inv R (P \<union> set ps) (succs (foldl (\<lambda>c p. foldl (closure_row p) c nodes) c ps))
    \<and> (\<forall>v. v \<notin> set nodes \<longrightarrow> succs (foldl (\<lambda>c p. foldl (closure_row p) c nodes) c ps) v = {})"
  using assms
proof (induction ps arbitrary: c P)
  case Nil
  then show ?case by simp
next
  case (Cons q ps)
  let ?c = "foldl (closure_row q) c nodes"
  have step: "succs ?c = pivot_step q (succs c)"
    using Cons.prems(2) by (intro ext) (auto simp: succs_closure_pass pivot_step_def)
  have "closure_inv R (insert q P) (succs ?c)"
    unfolding step by (rule closure_inv_step) (rule Cons.prems(1))
  moreover have "succs ?c v = {}" if "v \<notin> set nodes" for v
    using that Cons.prems(2) by (simp add: succs_closure_pass)
  ultimately show ?case using Cons.IH[of "insert q P" ?c] by (simp add: insert_commute)
qed

lemma transitive_closure_trancl:
  assumes "finite_graph g"
  shows "succs (transitive_closure g) v = (graph_edges g)\<^sup>+ `` {v}"
proof -
  let ?c = "add_targets g" and ?R = "graph_edges g"
  let ?nodes = "sort (dict_keys ?c)"
  let ?t = "transitive_closure g"
  have "closure_inv ?R {} (succs ?c)"
    by (auto simp: closure_inv_def graph_edges_def)
  moreover have "succs ?c v = {}" if "v \<notin> set ?nodes" for v
    using keys_add_targets[OF assms] that by auto
  ultimately have inv: "closure_inv ?R (set ?nodes) (succs ?t)"
    and out: "\<And>v. v \<notin> set ?nodes \<Longrightarrow> succs ?t v = {}"
    using closure_passes[of ?R "{}" ?c ?nodes ?nodes] unfolding transitive_closure_def Let_def by auto
  have tr: "succs ?t p \<subseteq> succs ?t v" if "p \<in> succs ?t v" for p v
    using inv out that unfolding closure_inv_def by (cases "p \<in> set ?nodes") auto
  have "w \<in> succs ?t v" if "(v, w) \<in> ?R\<^sup>+" for v w
    using that
  proof (induction rule: trancl_induct)
    case (base w)
    then show ?case using inv by (auto simp: closure_inv_def)
  next
    case (step u w)
    moreover from step have "w \<in> succs ?t u" using inv by (auto simp: closure_inv_def)
    ultimately show ?case using tr by blast
  qed
  with inv show ?thesis by (auto simp: closure_inv_def)
qed


section \<open>Reachability as an interface\<close>

text \<open>
  What the users of a closure rely on: it relates a node to exactly the nodes that some
  non-empty path leads to.
\<close>

locale reachability =
  fixes reach :: "'g \<Rightarrow> 'a \<Rightarrow> 'a set"
    and edges :: "'g \<Rightarrow> ('a \<times> 'a) set"
    and valid :: "'g \<Rightarrow> bool"
  assumes reach_trancl: "valid g \<Longrightarrow> reach g v = (edges g)\<^sup>+ `` {v}"
begin

lemma reach_edge: "valid g \<Longrightarrow> (v, w) \<in> edges g \<Longrightarrow> w \<in> reach g v"
  by (auto simp: reach_trancl)

lemma reach_trans: "valid g \<Longrightarrow> w \<in> reach g v \<Longrightarrow> u \<in> reach g w \<Longrightarrow> u \<in> reach g v"
  by (auto simp: reach_trancl intro: trancl_trans)

lemma reach_least:
  assumes "valid g" and "trans r" and "edges g \<subseteq> r" and "w \<in> reach g v"
  shows "(v, w) \<in> r"
proof -
  from assms(1,4) have "(v, w) \<in> (edges g)\<^sup>+" by (simp add: reach_trancl)
  also from assms(3) have "\<dots> \<subseteq> r\<^sup>+" by (simp add: trancl_mono_subset)
  finally show ?thesis using assms(2) by (simp add: trancl_id)
qed

lemma acyclic_iff_reach: "valid g \<Longrightarrow> acyclic (edges g) \<longleftrightarrow> (\<forall>v. v \<notin> reach g v)"
  by (auto simp: acyclic_def reach_trancl)

end

interpretation warshall: reachability "\<lambda>g. succs (transitive_closure g)" graph_edges finite_graph
  by unfold_locales (rule transitive_closure_trancl)

section \<open>Component search\<close>

text \<open>
  The inner loop of \<open>_clusters\<close>. \<open>pending\<close> is Python's list with its last element first:
  \<open>pending.pop()\<close> takes the head, and appending the new neighbours one by one in sorted
  order puts them in front in reverse.
\<close>

function explore :: "'a :: linorder graph \<Rightarrow> 'a set \<Rightarrow> 'a list \<Rightarrow> 'a set" where
  "explore adjacency component [] = component"
| "explore adjacency component (current # pending) =
     (let new = sorted_list_of_set (succs adjacency current - component)
      in explore adjacency (component \<union> set new) (rev new @ pending))"
  by pat_completeness auto

text \<open>
  Each call either saturates a node that was not saturated, or shortens the pending list.
\<close>

definition unsaturated :: "'a graph \<Rightarrow> 'a set \<Rightarrow> 'a set" where
  "unsaturated adjacency component =
     {v \<in> set (dict_keys adjacency). \<not> succs adjacency v \<subseteq> component}"

lemma finite_unsaturated [simp]: "finite (unsaturated g C)"
  by (simp add: unsaturated_def)

lemma unsaturated_decreases:
  assumes "set new = succs g v - C" and "new \<noteq> []"
  shows "unsaturated g (C \<union> set new) \<subset> unsaturated g C"
proof
  show "unsaturated g (C \<union> set new) \<subseteq> unsaturated g C" by (auto simp: unsaturated_def)
  from assms obtain w where w: "w \<in> succs g v" "w \<notin> C" by (cases new) auto
  then have "v \<in> set (dict_keys g)"
    by (auto simp: succs_def dict_keys_def split: option.splits dest!: map_of_SomeD intro: rev_image_eqI)
  with w assms(1) have "v \<in> unsaturated g C" "v \<notin> unsaturated g (C \<union> set new)"
    by (auto simp: unsaturated_def)
  then show "unsaturated g (C \<union> set new) \<noteq> unsaturated g C" by blast
qed

termination explore
proof (relation "measures [\<lambda>(g, C, p). card (unsaturated g C), \<lambda>(g, C, p). length p]")
  fix g :: "'a graph" and C v p and new :: "'a list"
  assume new: "new = sorted_list_of_set (succs g v - C)"
  show "((g, C \<union> set new, rev new @ p), g, C, v # p)
      \<in> measures [\<lambda>(g, C, p). card (unsaturated g C), \<lambda>(g, C, p). length p]"
  proof (cases "new = []")
    case True
    then show ?thesis by simp
  next
    case False
    with new have "set new = succs g v - C"
      by (metis set_sorted_list_of_set sorted_list_of_set.fold_insort_key.infinite)
    with False have "card (unsaturated g (C \<union> set new)) < card (unsaturated g C)"
      by (intro psubset_card_mono unsaturated_decreases) simp_all
    then show ?thesis by simp
  qed
qed simp

lemma explore_mono: "C \<subseteq> explore g C p"
  by (induction g C p rule: explore.induct) (auto simp: Let_def)

lemma explore_sound:
  "set p \<subseteq> C \<Longrightarrow> explore g C p \<subseteq> (graph_edges g)\<^sup>* `` C"
proof (induction g C p rule: explore.induct)
  case (1 g C)
  then show ?case by auto
next
  case (2 g C v p)
  define new where "new = sorted_list_of_set (succs g v - C)"
  have sub: "set new \<subseteq> succs g v"
    unfolding new_def by (cases "finite (succs g v - C)") auto
  with 2(2) have "C \<union> set new \<subseteq> (graph_edges g)\<^sup>* `` C"
    by (auto simp: graph_edges_def intro!: r_into_rtrancl)
  then have "(graph_edges g)\<^sup>* `` (C \<union> set new) \<subseteq> (graph_edges g)\<^sup>* `` ((graph_edges g)\<^sup>* `` C)"
    by (intro Image_mono) simp_all
  then have "(graph_edges g)\<^sup>* `` (C \<union> set new) \<subseteq> (graph_edges g)\<^sup>* `` C"
    by (simp add: relcomp_Image[symmetric])
  moreover have "explore g (C \<union> set new) (rev new @ p) \<subseteq> (graph_edges g)\<^sup>* `` (C \<union> set new)"
    by (rule 2(1)[OF new_def]) (use 2(2) in auto)
  ultimately show ?case by (simp add: Let_def new_def[symmetric])
qed

lemma explore_closed:
  assumes "finite_graph g"
  shows "set p \<subseteq> C \<Longrightarrow> \<forall>v\<in>C - set p. succs g v \<subseteq> C \<Longrightarrow>
    \<forall>v\<in>explore g C p. succs g v \<subseteq> explore g C p"
  using assms
proof (induction g C p rule: explore.induct)
  case (1 g C)
  then show ?case by auto
next
  case (2 g C v p)
  define new where "new = sorted_list_of_set (succs g v - C)"
  have new: "set new = succs g v - C" unfolding new_def using finite_succs[OF 2(4)] by simp
  have "\<forall>v\<in>explore g (C \<union> set new) (rev new @ p). succs g v \<subseteq> explore g (C \<union> set new) (rev new @ p)"
    by (rule 2(1)[OF new_def _ _ 2(4)]) (use 2(2,3) new in auto)
  then show ?case by (simp add: Let_def new_def[symmetric])
qed

lemma explore_component:
  assumes "finite_graph g"
  shows "explore g {s} [s] = (graph_edges g)\<^sup>* `` {s}"
proof
  show "explore g {s} [s] \<subseteq> (graph_edges g)\<^sup>* `` {s}" by (rule explore_sound) simp
  have closed: "\<forall>v\<in>explore g {s} [s]. succs g v \<subseteq> explore g {s} [s]"
    by (rule explore_closed[OF assms]) simp_all
  have "t \<in> explore g {s} [s]" if "(s, t) \<in> (graph_edges g)\<^sup>*" for t
    using that
  proof (induction rule: rtrancl_induct)
    case base
    show ?case using explore_mono[of "{s}" g "[s]"] by simp
  next
    case (step u t)
    with closed show ?case by (auto simp: graph_edges_def)
  qed
  then show "(graph_edges g)\<^sup>* `` {s} \<subseteq> explore g {s} [s]" by auto
qed

text \<open>The outer loop: \<open>remaining\<close> is the sorted list of the set, its head the minimum.\<close>

function components :: "'a :: linorder graph \<Rightarrow> 'a list \<Rightarrow> 'a list list" where
  "components adjacency [] = []"
| "components adjacency (start # remaining) =
     (let component = explore adjacency {start} [start]
      in sorted_list_of_set component
           # components adjacency (filter (\<lambda>v. v \<notin> component) remaining))"
  by pat_completeness auto
termination components
  by (relation "measure (\<lambda>(g, r). length r)") (auto simp: le_imp_less_Suc)


text \<open>
  On a symmetric graph whose edges stay inside the remaining nodes, the components are the
  classes of reachability.
\<close>

lemma components_spec:
  assumes "finite_graph g" and "sym (graph_edges g)"
  shows "\<forall>v\<in>set r. (graph_edges g)\<^sup>* `` {v} \<subseteq> set r \<Longrightarrow>
    (\<Union>c\<in>set (components g r). set c) = set r \<and>
    (\<forall>c\<in>set (components g r). sorted c \<and> distinct c \<and>
        (\<exists>s\<in>set r. set c = (graph_edges g)\<^sup>* `` {s})) \<and>
    distinct (concat (components g r))"
  using assms
proof (induction g r rule: components.induct)
  case (1 g)
  then show ?case by simp
next
  case (2 g s r)
  let ?E = "(graph_edges g)\<^sup>*"
  define C where "C = explore g {s} [s]"
  define r' where "r' = filter (\<lambda>v. v \<notin> C) r"
  have C: "C = ?E `` {s}" unfolding C_def by (rule explore_component) (rule 2(3))
  have symE: "sym ?E" using 2(4) by (rule sym_rtrancl)
  have closed: "?E `` {v} \<subseteq> set r'" if "v \<in> set r'" for v
  proof
    fix w assume "w \<in> ?E `` {v}"
    then have vw: "(v, w) \<in> ?E" by simp
    then have "w \<in> set (s # r)" using 2(2) that by (force simp: r'_def)
    moreover have "w \<notin> C"
    proof
      assume "w \<in> C"
      then have "(s, w) \<in> ?E" by (simp add: C)
      moreover have "(w, v) \<in> ?E" using symE vw by (rule symD)
      ultimately have "v \<in> C" by (simp add: C)
      with that show False by (simp add: r'_def)
    qed
    moreover have "s \<in> C" by (simp add: C)
    ultimately show "w \<in> set r'" by (auto simp: r'_def)
  qed
  have sub: "C \<subseteq> set (s # r)" using 2(2) C by auto
  then have fin: "finite C" by (rule finite_subset) simp
  from 2(1)[OF C_def, folded r'_def] closed 2(3,4)
  have IH: "(\<Union>c\<in>set (components g r'). set c) = set r'"
    "\<forall>c\<in>set (components g r'). sorted c \<and> distinct c \<and> (\<exists>s\<in>set r'. set c = ?E `` {s})"
    "distinct (concat (components g r'))"
    by blast+
  have eq: "components g (s # r) = sorted_list_of_set C # components g r'"
    by (simp add: Let_def C_def r'_def)
  have "set (concat (components g r')) = set r'" using IH(1) by simp
  then have disj: "C \<inter> set (concat (components g r')) = {}" by (auto simp: r'_def)
  have union: "C \<union> set r' = set (s # r)" using sub C by (auto simp: r'_def)
  have "\<forall>c\<in>set (components g r'). sorted c \<and> distinct c \<and> (\<exists>s\<in>set (s # r). set c = ?E `` {s})"
    using IH(2) by (auto simp: r'_def)
  moreover have "\<exists>t\<in>set (s # r). C = ?E `` {t}" using C by simp
  ultimately show ?case unfolding eq using fin union IH(1,3) disj by auto
qed

end
