(* ===== verification/Conflict_Graph.thy ===== *)
theory Conflict_Graph
  imports Planning_Inputs Graph_Closure
begin

text \<open>
  \<open>controlled_conflicts.py\<close>: when two slices conflict, the conflict edges of a batch, and
  its clusters. Descriptors, footprints and the footprints of leases share the fields of
  \<^typ>\<open>slice_footprint\<close>, so the predicates are stated on every extension of that record.
\<close>

section \<open>Overlaps\<close>

definition path_overlaps :: "string \<Rightarrow> string \<Rightarrow> bool" where
  "path_overlaps left right =
     (let left_parts = path_parts left; right_parts = path_parts right;
          size = min (length left_parts) (length right_parts)
      in take size left_parts = take size right_parts)"

definition sets_overlap :: "string list \<Rightarrow> string list \<Rightarrow> bool" where
  "sets_overlap left right = list_ex (\<lambda>x. x \<in> set right) left"

definition any_path_overlap :: "string list \<Rightarrow> string list \<Rightarrow> bool" where
  "any_path_overlap left_paths right_paths =
     list_ex (\<lambda>left. list_ex (\<lambda>right. path_overlaps left right) right_paths) left_paths"

section \<open>Closures\<close>

definition dependency_graph :: "'a slice_footprint_scheme list \<Rightarrow> string graph" where
  "dependency_graph ds = dict_of (map (\<lambda>d. (sliceId d, set (dependencySet d))) ds)"

definition dependency_closure :: "'a slice_footprint_scheme list \<Rightarrow> string graph" where
  "dependency_closure ds = transitive_closure (dependency_graph ds)"

text \<open>\<open>graph.setdefault(producer, set()).add(consumer)\<close>, then the consumer's own entry.\<close>

definition add_relation :: "producer_consumer \<Rightarrow> string graph \<Rightarrow> string graph" where
  "add_relation r g =
     setdefault (consumer r)
       (AList.update (producer r) (insert (consumer r) (succs g (producer r))) g)"

definition owner_graph :: "'a slice_footprint_scheme list \<Rightarrow> string graph" where
  "owner_graph ds =
     fold (\<lambda>d g. fold add_relation (producerConsumerSet d) (fold setdefault (ownerSet d) g)) ds []"

definition owner_closure :: "'a slice_footprint_scheme list \<Rightarrow> string graph" where
  "owner_closure ds = transitive_closure (owner_graph ds)"

definition has_path :: "string graph \<Rightarrow> string list \<Rightarrow> string list \<Rightarrow> bool" where
  "has_path closure left_values right_values =
     list_ex (\<lambda>left. list_ex (\<lambda>right. right \<in> succs closure left) right_values) left_values"

section \<open>Conflict reasons\<close>

definition global_shared_barrier :: "'a slice_footprint_scheme \<Rightarrow> bool" where
  "global_shared_barrier d = list_ex (has_prefix ''global:'') (sharedArtifactSet d)"

definition public_contract_barrier :: "'a slice_footprint_scheme \<Rightarrow> bool" where
  "public_contract_barrier d = (publicContractSet d \<noteq> [])"

definition migration_barrier :: "'a slice_footprint_scheme \<Rightarrow> bool" where
  "migration_barrier d = (migrationResourceSet d \<noteq> [])"

text \<open>\<open>if condition: reasons.add(code)\<close> for each pair; the codes are distinct.\<close>

definition reasons_where :: "(bool \<times> string) list \<Rightarrow> string list" where
  "reasons_where crs = map snd (filter fst crs)"

definition conflict_reasons ::
    "'a slice_footprint_scheme \<Rightarrow> 'b slice_footprint_scheme \<Rightarrow> string graph \<Rightarrow> string graph \<Rightarrow> string list" where
  "conflict_reasons left right dependency owner = sort (reasons_where
     [(sets_overlap (ownerSet left) (ownerSet right), ''SAME_OWNER''),
      (sets_overlap (factFamilySet left) (factFamilySet right), ''FACT_FAMILY_OVERLAP''),
      (sets_overlap (bindingSet left) (bindingSet right), ''BINDING_OVERLAP''),
      (any_path_overlap (exactWriteSet left) (exactWriteSet right), ''EXACT_WRITESET_OVERLAP''),
      (any_path_overlap (ephemeralWriteSet left) (exactWriteSet right)
                 \<or> any_path_overlap (exactWriteSet left) (ephemeralWriteSet right)
                 \<or> any_path_overlap (ephemeralWriteSet left) (ephemeralWriteSet right), ''EPHEMERAL_WRITESET_OVERLAP''),
      (sets_overlap (sharedArtifactSet left) (sharedArtifactSet right), ''SHARED_ARTIFACT_OVERLAP''),
      (any_path_overlap (exactWriteSet left) (authorityReferences right)
                 \<or> any_path_overlap (ephemeralWriteSet left) (authorityReferences right)
                 \<or> any_path_overlap (exactWriteSet right) (authorityReferences left)
                 \<or> any_path_overlap (ephemeralWriteSet right) (authorityReferences left), ''AUTHORITY_INPUT_WRITE''),
      (sliceId right \<in> succs dependency (sliceId left)
                 \<or> sliceId left \<in> succs dependency (sliceId right), ''DEPENDENCY_PATH''),
      (has_path owner (ownerSet left) (ownerSet right)
                 \<or> has_path owner (ownerSet right) (ownerSet left), ''PRODUCER_CONSUMER_PATH''),
      (public_contract_barrier left \<or> public_contract_barrier right, ''PUBLIC_CONTRACT_SERIAL_BARRIER''),
      (migration_barrier left \<or> migration_barrier right, ''MIGRATION_SERIAL_BARRIER''),
      (global_shared_barrier left \<or> global_shared_barrier right, ''GLOBAL_SHARED_ARTIFACT_BARRIER'')])"

section \<open>The report\<close>

record conflict_footprint = slice_footprint +
  conflictFootprintId :: string

record conflict_edge =
  leftSliceId :: string
  rightSliceId :: string
  edge_reasons :: "string list"

record conflict_cluster =
  clusterId :: string
  cluster_slices :: "string list"

record conflict_report =
  report_projectId :: string
  report_snapshotFingerprint :: string
  report_policyVersion :: string
  footprints :: "conflict_footprint list"
  conflict_edges :: "conflict_edge list"
  clusters :: "conflict_cluster list"
  conflictReportId :: string

definition footprint_of ::
    "(string \<Rightarrow> string) \<Rightarrow> string \<Rightarrow> string \<Rightarrow> 'a slice_footprint_scheme \<Rightarrow> conflict_footprint" where
  "footprint_of sha project_id policy d =
     slice_footprint.extend (slice_footprint.truncate d)
       (conflict_footprint.fields
          (stable_id sha ''footprint''
             (JObj ([(''projectId'', JStr project_id), (''conflictPolicyVersion'', JStr policy)]
                    @ footprint_items d))))"

definition adjacency_of :: "string list \<Rightarrow> conflict_edge list \<Rightarrow> string graph" where
  "adjacency_of slice_ids edges =
     fold (\<lambda>e g.
         let g1 = AList.update (leftSliceId e) (insert (rightSliceId e) (succs g (leftSliceId e))) g
         in AList.update (rightSliceId e) (insert (leftSliceId e) (succs g1 (rightSliceId e))) g1)
       edges (dict_of (map (\<lambda>s. (s, {})) slice_ids))"

definition cluster_of :: "(string \<Rightarrow> string) \<Rightarrow> string \<Rightarrow> string \<Rightarrow> string list \<Rightarrow> conflict_cluster" where
  "cluster_of sha project_id policy member_ids =
     \<lparr>clusterId = stable_id sha ''conflict-cluster''
         (JObj [(''projectId'', JStr project_id), (''conflictPolicyVersion'', JStr policy),
                (''sliceIds'', jstrs member_ids)]),
      cluster_slices = member_ids\<rparr>"

definition clusters_of ::
    "(string \<Rightarrow> string) \<Rightarrow> string \<Rightarrow> string \<Rightarrow> string list \<Rightarrow> conflict_edge list \<Rightarrow> conflict_cluster list" where
  "clusters_of sha project_id policy slice_ids edges =
     sort_key cluster_slices
       (map (cluster_of sha project_id policy)
          (components (adjacency_of slice_ids edges) (sorted_list_of_set (set slice_ids))))"

definition conflict_edges_of :: "'a slice_footprint_scheme list \<Rightarrow> conflict_edge list" where
  "conflict_edges_of ordered =
     (let dependency = dependency_closure ordered; owner = owner_closure ordered in
      concat (map (\<lambda>(left, right).
        let reasons = conflict_reasons left right dependency owner in
        if reasons \<noteq> []
        then [\<lparr>leftSliceId = sliceId left, rightSliceId = sliceId right, edge_reasons = reasons\<rparr>]
        else []) (pairs_of ordered)))"

definition conflict_footprint_json :: "conflict_footprint \<Rightarrow> json" where
  "conflict_footprint_json f =
     JObj (footprint_items f @ [(''conflictFootprintId'', JStr (conflictFootprintId f))])"

definition conflict_edge_json :: "conflict_edge \<Rightarrow> json" where
  "conflict_edge_json e =
     JObj [(''leftSliceId'', JStr (leftSliceId e)), (''rightSliceId'', JStr (rightSliceId e)),
           (''reasons'', jstrs (edge_reasons e))]"

definition conflict_cluster_json :: "conflict_cluster \<Rightarrow> json" where
  "conflict_cluster_json c =
     JObj [(''clusterId'', JStr (clusterId c)), (''sliceIds'', jstrs (cluster_slices c))]"

definition report_payload :: "conflict_report \<Rightarrow> (string \<times> json) list" where
  "report_payload r =
     [(''schemaVersion'', JStr ''controlled-conflict-report/v1''),
      (''projectId'', JStr (report_projectId r)),
      (''authoritySnapshotFingerprint'', JStr (report_snapshotFingerprint r)),
      (''conflictPolicyVersion'', JStr (report_policyVersion r)),
      (''footprints'', JArr (map conflict_footprint_json (footprints r))),
      (''edges'', JArr (map conflict_edge_json (conflict_edges r))),
      (''clusters'', JArr (map conflict_cluster_json (clusters r)))]"

definition conflict_reason_codes :: "string list" where
  "conflict_reason_codes =
     [''SAME_OWNER'', ''FACT_FAMILY_OVERLAP'', ''BINDING_OVERLAP'', ''EXACT_WRITESET_OVERLAP'',
      ''EPHEMERAL_WRITESET_OVERLAP'', ''SHARED_ARTIFACT_OVERLAP'', ''AUTHORITY_INPUT_WRITE'',
      ''DEPENDENCY_PATH'', ''PRODUCER_CONSUMER_PATH'', ''PUBLIC_CONTRACT_SERIAL_BARRIER'',
      ''MIGRATION_SERIAL_BARRIER'', ''GLOBAL_SHARED_ARTIFACT_BARRIER'', ''ENVELOPE_NOT_YET_VALID'',
      ''ENVELOPE_EXPIRED'', ''PORTFOLIO_NOT_PERMITTED'', ''DELIVERY_TRACK_NOT_PERMITTED'',
      ''SLICE_CLASS_NOT_PERMITTED'', ''ACTION_CLASS_NOT_PERMITTED'', ''ACTION_EXPLICITLY_DENIED'',
      ''WRITESET_OUTSIDE_PREFIX'', ''SLICE_NOT_READY'', ''UNKNOWN_DEPENDENCY'', ''DEPENDENCY_CYCLE'',
      ''DEPENDENCY_NOT_CLOSED'', ''CONFLICT_CLUSTER_BUSY'', ''PROJECT_CAPACITY_LIMIT'']"

text \<open>\<open>core/schemas/controlled-conflict-report.schema.json\<close>\<close>

definition report_schema :: "conflict_report \<Rightarrow> bool" where
  "report_schema r =
     (is_id (report_projectId r) \<and> is_digest (report_snapshotFingerprint r)
      \<and> report_policyVersion r = ''controlled-conflict-policy/v1''
      \<and> list_all (\<lambda>f. footprint_schema f \<and> is_stable_id ''footprint'' (conflictFootprintId f)) (footprints r)
      \<and> distinct (footprints r)
      \<and> list_all (\<lambda>e. is_id (leftSliceId e) \<and> is_id (rightSliceId e)
                       \<and> set (edge_reasons e) \<subseteq> set conflict_reason_codes
                       \<and> distinct (edge_reasons e)) (conflict_edges r)
      \<and> distinct (conflict_edges r)
      \<and> list_all (\<lambda>c. is_stable_id ''conflict-cluster'' (clusterId c)
                       \<and> list_all is_id (cluster_slices c) \<and> distinct (cluster_slices c)) (clusters r)
      \<and> distinct (clusters r)
      \<and> is_stable_id ''conflict-report'' (conflictReportId r))"

definition build_conflict_report ::
    "(string \<Rightarrow> string) \<Rightarrow> string \<Rightarrow> string \<Rightarrow> string \<Rightarrow> 'a slice_footprint_scheme list \<Rightarrow> conflict_report result" where
  "build_conflict_report sha project_id fingerprint policy descriptors =
     (let ordered = sort_key sliceId descriptors;
          edges = conflict_edges_of ordered;
          draft = \<lparr>report_projectId = project_id, report_snapshotFingerprint = fingerprint,
                   report_policyVersion = policy,
                   footprints = map (footprint_of sha project_id policy) ordered,
                   conflict_edges = edges,
                   clusters = clusters_of sha project_id policy (map sliceId ordered) edges,
                   conflictReportId = []\<rparr>;
          report = draft\<lparr>conflictReportId := stable_id sha ''conflict-report'' (JObj (report_payload draft))\<rparr>
      in if report_schema report then Inr report
         else Inl (Schema_Error ''controlled-conflict-report''))"

section \<open>Overlaps, specified\<close>

text \<open>Two paths overlap exactly when some path lies under both.\<close>

lemma path_overlaps_contains:
  "path_overlaps p q \<longleftrightarrow> contains_path p q \<or> contains_path q p"
  unfolding path_overlaps_def contains_path_def Let_def
  by (cases "length (path_parts p) \<le> length (path_parts q)") (auto simp: min_def dest: sym)

lemma path_overlaps_common:
  "path_overlaps p q \<longleftrightarrow> (\<exists>f. contains_path p f \<and> contains_path q f)"
proof
  assume "path_overlaps p q"
  then show "\<exists>f. contains_path p f \<and> contains_path q f"
    by (metis contains_path_refl path_overlaps_contains)
next
  assume "\<exists>f. contains_path p f \<and> contains_path q f"
  then obtain r s where "path_parts p @ r = path_parts q @ s"
    by (metis contains_path_iff)
  then obtain us where "path_parts p = path_parts q @ us \<or> path_parts q = path_parts p @ us"
    by (auto simp: append_eq_append_conv2 dest: sym)
  then show "path_overlaps p q"
    unfolding path_overlaps_contains contains_path_iff by blast
qed

lemma path_overlaps_sym: "path_overlaps p q = path_overlaps q p"
  by (auto simp: path_overlaps_contains)

lemma any_path_overlap_iff:
  "any_path_overlap ps qs \<longleftrightarrow> (\<exists>p\<in>set ps. \<exists>q\<in>set qs. path_overlaps p q)"
  by (auto simp: any_path_overlap_def list_ex_iff)

lemma any_path_overlap_sym: "any_path_overlap ps qs = any_path_overlap qs ps"
  unfolding any_path_overlap_iff using path_overlaps_sym by blast

lemma sets_overlap_iff: "sets_overlap xs ys \<longleftrightarrow> set xs \<inter> set ys \<noteq> {}"
  by (auto simp: sets_overlap_def list_ex_iff)

lemma sets_overlap_sym: "sets_overlap xs ys = sets_overlap ys xs"
  by (auto simp: sets_overlap_iff)

section \<open>Conflict reasons, specified\<close>

lemma conflict_reasons_sym:
  "conflict_reasons left right dependency owner = conflict_reasons right left dependency owner"
proof -
  have path: "(any_path_overlap a b \<or> any_path_overlap c d \<or> any_path_overlap e f) =
    (any_path_overlap d c \<or> any_path_overlap b a \<or> any_path_overlap f e)" for a b c d e f
    using any_path_overlap_sym by blast
  have auth: "(any_path_overlap a b \<or> any_path_overlap c d \<or> any_path_overlap e f \<or> any_path_overlap g h) =
    (any_path_overlap e f \<or> any_path_overlap g h \<or> any_path_overlap a b \<or> any_path_overlap c d)"
    for a b c d e f g h by blast
  have swap: "(P \<or> Q) = (Q \<or> P)" for P Q by blast
  show ?thesis
    unfolding conflict_reasons_def
    by (intro arg_cong[of _ _ sort] arg_cong[of _ _ reasons_where] arg_cong2[of _ _ _ _ Cons]
        arg_cong2[of _ _ _ _ Pair] refl sets_overlap_sym any_path_overlap_sym path auth swap)
qed

lemma reasons_where_Nil: "reasons_where crs = [] \<longleftrightarrow> list_all (\<lambda>cr. \<not> fst cr) crs"
  by (auto simp: reasons_where_def filter_empty_conv list_all_iff)

lemma reasons_where_set: "set (reasons_where crs) \<subseteq> snd ` set crs"
  by (auto simp: reasons_where_def)

lemma reasons_where_member: "r \<in> set (reasons_where crs) \<longleftrightarrow> (True, r) \<in> set crs"
  by (force simp: reasons_where_def)

lemma reasons_where_distinct: "distinct (map snd crs) \<Longrightarrow> distinct (reasons_where crs)"
  by (simp add: reasons_where_def distinct_map_filter)

text \<open>Everything a slice may change on disk.\<close>

definition write_paths :: "'a slice_footprint_scheme \<Rightarrow> string list" where
  "write_paths d = exactWriteSet d @ ephemeralWriteSet d"

lemma no_conflict_writes:
  assumes "conflict_reasons left right dependency owner = []"
    and "p \<in> set (write_paths left)" and "q \<in> set (write_paths right)"
  shows "\<not> (contains_path p f \<and> contains_path q f)"
proof -
  from assms(1) have
    "\<not> any_path_overlap (exactWriteSet left) (exactWriteSet right)"
    "\<not> any_path_overlap (ephemeralWriteSet left) (exactWriteSet right)"
    "\<not> any_path_overlap (exactWriteSet left) (ephemeralWriteSet right)"
    "\<not> any_path_overlap (ephemeralWriteSet left) (ephemeralWriteSet right)"
    by (simp_all add: conflict_reasons_def reasons_where_Nil)
  with assms(2,3) have "\<not> path_overlaps p q"
    by (auto simp: any_path_overlap_iff write_paths_def)
  then show ?thesis by (auto simp: path_overlaps_common)
qed

lemma no_conflict_authority:
  assumes "conflict_reasons left right dependency owner = []"
    and "p \<in> set (write_paths left)" and "q \<in> set (authorityReferences right)"
  shows "\<not> (contains_path p f \<and> contains_path q f)"
proof -
  from assms(1) have
    "\<not> any_path_overlap (exactWriteSet left) (authorityReferences right)"
    "\<not> any_path_overlap (ephemeralWriteSet left) (authorityReferences right)"
    by (simp_all add: conflict_reasons_def reasons_where_Nil)
  with assms(2,3) have "\<not> path_overlaps p q"
    by (auto simp: any_path_overlap_iff write_paths_def)
  then show ?thesis by (auto simp: path_overlaps_common)
qed

lemma conflict_reasons_distinct: "distinct (conflict_reasons left right dependency owner)"
  unfolding conflict_reasons_def distinct_sort by (rule reasons_where_distinct) simp

lemma conflict_reasons_codes:
  "set (conflict_reasons left right dependency owner) \<subseteq> set conflict_reason_codes"
proof -
  have "set (conflict_reasons left right dependency owner) \<subseteq> set (take 12 conflict_reason_codes)"
    unfolding conflict_reasons_def set_sort
    by (rule subset_trans[OF reasons_where_set]) (simp add: conflict_reason_codes_def insert_commute)
  then show ?thesis using set_take_subset by fast
qed

section \<open>The closures, specified\<close>

definition dependency_edges :: "'a slice_footprint_scheme list \<Rightarrow> (string \<times> string) set" where
  "dependency_edges ds = {(sliceId d, s) | d s. d \<in> set ds \<and> s \<in> set (dependencySet d)}"

definition owner_edges :: "'a slice_footprint_scheme list \<Rightarrow> (string \<times> string) set" where
  "owner_edges ds = {(producer r, consumer r) | d r. d \<in> set ds \<and> r \<in> set (producerConsumerSet d)}"

lemma finite_dependency_graph: "finite_graph (dependency_graph ds)"
  by (auto simp: finite_graph_def dependency_graph_def succs_def map_of_dict_of
      split: option.splits dest!: map_of_SomeD)

lemma dependency_graph_edges:
  assumes "distinct (map sliceId ds)"
  shows "graph_edges (dependency_graph ds) = dependency_edges ds"
proof -
  let ?items = "map (\<lambda>d. (sliceId d, set (dependencySet d))) ds"
  have "distinct (map fst ?items)" using assms by (simp add: comp_def)
  then have "map_of (dependency_graph ds) v = Some S \<longleftrightarrow> (v, S) \<in> set ?items" for v S
    unfolding dependency_graph_def by (simp only: map_of_dict_of_distinct map_of_eq_Some_iff)
  moreover have "(v, w) \<in> graph_edges (dependency_graph ds) \<longleftrightarrow>
      (\<exists>S. map_of (dependency_graph ds) v = Some S \<and> w \<in> S)" for v w
    by (simp add: graph_edges_def succs_def split: option.split)
  ultimately have "(v, w) \<in> graph_edges (dependency_graph ds) \<longleftrightarrow> (v, w) \<in> dependency_edges ds" for v w
    by (auto simp: dependency_edges_def)
  then show ?thesis by auto
qed

lemma succs_add_relation:
  "succs (add_relation r g) v =
     (if v = producer r then insert (consumer r) (succs g v) else succs g v)"
  by (simp add: add_relation_def succs_update)

lemma succs_fold_add_relation:
  "succs (fold add_relation rs g) v = succs g v \<union> {consumer r | r. r \<in> set rs \<and> producer r = v}"
  by (induction rs arbitrary: g) (auto simp: succs_add_relation)

lemma succs_owner_graph:
  "succs (owner_graph ds) v =
     {consumer r | d r. d \<in> set ds \<and> r \<in> set (producerConsumerSet d) \<and> producer r = v}"
proof -
  have "succs (fold (\<lambda>d g. fold add_relation (producerConsumerSet d) (fold setdefault (ownerSet d) g)) ds g) v
      = succs g v \<union> {consumer r | d r. d \<in> set ds \<and> r \<in> set (producerConsumerSet d) \<and> producer r = v}" for g
    by (induction ds arbitrary: g) (auto simp: succs_fold_add_relation)
  then show ?thesis by (simp add: owner_graph_def succs_def)
qed

lemma owner_graph_edges: "graph_edges (owner_graph ds) = owner_edges ds"
  by (auto simp: graph_edges_def succs_owner_graph owner_edges_def)

lemma finite_owner_graph: "finite_graph (owner_graph ds)"
proof -
  have "succs (owner_graph ds) v \<subseteq> consumer ` (\<Union>d\<in>set ds. set (producerConsumerSet d))" for v
    by (auto simp: succs_owner_graph)
  then show ?thesis unfolding finite_graph_def by (meson finite_UN finite_imageI finite_set finite_subset)
qed

lemma dependency_closure_trancl:
  assumes "distinct (map sliceId ds)"
  shows "s \<in> succs (dependency_closure ds) t \<longleftrightarrow> (t, s) \<in> (dependency_edges ds)\<^sup>+"
  using warshall.reach_trancl[OF finite_dependency_graph, of ds t] dependency_graph_edges[OF assms]
  by (simp add: dependency_closure_def)

lemma owner_closure_trancl: "s \<in> succs (owner_closure ds) t \<longleftrightarrow> (t, s) \<in> (owner_edges ds)\<^sup>+"
  using warshall.reach_trancl[OF finite_owner_graph, of ds t] owner_graph_edges[of ds]
  by (simp add: owner_closure_def)

section \<open>Clusters, specified\<close>

definition edge_relation :: "conflict_edge list \<Rightarrow> (string \<times> string) set" where
  "edge_relation es =
     {(leftSliceId e, rightSliceId e) | e. e \<in> set es} \<union> {(rightSliceId e, leftSliceId e) | e. e \<in> set es}"

lemma sym_edge_relation: "sym (edge_relation es)"
  by (auto simp: edge_relation_def sym_def)

lemma succs_adjacency_of: "succs (adjacency_of ids es) v = edge_relation es `` {v}"
proof -
  have "succs (fold (\<lambda>e g.
         let g1 = AList.update (leftSliceId e) (insert (rightSliceId e) (succs g (leftSliceId e))) g
         in AList.update (rightSliceId e) (insert (leftSliceId e) (succs g1 (rightSliceId e))) g1) es g) v
      = succs g v \<union> edge_relation es `` {v}" for g
    by (induction es arbitrary: g) (auto simp: Let_def succs_update edge_relation_def)
  moreover have "succs (dict_of (map (\<lambda>s. (s, {})) ids)) v = {}"
    by (auto simp: succs_def map_of_dict_of split: option.splits dest!: map_of_SomeD)
  ultimately show ?thesis by (simp add: adjacency_of_def)
qed

lemma adjacency_edges: "graph_edges (adjacency_of ids es) = edge_relation es"
  by (auto simp: graph_edges_def succs_adjacency_of)

lemma finite_edge_relation: "finite (edge_relation es)"
proof -
  have "edge_relation es = set (map (\<lambda>e. (leftSliceId e, rightSliceId e)) es)
      \<union> set (map (\<lambda>e. (rightSliceId e, leftSliceId e)) es)"
    by (auto simp: edge_relation_def)
  then show ?thesis by simp
qed

lemma finite_adjacency: "finite_graph (adjacency_of ids es)"
  by (simp add: finite_graph_def succs_adjacency_of finite_edge_relation finite_Image)

text \<open>\<open>same_cluster\<close>: the two slices are listed in one cluster.\<close>

definition same_cluster :: "conflict_cluster list \<Rightarrow> string \<Rightarrow> string \<Rightarrow> bool" where
  "same_cluster cs s t = (\<exists>c\<in>set cs. s \<in> set (cluster_slices c) \<and> t \<in> set (cluster_slices c))"

lemma clusters_of_spec:
  fixes sha :: "string \<Rightarrow> string" and project policy :: string
  assumes edges: "\<forall>e\<in>set es. leftSliceId e \<in> set ids \<and> rightSliceId e \<in> set ids"
  defines "cs \<equiv> clusters_of sha project policy ids es"
  shows "(\<Union>c\<in>set cs. set (cluster_slices c)) = set ids"
    "\<forall>c\<in>set cs. sorted (cluster_slices c) \<and> distinct (cluster_slices c) \<and>
       (\<exists>s\<in>set ids. set (cluster_slices c) = (edge_relation es)\<^sup>* `` {s}) \<and>
       c = cluster_of sha project policy (cluster_slices c)"
    "distinct (concat (map cluster_slices cs))"
proof -
  let ?g = "adjacency_of ids es" and ?r = "sorted_list_of_set (set ids)"
  let ?cs = "components ?g ?r"
  have "\<forall>v\<in>set ?r. (graph_edges ?g)\<^sup>* `` {v} \<subseteq> set ?r"
  proof (intro ballI subsetI)
    fix v w assume v: "v \<in> set ?r" and "w \<in> (graph_edges ?g)\<^sup>* `` {v}"
    then have "(v, w) \<in> (edge_relation es)\<^sup>*" by (simp add: adjacency_edges)
    then show "w \<in> set ?r" using v edges
      by (induction rule: rtrancl_induct) (auto simp: edge_relation_def)
  qed
  from components_spec[OF finite_adjacency _ this] sym_edge_relation
  have spec: "(\<Union>c\<in>set ?cs. set c) = set ids"
    "\<forall>c\<in>set ?cs. sorted c \<and> distinct c \<and> (\<exists>s\<in>set ids. set c = (edge_relation es)\<^sup>* `` {s})"
    "distinct (concat ?cs)"
    by (simp_all add: adjacency_edges)
  have mem: "set cs = cluster_of sha project policy ` set ?cs"
    by (simp add: cs_def clusters_of_def)
  have sl: "cluster_slices (cluster_of sha project policy m) = m" for m
    by (simp add: cluster_of_def)
  show "(\<Union>c\<in>set cs. set (cluster_slices c)) = set ids" using spec(1) by (simp add: mem sl)
  show "\<forall>c\<in>set cs. sorted (cluster_slices c) \<and> distinct (cluster_slices c) \<and>
       (\<exists>s\<in>set ids. set (cluster_slices c) = (edge_relation es)\<^sup>* `` {s}) \<and>
       c = cluster_of sha project policy (cluster_slices c)"
    using spec(2) by (simp add: mem sl)
  have "mset (map cluster_slices cs) = mset ?cs"
    by (simp add: cs_def clusters_of_def sl comp_def image_mset.compositionality)
  then have "mset (concat (map cluster_slices cs)) = mset (concat ?cs)"
    by (metis mset_concat mset_map sum_mset_sum_list)
  with spec(3) show "distinct (concat (map cluster_slices cs))"
    using mset_eq_imp_distinct_iff by blast
qed

lemma distinct_concat_same:
  "distinct (concat (map f xs)) \<Longrightarrow> x \<in> set xs \<Longrightarrow> y \<in> set xs \<Longrightarrow>
    v \<in> set (f x) \<Longrightarrow> v \<in> set (f y) \<Longrightarrow> x = y"
  by (induction xs) auto

lemma same_cluster_iff_connected:
  assumes edges: "\<forall>e\<in>set es. leftSliceId e \<in> set ids \<and> rightSliceId e \<in> set ids"
    and s: "s \<in> set ids"
  shows "same_cluster (clusters_of sha project policy ids es) s t \<longleftrightarrow> (s, t) \<in> (edge_relation es)\<^sup>*"
proof -
  let ?E = "(edge_relation es)\<^sup>*" and ?cs = "clusters_of sha project policy ids es"
  note spec = clusters_of_spec[OF edges, of sha project policy]
  have symE: "sym ?E" by (rule sym_rtrancl) (rule sym_edge_relation)
  show ?thesis
  proof
    assume "same_cluster ?cs s t"
    with spec(2) obtain r where "(r, s) \<in> ?E" "(r, t) \<in> ?E" by (auto simp: same_cluster_def)
    with symE show "(s, t) \<in> ?E" by (meson rtrancl_trans symD)
  next
    assume st: "(s, t) \<in> ?E"
    from s spec(1) obtain c where c: "c \<in> set ?cs" "s \<in> set (cluster_slices c)" by blast
    with spec(2) obtain r where r: "set (cluster_slices c) = ?E `` {r}" by blast
    with c(2) st have "t \<in> set (cluster_slices c)" by (auto intro: rtrancl_trans)
    with c show "same_cluster ?cs s t" by (auto simp: same_cluster_def)
  qed
qed

section \<open>Reports, specified\<close>

lemma footprint_of_select [simp]:
  "sliceId (footprint_of sha p v d) = sliceId d"
  "ownerSet (footprint_of sha p v d) = ownerSet d"
  "factFamilySet (footprint_of sha p v d) = factFamilySet d"
  "publicContractSet (footprint_of sha p v d) = publicContractSet d"
  "producerConsumerSet (footprint_of sha p v d) = producerConsumerSet d"
  "bindingSet (footprint_of sha p v d) = bindingSet d"
  "exactWriteSet (footprint_of sha p v d) = exactWriteSet d"
  "ephemeralWriteSet (footprint_of sha p v d) = ephemeralWriteSet d"
  "sharedArtifactSet (footprint_of sha p v d) = sharedArtifactSet d"
  "dependencySet (footprint_of sha p v d) = dependencySet d"
  "migrationResourceSet (footprint_of sha p v d) = migrationResourceSet d"
  "authorityReferences (footprint_of sha p v d) = authorityReferences d"
  by (simp_all add: footprint_of_def slice_footprint.defs conflict_footprint.defs)

lemma footprint_schema_footprint_of [simp]:
  "footprint_schema (footprint_of sha p v d) = footprint_schema d"
  by (simp add: footprint_schema_def)

lemma conflict_reasons_footprint_of [simp]:
  "conflict_reasons (footprint_of sha p v d) e x y = conflict_reasons d e x y"
  "conflict_reasons e (footprint_of sha p v d) x y = conflict_reasons e d x y"
  by (simp_all add: conflict_reasons_def global_shared_barrier_def public_contract_barrier_def
      migration_barrier_def)

text \<open>The conflicts of a batch: the reasons under the batch's own closures.\<close>

definition batch_conflict ::
    "'a slice_footprint_scheme list \<Rightarrow> 'b slice_footprint_scheme \<Rightarrow> 'c slice_footprint_scheme \<Rightarrow> bool" where
  "batch_conflict ds a b = (conflict_reasons a b (dependency_closure ds) (owner_closure ds) \<noteq> [])"

lemma batch_conflict_sym: "batch_conflict ds a b = batch_conflict ds b a"
  unfolding batch_conflict_def by (subst conflict_reasons_sym) (rule refl)

text \<open>
  The interface of a conflict policy, for the planner and the coordinator: a symmetric relation
  whose absence separates the files two slices may change, and the files one may change from the
  authority inputs of the other.
\<close>

locale conflict_policy =
  fixes conflict :: "'a \<Rightarrow> 'a \<Rightarrow> bool" and outputs :: "'a \<Rightarrow> string list" and inputs :: "'a \<Rightarrow> string list"
  assumes conflict_sym: "conflict a b \<Longrightarrow> conflict b a"
    and free_outputs: "\<not> conflict a b \<Longrightarrow> p \<in> set (outputs a) \<Longrightarrow> q \<in> set (outputs b) \<Longrightarrow>
      \<not> (contains_path p f \<and> contains_path q f)"
    and free_inputs: "\<not> conflict a b \<Longrightarrow> p \<in> set (outputs a) \<Longrightarrow> q \<in> set (inputs b) \<Longrightarrow>
      \<not> (contains_path p f \<and> contains_path q f)"
begin

definition may_write :: "'a \<Rightarrow> string \<Rightarrow> bool" where
  "may_write a f = (\<exists>p\<in>set (outputs a). contains_path p f)"

definition isolated :: "'a set \<Rightarrow> bool" where
  "isolated A = (\<forall>a\<in>A. \<forall>b\<in>A. a \<noteq> b \<longrightarrow> \<not> conflict a b)"

lemma isolated_one_writer:
  assumes "isolated A" and "a \<in> A" and "b \<in> A" and "may_write a f" and "may_write b f"
  shows "a = b"
proof (rule ccontr)
  assume "a \<noteq> b"
  with assms(1-3) have free: "\<not> conflict a b" by (simp add: isolated_def)
  from assms(4,5) obtain p q where "p \<in> set (outputs a)" "contains_path p f"
    "q \<in> set (outputs b)" "contains_path q f" by (auto simp: may_write_def)
  with free_outputs[OF free] show False by blast
qed

lemma isolated_inputs_stable:
  assumes "isolated A" and "a \<in> A" and "b \<in> A" and "a \<noteq> b" and "q \<in> set (inputs b)"
  shows "\<not> may_write a q"
proof -
  from assms have free: "\<not> conflict a b" by (simp add: isolated_def)
  have "\<not> contains_path p q" if "p \<in> set (outputs a)" for p
    using free_inputs[OF free that assms(5), of q] by simp
  then show ?thesis by (simp add: may_write_def)
qed

lemma isolated_insert:
  assumes "isolated A" and "\<forall>b\<in>A. b \<noteq> a \<longrightarrow> \<not> conflict b a"
  shows "isolated (insert a A)"
proof -
  have "\<not> conflict a b" if "b \<in> A" "b \<noteq> a" for b using assms(2) that conflict_sym[of a b] by blast
  with assms show ?thesis by (simp add: isolated_def)
qed

lemma isolated_subset: "isolated A \<Longrightarrow> B \<subseteq> A \<Longrightarrow> isolated B"
  unfolding isolated_def by blast

end

definition batch_edge ::
    "'a slice_footprint_scheme list \<Rightarrow> 'b slice_footprint_scheme \<times> 'b slice_footprint_scheme \<Rightarrow> conflict_edge" where
  "batch_edge ds = (\<lambda>(a, b). \<lparr>leftSliceId = sliceId a, rightSliceId = sliceId b,
      edge_reasons = conflict_reasons a b (dependency_closure ds) (owner_closure ds)\<rparr>)"

interpretation batch: conflict_policy "batch_conflict ds" write_paths authorityReferences for ds
proof unfold_locales
  show "batch_conflict ds a b \<Longrightarrow> batch_conflict ds b a" for a b
    by (rule iffD1[OF batch_conflict_sym])
  show "\<not> batch_conflict ds a b \<Longrightarrow> p \<in> set (write_paths a) \<Longrightarrow> q \<in> set (write_paths b) \<Longrightarrow>
      \<not> (contains_path p f \<and> contains_path q f)" for a b p q f
    unfolding batch_conflict_def by (rule no_conflict_writes) blast+
  show "\<not> batch_conflict ds a b \<Longrightarrow> p \<in> set (write_paths a) \<Longrightarrow> q \<in> set (authorityReferences b) \<Longrightarrow>
      \<not> (contains_path p f \<and> contains_path q f)" for a b p q f
    unfolding batch_conflict_def by (rule no_conflict_authority) blast+
qed

lemma conflict_edges_of_map:
  "conflict_edges_of ds = map (batch_edge ds) (filter (\<lambda>(a, b). batch_conflict ds a b) (pairs_of ds))"
proof -
  have "conflict_edges_of ds =
      concat (map (\<lambda>ab. if case ab of (a, b) \<Rightarrow> batch_conflict ds a b then [batch_edge ds ab] else [])
        (pairs_of ds))"
    unfolding conflict_edges_of_def Let_def batch_conflict_def batch_edge_def
    by (rule arg_cong[where f = concat], rule map_cong) auto
  then show ?thesis by (simp only: concat_map_if)
qed

lemma conflict_edges_of_member:
  "e \<in> set (conflict_edges_of ds) \<longleftrightarrow>
    (\<exists>a b. (a, b) \<in> set (pairs_of ds) \<and> batch_conflict ds a b \<and>
       e = \<lparr>leftSliceId = sliceId a, rightSliceId = sliceId b,
            edge_reasons = conflict_reasons a b (dependency_closure ds) (owner_closure ds)\<rparr>)"
  proof
  assume "e \<in> set (conflict_edges_of ds)"
  then show "\<exists>a b. (a, b) \<in> set (pairs_of ds) \<and> batch_conflict ds a b \<and>
       e = \<lparr>leftSliceId = sliceId a, rightSliceId = sliceId b,
            edge_reasons = conflict_reasons a b (dependency_closure ds) (owner_closure ds)\<rparr>"
    unfolding conflict_edges_of_map batch_edge_def by auto
next
  assume "\<exists>a b. (a, b) \<in> set (pairs_of ds) \<and> batch_conflict ds a b \<and>
       e = \<lparr>leftSliceId = sliceId a, rightSliceId = sliceId b,
            edge_reasons = conflict_reasons a b (dependency_closure ds) (owner_closure ds)\<rparr>"
  then obtain a b where "(a, b) \<in> set (pairs_of ds)" "batch_conflict ds a b" "e = batch_edge ds (a, b)"
    unfolding batch_edge_def by auto
  then show "e \<in> set (conflict_edges_of ds)" by (auto simp: conflict_edges_of_map)
qed

lemma conflict_edges_of_conflict:
  assumes "a \<in> set ds" and "b \<in> set ds" and "a \<noteq> b" and "batch_conflict ds a b"
  shows "(sliceId a, sliceId b) \<in> edge_relation (conflict_edges_of ds)"
proof -
  have ba: "batch_conflict ds b a" by (rule iffD1[OF batch_conflict_sym assms(4)])
  from pairs_of_complete[OF assms(1-3)] show ?thesis
  proof
    assume "(a, b) \<in> set (pairs_of ds)"
    then have "batch_edge ds (a, b) \<in> set (conflict_edges_of ds)"
      using assms(4) by (auto simp: conflict_edges_of_map)
    then show ?thesis by (force simp: edge_relation_def batch_edge_def)
  next
    assume "(b, a) \<in> set (pairs_of ds)"
    then have "batch_edge ds (b, a) \<in> set (conflict_edges_of ds)"
      using ba by (auto simp: conflict_edges_of_map)
    then show ?thesis by (force simp: edge_relation_def batch_edge_def)
  qed
qed

lemma conflict_edges_of_endpoints:
  "\<forall>e\<in>set (conflict_edges_of ds). leftSliceId e \<in> sliceId ` set ds \<and> rightSliceId e \<in> sliceId ` set ds"
  by (auto simp: conflict_edges_of_member dest!: pairs_of_set)

lemma build_conflict_report_eq_Inr:
  "build_conflict_report sha p fp v ds = Inr r \<Longrightarrow>
    report_schema r \<and> report_projectId r = p \<and> report_snapshotFingerprint r = fp
    \<and> report_policyVersion r = v
    \<and> footprints r = map (footprint_of sha p v) (sort_key sliceId ds)
    \<and> conflict_edges r = conflict_edges_of (sort_key sliceId ds)
    \<and> clusters r = clusters_of sha p v (map sliceId (sort_key sliceId ds)) (conflict_edges_of (sort_key sliceId ds))"
  by (auto simp: build_conflict_report_def Let_def split: if_splits)

lemma build_conflict_report_permutation:
  assumes "mset ds = mset es" and "distinct (map sliceId ds)"
  shows "build_conflict_report sha p fp v ds = build_conflict_report sha p fp v es"
  using sort_key_permutation[OF assms] by (simp add: build_conflict_report_def)

text \<open>Two slices that conflict within the batch always share a cluster.\<close>

lemma conflict_same_cluster:
  assumes r: "build_conflict_report sha p fp v ds = Inr r"
    and "a \<in> set ds" and "b \<in> set ds" and "a \<noteq> b"
    and "batch_conflict (sort_key sliceId ds) a b"
  shows "same_cluster (clusters r) (sliceId a) (sliceId b)"
proof -
  let ?o = "sort_key sliceId ds"
  have "(sliceId a, sliceId b) \<in> edge_relation (conflict_edges_of ?o)"
    by (rule conflict_edges_of_conflict) (use assms(2-5) in simp_all)
  moreover have "clusters r = clusters_of sha p v (map sliceId ?o) (conflict_edges_of ?o)"
    using build_conflict_report_eq_Inr[OF r] by simp
  moreover have "sliceId a \<in> set (map sliceId ?o)" using assms(2) by simp
  ultimately show ?thesis
    using same_cluster_iff_connected[of "conflict_edges_of ?o" "map sliceId ?o"]
      conflict_edges_of_endpoints[of ?o]
    by (simp add: r_into_rtrancl)
qed

section \<open>The self-validation of a report never fails\<close>

lemma distinct_pairs_of:
  "distinct (map f ds) \<Longrightarrow> distinct (map (\<lambda>(a, b). (f a, f b)) (pairs_of ds))"
  by (induction ds) (auto simp: comp_def distinct_map inj_on_def dest!: pairs_of_set)

lemma distinct_conflict_edges:
  assumes "distinct (map sliceId ds)"
  shows "distinct (conflict_edges_of ds)"
proof -
  have "map (\<lambda>e. (leftSliceId e, rightSliceId e)) (conflict_edges_of ds) =
      map (\<lambda>(a, b). (sliceId a, sliceId b)) (filter (\<lambda>(a, b). batch_conflict ds a b) (pairs_of ds))"
    unfolding conflict_edges_of_map by (simp add: batch_edge_def case_prod_beta)
  then have "distinct (map (\<lambda>e. (leftSliceId e, rightSliceId e)) (conflict_edges_of ds))"
    using distinct_map_filter[OF distinct_pairs_of[OF assms]] by simp
  then show ?thesis by (simp only: distinct_map)
qed

lemma build_conflict_report_total:
  assumes "hex_digest sha" and "is_id p" and "is_digest fp" and "v = ''controlled-conflict-policy/v1''"
    and schema: "\<forall>d\<in>set ds. footprint_schema d" and d: "distinct (map sliceId ds)"
  shows "\<exists>r. build_conflict_report sha p fp v ds = Inr r"
proof -
  let ?o = "sort_key sliceId ds"
  let ?es = "conflict_edges_of ?o" and ?ids = "map sliceId (sort_key sliceId ds)"
  let ?cs = "clusters_of sha p v ?ids ?es"
  have ids: "\<forall>s\<in>set ?ids. is_id s" using schema by (auto simp: footprint_schema_def)
  have d': "distinct ?ids" using d by (metis distinct_map_sort_key)
  have fps: "distinct (map (footprint_of sha p v) ?o)"
  proof -
    have "distinct (map sliceId (map (footprint_of sha p v) ?o))" using d' by (simp add: comp_def)
    then show ?thesis by (simp only: distinct_map)
  qed
  have fid: "is_stable_id ''footprint'' (conflictFootprintId (footprint_of sha p v x))"
    for x :: "'a slice_footprint_scheme"
    by (simp add: footprint_of_def slice_footprint.defs conflict_footprint.defs
        is_stable_id_stable_id assms(1))
  have edge: "is_id (leftSliceId e) \<and> is_id (rightSliceId e)
      \<and> set (edge_reasons e) \<subseteq> set conflict_reason_codes \<and> distinct (edge_reasons e)"
    if "e \<in> set ?es" for e
  proof -
    from that obtain a b where ab: "(a, b) \<in> set (pairs_of ?o)" and e: "e = batch_edge ?o (a, b)"
      unfolding conflict_edges_of_map by auto
    from pairs_of_set[OF ab] schema have "is_id (sliceId a)" "is_id (sliceId b)"
      by (simp_all add: footprint_schema_def)
    then show ?thesis
      by (simp add: e batch_edge_def conflict_reasons_distinct conflict_reasons_codes)
  qed
  note spec = clusters_of_spec[of ?es ?ids sha p v]
  have ends: "\<forall>e\<in>set ?es. leftSliceId e \<in> set ?ids \<and> rightSliceId e \<in> set ?ids"
    using conflict_edges_of_endpoints[of ?o] by simp
  have cluster: "is_stable_id ''conflict-cluster'' (clusterId c)
      \<and> list_all is_id (cluster_slices c) \<and> distinct (cluster_slices c)" if "c \<in> set ?cs" for c
  proof -
    from spec(2)[OF ends] that have c: "distinct (cluster_slices c)"
      "c = cluster_of sha p v (cluster_slices c)" by blast+
    have "set (cluster_slices c) \<subseteq> set ?ids" using spec(1)[OF ends] that by blast
    with ids have "list_all is_id (cluster_slices c)" by (auto simp: list_all_iff)
    moreover have "is_stable_id ''conflict-cluster'' (clusterId c)"
      by (subst c(2)) (simp add: cluster_of_def is_stable_id_stable_id assms(1))
    ultimately show ?thesis using c(1) by simp
  qed
  have dc: "distinct ?cs"
  proof -
    have ne: "cluster_slices c \<noteq> []" if "c \<in> set ?cs" for c
      using spec(2)[OF ends] that by (metis Image_singleton_iff empty_iff list.set(1) rtrancl.rtrancl_refl)
    have "distinct (map f xs)"
      if "distinct (concat (map f xs))" "\<And>x. x \<in> set xs \<Longrightarrow> f x \<noteq> []"
      for f :: "conflict_cluster \<Rightarrow> string list" and xs
      using that
    proof (induction xs)
      case (Cons x xs)
      then obtain s where s: "s \<in> set (f x)" by (cases "f x") auto
      have "f x \<noteq> f y" if "y \<in> set xs" for y
      proof
        assume "f x = f y"
        with s have "s \<in> set (f y)" by simp
        with that s Cons.prems(1) show False by fastforce
      qed
      with Cons show ?case by auto
    qed simp
    from this[OF spec(3)[OF ends] ne] show ?thesis by (simp only: distinct_map)
  qed
  have "build_conflict_report sha p fp v ds \<noteq> Inl (Schema_Error ''controlled-conflict-report'')"
    using assms(1-4) schema fps fid edge cluster dc distinct_conflict_edges[OF d']
    by (simp add: build_conflict_report_def Let_def report_schema_def list_all_iff is_stable_id_stable_id)
  then show ?thesis
    by (auto simp: build_conflict_report_def Let_def split: if_splits)
qed

end
