(* ===== verification/Dependency_Order.thy ===== *)
theory Dependency_Order
  imports Conflict_Graph
begin

text \<open>
  \<open>_dependency_depths\<close> of \<open>controlled_planner.py\<close>: Kahn's algorithm on the declared
  dependencies of a batch. The priority queue is the sorted list of the ready slices:
  \<open>heappop\<close> takes its head, \<open>heappush\<close> is \<^const>\<open>insort\<close>. The theorems say which batches
  are ordered, which error the others get, and that the depth of a slice is the length of
  the longest dependency chain that starts at it.
\<close>

section \<open>The algorithm\<close>

definition count_of :: "(string, int) dict \<Rightarrow> string \<Rightarrow> int" where
  "count_of d s = (case map_of d s of Some n \<Rightarrow> n | None \<Rightarrow> 0)"

lemma count_of_update [simp]:
  "count_of (AList.update k v d) s = (if s = k then v else count_of d s)"
  by (simp add: count_of_def update_conv')

text \<open>\<open>dependents[dependency_id]\<close> after both loops: one entry per occurrence, sorted.\<close>

definition dependents_of :: "'a slice_footprint_scheme list \<Rightarrow> string \<Rightarrow> string list" where
  "dependents_of ds s =
     sort (concat (map (\<lambda>d. map (\<lambda>_. sliceId d) (filter (\<lambda>t. t = s) (dependencySet d))) ds))"

record kahn_state =
  kahn_ready :: "string list"
  kahn_depths :: "(string, int) dict"
  kahn_remaining :: "(string, int) dict"
  kahn_processed :: nat

text \<open>The body of the inner loop, for the popped slice \<open>s\<close> and one of its dependents.\<close>

definition relax :: "string \<Rightarrow> string \<Rightarrow> kahn_state \<Rightarrow> kahn_state" where
  "relax s dependent st =
     (let depths = AList.update dependent
            (max (count_of (kahn_depths st) dependent) (count_of (kahn_depths st) s + 1))
            (kahn_depths st);
          count = count_of (kahn_remaining st) dependent - 1
      in st\<lparr>kahn_depths := depths,
            kahn_remaining := AList.update dependent count (kahn_remaining st),
            kahn_ready := (if count = 0 then insort dependent (kahn_ready st) else kahn_ready st)\<rparr>)"

definition pop_ready :: "(string \<Rightarrow> string list) \<Rightarrow> string \<Rightarrow> string list \<Rightarrow> kahn_state \<Rightarrow> kahn_state" where
  "pop_ready dependents s ready st =
     fold (relax s) (dependents s)
       (st\<lparr>kahn_ready := ready, kahn_processed := kahn_processed st + 1\<rparr>)"

text \<open>The loop ends: a pop uses up one queue entry, a push one unit of the open counts.\<close>

definition open_count :: "(string, int) dict \<Rightarrow> nat" where
  "open_count d = sum_list (map (nat \<circ> snd) d)"

lemma open_count_update:
  "count_of d k \<ge> 1 \<Longrightarrow> open_count (AList.update k (count_of d k - 1) d) + 1 = open_count d"
  "count_of d k \<le> 0 \<Longrightarrow> open_count (AList.update k (count_of d k - 1) d) = open_count d"
  by (induction d) (auto simp: open_count_def count_of_def split: if_splits)

lemma relax_measure:
  "open_count (kahn_remaining (relax s t st)) + length (kahn_ready (relax s t st))
    \<le> open_count (kahn_remaining st) + length (kahn_ready st)"
  using open_count_update[of "kahn_remaining st" t]
  by (cases "count_of (kahn_remaining st) t \<ge> 1") (auto simp: relax_def Let_def)

lemma fold_relax_measure:
  "open_count (kahn_remaining (fold (relax s) ts st)) + length (kahn_ready (fold (relax s) ts st))
    \<le> open_count (kahn_remaining st) + length (kahn_ready st)"
  by (induction ts arbitrary: st) (auto intro: order_trans[OF _ relax_measure])

function kahn_loop :: "(string \<Rightarrow> string list) \<Rightarrow> kahn_state \<Rightarrow> kahn_state" where
  "kahn_loop dependents st =
     (case kahn_ready st of
        [] \<Rightarrow> st
      | s # ready \<Rightarrow> kahn_loop dependents (pop_ready dependents s ready st))"
  by auto
termination
proof (relation "measure (\<lambda>(_, st). open_count (kahn_remaining st) + length (kahn_ready st))", goal_cases)
  case (2 dependents st s ready)
  then show ?case
    using fold_relax_measure[of s "dependents s"
        "st\<lparr>kahn_ready := ready, kahn_processed := kahn_processed st + 1\<rparr>"]
    by (simp add: pop_ready_def)
qed simp

declare kahn_loop.simps [simp del]

definition kahn_start :: "'a slice_footprint_scheme list \<Rightarrow> kahn_state" where
  "kahn_start ds =
     (let remaining = dict_of (map (\<lambda>d. (sliceId d, int (length (dependencySet d)))) ds)
      in \<lparr>kahn_ready = sort (map fst (filter (\<lambda>kv. snd kv = 0) remaining)),
          kahn_depths = dict_of (map (\<lambda>d. (sliceId d, 0)) ds),
          kahn_remaining = remaining,
          kahn_processed = 0\<rparr>)"

definition dependency_depths :: "'a slice_footprint_scheme list \<Rightarrow> (string, int) dict result" where
  "dependency_depths ds =
     (let by_id = dict_of (map (\<lambda>d. (sliceId d, d)) ds) in
      bindE (raise_if (list_ex (\<lambda>d. list_ex (\<lambda>s. map_of by_id s = None) (dependencySet d)) ds)
               (Planning_Error ''UNKNOWN_DEPENDENCY'')) (\<lambda>_.
      let st = kahn_loop (dependents_of ds) (kahn_start ds) in
      bindE (raise_if (kahn_processed st \<noteq> length by_id) (Planning_Error ''DEPENDENCY_CYCLE'')) (\<lambda>_.
        Inr (kahn_depths st))))"

section \<open>One turn of the loop\<close>

lemma relax_select:
  "count_of (kahn_remaining (relax s t st)) v =
     (if v = t then count_of (kahn_remaining st) t - 1 else count_of (kahn_remaining st) v)"
  "count_of (kahn_depths (relax s t st)) v =
     (if v = t then max (count_of (kahn_depths st) t) (count_of (kahn_depths st) s + 1)
      else count_of (kahn_depths st) v)"
  "set (kahn_ready (relax s t st)) =
     set (kahn_ready st) \<union> (if count_of (kahn_remaining st) t = 1 then {t} else {})"
  "kahn_processed (relax s t st) = kahn_processed st"
  by (auto simp: relax_def Let_def set_insort_key)

lemma relax_distinct:
  "distinct (kahn_ready st) \<Longrightarrow> (count_of (kahn_remaining st) t = 1 \<Longrightarrow> t \<notin> set (kahn_ready st)) \<Longrightarrow>
    distinct (kahn_ready (relax s t st))"
  by (auto simp: relax_def Let_def distinct_insort)

lemma fold_relax_select:
  assumes "distinct ts" and "s \<notin> set ts"
  shows "count_of (kahn_remaining (fold (relax s) ts st)) v =
     count_of (kahn_remaining st) v - (if v \<in> set ts then 1 else 0)"
  and "count_of (kahn_depths (fold (relax s) ts st)) v =
     (if v \<in> set ts then max (count_of (kahn_depths st) v) (count_of (kahn_depths st) s + 1)
      else count_of (kahn_depths st) v)"
  and "set (kahn_ready (fold (relax s) ts st)) =
     set (kahn_ready st) \<union> {t \<in> set ts. count_of (kahn_remaining st) t = 1}"
  and "kahn_processed (fold (relax s) ts st) = kahn_processed st"
  using assms by (induction ts arbitrary: st) (auto simp: relax_select)

lemma fold_relax_distinct:
  "distinct ts \<Longrightarrow> distinct (kahn_ready st) \<Longrightarrow>
    (\<forall>t\<in>set ts. count_of (kahn_remaining st) t = 1 \<longrightarrow> t \<notin> set (kahn_ready st)) \<Longrightarrow>
    distinct (kahn_ready (fold (relax s) ts st))"
proof (induction ts arbitrary: st)
  case (Cons t ts)
  have "distinct (kahn_ready (fold (relax s) ts (relax s t st)))"
  proof (rule Cons.IH)
    show "distinct ts" using Cons.prems(1) by simp
    show "distinct (kahn_ready (relax s t st))"
      by (rule relax_distinct) (use Cons.prems(2,3) in auto)
    show "\<forall>u\<in>set ts. count_of (kahn_remaining (relax s t st)) u = 1 \<longrightarrow> u \<notin> set (kahn_ready (relax s t st))"
      using Cons.prems(1,3) by (auto simp: relax_select)
  qed
  then show ?case by simp
qed simp

section \<open>The invariant\<close>

text \<open>
  \<open>E\<close> relates a slice to its dependencies, \<open>V\<close> are the slices, \<open>P\<close> the popped ones: they are
  closed under dependencies; a slice is in the queue exactly when it is next; its open count is
  the number of dependencies not popped; its depth is the longest chain through popped ones.
\<close>

definition kahn_inv :: "(string \<times> string) set \<Rightarrow> string set \<Rightarrow> string set \<Rightarrow> kahn_state \<Rightarrow> bool" where
  "kahn_inv E V P st =
     (P \<subseteq> V \<and> kahn_processed st = card P \<and> distinct (kahn_ready st)
      \<and> set (kahn_ready st) = {v \<in> V. v \<notin> P \<and> E `` {v} \<subseteq> P}
      \<and> (\<forall>v\<in>P. E `` {v} \<subseteq> P)
      \<and> (\<forall>v\<in>V. count_of (kahn_remaining st) v = int (card (E `` {v} - P)))
      \<and> (\<forall>v\<in>V. count_of (kahn_depths st) v =
           Max (insert 0 ((\<lambda>u. count_of (kahn_depths st) u + 1) ` (E `` {v} \<inter> P)))))"

lemma card_remove_int: "finite A \<Longrightarrow> x \<in> A \<Longrightarrow> int (card (A - {x})) = int (card A) - 1"
  using card.remove[of A x] by simp

lemma kahn_inv_step:
  assumes inv: "kahn_inv E V P st" and r: "kahn_ready st = s # ready"
    and EV: "E \<subseteq> V \<times> V" and V: "finite V"
    and dep: "\<And>u. distinct (dependents u) \<and> set (dependents u) = {v. (v, u) \<in> E}"
  shows "kahn_inv E V (insert s P) (pop_ready dependents s ready st)"
proof -
  let ?st = "st\<lparr>kahn_ready := ready, kahn_processed := kahn_processed st + 1\<rparr>"
  let ?new = "pop_ready dependents s ready st"
  from inv r have s: "s \<in> V" "s \<notin> P" "E `` {s} \<subseteq> P" and P: "P \<subseteq> V"
    and ready: "set ready = {v \<in> V. v \<notin> P \<and> v \<noteq> s \<and> E `` {v} \<subseteq> P}" "distinct ready"
    and closed: "\<forall>v\<in>P. E `` {v} \<subseteq> P"
    and rem: "\<And>v. v \<in> V \<Longrightarrow> count_of (kahn_remaining st) v = int (card (E `` {v} - P))"
    and depth: "\<And>v. v \<in> V \<Longrightarrow> count_of (kahn_depths st) v =
           Max (insert 0 ((\<lambda>u. count_of (kahn_depths st) u + 1) ` (E `` {v} \<inter> P)))"
    and pr: "kahn_processed st = card P"
    unfolding kahn_inv_def by auto
  have finP: "finite P" using P V by (rule finite_subset)
  have finE: "finite (E `` {v})" for v
    using finite_subset[OF EV] V by (simp add: finite_Image)
  have self: "s \<notin> set (dependents s)" using s dep by auto
  note sel = fold_relax_select[OF conjunct1[OF dep] self, where st = ?st, folded pop_ready_def, simplified]
  have rem': "count_of (kahn_remaining ?new) v = int (card (E `` {v} - insert s P))" if "v \<in> V" for v
  proof (cases "(v, s) \<in> E")
    case True
    then have "E `` {v} - insert s P = (E `` {v} - P) - {s}" and "s \<in> E `` {v} - P" using s by auto
    then have "int (card (E `` {v} - insert s P)) = int (card (E `` {v} - P)) - 1"
      using card_remove_int[of "E `` {v} - P" s] finE[of v] by simp
    with True show ?thesis using sel(1)[of v] rem[OF that] dep by simp
  next
    case False
    then have "E `` {v} - insert s P = E `` {v} - P" by auto
    with False show ?thesis using sel(1)[of v] rem[OF that] dep by simp
  qed
  have single: "card (E `` {v} - P) = 1 \<longleftrightarrow> E `` {v} \<subseteq> insert s P" if "(v, s) \<in> E" for v
  proof -
    have "s \<in> E `` {v} - P" using that s by auto
    then have "card (E `` {v} - P) = 1 \<longleftrightarrow> E `` {v} - P = {s}"
      by (metis card_1_singletonE is_singletonI is_singleton_altdef singletonD)
    also have "\<dots> \<longleftrightarrow> E `` {v} \<subseteq> insert s P" using \<open>s \<in> E `` {v} - P\<close> by auto
    finally show ?thesis .
  qed
  have one: "count_of (kahn_remaining st) v = 1 \<longleftrightarrow> E `` {v} \<subseteq> insert s P" if "(v, s) \<in> E" for v
    using single[OF that] rem[of v] that EV by auto
  have ready': "set (kahn_ready ?new) = {v \<in> V. v \<notin> insert s P \<and> E `` {v} \<subseteq> insert s P}"
  proof -
    have "set (kahn_ready ?new) = set ready \<union> {v. (v, s) \<in> E \<and> E `` {v} \<subseteq> insert s P}"
      using sel(3) one dep by auto
    also have "\<dots> = {v \<in> V. v \<notin> insert s P \<and> E `` {v} \<subseteq> insert s P}"
      using ready(1) EV closed s by auto
    finally show ?thesis .
  qed
  have dist': "distinct (kahn_ready ?new)"
    unfolding pop_ready_def
  proof (rule fold_relax_distinct)
    show "\<forall>t\<in>set (dependents s). count_of (kahn_remaining ?st) t = 1 \<longrightarrow> t \<notin> set (kahn_ready ?st)"
      using dep ready(1) s by auto
  qed (use dep ready in simp_all)
  have same: "count_of (kahn_depths ?new) u = count_of (kahn_depths st) u" if "u \<in> insert s P" for u
    using sel(2)[of u] that closed s dep by auto
  have depth': "count_of (kahn_depths ?new) v =
      Max (insert 0 ((\<lambda>u. count_of (kahn_depths ?new) u + 1) ` (E `` {v} \<inter> insert s P)))"
    if "v \<in> V" for v
  proof -
    let ?f = "\<lambda>u. count_of (kahn_depths st) u + 1"
    have eq: "(\<lambda>u. count_of (kahn_depths ?new) u + 1) ` (E `` {v} \<inter> insert s P) =
        ?f ` (E `` {v} \<inter> insert s P)"
      by (rule image_cong) (use same in auto)
    show ?thesis
    proof (cases "(v, s) \<in> E")
      case True
      then have "insert 0 (?f ` (E `` {v} \<inter> insert s P)) =
          insert (?f s) (insert 0 (?f ` (E `` {v} \<inter> P)))" by auto
      with True show ?thesis unfolding eq using sel(2)[of v] depth[OF that] dep finP
        by (simp add: max.commute)
    next
      case False
      then have "E `` {v} \<inter> insert s P = E `` {v} \<inter> P" by auto
      with False show ?thesis unfolding eq using sel(2)[of v] depth[OF that] dep by simp
    qed
  qed
  have proc': "kahn_processed ?new = card (insert s P)" using sel(4) pr s finP by simp
  have closed': "\<forall>v\<in>insert s P. E `` {v} \<subseteq> insert s P" using closed s(3) by blast
  have "insert s P \<subseteq> V" using s(1) P by blast
  with proc' dist' ready' closed' show ?thesis unfolding kahn_inv_def
    by (intro conjI ballI rem' depth') (assumption | erule (1) bspec)+
qed

lemma kahn_loop_inv:
  assumes "E \<subseteq> V \<times> V" and "finite V"
    and "\<And>u. distinct (dependents u) \<and> set (dependents u) = {v. (v, u) \<in> E}"
    and "kahn_inv E V P st"
  shows "\<exists>Q. kahn_inv E V Q (kahn_loop dependents st) \<and> kahn_ready (kahn_loop dependents st) = []"
  using assms
proof (induction dependents st arbitrary: P rule: kahn_loop.induct)
  case (1 dependents st)
  show ?case
  proof (cases "kahn_ready st")
    case Nil
    then have "kahn_loop dependents st = st" by (simp add: kahn_loop.simps)
    with 1(5) Nil show ?thesis by auto
  next
    case (Cons s ready)
    then have "kahn_loop dependents st = kahn_loop dependents (pop_ready dependents s ready st)"
      by (subst kahn_loop.simps) simp
    moreover have "kahn_inv E V (insert s P) (pop_ready dependents s ready st)"
      by (rule kahn_inv_step[OF 1(5) Cons 1(2,3,4)])
    ultimately show ?thesis using 1(1)[OF Cons 1(2,3,4)] by simp
  qed
qed

text \<open>What a batch needs: the slice ids identify the slices, no dependency is listed twice.\<close>

definition sliced :: "'a slice_footprint_scheme list \<Rightarrow> bool" where
  "sliced ds = (distinct (map sliceId ds) \<and> list_all (\<lambda>d. distinct (dependencySet d)) ds)"

definition known_dependencies :: "'a slice_footprint_scheme list \<Rightarrow> bool" where
  "known_dependencies ds = list_all (\<lambda>d. set (dependencySet d) \<subseteq> sliceId ` set ds) ds"

lemma dependency_edges_slices:
  "known_dependencies ds \<Longrightarrow> dependency_edges ds \<subseteq> (sliceId ` set ds) \<times> (sliceId ` set ds)"
  by (auto simp: known_dependencies_def dependency_edges_def list_all_iff)

lemma dependency_edges_Image:
  assumes "distinct (map sliceId ds)" and "d \<in> set ds"
  shows "dependency_edges ds `` {sliceId d} = set (dependencySet d)"
  using assms by (auto simp: dependency_edges_def distinct_map inj_on_def)

lemma filter_eq_distinct: "distinct xs \<Longrightarrow> filter (\<lambda>t. t = u) xs = (if u \<in> set xs then [u] else [])"
  by (induction xs) (auto simp: filter_empty_conv)

lemma dependents_of_spec:
  assumes "sliced ds"
  shows "distinct (dependents_of ds u) \<and> set (dependents_of ds u) = {v. (v, u) \<in> dependency_edges ds}"
proof
  show "set (dependents_of ds u) = {v. (v, u) \<in> dependency_edges ds}"
    by (auto simp: dependents_of_def dependency_edges_def)
  have "distinct (concat (map (\<lambda>d. map (\<lambda>_. sliceId d) (filter (\<lambda>t. t = u) (dependencySet d))) ds))"
    using assms
  proof (induction ds)
    case (Cons d ds)
    have "distinct (map (\<lambda>_. sliceId d) (filter (\<lambda>t. t = u) (dependencySet d)))"
      using Cons.prems by (simp add: sliced_def filter_eq_distinct)
    then show ?case using Cons by (auto simp: sliced_def)
  qed simp
  then show "distinct (dependents_of ds u)" by (simp add: dependents_of_def)
qed

lemma kahn_start_inv:
  assumes "sliced ds"
  shows "kahn_inv (dependency_edges ds) (sliceId ` set ds) {} (kahn_start ds)"
proof -
  let ?E = "dependency_edges ds" and ?V = "sliceId ` set ds"
  have d: "distinct (map sliceId ds)" using assms by (simp add: sliced_def)
  let ?rem = "map (\<lambda>d. (sliceId d, int (length (dependencySet d)))) ds"
  have start: "kahn_start ds =
      \<lparr>kahn_ready = sort (map sliceId (filter (\<lambda>d. dependencySet d = []) ds)),
       kahn_depths = map (\<lambda>d. (sliceId d, 0)) ds, kahn_remaining = ?rem, kahn_processed = 0\<rparr>"
    by (simp add: kahn_start_def Let_def dict_of_key_distinct[OF d] filter_map comp_def)
  have rem: "count_of ?rem v = int (card (?E `` {v}))" if v: "v \<in> ?V" for v
  proof -
    from v obtain x where x: "x \<in> set ds" "v = sliceId x" by blast
    then have "distinct (dependencySet x)" using assms by (simp add: sliced_def list_all_iff)
    then show ?thesis
      by (simp add: x(2) count_of_def map_of_map_key[OF d x(1)] dependency_edges_Image[OF d x(1)]
          distinct_card)
  qed
  have zero: "count_of (map (\<lambda>d. (sliceId d, 0)) ds) v = 0" for v
    by (auto simp: count_of_def split: option.split dest!: map_of_SomeD)
  have ready: "sliceId ` {x \<in> set ds. dependencySet x = []} = {v \<in> ?V. ?E `` {v} \<subseteq> {}}"
    using dependency_edges_Image[OF d] by fastforce
  have "distinct (map sliceId (filter (\<lambda>d. dependencySet d = []) ds))"
    using d by (rule distinct_map_filter)
  then show ?thesis
    unfolding kahn_inv_def start using ready rem zero by simp
qed

section \<open>Which batches are ordered\<close>

lemma kahn_final_acyclic:
  assumes inv: "kahn_inv E V P st" and r: "kahn_ready st = []" and EV: "E \<subseteq> V \<times> V" and V: "finite V"
  shows "kahn_processed st = card V \<longleftrightarrow> acyclic E"
proof -
  have P: "P \<subseteq> V" and stuck: "\<And>v. v \<in> V \<Longrightarrow> v \<notin> P \<Longrightarrow> \<not> E `` {v} \<subseteq> P"
    and closed: "\<forall>v\<in>P. E `` {v} \<subseteq> P"
    and depth: "\<And>v. v \<in> V \<Longrightarrow> count_of (kahn_depths st) v =
           Max (insert 0 ((\<lambda>u. count_of (kahn_depths st) u + 1) ` (E `` {v} \<inter> P)))"
    using inv r unfolding kahn_inv_def by auto
  have finE: "finite (E `` {v})" for v using finite_subset[OF EV] V by (simp add: finite_Image)
  have pr: "kahn_processed st = card V \<longleftrightarrow> P = V"
    using inv P V unfolding kahn_inv_def by (metis card_subset_eq)
  show ?thesis unfolding pr
  proof
    assume "P = V"
    have edge: "count_of (kahn_depths st) w < count_of (kahn_depths st) v" if "(v, w) \<in> E" for v w
    proof -
      from that EV \<open>P = V\<close> have "v \<in> V" "w \<in> E `` {v} \<inter> P" by auto
      then have "count_of (kahn_depths st) w + 1 \<le> count_of (kahn_depths st) v"
        unfolding depth[OF \<open>v \<in> V\<close>] by (intro Max_ge) (use finE in auto)
      then show ?thesis by simp
    qed
    have "count_of (kahn_depths st) w < count_of (kahn_depths st) v" if "(v, w) \<in> E\<^sup>+" for v w
      using that by (induction rule: trancl_induct) (auto dest: edge)
    then show "acyclic E" unfolding acyclic_def by blast
  next
    assume "acyclic E"
    then have wf: "wf (E\<inverse>)" using finite_subset[OF EV] V by (simp add: finite_acyclic_wf_converse)
    show "P = V"
    proof (rule ccontr)
      assume "P \<noteq> V"
      then obtain x where "x \<in> V - P" using P by blast
      from wfE_min[OF wf this] obtain z where z: "z \<in> V - P" "\<And>y. (y, z) \<in> E\<inverse> \<Longrightarrow> y \<notin> V - P"
        by metis
      then have "E `` {z} \<subseteq> P" using EV by blast
      with stuck z(1) show False by blast
    qed
  qed
qed

lemma map_of_key_None: "map_of (map (\<lambda>x. (f x, g x)) xs) k = None \<longleftrightarrow> k \<notin> f ` set xs"
  by (induction xs) auto

lemma dependency_depths_run:
  assumes "sliced ds" and "known_dependencies ds"
  defines "st \<equiv> kahn_loop (dependents_of ds) (kahn_start ds)"
  obtains P where "kahn_inv (dependency_edges ds) (sliceId ` set ds) P st" and "kahn_ready st = []"
    and "dependency_depths ds =
      (if acyclic (dependency_edges ds) then Inr (kahn_depths st) else Inl (Planning_Error ''DEPENDENCY_CYCLE''))"
proof -
  let ?V = "sliceId ` set ds"
  note E = dependency_edges_slices[OF assms(2)]
  from kahn_loop_inv[OF E _ dependents_of_spec[OF assms(1)] kahn_start_inv[OF assms(1)]]
  obtain P where P: "kahn_inv (dependency_edges ds) ?V P st" "kahn_ready st = []"
    unfolding st_def by auto
  have d: "distinct (map sliceId ds)" using assms(1) by (simp add: sliced_def)
  have card: "length ds = card ?V" using d by (metis distinct_card length_map set_map)
  have known: "\<not> list_ex (\<lambda>d. list_ex (\<lambda>s. map_of (map (\<lambda>d. (sliceId d, d)) ds) s = None) (dependencySet d)) ds"
    using assms(2) by (auto simp: known_dependencies_def list_ex_iff list_all_iff map_of_key_None)
  have "dependency_depths ds =
      (if acyclic (dependency_edges ds) then Inr (kahn_depths st) else Inl (Planning_Error ''DEPENDENCY_CYCLE''))"
    using kahn_final_acyclic[OF P E] known
    by (simp add: dependency_depths_def Let_def dict_of_key_distinct[OF d] card st_def[symmetric] raise_if_def)
  with P show ?thesis by (rule that)
qed

lemma dependency_depths_unknown:
  assumes "distinct (map sliceId ds)" and "\<not> known_dependencies ds"
  shows "dependency_depths ds = Inl (Planning_Error ''UNKNOWN_DEPENDENCY'')"
  using assms by (auto simp: dependency_depths_def Let_def dict_of_key_distinct known_dependencies_def
      list_all_iff list_ex_iff map_of_key_None raise_if_def)

section \<open>Depths are longest dependency chains\<close>

text \<open>\<open>(s, t) \<in> E ^^ n\<close>: a chain of \<open>n\<close> dependencies leads from \<open>s\<close> to \<open>t\<close>.\<close>

definition longest_chain :: "('a \<times> 'a) set \<Rightarrow> 'a \<Rightarrow> int \<Rightarrow> bool" where
  "longest_chain E s n = (0 \<le> n \<and> (\<exists>t. (s, t) \<in> E ^^ nat n) \<and> (\<forall>k t. (s, t) \<in> E ^^ k \<longrightarrow> int k \<le> n))"

lemma longest_chain_unique: "longest_chain E s m \<Longrightarrow> longest_chain E s n \<Longrightarrow> m = n"
  unfolding longest_chain_def by (metis antisym nat_0_le)

lemma longest_chainI:
  assumes wf: "wf (E\<inverse>)" and fin: "\<And>v. finite (E `` {v})" and EV: "E \<subseteq> V \<times> V"
    and depth: "\<And>v. v \<in> V \<Longrightarrow> f v = Max (insert 0 ((\<lambda>u. f u + 1 :: int) ` (E `` {v})))"
    and v: "v \<in> V"
  shows "longest_chain E v (f v)"
  using wf v
proof (induction v rule: wf_induct_rule)
  case (less v)
  have next_chain: "longest_chain E u (f u)" if "(v, u) \<in> E" for u
    using less.IH that EV by blast
  have mem: "f v \<in> insert 0 ((\<lambda>u. f u + 1) ` (E `` {v}))"
    unfolding depth[OF less.prems] by (rule Max_in) (use fin in auto)
  have ge: "x \<le> f v" if "x \<in> insert 0 ((\<lambda>u. f u + 1) ` (E `` {v}))" for x
    unfolding depth[OF less.prems] by (rule Max_ge[OF _ that]) (use fin in auto)
  have pos: "0 \<le> f v" by (rule ge) simp
  moreover have "\<exists>t. (v, t) \<in> E ^^ nat (f v)"
  proof (cases "f v = 0")
    case False
    with mem obtain u where u: "(v, u) \<in> E" "f v = f u + 1" by auto
    from next_chain[OF u(1)] obtain t where "0 \<le> f u" "(u, t) \<in> E ^^ nat (f u)"
      by (auto simp: longest_chain_def)
    then have "(v, t) \<in> E ^^ Suc (nat (f u))" "nat (f v) = Suc (nat (f u))"
      using u relpow_Suc_I2[OF u(1)] by auto
    then show ?thesis by metis
  qed simp
  moreover have "int k \<le> f v" if "(v, t) \<in> E ^^ k" for k t
  proof (cases k)
    case (Suc j)
    with that obtain u where u: "(v, u) \<in> E" "(u, t) \<in> E ^^ j" by (metis relpow_Suc_D2)
    then have "int j \<le> f u" using next_chain by (auto simp: longest_chain_def)
    moreover have "f u + 1 \<le> f v" by (rule ge) (use u(1) in auto)
    ultimately show ?thesis using Suc by simp
  qed (use pos in simp)
  ultimately show ?case unfolding longest_chain_def by blast
qed

lemma dependency_depths_longest:
  assumes ok: "sliced ds" "known_dependencies ds" "acyclic (dependency_edges ds)"
  obtains depths where "dependency_depths ds = Inr depths"
    and "\<And>d. d \<in> set ds \<Longrightarrow> longest_chain (dependency_edges ds) (sliceId d) (count_of depths (sliceId d))"
proof -
  let ?E = "dependency_edges ds" and ?V = "sliceId ` set ds"
  let ?st = "kahn_loop (dependents_of ds) (kahn_start ds)"
  note E = dependency_edges_slices[OF ok(2)]
  have finE: "finite ?E" by (rule finite_subset[OF E]) simp
  obtain P where P: "kahn_inv ?E ?V P ?st" "kahn_ready ?st = []"
    and res: "dependency_depths ds = Inr (kahn_depths ?st)"
    using dependency_depths_run[OF ok(1,2)] ok(3) by metis
  from kahn_final_acyclic[OF P E] ok(3) have "kahn_processed ?st = card ?V" by simp
  with P(1) have PV: "P = ?V" unfolding kahn_inv_def
    by (metis card_subset_eq finite_imageI finite_set)
  have chain: "longest_chain ?E v (count_of (kahn_depths ?st) v)" if v: "v \<in> ?V" for v
  proof (rule longest_chainI[OF _ _ E _ v])
    show "wf (?E\<inverse>)" using finE ok(3) by (rule finite_acyclic_wf_converse)
    show "finite (?E `` {u})" for u using finE by (rule finite_Image)
    show "count_of (kahn_depths ?st) u =
        Max (insert 0 ((\<lambda>w. count_of (kahn_depths ?st) w + 1) ` (?E `` {u})))" if "u \<in> ?V" for u
    proof -
      have "?E `` {u} \<inter> P = ?E `` {u}" using E PV by blast
      with P(1) that show ?thesis unfolding kahn_inv_def by metis
    qed
  qed
  show ?thesis by (rule that[OF res chain]) simp
qed

end
