(* ===== verification/Execution_Planner.thy ===== *)
theory Execution_Planner
  imports Dependency_Order
begin

text \<open>
  \<open>controlled_planner.py\<close>: the authorization decision of a planning request and the
  provisional execution plan. The coordinator's projection of a plan is in
  \<open>Coordinator_Projection\<close>.
\<close>

section \<open>The authorization decision\<close>

definition protected_action_classes :: "string list" where
  "protected_action_classes =
     [''action:database-write'', ''action:migration-apply'', ''action:destructive'',
      ''action:production-access'', ''action:landing'', ''action:wave-entry'', ''action:push'',
      ''action:release'', ''action:deploy'', ''action:secret-access'', ''action:credential-access'']"

text \<open>The conditions of \<open>_authorization_reasons\<close>, in its order, for parsed instants.\<close>

definition authorization_conditions ::
    "authorization_envelope \<Rightarrow> int \<Rightarrow> int \<Rightarrow> int \<Rightarrow> slice_descriptor \<Rightarrow> (bool \<times> string) list" where
  "authorization_conditions e issued expires as_of d =
     [(as_of < issued, ''ENVELOPE_NOT_YET_VALID''),
      (expires \<le> as_of, ''ENVELOPE_EXPIRED''),
      (portfolioId d \<noteq> env_portfolioId e, ''PORTFOLIO_NOT_PERMITTED''),
      (deliveryTrackId d \<notin> set (permittedDeliveryTracks e), ''DELIVERY_TRACK_NOT_PERMITTED''),
      (sliceClass d \<notin> set (permittedSliceClasses e), ''SLICE_CLASS_NOT_PERMITTED''),
      (authorizationClass d \<notin> set (permittedActionClasses e), ''ACTION_CLASS_NOT_PERMITTED''),
      (authorizationClass d \<in> set protected_action_classes
         \<or> authorizationClass d \<in> set (deniedActions e), ''ACTION_EXPLICITLY_DENIED''),
      (list_ex (\<lambda>path. \<not> list_ex (\<lambda>prefix. contains_path prefix path) (permittedPathPrefixes e))
         (exactWriteSet d @ ephemeralWriteSet d), ''WRITESET_OUTSIDE_PREFIX''),
      (slice_state_of d \<noteq> READY, ''SLICE_NOT_READY'')]"

definition authorization_reasons ::
    "slice_descriptor \<Rightarrow> authorization_envelope \<Rightarrow> int \<Rightarrow> string list result" where
  "authorization_reasons d e as_of =
     bindE (parse_rfc3339 (issuedAt e)) (\<lambda>issued.
     bindE (parse_rfc3339 (expiresAt e)) (\<lambda>expires.
       Inr (sort (reasons_where (authorization_conditions e issued expires as_of d)))))"

record slice_decision =
  decision_sliceId :: string
  decision_result :: string
  decision_reasons :: "string list"

record authorization_decision =
  decision_projectId :: string
  decision_snapshotFingerprint :: string
  decision_envelopeId :: string
  decision_envelopeDigest :: string
  decision_asOf :: string
  decisions :: "slice_decision list"
  decision_gate :: gate
  authorizationDecisionId :: string

definition slice_decision_json :: "slice_decision \<Rightarrow> json" where
  "slice_decision_json x =
     JObj [(''sliceId'', JStr (decision_sliceId x)), (''result'', JStr (decision_result x)),
           (''reasons'', jstrs (decision_reasons x))]"

definition decision_payload :: "authorization_decision \<Rightarrow> (string \<times> json) list" where
  "decision_payload a =
     [(''schemaVersion'', JStr ''controlled-authorization-decision/v1''),
      (''projectId'', JStr (decision_projectId a)),
      (''authoritySnapshotFingerprint'', JStr (decision_snapshotFingerprint a)),
      (''envelopeId'', JStr (decision_envelopeId a)),
      (''envelopeDigest'', JStr (decision_envelopeDigest a)),
      (''asOf'', JStr (decision_asOf a)),
      (''decisions'', JArr (map slice_decision_json (decisions a))),
      (''gate'', JStr (gate_str (decision_gate a)))]"

text \<open>\<open>core/schemas/controlled-authorization-decision.schema.json\<close>\<close>

definition decision_schema :: "authorization_decision \<Rightarrow> bool" where
  "decision_schema a =
     (is_id (decision_projectId a) \<and> is_digest (decision_snapshotFingerprint a)
      \<and> is_id (decision_envelopeId a) \<and> is_digest (decision_envelopeDigest a)
      \<and> decision_asOf a \<noteq> []
      \<and> list_all (\<lambda>x. is_id (decision_sliceId x) \<and> decision_result x \<in> {''ALLOW'', ''REJECT''}
                       \<and> set (decision_reasons x) \<subseteq> set conflict_reason_codes
                       \<and> distinct (decision_reasons x)) (decisions a)
      \<and> distinct (decisions a)
      \<and> is_stable_id ''authorization-decision'' (authorizationDecisionId a))"

definition decide_slice ::
    "authorization_envelope \<Rightarrow> int \<Rightarrow> slice_descriptor \<Rightarrow> slice_decision result" where
  "decide_slice e as_of d =
     bindE (authorization_reasons d e as_of) (\<lambda>reasons.
       Inr \<lparr>decision_sliceId = sliceId d,
            decision_result = (if reasons \<noteq> [] then ''REJECT'' else ''ALLOW''),
            decision_reasons = reasons\<rparr>)"

definition authorization_decision_of ::
    "(string \<Rightarrow> string) \<Rightarrow> planning_request \<Rightarrow> authorization_decision result" where
  "authorization_decision_of sha r =
     (let e = authorizationEnvelope r in
      bindE (parse_rfc3339 (asOf r)) (\<lambda>as_of.
      bindE (mapE (decide_slice e as_of) (sort_key sliceId (slices r))) (\<lambda>ds.
      bindE (parse_rfc3339 (issuedAt e)) (\<lambda>issued.
      bindE (parse_rfc3339 (expiresAt e)) (\<lambda>expires.
      let draft = \<lparr>decision_projectId = request_projectId r,
                   decision_snapshotFingerprint = snapshotFingerprint (authoritySnapshot r),
                   decision_envelopeId = envelopeId e,
                   decision_envelopeDigest = envelopeDigest e,
                   decision_asOf = asOf r,
                   decisions = ds,
                   decision_gate = (if as_of < issued \<or> expires \<le> as_of then NO_GO_GATE else PASS),
                   authorizationDecisionId = []\<rparr>;
          decision = draft\<lparr>authorizationDecisionId :=
                       stable_id sha ''authorization-decision'' (JObj (decision_payload draft))\<rparr>
      in bindE (raise_if (\<not> decision_schema decision)
                  (Schema_Error ''controlled-authorization-decision'')) (\<lambda>_.
         Inr decision))))))"

definition build_authorization_decision ::
    "(string \<Rightarrow> string) \<Rightarrow> planning_request \<Rightarrow> authorization_decision result" where
  "build_authorization_decision sha r =
     bindE (normalize_planning_request sha r) (\<lambda>normalized. authorization_decision_of sha normalized)"

section \<open>Execution requirements\<close>

record slice_requirement =
  requirement_sliceId :: string
  requirement_gates :: "string list"
  requirement_policy :: review_policy

record execution_requirements =
  plan_requiredTests :: "string list"
  plan_requiredGates :: "string list"
  plan_requiredReviewers :: "string list"
  plan_minimumReviewVerdict :: string
  sliceRequirements :: "slice_requirement list"

text \<open>\<open>if gate not in required_gates: required_gates.append(gate)\<close>\<close>

definition add_gate :: "string \<Rightarrow> string list \<Rightarrow> string list" where
  "add_gate g gates = (if g \<in> set gates then gates else gates @ [g])"

definition execution_requirements_of ::
    "authorization_envelope \<Rightarrow> slice_descriptor list \<Rightarrow> execution_requirements" where
  "execution_requirements_of e proposed =
     (let ordered = sort_key sliceId proposed in
      \<lparr>plan_requiredTests = requiredTests e,
       plan_requiredGates = fold (\<lambda>d gates. fold add_gate (requiredGates d) gates) ordered (env_requiredGates e),
       plan_requiredReviewers =
         sorted_list_of_set (set (requiredReviewers e) \<union> set (map (\<lambda>d. reviewerRole (reviewPolicy d)) ordered)),
       plan_minimumReviewVerdict = minimumReviewVerdict e,
       sliceRequirements =
         map (\<lambda>d. \<lparr>requirement_sliceId = sliceId d, requirement_gates = requiredGates d,
                   requirement_policy = reviewPolicy d\<rparr>) ordered\<rparr>)"

section \<open>The plan\<close>

record plan_entry =
  entry_sliceId :: string
  entry_reasons :: "string list"

record admission =
  admission_sliceId :: string
  conflictClusterId :: string
  admission_descriptorDigest :: string
  exactWriteSetDigest :: string

record execution_plan =
  plan_projectId :: string
  plan_batchBaseCommit :: string
  plan_snapshotFingerprint :: string
  plan_contractRegistryDigest :: string
  plan_dependencyGraphDigest :: string
  plan_envelopeDigest :: string
  plan_conflictPolicyVersion :: string
  plan_harnessVersion :: string
  plan_asOf :: string
  plan_conflictReportId :: string
  plan_authorizationDecisionId :: string
  projectLaneCap :: int
  proposedAdmissions :: "admission list"
  queued :: "plan_entry list"
  blocked :: "plan_entry list"
  rejected :: "plan_entry list"
  executionRequirements :: execution_requirements
  mandatoryStopConditions :: "string list"
  batchPlanId :: string

record plan_bundle =
  conflictReport :: conflict_report
  authorizationDecision :: authorization_decision
  executionPlan :: execution_plan

definition plan_entry_json :: "plan_entry \<Rightarrow> json" where
  "plan_entry_json x =
     JObj [(''sliceId'', JStr (entry_sliceId x)), (''reasons'', jstrs (entry_reasons x))]"

definition admission_json :: "admission \<Rightarrow> json" where
  "admission_json a =
     JObj [(''sliceId'', JStr (admission_sliceId a)),
           (''conflictClusterId'', JStr (conflictClusterId a)),
           (''descriptorDigest'', JStr (admission_descriptorDigest a)),
           (''exactWriteSetDigest'', JStr (exactWriteSetDigest a))]"

definition requirements_json :: "execution_requirements \<Rightarrow> json" where
  "requirements_json q =
     JObj [(''requiredTests'', jstrs (plan_requiredTests q)),
           (''requiredGates'', jstrs (plan_requiredGates q)),
           (''requiredReviewers'', jstrs (plan_requiredReviewers q)),
           (''minimumReviewVerdict'', JStr (plan_minimumReviewVerdict q)),
           (''sliceRequirements'', JArr (map (\<lambda>x.
              JObj [(''sliceId'', JStr (requirement_sliceId x)),
                    (''requiredGates'', jstrs (requirement_gates x)),
                    (''reviewPolicy'', review_policy_json (requirement_policy x))]) (sliceRequirements q)))]"

definition plan_payload :: "execution_plan \<Rightarrow> (string \<times> json) list" where
  "plan_payload p =
     [(''schemaVersion'', JStr ''controlled-execution-plan/v1''),
      (''projectId'', JStr (plan_projectId p)),
      (''batchBaseCommit'', JStr (plan_batchBaseCommit p)),
      (''authoritySnapshotFingerprint'', JStr (plan_snapshotFingerprint p)),
      (''contractRegistryDigest'', JStr (plan_contractRegistryDigest p)),
      (''dependencyGraphDigest'', JStr (plan_dependencyGraphDigest p)),
      (''authorizationEnvelopeDigest'', JStr (plan_envelopeDigest p)),
      (''conflictPolicyVersion'', JStr (plan_conflictPolicyVersion p)),
      (''harnessVersion'', JStr (plan_harnessVersion p)),
      (''asOf'', JStr (plan_asOf p)),
      (''conflictReportId'', JStr (plan_conflictReportId p)),
      (''authorizationDecisionId'', JStr (plan_authorizationDecisionId p)),
      (''provisional'', JBool True),
      (''requiresCoordinatorRecheck'', JBool True),
      (''projectLaneCap'', JInt (projectLaneCap p)),
      (''proposedAdmissions'', JArr (map admission_json (proposedAdmissions p))),
      (''queued'', JArr (map plan_entry_json (queued p))),
      (''blocked'', JArr (map plan_entry_json (blocked p))),
      (''rejected'', JArr (map plan_entry_json (rejected p))),
      (''executionRequirements'', requirements_json (executionRequirements p)),
      (''mandatoryStopConditions'', jstrs (mandatoryStopConditions p))]"

text \<open>\<open>core/schemas/controlled-execution-plan.schema.json\<close>\<close>

definition plan_reason_codes :: "string list" where
  "plan_reason_codes = conflict_reason_codes @ [''ACTIVE_LEASE_CONFLICT'']"

definition entry_schema :: "plan_entry \<Rightarrow> bool" where
  "entry_schema x = (is_id (entry_sliceId x) \<and> set (entry_reasons x) \<subseteq> set plan_reason_codes
                     \<and> distinct (entry_reasons x))"

definition admission_schema :: "admission \<Rightarrow> bool" where
  "admission_schema a = (is_id (admission_sliceId a) \<and> is_stable_id ''conflict-cluster'' (conflictClusterId a)
                         \<and> is_digest (admission_descriptorDigest a) \<and> is_digest (exactWriteSetDigest a))"

definition requirements_schema :: "execution_requirements \<Rightarrow> bool" where
  "requirements_schema q =
     (list_all string_set [plan_requiredTests q, plan_requiredGates q, plan_requiredReviewers q]
      \<and> plan_minimumReviewVerdict q = ''GO_ZERO_FINDINGS''
      \<and> list_all (\<lambda>x. is_id (requirement_sliceId x) \<and> string_set (requirement_gates x)
                       \<and> reviewerRole (requirement_policy x) \<noteq> []
                       \<and> minimumVerdict (requirement_policy x) = ''GO_ZERO_FINDINGS'') (sliceRequirements q)
      \<and> distinct (sliceRequirements q))"

definition plan_schema :: "execution_plan \<Rightarrow> bool" where
  "plan_schema p =
     (is_id (plan_projectId p) \<and> is_commit (plan_batchBaseCommit p)
      \<and> list_all is_digest [plan_snapshotFingerprint p, plan_contractRegistryDigest p,
           plan_dependencyGraphDigest p, plan_envelopeDigest p]
      \<and> plan_conflictPolicyVersion p = ''controlled-conflict-policy/v1''
      \<and> plan_harnessVersion p = ''agent-evolution-harness/0.1.0''
      \<and> plan_asOf p \<noteq> []
      \<and> is_stable_id ''conflict-report'' (plan_conflictReportId p)
      \<and> is_stable_id ''authorization-decision'' (plan_authorizationDecisionId p)
      \<and> 1 \<le> projectLaneCap p \<and> projectLaneCap p \<le> 3
      \<and> list_all admission_schema (proposedAdmissions p) \<and> distinct (proposedAdmissions p)
      \<and> list_all entry_schema (queued p) \<and> distinct (queued p)
      \<and> list_all entry_schema (blocked p) \<and> distinct (blocked p)
      \<and> list_all entry_schema (rejected p) \<and> distinct (rejected p)
      \<and> requirements_schema (executionRequirements p)
      \<and> string_set (mandatoryStopConditions p)
      \<and> is_stable_id ''batch-plan'' (batchPlanId p))"

text \<open>The first loop of \<open>build_provisional_execution_plan\<close>: where a descriptor goes.\<close>

datatype triage =
    is_Reject: Reject (triage_reasons: "string list")
  | is_Block: Block (triage_reasons: "string list")
  | is_Eligible: Eligible

fun open_dependency :: "(string, slice_descriptor) dict \<Rightarrow> string list \<Rightarrow> bool result" where
  "open_dependency by_id [] = Inr False"
| "open_dependency by_id (s # ss) =
     bindE (lookupE by_id s) (\<lambda>d.
       if slice_state_of d \<noteq> CLOSED then Inr True else open_dependency by_id ss)"

definition triage_slice ::
    "(string, slice_decision) dict \<Rightarrow> (string, slice_descriptor) dict \<Rightarrow> slice_descriptor \<Rightarrow> triage result" where
  "triage_slice decision_by_id by_id d =
     bindE (lookupE decision_by_id (sliceId d)) (\<lambda>entry.
     let non_readiness_only = (decision_reasons entry = [''SLICE_NOT_READY'']) in
     if decision_result entry = ''REJECT'' \<and> \<not> non_readiness_only
     then Inr (Reject (decision_reasons entry))
     else if slice_state_of d \<noteq> READY then Inr (Block [''SLICE_NOT_READY''])
     else bindE (open_dependency by_id (dependencySet d)) (\<lambda>dependency_open.
       if dependency_open then Inr (Block [''DEPENDENCY_NOT_CLOSED'']) else Inr Eligible))"

record triage_lists =
  triage_blocked :: "plan_entry list"
  triage_rejected :: "plan_entry list"
  triage_eligible :: "slice_descriptor list"

fun add_triage :: "slice_descriptor \<times> triage \<Rightarrow> triage_lists \<Rightarrow> triage_lists" where
  "add_triage (d, Reject reasons) t =
     t\<lparr>triage_rejected := triage_rejected t @ [\<lparr>entry_sliceId = sliceId d, entry_reasons = reasons\<rparr>]\<rparr>"
| "add_triage (d, Block reasons) t =
     t\<lparr>triage_blocked := triage_blocked t @ [\<lparr>entry_sliceId = sliceId d, entry_reasons = reasons\<rparr>]\<rparr>"
| "add_triage (d, Eligible) t = t\<lparr>triage_eligible := triage_eligible t @ [d]\<rparr>"

definition triage_slices ::
    "(string, slice_decision) dict \<Rightarrow> (string, slice_descriptor) dict \<Rightarrow> slice_descriptor list \<Rightarrow> triage_lists result" where
  "triage_slices decision_by_id by_id ds =
     bindE (mapE (triage_slice decision_by_id by_id) ds) (\<lambda>ts.
       Inr (fold add_triage (zip ds ts) \<lparr>triage_blocked = [], triage_rejected = [], triage_eligible = []\<rparr>))"

text \<open>The second loop: one slice per conflict cluster, at most \<open>lane_cap\<close> slices.\<close>

record schedule =
  schedule_proposed :: "slice_descriptor list"
  schedule_queued :: "plan_entry list"
  occupied_clusters :: "string list"

definition schedule_slice :: "int \<Rightarrow> string \<Rightarrow> slice_descriptor \<Rightarrow> schedule \<Rightarrow> schedule" where
  "schedule_slice lane_cap cluster_id d st =
     (if cluster_id \<in> set (occupied_clusters st)
      then st\<lparr>schedule_queued := schedule_queued st
                @ [\<lparr>entry_sliceId = sliceId d, entry_reasons = [''CONFLICT_CLUSTER_BUSY'']\<rparr>]\<rparr>
      else if int (length (schedule_proposed st)) \<ge> lane_cap
      then st\<lparr>schedule_queued := schedule_queued st
                @ [\<lparr>entry_sliceId = sliceId d, entry_reasons = [''PROJECT_CAPACITY_LIMIT'']\<rparr>]\<rparr>
      else st\<lparr>schedule_proposed := schedule_proposed st @ [d],
              occupied_clusters := cluster_id # occupied_clusters st\<rparr>)"

fun schedule_slices ::
    "int \<Rightarrow> (string, string) dict \<Rightarrow> slice_descriptor list \<Rightarrow> schedule \<Rightarrow> schedule result" where
  "schedule_slices lane_cap cluster_by_slice [] st = Inr st"
| "schedule_slices lane_cap cluster_by_slice (d # ds) st =
     bindE (lookupE cluster_by_slice (sliceId d)) (\<lambda>cluster_id.
       schedule_slices lane_cap cluster_by_slice ds (schedule_slice lane_cap cluster_id d st))"

definition empty_schedule :: schedule where
  "empty_schedule = \<lparr>schedule_proposed = [], schedule_queued = [], occupied_clusters = []\<rparr>"

definition cluster_map :: "conflict_cluster list \<Rightarrow> (string, string) dict" where
  "cluster_map cs = dict_of (concat (map (\<lambda>c. map (\<lambda>s. (s, clusterId c)) (cluster_slices c)) cs))"

definition schedule_key :: "(string, int) dict \<Rightarrow> slice_descriptor \<Rightarrow> int \<times> int \<times> string" where
  "schedule_key depths d = (priority d, count_of depths (sliceId d), sliceId d)"

definition admission_of ::
    "(string \<Rightarrow> string) \<Rightarrow> (string, string) dict \<Rightarrow> slice_descriptor \<Rightarrow> admission result" where
  "admission_of sha cluster_by_slice d =
     bindE (lookupE cluster_by_slice (sliceId d)) (\<lambda>cluster_id.
       Inr \<lparr>admission_sliceId = sliceId d, conflictClusterId = cluster_id,
            admission_descriptorDigest = descriptorDigest d,
            exactWriteSetDigest = exact_writeset_digest sha d\<rparr>)"

definition build_provisional_plan :: "(string \<Rightarrow> string) \<Rightarrow> planning_request \<Rightarrow> plan_bundle result" where
  "build_provisional_plan sha normalized =
     (let descriptors = slices normalized;
          by_id = dict_of (map (\<lambda>d. (sliceId d, d)) descriptors);
          envelope = authorizationEnvelope normalized in
      bindE (dependency_depths descriptors) (\<lambda>depths.
      bindE (build_conflict_report sha (request_projectId normalized)
               (snapshotFingerprint (authoritySnapshot normalized))
               (conflictPolicyVersion normalized) descriptors) (\<lambda>report.
      bindE (authorization_decision_of sha normalized) (\<lambda>decision.
      let decision_by_id = dict_of (map (\<lambda>x. (decision_sliceId x, x)) (decisions decision));
          cluster_by_slice = cluster_map (clusters report) in
      bindE (triage_slices decision_by_id by_id descriptors) (\<lambda>t.
      let lane_cap = min (maxParallelLanes envelope) 3 in
      bindE (schedule_slices lane_cap cluster_by_slice
               (sort_key (schedule_key depths) (triage_eligible t)) empty_schedule) (\<lambda>sched.
      bindE (mapE (admission_of sha cluster_by_slice)
               (sort_key sliceId (schedule_proposed sched))) (\<lambda>admissions.
      let draft = \<lparr>plan_projectId = request_projectId normalized,
             plan_batchBaseCommit = batchBaseCommit normalized,
             plan_snapshotFingerprint = snapshotFingerprint (authoritySnapshot normalized),
             plan_contractRegistryDigest = contractRegistryDigest normalized,
             plan_dependencyGraphDigest = dependencyGraphDigest normalized,
             plan_envelopeDigest = envelopeDigest envelope,
             plan_conflictPolicyVersion = conflictPolicyVersion normalized,
             plan_harnessVersion = harnessVersion normalized,
             plan_asOf = asOf normalized,
             plan_conflictReportId = conflictReportId report,
             plan_authorizationDecisionId = authorizationDecisionId decision,
             projectLaneCap = lane_cap,
             proposedAdmissions = admissions,
             queued = sort_key entry_sliceId (schedule_queued sched),
             blocked = sort_key entry_sliceId (triage_blocked t),
             rejected = sort_key entry_sliceId (triage_rejected t),
             executionRequirements = execution_requirements_of envelope (schedule_proposed sched),
             mandatoryStopConditions = stopConditions envelope,
             batchPlanId = []\<rparr>;
          plan = draft\<lparr>batchPlanId := stable_id sha ''batch-plan'' (JObj (plan_payload draft))\<rparr> in
      bindE (raise_if (\<not> report_schema report) (Schema_Error ''controlled-conflict-report'')) (\<lambda>_.
      bindE (raise_if (\<not> decision_schema decision) (Schema_Error ''controlled-authorization-decision'')) (\<lambda>_.
      bindE (raise_if (\<not> plan_schema plan) (Schema_Error ''controlled-execution-plan'')) (\<lambda>_.
        Inr \<lparr>conflictReport = report, authorizationDecision = decision, executionPlan = plan\<rparr>))))))))))"

definition build_provisional_execution_plan ::
    "(string \<Rightarrow> string) \<Rightarrow> planning_request \<Rightarrow> plan_bundle result" where
  "build_provisional_execution_plan sha request =
     bindE (normalize_planning_request sha request) (\<lambda>normalized. build_provisional_plan sha normalized)"

end
