(* ===== verification/Planner_Correct.thy ===== *)
theory Planner_Correct
  imports Execution_Planner
begin

text \<open>
  What \<open>Execution_Planner\<close> establishes: the two loops of the planner in closed form, the
  lookups that cannot fail, the plan as a function of the triage of each slice, and the facts
  on schedules (lane capacity, one slice per cluster, priority) the properties rest on.
\<close>

section \<open>Authorization\<close>

definition slice_reasons ::
    "authorization_envelope \<Rightarrow> int \<Rightarrow> int \<Rightarrow> int \<Rightarrow> slice_descriptor \<Rightarrow> string list" where
  "slice_reasons e issued expires as_of d =
     sort (reasons_where (authorization_conditions e issued expires as_of d))"

text \<open>The contract of the gate: what a slice needs in order to be allowed.\<close>

definition slice_permitted ::
    "authorization_envelope \<Rightarrow> int \<Rightarrow> int \<Rightarrow> int \<Rightarrow> slice_descriptor \<Rightarrow> bool" where
  "slice_permitted e issued expires as_of d =
     (issued \<le> as_of \<and> as_of < expires
      \<and> portfolioId d = env_portfolioId e
      \<and> deliveryTrackId d \<in> set (permittedDeliveryTracks e)
      \<and> sliceClass d \<in> set (permittedSliceClasses e)
      \<and> authorizationClass d \<in> set (permittedActionClasses e)
      \<and> authorizationClass d \<notin> set protected_action_classes
      \<and> authorizationClass d \<notin> set (deniedActions e)
      \<and> (\<forall>path\<in>set (write_paths d). \<exists>prefix\<in>set (permittedPathPrefixes e). contains_path prefix path))"

lemma slice_reasons_Nil:
  "slice_reasons e i x t d = [] \<longleftrightarrow> slice_permitted e i x t d \<and> slice_state_of d = READY"
  by (simp add: slice_reasons_def reasons_where_Nil authorization_conditions_def slice_permitted_def
      write_paths_def list_ex_iff not_less not_le ball_Un conj_ac)

lemma slice_reasons_not_ready:
  "slice_reasons e i x t d = [''SLICE_NOT_READY''] \<longleftrightarrow> slice_permitted e i x t d \<and> slice_state_of d \<noteq> READY"
proof -
  let ?cs = "butlast (authorization_conditions e i x t d)"
  have perm: "slice_permitted e i x t d \<longleftrightarrow> reasons_where ?cs = []"
    by (auto simp: reasons_where_Nil authorization_conditions_def slice_permitted_def
        write_paths_def list_ex_iff not_less)
  have split: "reasons_where (authorization_conditions e i x t d) =
      reasons_where ?cs @ (if slice_state_of d \<noteq> READY then [''SLICE_NOT_READY''] else [])"
    by (simp add: reasons_where_def authorization_conditions_def)
  have "''SLICE_NOT_READY'' \<notin> set (reasons_where ?cs)"
    using reasons_where_set[of ?cs] by (auto simp: authorization_conditions_def)
  moreover have "sort xs = [y] \<longleftrightarrow> xs = [y]" for xs :: "string list" and y
  proof
    assume s: "sort xs = [y]"
    then have "length xs = 1" by (metis length_sort length_Cons list.size(3) One_nat_def)
    then obtain z where "xs = [z]" by (auto simp: length_Suc_conv)
    with s show "xs = [y]" by simp
  qed simp
  ultimately show ?thesis
    by (auto simp: slice_reasons_def split perm append_eq_Cons_conv)
qed

lemma slice_reasons_codes:
  "set (slice_reasons e i x t d) \<subseteq> set conflict_reason_codes" "distinct (slice_reasons e i x t d)"
proof -
  show "set (slice_reasons e i x t d) \<subseteq> set conflict_reason_codes"
    unfolding slice_reasons_def set_sort
    by (rule subset_trans[OF reasons_where_set])
      (simp add: conflict_reason_codes_def authorization_conditions_def)
  show "distinct (slice_reasons e i x t d)"
    unfolding slice_reasons_def distinct_sort
    by (rule reasons_where_distinct) (simp add: authorization_conditions_def)
qed

definition decision_entry ::
    "authorization_envelope \<Rightarrow> int \<Rightarrow> int \<Rightarrow> int \<Rightarrow> slice_descriptor \<Rightarrow> slice_decision" where
  "decision_entry e issued expires as_of d =
     \<lparr>decision_sliceId = sliceId d,
      decision_result = (if slice_reasons e issued expires as_of d \<noteq> [] then ''REJECT'' else ''ALLOW''),
      decision_reasons = slice_reasons e issued expires as_of d\<rparr>"

text \<open>The instants of a request, when they parse.\<close>

definition request_times :: "planning_request \<Rightarrow> int \<Rightarrow> int \<Rightarrow> int \<Rightarrow> bool" where
  "request_times n issued expires as_of =
     (parse_rfc3339 (asOf n) = Inr as_of
      \<and> parse_rfc3339 (issuedAt (authorizationEnvelope n)) = Inr issued
      \<and> parse_rfc3339 (expiresAt (authorizationEnvelope n)) = Inr expires)"

lemma decide_slice_eq:
  "request_times n i x t \<Longrightarrow>
    decide_slice (authorizationEnvelope n) t d = Inr (decision_entry (authorizationEnvelope n) i x t d)"
  by (simp add: decide_slice_def authorization_reasons_def request_times_def decision_entry_def
      slice_reasons_def)

definition draft_decision :: "planning_request \<Rightarrow> int \<Rightarrow> int \<Rightarrow> int \<Rightarrow> authorization_decision" where
  "draft_decision n i x t =
     (let e = authorizationEnvelope n in
      \<lparr>decision_projectId = request_projectId n,
       decision_snapshotFingerprint = snapshotFingerprint (authoritySnapshot n),
       decision_envelopeId = envelopeId e, decision_envelopeDigest = envelopeDigest e,
       decision_asOf = asOf n,
       decisions = map (decision_entry e i x t) (sort_key sliceId (slices n)),
       decision_gate = (if t < i \<or> x \<le> t then NO_GO_GATE else PASS),
       authorizationDecisionId = []\<rparr>)"

definition final_decision ::
    "(string \<Rightarrow> string) \<Rightarrow> planning_request \<Rightarrow> int \<Rightarrow> int \<Rightarrow> int \<Rightarrow> authorization_decision" where
  "final_decision sha n i x t = (draft_decision n i x t)\<lparr>authorizationDecisionId :=
     stable_id sha ''authorization-decision'' (JObj (decision_payload (draft_decision n i x t)))\<rparr>"

lemma decisions_final [simp]:
  "decisions (final_decision sha n i x t) =
     map (decision_entry (authorizationEnvelope n) i x t) (sort_key sliceId (slices n))"
  by (simp add: final_decision_def draft_decision_def Let_def)

lemma authorization_decision_of_eq:
  assumes "request_times n i x t"
  shows "authorization_decision_of sha n =
    (if decision_schema (final_decision sha n i x t) then Inr (final_decision sha n i x t)
     else Inl (Schema_Error ''controlled-authorization-decision''))"
proof -
  have "mapE (decide_slice (authorizationEnvelope n) t) (sort_key sliceId (slices n)) =
      Inr (map (decision_entry (authorizationEnvelope n) i x t) (sort_key sliceId (slices n)))"
    by (rule mapE_Inr_map) (rule decide_slice_eq[OF assms])
  then show ?thesis using assms
    by (simp add: authorization_decision_of_def request_times_def Let_def final_decision_def
        draft_decision_def raise_if_def)
qed

section \<open>Triage\<close>

definition triage_of ::
    "authorization_envelope \<Rightarrow> int \<Rightarrow> int \<Rightarrow> int \<Rightarrow> slice_descriptor list \<Rightarrow> slice_descriptor \<Rightarrow> triage" where
  "triage_of e i x t ds d =
     (if \<not> slice_permitted e i x t d then Reject (slice_reasons e i x t d)
      else if slice_state_of d \<noteq> READY then Block [''SLICE_NOT_READY'']
      else if \<exists>b\<in>set ds. sliceId b \<in> set (dependencySet d) \<and> slice_state_of b \<noteq> CLOSED
      then Block [''DEPENDENCY_NOT_CLOSED'']
      else Eligible)"

lemma open_dependency_eq:
  assumes d: "distinct (map sliceId ds)" and "set ss \<subseteq> sliceId ` set ds"
  shows "open_dependency (dict_of (map (\<lambda>d. (sliceId d, d)) ds)) ss =
     Inr (\<exists>b\<in>set ds. sliceId b \<in> set ss \<and> slice_state_of b \<noteq> CLOSED)"
  using assms(2)
proof (induction ss)
  case (Cons s ss)
  from Cons.prems obtain b where b: "b \<in> set ds" "s = sliceId b" by auto
  have only: "c = b" if "c \<in> set ds" "sliceId c = sliceId b" for c
    using d b(1) that by (auto simp: distinct_map inj_on_def)
  have "lookupE (dict_of (map (\<lambda>d. (sliceId d, d)) ds)) s = Inr b"
    by (simp add: lookupE_def dict_of_key_distinct[OF d] b map_of_map_key[OF d b(1)])
  with Cons b(1) only show ?case by (auto simp: b(2))
qed simp

lemma triage_slice_eq:
  assumes d: "distinct (map sliceId ds)" and "known_dependencies ds" and "b \<in> set ds"
  shows "triage_slice (dict_of (map (\<lambda>y. (decision_sliceId y, y))
             (map (decision_entry e i x t) (sort_key sliceId ds))))
           (dict_of (map (\<lambda>d. (sliceId d, d)) ds)) b = Inr (triage_of e i x t ds b)"
proof -
  let ?es = "map (decision_entry e i x t) (sort_key sliceId ds)"
  have sid: "decision_sliceId (decision_entry e i x t c) = sliceId c" for c
    by (simp add: decision_entry_def)
  have ids: "distinct (map decision_sliceId ?es)" using d by (simp add: comp_def sid)
  have mem: "decision_entry e i x t b \<in> set ?es" using assms(3) by simp
  have look: "lookupE (dict_of (map (\<lambda>y. (decision_sliceId y, y)) ?es)) (sliceId b) = Inr (decision_entry e i x t b)"
    using map_of_map_key[OF ids mem, of "\<lambda>y. y"]
    unfolding lookupE_def dict_of_key_distinct[OF ids] sid by (simp only: option.simps)
  have dep: "set (dependencySet b) \<subseteq> sliceId ` set ds"
    using assms(2,3) by (auto simp: known_dependencies_def list_all_iff)
  have not_ready: "slice_permitted e i x t b \<Longrightarrow> slice_state_of b \<noteq> READY \<Longrightarrow>
      slice_reasons e i x t b = [''SLICE_NOT_READY'']"
    by (simp add: slice_reasons_not_ready)
  show ?thesis
    unfolding triage_slice_def look bindE_Inr open_dependency_eq[OF d dep] Let_def triage_of_def
    using slice_reasons_Nil[of e i x t b] slice_reasons_not_ready[of e i x t b]
    by (auto simp: decision_entry_def)
qed

definition plan_entry_of :: "(slice_descriptor \<Rightarrow> triage) \<Rightarrow> slice_descriptor \<Rightarrow> plan_entry" where
  "plan_entry_of T d = \<lparr>entry_sliceId = sliceId d, entry_reasons = triage_reasons (T d)\<rparr>"

lemma fold_add_triage:
  "fold add_triage (map (\<lambda>d. (d, T d)) ds) t =
     t\<lparr>triage_blocked := triage_blocked t @ map (plan_entry_of T) (filter (is_Block \<circ> T) ds),
       triage_rejected := triage_rejected t @ map (plan_entry_of T) (filter (is_Reject \<circ> T) ds),
       triage_eligible := triage_eligible t @ filter (is_Eligible \<circ> T) ds\<rparr>"
proof (induction ds arbitrary: t)
  case (Cons d ds)
  then show ?case by (cases "T d") (simp_all add: plan_entry_of_def)
qed simp

lemma triage_slices_eq:
  fixes e :: authorization_envelope and i x t :: int
  assumes "distinct (map sliceId ds)" and "known_dependencies ds"
  defines "T \<equiv> triage_of e i x t ds"
  shows "triage_slices (dict_of (map (\<lambda>y. (decision_sliceId y, y))
             (map (decision_entry e i x t) (sort_key sliceId ds))))
           (dict_of (map (\<lambda>d. (sliceId d, d)) ds)) ds =
         Inr \<lparr>triage_blocked = map (plan_entry_of T) (filter (is_Block \<circ> T) ds),
              triage_rejected = map (plan_entry_of T) (filter (is_Reject \<circ> T) ds),
              triage_eligible = filter (is_Eligible \<circ> T) ds\<rparr>"
proof -
  have "mapE (triage_slice (dict_of (map (\<lambda>y. (decision_sliceId y, y))
             (map (decision_entry e i x t) (sort_key sliceId ds))))
           (dict_of (map (\<lambda>d. (sliceId d, d)) ds))) ds = Inr (map T ds)"
    unfolding T_def by (rule mapE_Inr_map) (rule triage_slice_eq[OF assms(1,2)])
  then show ?thesis
    by (simp add: triage_slices_def zip_map2 zip_same_conv_map fold_add_triage[unfolded comp_def] comp_def)
qed

section \<open>Scheduling\<close>

definition schedule_all :: "int \<Rightarrow> (slice_descriptor \<Rightarrow> string) \<Rightarrow> slice_descriptor list \<Rightarrow> schedule" where
  "schedule_all cap cl ds = fold (\<lambda>d. schedule_slice cap (cl d) d) ds empty_schedule"

lemma schedule_slices_eq:
  assumes "\<And>d. d \<in> set ds \<Longrightarrow> map_of cs (sliceId d) = Some (cl d)"
  shows "schedule_slices cap cs ds empty_schedule = Inr (schedule_all cap cl ds)"
proof -
  have "schedule_slices cap cs ds st = Inr (fold (\<lambda>d. schedule_slice cap (cl d) d) ds st)" for st
    using assms by (induction ds arbitrary: st) (simp_all add: lookupE_def)
  then show ?thesis by (simp add: schedule_all_def)
qed

text \<open>
  The contract of a schedule of \<open>xs\<close> under a priority \<open>key\<close>: every slice is proposed or queued,
  once; no two proposed slices share a cluster; the lane cap holds; a queued slice is behind a
  proposed one of its cluster, or all lanes are taken by slices before it.
\<close>

definition waits_for_cluster ::
    "(slice_descriptor \<Rightarrow> string) \<Rightarrow> (slice_descriptor \<Rightarrow> 'k::linorder) \<Rightarrow> slice_descriptor list \<Rightarrow> plan_entry \<Rightarrow> slice_descriptor \<Rightarrow> bool" where
  "waits_for_cluster cl key proposed q d =
     (entry_reasons q = [''CONFLICT_CLUSTER_BUSY''] \<and> (\<exists>p\<in>set proposed. cl p = cl d \<and> key p \<le> key d))"

definition waits_for_lane ::
    "int \<Rightarrow> (slice_descriptor \<Rightarrow> 'k::linorder) \<Rightarrow> slice_descriptor list \<Rightarrow> plan_entry \<Rightarrow> slice_descriptor \<Rightarrow> bool" where
  "waits_for_lane cap key proposed q d =
     (entry_reasons q = [''PROJECT_CAPACITY_LIMIT''] \<and> cap \<le> int (length proposed)
      \<and> (\<forall>p\<in>set proposed. key p \<le> key d))"

definition schedule_ok ::
    "int \<Rightarrow> (slice_descriptor \<Rightarrow> string) \<Rightarrow> (slice_descriptor \<Rightarrow> 'k::linorder) \<Rightarrow> slice_descriptor list \<Rightarrow> schedule \<Rightarrow> bool" where
  "schedule_ok cap cl key xs st =
     (mset (map sliceId (schedule_proposed st)) + mset (map entry_sliceId (schedule_queued st)) = mset (map sliceId xs)
      \<and> set (schedule_proposed st) \<subseteq> set xs
      \<and> set (occupied_clusters st) = cl ` set (schedule_proposed st)
      \<and> distinct (map cl (schedule_proposed st))
      \<and> int (length (schedule_proposed st)) \<le> max 0 cap
      \<and> (\<forall>q\<in>set (schedule_queued st). \<exists>d\<in>set xs. entry_sliceId q = sliceId d
           \<and> (waits_for_cluster cl key (schedule_proposed st) q d
              \<or> waits_for_lane cap key (schedule_proposed st) q d)))"

lemma schedule_all_snoc:
  "schedule_all cap cl (xs @ [d]) = schedule_slice cap (cl d) d (schedule_all cap cl xs)"
  by (simp add: schedule_all_def)

lemma schedule_slice_ok:
  assumes ok: "schedule_ok cap cl key xs st" and key: "\<forall>x\<in>set xs. key x \<le> key d"
  shows "schedule_ok cap cl key (xs @ [d]) (schedule_slice cap (cl d) d st)"
proof -
  let ?q = "\<lambda>r. \<lparr>entry_sliceId = sliceId d, entry_reasons = [r]\<rparr>"
  have sub: "set (schedule_proposed st) \<subseteq> set xs" using ok by (simp add: schedule_ok_def)
  have old: "\<forall>q\<in>set (schedule_queued st). \<exists>x\<in>set (xs @ [d]). entry_sliceId q = sliceId x
        \<and> (waits_for_cluster cl key (schedule_proposed st) q x \<or> waits_for_lane cap key (schedule_proposed st) q x)"
    using ok unfolding schedule_ok_def by (auto simp: Bex_def)
  consider (busy) "cl d \<in> set (occupied_clusters st)"
    | (full) "cl d \<notin> set (occupied_clusters st)" "cap \<le> int (length (schedule_proposed st))"
    | (free) "cl d \<notin> set (occupied_clusters st)" "int (length (schedule_proposed st)) < cap"
    by linarith
  then show ?thesis
  proof cases
    case busy
    then obtain p where "p \<in> set (schedule_proposed st)" "cl p = cl d"
      using ok by (auto simp: schedule_ok_def)
    moreover from this have "key p \<le> key d" using sub key by blast
    ultimately have "waits_for_cluster cl key (schedule_proposed st) (?q ''CONFLICT_CLUSTER_BUSY'') d"
      by (auto simp: waits_for_cluster_def)
    with busy ok old show ?thesis by (auto simp: schedule_ok_def schedule_slice_def)
  next
    case full
    then have "waits_for_lane cap key (schedule_proposed st) (?q ''PROJECT_CAPACITY_LIMIT'') d"
      using sub key by (auto simp: waits_for_lane_def)
    with full ok old show ?thesis by (auto simp: schedule_ok_def schedule_slice_def)
  next
    case free
    have new: "waits_for_cluster cl key (schedule_proposed st @ [d]) q x"
      if "waits_for_cluster cl key (schedule_proposed st) q x \<or> waits_for_lane cap key (schedule_proposed st) q x" for q x
      using that free(2) by (auto simp: waits_for_cluster_def waits_for_lane_def)
    have "\<forall>q\<in>set (schedule_queued st). \<exists>x\<in>set (xs @ [d]). entry_sliceId q = sliceId x
        \<and> (waits_for_cluster cl key (schedule_proposed st @ [d]) q x \<or> waits_for_lane cap key (schedule_proposed st @ [d]) q x)"
      using old new by blast
    moreover have "schedule_slice cap (cl d) d st =
        st\<lparr>schedule_proposed := schedule_proposed st @ [d], occupied_clusters := cl d # occupied_clusters st\<rparr>"
      using free by (simp add: schedule_slice_def)
    ultimately show ?thesis using ok free sub
      by (auto simp: schedule_ok_def)
  qed
qed

lemma schedule_all_ok: "sorted (map key xs) \<Longrightarrow> schedule_ok cap cl key xs (schedule_all cap cl xs)"
proof (induction xs rule: rev_induct)
  case Nil
  show ?case by (simp add: schedule_ok_def schedule_all_def empty_schedule_def)
next
  case (snoc d xs)
  then have "\<forall>x\<in>set xs. key x \<le> key d" by (auto simp: sorted_append)
  with snoc show ?case unfolding schedule_all_snoc by (intro schedule_slice_ok) (auto simp: sorted_append)
qed

section \<open>The cluster of a slice\<close>

lemma cluster_map_Some:
  assumes "distinct (concat (map cluster_slices cs))" and "c \<in> set cs" and "s \<in> set (cluster_slices c)"
  shows "map_of (cluster_map cs) s = Some (clusterId c)"
proof -
  let ?kvs = "concat (map (\<lambda>c. map (\<lambda>s. (s, clusterId c)) (cluster_slices c)) cs)"
  have "map fst ?kvs = concat (map cluster_slices cs)" by (simp add: map_concat comp_def)
  with assms(1) have d: "distinct (map fst ?kvs)" by simp
  have "(s, clusterId c) \<in> set ?kvs" using assms(2,3) by force
  with d show ?thesis unfolding cluster_map_def by (simp only: map_of_dict_of_distinct map_of_is_SomeI)
qed

definition cluster_id_of :: "conflict_report \<Rightarrow> string \<Rightarrow> string" where
  "cluster_id_of r s = (case map_of (cluster_map (clusters r)) s of Some c \<Rightarrow> c | None \<Rightarrow> [])"

lemma report_clusters:
  assumes r: "build_conflict_report sha p fp v ds = Inr r"
  shows "(\<Union>c\<in>set (clusters r). set (cluster_slices c)) = sliceId ` set ds"
    "distinct (concat (map cluster_slices (clusters r)))"
proof -
  let ?o = "sort_key sliceId ds"
  have cs: "clusters r = clusters_of sha p v (map sliceId ?o) (conflict_edges_of ?o)"
    using build_conflict_report_eq_Inr[OF r] by simp
  have ends: "\<forall>e\<in>set (conflict_edges_of ?o). leftSliceId e \<in> set (map sliceId ?o) \<and> rightSliceId e \<in> set (map sliceId ?o)"
    using conflict_edges_of_endpoints[of ?o] by simp
  show "(\<Union>c\<in>set (clusters r). set (cluster_slices c)) = sliceId ` set ds"
    unfolding cs clusters_of_spec(1)[OF ends] by simp
  show "distinct (concat (map cluster_slices (clusters r)))"
    unfolding cs by (rule clusters_of_spec(3)[OF ends])
qed

lemma cluster_id_of_member:
  assumes "build_conflict_report sha p fp v ds = Inr r" and "c \<in> set (clusters r)" and "s \<in> set (cluster_slices c)"
  shows "cluster_id_of r s = clusterId c"
  using cluster_map_Some[OF report_clusters(2)[OF assms(1)] assms(2,3)] by (simp add: cluster_id_of_def)

lemma cluster_id_of_slice:
  assumes "build_conflict_report sha p fp v ds = Inr r" and "d \<in> set ds"
  shows "map_of (cluster_map (clusters r)) (sliceId d) = Some (cluster_id_of r (sliceId d))"
    "\<exists>c\<in>set (clusters r). sliceId d \<in> set (cluster_slices c) \<and> clusterId c = cluster_id_of r (sliceId d)"
proof -
  from report_clusters(1)[OF assms(1)] assms(2) obtain c where
    c: "c \<in> set (clusters r)" "sliceId d \<in> set (cluster_slices c)" by blast
  note cluster_map_Some[OF report_clusters(2)[OF assms(1)] c] cluster_id_of_member[OF assms(1) c]
  then show "map_of (cluster_map (clusters r)) (sliceId d) = Some (cluster_id_of r (sliceId d))"
    "\<exists>c\<in>set (clusters r). sliceId d \<in> set (cluster_slices c) \<and> clusterId c = cluster_id_of r (sliceId d)"
    using c by auto
qed

text \<open>Slices that conflict carry the same cluster id.\<close>

lemma conflict_cluster_id:
  assumes r: "build_conflict_report sha p fp v ds = Inr r"
    and "a \<in> set ds" and "b \<in> set ds" and "a \<noteq> b" and "batch_conflict (sort_key sliceId ds) a b"
  shows "cluster_id_of r (sliceId a) = cluster_id_of r (sliceId b)"
  using conflict_same_cluster[OF assms] cluster_id_of_member[OF r] by (auto simp: same_cluster_def)

section \<open>The plan in closed form\<close>

definition plan_admission :: "(string \<Rightarrow> string) \<Rightarrow> conflict_report \<Rightarrow> slice_descriptor \<Rightarrow> admission" where
  "plan_admission sha r d =
     \<lparr>admission_sliceId = sliceId d, conflictClusterId = cluster_id_of r (sliceId d),
      admission_descriptorDigest = descriptorDigest d,
      exactWriteSetDigest = exact_writeset_digest sha d\<rparr>"

definition plan_lane_cap :: "planning_request \<Rightarrow> int" where
  "plan_lane_cap n = min (maxParallelLanes (authorizationEnvelope n)) 3"

definition plan_triage :: "planning_request \<Rightarrow> int \<Rightarrow> int \<Rightarrow> int \<Rightarrow> slice_descriptor \<Rightarrow> triage" where
  "plan_triage n i x t = triage_of (authorizationEnvelope n) i x t (slices n)"

text \<open>The schedule of the eligible slices, by priority, then depth, then id.\<close>

definition plan_schedule ::
    "planning_request \<Rightarrow> int \<Rightarrow> int \<Rightarrow> int \<Rightarrow> (string, int) dict \<Rightarrow> conflict_report \<Rightarrow> schedule" where
  "plan_schedule n i x t depths r =
     schedule_all (plan_lane_cap n) (\<lambda>d. cluster_id_of r (sliceId d))
       (sort_key (schedule_key depths) (filter (is_Eligible \<circ> plan_triage n i x t) (slices n)))"

definition draft_plan ::
    "(string \<Rightarrow> string) \<Rightarrow> planning_request \<Rightarrow> int \<Rightarrow> int \<Rightarrow> int \<Rightarrow> (string, int) dict \<Rightarrow> conflict_report \<Rightarrow> execution_plan" where
  "draft_plan sha n i x t depths r =
     (let e = authorizationEnvelope n; S = plan_schedule n i x t depths r; T = plan_triage n i x t in
      \<lparr>plan_projectId = request_projectId n, plan_batchBaseCommit = batchBaseCommit n,
       plan_snapshotFingerprint = snapshotFingerprint (authoritySnapshot n),
       plan_contractRegistryDigest = contractRegistryDigest n,
       plan_dependencyGraphDigest = dependencyGraphDigest n,
       plan_envelopeDigest = envelopeDigest e,
       plan_conflictPolicyVersion = conflictPolicyVersion n,
       plan_harnessVersion = harnessVersion n, plan_asOf = asOf n,
       plan_conflictReportId = conflictReportId r,
       plan_authorizationDecisionId = authorizationDecisionId (final_decision sha n i x t),
       projectLaneCap = plan_lane_cap n,
       proposedAdmissions = map (plan_admission sha r) (sort_key sliceId (schedule_proposed S)),
       queued = sort_key entry_sliceId (schedule_queued S),
       blocked = sort_key entry_sliceId (map (plan_entry_of T) (filter (is_Block \<circ> T) (slices n))),
       rejected = sort_key entry_sliceId (map (plan_entry_of T) (filter (is_Reject \<circ> T) (slices n))),
       executionRequirements = execution_requirements_of e (schedule_proposed S),
       mandatoryStopConditions = stopConditions e, batchPlanId = []\<rparr>)"

definition final_plan ::
    "(string \<Rightarrow> string) \<Rightarrow> planning_request \<Rightarrow> int \<Rightarrow> int \<Rightarrow> int \<Rightarrow> (string, int) dict \<Rightarrow> conflict_report \<Rightarrow> execution_plan" where
  "final_plan sha n i x t depths r =
     (draft_plan sha n i x t depths r)\<lparr>batchPlanId :=
        stable_id sha ''batch-plan'' (JObj (plan_payload (draft_plan sha n i x t depths r)))\<rparr>"

lemma schedule_proposed_eligible:
  "set (schedule_proposed (plan_schedule n i x t depths r)) \<subseteq>
    {d \<in> set (slices n). is_Eligible (plan_triage n i x t d)}"
proof -
  let ?el = "sort_key (schedule_key depths) (filter (is_Eligible \<circ> plan_triage n i x t) (slices n))"
  have "sorted (map (schedule_key depths) ?el)" by simp
  from schedule_all_ok[OF this, of "plan_lane_cap n" "\<lambda>d. cluster_id_of r (sliceId d)"]
  show ?thesis by (auto simp: schedule_ok_def plan_schedule_def)
qed

lemma build_provisional_plan_eq:
  assumes times: "request_times n i x t" and d: "distinct (map sliceId (slices n))"
    and known: "known_dependencies (slices n)"
    and depths: "dependency_depths (slices n) = Inr depths"
    and r: "build_conflict_report sha (request_projectId n) (snapshotFingerprint (authoritySnapshot n))
      (conflictPolicyVersion n) (slices n) = Inr r"
  shows "build_provisional_plan sha n =
    (if \<not> decision_schema (final_decision sha n i x t) then Inl (Schema_Error ''controlled-authorization-decision'')
     else if \<not> plan_schema (final_plan sha n i x t depths r) then Inl (Schema_Error ''controlled-execution-plan'')
     else Inr \<lparr>conflictReport = r, authorizationDecision = final_decision sha n i x t,
               executionPlan = final_plan sha n i x t depths r\<rparr>)"
proof -
  let ?cs = "cluster_map (clusters r)" and ?cl = "\<lambda>d. cluster_id_of r (sliceId d)"
  let ?el = "filter (is_Eligible \<circ> plan_triage n i x t) (slices n)"
  let ?S = "plan_schedule n i x t depths r"
  note look = cluster_id_of_slice(1)[OF r]
  have sched: "schedule_slices (plan_lane_cap n) ?cs (sort_key (schedule_key depths) ?el) empty_schedule = Inr ?S"
    unfolding plan_schedule_def by (rule schedule_slices_eq) (use look in auto)
  have adm: "mapE (admission_of sha ?cs) (sort_key sliceId (schedule_proposed ?S)) =
      Inr (map (plan_admission sha r) (sort_key sliceId (schedule_proposed ?S)))"
  proof (rule mapE_Inr_map)
    fix d assume "d \<in> set (sort_key sliceId (schedule_proposed ?S))"
    then have "d \<in> set (slices n)" using schedule_proposed_eligible by fastforce
    from look[OF this] show "admission_of sha ?cs d = Inr (plan_admission sha r d)"
      by (simp add: admission_of_def plan_admission_def lookupE_def)
  qed
  have rs: "report_schema r" using build_conflict_report_eq_Inr[OF r] by simp
  show ?thesis
  proof (cases "decision_schema (final_decision sha n i x t)")
    case False
    then show ?thesis
      by (simp add: build_provisional_plan_def Let_def depths r authorization_decision_of_eq[OF times])
  next
    case True
    note tr = triage_slices_eq[OF d known, of "authorizationEnvelope n" i x t, folded plan_triage_def]
    show ?thesis
      using True rs sched adm
      by (simp add: build_provisional_plan_def Let_def depths r authorization_decision_of_eq[OF times]
          tr[unfolded map_map] plan_lane_cap_def[symmetric] final_plan_def draft_plan_def raise_if_def)
  qed
qed

section \<open>Checked requests\<close>

lemma request_checked_sliced:
  assumes "request_checked sha n by_path"
  shows "sliced (slices n)" "distinct (map sliceId (slices n))" "\<forall>d\<in>set (slices n). descriptor_schema d"
proof -
  show "\<forall>d\<in>set (slices n). descriptor_schema d" and "distinct (map sliceId (slices n))"
    using assms by (simp_all add: request_checked_def request_schema_def list_all_iff)
  then show "sliced (slices n)"
    by (simp add: sliced_def list_all_iff descriptor_schema_def footprint_schema_def string_set_def)
qed

lemma request_checked_times:
  assumes "request_checked sha n by_path"
  obtains i x t where "request_times n i x t" "i < x"
  using assms unfolding request_checked_def request_times_def by blast

lemma request_times_unique:
  "request_times n i x t \<Longrightarrow> request_times n i' x' t' \<Longrightarrow> i = i' \<and> x = x' \<and> t = t'"
  by (simp add: request_times_def)

text \<open>Everything a returned bundle says about its request.\<close>

lemma build_provisional_plan_Inr:
  assumes n: "request_checked sha n by_path" and b: "build_provisional_plan sha n = Inr b"
  obtains i x t depths r where "request_times n i x t" "i < x"
    "known_dependencies (slices n)" "acyclic (dependency_edges (slices n))"
    "dependency_depths (slices n) = Inr depths"
    "build_conflict_report sha (request_projectId n) (snapshotFingerprint (authoritySnapshot n))
      (conflictPolicyVersion n) (slices n) = Inr r"
    "decision_schema (final_decision sha n i x t)" "plan_schema (final_plan sha n i x t depths r)"
    "b = \<lparr>conflictReport = r, authorizationDecision = final_decision sha n i x t,
          executionPlan = final_plan sha n i x t depths r\<rparr>"
proof -
  note sl = request_checked_sliced[OF n]
  from b obtain depths r where depths: "dependency_depths (slices n) = Inr depths"
    and r: "build_conflict_report sha (request_projectId n) (snapshotFingerprint (authoritySnapshot n))
      (conflictPolicyVersion n) (slices n) = Inr r"
    unfolding build_provisional_plan_def Let_def result_simps by blast
  have known: "known_dependencies (slices n)"
    using dependency_depths_unknown[OF sl(2)] depths by fastforce
  have "dependency_depths (slices n) = Inl (Planning_Error ''DEPENDENCY_CYCLE'')"
    if "\<not> acyclic (dependency_edges (slices n))"
    using dependency_depths_run[OF sl(1) known] that by metis
  with depths have acyc: "acyclic (dependency_edges (slices n))" by fastforce
  from request_checked_times[OF n] obtain i x t where times: "request_times n i x t" "i < x" .
  note eq = build_provisional_plan_eq[OF times(1) sl(2) known depths r]
  from b eq show thesis
    by (intro that[OF times known acyc depths r]) (auto split: if_splits)
qed

section \<open>The schema checks of the planner never fail\<close>

lemma fold_add_gate:
  "distinct gates \<Longrightarrow> distinct (fold add_gate gs gates) \<and> set (fold add_gate gs gates) = set gs \<union> set gates"
  by (induction gs arbitrary: gates) (auto simp: add_gate_def)

lemma fold_gates:
  "distinct gates \<Longrightarrow> distinct (fold (\<lambda>d gates. fold add_gate (f d) gates) ds gates)
    \<and> set (fold (\<lambda>d gates. fold add_gate (f d) gates) ds gates) = (\<Union>d\<in>set ds. set (f d)) \<union> set gates"
proof (induction ds arbitrary: gates)
  case (Cons d ds)
  from fold_add_gate[OF Cons.prems, of "f d"] Cons.IH[of "fold add_gate (f d) gates"] show ?case by auto
qed simp

lemma requirements_schema_of:
  assumes e: "envelope_schema e" and ds: "\<forall>d\<in>set ds. descriptor_schema d" and dist: "distinct (map sliceId ds)"
  shows "requirements_schema (execution_requirements_of e ds)"
proof -
  let ?o = "sort_key sliceId ds"
  have gates: "distinct (env_requiredGates e)" "\<forall>g\<in>set (env_requiredGates e). g \<noteq> []"
    and rest: "string_set (requiredTests e)" "\<forall>g\<in>set (requiredReviewers e). g \<noteq> []"
      "minimumReviewVerdict e = ''GO_ZERO_FINDINGS''"
    using e by (auto simp: envelope_schema_def string_set_def list_all_iff)
  have d: "string_set (requiredGates d)" "reviewerRole (reviewPolicy d) \<noteq> []" "is_id (sliceId d)"
      "minimumVerdict (reviewPolicy d) = ''GO_ZERO_FINDINGS''" if "d \<in> set ds" for d
    using that ds by (auto simp: descriptor_schema_def footprint_schema_def)
  have "string_set (fold (\<lambda>d gates. fold add_gate (requiredGates d) gates) ?o (env_requiredGates e))"
    using fold_gates[OF gates(1), of requiredGates ?o] gates(2) d(1)
    by (auto simp: string_set_def list_all_iff)
  moreover have "string_set (sorted_list_of_set (set (requiredReviewers e)
      \<union> set (map (\<lambda>d. reviewerRole (reviewPolicy d)) ?o)))"
    using rest(2) d(2)[THEN not_sym] by (auto simp: string_set_def list_all_iff)
  moreover have "distinct (map (\<lambda>d. \<lparr>requirement_sliceId = sliceId d, requirement_gates = requiredGates d,
      requirement_policy = reviewPolicy d\<rparr>) ?o)" (is "distinct (map ?f ?o)")
  proof -
    have "distinct (map requirement_sliceId (map ?f ?o))" using dist by (simp add: comp_def)
    then show ?thesis by (simp only: distinct_map)
  qed
  ultimately show ?thesis
    using rest d by (simp add: requirements_schema_def execution_requirements_of_def Let_def list_all_iff)
qed

lemma distinct_of_key: "distinct (map f xs) \<Longrightarrow> distinct xs"
  by (simp add: distinct_map)

lemma decision_schema_final:
  assumes n: "request_checked sha n by_path" and hex: "hex_digest sha"
  shows "decision_schema (final_decision sha n i x t)"
proof -
  let ?e = "authorizationEnvelope n"
  note sl = request_checked_sliced[OF n]
  have n': "request_schema n" using n by (simp add: request_checked_def)
  have f: "is_id (decision_projectId (final_decision sha n i x t))"
    "is_digest (decision_snapshotFingerprint (final_decision sha n i x t))"
    "is_id (decision_envelopeId (final_decision sha n i x t))"
    "is_digest (decision_envelopeDigest (final_decision sha n i x t))"
    "decision_asOf (final_decision sha n i x t) \<noteq> []"
    using n' by (simp_all add: final_decision_def draft_decision_def Let_def request_schema_def
        envelope_schema_def snapshot_schema_def)
  have "distinct (map decision_sliceId (map (decision_entry ?e i x t) (sort_key sliceId (slices n))))"
    using sl(2) by (simp add: comp_def decision_entry_def)
  then have "distinct (map (decision_entry ?e i x t) (sort_key sliceId (slices n)))"
    by (rule distinct_of_key)
  moreover have "\<forall>d\<in>set (slices n). is_id (sliceId d)"
    using sl(3) by (simp add: descriptor_schema_def footprint_schema_def)
  moreover have "is_stable_id ''authorization-decision'' (authorizationDecisionId (final_decision sha n i x t))"
    by (simp add: final_decision_def is_stable_id_stable_id hex)
  ultimately show ?thesis
    using f slice_reasons_codes[of ?e i x t]
    by (simp add: decision_schema_def list_all_iff decision_entry_def)
qed

lemma plan_schedule_ok:
  "schedule_ok (plan_lane_cap n) (\<lambda>d. cluster_id_of r (sliceId d)) (schedule_key depths)
     (sort_key (schedule_key depths) (filter (is_Eligible \<circ> plan_triage n i x t) (slices n)))
     (plan_schedule n i x t depths r)"
  unfolding plan_schedule_def by (rule schedule_all_ok) simp

lemma plan_schedule_ids:
  assumes "distinct (map sliceId (slices n))"
  shows "distinct (map sliceId (schedule_proposed (plan_schedule n i x t depths r)))"
    "distinct (map entry_sliceId (schedule_queued (plan_schedule n i x t depths r)))"
    "entry_sliceId ` set (schedule_queued (plan_schedule n i x t depths r)) \<subseteq> sliceId ` set (slices n)"
proof -
  let ?S = "plan_schedule n i x t depths r"
  let ?el = "filter (is_Eligible \<circ> plan_triage n i x t) (slices n)"
  have m: "mset (map sliceId (schedule_proposed ?S) @ map entry_sliceId (schedule_queued ?S)) =
      mset (map sliceId ?el)"
    using plan_schedule_ok[of n r depths i x t] unfolding schedule_ok_def by simp
  have "distinct (map sliceId ?el)" using assms by (rule distinct_map_filter)
  then have "distinct (map sliceId (schedule_proposed ?S) @ map entry_sliceId (schedule_queued ?S))"
    using m mset_eq_imp_distinct_iff by blast
  then show "distinct (map sliceId (schedule_proposed ?S))" "distinct (map entry_sliceId (schedule_queued ?S))"
    by simp_all
  have "set (map entry_sliceId (schedule_queued ?S)) \<subseteq> set (map sliceId ?el)"
    using arg_cong[OF m, of set_mset] by auto
  then show "entry_sliceId ` set (schedule_queued ?S) \<subseteq> sliceId ` set (slices n)" by auto
qed

lemma plan_schedule_reasons:
  assumes "q \<in> set (schedule_queued (plan_schedule n i x t depths r))"
  shows "entry_reasons q \<in> {[''CONFLICT_CLUSTER_BUSY''], [''PROJECT_CAPACITY_LIMIT'']}"
  using assms plan_schedule_ok[of n r depths i x t]
  by (auto simp: schedule_ok_def waits_for_cluster_def waits_for_lane_def)

lemma entry_schema_triage:
  assumes "is_id (sliceId d)"
  shows "\<not> is_Eligible (plan_triage n i x t d) \<Longrightarrow> entry_schema (plan_entry_of (plan_triage n i x t) d)"
  using assms slice_reasons_codes[of "authorizationEnvelope n" i x t d]
  by (auto simp: entry_schema_def plan_entry_of_def plan_triage_def triage_of_def plan_reason_codes_def
      split: if_splits) (simp_all add: conflict_reason_codes_def)

lemma plan_schema_final:
  assumes n: "request_checked sha n by_path" and hex: "hex_digest sha"
    and r: "build_conflict_report sha (request_projectId n) (snapshotFingerprint (authoritySnapshot n))
      (conflictPolicyVersion n) (slices n) = Inr r"
  shows "plan_schema (final_plan sha n i x t depths r)"
proof -
  let ?P = "final_plan sha n i x t depths r" and ?S = "plan_schedule n i x t depths r"
  let ?T = "plan_triage n i x t"
  note sl = request_checked_sliced[OF n]
  note ids = plan_schedule_ids[OF sl(2), of i x t depths r]
  have n': "request_schema n" using n by (simp add: request_checked_def)
  have e: "envelope_schema (authorizationEnvelope n)" using n' by (simp add: request_schema_def)
  have id: "is_id (sliceId d)" if "d \<in> set (slices n)" for d
    using sl(3) that by (simp add: descriptor_schema_def footprint_schema_def)
  have sub: "d \<in> set (slices n)" if "d \<in> set (schedule_proposed ?S)" for d
    using that schedule_proposed_eligible by blast
  have base: "is_id (plan_projectId ?P)" "is_commit (plan_batchBaseCommit ?P)"
    "is_digest (plan_snapshotFingerprint ?P)" "is_digest (plan_contractRegistryDigest ?P)"
    "is_digest (plan_dependencyGraphDigest ?P)" "is_digest (plan_envelopeDigest ?P)"
    "plan_conflictPolicyVersion ?P = ''controlled-conflict-policy/v1''"
    "plan_harnessVersion ?P = ''agent-evolution-harness/0.1.0''" "plan_asOf ?P \<noteq> []"
    "1 \<le> projectLaneCap ?P \<and> projectLaneCap ?P \<le> 3" "string_set (mandatoryStopConditions ?P)"
    using n' by (simp_all add: final_plan_def draft_plan_def Let_def request_schema_def
        envelope_schema_def snapshot_schema_def plan_lane_cap_def)
  have sid: "is_stable_id ''conflict-report'' (plan_conflictReportId ?P)"
    "is_stable_id ''authorization-decision'' (plan_authorizationDecisionId ?P)"
    "is_stable_id ''batch-plan'' (batchPlanId ?P)"
    using build_conflict_report_eq_Inr[OF r]
    by (simp_all add: final_plan_def draft_plan_def Let_def report_schema_def final_decision_def
        is_stable_id_stable_id hex)
  have cl: "is_stable_id ''conflict-cluster'' (cluster_id_of r (sliceId d))" if "d \<in> set (slices n)" for d
  proof -
    from cluster_id_of_slice(2)[OF r that] obtain c where
      c: "c \<in> set (clusters r)" "clusterId c = cluster_id_of r (sliceId d)" by blast
    have "report_schema r" using build_conflict_report_eq_Inr[OF r] by blast
    with c(1) have "is_stable_id ''conflict-cluster'' (clusterId c)"
      unfolding report_schema_def list_all_iff by blast
    then show ?thesis by (simp only: c(2))
  qed
  have adm: "list_all admission_schema (proposedAdmissions ?P)"
    using sub id cl sl(3)
    by (auto simp: list_all_iff final_plan_def draft_plan_def Let_def admission_schema_def plan_admission_def
        descriptor_schema_def exact_writeset_digest_def is_digest_sha256_json hex)
  have "distinct (map admission_sliceId (proposedAdmissions ?P))"
    using ids(1) by (simp add: final_plan_def draft_plan_def Let_def comp_def plan_admission_def)
  then have dadm: "distinct (proposedAdmissions ?P)" by (rule distinct_of_key)
  have q: "list_all entry_schema (queued ?P)"
  proof -
    have "entry_schema q" if "q \<in> set (schedule_queued ?S)" for q
      using plan_schedule_reasons[OF that] ids(3) that id
      by (auto simp: entry_schema_def plan_reason_codes_def conflict_reason_codes_def)
    then show ?thesis by (simp add: final_plan_def draft_plan_def Let_def list_all_iff)
  qed
  have dq: "distinct (queued ?P)"
    using distinct_of_key[OF ids(2)] by (simp add: final_plan_def draft_plan_def Let_def)
  have part: "list_all entry_schema (map (plan_entry_of ?T) (filter (f \<circ> ?T) (slices n)))
      \<and> distinct (map (plan_entry_of ?T) (filter (f \<circ> ?T) (slices n)))"
    if f: "\<And>a. f a \<Longrightarrow> \<not> is_Eligible a" for f
  proof
    show "list_all entry_schema (map (plan_entry_of ?T) (filter (f \<circ> ?T) (slices n)))"
      using entry_schema_triage id f by (auto simp: list_all_iff)
    have "distinct (map entry_sliceId (map (plan_entry_of ?T) (filter (f \<circ> ?T) (slices n))))"
      using distinct_map_filter[OF sl(2)] by (simp add: comp_def plan_entry_of_def)
    then show "distinct (map (plan_entry_of ?T) (filter (f \<circ> ?T) (slices n)))" by (rule distinct_of_key)
  qed
  have disc: "is_Block a \<Longrightarrow> \<not> is_Eligible a" "is_Reject a \<Longrightarrow> \<not> is_Eligible a" for a
    by (cases a; simp)+
  have b: "list_all entry_schema (blocked ?P) \<and> distinct (blocked ?P)"
    using part[OF disc(1)] by (simp add: final_plan_def draft_plan_def Let_def list_all_iff)
  have j: "list_all entry_schema (rejected ?P) \<and> distinct (rejected ?P)"
    using part[OF disc(2)] by (simp add: final_plan_def draft_plan_def Let_def list_all_iff)
  have req: "requirements_schema (executionRequirements ?P)"
    using requirements_schema_of[OF e _ ids(1)] sub sl(3)
    by (simp add: final_plan_def draft_plan_def Let_def)
  have dig: "list_all is_digest [plan_snapshotFingerprint ?P, plan_contractRegistryDigest ?P,
      plan_dependencyGraphDigest ?P, plan_envelopeDigest ?P]"
    by (simp only: list.pred_inject base(3-6) simp_thms)
  show ?thesis unfolding plan_schema_def
    by (simp only: base sid adm dadm q dq b j req dig simp_thms)
qed

text \<open>Planning a checked request ends in a bundle unless the dependencies are wrong.\<close>

lemma build_provisional_plan_total:
  assumes n: "request_checked sha n by_path" and hex: "hex_digest sha"
    and known: "known_dependencies (slices n)" and acyc: "acyclic (dependency_edges (slices n))"
  shows "\<exists>b. build_provisional_plan sha n = Inr b"
proof -
  note sl = request_checked_sliced[OF n]
  from request_checked_times[OF n] obtain i x t where times: "request_times n i x t" by metis
  from dependency_depths_longest[OF sl(1) known acyc] obtain depths where
    depths: "dependency_depths (slices n) = Inr depths" by metis
  have n': "request_schema n" using n by (simp add: request_checked_def)
  obtain r where r: "build_conflict_report sha (request_projectId n) (snapshotFingerprint (authoritySnapshot n))
      (conflictPolicyVersion n) (slices n) = Inr r"
    using build_conflict_report_total[OF hex, of "request_projectId n"
        "snapshotFingerprint (authoritySnapshot n)" "conflictPolicyVersion n" "slices n"] n' sl
    by (auto simp: request_schema_def snapshot_schema_def descriptor_schema_def)
  from build_provisional_plan_eq[OF times sl(2) known depths r]
    decision_schema_final[OF n hex] plan_schema_final[OF n hex r]
  show ?thesis by simp
qed

end
