(* ===== verification/Plan_Permutation.thy ===== *)
theory Plan_Permutation
  imports Planner_Correct
begin

text \<open>
  Planning is deterministic in a strong sense: the order in which a request lists its slices
  does not reach the conflict report, the decision or the plan. Depths are compared through
  their characterisation as longest chains, every other list is sorted by the slice id.
\<close>

section \<open>Sorting\<close>

lemma insort_key_cong: "(\<And>y. y \<in> set (x # ys) \<Longrightarrow> f y = g y) \<Longrightarrow> insort_key f x ys = insort_key g x ys"
  by (induction ys) auto

lemma sort_key_cong: "(\<And>y. y \<in> set xs \<Longrightarrow> f y = g y) \<Longrightarrow> sort_key f xs = sort_key g xs"
proof (induction xs)
  case (Cons x xs)
  then have "sort_key f xs = sort_key g xs" by simp
  moreover have "insort_key f x (sort_key g xs) = insort_key g x (sort_key g xs)"
    by (rule insort_key_cong) (use Cons.prems in auto)
  ultimately show ?case by simp
qed simp

lemma mapE_permutation:
  assumes "mapE f xs = Inr ys" and "mset xs = mset xs'"
  obtains ys' where "mapE f xs' = Inr ys'" and "mset ys' = mset ys"
proof -
  have ok: "f x = Inr (projr (f x))" if "x \<in> set xs" for x
    using assms(1) that by (induction xs arbitrary: ys) (auto simp: result_simps)
  have ys: "ys = map (projr \<circ> f) xs"
    using mapE_Inr_map[of xs f "projr \<circ> f"] ok assms(1) by simp
  have set_eq: "set xs' = set xs" using assms(2) by (metis set_mset_mset)
  have "mapE f xs' = Inr (map (projr \<circ> f) xs')"
    by (rule mapE_Inr_map) (use ok set_eq in simp)
  moreover have "mset (map (projr \<circ> f) xs') = mset ys" by (simp add: ys assms(2))
  ultimately show thesis by (rule that)
qed

section \<open>Requests\<close>

lemma request_checked_permutation:
  assumes n: "request_checked sha n by_path" and m: "mset ds = mset (slices n)"
  shows "request_checked sha (n\<lparr>slices := ds\<rparr>) by_path"
proof -
  have set_eq: "set ds = set (slices n)" using m by (metis set_mset_mset)
  have ne: "ds \<noteq> [] \<longleftrightarrow> slices n \<noteq> []" using m by auto
  have d: "distinct (map sliceId ds)"
    using n mset_eq_map_distinct[OF m, of sliceId] by (simp add: request_checked_def)
  have schema: "request_schema (n\<lparr>slices := ds\<rparr>) = request_schema n"
    using ne set_eq by (simp add: request_schema_def list_all_iff)
  have digest: "dependency_graph_digest sha ds = dependency_graph_digest sha (slices n)"
    using sort_key_permutation[OF m d] by (simp add: dependency_graph_digest_def)
  have "sort (map descriptorDigest ds) = sort (map descriptorDigest (slices n))"
    by (rule sort_permutation) (simp add: m)
  then have facts: "validate_authority_facts (n\<lparr>slices := ds\<rparr>) ds e by_path =
      validate_authority_facts n (slices n) e by_path" for e
    by (simp add: validate_authority_facts_def expected_facts_def)
  have refs: "validate_authority_references by_path ds e =
      validate_authority_references by_path (slices n) e" for e
    by (simp add: validate_authority_references_def list_ex_iff set_eq)
  have ids: "distinct (map sliceId ds) = distinct (map sliceId (slices n))"
    by (rule mset_eq_map_distinct[OF m])
  have "request_checked sha (n\<lparr>slices := ds\<rparr>) by_path = request_checked sha n by_path"
    by (simp add: request_checked_def schema ids digest facts refs set_eq)
  with n show ?thesis by simp
qed

lemma normalize_planning_request_intro:
  assumes "request_schema v" and "distinct (map sliceId (slices v))"
    and "mapE (normalize_slice_descriptor sha) (slices v) = Inr ds"
    and "normalize_authorization_envelope sha (authorizationEnvelope v) = Inr e"
    and "request_checked sha (v\<lparr>slices := ds, authorizationEnvelope := e\<rparr>) by_path"
  shows "normalize_planning_request sha v = Inr (v\<lparr>slices := ds, authorizationEnvelope := e\<rparr>)"
  using assms unfolding request_checked_def normalize_planning_request_def by (auto simp: Let_def)

lemma normalize_planning_request_schema:
  "normalize_planning_request sha v = Inr n \<Longrightarrow> request_schema v \<and> distinct (map sliceId (slices v))"
  unfolding normalize_planning_request_def result_simps by blast

lemma normalize_planning_request_permutation:
  assumes v: "normalize_planning_request sha v = Inr n" and m: "mset ds = mset (slices v)"
  obtains ns where "normalize_planning_request sha (v\<lparr>slices := ds\<rparr>) = Inr (n\<lparr>slices := ns\<rparr>)"
    and "mset ns = mset (slices n)"
proof -
  from v obtain by_path where n: "request_checked sha n by_path"
    "n = v\<lparr>slices := slices n, authorizationEnvelope := authorizationEnvelope n\<rparr>"
    "mapE (normalize_slice_descriptor sha) (slices v) = Inr (slices n)"
    "normalize_authorization_envelope sha (authorizationEnvelope v) = Inr (authorizationEnvelope n)"
    by (rule normalize_planning_request_checked)
  from mapE_permutation[OF n(3) m[symmetric]] obtain ns where
    ns: "mapE (normalize_slice_descriptor sha) ds = Inr ns" "mset ns = mset (slices n)" .
  note sch = normalize_planning_request_schema[OF v]
  have set_eq: "set ds = set (slices v)" using m by (metis set_mset_mset)
  have "n\<lparr>slices := ns\<rparr> = v\<lparr>slices := ns, authorizationEnvelope := authorizationEnvelope n\<rparr>"
    by (subst n(2)) simp
  then have eq: "n\<lparr>slices := ns\<rparr> = (v\<lparr>slices := ds\<rparr>)\<lparr>slices := ns, authorizationEnvelope := authorizationEnvelope n\<rparr>"
    by simp
  have "normalize_planning_request sha (v\<lparr>slices := ds\<rparr>) = Inr (n\<lparr>slices := ns\<rparr>)"
    unfolding eq
  proof (rule normalize_planning_request_intro[where by_path = by_path])
    show "request_schema (v\<lparr>slices := ds\<rparr>)"
      using sch m set_eq by (auto simp: request_schema_def list_all_iff)
    show "distinct (map sliceId (slices (v\<lparr>slices := ds\<rparr>)))"
      using sch mset_eq_map_distinct[OF m, of sliceId] by simp
    show "request_checked sha (v\<lparr>slices := ds, slices := ns, authorizationEnvelope := authorizationEnvelope n\<rparr>) by_path"
      unfolding eq[symmetric] by (rule request_checked_permutation[OF n(1) ns(2)])
  qed (use ns n(4) in simp_all)
  then show thesis by (rule that) (rule ns(2))
qed

section \<open>Plans\<close>

lemma dependency_edges_permutation: "set ds = set es \<Longrightarrow> dependency_edges ds = dependency_edges es"
  by (simp add: dependency_edges_def)

lemma depths_permutation:
  assumes ds: "sliced ds" "known_dependencies ds" "acyclic (dependency_edges ds)"
    and m: "mset es = mset ds"
    and d: "dependency_depths ds = Inr depths" and e: "dependency_depths es = Inr depths'"
    and x: "x \<in> set ds"
  shows "count_of depths' (sliceId x) = count_of depths (sliceId x)"
proof -
  have set_eq: "set es = set ds" using m by (metis set_mset_mset)
  have "sliced es" "known_dependencies es"
    using ds(1,2) set_eq mset_eq_map_distinct[OF m, of sliceId]
    by (simp_all add: sliced_def known_dependencies_def list_all_iff)
  moreover note E = dependency_edges_permutation[OF set_eq]
  ultimately have "longest_chain (dependency_edges ds) (sliceId x) (count_of depths' (sliceId x))"
    using dependency_depths_longest[of es] ds(3) e x set_eq by (metis Inr_inject)
  moreover have "longest_chain (dependency_edges ds) (sliceId x) (count_of depths (sliceId x))"
    using dependency_depths_longest[OF ds] d x by (metis Inr_inject)
  ultimately show ?thesis by (rule longest_chain_unique)
qed

lemma final_decision_permutation:
  assumes "mset ds = mset (slices n)" and "distinct (map sliceId (slices n))"
  shows "final_decision sha (n\<lparr>slices := ds\<rparr>) i x t = final_decision sha n i x t"
proof -
  have "sort_key sliceId ds = sort_key sliceId (slices n)"
    using assms mset_eq_map_distinct[OF assms(1), of sliceId] by (intro sort_key_permutation) auto
  then show ?thesis by (simp add: final_decision_def draft_decision_def Let_def)
qed

lemma plan_triage_permutation:
  "mset ds = mset (slices n) \<Longrightarrow> plan_triage (n\<lparr>slices := ds\<rparr>) i x t = plan_triage n i x t"
  by (intro ext) (auto simp: plan_triage_def triage_of_def dest!: mset_eq_setD)

lemma plan_schedule_permutation:
  assumes m: "mset ds = mset (slices n)" and d: "distinct (map sliceId (slices n))"
    and depths: "\<And>c. c \<in> set (slices n) \<Longrightarrow> count_of depths' (sliceId c) = count_of depths (sliceId c)"
  shows "plan_schedule (n\<lparr>slices := ds\<rparr>) i x t depths' r = plan_schedule n i x t depths r"
proof -
  let ?P = "is_Eligible \<circ> plan_triage n i x t"
  have "sort_key (schedule_key depths') (filter ?P ds) = sort_key (schedule_key depths) (filter ?P ds)"
    using depths mset_eq_setD[OF m] by (intro sort_key_cong) (auto simp: schedule_key_def)
  also have "\<dots> = sort_key (schedule_key depths) (filter ?P (slices n))"
  proof (rule sort_key_permutation)
    show "mset (filter ?P ds) = mset (filter ?P (slices n))" by (simp add: m)
    have "distinct (map sliceId (filter ?P ds))"
      using d mset_eq_map_distinct[OF m, of sliceId] by (intro distinct_map_filter) simp
    then show "distinct (map (schedule_key depths) (filter ?P ds))"
      by (auto simp: distinct_map inj_on_def schedule_key_def)
  qed
  finally show ?thesis
    by (simp add: plan_schedule_def plan_triage_permutation[OF m] plan_lane_cap_def)
qed

lemma triage_entries_permutation:
  assumes m: "mset ds = mset es" and d: "distinct (map sliceId es)"
  shows "sort_key entry_sliceId (map (plan_entry_of T) (filter P ds)) =
    sort_key entry_sliceId (map (plan_entry_of T) (filter P es))"
proof (rule sort_key_permutation)
  show "mset (map (plan_entry_of T) (filter P ds)) = mset (map (plan_entry_of T) (filter P es))"
    by (simp add: m)
  have "distinct (map sliceId (filter P ds))"
    using d mset_eq_map_distinct[OF m, of sliceId] by (intro distinct_map_filter) simp
  then show "distinct (map entry_sliceId (map (plan_entry_of T) (filter P ds)))"
    by (simp add: comp_def plan_entry_of_def)
qed

lemma final_plan_permutation:
  assumes m: "mset ds = mset (slices n)" and d: "distinct (map sliceId (slices n))"
    and depths: "\<And>c. c \<in> set (slices n) \<Longrightarrow> count_of depths' (sliceId c) = count_of depths (sliceId c)"
  shows "final_plan sha (n\<lparr>slices := ds\<rparr>) i x t depths' r = final_plan sha n i x t depths r"
proof -
  have sched: "plan_schedule (n\<lparr>slices := ds\<rparr>) i x t depths' r = plan_schedule n i x t depths r"
    by (rule plan_schedule_permutation[OF m d depths])
  have "draft_plan sha (n\<lparr>slices := ds\<rparr>) i x t depths' r = draft_plan sha n i x t depths r"
    unfolding draft_plan_def Let_def sched plan_triage_permutation[OF m]
      final_decision_permutation[OF m d]
    by (simp add: plan_lane_cap_def triage_entries_permutation[OF m d])
  then show ?thesis by (simp add: final_plan_def)
qed

lemma build_provisional_plan_permutation:
  assumes n: "request_checked sha n by_path" and b: "build_provisional_plan sha n = Inr b"
    and m: "mset ds = mset (slices n)"
  shows "build_provisional_plan sha (n\<lparr>slices := ds\<rparr>) = Inr b"
proof -
  let ?n = "n\<lparr>slices := ds\<rparr>"
  note sl = request_checked_sliced[OF n]
  from build_provisional_plan_Inr[OF n b] obtain i x t depths r where
    times: "request_times n i x t" and known: "known_dependencies (slices n)"
    and acyc: "acyclic (dependency_edges (slices n))"
    and depths: "dependency_depths (slices n) = Inr depths"
    and r: "build_conflict_report sha (request_projectId n) (snapshotFingerprint (authoritySnapshot n))
      (conflictPolicyVersion n) (slices n) = Inr r"
    and sch: "decision_schema (final_decision sha n i x t)" "plan_schema (final_plan sha n i x t depths r)"
    and b': "b = \<lparr>conflictReport = r, authorizationDecision = final_decision sha n i x t,
          executionPlan = final_plan sha n i x t depths r\<rparr>" by metis
  have set_eq: "set ds = set (slices n)" using m by (rule mset_eq_setD)
  have dd: "distinct (map sliceId ds)" using sl(2) mset_eq_map_distinct[OF m, of sliceId] by simp
  have "sliced ds" "known_dependencies ds" "acyclic (dependency_edges ds)"
    using sl(1) known acyc set_eq dd dependency_edges_permutation[OF set_eq]
    by (simp_all add: sliced_def known_dependencies_def list_all_iff)
  from dependency_depths_longest[OF this] obtain depths' where depths': "dependency_depths ds = Inr depths'" by metis
  have same: "count_of depths' (sliceId c) = count_of depths (sliceId c)" if "c \<in> set (slices n)" for c
    by (rule depths_permutation[OF sl(1) known acyc m depths depths' that])
  have r': "build_conflict_report sha (request_projectId ?n) (snapshotFingerprint (authoritySnapshot ?n))
      (conflictPolicyVersion ?n) (slices ?n) = Inr r"
    using r build_conflict_report_permutation[OF m dd] by simp
  have "request_times ?n i x t" using times by (simp add: request_times_def)
  from build_provisional_plan_eq[OF this _ _ _ r', of depths'] sch
  show ?thesis
    using dd depths' \<open>known_dependencies ds\<close>
    by (simp add: b' final_decision_permutation[OF m sl(2)] final_plan_permutation[OF m sl(2) same])
qed

lemma build_execution_plan_permutation:
  assumes b: "build_provisional_execution_plan sha v = Inr b" and m: "mset ds = mset (slices v)"
  shows "build_provisional_execution_plan sha (v\<lparr>slices := ds\<rparr>) = Inr b"
proof -
  from b obtain n where n: "normalize_planning_request sha v = Inr n" "build_provisional_plan sha n = Inr b"
    by (auto simp: build_provisional_execution_plan_def result_simps)
  from normalize_planning_request_checked[OF n(1)] obtain by_path where
    c: "request_checked sha n by_path" by metis
  from normalize_planning_request_permutation[OF n(1) m] obtain ns where
    ns: "normalize_planning_request sha (v\<lparr>slices := ds\<rparr>) = Inr (n\<lparr>slices := ns\<rparr>)" "mset ns = mset (slices n)" .
  with build_provisional_plan_permutation[OF c n(2) ns(2)] show ?thesis
    by (simp add: build_provisional_execution_plan_def)
qed

end
