(* ===== verification/Sample_Batch.thy ===== *)
theory Sample_Batch
  imports Plan_Permutation
begin

text \<open>
  One concrete planning request, on which the hypotheses of the properties hold: five slices,
  of which two are proposed, one is queued behind its cluster, one is closed (and reported as
  not ready) and one writes outside the permitted prefixes. The digest function of the sample
  is a parity, enough to evaluate every check of the planner in the kernel.
\<close>

section \<open>The parity of a canonical text\<close>

text \<open>The length of a canonical text does not depend on the order of the keys.\<close>

lemma length_join': "length (join c xs) = sum_list (map length xs) + (length xs - 1)"
  by (induction c xs rule: join.induct) auto

lemma length_render_JObj:
  "length (render (JObj kvs)) =
     2 + sum_list (map (\<lambda>kv. length (quote (fst kv)) + 1 + length (render (snd kv))) kvs) + (length kvs - 1)"
  by (simp add: length_join' comp_def)

lemma length_render_canon: "length (render (canon_form v)) = length (render v)"
proof (induction v)
  case (JArr vs)
  then have "map (\<lambda>v. length (render (canon_form v))) vs = map (\<lambda>v. length (render v)) vs" by simp
  then show ?case by (simp add: length_join' comp_def del: map_eq_conv)
next
  case (JObj kvs)
  let ?g = "\<lambda>kv. length (quote (fst kv)) + 1 + length (render (snd kv))"
  have m: "mset (map ?g (sort_key fst (map (\<lambda>kv. (fst kv, canon_form (snd kv))) kvs))) =
      mset (map ?g (map (\<lambda>kv. (fst kv, canon_form (snd kv))) kvs))" by (simp only: mset_map mset_sort)
  have "sum_list (map ?g (sort_key fst (map (\<lambda>kv. (fst kv, canon_form (snd kv))) kvs))) =
      sum_list (map ?g (map (\<lambda>kv. (fst kv, canon_form (snd kv))) kvs))"
    using arg_cong[OF m, of sum_mset] by (simp only: sum_mset_sum_list)
  also have "map ?g (map (\<lambda>kv. (fst kv, canon_form (snd kv))) kvs) = map ?g kvs"
    using JObj by (auto simp: snds.simps)
  finally show ?case
    unfolding canon_form.simps length_render_JObj by simp
qed simp_all

definition odd_escape :: "char \<Rightarrow> bool" where
  "odd_escape c = (c \<notin> set [quote_char, backslash, CHR 0x0A, CHR 0x0D, CHR 0x09, CHR 0x0C, CHR 0x08] \<and>  \<not> (of_char c < (32::nat)))"


fun parity :: "bool \<Rightarrow> bool list \<Rightarrow> bool" where
  "parity b [] = b"
| "parity b (c # cs) = parity (b \<noteq> c) cs"

fun odd_text :: "json \<Rightarrow> bool" where
  "odd_text JNull = False"
| "odd_text (JBool b) = (\<not> b)"
| "odd_text (JInt i) = odd (length (dec_int i))"
| "odd_text (JStr s) = parity False (map odd_escape s)"
| "odd_text (JArr vs) = parity (vs \<noteq> []) (map (\<lambda>v. \<not> odd_text v) vs)"
| "odd_text (JObj kvs) =
     parity (kvs \<noteq> []) (map (\<lambda>kv. parity False (map odd_escape (fst kv)) \<noteq> odd_text (snd kv)) kvs)"

lemma parity_sum: "parity (odd n) (map odd ns) = odd (n + sum_list ns)" for ns :: "nat list"
proof (induction ns arbitrary: n)
  case (Cons a ns)
  have "(odd n \<noteq> odd a) = odd (n + a)" by auto
  then show ?case by (simp only: list.map parity.simps Cons sum_list.Cons add.assoc)
qed simp

lemma odd_escape: "odd (length (escape_char c)) = odd_escape c"
  unfolding escape_char_def odd_escape_def by (auto simp del: of_char_eq_iff)

lemma odd_quote: "odd (length (quote s)) = parity False (map odd_escape s)"
proof -
  have "length (quote s) = 2 + sum_list (map (length \<circ> escape_char) s)"
    by (simp add: quote_def length_concat comp_def)
  then show ?thesis using parity_sum[of 0 "map (length \<circ> escape_char) s"]
    by (simp add: comp_def odd_escape)
qed

lemma odd_separators:
  fixes ns :: "nat list"
  shows "odd (2 + (sum_list ns + (length ns - 1))) = parity (ns \<noteq> []) (map even ns)"
proof (cases ns)
  case (Cons n ms)
  have "1 + sum_list (map Suc ns) = Suc (Suc (sum_list ns + (length ns - 1)))"
    by (simp add: Cons sum_list_Suc)
  moreover have "map odd (map Suc ns) = map even ns" by simp
  moreover have "(ns \<noteq> []) = odd (1 :: nat)" using Cons by simp
  ultimately show ?thesis using parity_sum[of 1 "map Suc ns"]
    by (simp only: add_2_eq_Suc even_Suc)
qed simp

lemma odd_text_render: "odd (length (render v)) = odd_text v"
proof (induction v)
  case (JArr vs)
  have len: "length (render (JArr vs)) = 2 + (sum_list (map (length \<circ> render) vs) + (length (map (length \<circ> render) vs) - 1))"
    by (simp add: length_join')
  have "map even (map (length \<circ> render) vs) = map (\<lambda>v. \<not> odd_text v) vs"
    using JArr by auto
  then show ?case unfolding len odd_separators by (simp only: map_is_Nil_conv odd_text.simps)
next
  case (JObj kvs)
  let ?ns = "map (\<lambda>kv. length (quote (fst kv)) + 1 + length (render (snd kv))) kvs"
  have len: "length (render (JObj kvs)) = 2 + (sum_list ?ns + (length ?ns - 1))"
    unfolding length_render_JObj by simp
  have "map even ?ns = map (\<lambda>kv. parity False (map odd_escape (fst kv)) \<noteq> odd_text (snd kv)) kvs"
    using JObj by (auto simp: odd_quote[symmetric] snds.simps)
  then show ?case unfolding len odd_separators by (simp only: map_is_Nil_conv odd_text.simps)
qed (simp_all add: odd_quote)

lemma odd_canonical: "odd (length (canonical_json_bytes v)) = odd_text v"
  by (simp add: canonical_json_bytes_def length_render_canon odd_text_render)

section \<open>The sample\<close>

definition sample_sha :: "string \<Rightarrow> string" where
  "sample_sha s = replicate 64 (if odd (length s) then CHR ''a'' else CHR ''b'')"

lemma hex_digest_sample: "hex_digest sample_sha"
  by (simp add: hex_digest_def sample_sha_def is_hex_def list_all_iff)

definition digest_a :: string where "digest_a = ''sha256:'' @ replicate 64 (CHR ''a'')"
definition digest_b :: string where "digest_b = ''sha256:'' @ replicate 64 (CHR ''b'')"

lemma sample_digest: "sha256_json sample_sha v = (if odd_text v then digest_a else digest_b)"
  by (simp add: sha256_json_def sample_sha_def odd_canonical digest_a_def digest_b_def)

definition sample_slice :: "string \<Rightarrow> string \<Rightarrow> string \<Rightarrow> slice_state \<Rightarrow> int \<Rightarrow> string list \<Rightarrow> string \<Rightarrow> slice_descriptor" where
  "sample_slice name owner path state prio deps digest =
     \<lparr>sliceId = name, ownerSet = [owner], factFamilySet = [], publicContractSet = [],
      producerConsumerSet = [], bindingSet = [], exactWriteSet = [path], ephemeralWriteSet = [],
      sharedArtifactSet = [], dependencySet = deps, migrationResourceSet = [],
      authorityReferences = [''docs/plan.md''], slice_state_of = state, portfolioId = ''core'',
      deliveryTrackId = ''track'', sliceClass = ''code'', priority = prio, requiredGates = [''unit''],
      reviewPolicy = \<lparr>reviewerRole = ''reviewer'', minimumVerdict = ''GO_ZERO_FINDINGS''\<rparr>,
      authorizationClass = ''action:edit'', descriptorDigest = digest\<rparr>"

definition sample_slices :: "slice_descriptor list" where
  "sample_slices =
     [sample_slice ''api'' ''owner:api'' ''src/api'' READY 1 [''base''] digest_a,
      sample_slice ''api-docs'' ''owner:docs'' ''src/api/readme.md'' READY 2 [] digest_a,
      sample_slice ''base'' ''owner:base'' ''src/base'' CLOSED 1 [] digest_a,
      sample_slice ''tool'' ''owner:tool'' ''src/tools'' READY 3 [] digest_a,
      sample_slice ''web'' ''owner:web'' ''web/index.html'' READY 1 [] digest_b]"

definition sample_envelope :: authorization_envelope where
  "sample_envelope =
     \<lparr>envelopeId = ''envelope:1'', issuerId = ''authority:owner'',
      issuerAuthorityReference = ''docs/owner.md'', issuerAuthorityDigest = digest_a,
      env_projectId = ''demo'', env_portfolioId = ''core'',
      permittedDeliveryTracks = [''track''], permittedSliceClasses = [''code''],
      permittedPathPrefixes = [''src''], permittedActionClasses = [''action:edit''],
      maxParallelLanes = 2, requiredTests = [''pytest''], env_requiredGates = [''lint''],
      requiredReviewers = [''lead''], minimumReviewVerdict = ''GO_ZERO_FINDINGS'',
      issuedAt = ''2026-01-01T00:00:00Z'', expiresAt = ''2026-02-01T00:00:00Z'',
      deniedActions = [''action:deny''], stopConditions = [''stop''], envelopeDigest = digest_b\<rparr>"

definition sample_fact :: "string \<Rightarrow> string \<Rightarrow> string \<times> fact_object" where
  "sample_fact name v =
     (name, [(''sourcePath'', JStr ''docs/manifest.yaml''), (''owner'', JStr ''authority:manifest''),
             (''normalizedValue'', JStr v)])"

definition sample_snapshot :: authority_snapshot where
  "sample_snapshot =
     \<lparr>integrationId = ''integration:1'', snapshot_projectId = ''demo'',
      sourceRevision = \<lparr>revision_kind_of = GIT, revision_head = replicate 40 (CHR ''0''),
        revision_tree = ''tree'', authoritySetStatus = CLEAN_FOR_AUTHORITY_SET,
        authoritySetDigest = digest_b\<rparr>,
      authorities =
        [\<lparr>authority_id = ''authority:manifest'', authority_path = ''docs/manifest.yaml'',
          authority_role = ''manifest'', authority_sha256 = replicate 64 (CHR ''c'')\<rparr>,
         \<lparr>authority_id = ''authority:owner'', authority_path = ''docs/owner.md'',
          authority_role = ''owner'', authority_sha256 = replicate 64 (CHR ''a'')\<rparr>,
         \<lparr>authority_id = ''authority:plan'', authority_path = ''docs/plan.md'',
          authority_role = ''plan'', authority_sha256 = replicate 64 (CHR ''d'')\<rparr>],
      facts =
        [sample_fact ''controlled_planning.mode'' ''CONTROLLED_PARALLEL'',
         sample_fact ''controlled_planning.contract_registry_digest'' digest_a,
         sample_fact ''controlled_planning.dependency_graph_digest'' digest_a,
         sample_fact ''controlled_planning.authorization_envelope_digest'' digest_b,
         sample_fact ''controlled_planning.slice_descriptor_digests''
           (canonical_json_bytes (jstrs [digest_a, digest_a, digest_a, digest_a, digest_b])),
         sample_fact ''controlled_planning.conflict_policy_version'' ''controlled-conflict-policy/v1''],
      conflicts = [], missingFacts = [], excludedPaths = [], snapshot_gate = PASS,
      snapshotFingerprint = digest_b\<rparr>"

definition sample_request :: planning_request where
  "sample_request =
     \<lparr>planningMode = ''CONTROLLED_PARALLEL'', request_projectId = ''demo'',
      batchBaseCommit = replicate 40 (CHR ''0''), authoritySnapshot = sample_snapshot,
      contractRegistryDigest = digest_a, dependencyGraphDigest = digest_a,
      conflictPolicyVersion = ''controlled-conflict-policy/v1'',
      harnessVersion = ''agent-evolution-harness/0.1.0'', asOf = ''2026-01-15T09:30:00Z'',
      authorizationEnvelope = sample_envelope, slices = sample_slices\<rparr>"

section \<open>The sample is accepted\<close>

lemma sample_slices_schema: "list_all descriptor_schema sample_slices"
  by code_simp

lemma sample_slices_normal: "list_all (\<lambda>d. normalize_descriptor_fields d = Inr d) sample_slices"
  by code_simp

lemma sample_slices_digest:
  "list_all (\<lambda>d. sha256_json sample_sha (JObj (descriptor_payload d)) = descriptorDigest d) sample_slices"
  unfolding sample_digest by code_simp

lemma sample_request_schema: "request_schema sample_request"
  by code_simp

lemma sample_ids: "distinct (map sliceId sample_slices)"
  by code_simp

lemma sample_envelope_accepted:
  "normalize_authorization_envelope sample_sha sample_envelope = Inr sample_envelope"
proof -
  have "envelope_schema sample_envelope" "normalize_envelope_fields sample_envelope = Inr sample_envelope"
    "odd_text (JObj (envelope_payload sample_envelope)) = (envelopeDigest sample_envelope = digest_a)"
    by code_simp+
  then show ?thesis
    unfolding normalize_authorization_envelope_eq_Inr envelope_digest_def
    by (simp add: sample_digest) (simp add: sample_envelope_def digest_a_def digest_b_def)
qed

definition sample_by_path :: "(string, authority_record) dict" where
  "sample_by_path = map (\<lambda>a. (authority_path a, a)) (authorities sample_snapshot)"

lemma sample_snapshot_accepted:
  "validate_snapshot sample_sha sample_snapshot (batchBaseCommit sample_request) = Inr sample_by_path"
proof -
  have "odd_text (JObj (snapshot_payload sample_snapshot)) = (snapshotFingerprint sample_snapshot = digest_a)"
    "odd_text (authorities_json (authorities sample_snapshot)) =
       (authoritySetDigest (sourceRevision sample_snapshot) = digest_a)"
    "snapshotFingerprint sample_snapshot = digest_b"
    "authoritySetDigest (sourceRevision sample_snapshot) = digest_b"
    by code_simp+
  then have d: "snapshotFingerprint sample_snapshot = snapshot_fingerprint sample_sha sample_snapshot"
    "authoritySetDigest (sourceRevision sample_snapshot) = authority_set_digest sample_sha sample_snapshot"
    by (simp_all add: snapshot_fingerprint_def authority_set_digest_def sample_digest)
  show ?thesis unfolding validate_snapshot_def d[symmetric] by code_simp
qed

lemma sample_graph_digest:
  "dependency_graph_digest sample_sha sample_slices = dependencyGraphDigest sample_request"
  unfolding dependency_graph_digest_def sample_digest by code_simp

lemma sample_facts_accepted:
  "validate_authority_facts sample_request sample_slices sample_envelope sample_by_path = Inr ()"
  by code_simp

lemma sample_references_accepted:
  "validate_authority_references sample_by_path sample_slices sample_envelope = Inr ()"
  by code_simp

lemma sample_times:
  "parse_rfc3339 ''2026-01-01T00:00:00Z'' = Inr 63902908800000000"
  "parse_rfc3339 ''2026-02-01T00:00:00Z'' = Inr 63905587200000000"
  "parse_rfc3339 ''2026-01-15T09:30:00Z'' = Inr 63904152600000000"
  by code_simp+

lemma sample_select [simp]:
  "slices sample_request = sample_slices" "authorizationEnvelope sample_request = sample_envelope"
  "authoritySnapshot sample_request = sample_snapshot" "asOf sample_request = ''2026-01-15T09:30:00Z''"
  "issuedAt sample_envelope = ''2026-01-01T00:00:00Z''" "expiresAt sample_envelope = ''2026-02-01T00:00:00Z''"
  "request_projectId sample_request = ''demo''" "snapshot_projectId sample_snapshot = ''demo''"
  "env_projectId sample_envelope = ''demo''"
  by (simp_all add: sample_request_def sample_envelope_def sample_snapshot_def)

lemma sample_checked: "request_checked sample_sha sample_request sample_by_path"
proof -
  have "normalize_slice_descriptor sample_sha d = Inr d" if "d \<in> set sample_slices" for d
    using that sample_slices_schema sample_slices_normal sample_slices_digest
    unfolding normalize_slice_descriptor_eq_Inr descriptor_digest_def list_all_iff by simp
  then show ?thesis
    using sample_request_schema sample_ids sample_envelope_accepted sample_snapshot_accepted
      sample_graph_digest sample_facts_accepted sample_references_accepted sample_times
    by (simp add: request_checked_def)
qed

lemma sample_accepted: "normalize_planning_request sample_sha sample_request = Inr sample_request"
  by (rule request_checked_accepted[OF sample_checked])

section \<open>Its plan\<close>

lemma sample_depths:
  "dependency_depths sample_slices =
     Inr [(''api'', 1), (''api-docs'', 0), (''base'', 0), (''tool'', 0), (''web'', 0)]"
  by code_simp

lemma sample_stable_id:
  "stable_id sample_sha p v = p @ CHR '':'' # replicate 24 (if odd_text v then CHR ''a'' else CHR ''b'')"
  by (simp add: stable_id_def sample_sha_def odd_canonical)

definition cluster_name :: "char \<Rightarrow> string" where
  "cluster_name c = ''conflict-cluster:'' @ replicate 24 c"

lemma sample_clusters:
  "clusters_of sample_sha ''demo'' ''controlled-conflict-policy/v1''
       (map sliceId (sort_key sliceId sample_slices)) (conflict_edges_of (sort_key sliceId sample_slices))
     = [\<lparr>clusterId = cluster_name (CHR ''a''), cluster_slices = [''api'', ''api-docs'', ''base'']\<rparr>,
        \<lparr>clusterId = cluster_name (CHR ''b''), cluster_slices = [''tool'']\<rparr>,
        \<lparr>clusterId = cluster_name (CHR ''a''), cluster_slices = [''web'']\<rparr>]"
  unfolding clusters_of_def cluster_of_def[abs_def] sample_stable_id by code_simp

definition sample_cluster :: "slice_descriptor \<Rightarrow> string" where
  "sample_cluster d = cluster_name (if sliceId d = ''tool'' then CHR ''b'' else CHR ''a'')"

definition sample_now :: int where "sample_now = 63904152600000000"
definition sample_issued :: int where "sample_issued = 63902908800000000"
definition sample_expires :: int where "sample_expires = 63905587200000000"

lemma sample_request_times: "request_times sample_request i x t \<longleftrightarrow>
    i = sample_issued \<and> x = sample_expires \<and> t = sample_now"
  by (auto simp: request_times_def sample_times sample_now_def sample_issued_def sample_expires_def)

lemma sample_triage:
  "map (plan_triage sample_request sample_issued sample_expires sample_now) sample_slices =
     [Eligible, Eligible, Block [''SLICE_NOT_READY''], Eligible, Reject [''WRITESET_OUTSIDE_PREFIX'']]"
  by code_simp

lemma sample_schedule:
  "schedule_all 2 sample_cluster
     (sort_key (schedule_key [(''api'', 1), (''api-docs'', 0), (''base'', 0), (''tool'', 0), (''web'', 0)])
       (filter (is_Eligible \<circ> plan_triage sample_request sample_issued sample_expires sample_now) sample_slices))
   = \<lparr>schedule_proposed = [sample_slices ! 0, sample_slices ! 3],
      schedule_queued = [\<lparr>entry_sliceId = ''api-docs'', entry_reasons = [''CONFLICT_CLUSTER_BUSY'']\<rparr>],
      occupied_clusters = [cluster_name (CHR ''b''), cluster_name (CHR ''a'')]\<rparr>"
  by code_simp

lemma sample_blocked:
  "map sliceId (filter (is_Block \<circ> plan_triage sample_request sample_issued sample_expires sample_now) sample_slices) = [''base'']"
  by code_simp

lemma sample_rejected:
  "map sliceId (filter (is_Reject \<circ> plan_triage sample_request sample_issued sample_expires sample_now) sample_slices) = [''web'']"
  by code_simp

lemma sample_known: "known_dependencies sample_slices"
  by code_simp

lemma sample_cap: "plan_lane_cap sample_request = 2"
  by code_simp

lemma sample_bundle:
  obtains b where "build_provisional_execution_plan sample_sha sample_request = Inr b"
    and "build_provisional_plan sample_sha sample_request = Inr b"
    and "map admission_sliceId (proposedAdmissions (executionPlan b)) = [''api'', ''tool'']"
    and "queued (executionPlan b) = [\<lparr>entry_sliceId = ''api-docs'', entry_reasons = [''CONFLICT_CLUSTER_BUSY'']\<rparr>]"
    and "map entry_sliceId (blocked (executionPlan b)) = [''base'']"
    and "map entry_sliceId (rejected (executionPlan b)) = [''web'']"
    and "projectLaneCap (executionPlan b) = 2"
proof -
  have "acyclic (dependency_edges sample_slices)"
  proof (rule ccontr)
    assume "\<not> acyclic (dependency_edges sample_slices)"
    then have "dependency_depths sample_slices = Inl (Planning_Error ''DEPENDENCY_CYCLE'')"
      using dependency_depths_run[OF _ sample_known] request_checked_sliced(1)[OF sample_checked]
      by (metis sample_select(1))
    then show False using sample_depths by simp
  qed
  with build_provisional_plan_total[OF sample_checked hex_digest_sample] sample_known
  obtain b where b: "build_provisional_plan sample_sha sample_request = Inr b" by auto
  from build_provisional_plan_Inr[OF sample_checked b] obtain i x t depths r where
    times: "request_times sample_request i x t"
    and depths: "dependency_depths (slices sample_request) = Inr depths"
    and r: "build_conflict_report sample_sha (request_projectId sample_request)
      (snapshotFingerprint (authoritySnapshot sample_request))
      (conflictPolicyVersion sample_request) (slices sample_request) = Inr r"
    and bun: "b = \<lparr>conflictReport = r, authorizationDecision = final_decision sample_sha sample_request i x t,
          executionPlan = final_plan sample_sha sample_request i x t depths r\<rparr>" by metis
  from times have t: "i = sample_issued" "x = sample_expires" "t = sample_now"
    by (simp_all add: sample_request_times)
  from depths have dep: "depths = [(''api'', 1), (''api-docs'', 0), (''base'', 0), (''tool'', 0), (''web'', 0)]"
    by (simp add: sample_depths)
  have policy: "conflictPolicyVersion sample_request = ''controlled-conflict-policy/v1''"
    by (simp add: sample_request_def)
  have cl: "clusters r = [\<lparr>clusterId = cluster_name (CHR ''a''), cluster_slices = [''api'', ''api-docs'', ''base'']\<rparr>,
        \<lparr>clusterId = cluster_name (CHR ''b''), cluster_slices = [''tool'']\<rparr>,
        \<lparr>clusterId = cluster_name (CHR ''a''), cluster_slices = [''web'']\<rparr>]"
    using build_conflict_report_eq_Inr[OF r] sample_clusters by (simp only: sample_select policy)
  have cid: "cluster_id_of r (sliceId d) = sample_cluster d" if "d \<in> set sample_slices" for d
  proof -
    have "map_of (cluster_map (clusters r)) s = Some (cluster_name (if s = ''tool'' then CHR ''b'' else CHR ''a''))"
      if "s \<in> set [''api'', ''api-docs'', ''base'', ''tool'', ''web'']" for s
      using that by (auto simp: cl cluster_map_def map_of_dict_of)
    moreover have "sliceId d \<in> set [''api'', ''api-docs'', ''base'', ''tool'', ''web'']"
      using that by (auto simp: sample_slices_def sample_slice_def)
    ultimately show ?thesis by (simp add: cluster_id_of_def sample_cluster_def)
  qed
  have S: "plan_schedule sample_request i x t depths r =
      \<lparr>schedule_proposed = [sample_slices ! 0, sample_slices ! 3],
       schedule_queued = [\<lparr>entry_sliceId = ''api-docs'', entry_reasons = [''CONFLICT_CLUSTER_BUSY'']\<rparr>],
       occupied_clusters = [cluster_name (CHR ''b''), cluster_name (CHR ''a'')]\<rparr>"
  proof -
    have "schedule_all 2 (\<lambda>d. cluster_id_of r (sliceId d)) ds = schedule_all 2 sample_cluster ds"
      if "set ds \<subseteq> set sample_slices" for ds
      unfolding schedule_all_def using that cid by (intro fold_cong) auto
    then show ?thesis
      unfolding plan_schedule_def t dep sample_cap sample_select sample_schedule[symmetric] by auto
  qed
  have ids: "sliceId (sample_slices ! 0) = ''api''" "sliceId (sample_slices ! 3) = ''tool''"
    by code_simp+
  from sample_blocked sample_rejected obtain d e where
    tri: "filter (is_Block \<circ> plan_triage sample_request i x t) sample_slices = [d]" "sliceId d = ''base''"
      "filter (is_Reject \<circ> plan_triage sample_request i x t) sample_slices = [e]" "sliceId e = ''web''"
    unfolding t by (auto simp: map_eq_Cons_conv)
  show thesis
  proof (rule that[OF _ b])
    show "build_provisional_execution_plan sample_sha sample_request = Inr b"
      by (simp add: build_provisional_execution_plan_def sample_accepted b)
    show "map admission_sliceId (proposedAdmissions (executionPlan b)) = [''api'', ''tool'']"
      by (simp add: bun final_plan_def draft_plan_def Let_def S plan_admission_def ids)
    show "queued (executionPlan b) = [\<lparr>entry_sliceId = ''api-docs'', entry_reasons = [''CONFLICT_CLUSTER_BUSY'']\<rparr>]"
      by (simp add: bun final_plan_def draft_plan_def Let_def S)
    show "map entry_sliceId (blocked (executionPlan b)) = [''base'']"
      by (simp add: bun final_plan_def draft_plan_def Let_def tri plan_entry_of_def)
    show "map entry_sliceId (rejected (executionPlan b)) = [''web'']"
      by (simp add: bun final_plan_def draft_plan_def Let_def tri plan_entry_of_def)
    show "projectLaneCap (executionPlan b) = 2"
      by (simp add: bun final_plan_def draft_plan_def Let_def sample_cap)
  qed
qed

end
