(* ===== verification/Planning_Properties.thy ===== *)
theory Planning_Properties
  imports Sample_Batch
begin

text \<open>
  The properties of controlled planning, with their witnesses on the sample batch: what a
  returned plan guarantees to the coordinator, when planning fails and with which error, and
  what the digests, the conflict report and the decision record establish.
\<close>

section \<open>A bundle and its request\<close>

lemma execution_plan_view:
  assumes "build_provisional_execution_plan sha v = Inr b"
  obtains n by_path i x t depths r where
    "normalize_planning_request sha v = Inr n" "request_checked sha n by_path"
    "map sliceId (slices n) = map sliceId (slices v)"
    "build_provisional_plan sha n = Inr b" "request_times n i x t" "i < x"
    "known_dependencies (slices n)" "acyclic (dependency_edges (slices n))"
    "dependency_depths (slices n) = Inr depths"
    "build_conflict_report sha (request_projectId n) (snapshotFingerprint (authoritySnapshot n))
      (conflictPolicyVersion n) (slices n) = Inr r"
    "b = \<lparr>conflictReport = r, authorizationDecision = final_decision sha n i x t,
          executionPlan = final_plan sha n i x t depths r\<rparr>"
proof -
  from assms obtain n where n: "normalize_planning_request sha v = Inr n" "build_provisional_plan sha n = Inr b"
    by (auto simp: build_provisional_execution_plan_def result_simps)
  from normalize_planning_request_checked[OF n(1)] obtain by_path where
    c: "request_checked sha n by_path" "mapE (normalize_slice_descriptor sha) (slices v) = Inr (slices n)" by metis
  note ids = normalize_slices_frame(1)[OF c(2)]
  from build_provisional_plan_Inr[OF c(1) n(2)] obtain i x t depths r where
    "request_times n i x t" "i < x" "known_dependencies (slices n)"
    "acyclic (dependency_edges (slices n))" "dependency_depths (slices n) = Inr depths"
    "build_conflict_report sha (request_projectId n) (snapshotFingerprint (authoritySnapshot n))
      (conflictPolicyVersion n) (slices n) = Inr r"
    "b = \<lparr>conflictReport = r, authorizationDecision = final_decision sha n i x t,
          executionPlan = final_plan sha n i x t depths r\<rparr>" .
  then show thesis by (rule that[OF n(1) c(1) ids n(2)])
qed

lemma final_plan_select [simp]:
  "proposedAdmissions (final_plan sha n i x t depths r) =
     map (plan_admission sha r) (sort_key sliceId (schedule_proposed (plan_schedule n i x t depths r)))"
  "queued (final_plan sha n i x t depths r) =
     sort_key entry_sliceId (schedule_queued (plan_schedule n i x t depths r))"
  "blocked (final_plan sha n i x t depths r) =
     sort_key entry_sliceId (map (plan_entry_of (plan_triage n i x t)) (filter (is_Block \<circ> plan_triage n i x t) (slices n)))"
  "rejected (final_plan sha n i x t depths r) =
     sort_key entry_sliceId (map (plan_entry_of (plan_triage n i x t)) (filter (is_Reject \<circ> plan_triage n i x t) (slices n)))"
  "projectLaneCap (final_plan sha n i x t depths r) = plan_lane_cap n"
  by (simp_all add: final_plan_def draft_plan_def Let_def)

lemma admission_ids:
  "map admission_sliceId (map (plan_admission sha r) ds) = map sliceId ds"
  by (simp add: plan_admission_def)

lemma mset_three_way:
  "mset (filter (is_Eligible \<circ> T) ds) + mset (filter (is_Block \<circ> T) ds) + mset (filter (is_Reject \<circ> T) ds) = mset ds"
proof (induction ds)
  case (Cons d ds)
  then show ?case by (cases "T d") simp_all
qed simp

lemma map_sort_key: "map f (sort_key f xs) = sort (map f xs)"
  by (rule properties_for_sort[symmetric]) simp_all

section \<open>What a plan guarantees\<close>

text \<open>C4: Every slice of a planning request is in exactly one of the four lists of the returned
  plan, once: proposed, queued, blocked or rejected; the plan names no other slice.\<close>

theorem plan_partition:
  assumes b: "build_provisional_execution_plan sha v = Inr b"
  defines "p \<equiv> executionPlan b"
  shows "mset (map admission_sliceId (proposedAdmissions p) @ map entry_sliceId (queued p)
           @ map entry_sliceId (blocked p) @ map entry_sliceId (rejected p)) = mset (map sliceId (slices v))
    \<and> distinct (map sliceId (slices v))"
proof -
  obtain n by_path i x t depths r where
    n: "request_checked sha n by_path" and ids: "map sliceId (slices n) = map sliceId (slices v)"
    and b: "b = \<lparr>conflictReport = r, authorizationDecision = final_decision sha n i x t,
          executionPlan = final_plan sha n i x t depths r\<rparr>"
    by (rule execution_plan_view[OF b])
  let ?T = "plan_triage n i x t" and ?S = "plan_schedule n i x t depths r"
  have el: "mset (map sliceId (schedule_proposed ?S)) + mset (map entry_sliceId (schedule_queued ?S)) =
      mset (map sliceId (filter (is_Eligible \<circ> ?T) (slices n)))"
    using plan_schedule_ok[of n r depths i x t] unfolding schedule_ok_def by simp
  let ?P = "final_plan sha n i x t depths r"
  have parts: "mset (map admission_sliceId (proposedAdmissions ?P)) = mset (map sliceId (schedule_proposed ?S))"
    "mset (map entry_sliceId (queued ?P)) = mset (map entry_sliceId (schedule_queued ?S))"
    "mset (map entry_sliceId (blocked ?P)) = mset (map sliceId (filter (is_Block \<circ> ?T) (slices n)))"
    "mset (map entry_sliceId (rejected ?P)) = mset (map sliceId (filter (is_Reject \<circ> ?T) (slices n)))"
    by (simp_all add: plan_admission_def plan_entry_of_def multiset.map_comp comp_def)
  have "mset (map sliceId (slices n)) = mset (map sliceId (filter (is_Eligible \<circ> ?T) (slices n)))
      + mset (map sliceId (filter (is_Block \<circ> ?T) (slices n))) + mset (map sliceId (filter (is_Reject \<circ> ?T) (slices n)))"
    using arg_cong[OF mset_three_way[of ?T "slices n"], of "image_mset sliceId"] by simp
  then have "mset (map sliceId (slices v)) = mset (map admission_sliceId (proposedAdmissions ?P))
      + mset (map entry_sliceId (queued ?P)) + mset (map entry_sliceId (blocked ?P)) + mset (map entry_sliceId (rejected ?P))"
    unfolding parts el[symmetric] ids .
  then show ?thesis
    using request_checked_sliced(2)[OF n] by (simp add: p_def b ids)
qed

lemma plan_partition_witness:
  "\<exists>b. build_provisional_execution_plan sample_sha sample_request = Inr b \<and>
     mset (map admission_sliceId (proposedAdmissions (executionPlan b)) @ map entry_sliceId (queued (executionPlan b))
       @ map entry_sliceId (blocked (executionPlan b)) @ map entry_sliceId (rejected (executionPlan b)))
     = mset (map sliceId sample_slices)"
  using plan_partition[of sample_sha sample_request] by (rule_tac sample_bundle) auto

text \<open>C2: Proposed slices may run side by side: no file lies under a declared write path of two
  of them, and none may write an authority input of another.\<close>

theorem plan_writes_disjoint:
  assumes b: "build_provisional_execution_plan sha v = Inr b"
    and n: "normalize_planning_request sha v = Inr n"
    and c: "c \<in> set (slices n)" "sliceId c \<in> admission_sliceId ` set (proposedAdmissions (executionPlan b))"
    and d: "d \<in> set (slices n)" "sliceId d \<in> admission_sliceId ` set (proposedAdmissions (executionPlan b))"
    and ne: "c \<noteq> d" and p: "p \<in> set (write_paths c)" and q: "q \<in> set (write_paths d @ authorityReferences d)"
  shows "\<not> (contains_path p f \<and> contains_path q f)"
proof -
  obtain n' by_path i x t depths r where n': "normalize_planning_request sha v = Inr n'"
    and ch: "request_checked sha n' by_path"
    and r: "build_conflict_report sha (request_projectId n') (snapshotFingerprint (authoritySnapshot n'))
      (conflictPolicyVersion n') (slices n') = Inr r"
    and b': "b = \<lparr>conflictReport = r, authorizationDecision = final_decision sha n' i x t,
          executionPlan = final_plan sha n' i x t depths r\<rparr>"
    by (rule execution_plan_view[OF b])
  have nn: "n' = n" using n n' by simp
  let ?S = "plan_schedule n i x t depths r" and ?o = "sort_key sliceId (slices n)"
  note ids = request_checked_sliced(2)[OF ch, unfolded nn]
  have sub: "set (schedule_proposed ?S) \<subseteq> set (slices n)" using schedule_proposed_eligible by blast
  have mem: "y \<in> set (schedule_proposed ?S)"
    if y: "y \<in> set (slices n)" "sliceId y \<in> admission_sliceId ` set (proposedAdmissions (executionPlan b))" for y
  proof -
    from y(2) obtain z where z: "z \<in> set (schedule_proposed ?S)" "sliceId z = sliceId y"
      by (auto simp: b' nn plan_admission_def)
    with sub y(1) ids have "z = y" by (auto simp: distinct_map inj_on_def)
    with z(1) show ?thesis by simp
  qed
  have "distinct (map (\<lambda>y. cluster_id_of r (sliceId y)) (schedule_proposed ?S))"
    using plan_schedule_ok[of n r depths i x t] by (simp add: schedule_ok_def)
  then have "cluster_id_of r (sliceId c) \<noteq> cluster_id_of r (sliceId d)"
    using mem[OF c] mem[OF d] ne by (auto simp: distinct_map inj_on_def)
  then have "\<not> batch_conflict ?o c d"
    using conflict_cluster_id[OF r[unfolded nn] c(1) d(1) ne] by blast
  then show ?thesis
    using batch.free_outputs[of ?o c d p q f] batch.free_inputs[of ?o c d p q f] p q by auto
qed

lemma plan_writes_disjoint_witness:
  "\<not> (contains_path ''src/api'' ''src/api/x.py'' \<and> contains_path ''src/tools'' ''src/api/x.py'')"
proof -
  let ?c = "sample_slices ! 0" and ?d = "sample_slices ! 3"
  have mem: "?c \<in> set (slices sample_request)" "?d \<in> set (slices sample_request)"
    and ids: "sliceId ?c = ''api''" "sliceId ?d = ''tool''"
    and w: "''src/api'' \<in> set (write_paths ?c)" "''src/tools'' \<in> set (write_paths ?d @ authorityReferences ?d)"
    by (simp_all add: sample_slices_def sample_slice_def write_paths_def)
  have ne: "?c \<noteq> ?d" using ids by auto
  from sample_bundle obtain b where b: "build_provisional_execution_plan sample_sha sample_request = Inr b"
    and adm: "map admission_sliceId (proposedAdmissions (executionPlan b)) = [''api'', ''tool'']" by metis
  have "admission_sliceId ` set (proposedAdmissions (executionPlan b)) = {''api'', ''tool''}"
    using arg_cong[OF adm, of set] by simp
  then have adm: "sliceId ?c \<in> admission_sliceId ` set (proposedAdmissions (executionPlan b))"
    "sliceId ?d \<in> admission_sliceId ` set (proposedAdmissions (executionPlan b))"
    by (simp_all add: ids)
  show ?thesis by (rule plan_writes_disjoint[OF b sample_accepted mem(1) adm(1) mem(2) adm(2) ne w])
qed

text \<open>C8: A slice is proposed only if the envelope permits it at the instant of the request: inside
  the interval, in portfolio, track, class and action scope, with an action that is neither
  protected nor denied, every write under a permitted prefix; it is READY, each slice it depends
  on is in the batch and CLOSED, and the admission repeats its digests.\<close>

theorem plan_admission_authorized:
  assumes b: "build_provisional_execution_plan sha v = Inr b"
    and n: "normalize_planning_request sha v = Inr n"
    and a: "a \<in> set (proposedAdmissions (executionPlan b))"
  shows "\<exists>d\<in>set (slices n). \<exists>i x t. admission_sliceId a = sliceId d
    \<and> admission_descriptorDigest a = descriptorDigest d
    \<and> exactWriteSetDigest a = exact_writeset_digest sha d
    \<and> request_times n i x t \<and> slice_permitted (authorizationEnvelope n) i x t d
    \<and> slice_state_of d = READY
    \<and> (\<forall>s\<in>set (dependencySet d). \<exists>e\<in>set (slices n). sliceId e = s \<and> slice_state_of e = CLOSED)"
proof -
  obtain n' by_path i x t depths r where n': "normalize_planning_request sha v = Inr n'"
    and times: "request_times n' i x t" and known: "known_dependencies (slices n')"
    and b': "b = \<lparr>conflictReport = r, authorizationDecision = final_decision sha n' i x t,
          executionPlan = final_plan sha n' i x t depths r\<rparr>"
    by (rule execution_plan_view[OF b])
  have nn: "n' = n" using n n' by simp
  from a obtain d where d: "d \<in> set (schedule_proposed (plan_schedule n i x t depths r))" "a = plan_admission sha r d"
    by (auto simp: b' nn)
  then have dn: "d \<in> set (slices n)" and el: "is_Eligible (plan_triage n i x t d)"
    using schedule_proposed_eligible by blast+
  have ok: "slice_permitted (authorizationEnvelope n) i x t d" "slice_state_of d = READY"
    "\<not> (\<exists>e\<in>set (slices n). sliceId e \<in> set (dependencySet d) \<and> slice_state_of e \<noteq> CLOSED)"
    using el by (auto simp: plan_triage_def triage_of_def split: if_splits)
  have "set (dependencySet d) \<subseteq> sliceId ` set (slices n)"
    using known dn by (auto simp: known_dependencies_def list_all_iff nn)
  with ok(3) have "\<forall>s\<in>set (dependencySet d). \<exists>e\<in>set (slices n). sliceId e = s \<and> slice_state_of e = CLOSED"
    by blast
  with dn ok(1,2) times d(2) show ?thesis by (auto simp: nn plan_admission_def)
qed

lemma plan_admission_authorized_witness:
  "\<exists>b a. build_provisional_execution_plan sample_sha sample_request = Inr b
    \<and> a \<in> set (proposedAdmissions (executionPlan b))
    \<and> (\<exists>d\<in>set sample_slices. admission_sliceId a = sliceId d \<and> slice_state_of d = READY)"
proof -
  from sample_bundle obtain b where b: "build_provisional_execution_plan sample_sha sample_request = Inr b"
    and adm: "map admission_sliceId (proposedAdmissions (executionPlan b)) = [''api'', ''tool'']" by metis
  from adm obtain a as where "proposedAdmissions (executionPlan b) = a # as" by (auto simp: map_eq_Cons_conv)
  then have a: "a \<in> set (proposedAdmissions (executionPlan b))" by simp
  from plan_admission_authorized[OF b sample_accepted a] a b show ?thesis by auto
qed

text \<open>The plan proposes no more slices than the lane cap, which is the envelope's maximum and
  never above three.\<close>

theorem plan_lane_bound:
  assumes b: "build_provisional_execution_plan sha v = Inr b"
    and n: "normalize_planning_request sha v = Inr n"
  shows "int (length (proposedAdmissions (executionPlan b))) \<le> projectLaneCap (executionPlan b)
    \<and> projectLaneCap (executionPlan b) = min (maxParallelLanes (authorizationEnvelope n)) 3
    \<and> 1 \<le> projectLaneCap (executionPlan b)"
proof -
  obtain n' by_path i x t depths r where n': "normalize_planning_request sha v = Inr n'"
    and ch: "request_checked sha n' by_path"
    and b': "b = \<lparr>conflictReport = r, authorizationDecision = final_decision sha n' i x t,
          executionPlan = final_plan sha n' i x t depths r\<rparr>"
    by (rule execution_plan_view[OF b])
  have nn: "n' = n" using n n' by simp
  have "1 \<le> maxParallelLanes (authorizationEnvelope n)"
    using ch by (simp add: nn request_checked_def request_schema_def envelope_schema_def)
  then show ?thesis
    using plan_schedule_ok[of n r depths i x t]
    by (simp add: b' nn schedule_ok_def plan_lane_cap_def max_def split: if_splits)
qed

lemma plan_lane_bound_witness:
  "\<exists>b. build_provisional_execution_plan sample_sha sample_request = Inr b
    \<and> int (length (proposedAdmissions (executionPlan b))) \<le> projectLaneCap (executionPlan b)"
proof -
  from sample_bundle obtain b where b: "build_provisional_execution_plan sample_sha sample_request = Inr b" by metis
  from plan_lane_bound[OF b sample_accepted] b show ?thesis by auto
qed

text \<open>A slice that is queued is authorized and ready, and it waits for a reason: a slice of the same
  conflict cluster that is not after it in the order (priority, dependency depth, id) is proposed,
  or the lane cap is used up by slices that are not after it.\<close>

theorem plan_queue_reason:
  assumes b: "build_provisional_execution_plan sha v = Inr b"
    and n: "normalize_planning_request sha v = Inr n"
    and q: "q \<in> set (queued (executionPlan b))"
  shows "\<exists>depths. dependency_depths (slices n) = Inr depths
    \<and> (\<exists>d\<in>set (slices n). entry_sliceId q = sliceId d \<and> slice_state_of d = READY
       \<and> ((entry_reasons q = [''CONFLICT_CLUSTER_BUSY'']
            \<and> (\<exists>e\<in>set (slices n). sliceId e \<in> admission_sliceId ` set (proposedAdmissions (executionPlan b))
                 \<and> cluster_id_of (conflictReport b) (sliceId e) = cluster_id_of (conflictReport b) (sliceId d)
                 \<and> schedule_key depths e \<le> schedule_key depths d))
        \<or> (entry_reasons q = [''PROJECT_CAPACITY_LIMIT'']
            \<and> int (length (proposedAdmissions (executionPlan b))) = projectLaneCap (executionPlan b)
            \<and> (\<forall>a\<in>set (proposedAdmissions (executionPlan b)). \<exists>e\<in>set (slices n).
                 sliceId e = admission_sliceId a \<and> schedule_key depths e \<le> schedule_key depths d))))"
proof -
  obtain n' by_path i x t depths r where n': "normalize_planning_request sha v = Inr n'"
    and ch: "request_checked sha n' by_path"
    and dep: "dependency_depths (slices n') = Inr depths"
    and b': "b = \<lparr>conflictReport = r, authorizationDecision = final_decision sha n' i x t,
          executionPlan = final_plan sha n' i x t depths r\<rparr>"
    by (rule execution_plan_view[OF b])
  have nn: "n' = n" using n n' by simp
  let ?S = "plan_schedule n i x t depths r" and ?cl = "\<lambda>d. cluster_id_of r (sliceId d)"
  let ?key = "schedule_key depths"
  have sub: "\<forall>e\<in>set (schedule_proposed ?S). e \<in> set (slices n)" using schedule_proposed_eligible by blast
  have "1 \<le> plan_lane_cap n"
    using ch by (simp add: nn request_checked_def request_schema_def envelope_schema_def plan_lane_cap_def)
  moreover have "int (length (schedule_proposed ?S)) \<le> max 0 (plan_lane_cap n)"
    using plan_schedule_ok[of n r depths i x t] by (simp add: schedule_ok_def)
  ultimately have cap: "int (length (schedule_proposed ?S)) \<le> plan_lane_cap n" by simp
  have len: "length (proposedAdmissions (executionPlan b)) = length (schedule_proposed ?S)"
    and adm: "admission_sliceId ` set (proposedAdmissions (executionPlan b)) = sliceId ` set (schedule_proposed ?S)"
    and lane: "projectLaneCap (executionPlan b) = plan_lane_cap n" and rep: "conflictReport b = r"
    by (simp_all add: b' nn image_image plan_admission_def)
  from q have "q \<in> set (schedule_queued ?S)" by (simp add: b' nn)
  then obtain d where d: "d \<in> set (slices n)" "is_Eligible (plan_triage n i x t d)" "entry_sliceId q = sliceId d"
    and w: "waits_for_cluster ?cl ?key (schedule_proposed ?S) q d
      \<or> waits_for_lane (plan_lane_cap n) ?key (schedule_proposed ?S) q d"
    using plan_schedule_ok[of n r depths i x t] unfolding schedule_ok_def by fastforce
  have ready: "slice_state_of d = READY"
    using d(2) by (auto simp: plan_triage_def triage_of_def split: if_splits)
  have "(entry_reasons q = [''CONFLICT_CLUSTER_BUSY''] \<and> (\<exists>e\<in>set (slices n).
          sliceId e \<in> sliceId ` set (schedule_proposed ?S) \<and> ?cl e = ?cl d \<and> ?key e \<le> ?key d))
      \<or> (entry_reasons q = [''PROJECT_CAPACITY_LIMIT'']
          \<and> int (length (schedule_proposed ?S)) = plan_lane_cap n
          \<and> (\<forall>y\<in>sliceId ` set (schedule_proposed ?S). \<exists>e\<in>set (slices n). sliceId e = y \<and> ?key e \<le> ?key d))"
    using w sub cap unfolding waits_for_cluster_def waits_for_lane_def by (auto simp: image_iff)
  with d ready dep show ?thesis
    by (intro exI[of _ depths] conjI bexI[of _ d]) (auto simp: nn len lane rep adm[symmetric])
qed

lemma plan_queue_reason_witness:
  "\<exists>b q. build_provisional_execution_plan sample_sha sample_request = Inr b
    \<and> q \<in> set (queued (executionPlan b)) \<and> (\<exists>d\<in>set sample_slices. entry_sliceId q = sliceId d \<and> slice_state_of d = READY)"
proof -
  from sample_bundle obtain b where b: "build_provisional_execution_plan sample_sha sample_request = Inr b"
    and q: "queued (executionPlan b) = [\<lparr>entry_sliceId = ''api-docs'', entry_reasons = [''CONFLICT_CLUSTER_BUSY'']\<rparr>]"
    by metis
  from q have mem: "\<lparr>entry_sliceId = ''api-docs'', entry_reasons = [''CONFLICT_CLUSTER_BUSY'']\<rparr> \<in> set (queued (executionPlan b))"
    by simp
  from plan_queue_reason[OF b sample_accepted mem] b mem show ?thesis unfolding sample_select by blast
qed

text \<open>C21: Planning an accepted request has three outcomes, told apart by its dependency graph: an unknown
  dependency is UNKNOWN_DEPENDENCY, a cycle is DEPENDENCY_CYCLE, and every other accepted request
  yields a bundle: the planner's own schema checks and dictionary lookups never fail.\<close>

theorem plan_outcome:
  assumes n: "normalize_planning_request sha v = Inr n" and hex: "hex_digest sha"
  shows "case build_provisional_execution_plan sha v of
      Inr b \<Rightarrow> known_dependencies (slices n) \<and> acyclic (dependency_edges (slices n))
    | Inl e \<Rightarrow> e = (if known_dependencies (slices n) then Planning_Error ''DEPENDENCY_CYCLE''
                      else Planning_Error ''UNKNOWN_DEPENDENCY'')
              \<and> \<not> (known_dependencies (slices n) \<and> acyclic (dependency_edges (slices n)))"
proof -
  from normalize_planning_request_checked[OF n] obtain by_path where ch: "request_checked sha n by_path" by metis
  note sl = request_checked_sliced[OF ch]
  have eq: "build_provisional_execution_plan sha v = build_provisional_plan sha n"
    by (simp add: build_provisional_execution_plan_def n)
  consider "\<not> known_dependencies (slices n)"
    | "known_dependencies (slices n)" "\<not> acyclic (dependency_edges (slices n))"
    | "known_dependencies (slices n)" "acyclic (dependency_edges (slices n))" by blast
  then show ?thesis
  proof cases
    case 1
    then have "build_provisional_plan sha n = Inl (Planning_Error ''UNKNOWN_DEPENDENCY'')"
      using dependency_depths_unknown[OF sl(2)] by (simp add: build_provisional_plan_def Let_def)
    with 1 show ?thesis by (simp add: eq)
  next
    case 2
    then have "dependency_depths (slices n) = Inl (Planning_Error ''DEPENDENCY_CYCLE'')"
      using dependency_depths_run[OF sl(1)] by metis
    then have "build_provisional_plan sha n = Inl (Planning_Error ''DEPENDENCY_CYCLE'')"
      by (simp add: build_provisional_plan_def Let_def)
    with 2 show ?thesis by (simp add: eq)
  next
    case 3
    with build_provisional_plan_total[OF ch hex] obtain b where "build_provisional_plan sha n = Inr b" by blast
    with 3 show ?thesis by (simp add: eq)
  qed
qed

lemma plan_outcome_witness:
  "\<exists>b. build_provisional_execution_plan sample_sha sample_request = Inr b
    \<and> known_dependencies sample_slices \<and> acyclic (dependency_edges sample_slices)"
proof -
  from sample_bundle obtain b where "build_provisional_execution_plan sample_sha sample_request = Inr b" by metis
  with plan_outcome[OF sample_accepted hex_digest_sample] show ?thesis by simp
qed

text \<open>C39: Planning does not depend on the order in which a request lists its slices: a reordered
  request yields the same report, decision and plan.\<close>

theorem plan_slice_order_irrelevant:
  assumes "build_provisional_execution_plan sha v = Inr b" and "mset ds = mset (slices v)"
  shows "build_provisional_execution_plan sha (v\<lparr>slices := ds\<rparr>) = Inr b"
  by (rule build_execution_plan_permutation[OF assms])

lemma plan_slice_order_irrelevant_witness:
  "\<exists>b. build_provisional_execution_plan sample_sha (sample_request\<lparr>slices := rev sample_slices\<rparr>) = Inr b"
proof -
  from sample_bundle obtain b where "build_provisional_execution_plan sample_sha sample_request = Inr b" by metis
  from plan_slice_order_irrelevant[OF this, of "rev sample_slices"] show ?thesis by auto
qed

section \<open>Depths\<close>

text \<open>Kahn's algorithm terminates on every batch with identified slices; it returns depths exactly
  for the known acyclic graphs, the depth of a slice being the length of the longest dependency chain
  that starts at it, and tells unknown dependencies from cycles.\<close>

theorem dependency_depths_outcome:
  assumes ds: "sliced ds"
  shows "case dependency_depths ds of
      Inr depths \<Rightarrow> known_dependencies ds \<and> acyclic (dependency_edges ds)
        \<and> (\<forall>d\<in>set ds. longest_chain (dependency_edges ds) (sliceId d) (count_of depths (sliceId d)))
    | Inl e \<Rightarrow> e = (if known_dependencies ds then Planning_Error ''DEPENDENCY_CYCLE''
                      else Planning_Error ''UNKNOWN_DEPENDENCY'')
              \<and> \<not> (known_dependencies ds \<and> acyclic (dependency_edges ds))"
proof (cases "known_dependencies ds")
  case False
  with dependency_depths_unknown[of ds] ds show ?thesis by (simp add: sliced_def)
next
  case True
  show ?thesis
  proof (cases "acyclic (dependency_edges ds)")
    case True
    from dependency_depths_longest[OF ds \<open>known_dependencies ds\<close> True] obtain depths where
      "dependency_depths ds = Inr depths"
      "\<forall>d\<in>set ds. longest_chain (dependency_edges ds) (sliceId d) (count_of depths (sliceId d))" by metis
    with True \<open>known_dependencies ds\<close> show ?thesis by simp
  next
    case False
    then have "dependency_depths ds = Inl (Planning_Error ''DEPENDENCY_CYCLE'')"
      using dependency_depths_run[OF ds \<open>known_dependencies ds\<close>] by metis
    with False True show ?thesis by simp
  qed
qed

lemma dependency_depths_outcome_witness:
  "longest_chain (dependency_edges sample_slices) ''api'' 1"
proof -
  have "sliced sample_slices" using request_checked_sliced(1)[OF sample_checked] by simp
  from dependency_depths_outcome[OF this] sample_depths
  have "\<forall>d\<in>set sample_slices. longest_chain (dependency_edges sample_slices) (sliceId d)
      (count_of [(''api'', 1), (''api-docs'', 0), (''base'', 0), (''tool'', 0), (''web'', 0)] (sliceId d))" by simp
  then show ?thesis by (simp add: sample_slices_def sample_slice_def count_of_def)
qed

section \<open>Decisions\<close>

text \<open>A recorded authorization decision has one entry per slice, in id order; the entry is ALLOW
  exactly for a READY slice the envelope permits, the gate is PASS exactly inside the half-open
  envelope interval, and under NO_GO every entry is REJECT.\<close>

theorem authorization_decision_correct:
  assumes a: "build_authorization_decision sha v = Inr a"
    and n: "normalize_planning_request sha v = Inr n" and times: "request_times n i x t"
  shows "map decision_sliceId (decisions a) = sort (map sliceId (slices n))
    \<and> (\<forall>d\<in>set (slices n). \<exists>y\<in>set (decisions a). decision_sliceId y = sliceId d
         \<and> decision_result y = (if slice_permitted (authorizationEnvelope n) i x t d \<and> slice_state_of d = READY
                                 then ''ALLOW'' else ''REJECT''))
    \<and> (decision_gate a = PASS \<longleftrightarrow> i \<le> t \<and> t < x)
    \<and> (decision_gate a = NO_GO_GATE \<longrightarrow> (\<forall>y\<in>set (decisions a). decision_result y = ''REJECT''))"
proof -
  have fin: "a = final_decision sha n i x t"
    using a n authorization_decision_of_eq[OF times, of sha]
    by (auto simp: build_authorization_decision_def split: if_splits)
  let ?e = "authorizationEnvelope n"
  have ids: "map decision_sliceId (decisions a) = sort (map sliceId (slices n))"
    by (simp add: fin comp_def decision_entry_def map_sort_key)
  have "\<exists>y\<in>set (decisions a). decision_sliceId y = sliceId d
      \<and> decision_result y = (if slice_permitted ?e i x t d \<and> slice_state_of d = READY then ''ALLOW'' else ''REJECT'')"
    if "d \<in> set (slices n)" for d
    using that slice_reasons_Nil[of ?e i x t d]
    by (intro bexI[of _ "decision_entry ?e i x t d"]) (auto simp: fin decision_entry_def)
  moreover have gate: "decision_gate a = PASS \<longleftrightarrow> i \<le> t \<and> t < x"
    by (auto simp: fin final_decision_def draft_decision_def Let_def)
  moreover have "decision_result y = ''REJECT''" if "decision_gate a = NO_GO_GATE" "y \<in> set (decisions a)" for y
  proof -
    from that(2) obtain d where "y = decision_entry ?e i x t d" by (auto simp: fin)
    moreover have "\<not> slice_permitted ?e i x t d" using that(1) gate by (auto simp: slice_permitted_def)
    ultimately show ?thesis using slice_reasons_Nil[of ?e i x t d] by (simp add: decision_entry_def)
  qed
  ultimately show ?thesis using ids by blast
qed

lemma authorization_decision_correct_witness:
  "\<exists>a. build_authorization_decision sample_sha sample_request = Inr a \<and> decision_gate a = PASS
    \<and> map decision_sliceId (decisions a) = [''api'', ''api-docs'', ''base'', ''tool'', ''web'']"
proof -
  have times: "request_times sample_request sample_issued sample_expires sample_now"
    by (simp add: sample_request_times)
  have a: "build_authorization_decision sample_sha sample_request =
      Inr (final_decision sample_sha sample_request sample_issued sample_expires sample_now)"
    using decision_schema_final[OF sample_checked hex_digest_sample]
    by (simp add: build_authorization_decision_def sample_accepted authorization_decision_of_eq[OF times])
  have "sample_issued \<le> sample_now \<and> sample_now < sample_expires"
    by (simp add: sample_issued_def sample_now_def sample_expires_def)
  moreover have "sort (map sliceId (slices sample_request)) = [''api'', ''api-docs'', ''base'', ''tool'', ''web'']"
    by (simp add: sample_slices_def sample_slice_def)
  ultimately show ?thesis
    using a authorization_decision_correct[OF a sample_accepted times] by auto
qed

section \<open>Conflict reports\<close>

text \<open>C38: The conflict report of a well-formed batch is always accepted by its own schema and its edges
  are exactly the conflicting pairs; two slices are in one cluster exactly when a chain of conflict
  edges connects them.\<close>

theorem conflict_report_correct:
  assumes "hex_digest sha" and "is_id p" and "is_digest fp" and "v = ''controlled-conflict-policy/v1''"
    and "\<forall>d\<in>set ds. footprint_schema d" and "distinct (map sliceId ds)"
  shows "\<exists>r. build_conflict_report sha p fp v ds = Inr r
    \<and> (\<forall>a\<in>set ds. \<forall>b\<in>set ds. a \<noteq> b \<longrightarrow>
         batch_conflict (sort_key sliceId ds) a b = ((sliceId a, sliceId b) \<in> edge_relation (conflict_edges r)))
    \<and> (\<forall>a\<in>set ds. \<forall>s. same_cluster (clusters r) (sliceId a) s
         = ((sliceId a, s) \<in> (edge_relation (conflict_edges r))\<^sup>*))"
proof -
  from build_conflict_report_total[OF assms] obtain r where r: "build_conflict_report sha p fp v ds = Inr r" ..
  let ?o = "sort_key sliceId ds"
  note view = build_conflict_report_eq_Inr[OF r]
  have edge: "batch_conflict ?o a b = ((sliceId a, sliceId b) \<in> edge_relation (conflict_edges r))"
    if a: "a \<in> set ds" and b: "b \<in> set ds" and ne: "a \<noteq> b" for a b
  proof
    assume "batch_conflict ?o a b"
    then show "(sliceId a, sliceId b) \<in> edge_relation (conflict_edges r)"
      using conflict_edges_of_conflict[of a ?o b] view a b ne by simp
  next
    assume "(sliceId a, sliceId b) \<in> edge_relation (conflict_edges r)"
    then obtain c d where cd: "(c, d) \<in> set (pairs_of ?o)" "batch_conflict ?o c d"
      and ids: "(sliceId a = sliceId c \<and> sliceId b = sliceId d) \<or> (sliceId a = sliceId d \<and> sliceId b = sliceId c)"
      using view by (auto simp: edge_relation_def conflict_edges_of_map batch_edge_def)
    from pairs_of_set[OF cd(1)] ids a b assms(6) have "(a = c \<and> b = d) \<or> (a = d \<and> b = c)"
      by (auto simp: distinct_map inj_on_def)
    then show "batch_conflict ?o a b" using cd(2) iffD1[OF batch_conflict_sym] by blast
  qed
  have "same_cluster (clusters r) (sliceId a) s = ((sliceId a, s) \<in> (edge_relation (conflict_edges r))\<^sup>*)"
    if "a \<in> set ds" for a s
    using same_cluster_iff_connected[of "conflict_edges_of ?o" "map sliceId ?o" "sliceId a" sha p v s]
      conflict_edges_of_endpoints[of ?o] view that by simp
  with r edge show ?thesis by blast
qed

lemma conflict_report_correct_witness:
  "\<exists>r. build_conflict_report sample_sha ''demo'' digest_b ''controlled-conflict-policy/v1'' sample_slices = Inr r"
proof -
  have "is_id ''demo''" "is_digest digest_b" "\<forall>d\<in>set sample_slices. footprint_schema d"
    "distinct (map sliceId sample_slices)"
    by code_simp+
  from conflict_report_correct[OF hex_digest_sample this(1,2) refl this(3,4)] show ?thesis by blast
qed

text \<open>The conflict predicate does not depend on which of the two slices comes first.\<close>

theorem conflict_reasons_symmetric:
  "conflict_reasons a b dependency owner = conflict_reasons b a dependency owner"
  by (rule conflict_reasons_sym)

text \<open>Two slices without a conflict reason share no owner, fact family, binding or shared artifact,
  are not connected by dependencies, carry no serial barrier, and no file lies under a write
  path of one and a write path or authority reference of the other.\<close>

theorem conflict_free_slices:
  assumes free: "conflict_reasons a b dependency owner = []"
  shows "set (ownerSet a) \<inter> set (ownerSet b) = {} \<and> set (factFamilySet a) \<inter> set (factFamilySet b) = {}
    \<and> set (bindingSet a) \<inter> set (bindingSet b) = {} \<and> set (sharedArtifactSet a) \<inter> set (sharedArtifactSet b) = {}
    \<and> sliceId b \<notin> succs dependency (sliceId a) \<and> sliceId a \<notin> succs dependency (sliceId b)
    \<and> publicContractSet a = [] \<and> publicContractSet b = []
    \<and> migrationResourceSet a = [] \<and> migrationResourceSet b = []
    \<and> (\<forall>p\<in>set (write_paths a). \<forall>q\<in>set (write_paths b @ authorityReferences b).
         \<not> (contains_path p f \<and> contains_path q f))"
proof -
  have sets: "set (ownerSet a) \<inter> set (ownerSet b) = {}" "set (factFamilySet a) \<inter> set (factFamilySet b) = {}"
    "set (bindingSet a) \<inter> set (bindingSet b) = {}" "set (sharedArtifactSet a) \<inter> set (sharedArtifactSet b) = {}"
    "sliceId b \<notin> succs dependency (sliceId a)" "sliceId a \<notin> succs dependency (sliceId b)"
    "publicContractSet a = []" "publicContractSet b = []"
    "migrationResourceSet a = []" "migrationResourceSet b = []"
    using free by (simp_all add: conflict_reasons_def reasons_where_Nil sets_overlap_iff
        public_contract_barrier_def migration_barrier_def)
  have "\<forall>p\<in>set (write_paths a). \<forall>q\<in>set (write_paths b @ authorityReferences b).
         \<not> (contains_path p f \<and> contains_path q f)"
    using no_conflict_writes[OF free] no_conflict_authority[OF free] by auto
  with sets show ?thesis by blast
qed

lemma conflict_free_slices_witness:
  "set (ownerSet (sample_slices ! 0)) \<inter> set (ownerSet (sample_slices ! 3)) = {}"
proof -
  have "conflict_reasons (sample_slices ! 0) (sample_slices ! 3) (dependency_closure sample_slices) (owner_closure sample_slices) = []"
    by code_simp
  from conflict_free_slices[OF this] show ?thesis by blast
qed

text \<open>The dependency closure the conflict predicate consults is the transitive closure of the
  declared dependencies.\<close>

theorem dependency_closure_correct:
  assumes "distinct (map sliceId ds)"
  shows "s \<in> succs (dependency_closure ds) t \<longleftrightarrow> (t, s) \<in> (dependency_edges ds)\<^sup>+"
  by (rule dependency_closure_trancl[OF assms])

lemma dependency_closure_correct_witness:
  "(''api'', ''base'') \<in> (dependency_edges sample_slices)\<^sup>+"
proof -
  have "''base'' \<in> succs (dependency_closure sample_slices) ''api''" by code_simp
  with dependency_closure_correct[OF sample_ids] show ?thesis by blast
qed

section \<open>Inputs and digests\<close>

text \<open>Normalising an accepted request again changes nothing: the normal form is a fixed point of
  every normaliser and check.\<close>

theorem planning_request_normal_form:
  assumes "normalize_planning_request sha v = Inr n"
  shows "normalize_planning_request sha n = Inr n"
proof -
  from normalize_planning_request_checked[OF assms] obtain by_path where "request_checked sha n by_path" by metis
  then show ?thesis by (rule request_checked_accepted)
qed

lemma planning_request_normal_form_witness:
  "\<exists>n. normalize_planning_request sample_sha sample_request = Inr n
    \<and> normalize_planning_request sample_sha n = Inr n"
  using planning_request_normal_form[OF sample_accepted] sample_accepted by blast

text \<open>Two accepted descriptors with one descriptor digest are the same descriptor, and two accepted
  envelopes with one envelope digest the same envelope, as long as the hash does not collide on
  their two normal forms.\<close>

theorem accepted_digests_bind:
  assumes d: "normalize_slice_descriptor sha d = Inr n" "normalize_slice_descriptor sha d' = Inr n'"
      "descriptorDigest d = descriptorDigest d'"
      "no_collision sha (JObj (descriptor_payload n)) (JObj (descriptor_payload n'))"
    and e: "normalize_authorization_envelope sha e = Inr m" "normalize_authorization_envelope sha e' = Inr m'"
      "envelopeDigest e = envelopeDigest e'"
      "no_collision sha (JObj (envelope_payload m)) (JObj (envelope_payload m'))"
  shows "n = n' \<and> m = m'"
proof
  have "descriptorDigest n = descriptorDigest n'"
    using d(1-3) normalize_descriptor_fields_frame(2) unfolding normalize_slice_descriptor_eq_Inr by metis
  then show "n = n'" by (rule descriptor.sealed_inject[OF descriptor_sealed[OF d(1)] descriptor_sealed[OF d(2)] _ d(4)])
  have "envelopeDigest m = envelopeDigest m'"
    using e(1-3) by (auto simp: normalize_authorization_envelope_eq_Inr normalize_envelope_fields_eq_Inr)
  then show "m = m'" by (rule envelope.sealed_inject[OF envelope_sealed[OF e(1)] envelope_sealed[OF e(2)] _ e(4)])
qed

definition respelled_slice :: slice_descriptor where
  "respelled_slice = (sample_slices ! 3)\<lparr>exactWriteSet := [''src/./tools/'']\<rparr>"

lemma accepted_digests_bind_witness:
  "\<exists>n. normalize_slice_descriptor sample_sha respelled_slice = Inr n \<and> n = sample_slices ! 3"
proof -
  have sel: "sample_slices ! 3 = sample_slice ''tool'' ''owner:tool'' ''src/tools'' READY 3 [] digest_a"
    by (simp add: sample_slices_def)
  have d: "normalize_slice_descriptor sample_sha (sample_slices ! 3) = Inr (sample_slices ! 3)"
    using sample_checked unfolding request_checked_def by (simp add: sample_slices_def)
  have "descriptor_schema respelled_slice" "normalize_descriptor_fields respelled_slice = Inr (sample_slices ! 3)"
    by code_simp+
  with d have r: "normalize_slice_descriptor sample_sha respelled_slice = Inr (sample_slices ! 3)"
    by (simp add: normalize_slice_descriptor_eq_Inr)
  have dig: "descriptorDigest respelled_slice = descriptorDigest (sample_slices ! 3)"
    by (simp add: respelled_slice_def)
  have nc: "no_collision sample_sha j j" for j by (simp add: no_collision_def)
  from accepted_digests_bind[OF r d dig nc sample_envelope_accepted sample_envelope_accepted refl nc] r
  show ?thesis by blast
qed

text \<open>Every declared path of an accepted request is normal: relative, without empty, dot or
  dot-dot components, and equal to its own normalisation.\<close>

theorem accepted_paths_normal:
  assumes n: "normalize_planning_request sha v = Inr n" and d: "d \<in> set (slices n)"
    and p: "p \<in> set (write_paths d @ authorityReferences d)"
  shows "safe_path p = Inr p \<and> \<not> is_absolute p
    \<and> (\<forall>c\<in>set (path_parts p). c \<noteq> [] \<and> c \<noteq> ''.'' \<and> c \<noteq> ''..'' \<and> slash \<notin> set c)"
proof -
  from normalize_planning_request_checked[OF n] obtain by_path where c: "request_checked sha n by_path" by metis
  have s: "safe_path p = Inr p"
    by (rule request_checked_paths[OF c d]) (use p in \<open>auto simp: write_paths_def\<close>)
  then have sp: "safe_posix p = Inr p" by (simp add: safe_path_eq_Inr)
  then obtain ps where ps: "safe_relative_path p = Inr ps" by (auto simp: safe_posix_eq_Inr)
  note parts = safe_posix_parts[OF sp]
  have "path_parts p = ps" using ps parts by (simp add: safe_relative_path_eq_Inr)
  with safe_relative_path_components[OF ps] s parts(2) show ?thesis
    by (auto simp: is_absolute_def safe_component_def)
qed

lemma accepted_paths_normal_witness: "safe_path ''src/api'' = Inr ''src/api''"
proof -
  have "sample_slices ! 0 \<in> set (slices sample_request)"
    and "''src/api'' \<in> set (write_paths (sample_slices ! 0) @ authorityReferences (sample_slices ! 0))"
    by (simp_all add: sample_slices_def sample_slice_def write_paths_def)
  from accepted_paths_normal[OF sample_accepted this] show ?thesis by blast
qed

text \<open>In an accepted request the six planning facts are vouched for by one manifest authority that is
  neither the envelope's issuer nor its document, the issuer is bound by id and content digest, and
  every authority reference of every slice names an authority of the snapshot.\<close>

theorem accepted_authority_bound:
  assumes n: "normalize_planning_request sha v = Inr n"
  defines "e \<equiv> authorizationEnvelope n" and "s \<equiv> authoritySnapshot n"
  shows "\<exists>by_path. validate_snapshot sha s (batchBaseCommit n) = Inr by_path
    \<and> (\<exists>m mp. map_of by_path mp = Some m \<and> authority_id m \<noteq> issuerId e \<and> mp \<noteq> issuerAuthorityReference e
         \<and> (\<forall>f\<in>set fact_ids. check_fact (facts s) (expected_facts n (slices n) e) f = Inr (authority_id m, mp)))
    \<and> (\<exists>a. map_of by_path (issuerAuthorityReference e) = Some a \<and> authority_id a = issuerId e
         \<and> issuerAuthorityDigest e = ''sha256:'' @ authority_sha256 a)
    \<and> (\<forall>d\<in>set (slices n). \<forall>r\<in>set (authorityReferences d). map_of by_path r \<noteq> None)"
proof -
  from normalize_planning_request_checked[OF n] obtain by_path where c: "request_checked sha n by_path" by metis
  then have snap: "validate_snapshot sha s (batchBaseCommit n) = Inr by_path"
    and fct: "validate_authority_facts n (slices n) e by_path = Inr ()"
    and refs: "validate_authority_references by_path (slices n) e = Inr ()"
    by (simp_all add: request_checked_def e_def s_def)
  from fct obtain found where found: "check_facts (facts s) (expected_facts n (slices n) e) None fact_ids = Inr found"
    and rest: "validate_authority_facts n (slices n) e by_path = Inr ()"
    unfolding validate_authority_facts_def s_def[symmetric] result_simps by blast
  with rest obtain m_id mp where f: "found = Some (m_id, mp)"
    unfolding validate_authority_facts_def s_def[symmetric] by (cases found) auto
  note chk = found[unfolded f]
  from rest have bound: "\<not> (case map_of by_path mp of None \<Rightarrow> True | Some m \<Rightarrow> authority_id m \<noteq> m_id)"
    and indep: "\<not> (m_id = issuerId e \<or> mp = issuerAuthorityReference e)"
    unfolding validate_authority_facts_def s_def[symmetric] chk by (simp_all add: result_simps)
  from bound obtain m where m: "map_of by_path mp = Some m" "authority_id m = m_id" by (auto split: option.splits)
  have same: "check_facts fs ex (Some c) ids = Inr (Some r) \<Longrightarrow> r = c \<and> (\<forall>f\<in>set ids. check_fact fs ex f = Inr c)"
    for fs ex c ids r
    by (induction ids) (auto simp: result_simps split: if_splits)
  have "check_facts fs ex None ids = Inr (Some r) \<Longrightarrow> (\<forall>f\<in>set ids. check_fact fs ex f = Inr r)" for fs ex ids r
    by (cases ids) (auto simp: result_simps dest!: same)
  from this[OF chk] have facts: "\<forall>f\<in>set fact_ids. check_fact (facts s) (expected_facts n (slices n) e) f = Inr (authority_id m, mp)"
    by (simp add: m(2))
  have issuer: "\<exists>a. map_of by_path (issuerAuthorityReference e) = Some a \<and> authority_id a = issuerId e
      \<and> issuerAuthorityDigest e = ''sha256:'' @ authority_sha256 a"
    and r: "\<forall>d\<in>set (slices n). \<forall>r\<in>set (authorityReferences d). map_of by_path r \<noteq> None"
    using refs by (auto simp: validate_authority_references_def result_simps list_ex_iff split: option.splits)
  show ?thesis
    using snap m indep facts issuer r by blast
qed

lemma accepted_authority_bound_witness:
  "\<exists>by_path. validate_snapshot sample_sha sample_snapshot (batchBaseCommit sample_request) = Inr by_path"
  using accepted_authority_bound[OF sample_accepted] unfolding sample_select by blast

end
