(* ===== verification/Coordinator_Data.thy ===== *)
theory Coordinator_Data
  imports Execution_Planner
begin

text \<open>
  The data of the controlled coordinator: the four commands, execution leases, receipts and
  the journal, as the JSON schemas under \<open>core/schemas\<close> shape them, with their JSON encodings
  (whose canonical bytes the digests are taken of) and the schemas' constraints as boolean
  functions. Fields that a schema fixes to a constant (\<open>schemaVersion\<close>, \<open>status\<close>, \<open>verdict\<close>,
  \<open>signatureAlgorithm\<close>) appear in the encodings only.
\<close>

section \<open>Vocabulary of the coordinator schemas\<close>

definition jopt :: "('a \<Rightarrow> json) \<Rightarrow> 'a option \<Rightarrow> json" where
  "jopt f v = (case v of None \<Rightarrow> JNull | Some x \<Rightarrow> f x)"

text \<open>\<open>^project-execution:[0-9a-f]{64}$\<close>\<close>

definition is_execution_key :: "string \<Rightarrow> bool" where
  "is_execution_key s =
     (has_prefix ''project-execution:'' s \<and> is_hex_text 64 (drop 18 (chomp s)))"

text \<open>\<open>^/[^\u0000]*$\<close>, at least two characters\<close>

definition is_absolute_text :: "string \<Rightarrow> bool" where
  "is_absolute_text s = (2 \<le> length s \<and> hd s = slash \<and> CHR 0x00 \<notin> set s)"

abbreviation newline :: char where "newline \<equiv> CHR 0x0A"

definition base64_char :: "char \<Rightarrow> bool" where
  "base64_char c =
     (c \<in> set ''ABCDEFGHIJKLMNOPQRSTUVWXYZabcdefghijklmnopqrstuvwxyz0123456789+/'')"

text \<open>
  \<open>^-----BEGIN SSH SIGNATURE-----\n(?:[A-Za-z0-9+/=]+\n)+-----END SSH SIGNATURE-----\n?$\<close>,
  64 to 16384 characters; \<open>$\<close> itself lets one more newline through.
\<close>

definition is_ssh_signature :: "string \<Rightarrow> bool" where
  "is_ssh_signature s =
     (64 \<le> length s \<and> length s \<le> 16384
      \<and> (let ls = split_on newline s;
             body = takeWhile (\<lambda>l. l \<noteq> [] \<and> list_all (\<lambda>c. base64_char c \<or> c = CHR ''='') l) (tl ls);
             rest = drop (length body) (tl ls)
         in hd ls = ''-----BEGIN SSH SIGNATURE-----'' \<and> body \<noteq> []
            \<and> rest \<noteq> [] \<and> hd rest = ''-----END SSH SIGNATURE-----''
            \<and> tl rest \<in> {[], [[]], [[], []]}))"

text \<open>\<open>^ssh-ed25519 [A-Za-z0-9+/]+={0,2}\n$\<close>, at most 16384 characters\<close>

definition is_ssh_public_key :: "string \<Rightarrow> bool" where
  "is_ssh_public_key s =
     (length s \<le> 16384 \<and> has_prefix ''ssh-ed25519 '' s
      \<and> (let r = drop 12 s; body = takeWhile base64_char r; rest = drop (length body) r
         in body \<noteq> []
            \<and> rest \<in> set (concat (map (\<lambda>p. [p @ [newline], p @ [newline, newline]]) [[], ''='', ''=='']))))"

record candidate_identity =
  candidate_commit :: string
  candidate_parent :: string
  candidate_tree :: string

definition candidate_json :: "candidate_identity \<Rightarrow> json" where
  "candidate_json c =
     JObj [(''commit'', JStr (candidate_commit c)), (''parent'', JStr (candidate_parent c)),
           (''tree'', JStr (candidate_tree c))]"

definition candidate_schema :: "candidate_identity \<Rightarrow> bool" where
  "candidate_schema c =
     (is_commit (candidate_commit c) \<and> is_commit (candidate_parent c) \<and> is_commit (candidate_tree c))"

record process_quiescence =
  quiescence_observedAt :: string
  processIds :: "int list"

definition quiescence_json :: "process_quiescence \<Rightarrow> json" where
  "quiescence_json q =
     JObj [(''status'', JStr ''QUIESCENT''), (''observedAt'', JStr (quiescence_observedAt q)),
           (''processIds'', JArr (map JInt (processIds q)))]"

definition quiescence_schema :: "process_quiescence \<Rightarrow> bool" where
  "quiescence_schema q =
     (quiescence_observedAt q \<noteq> [] \<and> list_all (\<lambda>p. 1 \<le> p) (processIds q) \<and> distinct (processIds q))"

section \<open>Acquire commands\<close>

record admission_binding =
  binding_projectId :: string
  binding_sliceId :: string
  binding_attemptId :: string
  binding_sourceRoot :: string
  binding_laneRoot :: string

definition admission_binding_json :: "admission_binding \<Rightarrow> json" where
  "admission_binding_json b =
     JObj [(''projectId'', JStr (binding_projectId b)), (''sliceId'', JStr (binding_sliceId b)),
           (''attemptId'', JStr (binding_attemptId b)),
           (''originalSourceRoot'', JStr (binding_sourceRoot b)),
           (''laneRoot'', JStr (binding_laneRoot b))]"

record admission_proof =
  proof_factId :: string
  manifestAuthorityId :: string
  manifestAuthorityReference :: string
  manifestAuthorityDigest :: string
  proof_binding :: admission_binding
  admission_proofDigest :: string

definition admission_proof_payload :: "admission_proof \<Rightarrow> (string \<times> json) list" where
  "admission_proof_payload p =
     [(''factId'', JStr (proof_factId p)),
      (''manifestAuthorityId'', JStr (manifestAuthorityId p)),
      (''manifestAuthorityReference'', JStr (manifestAuthorityReference p)),
      (''manifestAuthorityDigest'', JStr (manifestAuthorityDigest p)),
      (''binding'', admission_binding_json (proof_binding p))]"

definition admission_proof_json :: "admission_proof \<Rightarrow> json" where
  "admission_proof_json p =
     JObj (admission_proof_payload p @ [(''proofDigest'', JStr (admission_proofDigest p))])"

definition admission_binding_schema :: "admission_binding \<Rightarrow> bool" where
  "admission_binding_schema b =
     (is_id (binding_projectId b) \<and> is_id (binding_sliceId b) \<and> is_id (binding_attemptId b)
      \<and> is_absolute_text (binding_sourceRoot b) \<and> is_absolute_text (binding_laneRoot b))"

definition admission_proof_schema :: "admission_proof \<Rightarrow> bool" where
  "admission_proof_schema p =
     (has_prefix ''controlled_coordination.admission.'' (proof_factId p)
      \<and> is_id (drop 34 (proof_factId p))
      \<and> is_id (manifestAuthorityId p) \<and> manifestAuthorityReference p \<noteq> []
      \<and> is_digest (manifestAuthorityDigest p)
      \<and> admission_binding_schema (proof_binding p) \<and> is_digest (admission_proofDigest p))"

record acquire_command =
  acquire_projectId :: string
  acquire_batchPlanId :: string
  acquire_sliceId :: string
  acquire_attemptId :: string
  acquire_snapshotFingerprint :: string
  acquire_envelopeDigest :: string
  acquire_policyVersion :: string
  acquire_asOf :: string
  acquire_request :: planning_request
  acquire_plan :: execution_plan
  acquire_descriptor :: slice_descriptor
  acquire_envelope :: authorization_envelope
  acquire_snapshot :: authority_snapshot
  acquire_proof :: admission_proof
  acquire_footprint :: conflict_footprint
  acquire_sourceRoot :: string
  acquire_laneRoot :: string
  acquire_laneBase :: string
  acquire_digest :: string

definition request_json :: "planning_request \<Rightarrow> json" where
  "request_json r =
     JObj [(''schemaVersion'', JStr ''controlled-planning-request/v1''),
           (''planningMode'', JStr (planningMode r)),
           (''projectId'', JStr (request_projectId r)),
           (''batchBaseCommit'', JStr (batchBaseCommit r)),
           (''authoritySnapshot'', snapshot_json (authoritySnapshot r)),
           (''contractRegistryDigest'', JStr (contractRegistryDigest r)),
           (''dependencyGraphDigest'', JStr (dependencyGraphDigest r)),
           (''conflictPolicyVersion'', JStr (conflictPolicyVersion r)),
           (''harnessVersion'', JStr (harnessVersion r)),
           (''asOf'', JStr (asOf r)),
           (''authorizationEnvelope'', envelope_json (authorizationEnvelope r)),
           (''slices'', JArr (map descriptor_json (slices r)))]"

definition plan_json :: "execution_plan \<Rightarrow> json" where
  "plan_json p = JObj (plan_payload p @ [(''batchPlanId'', JStr (batchPlanId p))])"

definition acquire_payload :: "acquire_command \<Rightarrow> (string \<times> json) list" where
  "acquire_payload c =
     [(''schemaVersion'', JStr ''controlled-coordinator-acquire-command/v1''),
      (''projectId'', JStr (acquire_projectId c)),
      (''batchPlanId'', JStr (acquire_batchPlanId c)),
      (''sliceId'', JStr (acquire_sliceId c)),
      (''attemptId'', JStr (acquire_attemptId c)),
      (''authoritySnapshotFingerprint'', JStr (acquire_snapshotFingerprint c)),
      (''authorizationEnvelopeDigest'', JStr (acquire_envelopeDigest c)),
      (''conflictPolicyVersion'', JStr (acquire_policyVersion c)),
      (''asOf'', JStr (acquire_asOf c)),
      (''planningRequest'', request_json (acquire_request c)),
      (''executionPlan'', plan_json (acquire_plan c)),
      (''sliceDescriptor'', descriptor_json (acquire_descriptor c)),
      (''authorizationEnvelope'', envelope_json (acquire_envelope c)),
      (''authoritySnapshot'', snapshot_json (acquire_snapshot c)),
      (''admissionAuthorityProof'', admission_proof_json (acquire_proof c)),
      (''fullFootprint'', conflict_footprint_json (acquire_footprint c)),
      (''originalSourceRoot'', JStr (acquire_sourceRoot c)),
      (''laneRoot'', JStr (acquire_laneRoot c)),
      (''expectedLaneBase'', JStr (acquire_laneBase c))]"

definition acquire_json :: "acquire_command \<Rightarrow> json" where
  "acquire_json c = JObj (acquire_payload c @ [(''commandDigest'', JStr (acquire_digest c))])"

definition conflict_footprint_schema :: "conflict_footprint \<Rightarrow> bool" where
  "conflict_footprint_schema f =
     (footprint_schema f \<and> is_stable_id ''footprint'' (conflictFootprintId f))"

text \<open>\<open>core/schemas/controlled-coordinator-acquire-command.schema.json\<close>\<close>

definition acquire_schema :: "acquire_command \<Rightarrow> bool" where
  "acquire_schema c =
     (is_id (acquire_projectId c) \<and> is_stable_id ''batch-plan'' (acquire_batchPlanId c)
      \<and> is_id (acquire_sliceId c) \<and> is_id (acquire_attemptId c)
      \<and> is_digest (acquire_snapshotFingerprint c) \<and> is_digest (acquire_envelopeDigest c)
      \<and> acquire_policyVersion c = ''controlled-conflict-policy/v1''
      \<and> acquire_asOf c \<noteq> []
      \<and> request_schema (acquire_request c) \<and> plan_schema (acquire_plan c)
      \<and> descriptor_schema (acquire_descriptor c) \<and> envelope_schema (acquire_envelope c)
      \<and> snapshot_schema (acquire_snapshot c) \<and> admission_proof_schema (acquire_proof c)
      \<and> conflict_footprint_schema (acquire_footprint c)
      \<and> is_absolute_text (acquire_sourceRoot c) \<and> is_absolute_text (acquire_laneRoot c)
      \<and> is_commit (acquire_laneBase c) \<and> is_digest (acquire_digest c))"

section \<open>Transition commands\<close>

record reviewer_binding =
  binding_role :: string
  binding_reviewerId :: string
  binding_reference :: string
  binding_authorityDigest :: string
  binding_reviewDigest :: string

record review_evidence =
  review_candidate :: candidate_identity
  review_reviewerId :: string
  review_role :: string
  review_executionKey :: string
  review_leaseId :: string
  review_attemptId :: string
  review_fencingToken :: int
  review_snapshotFingerprint :: string
  review_reference :: string
  review_authorityDigest :: string
  reviewedAt :: string
  review_signature :: string
  reviewBindingDigest :: string
  evidenceDigest :: string

record lifecycle_proof =
  proof_authorityId :: string
  proof_reference :: string
  proof_authorityDigest :: string
  proof_attemptId :: string
  proof_expectedState :: slice_state
  proof_nextState :: slice_state
  proof_candidate :: "candidate_identity option"
  proof_reviewBindingDigest :: "string option"
  proof_reviewEvidenceDigest :: "string option"
  proof_reviewers :: "reviewer_binding list"
  assertedAt :: string
  proof_signature :: string
  lifecycle_proofDigest :: string

record transition_command =
  transition_executionKey :: string
  transition_leaseId :: string
  transition_attemptId :: string
  transition_fencingToken :: int
  expectedState :: slice_state
  transition_nextState :: slice_state
  transition_snapshotFingerprint :: string
  transition_candidate :: "candidate_identity option"
  transition_quiescence :: process_quiescence
  transition_proof :: lifecycle_proof
  reviewEvidenceSet :: "review_evidence list"
  transition_digest :: string

definition reviewer_binding_json :: "reviewer_binding \<Rightarrow> json" where
  "reviewer_binding_json b =
     JObj [(''reviewerRole'', JStr (binding_role b)), (''reviewerId'', JStr (binding_reviewerId b)),
           (''reviewerAuthorityReference'', JStr (binding_reference b)),
           (''reviewerAuthorityDigest'', JStr (binding_authorityDigest b)),
           (''reviewBindingDigest'', JStr (binding_reviewDigest b))]"

text \<open>A review without \<open>signature\<close> and \<open>evidenceDigest\<close>, the part its digest covers.\<close>

definition review_payload :: "review_evidence \<Rightarrow> (string \<times> json) list" where
  "review_payload v =
     [(''candidateIdentity'', candidate_json (review_candidate v)),
      (''reviewerId'', JStr (review_reviewerId v)),
      (''reviewerRole'', JStr (review_role v)),
      (''projectExecutionKey'', JStr (review_executionKey v)),
      (''leaseId'', JStr (review_leaseId v)),
      (''attemptId'', JStr (review_attemptId v)),
      (''fencingToken'', JInt (review_fencingToken v)),
      (''authoritySnapshotFingerprint'', JStr (review_snapshotFingerprint v)),
      (''reviewerAuthorityReference'', JStr (review_reference v)),
      (''reviewerAuthorityDigest'', JStr (review_authorityDigest v)),
      (''verdict'', JStr ''GO_ZERO_FINDINGS''),
      (''findingCounts'', JObj [(''p0'', JInt 0), (''p1'', JInt 0), (''p2'', JInt 0)]),
      (''reviewedAt'', JStr (reviewedAt v)),
      (''signatureAlgorithm'', JStr ''ED25519''),
      (''signatureFormat'', JStr ''OPENSSH_SSHSIG_V1''),
      (''reviewBindingDigest'', JStr (reviewBindingDigest v))]"

definition review_json :: "review_evidence \<Rightarrow> json" where
  "review_json v =
     JObj (review_payload v @ [(''signature'', JStr (review_signature v)),
                               (''evidenceDigest'', JStr (evidenceDigest v))])"

text \<open>A lifecycle proof without \<open>signature\<close> and \<open>proofDigest\<close>.\<close>

definition lifecycle_proof_payload :: "lifecycle_proof \<Rightarrow> (string \<times> json) list" where
  "lifecycle_proof_payload p =
     [(''authorityId'', JStr (proof_authorityId p)),
      (''authorityReference'', JStr (proof_reference p)),
      (''authorityDigest'', JStr (proof_authorityDigest p)),
      (''attemptId'', JStr (proof_attemptId p)),
      (''expectedState'', JStr (slice_state_str (proof_expectedState p))),
      (''nextState'', JStr (slice_state_str (proof_nextState p))),
      (''candidateIdentity'', jopt candidate_json (proof_candidate p)),
      (''reviewBindingDigest'', jopt JStr (proof_reviewBindingDigest p)),
      (''reviewEvidenceDigest'', jopt JStr (proof_reviewEvidenceDigest p)),
      (''reviewerAuthorityBindings'', JArr (map reviewer_binding_json (proof_reviewers p))),
      (''assertedAt'', JStr (assertedAt p)),
      (''signatureAlgorithm'', JStr ''ED25519''),
      (''signatureFormat'', JStr ''OPENSSH_SSHSIG_V1'')]"

text \<open>The part \<open>proofDigest\<close> covers: everything but itself.\<close>

definition lifecycle_proof_signed :: "lifecycle_proof \<Rightarrow> (string \<times> json) list" where
  "lifecycle_proof_signed p = lifecycle_proof_payload p @ [(''signature'', JStr (proof_signature p))]"

definition lifecycle_proof_json :: "lifecycle_proof \<Rightarrow> json" where
  "lifecycle_proof_json p =
     JObj (lifecycle_proof_signed p @ [(''proofDigest'', JStr (lifecycle_proofDigest p))])"

definition transition_payload :: "transition_command \<Rightarrow> (string \<times> json) list" where
  "transition_payload c =
     [(''schemaVersion'', JStr ''controlled-coordinator-transition-command/v1''),
      (''projectExecutionKey'', JStr (transition_executionKey c)),
      (''leaseId'', JStr (transition_leaseId c)),
      (''attemptId'', JStr (transition_attemptId c)),
      (''fencingToken'', JInt (transition_fencingToken c)),
      (''expectedState'', JStr (slice_state_str (expectedState c))),
      (''nextState'', JStr (slice_state_str (transition_nextState c))),
      (''authoritySnapshotFingerprint'', JStr (transition_snapshotFingerprint c)),
      (''candidateIdentity'', jopt candidate_json (transition_candidate c)),
      (''processQuiescence'', quiescence_json (transition_quiescence c)),
      (''lifecycleAuthorityProof'', lifecycle_proof_json (transition_proof c)),
      (''reviewEvidenceSet'', JArr (map review_json (reviewEvidenceSet c)))]"

definition transition_json :: "transition_command \<Rightarrow> json" where
  "transition_json c = JObj (transition_payload c @ [(''commandDigest'', JStr (transition_digest c))])"

definition reviewer_binding_schema :: "reviewer_binding \<Rightarrow> bool" where
  "reviewer_binding_schema b =
     (is_id (binding_role b) \<and> is_id (binding_reviewerId b) \<and> binding_reference b \<noteq> []
      \<and> is_digest (binding_authorityDigest b) \<and> is_digest (binding_reviewDigest b))"

definition review_schema :: "review_evidence \<Rightarrow> bool" where
  "review_schema v =
     (candidate_schema (review_candidate v) \<and> is_id (review_reviewerId v) \<and> is_id (review_role v)
      \<and> is_execution_key (review_executionKey v) \<and> is_stable_id ''lease'' (review_leaseId v)
      \<and> is_id (review_attemptId v) \<and> 1 \<le> review_fencingToken v
      \<and> is_digest (review_snapshotFingerprint v) \<and> review_reference v \<noteq> []
      \<and> is_digest (review_authorityDigest v) \<and> reviewedAt v \<noteq> []
      \<and> is_ssh_signature (review_signature v) \<and> is_digest (reviewBindingDigest v)
      \<and> is_digest (evidenceDigest v))"

definition lifecycle_proof_schema :: "lifecycle_proof \<Rightarrow> bool" where
  "lifecycle_proof_schema p =
     (is_id (proof_authorityId p) \<and> proof_reference p \<noteq> [] \<and> is_digest (proof_authorityDigest p)
      \<and> is_id (proof_attemptId p) \<and> pred_option candidate_schema (proof_candidate p)
      \<and> pred_option is_digest (proof_reviewBindingDigest p)
      \<and> pred_option is_digest (proof_reviewEvidenceDigest p)
      \<and> list_all reviewer_binding_schema (proof_reviewers p) \<and> distinct (proof_reviewers p)
      \<and> assertedAt p \<noteq> [] \<and> is_ssh_signature (proof_signature p)
      \<and> is_digest (lifecycle_proofDigest p))"

text \<open>\<open>core/schemas/controlled-coordinator-transition-command.schema.json\<close>\<close>

definition transition_schema :: "transition_command \<Rightarrow> bool" where
  "transition_schema c =
     (is_execution_key (transition_executionKey c) \<and> is_stable_id ''lease'' (transition_leaseId c)
      \<and> is_id (transition_attemptId c) \<and> 1 \<le> transition_fencingToken c
      \<and> is_digest (transition_snapshotFingerprint c)
      \<and> pred_option candidate_schema (transition_candidate c)
      \<and> quiescence_schema (transition_quiescence c)
      \<and> lifecycle_proof_schema (transition_proof c)
      \<and> list_all review_schema (reviewEvidenceSet c) \<and> distinct (reviewEvidenceSet c)
      \<and> is_digest (transition_digest c))"

section \<open>Write observations and recovery commands\<close>

record observation_command =
  observation_executionKey :: string
  observation_leaseId :: string
  observation_fencingToken :: int
  beforeInventoryDigest :: string
  observedPaths :: "string list"
  ephemeralPathsRemoved :: "string list"
  observation_quiescence :: process_quiescence
  observation_digest :: string

definition observation_payload :: "observation_command \<Rightarrow> (string \<times> json) list" where
  "observation_payload c =
     [(''schemaVersion'', JStr ''controlled-write-observation-command/v1''),
      (''projectExecutionKey'', JStr (observation_executionKey c)),
      (''leaseId'', JStr (observation_leaseId c)),
      (''fencingToken'', JInt (observation_fencingToken c)),
      (''beforeInventoryDigest'', JStr (beforeInventoryDigest c)),
      (''observedPaths'', jstrs (observedPaths c)),
      (''ephemeralPathsRemoved'', jstrs (ephemeralPathsRemoved c)),
      (''processQuiescence'', quiescence_json (observation_quiescence c))]"

definition observation_json :: "observation_command \<Rightarrow> json" where
  "observation_json c = JObj (observation_payload c @ [(''commandDigest'', JStr (observation_digest c))])"

text \<open>\<open>core/schemas/controlled-write-observation-command.schema.json\<close>\<close>

definition observation_schema :: "observation_command \<Rightarrow> bool" where
  "observation_schema c =
     (is_execution_key (observation_executionKey c) \<and> is_stable_id ''lease'' (observation_leaseId c)
      \<and> 1 \<le> observation_fencingToken c \<and> is_digest (beforeInventoryDigest c)
      \<and> string_set (observedPaths c) \<and> string_set (ephemeralPathsRemoved c)
      \<and> quiescence_schema (observation_quiescence c) \<and> is_digest (observation_digest c))"

record quiescence_proof =
  quiescent_leaseId :: string
  quiescent_fencingToken :: int
  quiescent_observedAt :: string

record lease_decision =
  decided_leaseId :: string
  decided_state :: slice_state
  decided_reason :: string

record recovery_command =
  recovery_executionKey :: string
  recoveryId :: string
  recoveryAuthorityReference :: string
  recoveryAuthorityDigest :: string
  recoveryAuthorityPublicKey :: string
  recovery_signature :: string
  expectedJournalVersion :: int
  processQuiescenceProofs :: "quiescence_proof list"
  observedWriteSet :: "string list"
  affectedLeaseDecisions :: "lease_decision list"
  recovery_digest :: string

definition quiescence_proof_json :: "quiescence_proof \<Rightarrow> json" where
  "quiescence_proof_json q =
     JObj [(''leaseId'', JStr (quiescent_leaseId q)), (''fencingToken'', JInt (quiescent_fencingToken q)),
           (''status'', JStr ''QUIESCENT''), (''observedAt'', JStr (quiescent_observedAt q))]"

definition lease_decision_json :: "lease_decision \<Rightarrow> json" where
  "lease_decision_json d =
     JObj [(''leaseId'', JStr (decided_leaseId d)),
           (''decision'', JStr (slice_state_str (decided_state d))),
           (''reason'', JStr (decided_reason d))]"

text \<open>A recovery command without \<open>signature\<close> and \<open>commandDigest\<close>, the part that is signed.\<close>

definition recovery_unsigned :: "recovery_command \<Rightarrow> (string \<times> json) list" where
  "recovery_unsigned c =
     [(''schemaVersion'', JStr ''controlled-recovery-command/v1''),
      (''projectExecutionKey'', JStr (recovery_executionKey c)),
      (''recoveryId'', JStr (recoveryId c)),
      (''recoveryAuthorityId'', JStr ''recovery-controller''),
      (''recoveryAuthorityReference'', JStr (recoveryAuthorityReference c)),
      (''recoveryAuthorityDigest'', JStr (recoveryAuthorityDigest c)),
      (''recoveryAuthorityPublicKey'', JStr (recoveryAuthorityPublicKey c)),
      (''signatureAlgorithm'', JStr ''ED25519''),
      (''signatureFormat'', JStr ''OPENSSH_SSHSIG_V1''),
      (''expectedJournalVersion'', JInt (expectedJournalVersion c)),
      (''processQuiescenceProofs'', JArr (map quiescence_proof_json (processQuiescenceProofs c))),
      (''observedWriteSet'', jstrs (observedWriteSet c)),
      (''affectedLeaseDecisions'', JArr (map lease_decision_json (affectedLeaseDecisions c))),
      (''replacementPlanRequired'', JBool True)]"

definition recovery_payload :: "recovery_command \<Rightarrow> (string \<times> json) list" where
  "recovery_payload c = recovery_unsigned c @ [(''signature'', JStr (recovery_signature c))]"

definition recovery_json :: "recovery_command \<Rightarrow> json" where
  "recovery_json c = JObj (recovery_payload c @ [(''commandDigest'', JStr (recovery_digest c))])"

definition lease_decision_schema :: "lease_decision \<Rightarrow> bool" where
  "lease_decision_schema d =
     (is_stable_id ''lease'' (decided_leaseId d) \<and> decided_state d \<in> {STALE, CANCELLED}
      \<and> decided_reason d \<in> {''WRITESET_OVERLAP'', ''AUTHORITY_AFFECTED'', ''PROJECT_RECOVERY''})"

text \<open>\<open>core/schemas/controlled-recovery-command.schema.json\<close>\<close>

definition recovery_schema :: "recovery_command \<Rightarrow> bool" where
  "recovery_schema c =
     (is_execution_key (recovery_executionKey c) \<and> is_stable_id ''recovery'' (recoveryId c)
      \<and> recoveryAuthorityReference c \<noteq> [] \<and> is_digest (recoveryAuthorityDigest c)
      \<and> is_ssh_public_key (recoveryAuthorityPublicKey c) \<and> recovery_signature c \<noteq> []
      \<and> 0 \<le> expectedJournalVersion c
      \<and> list_all (\<lambda>q. is_stable_id ''lease'' (quiescent_leaseId q) \<and> 1 \<le> quiescent_fencingToken q
                       \<and> quiescent_observedAt q \<noteq> []) (processQuiescenceProofs c)
      \<and> distinct (processQuiescenceProofs c)
      \<and> string_set (observedWriteSet c)
      \<and> list_all lease_decision_schema (affectedLeaseDecisions c) \<and> distinct (affectedLeaseDecisions c)
      \<and> is_digest (recovery_digest c))"

section \<open>Leases, receipts and the journal\<close>

datatype recovery_state = CLEAR | PROJECT_WRITESET_RECOVERY | STATE_RECOVERY_REQUIRED

fun recovery_state_str :: "recovery_state \<Rightarrow> string" where
  "recovery_state_str CLEAR = ''CLEAR''"
| "recovery_state_str PROJECT_WRITESET_RECOVERY = ''PROJECT_WRITESET_RECOVERY''"
| "recovery_state_str STATE_RECOVERY_REQUIRED = ''STATE_RECOVERY_REQUIRED''"

text \<open>\<open>os.stat_result\<close> of a directory, as the leases record it.\<close>

record physical_identity =
  identity_device :: int
  identity_inode :: int

record lease =
  lease_executionKey :: string
  leaseId :: string
  lease_batchPlanId :: string
  lease_sliceId :: string
  lease_attemptId :: string
  lease_snapshotFingerprint :: string
  lease_envelopeDigest :: string
  lease_policyVersion :: string
  lease_descriptorDigest :: string
  lease_footprint :: conflict_footprint
  planningFootprints :: "conflict_footprint list"
  lease_sourceRoot :: string
  lease_laneRoot :: string
  lanePhysicalIdentity :: physical_identity
  lease_laneBase :: string
  lease_fencingToken :: int
  lease_state :: slice_state
  lease_candidate :: "candidate_identity option"
  acquiredAt :: string
  lastTransitionAt :: string
  released :: bool
  recoveryStatus :: recovery_state

datatype receipt_evidence =
    Acquire_Evidence acquire_command
  | Transition_Evidence transition_command
  | Quarantine_Evidence observation_command "string list" "string list" "lease_decision list"
  | Recovery_Evidence recovery_command "string list" "string list" "lease_decision list"

text \<open>The schema ties \<open>receiptType\<close> to the shape of the evidence.\<close>

datatype receipt_type = ACQUIRE | TRANSITION | WRITE_OBSERVATION | RECOVERY

fun receipt_type_of :: "receipt_evidence \<Rightarrow> receipt_type" where
  "receipt_type_of (Acquire_Evidence _) = ACQUIRE"
| "receipt_type_of (Transition_Evidence _) = TRANSITION"
| "receipt_type_of (Quarantine_Evidence _ _ _ _) = WRITE_OBSERVATION"
| "receipt_type_of (Recovery_Evidence _ _ _ _) = RECOVERY"

fun receipt_type_str :: "receipt_type \<Rightarrow> string" where
  "receipt_type_str ACQUIRE = ''ACQUIRE''"
| "receipt_type_str TRANSITION = ''TRANSITION''"
| "receipt_type_str WRITE_OBSERVATION = ''WRITE_OBSERVATION''"
| "receipt_type_str RECOVERY = ''RECOVERY''"

record receipt =
  receiptId :: string
  receipt_executionKey :: string
  previousJournalVersion :: int
  nextJournalVersion :: int
  receipt_commandDigest :: string
  receipt_fencingToken :: int
  receipt_previousState :: "slice_state option"
  receipt_nextState :: "slice_state option"
  receipt_snapshotFingerprint :: string
  receipt_journalDigest :: string
  recordedAt :: string
  receipt_evidence_of :: receipt_evidence

record recovery_evidence =
  evidence_observed :: "string list"
  evidence_revoked :: "string list"
  evidence_decisions :: "lease_decision list"
  quarantineCommand :: observation_command
  recoveryCommand :: "recovery_command option"

record journal =
  journal_executionKey :: string
  journalVersion :: int
  nextFencingToken :: int
  recoveryState :: recovery_state
  recoveryEvidence :: "recovery_evidence option"
  leases :: "lease list"
  receipts :: "receipt list"

definition physical_identity_json :: "physical_identity \<Rightarrow> json" where
  "physical_identity_json i =
     JObj [(''device'', JInt (identity_device i)), (''inode'', JInt (identity_inode i)),
           (''type'', JStr ''DIRECTORY'')]"

definition lease_json :: "lease \<Rightarrow> json" where
  "lease_json l =
     JObj [(''schemaVersion'', JStr ''controlled-execution-lease/v1''),
           (''projectExecutionKey'', JStr (lease_executionKey l)),
           (''leaseId'', JStr (leaseId l)),
           (''batchPlanId'', JStr (lease_batchPlanId l)),
           (''sliceId'', JStr (lease_sliceId l)),
           (''attemptId'', JStr (lease_attemptId l)),
           (''authoritySnapshotFingerprint'', JStr (lease_snapshotFingerprint l)),
           (''authorizationEnvelopeDigest'', JStr (lease_envelopeDigest l)),
           (''conflictPolicyVersion'', JStr (lease_policyVersion l)),
           (''descriptorDigest'', JStr (lease_descriptorDigest l)),
           (''fullFootprint'', conflict_footprint_json (lease_footprint l)),
           (''planningFootprints'', JArr (map conflict_footprint_json (planningFootprints l))),
           (''originalSourceRoot'', JStr (lease_sourceRoot l)),
           (''laneRoot'', JStr (lease_laneRoot l)),
           (''lanePhysicalIdentity'', physical_identity_json (lanePhysicalIdentity l)),
           (''expectedLaneBase'', JStr (lease_laneBase l)),
           (''fencingToken'', JInt (lease_fencingToken l)),
           (''state'', JStr (slice_state_str (lease_state l))),
           (''candidateIdentity'', jopt candidate_json (lease_candidate l)),
           (''acquiredAt'', JStr (acquiredAt l)),
           (''lastTransitionAt'', JStr (lastTransitionAt l)),
           (''released'', JBool (released l)),
           (''recoveryStatus'', JStr (recovery_state_str (recoveryStatus l)))]"

text \<open>The states a lease may have: a slice is \<open>ADMITTED\<close> before it has a lease.\<close>

definition lease_states :: "slice_state list" where
  "lease_states = [ADMITTED, ACTIVE, FIXED_CANDIDATE, REVIEW_GO, QUEUED_FOR_INTEGRATION, INTEGRATING,
                   CLOSED, BLOCKED, NO_GO, STALE, CANCELLED]"

text \<open>\<open>core/schemas/controlled-execution-lease.schema.json\<close>\<close>

definition lease_schema :: "lease \<Rightarrow> bool" where
  "lease_schema l =
     (is_execution_key (lease_executionKey l) \<and> is_stable_id ''lease'' (leaseId l)
      \<and> is_stable_id ''batch-plan'' (lease_batchPlanId l)
      \<and> is_id (lease_sliceId l) \<and> is_id (lease_attemptId l)
      \<and> is_digest (lease_snapshotFingerprint l) \<and> is_digest (lease_envelopeDigest l)
      \<and> lease_policyVersion l = ''controlled-conflict-policy/v1''
      \<and> is_digest (lease_descriptorDigest l)
      \<and> conflict_footprint_schema (lease_footprint l)
      \<and> planningFootprints l \<noteq> [] \<and> list_all conflict_footprint_schema (planningFootprints l)
      \<and> distinct (planningFootprints l)
      \<and> is_absolute_text (lease_sourceRoot l) \<and> is_absolute_text (lease_laneRoot l)
      \<and> 0 \<le> identity_device (lanePhysicalIdentity l) \<and> 1 \<le> identity_inode (lanePhysicalIdentity l)
      \<and> is_commit (lease_laneBase l) \<and> 1 \<le> lease_fencingToken l
      \<and> lease_state l \<in> set lease_states
      \<and> pred_option candidate_schema (lease_candidate l)
      \<and> acquiredAt l \<noteq> [] \<and> lastTransitionAt l \<noteq> [])"

definition lease_id_set :: "string list \<Rightarrow> bool" where
  "lease_id_set xs = (list_all (is_stable_id ''lease'') xs \<and> distinct xs)"

fun evidence_json :: "receipt_evidence \<Rightarrow> json" where
  "evidence_json (Acquire_Evidence c) = JObj [(''command'', acquire_json c)]"
| "evidence_json (Transition_Evidence c) = JObj [(''command'', transition_json c)]"
| "evidence_json (Quarantine_Evidence c observed revoked ds) =
     JObj [(''command'', observation_json c), (''observedWriteSet'', jstrs observed),
           (''revokedLeaseIds'', jstrs revoked),
           (''affectedLeaseDecisions'', JArr (map lease_decision_json ds)),
           (''recoveryState'', JStr ''PROJECT_WRITESET_RECOVERY'')]"
| "evidence_json (Recovery_Evidence c observed revoked ds) =
     JObj [(''command'', recovery_json c), (''observedWriteSet'', jstrs observed),
           (''revokedLeaseIds'', jstrs revoked),
           (''affectedLeaseDecisions'', JArr (map lease_decision_json ds)),
           (''recoveryState'', JStr ''CLEAR'')]"

definition receipt_json :: "receipt \<Rightarrow> json" where
  "receipt_json r =
     JObj [(''schemaVersion'', JStr ''controlled-coordinator-receipt/v1''),
           (''receiptId'', JStr (receiptId r)),
           (''receiptType'', JStr (receipt_type_str (receipt_type_of (receipt_evidence_of r)))),
           (''projectExecutionKey'', JStr (receipt_executionKey r)),
           (''previousJournalVersion'', JInt (previousJournalVersion r)),
           (''nextJournalVersion'', JInt (nextJournalVersion r)),
           (''commandDigest'', JStr (receipt_commandDigest r)),
           (''fencingToken'', JInt (receipt_fencingToken r)),
           (''previousState'', jopt (\<lambda>s. JStr (slice_state_str s)) (receipt_previousState r)),
           (''nextState'', jopt (\<lambda>s. JStr (slice_state_str s)) (receipt_nextState r)),
           (''authoritySnapshotFingerprint'', JStr (receipt_snapshotFingerprint r)),
           (''journalDigest'', JStr (receipt_journalDigest r)),
           (''recordedAt'', JStr (recordedAt r)),
           (''evidence'', evidence_json (receipt_evidence_of r))]"

fun evidence_schema :: "receipt_evidence \<Rightarrow> bool" where
  "evidence_schema (Acquire_Evidence c) = acquire_schema c"
| "evidence_schema (Transition_Evidence c) = transition_schema c"
| "evidence_schema (Quarantine_Evidence c observed revoked ds) =
     (observation_schema c \<and> string_set observed \<and> lease_id_set revoked
      \<and> list_all lease_decision_schema ds \<and> distinct ds)"
| "evidence_schema (Recovery_Evidence c observed revoked ds) =
     (recovery_schema c \<and> string_set observed \<and> lease_id_set revoked
      \<and> list_all lease_decision_schema ds \<and> distinct ds)"

text \<open>\<open>core/schemas/controlled-coordinator-receipt.schema.json\<close>\<close>

definition receipt_schema :: "receipt \<Rightarrow> bool" where
  "receipt_schema r =
     (is_stable_id ''coordinator-receipt'' (receiptId r)
      \<and> is_execution_key (receipt_executionKey r)
      \<and> 0 \<le> previousJournalVersion r \<and> 1 \<le> nextJournalVersion r
      \<and> is_digest (receipt_commandDigest r) \<and> 1 \<le> receipt_fencingToken r
      \<and> pred_option (\<lambda>s. s \<in> set lease_states) (receipt_previousState r)
      \<and> pred_option (\<lambda>s. s \<in> set lease_states) (receipt_nextState r)
      \<and> is_digest (receipt_snapshotFingerprint r) \<and> is_digest (receipt_journalDigest r)
      \<and> recordedAt r \<noteq> [] \<and> evidence_schema (receipt_evidence_of r))"

definition recovery_evidence_json :: "recovery_evidence \<Rightarrow> json" where
  "recovery_evidence_json e =
     JObj [(''observedWriteSet'', jstrs (evidence_observed e)),
           (''revokedLeaseIds'', jstrs (evidence_revoked e)),
           (''affectedLeaseDecisions'', JArr (map lease_decision_json (evidence_decisions e))),
           (''quarantineCommand'', observation_json (quarantineCommand e)),
           (''recoveryCommand'', jopt recovery_json (recoveryCommand e))]"

definition recovery_evidence_schema :: "recovery_evidence \<Rightarrow> bool" where
  "recovery_evidence_schema e =
     (string_set (evidence_observed e) \<and> lease_id_set (evidence_revoked e)
      \<and> list_all lease_decision_schema (evidence_decisions e) \<and> distinct (evidence_decisions e)
      \<and> observation_schema (quarantineCommand e) \<and> pred_option recovery_schema (recoveryCommand e))"

definition journal_json :: "journal \<Rightarrow> json" where
  "journal_json j =
     JObj [(''schemaVersion'', JStr ''controlled-coordinator-journal/v1''),
           (''projectExecutionKey'', JStr (journal_executionKey j)),
           (''journalVersion'', JInt (journalVersion j)),
           (''nextFencingToken'', JInt (nextFencingToken j)),
           (''recoveryState'', JStr (recovery_state_str (recoveryState j))),
           (''recoveryEvidence'', jopt recovery_evidence_json (recoveryEvidence j)),
           (''leases'', JArr (map lease_json (leases j))),
           (''receipts'', JArr (map receipt_json (receipts j))),
           (''integrationTransactions'', JArr [])]"

text \<open>\<open>core/schemas/controlled-coordinator-journal.schema.json\<close>\<close>

definition journal_schema :: "journal \<Rightarrow> bool" where
  "journal_schema j =
     (is_execution_key (journal_executionKey j) \<and> 0 \<le> journalVersion j \<and> 1 \<le> nextFencingToken j
      \<and> pred_option recovery_evidence_schema (recoveryEvidence j)
      \<and> (recoveryState j \<noteq> CLEAR \<longrightarrow> recoveryEvidence j \<noteq> None)
      \<and> list_all lease_schema (leases j) \<and> list_all receipt_schema (receipts j))"

end
