(* ===== verification/Coordinator_Inputs.thy ===== *)
theory Coordinator_Inputs
  imports Coordinator_Data
begin

text \<open>
  \<open>controlled_coordinator_inputs.py\<close>: validation and normalisation of the four commands the
  coordinator accepts, before it looks at any state. Each normaliser checks the schema, brings
  set-valued fields into canonical order, checks the schema again, recomputes the command
  digest and checks the evidence the command carries.
\<close>

section \<open>Errors and paths\<close>

abbreviation coordination_error :: "string \<Rightarrow> harness_error" where
  "coordination_error code \<equiv> Coordination_Error code"

text \<open>\<open>except (ControlledPlanningError, SchemaValidationError) as exc\<close>\<close>

fun as_coordination_error :: "harness_error \<Rightarrow> harness_error" where
  "as_coordination_error (Planning_Error code) = Coordination_Error code"
| "as_coordination_error (Schema_Error _) = Coordination_Error ''COORDINATOR_COMMAND_INVALID''"
| "as_coordination_error e = e"

definition wrap_planning :: "'a result \<Rightarrow> 'a result" where
  "wrap_planning m = map_sum as_coordination_error (\<lambda>x. x) m"

lemma wrap_planning_eq_Inr [result_simps]: "wrap_planning m = Inr x \<longleftrightarrow> m = Inr x"
  by (cases m) (simp_all add: wrap_planning_def)

lemma wrap_planning_Inr [simp]: "wrap_planning (Inr x) = Inr x"
  by (simp add: wrap_planning_def)

definition validate_schema :: "bool \<Rightarrow> unit result" where
  "validate_schema valid = raise_if (\<not> valid) (Coordination_Error ''COORDINATOR_COMMAND_INVALID'')"

lemma validate_schema_eq_Inr [result_simps]: "validate_schema v = Inr u \<longleftrightarrow> v"
  by (simp add: validate_schema_def result_simps)

definition canonical_relative_path :: "string \<Rightarrow> string result" where
  "canonical_relative_path value =
     (case safe_posix value of
        Inl _ \<Rightarrow> Inl (Coordination_Error ''UNSAFE_COORDINATOR_PATH'')
      | Inr normalized \<Rightarrow>
          if normalized \<noteq> value then Inl (Coordination_Error ''UNSAFE_COORDINATOR_PATH'')
          else Inr normalized)"

definition canonical_absolute_path :: "string \<Rightarrow> string result" where
  "canonical_absolute_path value =
     (let normalized = as_posix value in
      if \<not> is_absolute value \<or> has_prefix ''//'' value \<or> normalized \<noteq> value
         \<or> list_ex (\<lambda>part. part \<in> {[], ''.'', ''..''}) (path_parts value)
      then Inl (Coordination_Error ''UNSAFE_COORDINATOR_PATH'')
      else Inr normalized)"

definition canonical_path_set :: "string list \<Rightarrow> string list result" where
  "canonical_path_set values =
     bindE (mapE canonical_relative_path values) (\<lambda>normalized.
     bindE (raise_if (\<not> distinct normalized) (Coordination_Error ''UNSAFE_COORDINATOR_PATH'')) (\<lambda>_.
       Inr (sort normalized)))"

definition canonical_object_set :: "('a \<Rightarrow> string) \<Rightarrow> 'a list \<Rightarrow> 'a list result" where
  "canonical_object_set key values =
     bindE (raise_if (\<not> distinct (map key values)) (Coordination_Error ''COORDINATOR_COMMAND_INVALID'')) (\<lambda>_.
       Inr (sort_key key values))"

definition normalize_footprint :: "conflict_footprint \<Rightarrow> conflict_footprint result" where
  "normalize_footprint f =
     bindE (canonical_path_set (exactWriteSet f)) (\<lambda>exact.
     bindE (canonical_path_set (ephemeralWriteSet f)) (\<lambda>ephemeral.
     bindE (canonical_path_set (authorityReferences f)) (\<lambda>references.
       Inr (f\<lparr>ownerSet := sort (ownerSet f),
              factFamilySet := sort (factFamilySet f),
              publicContractSet := sort (publicContractSet f),
              bindingSet := sort (bindingSet f),
              exactWriteSet := exact,
              ephemeralWriteSet := ephemeral,
              sharedArtifactSet := sort (sharedArtifactSet f),
              dependencySet := sort (dependencySet f),
              migrationResourceSet := sort (migrationResourceSet f),
              authorityReferences := references,
              producerConsumerSet := sort_key producer_consumer_key (producerConsumerSet f)\<rparr>))))"

definition verify_command_digest :: "(string \<Rightarrow> string) \<Rightarrow> (string \<times> json) list \<Rightarrow> string \<Rightarrow> unit result" where
  "verify_command_digest sha payload digest =
     raise_if (digest \<noteq> sha256_json sha (JObj payload)) (Coordination_Error ''COMMAND_DIGEST_MISMATCH'')"

definition validate_timestamp :: "string \<Rightarrow> unit result" where
  "validate_timestamp value =
     wrap_planning (bindE (parse_rfc3339 value) (\<lambda>_. Inr ()))"

text \<open>A loop that validates each member and returns nothing.\<close>

fun eachE :: "('a \<Rightarrow> 'e + unit) \<Rightarrow> 'a list \<Rightarrow> 'e + unit" where
  "eachE f [] = Inr ()"
| "eachE f (x # xs) = bindE (f x) (\<lambda>_. eachE f xs)"

lemma eachE_eq_Inr [result_simps]: "eachE f xs = Inr u \<longleftrightarrow> (\<forall>x\<in>set xs. f x = Inr ())"
  by (induction xs) (auto simp: result_simps)

text \<open>A loop over a list that updates local variables and may raise.\<close>

fun foldE :: "('a \<Rightarrow> 's \<Rightarrow> 'e + 's) \<Rightarrow> 'a list \<Rightarrow> 's \<Rightarrow> 'e + 's" where
  "foldE f [] s = Inr s"
| "foldE f (x # xs) s = bindE (f x s) (\<lambda>s'. foldE f xs s')"

lemma foldE_append: "foldE f (xs @ ys) s = bindE (foldE f xs s) (foldE f ys)"
  by (induction xs arbitrary: s) (auto simp: bindE_def split: sum.splits)

text \<open>An invariant of the loop body holds at the loop's end.\<close>

lemma foldE_invariant:
  assumes "foldE f xs s = Inr t" and "P s"
    and "\<And>x s s'. x \<in> set xs \<Longrightarrow> P s \<Longrightarrow> f x s = Inr s' \<Longrightarrow> P s'"
  shows "P t"
  using assms by (induction xs arbitrary: s) (auto simp: result_simps)

text \<open>\<open>sorted({*xs, *ys})\<close>\<close>

definition sorted_union :: "string list \<Rightarrow> string list \<Rightarrow> string list" where
  "sorted_union xs ys = sort (remdups (xs @ ys))"

lemma set_sorted_union [simp]: "set (sorted_union xs ys) = set xs \<union> set ys"
  and sorted_sorted_union [simp]: "sorted (sorted_union xs ys)"
  and distinct_sorted_union [simp]: "distinct (sorted_union xs ys)"
  by (simp_all add: sorted_union_def)

section \<open>Acquire commands\<close>

text \<open>
  The path checks of \<open>_normalize_acquire_evidence\<close> leave the paths they accept unchanged, so
  only their failures show.
\<close>

definition check_fact_path :: "fact_object \<Rightarrow> unit result" where
  "check_fact_path f =
     (case map_of f ''sourcePath'' of
        None \<Rightarrow> Inl Key_Error
      | Some (JStr p) \<Rightarrow> bindE (canonical_relative_path p) (\<lambda>_. Inr ())
      | Some _ \<Rightarrow> Inl (Coordination_Error ''UNSAFE_COORDINATOR_PATH''))"

definition check_request_authorities :: "authority_snapshot \<Rightarrow> unit result" where
  "check_request_authorities s =
     bindE (eachE (\<lambda>a. bindE (canonical_relative_path (authority_path a)) (\<lambda>_. Inr ())) (authorities s)) (\<lambda>_.
     bindE (eachE (\<lambda>kv. check_fact_path (snd kv)) (facts s)) (\<lambda>_.
     raise_if (\<not> distinct (map authority_id (authorities s))
               \<or> \<not> distinct (map authority_path (authorities s)))
       (Coordination_Error ''AUTHORITY_RECORD_DUPLICATE'')))"

definition normalize_acquire_evidence ::
    "(string \<Rightarrow> string) \<Rightarrow> acquire_command \<Rightarrow> acquire_command result" where
  "normalize_acquire_evidence sha c =
     bindE (wrap_planning (normalize_planning_request sha (acquire_request c))) (\<lambda>request.
     bindE (wrap_planning (normalize_slice_descriptor sha (acquire_descriptor c))) (\<lambda>descriptor.
     bindE (wrap_planning (normalize_authorization_envelope sha (acquire_envelope c))) (\<lambda>envelope.
     bindE (check_request_authorities (authoritySnapshot request)) (\<lambda>_.
     bindE (canonical_relative_path (manifestAuthorityReference (acquire_proof c))) (\<lambda>_.
     bindE (canonical_absolute_path (binding_sourceRoot (proof_binding (acquire_proof c)))) (\<lambda>_.
     bindE (canonical_absolute_path (binding_laneRoot (proof_binding (acquire_proof c)))) (\<lambda>_.
       Inr (c\<lparr>acquire_request := request, acquire_descriptor := descriptor,
              acquire_envelope := envelope\<rparr>))))))))"

definition snapshot_eq :: "authority_snapshot \<Rightarrow> authority_snapshot \<Rightarrow> bool" where
  "snapshot_eq s t = json_eq (snapshot_json s) (snapshot_json t)"

definition validate_planning_request_binding :: "acquire_command \<Rightarrow> unit result" where
  "validate_planning_request_binding c =
     (let r = acquire_request c;
          descriptors = dict_of (map (\<lambda>d. (sliceId d, d)) (slices r)) in
      raise_if (request_projectId r \<noteq> acquire_projectId c
                \<or> batchBaseCommit r \<noteq> acquire_laneBase c
                \<or> \<not> snapshot_eq (authoritySnapshot r) (acquire_snapshot c)
                \<or> authorizationEnvelope r \<noteq> acquire_envelope c
                \<or> conflictPolicyVersion r \<noteq> acquire_policyVersion c
                \<or> asOf r \<noteq> acquire_asOf c
                \<or> map_of descriptors (acquire_sliceId c) \<noteq> Some (acquire_descriptor c))
        (Coordination_Error ''ADMISSION_AUTHORITY_BINDING_MISMATCH''))"

text \<open>\<open>json.loads\<close> of a text that is the canonical form of a list.\<close>

definition canonical_choices :: "string \<Rightarrow> json list option" where
  "canonical_choices text =
     (case loads_canonical text of
        Some (JArr choices) \<Rightarrow> if canonical_json_bytes (JArr choices) = text then Some choices else None
      | _ \<Rightarrow> None)"

abbreviation admission_mismatch :: harness_error where
  "admission_mismatch \<equiv> Coordination_Error ''ADMISSION_AUTHORITY_BINDING_MISMATCH''"

text \<open>The snapshot half of \<open>_validate_admission_authority\<close>.\<close>

definition validate_admission_snapshot :: "(string \<Rightarrow> string) \<Rightarrow> acquire_command \<Rightarrow> unit result" where
  "validate_admission_snapshot sha c =
     (let s = acquire_snapshot c in
      bindE (raise_if (snapshotFingerprint s \<noteq> snapshot_fingerprint sha s) admission_mismatch) (\<lambda>_.
      bindE (raise_if (authoritySetDigest (sourceRevision s) \<noteq> authority_set_digest sha s)
               admission_mismatch) (\<lambda>_.
      raise_if (snapshotFingerprint s \<noteq> acquire_snapshotFingerprint c
                \<or> snapshot_projectId s \<noteq> acquire_projectId c
                \<or> revision_head (sourceRevision s) \<noteq> acquire_laneBase c
                \<or> revision_kind_of (sourceRevision s) \<noteq> GIT
                \<or> authoritySetStatus (sourceRevision s) \<noteq> CLEAN_FOR_AUTHORITY_SET
                \<or> snapshot_gate s \<noteq> PASS
                \<or> conflicts s \<noteq> []
                \<or> missingFacts s \<noteq> []) admission_mismatch)))"

definition expected_admission_binding :: "acquire_command \<Rightarrow> admission_binding" where
  "expected_admission_binding c =
     \<lparr>binding_projectId = acquire_projectId c, binding_sliceId = acquire_sliceId c,
      binding_attemptId = acquire_attemptId c, binding_sourceRoot = acquire_sourceRoot c,
      binding_laneRoot = acquire_laneRoot c\<rparr>"

text \<open>The admission fact: its value is the binding, or a canonical list that holds it.\<close>

definition admission_matches :: "admission_binding \<Rightarrow> json option \<Rightarrow> bool" where
  "admission_matches binding fact_value =
     (case json_str fact_value of
        None \<Rightarrow> False
      | Some text \<Rightarrow>
          text = canonical_json_bytes (admission_binding_json binding)
          \<or> (case canonical_choices text of
               Some choices \<Rightarrow> list_ex (json_eq (admission_binding_json binding)) choices
             | None \<Rightarrow> False))"

text \<open>The proof half, up to the manifest's authority record.\<close>

definition validate_admission_proof :: "(string \<Rightarrow> string) \<Rightarrow> acquire_command \<Rightarrow> unit result" where
  "validate_admission_proof sha c =
     (let s = acquire_snapshot c; proof = acquire_proof c; binding = proof_binding proof in
      bindE (raise_if (admission_proofDigest proof \<noteq> sha256_json sha (JObj (admission_proof_payload proof)))
               admission_mismatch) (\<lambda>_.
      bindE (raise_if (binding \<noteq> expected_admission_binding c) admission_mismatch) (\<lambda>_.
      case map_of (facts s) (proof_factId proof) of
        None \<Rightarrow> Inl admission_mismatch
      | Some fact_obj \<Rightarrow>
          bindE (raise_if (json_str (map_of fact_obj ''owner'') \<noteq> Some (manifestAuthorityId proof)
                           \<or> json_str (map_of fact_obj ''sourcePath'') \<noteq> Some (manifestAuthorityReference proof)
                           \<or> \<not> admission_matches binding (map_of fact_obj ''normalizedValue''))
                   admission_mismatch) (\<lambda>_.
          raise_if (case find (\<lambda>a. authority_path a = manifestAuthorityReference proof) (authorities s) of
                      None \<Rightarrow> True
                    | Some a \<Rightarrow> authority_id a \<noteq> manifestAuthorityId proof
                                \<or> manifestAuthorityDigest proof \<noteq> ''sha256:'' @ authority_sha256 a)
            admission_mismatch))))"

definition planning_fact_value :: "authority_snapshot \<Rightarrow> admission_proof \<Rightarrow> string \<Rightarrow> string result" where
  "planning_fact_value s proof fact_id =
     (case map_of (facts s) fact_id of
        None \<Rightarrow> Inl admission_mismatch
      | Some fact_obj \<Rightarrow>
          if json_str (map_of fact_obj ''owner'') \<noteq> Some (manifestAuthorityId proof)
             \<or> json_str (map_of fact_obj ''sourcePath'') \<noteq> Some (manifestAuthorityReference proof)
          then Inl admission_mismatch
          else (case json_str (map_of fact_obj ''normalizedValue'') of
                  None \<Rightarrow> Inl admission_mismatch
                | Some text \<Rightarrow> Inr text))"

text \<open>A string is expected as itself, any other value as its canonical text.\<close>

fun expected_text :: "json \<Rightarrow> string" where
  "expected_text (JStr s) = s"
| "expected_text v = canonical_json_bytes v"

definition planning_fact_allows :: "authority_snapshot \<Rightarrow> admission_proof \<Rightarrow> string \<Rightarrow> json \<Rightarrow> bool result" where
  "planning_fact_allows s proof fact_id expected_value =
     bindE (planning_fact_value s proof fact_id) (\<lambda>normalized_value.
       Inr (normalized_value = expected_text expected_value
            \<or> (case canonical_choices normalized_value of
                 None \<Rightarrow> False
               | Some choices \<Rightarrow> list_ex (json_eq expected_value) choices)))"

definition require_planning_fact ::
    "authority_snapshot \<Rightarrow> admission_proof \<Rightarrow> string \<times> json \<Rightarrow> unit result" where
  "require_planning_fact s proof kv =
     bindE (planning_fact_allows s proof (fst kv) (snd kv)) (\<lambda>allowed.
       raise_if (\<not> allowed) admission_mismatch)"

definition validate_planning_facts :: "acquire_command \<Rightarrow> unit result" where
  "validate_planning_facts c =
     eachE (require_planning_fact (acquire_snapshot c) (acquire_proof c))
       [(''controlled_planning.authorization_envelope_digest'', JStr (envelopeDigest (acquire_envelope c))),
        (''controlled_planning.conflict_policy_version'', JStr (acquire_policyVersion c)),
        (''controlled_planning.slice_descriptor_digests'',
           jstrs (sort (map descriptorDigest (slices (acquire_request c)))))]"

definition validate_admission_authority :: "(string \<Rightarrow> string) \<Rightarrow> acquire_command \<Rightarrow> unit result" where
  "validate_admission_authority sha c =
     bindE (validate_admission_snapshot sha c) (\<lambda>_.
     bindE (validate_admission_proof sha c) (\<lambda>_.
       validate_planning_facts c))"

section \<open>The plan behind an acquire command\<close>

abbreviation plan_mismatch :: harness_error where
  "plan_mismatch \<equiv> Coordination_Error ''EXECUTION_PLAN_BINDING_MISMATCH''"

definition plan_id :: "(string \<Rightarrow> string) \<Rightarrow> execution_plan \<Rightarrow> string" where
  "plan_id sha p = stable_id sha ''batch-plan'' (JObj (plan_payload p))"

text \<open>\<open>_validate_plan_binding\<close> up to the replay of the planner.\<close>

definition validate_plan_identity :: "(string \<Rightarrow> string) \<Rightarrow> acquire_command \<Rightarrow> unit result" where
  "validate_plan_identity sha c =
     (let p = acquire_plan c in
      bindE (raise_if (batchPlanId p \<noteq> plan_id sha p)
               (Coordination_Error ''EXECUTION_PLAN_ID_MISMATCH'')) (\<lambda>_.
      bindE (raise_if (acquire_projectId c \<noteq> plan_projectId p
                       \<or> acquire_batchPlanId c \<noteq> batchPlanId p
                       \<or> acquire_snapshotFingerprint c \<noteq> plan_snapshotFingerprint p
                       \<or> acquire_envelopeDigest c \<noteq> plan_envelopeDigest p
                       \<or> acquire_policyVersion c \<noteq> plan_conflictPolicyVersion p
                       \<or> acquire_asOf c \<noteq> plan_asOf p) plan_mismatch) (\<lambda>_.
      bindE (raise_if (acquire_laneBase c \<noteq> plan_batchBaseCommit p) plan_mismatch) (\<lambda>_.
      raise_if (authorizationClass (acquire_descriptor c) \<in> set protected_action_classes)
        (Coordination_Error ''PROTECTED_ACTION_DENIED'')))))"

definition plan_eq :: "execution_plan \<Rightarrow> execution_plan \<Rightarrow> bool" where
  "plan_eq p q = (canonical_json_bytes (plan_json p) = canonical_json_bytes (plan_json q))"

definition replay_plan :: "(string \<Rightarrow> string) \<Rightarrow> acquire_command \<Rightarrow> unit result" where
  "replay_plan sha c =
     bindE (wrap_planning (build_provisional_execution_plan sha (acquire_request c))) (\<lambda>rebuilt_bundle.
       raise_if (\<not> plan_eq (executionPlan rebuilt_bundle) (acquire_plan c)) plan_mismatch)"

definition sole_admission :: "acquire_command \<Rightarrow> admission result" where
  "sole_admission c =
     (case filter (\<lambda>a. admission_sliceId a = acquire_sliceId c) (proposedAdmissions (acquire_plan c)) of
        [a] \<Rightarrow> Inr a
      | _ \<Rightarrow>
          (case find (\<lambda>x. entry_sliceId x = acquire_sliceId c) (rejected (acquire_plan c)) of
             None \<Rightarrow> Inl plan_mismatch
           | Some entry \<Rightarrow>
               if ''ACTION_EXPLICITLY_DENIED'' \<notin> set (entry_reasons entry) then Inl plan_mismatch
               else Inl (Coordination_Error ''PROTECTED_ACTION_DENIED'')))"

text \<open>The footprint a normalised descriptor has under the command's project and policy.\<close>

definition expected_footprint :: "(string \<Rightarrow> string) \<Rightarrow> acquire_command \<Rightarrow> conflict_footprint" where
  "expected_footprint sha c =
     footprint_of sha (acquire_projectId c) (acquire_policyVersion c) (acquire_descriptor c)"

definition validate_admission_binding ::
    "(string \<Rightarrow> string) \<Rightarrow> acquire_command \<Rightarrow> admission \<Rightarrow> unit result" where
  "validate_admission_binding sha c a =
     (let d = acquire_descriptor c; e = acquire_envelope c; f = acquire_footprint c in
      bindE (raise_if (sliceId d \<noteq> acquire_sliceId c
                       \<or> admission_descriptorDigest a \<noteq> descriptorDigest d
                       \<or> env_projectId e \<noteq> acquire_projectId c
                       \<or> envelopeDigest e \<noteq> acquire_envelopeDigest c) plan_mismatch) (\<lambda>_.
      bindE (raise_if (authorizationClass d \<notin> set (permittedActionClasses e)
                       \<or> authorizationClass d \<in> set (deniedActions e)) plan_mismatch) (\<lambda>_.
      bindE (raise_if (sliceId f \<noteq> acquire_sliceId c) plan_mismatch) (\<lambda>_.
      bindE (raise_if (exactWriteSetDigest a \<noteq> sha256_json sha (jstrs (sort (exactWriteSet f))))
               plan_mismatch) (\<lambda>_.
      raise_if (canonical_json_bytes (conflict_footprint_json f)
                  \<noteq> canonical_json_bytes (conflict_footprint_json (expected_footprint sha c)))
        plan_mismatch)))))"

definition validate_plan_binding :: "(string \<Rightarrow> string) \<Rightarrow> acquire_command \<Rightarrow> unit result" where
  "validate_plan_binding sha c =
     bindE (validate_plan_identity sha c) (\<lambda>_.
     bindE (replay_plan sha c) (\<lambda>_.
     bindE (sole_admission c) (\<lambda>a.
       validate_admission_binding sha c a)))"

definition normalize_acquire_command ::
    "(string \<Rightarrow> string) \<Rightarrow> acquire_command \<Rightarrow> acquire_command result" where
  "normalize_acquire_command sha value =
     bindE (validate_schema (acquire_schema value)) (\<lambda>_.
     bindE (normalize_footprint (acquire_footprint value)) (\<lambda>footprint.
     bindE (normalize_acquire_evidence sha (value\<lparr>acquire_footprint := footprint\<rparr>)) (\<lambda>normalized.
     bindE (canonical_absolute_path (acquire_sourceRoot normalized)) (\<lambda>_.
     bindE (canonical_absolute_path (acquire_laneRoot normalized)) (\<lambda>_.
     bindE (validate_schema (acquire_schema normalized)) (\<lambda>_.
     bindE (verify_command_digest sha (acquire_payload normalized) (acquire_digest normalized)) (\<lambda>_.
     bindE (validate_timestamp (acquire_asOf normalized)) (\<lambda>_.
     bindE (validate_timestamp (plan_asOf (acquire_plan normalized))) (\<lambda>_.
     bindE (validate_planning_request_binding normalized) (\<lambda>_.
     bindE (validate_admission_authority sha normalized) (\<lambda>_.
     bindE (validate_plan_binding sha normalized) (\<lambda>_.
       Inr normalized))))))))))))"

section \<open>Transition commands\<close>

definition normalize_process_quiescence :: "process_quiescence \<Rightarrow> process_quiescence" where
  "normalize_process_quiescence q = q\<lparr>processIds := sort (processIds q)\<rparr>"

text \<open>
  \<open>_canonical_reviewer_set\<close>, for both record types it is called on: roles and reviewers are
  unique, the authority references canonical, and the set is ordered by role.
\<close>

definition canonical_reviewer_set ::
    "('a \<Rightarrow> string) \<Rightarrow> ('a \<Rightarrow> string) \<Rightarrow> ('a \<Rightarrow> string) \<Rightarrow> 'a list \<Rightarrow> 'a list result" where
  "canonical_reviewer_set role reviewer_id reference values =
     bindE (raise_if (\<not> distinct (map role values) \<or> \<not> distinct (map reviewer_id values))
              (Coordination_Error ''COORDINATOR_COMMAND_INVALID'')) (\<lambda>_.
     bindE (eachE (\<lambda>x. bindE (canonical_relative_path (reference x)) (\<lambda>_. Inr ())) values) (\<lambda>_.
       Inr (sort_key role values)))"

definition normalize_lifecycle_authority_proof :: "lifecycle_proof \<Rightarrow> lifecycle_proof result" where
  "normalize_lifecycle_authority_proof p =
     bindE (canonical_relative_path (proof_reference p)) (\<lambda>reference.
     bindE (canonical_reviewer_set binding_role binding_reviewerId binding_reference (proof_reviewers p)) (\<lambda>reviewers.
       Inr (p\<lparr>proof_reference := reference, proof_reviewers := reviewers\<rparr>)))"

definition normalize_review_evidence_set :: "review_evidence list \<Rightarrow> review_evidence list result" where
  "normalize_review_evidence_set vs =
     bindE (canonical_reviewer_set review_role review_reviewerId review_reference vs) (\<lambda>normalized.
     bindE (eachE (\<lambda>v. validate_timestamp (reviewedAt v)) normalized) (\<lambda>_.
       Inr normalized))"

definition validate_lifecycle_authority :: "(string \<Rightarrow> string) \<Rightarrow> transition_command \<Rightarrow> unit result" where
  "validate_lifecycle_authority sha c =
     (let p = transition_proof c in
      bindE (validate_timestamp (assertedAt p)) (\<lambda>_.
      raise_if (lifecycle_proofDigest p \<noteq> sha256_json sha (JObj (lifecycle_proof_signed p))
                \<or> (proof_attemptId p, proof_expectedState p, proof_nextState p)
                    \<noteq> (transition_attemptId c, expectedState c, transition_nextState c)
                \<or> proof_candidate p \<noteq> transition_candidate c)
        (Coordination_Error ''LIFECYCLE_AUTHORITY_BINDING_MISMATCH'')))"

text \<open>What one reviewer binds: the candidate, the lease and the authority, in one digest.\<close>

definition review_binding_digest ::
    "(string \<Rightarrow> string) \<Rightarrow> transition_command \<Rightarrow> review_evidence \<Rightarrow> string" where
  "review_binding_digest sha c v =
     sha256_json sha (JObj
       [(''candidateIdentity'', jopt candidate_json (transition_candidate c)),
        (''projectExecutionKey'', JStr (transition_executionKey c)),
        (''leaseId'', JStr (transition_leaseId c)),
        (''attemptId'', JStr (transition_attemptId c)),
        (''fencingToken'', JInt (transition_fencingToken c)),
        (''authoritySnapshotFingerprint'', JStr (transition_snapshotFingerprint c)),
        (''reviewerId'', JStr (review_reviewerId v)),
        (''reviewerRole'', JStr (review_role v)),
        (''reviewerAuthorityReference'', JStr (review_reference v)),
        (''reviewerAuthorityDigest'', JStr (review_authorityDigest v))])"

definition review_evidence_digest :: "(string \<Rightarrow> string) \<Rightarrow> review_evidence \<Rightarrow> string" where
  "review_evidence_digest sha v = sha256_json sha (JObj (review_payload v))"

definition review_binds :: "(string \<Rightarrow> string) \<Rightarrow> transition_command \<Rightarrow> review_evidence \<Rightarrow> bool" where
  "review_binds sha c v =
     (Some (review_candidate v) = transition_candidate c
      \<and> review_executionKey v = transition_executionKey c
      \<and> review_leaseId v = transition_leaseId c
      \<and> review_attemptId v = transition_attemptId c
      \<and> review_fencingToken v = transition_fencingToken c
      \<and> review_snapshotFingerprint v = transition_snapshotFingerprint c
      \<and> reviewBindingDigest v = review_binding_digest sha c v
      \<and> evidenceDigest v = review_evidence_digest sha v)"

definition reviewer_binding_of :: "review_evidence \<Rightarrow> reviewer_binding" where
  "reviewer_binding_of v =
     \<lparr>binding_role = review_role v, binding_reviewerId = review_reviewerId v,
      binding_reference = review_reference v, binding_authorityDigest = review_authorityDigest v,
      binding_reviewDigest = reviewBindingDigest v\<rparr>"

definition validate_review_evidence :: "(string \<Rightarrow> string) \<Rightarrow> transition_command \<Rightarrow> unit result" where
  "validate_review_evidence sha c =
     (let vs = reviewEvidenceSet c; p = transition_proof c in
      if transition_nextState c \<noteq> REVIEW_GO then
        raise_if (vs \<noteq> [] \<or> proof_reviewers p \<noteq> [] \<or> proof_reviewBindingDigest p \<noteq> None
                  \<or> proof_reviewEvidenceDigest p \<noteq> None)
          (Coordination_Error ''REVIEW_EVIDENCE_UNEXPECTED'')
      else
        bindE (raise_if (vs = []) (Coordination_Error ''REVIEW_EVIDENCE_REQUIRED'')) (\<lambda>_.
        bindE (eachE (\<lambda>v. raise_if (\<not> review_binds sha c v)
                             (Coordination_Error ''REVIEW_EVIDENCE_BINDING_MISMATCH'')) vs) (\<lambda>_.
        let expected = map reviewer_binding_of vs in
        raise_if (proof_reviewers p \<noteq> expected
                  \<or> proof_reviewBindingDigest p \<noteq> Some (sha256_json sha (jstrs (map binding_reviewDigest expected)))
                  \<or> proof_reviewEvidenceDigest p \<noteq> Some (sha256_json sha (JArr (map review_json vs))))
          (Coordination_Error ''REVIEW_EVIDENCE_BINDING_MISMATCH''))))"

text \<open>\<open>_NORMAL_TRANSITIONS\<close>, \<open>_EXCEPTIONAL_STATES\<close> and \<open>_CANDIDATE_STATES\<close>.\<close>

fun normal_transition :: "slice_state \<Rightarrow> slice_state option" where
  "normal_transition PROPOSED = Some READY"
| "normal_transition READY = Some ADMITTED"
| "normal_transition ADMITTED = Some ACTIVE"
| "normal_transition ACTIVE = Some FIXED_CANDIDATE"
| "normal_transition FIXED_CANDIDATE = Some REVIEW_GO"
| "normal_transition REVIEW_GO = Some QUEUED_FOR_INTEGRATION"
| "normal_transition QUEUED_FOR_INTEGRATION = Some INTEGRATING"
| "normal_transition INTEGRATING = Some CLOSED"
| "normal_transition _ = None"

definition exceptional_states :: "slice_state list" where
  "exceptional_states = [BLOCKED, NO_GO, STALE, CANCELLED]"

definition candidate_states :: "slice_state list" where
  "candidate_states = [FIXED_CANDIDATE, REVIEW_GO, QUEUED_FOR_INTEGRATION, INTEGRATING, CLOSED]"

definition transition_allowed :: "slice_state \<Rightarrow> slice_state \<Rightarrow> bool" where
  "transition_allowed expected next_state =
     (normal_transition expected = Some next_state
      \<or> next_state \<in> set exceptional_states \<and> normal_transition expected \<noteq> None)"

definition normalize_transition_fields :: "transition_command \<Rightarrow> transition_command result" where
  "normalize_transition_fields value =
     bindE (normalize_lifecycle_authority_proof (transition_proof value)) (\<lambda>proof.
     bindE (normalize_review_evidence_set (reviewEvidenceSet value)) (\<lambda>reviews.
       Inr (value\<lparr>transition_quiescence := normalize_process_quiescence (transition_quiescence value),
                  transition_proof := proof, reviewEvidenceSet := reviews\<rparr>)))"

definition normalize_transition_command ::
    "(string \<Rightarrow> string) \<Rightarrow> transition_command \<Rightarrow> transition_command result" where
  "normalize_transition_command sha value =
     bindE (validate_schema (transition_schema value)) (\<lambda>_.
     bindE (normalize_transition_fields value) (\<lambda>normalized.
     bindE (validate_schema (transition_schema normalized)) (\<lambda>_.
     bindE (verify_command_digest sha (transition_payload normalized) (transition_digest normalized)) (\<lambda>_.
     bindE (validate_timestamp (quiescence_observedAt (transition_quiescence normalized))) (\<lambda>_.
     bindE (validate_lifecycle_authority sha normalized) (\<lambda>_.
     bindE (raise_if (\<not> transition_allowed (expectedState normalized) (transition_nextState normalized))
              (Coordination_Error ''INVALID_STATE_TRANSITION'')) (\<lambda>_.
     bindE (raise_if (transition_nextState normalized \<in> set candidate_states
                       \<and> transition_candidate normalized = None)
              (Coordination_Error ''CANDIDATE_IDENTITY_REQUIRED'')) (\<lambda>_.
     bindE (validate_review_evidence sha normalized) (\<lambda>_.
       Inr normalized)))))))))"

section \<open>Write observations and recovery commands\<close>

definition normalize_write_observation_command ::
    "(string \<Rightarrow> string) \<Rightarrow> observation_command \<Rightarrow> observation_command result" where
  "normalize_write_observation_command sha value =
     bindE (validate_schema (observation_schema value)) (\<lambda>_.
     bindE (canonical_path_set (observedPaths value)) (\<lambda>observed.
     bindE (canonical_path_set (ephemeralPathsRemoved value)) (\<lambda>removed.
     let normalized = value\<lparr>observedPaths := observed, ephemeralPathsRemoved := removed,
                            observation_quiescence := normalize_process_quiescence (observation_quiescence value)\<rparr> in
     bindE (validate_schema (observation_schema normalized)) (\<lambda>_.
     bindE (verify_command_digest sha (observation_payload normalized) (observation_digest normalized)) (\<lambda>_.
     bindE (validate_timestamp (quiescence_observedAt (observation_quiescence normalized))) (\<lambda>_.
       Inr normalized))))))"

definition normalize_recovery_command ::
    "(string \<Rightarrow> string) \<Rightarrow> recovery_command \<Rightarrow> recovery_command result" where
  "normalize_recovery_command sha value =
     bindE (validate_schema (recovery_schema value)) (\<lambda>_.
     bindE (canonical_relative_path (recoveryAuthorityReference value)) (\<lambda>reference.
     bindE (canonical_object_set quiescent_leaseId (processQuiescenceProofs value)) (\<lambda>proofs.
     bindE (canonical_path_set (observedWriteSet value)) (\<lambda>observed.
     bindE (canonical_object_set decided_leaseId (affectedLeaseDecisions value)) (\<lambda>ds.
     let normalized = value\<lparr>recoveryAuthorityReference := reference, processQuiescenceProofs := proofs,
                            observedWriteSet := observed, affectedLeaseDecisions := ds\<rparr> in
     bindE (raise_if (set (map quiescent_leaseId proofs) \<noteq> set (map decided_leaseId ds))
              (Coordination_Error ''RECOVERY_LEASE_SET_MISMATCH'')) (\<lambda>_.
     bindE (validate_schema (recovery_schema normalized)) (\<lambda>_.
     bindE (verify_command_digest sha (recovery_payload normalized) (recovery_digest normalized)) (\<lambda>_.
     bindE (eachE (\<lambda>q. validate_timestamp (quiescent_observedAt q)) (processQuiescenceProofs normalized)) (\<lambda>_.
       Inr normalized)))))))))"

end
