(* ===== verification/Coordinator_Journal.thy ===== *)
theory Coordinator_Journal
  imports Coordinator_Inputs
begin

text \<open>
  The integrity of a coordinator journal (\<open>coordinator_state.py\<close>, lines 109 to 651): the checks
  that every journal passes before it is written and after it is read. The SSH signature check
  of \<open>controlled_coordinator.py\<close> comes first, because recovery evidence is verified again on
  every read. The system's \<open>ssh-keygen\<close> is a parameter.
\<close>

section \<open>SSH signatures\<close>

text \<open>
  \<open>keygen_trusted\<close>: \<open>/usr/bin/ssh-keygen\<close> passed its ownership and digest checks.
  \<open>keygen_verify allowed_signers identity namespace signature message\<close>: it exited with 0.
\<close>

record ssh_host =
  keygen_trusted :: bool
  keygen_verify :: "string \<Rightarrow> string \<Rightarrow> string \<Rightarrow> string \<Rightarrow> string \<Rightarrow> bool"

definition is_ascii :: "string \<Rightarrow> bool" where
  "is_ascii s = list_all (\<lambda>c. of_char c < (128 :: nat)) s"

text \<open>The ASCII characters \<open>str.split\<close> splits at.\<close>

definition is_space :: "char \<Rightarrow> bool" where
  "is_space c = (of_char c \<in> {9, 10, 11, 12, 13, 28, 29, 30, 31, 32 :: nat})"

fun words_of :: "string \<Rightarrow> string list" where
  "words_of [] = []"
| "words_of (c # s) =
     (if is_space c then words_of s
      else case s of
        [] \<Rightarrow> [[c]]
      | d # _ \<Rightarrow> if is_space d then [c] # words_of s
                 else (case words_of s of [] \<Rightarrow> [[c]] | w # ws \<Rightarrow> (c # w) # ws))"

definition openssh_ed25519_public_key :: "string \<Rightarrow> string result" where
  "openssh_ed25519_public_key public_key =
     (if \<not> is_ascii public_key then Inl (Coordination_Error ''AUTHORITY_PUBLIC_KEY_INVALID'')
      else case words_of public_key of
        [kind, key] \<Rightarrow>
          if kind \<noteq> ''ssh-ed25519'' then Inl (Coordination_Error ''AUTHORITY_PUBLIC_KEY_INVALID'')
          else Inr (kind @ '' '' @ key)
      | _ \<Rightarrow> Inl (Coordination_Error ''AUTHORITY_PUBLIC_KEY_INVALID''))"

text \<open>\<open>[A-Za-z0-9+/]+={0,2}\<close>\<close>

definition is_armor_line :: "string \<Rightarrow> bool" where
  "is_armor_line l =
     (takeWhile base64_char l \<noteq> [] \<and> dropWhile base64_char l \<in> {[], ''='', ''==''})"

text \<open>\<open>_SSHSIG_ARMOR\<close>\<close>

definition is_sshsig_armor :: "string \<Rightarrow> bool" where
  "is_sshsig_armor s =
     (let ls = split_on newline s in
      4 \<le> length ls \<and> hd ls = ''-----BEGIN SSH SIGNATURE-----''
      \<and> list_all is_armor_line (butlast (butlast (tl ls)))
      \<and> last (butlast ls) = ''-----END SSH SIGNATURE-----'' \<and> last ls = [])"

definition verify_sshsig_signature ::
    "ssh_host \<Rightarrow> string \<Rightarrow> string \<Rightarrow> json \<Rightarrow> string \<Rightarrow> string \<Rightarrow> string \<Rightarrow> unit result" where
  "verify_sshsig_signature host public_key signature_text payload identity namespace invalid_code =
     bindE (raise_if (\<not> keygen_trusted host) (Coordination_Error ''SSH_KEYGEN_VERIFIER_INVALID'')) (\<lambda>_.
     bindE (openssh_ed25519_public_key public_key) (\<lambda>canonical_public_key.
     bindE (raise_if (\<not> is_ascii signature_text \<or> \<not> is_sshsig_armor signature_text \<or> \<not> is_ascii identity)
              (Coordination_Error invalid_code)) (\<lambda>_.
     raise_if (\<not> keygen_verify host (identity @ '' '' @ canonical_public_key @ [newline])
                  identity namespace signature_text (canonical_json_bytes payload))
       (Coordination_Error invalid_code))))"

section \<open>Recovery decisions\<close>

abbreviation corrupt :: harness_error where
  "corrupt \<equiv> Coordination_Error ''COORDINATOR_STATE_CORRUPT''"

definition receipt_id_of :: "(string \<Rightarrow> string) \<Rightarrow> string \<Rightarrow> int \<Rightarrow> string \<Rightarrow> int \<Rightarrow> string" where
  "receipt_id_of sha key version digest token =
     stable_id sha ''coordinator-receipt'' (JObj
       [(''projectExecutionKey'', JStr key), (''journalVersion'', JInt version),
        (''commandDigest'', JStr digest), (''fencingToken'', JInt token)])"

definition expected_receipt_id :: "(string \<Rightarrow> string) \<Rightarrow> receipt \<Rightarrow> string" where
  "expected_receipt_id sha r =
     receipt_id_of sha (receipt_executionKey r) (nextJournalVersion r) (receipt_commandDigest r)
       (receipt_fencingToken r)"

definition recovery_signature_payload :: "recovery_command \<Rightarrow> json" where
  "recovery_signature_payload c = JObj (recovery_unsigned c)"

text \<open>The footprints of every slice of the request an acquire command carries.\<close>

definition acquire_planning_footprints ::
    "(string \<Rightarrow> string) \<Rightarrow> acquire_command \<Rightarrow> conflict_footprint list" where
  "acquire_planning_footprints sha c =
     sort_key sliceId
       (map (footprint_of sha (acquire_projectId c) (acquire_policyVersion c)) (slices (acquire_request c)))"

definition path_is_within :: "string \<Rightarrow> string \<Rightarrow> bool" where
  "path_is_within path root = (path = root \<or> has_prefix (root @ ''/'') path)"

definition paths_overlap :: "string \<Rightarrow> string \<Rightarrow> bool" where
  "paths_overlap left right = (path_is_within left right \<or> path_is_within right left)"

definition authority_paths :: "acquire_command \<Rightarrow> string list" where
  "authority_paths c =
     sorted_union (authorityReferences (acquire_descriptor c))
       (map authority_path (authorities (acquire_snapshot c)))"

text \<open>What a breach means for one lease: an authority was touched, its own paths were, or neither.\<close>

definition decide_lease :: "acquire_command \<Rightarrow> string list \<Rightarrow> lease \<Rightarrow> lease_decision" where
  "decide_lease c observed_write_set l =
     (let footprint_paths = exactWriteSet (lease_footprint l) @ ephemeralWriteSet (lease_footprint l);
          touches = (\<lambda>paths. list_ex (\<lambda>observed. list_ex (paths_overlap observed) paths) observed_write_set) in
      if touches (authority_paths c)
      then \<lparr>decided_leaseId = leaseId l, decided_state = STALE, decided_reason = ''AUTHORITY_AFFECTED''\<rparr>
      else if touches footprint_paths
      then \<lparr>decided_leaseId = leaseId l, decided_state = STALE, decided_reason = ''WRITESET_OVERLAP''\<rparr>
      else \<lparr>decided_leaseId = leaseId l, decided_state = CANCELLED, decided_reason = ''PROJECT_RECOVERY''\<rparr>)"

definition leases_by_id :: "lease list \<Rightarrow> (string, lease) dict" where
  "leases_by_id ls = dict_of (map (\<lambda>l. (leaseId l, l)) ls)"

definition expected_recovery_decisions ::
    "lease list \<Rightarrow> (string, acquire_command) dict \<Rightarrow> string list \<Rightarrow> string list \<Rightarrow> lease_decision list result" where
  "expected_recovery_decisions ls acquire_commands revoked_ids observed_write_set =
     bindE (mapE (\<lambda>i.
        case (map_of (leases_by_id ls) i, map_of acquire_commands i) of
          (Some l, Some c) \<Rightarrow> Inr (decide_lease c observed_write_set l)
        | _ \<Rightarrow> Inl corrupt) revoked_ids) (\<lambda>ds.
       Inr (sort_key decided_leaseId ds))"

section \<open>The recovery authority of a persisted recovery\<close>

definition authority_anchor ::
    "(string, acquire_command) dict \<Rightarrow> string \<Rightarrow> (string \<times> string) result" where
  "authority_anchor acquire_commands i =
     (case map_of acquire_commands i of
        None \<Rightarrow> Inl corrupt
      | Some c \<Rightarrow>
          (case filter (\<lambda>a. authority_id a = ''recovery-controller'') (authorities (acquire_snapshot c)) of
             [a] \<Rightarrow> Inr (authority_path a, ''sha256:'' @ authority_sha256 a)
           | _ \<Rightarrow> Inl corrupt))"

definition validate_persisted_recovery_authority ::
    "(string \<Rightarrow> string) \<Rightarrow> ssh_host \<Rightarrow> recovery_command \<Rightarrow> string list \<Rightarrow> (string, acquire_command) dict
      \<Rightarrow> unit result" where
  "validate_persisted_recovery_authority sha host c revoked_ids acquire_commands =
     bindE (mapE (authority_anchor acquire_commands) revoked_ids) (\<lambda>anchors.
     bindE (raise_if (set anchors \<noteq> {(recoveryAuthorityReference c, recoveryAuthorityDigest c)}) corrupt) (\<lambda>_.
     bindE (raise_if (\<not> is_ascii (recoveryAuthorityPublicKey c)) corrupt) (\<lambda>_.
     bindE (raise_if (''sha256:'' @ sha (recoveryAuthorityPublicKey c) \<noteq> recoveryAuthorityDigest c) corrupt) (\<lambda>_.
     case verify_sshsig_signature host (recoveryAuthorityPublicKey c) (recovery_signature c)
            (recovery_signature_payload c) ''recovery-controller''
            ''agent-evolution-controlled-recovery-v1'' ''RECOVERY_SIGNATURE_INVALID'' of
       Inr _ \<Rightarrow> Inr ()
     | Inl e \<Rightarrow> Inl (if e = Coordination_Error ''SSH_KEYGEN_VERIFIER_INVALID'' then e else corrupt)))))"

section \<open>The history of leases behind a journal\<close>

definition acquisition_key :: "acquire_command \<Rightarrow> string \<times> string \<times> string" where
  "acquisition_key c = (acquire_batchPlanId c, acquire_sliceId c, acquire_attemptId c)"

definition lease_key :: "lease \<Rightarrow> string \<times> string \<times> string" where
  "lease_key l = (lease_batchPlanId l, lease_sliceId l, lease_attemptId l)"

record lease_history =
  history_leases :: "(string, slice_state \<times> bool) dict"
  recovery_pending :: bool
  pending_revoked :: "string list"

definition recoverable_ids :: "(string, slice_state \<times> bool) dict \<Rightarrow> string list" where
  "recoverable_ids h = sort (map fst (filter (\<lambda>(i, state, rel). \<not> rel \<and> state \<noteq> CLOSED) h))"

text \<open>The first loop of \<open>_validate_recovery_integrity\<close>: one receipt replayed.\<close>

definition replay_receipt :: "lease list \<Rightarrow> receipt \<Rightarrow> lease_history \<Rightarrow> lease_history result" where
  "replay_receipt ls r h =
     (case receipt_evidence_of r of
        Acquire_Evidence c \<Rightarrow>
          bindE (raise_if (recovery_pending h) corrupt) (\<lambda>_.
          case filter (\<lambda>l. lease_key l = acquisition_key c) ls of
            [l] \<Rightarrow> Inr (h\<lparr>history_leases := AList.update (leaseId l) (ADMITTED, False) (history_leases h)\<rparr>)
          | _ \<Rightarrow> Inl corrupt)
      | Transition_Evidence c \<Rightarrow>
          bindE (raise_if (recovery_pending h) corrupt) (\<lambda>_.
          bindE (raise_if (map_of (history_leases h) (transition_leaseId c) = None) corrupt) (\<lambda>_.
            Inr (h\<lparr>history_leases := AList.update (transition_leaseId c)
                     (transition_nextState c, transition_nextState c = CLOSED) (history_leases h)\<rparr>)))
      | Quarantine_Evidence c observed revoked ds \<Rightarrow>
          bindE (raise_if (revoked \<noteq> recoverable_ids (history_leases h)) corrupt) (\<lambda>_.
            Inr (h\<lparr>recovery_pending := True, pending_revoked := recoverable_ids (history_leases h)\<rparr>))
      | Recovery_Evidence c observed revoked ds \<Rightarrow>
          bindE (raise_if (\<not> recovery_pending h) corrupt) (\<lambda>_.
          let decided = dict_of (map (\<lambda>d. (decided_leaseId d, decided_state d)) ds) in
          bindE (raise_if (set (map decided_leaseId ds) \<noteq> set (pending_revoked h)) corrupt) (\<lambda>_.
            Inr (h\<lparr>history_leases :=
                     fold (\<lambda>i d. AList.update i (the (map_of decided i), True) d)
                       (pending_revoked h) (history_leases h),
                   recovery_pending := False, pending_revoked := []\<rparr>))))"

definition empty_history :: lease_history where
  "empty_history = \<lparr>history_leases = [], recovery_pending = False, pending_revoked = []\<rparr>"

definition replay_receipts :: "journal \<Rightarrow> lease_history result" where
  "replay_receipts j = foldE (replay_receipt (leases j)) (receipts j) empty_history"

section \<open>Recovery cycles\<close>

definition is_observation :: "receipt \<Rightarrow> bool" where
  "is_observation r = (receipt_type_of (receipt_evidence_of r) = WRITE_OBSERVATION)"

definition is_mutation :: "receipt \<Rightarrow> bool" where
  "is_mutation r = (receipt_type_of (receipt_evidence_of r) \<in> {WRITE_OBSERVATION, RECOVERY})"

type_synonym recovery_cycle = "receipt list \<times> receipt option"

text \<open>Observations up to the recovery that closes them; the last cycle may be open.\<close>

fun split_cycles :: "receipt list \<Rightarrow> receipt list \<Rightarrow> recovery_cycle list result" where
  "split_cycles pending [] = Inr (if pending = [] then [] else [(pending, None)])"
| "split_cycles pending (r # rs) =
     (if is_observation r then split_cycles (pending @ [r]) rs
      else if pending = [] then Inl corrupt
      else bindE (split_cycles [] rs) (\<lambda>cs. Inr ((pending, Some r) # cs)))"

fun evidence_revoked_ids :: "receipt_evidence \<Rightarrow> string list" where
  "evidence_revoked_ids (Quarantine_Evidence _ _ revoked _) = revoked"
| "evidence_revoked_ids (Recovery_Evidence _ _ revoked _) = revoked"
| "evidence_revoked_ids _ = []"

text \<open>One \<open>WRITE_OBSERVATION\<close> of a cycle: the paths observed so far and the decisions they give.\<close>

definition check_observation ::
    "journal \<Rightarrow> (string, acquire_command) dict \<Rightarrow> string list \<Rightarrow> receipt
      \<Rightarrow> string list \<times> lease_decision list \<Rightarrow> (string list \<times> lease_decision list) result" where
  "check_observation j acquire_commands revoked_ids r st =
     (case receipt_evidence_of r of
        Quarantine_Evidence c observed revoked ds \<Rightarrow>
          bindE (raise_if
             (case map_of (leases_by_id (leases j)) (observation_leaseId c) of
                None \<Rightarrow> True
              | Some l \<Rightarrow>
                  observation_leaseId c \<notin> set revoked_ids
                  \<or> observation_fencingToken c \<noteq> receipt_fencingToken r
                  \<or> observation_fencingToken c \<noteq> lease_fencingToken l
                  \<or> receipt_snapshotFingerprint r \<noteq> lease_snapshotFingerprint l
                  \<or> recordedAt r \<noteq> quiescence_observedAt (observation_quiescence c)
                  \<or> receipt_previousState r \<noteq> receipt_nextState r) corrupt) (\<lambda>_.
          bindE (raise_if (observedPaths c \<noteq> sorted_union (observedPaths c) []) corrupt) (\<lambda>_.
          let cumulative = sorted_union (fst st) (observedPaths c) in
          bindE (expected_recovery_decisions (leases j) acquire_commands revoked_ids cumulative) (\<lambda>expected.
          bindE (raise_if (observed \<noteq> cumulative \<or> revoked \<noteq> revoked_ids \<or> ds \<noteq> expected) corrupt) (\<lambda>_.
            Inr (cumulative, expected)))))
      | _ \<Rightarrow> Inl corrupt)"

definition latest_quarantine_command :: "receipt \<Rightarrow> observation_command result" where
  "latest_quarantine_command r =
     (case receipt_evidence_of r of Quarantine_Evidence c _ _ _ \<Rightarrow> Inr c | _ \<Rightarrow> Inl corrupt)"

text \<open>A cycle no recovery has closed: only the latest may be, and its leases stay quarantined.\<close>

definition check_pending_cycle :: "journal \<Rightarrow> bool \<Rightarrow> string list \<Rightarrow> unit result" where
  "check_pending_cycle j is_latest revoked_ids =
     bindE (raise_if (\<not> is_latest \<or> recoveryState j \<noteq> PROJECT_WRITESET_RECOVERY) corrupt) (\<lambda>_.
     raise_if (list_ex (\<lambda>i. case map_of (leases_by_id (leases j)) i of
                            None \<Rightarrow> True
                          | Some l \<Rightarrow> released l \<or> recoveryStatus l \<noteq> PROJECT_WRITESET_RECOVERY) revoked_ids)
       corrupt)"

text \<open>A cycle with its \<open>RECOVERY\<close> receipt: the evidence is the cycle's, every lease as decided.\<close>

definition check_closed_cycle ::
    "(string \<Rightarrow> string) \<Rightarrow> ssh_host \<Rightarrow> journal \<Rightarrow> (string, acquire_command) dict \<Rightarrow> bool \<Rightarrow> string list
      \<Rightarrow> string list \<Rightarrow> lease_decision list \<Rightarrow> receipt \<Rightarrow> recovery_command result" where
  "check_closed_cycle sha host j acquire_commands is_latest revoked_ids cumulative expected r =
     (case receipt_evidence_of r of
        Recovery_Evidence c observed revoked ds \<Rightarrow>
          (let proofs = processQuiescenceProofs c;
               proof_by_id = dict_of (map (\<lambda>q. (quiescent_leaseId q, q)) proofs);
               decided = dict_of (map (\<lambda>d. (decided_leaseId d, decided_state d)) expected);
               by_id = leases_by_id (leases j) in
           bindE (raise_if
              (\<not> distinct (map quiescent_leaseId proofs)
               \<or> expectedJournalVersion c \<noteq> previousJournalVersion r
               \<or> observedWriteSet c \<noteq> cumulative
               \<or> affectedLeaseDecisions c \<noteq> expected
               \<or> set (map quiescent_leaseId proofs) \<noteq> set revoked_ids
               \<or> receipt_fencingToken r \<noteq> Max (set (map quiescent_fencingToken proofs))
               \<or> (\<lambda>i. map_option lease_snapshotFingerprint (map_of by_id i)) ` set revoked_ids
                    \<noteq> {Some (receipt_snapshotFingerprint r)}
               \<or> recordedAt r \<noteq> Max (set (map quiescent_observedAt proofs))
               \<or> receipt_previousState r \<noteq> None \<or> receipt_nextState r \<noteq> None
               \<or> observed \<noteq> cumulative \<or> revoked \<noteq> revoked_ids \<or> ds \<noteq> expected) corrupt) (\<lambda>_.
           bindE (validate_persisted_recovery_authority sha host c revoked_ids acquire_commands) (\<lambda>_.
           bindE (raise_if
              (list_ex (\<lambda>i. case (map_of by_id i, map_of proof_by_id i) of
                    (Some l, Some q) \<Rightarrow>
                      quiescent_fencingToken q \<noteq> lease_fencingToken l
                      \<or> Some (lease_state l) \<noteq> map_of decided i
                      \<or> \<not> released l \<or> recoveryStatus l \<noteq> CLEAR
                  | _ \<Rightarrow> True) revoked_ids) corrupt) (\<lambda>_.
           bindE (raise_if (is_latest \<and> recoveryState j \<noteq> CLEAR) corrupt) (\<lambda>_.
             Inr c)))))
      | _ \<Rightarrow> Inl corrupt)"

text \<open>One cycle: the evidence it leaves if it is the latest.\<close>

definition check_cycle ::
    "(string \<Rightarrow> string) \<Rightarrow> ssh_host \<Rightarrow> journal \<Rightarrow> (string, acquire_command) dict \<Rightarrow> bool \<Rightarrow> recovery_cycle
      \<Rightarrow> recovery_evidence result" where
  "check_cycle sha host j acquire_commands is_latest cycle =
     (let observations = fst cycle;
          revoked_ids = evidence_revoked_ids (receipt_evidence_of (last observations)) in
      bindE (raise_if (revoked_ids = [] \<or> revoked_ids \<noteq> sorted_union revoked_ids []) corrupt) (\<lambda>_.
      bindE (raise_if (\<not> set revoked_ids \<subseteq> set (map leaseId (leases j))) corrupt) (\<lambda>_.
      bindE (foldE (check_observation j acquire_commands revoked_ids) observations ([], [])) (\<lambda>st.
      bindE (latest_quarantine_command (last observations)) (\<lambda>quarantine.
      let latest = \<lparr>evidence_observed = fst st, evidence_revoked = revoked_ids,
                    evidence_decisions = snd st, quarantineCommand = quarantine, recoveryCommand = None\<rparr> in
      case snd cycle of
        None \<Rightarrow> bindE (check_pending_cycle j is_latest revoked_ids) (\<lambda>_. Inr latest)
      | Some r \<Rightarrow>
          bindE (check_closed_cycle sha host j acquire_commands is_latest revoked_ids (fst st) (snd st) r) (\<lambda>c.
            Inr (latest\<lparr>recoveryCommand := Some c\<rparr>)))))))"

fun check_cycles ::
    "(string \<Rightarrow> string) \<Rightarrow> ssh_host \<Rightarrow> journal \<Rightarrow> (string, acquire_command) dict \<Rightarrow> recovery_cycle list
      \<Rightarrow> recovery_evidence option \<Rightarrow> recovery_evidence option result" where
  "check_cycles sha host j acquire_commands [] latest = Inr latest"
| "check_cycles sha host j acquire_commands (cycle # rest) latest =
     bindE (check_cycle sha host j acquire_commands (rest = []) cycle) (\<lambda>evidence.
       check_cycles sha host j acquire_commands rest (Some evidence))"

definition validate_recovery_integrity ::
    "(string \<Rightarrow> string) \<Rightarrow> ssh_host \<Rightarrow> journal \<Rightarrow> (string, acquire_command) dict
      \<Rightarrow> receipt list \<Rightarrow> receipt list \<Rightarrow> unit result" where
  "validate_recovery_integrity sha host j acquire_commands observation_receipts recovery_receipts =
     (let mutation_receipts = filter is_mutation (receipts j) in
      bindE (raise_if (length mutation_receipts \<noteq> length observation_receipts + length recovery_receipts)
               corrupt) (\<lambda>_.
      bindE (replay_receipts j) (\<lambda>_.
      bindE (split_cycles [] mutation_receipts) (\<lambda>cycles.
      if cycles = [] then raise_if (recoveryEvidence j \<noteq> None \<or> recoveryState j \<noteq> CLEAR) corrupt
      else
        bindE (raise_if (recoveryEvidence j = None) corrupt) (\<lambda>_.
        bindE (check_cycles sha host j acquire_commands cycles None) (\<lambda>latest.
          raise_if (recoveryEvidence j \<noteq> latest) corrupt))))))"

section \<open>The journal\<close>

text \<open>A lease that still occupies its lane.\<close>

definition is_nonterminal :: "lease \<Rightarrow> bool" where
  "is_nonterminal l = (\<not> (lease_state l \<in> {CLOSED, CANCELLED} \<and> released l))"

text \<open>The digests and tokens of the command inside a receipt.\<close>

fun evidence_command_digest :: "receipt_evidence \<Rightarrow> string" where
  "evidence_command_digest (Acquire_Evidence c) = acquire_digest c"
| "evidence_command_digest (Transition_Evidence c) = transition_digest c"
| "evidence_command_digest (Quarantine_Evidence c _ _ _) = observation_digest c"
| "evidence_command_digest (Recovery_Evidence c _ _ _) = recovery_digest c"

fun evidence_command_payload :: "receipt_evidence \<Rightarrow> (string \<times> json) list" where
  "evidence_command_payload (Acquire_Evidence c) = acquire_payload c"
| "evidence_command_payload (Transition_Evidence c) = transition_payload c"
| "evidence_command_payload (Quarantine_Evidence c _ _ _) = observation_payload c"
| "evidence_command_payload (Recovery_Evidence c _ _ _) = recovery_payload c"

record receipt_index =
  acquire_counts :: "(string, nat) dict"
  acquire_commands :: "(string, acquire_command) dict"
  observation_receipts :: "receipt list"
  recovery_receipts :: "receipt list"

definition footprint_eq :: "conflict_footprint \<Rightarrow> conflict_footprint \<Rightarrow> bool" where
  "footprint_eq f g =
     (canonical_json_bytes (conflict_footprint_json f) = canonical_json_bytes (conflict_footprint_json g))"

text \<open>The lease an acquire command gives, as the integrity check expects to find it.\<close>

definition preserves_command :: "(string \<Rightarrow> string) \<Rightarrow> lease \<Rightarrow> acquire_command \<Rightarrow> bool" where
  "preserves_command sha l c =
     (lease_key l = acquisition_key c
      \<and> lease_snapshotFingerprint l = acquire_snapshotFingerprint c
      \<and> lease_envelopeDigest l = acquire_envelopeDigest c
      \<and> lease_policyVersion l = acquire_policyVersion c
      \<and> lease_descriptorDigest l = descriptorDigest (acquire_descriptor c)
      \<and> footprint_eq (lease_footprint l) (acquire_footprint c)
      \<and> lease_sourceRoot l = acquire_sourceRoot c
      \<and> lease_laneRoot l = acquire_laneRoot c
      \<and> lease_laneBase l = acquire_laneBase c
      \<and> planningFootprints l = acquire_planning_footprints sha c)"

definition sole_lease :: "receipt \<Rightarrow> lease list \<Rightarrow> lease result" where
  "sole_lease r ls =
     (case ls of
        [l] \<Rightarrow> if lease_fencingToken l \<noteq> receipt_fencingToken r then Inl corrupt else Inr l
      | _ \<Rightarrow> Inl corrupt)"

definition index_receipt ::
    "(string \<Rightarrow> string) \<Rightarrow> lease list \<Rightarrow> receipt \<Rightarrow> receipt_index \<Rightarrow> receipt_index result" where
  "index_receipt sha ls r st =
     (case receipt_evidence_of r of
        Acquire_Evidence c \<Rightarrow>
          bindE (sole_lease r (filter (\<lambda>l. lease_key l = acquisition_key c) ls)) (\<lambda>l.
          bindE (raise_if (\<not> preserves_command sha l c) corrupt) (\<lambda>_.
            Inr (st\<lparr>acquire_counts := AList.update (leaseId l)
                      (Suc (the (map_of (acquire_counts st) (leaseId l)))) (acquire_counts st),
                    acquire_commands := AList.update (leaseId l) c (acquire_commands st)\<rparr>)))
      | Transition_Evidence c \<Rightarrow>
          bindE (sole_lease r (filter (\<lambda>l. leaseId l = transition_leaseId c
                                          \<and> lease_attemptId l = transition_attemptId c) ls)) (\<lambda>_.
          bindE (raise_if (transition_fencingToken c \<noteq> receipt_fencingToken r) corrupt) (\<lambda>_.
          bindE (raise_if (receipt_previousState r \<noteq> Some (expectedState c)
                           \<or> receipt_nextState r \<noteq> Some (transition_nextState c)
                           \<or> receipt_snapshotFingerprint r \<noteq> transition_snapshotFingerprint c) corrupt) (\<lambda>_.
            Inr st)))
      | Quarantine_Evidence _ _ _ _ \<Rightarrow> Inr (st\<lparr>observation_receipts := observation_receipts st @ [r]\<rparr>)
      | Recovery_Evidence _ _ _ _ \<Rightarrow> Inr (st\<lparr>recovery_receipts := recovery_receipts st @ [r]\<rparr>))"

text \<open>One turn of the loop over the receipts, numbered from 1.\<close>

definition check_receipt ::
    "(string \<Rightarrow> string) \<Rightarrow> journal \<Rightarrow> int \<times> receipt \<Rightarrow> receipt_index \<Rightarrow> receipt_index result" where
  "check_receipt sha j ir st =
     (let index = fst ir; r = snd ir; evidence = receipt_evidence_of r in
      bindE (raise_if (receipt_executionKey r \<noteq> journal_executionKey j
                       \<or> previousJournalVersion r \<noteq> index - 1
                       \<or> nextJournalVersion r \<noteq> index) corrupt) (\<lambda>_.
      bindE (raise_if (receipt_type_of evidence = RECOVERY \<and> receiptId r \<noteq> expected_receipt_id sha r) corrupt) (\<lambda>_.
      bindE (raise_if (receipt_commandDigest r \<noteq> evidence_command_digest evidence) corrupt) (\<lambda>_.
      bindE (raise_if (evidence_command_digest evidence
                         \<noteq> sha256_json sha (JObj (evidence_command_payload evidence))) corrupt) (\<lambda>_.
        index_receipt sha (leases j) r st)))))"

definition numbered :: "'a list \<Rightarrow> (int \<times> 'a) list" where
  "numbered xs = zip (map (\<lambda>n. int n + 1) [0..<length xs]) xs"

definition empty_index :: "lease list \<Rightarrow> receipt_index" where
  "empty_index ls =
     \<lparr>acquire_counts = dict_of (map (\<lambda>l. (leaseId l, 0)) ls), acquire_commands = [],
      observation_receipts = [], recovery_receipts = []\<rparr>"

definition zero_digest :: string where
  "zero_digest = ''sha256:'' @ replicate 64 (CHR ''0'')"

text \<open>\<open>_journal_digest\<close> of the last receipt: over the journal with that digest zeroed.\<close>

definition zero_last :: "journal \<Rightarrow> journal" where
  "zero_last j =
     j\<lparr>receipts := butlast (receipts j) @ [(last (receipts j))\<lparr>receipt_journalDigest := zero_digest\<rparr>]\<rparr>"

definition journal_digest :: "(string \<Rightarrow> string) \<Rightarrow> journal \<Rightarrow> string" where
  "journal_digest sha j = sha256_json sha (journal_json (zero_last j))"

text \<open>\<open>_validate_journal_integrity\<close>, up to the loop over the receipts.\<close>

definition validate_leases :: "journal \<Rightarrow> bool \<Rightarrow> unit result" where
  "validate_leases j persisted =
     (let ls = leases j; active = filter is_nonterminal ls in
      bindE (raise_if (persisted \<and> journalVersion j = 0) corrupt) (\<lambda>_.
      bindE (raise_if (list_ex (\<lambda>l. lease_executionKey l \<noteq> journal_executionKey j) ls) corrupt) (\<lambda>_.
      bindE (raise_if (\<not> distinct (map leaseId ls) \<or> \<not> distinct (map lease_key ls)) corrupt) (\<lambda>_.
      bindE (raise_if (\<not> distinct (map lease_laneRoot active)
                       \<or> \<not> distinct (map lanePhysicalIdentity active)) corrupt) (\<lambda>_.
      raise_if (journalVersion j \<noteq> int (length (receipts j))) corrupt)))))"

text \<open>And after it: tokens and the digest of the whole journal.\<close>

definition validate_tokens :: "(string \<Rightarrow> string) \<Rightarrow> journal \<Rightarrow> unit result" where
  "validate_tokens sha j =
     (let tokens = map lease_fencingToken (leases j);
          durable_tokens = tokens @ map receipt_fencingToken (receipts j) in
      bindE (raise_if (\<not> distinct tokens) corrupt) (\<lambda>_.
      bindE (raise_if (durable_tokens \<noteq> [] \<and> nextFencingToken j \<le> Max (set durable_tokens)) corrupt) (\<lambda>_.
      raise_if (receipts j \<noteq> [] \<and> receipt_journalDigest (last (receipts j)) \<noteq> journal_digest sha j)
        corrupt)))"

definition validate_journal_integrity ::
    "(string \<Rightarrow> string) \<Rightarrow> ssh_host \<Rightarrow> journal \<Rightarrow> bool \<Rightarrow> unit result" where
  "validate_journal_integrity sha host j persisted =
     bindE (validate_leases j persisted) (\<lambda>_.
     bindE (foldE (check_receipt sha j) (numbered (receipts j)) (empty_index (leases j))) (\<lambda>index.
     bindE (raise_if (list_ex (\<lambda>kv. snd kv \<noteq> 1) (acquire_counts index)) corrupt) (\<lambda>_.
     bindE (validate_recovery_integrity sha host j (acquire_commands index)
              (observation_receipts index) (recovery_receipts index)) (\<lambda>_.
       validate_tokens sha j))))"

end
