(* ===== verification/Coordinator_Store.thy ===== *)
theory Coordinator_Store
  imports Coordinator_Journal
begin

text \<open>
  \<open>CoordinatorStateStore\<close> of \<open>coordinator_state.py\<close>: the directory that holds a project's
  durable state, how its files are read, the project lock and the compare-and-swap replacement
  of the journal. The directory is a record of file statuses and documents; what other
  processes do to it between two system calls, and which system calls fail, are parameters.
\<close>

section \<open>The state directory\<close>

datatype file_kind = Regular | Directory_Kind | Symlink | Other_Kind

record file_stat =
  st_dev :: int
  st_ino :: int
  st_kind :: file_kind
  st_uid :: int
  st_perms :: int
  st_nlink :: int

text \<open>The documents the store writes, any other JSON object, and bytes that are not one.\<close>

datatype state_doc =
    Root_Identity_Doc string int int int
  | Marker_Doc string
  | Lock_Identity_Doc string int int
  | Journal_Doc journal
  | Empty_Doc
  | Other_Object
  | Not_An_Object
  | Oversized

datatype state_name = Root_Identity | Lock_File | Lock_Identity | Journal_Name | Initialized_Marker

type_synonym state_file = "file_stat \<times> state_doc"

record directory =
  dir_stat :: file_stat
  dir_files :: "state_name \<Rightarrow> state_file option"
  next_inode :: int

text \<open>An opened store: its root path, the owner's uid, its project, the lock descriptor.\<close>

record state_store =
  store_root :: string
  store_owner :: int
  store_key :: string
  store_locked :: bool

text \<open>The process's uid and what the outside does during a locked operation.\<close>

record store_world =
  world_uid :: int
  lock_free :: bool
  writes_ok :: bool
  marker_fault :: "(directory \<Rightarrow> directory) option"
  rename_ok :: bool
  dir_sync_ok :: bool
  before_cas :: "directory \<Rightarrow> directory"
  before_reread :: "directory \<Rightarrow> directory"

definition same_inode :: "file_stat \<Rightarrow> file_stat \<Rightarrow> bool" where
  "same_inode a b = ((st_dev a, st_ino a, st_kind a) = (st_dev b, st_ino b, st_kind b))"

definition validate_directory :: "file_stat \<Rightarrow> int \<Rightarrow> unit result" where
  "validate_directory st uid =
     raise_if (st_kind st \<noteq> Directory_Kind \<or> st_uid st \<noteq> uid \<or> st_perms st \<noteq> 448)
       (Coordination_Error ''UNSAFE_COORDINATOR_ROOT'')"

definition validate_regular :: "file_stat \<Rightarrow> int \<Rightarrow> string \<Rightarrow> unit result" where
  "validate_regular st uid code =
     raise_if (st_kind st \<noteq> Regular \<or> st_uid st \<noteq> uid \<or> st_perms st \<noteq> 384 \<or> st_nlink st \<noteq> 1)
       (Coordination_Error code)"

abbreviation inode_changed :: harness_error where
  "inode_changed \<equiv> Coordination_Error ''COORDINATOR_STATE_INODE_CHANGED''"

abbreviation unsafe_file :: string where
  "unsafe_file \<equiv> ''UNSAFE_COORDINATOR_STATE_FILE''"

text \<open>
  \<open>_read_state_bytes_with_inode\<close>: \<open>d1\<close>, \<open>d2\<close>, \<open>d3\<close> are the directory at the first \<open>stat\<close>, at
  \<open>open\<close> and at the second \<open>stat\<close>. \<open>O_NOFOLLOW\<close> refuses a symbolic link.
\<close>

definition read_state_file ::
    "directory \<Rightarrow> directory \<Rightarrow> directory \<Rightarrow> state_name \<Rightarrow> string \<Rightarrow> string \<Rightarrow> int \<Rightarrow> (state_doc \<times> file_stat) result" where
  "read_state_file d1 d2 d3 name missing_code unsafe_code uid =
     (case dir_files d1 name of
        None \<Rightarrow> Inl (Coordination_Error missing_code)
      | Some (before, _) \<Rightarrow>
          bindE (validate_regular before uid unsafe_code) (\<lambda>_.
          case dir_files d2 name of
            None \<Rightarrow> Inl (Coordination_Error unsafe_code)
          | Some (opened, doc) \<Rightarrow>
              bindE (raise_if (st_kind opened = Symlink) (Coordination_Error unsafe_code)) (\<lambda>_.
              bindE (validate_regular opened uid unsafe_code) (\<lambda>_.
              bindE (raise_if (\<not> same_inode before opened) inode_changed) (\<lambda>_.
              bindE (raise_if (doc = Oversized) (Coordination_Error ''COORDINATOR_JOURNAL_INVALID'')) (\<lambda>_.
              case dir_files d3 name of
                None \<Rightarrow> Inl inode_changed
              | Some (after, _) \<Rightarrow>
                  bindE (raise_if (\<not> same_inode opened after) inode_changed) (\<lambda>_. Inr (doc, opened))))))))"

abbreviation read_state ::
    "directory \<Rightarrow> state_name \<Rightarrow> string \<Rightarrow> string \<Rightarrow> int \<Rightarrow> (state_doc \<times> file_stat) result" where
  "read_state d \<equiv> read_state_file d d d"

definition read_state_json ::
    "directory \<Rightarrow> state_name \<Rightarrow> string \<Rightarrow> string \<Rightarrow> int \<Rightarrow> state_doc result" where
  "read_state_json d name missing_code unsafe_code uid =
     bindE (read_state d name missing_code unsafe_code uid) (\<lambda>(doc, _).
       if doc \<in> {Not_An_Object, Empty_Doc}
       then Inl (Coordination_Error (if name = Root_Identity then ''COORDINATOR_ROOT_IDENTITY_MISMATCH''
                                     else ''COORDINATOR_JOURNAL_INVALID''))
       else Inr doc)"

section \<open>Identities and the initialisation marker\<close>

definition root_identity :: "state_store \<Rightarrow> directory \<Rightarrow> state_doc" where
  "root_identity s d =
     Root_Identity_Doc (store_root s) (st_dev (dir_stat d)) (st_ino (dir_stat d)) (store_owner s)"

definition verify_root_identity :: "state_store \<Rightarrow> directory \<Rightarrow> unit result" where
  "verify_root_identity s d =
     bindE (validate_directory (dir_stat d) (store_owner s)) (\<lambda>_.
     bindE (read_state_json d Root_Identity ''COORDINATOR_ROOT_IDENTITY_MISSING''
              ''UNSAFE_COORDINATOR_ROOT'' (store_owner s)) (\<lambda>observed.
     raise_if (observed \<noteq> root_identity s d)
       (Coordination_Error ''COORDINATOR_ROOT_IDENTITY_MISMATCH'')))"

text \<open>\<open>os.open(name, O_CREAT | O_EXCL, 0o600)\<close> and a complete write.\<close>

definition create_file :: "store_world \<Rightarrow> state_name \<Rightarrow> state_doc \<Rightarrow> directory \<Rightarrow> directory" where
  "create_file w name doc d =
     d\<lparr>dir_files := (dir_files d)(name \<mapsto>
          (\<lparr>st_dev = st_dev (dir_stat d), st_ino = next_inode d, st_kind = Regular,
            st_uid = world_uid w, st_perms = 384, st_nlink = 1\<rparr>, doc)),
       next_inode := next_inode d + 1\<rparr>"

text \<open>\<open>_open_or_validate_root_identity\<close>: written on the first opening, compared on the later ones.\<close>

definition open_or_validate_root_identity ::
    "state_store \<Rightarrow> store_world \<Rightarrow> directory \<Rightarrow> directory result" where
  "open_or_validate_root_identity s w d =
     (case read_state_json d Root_Identity ''COORDINATOR_ROOT_IDENTITY_MISSING''
             ''UNSAFE_COORDINATOR_ROOT'' (store_owner s) of
        Inr observed \<Rightarrow>
          bindE (raise_if (observed \<noteq> root_identity s d)
                   (Coordination_Error ''COORDINATOR_ROOT_IDENTITY_MISMATCH'')) (\<lambda>_. Inr d)
      | Inl e \<Rightarrow>
          if e \<noteq> Coordination_Error ''COORDINATOR_ROOT_IDENTITY_MISSING'' then Inl e
          else if \<not> writes_ok w then Inl (Coordination_Error ''UNSAFE_COORDINATOR_ROOT'')
          else Inr (create_file w Root_Identity (root_identity s d) d))"

text \<open>\<open>CoordinatorStateStore.open\<close> in an opened root directory: \<open>_PROJECT_KEY.fullmatch\<close> first.\<close>

definition open_store :: "store_world \<Rightarrow> string \<Rightarrow> string \<Rightarrow> directory \<Rightarrow> (state_store \<times> directory) result" where
  "open_store w root key d =
     bindE (raise_if (\<not> is_execution_key key \<or> chomp key \<noteq> key)
              (Coordination_Error ''PROJECT_EXECUTION_IDENTITY_INVALID'')) (\<lambda>_.
     let s = \<lparr>store_root = root, store_owner = world_uid w, store_key = key, store_locked = False\<rparr> in
     bindE (open_or_validate_root_identity s w d) (\<lambda>d'. Inr (s, d')))"

text \<open>\<open>_read_marker\<close>: whether the project was ever initialised.\<close>

definition read_marker :: "state_store \<Rightarrow> store_world \<Rightarrow> directory \<Rightarrow> bool result" where
  "read_marker s w d =
     (case read_state_json d Initialized_Marker ''COORDINATOR_MARKER_MISSING'' unsafe_file (world_uid w) of
        Inl e \<Rightarrow> if e = Coordination_Error ''COORDINATOR_MARKER_MISSING'' then Inr False else Inl e
      | Inr marker \<Rightarrow>
          bindE (raise_if (marker \<noteq> Marker_Doc (store_key s))
                   (Coordination_Error ''COORDINATOR_JOURNAL_INVALID'')) (\<lambda>_. Inr True))"

abbreviation lock_mismatch :: harness_error where
  "lock_mismatch \<equiv> Coordination_Error ''COORDINATOR_LOCK_IDENTITY_MISMATCH''"

definition lock_identity :: "state_store \<Rightarrow> file_stat \<Rightarrow> state_doc" where
  "lock_identity s st = Lock_Identity_Doc (store_key s) (st_dev st) (st_ino st)"

definition read_lock_identity :: "store_world \<Rightarrow> directory \<Rightarrow> state_doc option result" where
  "read_lock_identity w d =
     (case read_state_json d Lock_Identity ''COORDINATOR_LOCK_IDENTITY_MISSING''
             ''COORDINATOR_LOCK_IDENTITY_MISMATCH'' (world_uid w) of
        Inl e \<Rightarrow> if e = Coordination_Error ''COORDINATOR_LOCK_IDENTITY_MISSING'' then Inr None
                 else Inl lock_mismatch
      | Inr doc \<Rightarrow> Inr (Some doc))"

section \<open>The project lock\<close>

text \<open>The lock file under its name is still the inode that was opened.\<close>

definition lock_still_named :: "directory \<Rightarrow> file_stat \<Rightarrow> bool" where
  "lock_still_named d opened =
     (case dir_files d Lock_File of None \<Rightarrow> False | Some (named, _) \<Rightarrow> same_inode opened named)"

definition bind_or_validate_lock_identity ::
    "state_store \<Rightarrow> store_world \<Rightarrow> file_stat \<Rightarrow> state_doc option \<Rightarrow> directory \<Rightarrow> directory result" where
  "bind_or_validate_lock_identity s w opened observed d =
     bindE (raise_if (\<not> lock_still_named d opened) lock_mismatch) (\<lambda>_.
     bindE (case observed of
              Some doc \<Rightarrow> Inr (doc, d)
            | None \<Rightarrow>
                if dir_files d Lock_Identity \<noteq> None
                then bindE (read_lock_identity w d) (\<lambda>reread.
                       case reread of None \<Rightarrow> Inl lock_mismatch | Some doc \<Rightarrow> Inr (doc, d))
                else if \<not> writes_ok w then Inl lock_mismatch
                else Inr (lock_identity s opened, create_file w Lock_Identity (lock_identity s opened) d))
       (\<lambda>(doc, d').
     bindE (raise_if (doc \<noteq> lock_identity s opened) lock_mismatch) (\<lambda>_.
     bindE (raise_if (\<not> lock_still_named d' opened) lock_mismatch) (\<lambda>_.
       Inr d'))))"

text \<open>\<open>os.open(lock_name, O_RDWR | O_NOFOLLOW [| O_CREAT])\<close>, then \<open>fstat\<close>.\<close>

definition open_lock :: "store_world \<Rightarrow> bool \<Rightarrow> directory \<Rightarrow> (file_stat \<times> directory) result" where
  "open_lock w create d =
     (case dir_files d Lock_File of
        Some (st, _) \<Rightarrow> if st_kind st = Symlink then Inl (Coordination_Error unsafe_file) else Inr (st, d)
      | None \<Rightarrow>
          if \<not> create then Inl lock_mismatch
          else if \<not> writes_ok w then Inl (Coordination_Error unsafe_file)
          else (let d' = create_file w Lock_File Empty_Doc d
                in Inr (fst (the (dir_files d' Lock_File)), d')))"

text \<open>Entering \<open>exclusive_project_lock\<close>: the locked store, the lock's status and the directory.\<close>

definition enter_project_lock ::
    "state_store \<Rightarrow> store_world \<Rightarrow> directory \<Rightarrow> (state_store \<times> file_stat \<times> directory) result" where
  "enter_project_lock s w d =
     bindE (verify_root_identity s d) (\<lambda>_.
     bindE (raise_if (store_locked s) (Coordination_Error ''COORDINATOR_LOCK_BUSY'')) (\<lambda>_.
     bindE (read_marker s w d) (\<lambda>initialized.
     bindE (if initialized then read_lock_identity w d else Inr None) (\<lambda>identity.
     bindE (raise_if (initialized \<and> identity = None) lock_mismatch) (\<lambda>_.
     bindE (open_lock w (\<not> initialized) d) (\<lambda>(opened, d1).
     bindE (validate_regular opened (world_uid w) unsafe_file) (\<lambda>_.
     bindE (raise_if (\<not> lock_still_named d1 opened) lock_mismatch) (\<lambda>_.
     bindE (raise_if (\<not> lock_free w) (Coordination_Error ''COORDINATOR_LOCK_BUSY'')) (\<lambda>_.
     bindE (if initialized then Inr identity else read_lock_identity w d1) (\<lambda>identity'.
     bindE (bind_or_validate_lock_identity s w opened identity' d1) (\<lambda>d2.
     bindE (verify_root_identity s d2) (\<lambda>_.
     bindE (read_lock_identity w d2) (\<lambda>identity''.
     bindE (bind_or_validate_lock_identity s w opened identity'' d2) (\<lambda>d3.
       Inr (s\<lparr>store_locked := True\<rparr>, opened, d3)))))))))))))))"

text \<open>Leaving it without an exception: the lock's name must still be the locked inode.\<close>

definition leave_project_lock :: "file_stat \<Rightarrow> directory \<Rightarrow> unit result" where
  "leave_project_lock opened d = raise_if (\<not> lock_still_named d opened) inode_changed"

section \<open>Reading the journal\<close>

record journal_snapshot =
  snapshot_journal :: journal
  snapshot_bytes :: string
  snapshot_inode :: file_stat

definition journal_bytes :: "journal \<Rightarrow> string" where
  "journal_bytes j = canonical_json_bytes (journal_json j) @ [newline]"

abbreviation journal_invalid :: harness_error where
  "journal_invalid \<equiv> Coordination_Error ''COORDINATOR_JOURNAL_INVALID''"

definition check_snapshot ::
    "(string \<Rightarrow> string) \<Rightarrow> ssh_host \<Rightarrow> state_store \<Rightarrow> bool \<Rightarrow> state_doc \<Rightarrow> file_stat \<Rightarrow> journal_snapshot result" where
  "check_snapshot sha host s initialized doc inode =
     (case doc of
        Journal_Doc j \<Rightarrow>
          bindE (raise_if (\<not> journal_schema j) journal_invalid) (\<lambda>_.
          bindE (raise_if (journal_executionKey j \<noteq> store_key s)
                   (Coordination_Error ''COORDINATOR_JOURNAL_IDENTITY_MISMATCH'')) (\<lambda>_.
          bindE (validate_journal_integrity sha host j True) (\<lambda>_.
          bindE (raise_if (\<not> initialized) (Coordination_Error ''COORDINATOR_STATE_INCONSISTENT'')) (\<lambda>_.
            Inr \<lparr>snapshot_journal = j, snapshot_bytes = journal_bytes j, snapshot_inode = inode\<rparr>))))
      | _ \<Rightarrow> Inl journal_invalid)"

definition read_journal_snapshot ::
    "(string \<Rightarrow> string) \<Rightarrow> ssh_host \<Rightarrow> state_store \<Rightarrow> store_world \<Rightarrow> directory
      \<Rightarrow> journal_snapshot option result" where
  "read_journal_snapshot sha host s w d =
     bindE (verify_root_identity s d) (\<lambda>_.
     bindE (read_marker s w d) (\<lambda>initialized.
     case read_state d Journal_Name ''COORDINATOR_JOURNAL_ABSENT'' unsafe_file (world_uid w) of
       Inl e \<Rightarrow>
         if e = Coordination_Error ''COORDINATOR_JOURNAL_ABSENT''
         then if initialized then Inl (Coordination_Error ''COORDINATOR_JOURNAL_MISSING'') else Inr None
         else Inl e
     | Inr (doc, inode) \<Rightarrow>
         bindE (check_snapshot sha host s initialized doc inode) (\<lambda>snapshot. Inr (Some snapshot))))"

definition read_journal ::
    "(string \<Rightarrow> string) \<Rightarrow> ssh_host \<Rightarrow> state_store \<Rightarrow> store_world \<Rightarrow> directory \<Rightarrow> journal option result" where
  "read_journal sha host s w d =
     bindE (read_journal_snapshot sha host s w d) (\<lambda>snapshot. Inr (map_option snapshot_journal snapshot))"

section \<open>Replacing the journal\<close>

definition validate_replacement ::
    "(string \<Rightarrow> string) \<Rightarrow> ssh_host \<Rightarrow> state_store \<Rightarrow> int \<Rightarrow> journal \<Rightarrow> receipt \<Rightarrow> unit result" where
  "validate_replacement sha host s expected_version j r =
     bindE (raise_if (\<not> receipt_schema r \<or> \<not> journal_schema j) journal_invalid) (\<lambda>_.
     bindE (raise_if (journal_executionKey j \<noteq> store_key s \<or> receipt_executionKey r \<noteq> store_key s)
              (Coordination_Error ''COORDINATOR_JOURNAL_IDENTITY_MISMATCH'')) (\<lambda>_.
     bindE (validate_journal_integrity sha host j True) (\<lambda>_.
     bindE (raise_if (journalVersion j \<noteq> expected_version + 1
                       \<or> previousJournalVersion r \<noteq> expected_version
                       \<or> nextJournalVersion r \<noteq> journalVersion j)
              (Coordination_Error ''STALE_JOURNAL_VERSION'')) (\<lambda>_.
     raise_if (receipts j = [] \<or> last (receipts j) \<noteq> r)
       (Coordination_Error ''COORDINATOR_RECEIPT_MISMATCH'')))))"

definition write_initialized_marker ::
    "state_store \<Rightarrow> store_world \<Rightarrow> directory \<Rightarrow> unit result \<times> directory" where
  "write_initialized_marker s w d =
     (case read_marker s w d of
        Inl e \<Rightarrow> (Inl e, d)
      | Inr True \<Rightarrow> (Inr (), d)
      | Inr False \<Rightarrow>
          (case marker_fault w of
             Some leaves \<Rightarrow> (Inl (Coordination_Error ''COORDINATOR_DURABILITY_UNCERTAIN''), leaves d)
           | None \<Rightarrow> (Inr (), create_file w Initialized_Marker (Marker_Doc (store_key s)) d)))"

text \<open>\<open>_assert_journal_inode(None)\<close>: no journal has appeared.\<close>

definition assert_no_journal :: "store_world \<Rightarrow> directory \<Rightarrow> unit result" where
  "assert_no_journal w d =
     (case dir_files d Journal_Name of
        None \<Rightarrow> Inr ()
      | Some (st, _) \<Rightarrow> bindE (validate_regular st (world_uid w) unsafe_file) (\<lambda>_. Inl inode_changed))"

definition verify_cas_snapshot ::
    "(string \<Rightarrow> string) \<Rightarrow> ssh_host \<Rightarrow> state_store \<Rightarrow> store_world \<Rightarrow> journal_snapshot option \<Rightarrow> directory \<Rightarrow> unit result" where
  "verify_cas_snapshot sha host s w expected d =
     bindE (read_journal_snapshot sha host s w d) (\<lambda>observed.
       case expected of
         None \<Rightarrow> raise_if (observed \<noteq> None) inode_changed
       | Some e \<Rightarrow>
           (case observed of
              None \<Rightarrow> Inl inode_changed
            | Some ob \<Rightarrow>
                bindE (raise_if (\<not> same_inode (snapshot_inode e) (snapshot_inode ob)) inode_changed) (\<lambda>_.
                raise_if (snapshot_bytes ob \<noteq> snapshot_bytes e)
                  (Coordination_Error ''COORDINATOR_CAS_SNAPSHOT_CHANGED''))))"

text \<open>From the temporary file to the rename: the directory after the attempt, failed or not.\<close>

definition swap_journal ::
    "(string \<Rightarrow> string) \<Rightarrow> ssh_host \<Rightarrow> state_store \<Rightarrow> store_world \<Rightarrow> journal_snapshot option \<Rightarrow> journal
      \<Rightarrow> directory \<Rightarrow> unit result \<times> directory" where
  "swap_journal sha host s w expected candidate d =
     (if \<not> writes_ok w then (Inl (Coordination_Error ''COORDINATOR_STATE_WRITE_FAILED''), d)
      else
        let d1 = before_cas w d in
        case bindE (verify_root_identity s d1) (\<lambda>_. verify_cas_snapshot sha host s w expected d1) of
          Inl e \<Rightarrow> (Inl e, d1)
        | Inr _ \<Rightarrow>
            (case (if expected = None then write_initialized_marker s w d1 else (Inr (), d1)) of
               (Inl e, d2) \<Rightarrow> (Inl e, d2)
             | (Inr _, d2) \<Rightarrow>
                 (case (if expected = None then assert_no_journal w d2 else Inr ()) of
                    Inl e \<Rightarrow> (Inl e, d2)
                  | Inr _ \<Rightarrow>
                      if \<not> rename_ok w then (Inl (Coordination_Error ''COORDINATOR_STATE_WRITE_FAILED''), d2)
                      else
                        let d3 = create_file w Journal_Name (Journal_Doc candidate) d2 in
                        if \<not> dir_sync_ok w
                        then (Inl (Coordination_Error ''COORDINATOR_DURABILITY_UNCERTAIN''), d3)
                        else (Inr (), d3))))"

text \<open>The checks of \<open>replace_journal\<close> that precede the write.\<close>

definition check_replacement ::
    "(string \<Rightarrow> string) \<Rightarrow> ssh_host \<Rightarrow> state_store \<Rightarrow> store_world \<Rightarrow> int \<Rightarrow> journal \<Rightarrow> receipt \<Rightarrow> directory
      \<Rightarrow> journal_snapshot option result" where
  "check_replacement sha host s w expected_version candidate r d =
     bindE (raise_if (\<not> store_locked s) (Coordination_Error ''COORDINATOR_LOCK_REQUIRED'')) (\<lambda>_.
     bindE (read_journal_snapshot sha host s w d) (\<lambda>current.
     let current_version = (case current of None \<Rightarrow> 0 | Some c \<Rightarrow> journalVersion (snapshot_journal c));
         current_receipts = (case current of None \<Rightarrow> [] | Some c \<Rightarrow> receipts (snapshot_journal c)) in
     bindE (raise_if (current_version \<noteq> expected_version)
              (Coordination_Error ''STALE_JOURNAL_VERSION'')) (\<lambda>_.
     bindE (raise_if (butlast (receipts candidate) \<noteq> current_receipts)
              (Coordination_Error ''COORDINATOR_RECEIPT_HISTORY_REWRITE'')) (\<lambda>_.
     bindE (validate_replacement sha host s expected_version candidate r) (\<lambda>_.
       Inr current)))))"

definition replace_journal ::
    "(string \<Rightarrow> string) \<Rightarrow> ssh_host \<Rightarrow> state_store \<Rightarrow> store_world \<Rightarrow> int \<Rightarrow> journal \<Rightarrow> receipt \<Rightarrow> directory
      \<Rightarrow> journal result \<times> directory" where
  "replace_journal sha host s w expected_version candidate r d =
     (case check_replacement sha host s w expected_version candidate r d of
        Inl e \<Rightarrow> (Inl e, d)
      | Inr current \<Rightarrow>
          (case swap_journal sha host s w current candidate d of
             (Inl e, d') \<Rightarrow> (Inl e, d')
           | (Inr _, d') \<Rightarrow>
               let d'' = before_reread w d' in
               (case read_journal_snapshot sha host s w d'' of
                  Inl e \<Rightarrow> (Inl e, d'')
                | Inr None \<Rightarrow> (Inl (Coordination_Error ''COORDINATOR_POST_WRITE_MISMATCH''), d'')
                | Inr (Some snapshot) \<Rightarrow>
                    if snapshot_bytes snapshot \<noteq> journal_bytes candidate
                    then (Inl (Coordination_Error ''COORDINATOR_POST_WRITE_MISMATCH''), d'')
                    else (Inr (snapshot_journal snapshot), d''))))"

end
