(* ===== verification/Coordinator_Authority.thy ===== *)
theory Coordinator_Authority
  imports Coordinator_Store
begin

text \<open>
  What the coordinator checks against the live project before it changes a journal
  (\<open>controlled_coordinator.py\<close>): the project's identity, the lane directory, the rebuilt
  authority snapshot, authority keys and signatures, the review set and the candidate commit.
  File system, Git and registration enter as the observations of a \<open>live_project\<close>.
\<close>

section \<open>The project's execution identity\<close>

record project_registration =
  registration_json :: json
  harnessId :: string
  registered_integrationId :: string
  integrationPath :: string
  sourceAccess :: string
  registered_runtime :: string
  capabilityLockFingerprint :: string

text \<open>What \<open>load_project_registration\<close> returns: the registration, its source and integration.\<close>

record loaded_registration =
  registration :: project_registration
  loaded_sourceRoot :: string
  loaded_integrationId :: string
  loaded_projectId :: string

record project_identity =
  projectExecutionKey :: string
  identity_registration :: project_registration
  identity_sourceRoot :: string
  identity_physical :: physical_identity

abbreviation identity_invalid :: harness_error where
  "identity_invalid \<equiv> Coordination_Error ''PROJECT_EXECUTION_IDENTITY_INVALID''"

definition source_stat :: "file_stat option \<Rightarrow> file_stat result" where
  "source_stat st =
     (case st of
        None \<Rightarrow> Inl identity_invalid
      | Some st \<Rightarrow> if st_kind st \<noteq> Directory_Kind then Inl identity_invalid else Inr st)"

definition execution_key :: "(string \<Rightarrow> string) \<Rightarrow> project_registration \<Rightarrow> file_stat \<Rightarrow> string" where
  "execution_key sha reg st =
     ''project-execution:'' @ sha (canonical_json_bytes (JObj
       [(''schemaVersion'', JStr ''project-execution-identity-material/v1''),
        (''registration'', registration_json reg),
        (''sourceRootIdentity'',
           JObj [(''device'', JInt (st_dev st)), (''inode'', JInt (st_ino st)), (''type'', JInt 16384)])]))"

text \<open>\<open>stat_of\<close> is \<open>os.stat(path, follow_symlinks=False)\<close> before and after the registration is read.\<close>

definition resolve_project_execution_identity ::
    "(string \<Rightarrow> string) \<Rightarrow> file_stat option \<Rightarrow> loaded_registration option \<Rightarrow> file_stat option
      \<Rightarrow> project_identity result" where
  "resolve_project_execution_identity sha stat_before loaded stat_after =
     bindE (source_stat stat_before) (\<lambda>before.
     bindE (case loaded of None \<Rightarrow> Inl identity_invalid | Some l \<Rightarrow> Inr l) (\<lambda>l.
     bindE (source_stat stat_after) (\<lambda>after.
     bindE (raise_if (\<not> same_inode before after)
              (Coordination_Error ''PROJECT_EXECUTION_IDENTITY_CHANGED'')) (\<lambda>_.
       Inr \<lparr>projectExecutionKey = execution_key sha (registration l) after,
            identity_registration = registration l, identity_sourceRoot = loaded_sourceRoot l,
            identity_physical = \<lparr>identity_device = st_dev after, identity_inode = st_ino after\<rparr>\<rparr>))))"

text \<open>Equality of the identity dictionaries, which name the registration's scalars only.\<close>

definition identity_eq :: "project_identity \<Rightarrow> project_identity \<Rightarrow> bool" where
  "identity_eq a b =
     (projectExecutionKey a = projectExecutionKey b
      \<and> (let p = identity_registration a; q = identity_registration b in
         (harnessId p, registered_integrationId p, integrationPath p, sourceAccess p,
          registered_runtime p, capabilityLockFingerprint p)
         = (harnessId q, registered_integrationId q, integrationPath q, sourceAccess q,
            registered_runtime q, capabilityLockFingerprint q))
      \<and> identity_sourceRoot a = identity_sourceRoot b
      \<and> identity_physical a = identity_physical b)"

section \<open>The live project\<close>

text \<open>
  A lane's repository: \<open>HEAD\<close> and the object store, \<open>git_object name type\<close> being the body of
  the object when it exists, is sound and has that type. \<open>breach_inventory\<close> is
  \<open>_complete_persistent_breach_inventory\<close> of the write guard: the inventory of a lane, the
  undeclared paths found in it and the ephemeral paths still present.
\<close>

record lane_repository =
  repository_head :: string
  git_object :: "string \<Rightarrow> string \<Rightarrow> string option"

record live_project =
  live_source :: string
  live_identity :: "project_identity result"
  live_registration :: "loaded_registration option"
  live_head :: "string result"
  lane_directory :: "string \<Rightarrow> physical_identity option"
  lane_directory_recheck :: "string \<Rightarrow> physical_identity option"
  live_snapshot :: "authority_snapshot option"
  authority_file :: "string \<Rightarrow> string option"
  lane_repository_of :: "string \<Rightarrow> lane_repository option"
  live_ssh :: ssh_host
  breach_inventory :: "lease \<Rightarrow> (json \<times> string list \<times> string list) result"

text \<open>
  \<open>_validate_lane_root\<close>: the lane lies strictly below the directory named after the source with
  \<open>-lanes\<close> appended, and can be opened without following links.
\<close>

definition approved_root :: "string \<Rightarrow> string list" where
  "approved_root source =
     (let names = path_names source
      in butlast names @ [(if names = [] then [] else last names) @ ''-lanes''])"

definition lane_relative :: "string \<Rightarrow> string \<Rightarrow> string list option" where
  "lane_relative source lane =
     (let approved = approved_root source; names = path_names lane in
      if take (length approved) names = approved then Some (drop (length approved) names) else None)"

definition validate_lane_root ::
    "(string \<Rightarrow> physical_identity option) \<Rightarrow> string \<Rightarrow> string \<Rightarrow> physical_identity result" where
  "validate_lane_root open_lane source lane =
     (case lane_relative source lane of
        None \<Rightarrow> Inl (Coordination_Error ''LANE_ROOT_OUTSIDE_ISOLATION'')
      | Some relative \<Rightarrow>
          if relative = [] then Inl (Coordination_Error ''LANE_ROOT_OUTSIDE_ISOLATION'')
          else (case open_lane lane of
                  None \<Rightarrow> Inl (Coordination_Error ''LANE_ROOT_UNSAFE'')
                | Some identity \<Rightarrow> Inr identity))"

definition same_identity :: "live_project \<Rightarrow> project_identity \<Rightarrow> unit result" where
  "same_identity live identity =
     bindE (live_identity live) (\<lambda>current.
       raise_if (\<not> identity_eq current identity) (Coordination_Error ''PROJECT_EXECUTION_IDENTITY_CHANGED''))"

definition load_registration :: "live_project \<Rightarrow> loaded_registration result" where
  "load_registration live =
     (case live_registration live of
        None \<Rightarrow> Inl (Coordination_Error ''PROJECT_REGISTRATION_CHANGED'')
      | Some l \<Rightarrow> Inr l)"

definition build_live_snapshot :: "live_project \<Rightarrow> authority_snapshot result" where
  "build_live_snapshot live =
     (case live_snapshot live of
        None \<Rightarrow> Inl (Coordination_Error ''LIVE_AUTHORITY_SNAPSHOT_INVALID'')
      | Some s \<Rightarrow> Inr s)"

abbreviation binding_mismatch :: harness_error where
  "binding_mismatch \<equiv> Coordination_Error ''LIVE_AUTHORITY_BINDING_MISMATCH''"

text \<open>The permission fact of the live snapshot.\<close>

definition development_allowed :: "authority_snapshot \<Rightarrow> bool" where
  "development_allowed s =
     (case map_of (facts s) ''permission.development'' of
        None \<Rightarrow> False
      | Some f \<Rightarrow> json_str (map_of f ''normalizedValue'') = Some ''ALLOW'')"

definition validate_live_bindings ::
    "live_project \<Rightarrow> project_identity \<Rightarrow> acquire_command \<Rightarrow> physical_identity result" where
  "validate_live_bindings live identity c =
     bindE (same_identity live identity) (\<lambda>_.
     bindE (load_registration live) (\<lambda>loaded.
     let s = acquire_snapshot c in
     bindE (raise_if (acquire_sourceRoot c \<noteq> live_source live
                       \<or> registered_integrationId (registration loaded) \<noteq> integrationId s
                       \<or> loaded_integrationId loaded \<noteq> integrationId s
                       \<or> loaded_projectId loaded \<noteq> acquire_projectId c
                       \<or> snapshot_projectId s \<noteq> acquire_projectId c
                       \<or> sourceAccess (registration loaded) \<noteq> ''READ_ONLY'') binding_mismatch) (\<lambda>_.
     bindE (live_head live) (\<lambda>head.
     bindE (raise_if (head \<noteq> acquire_laneBase c) (Coordination_Error ''SOURCE_HEAD_CHANGED'')) (\<lambda>_.
     bindE (validate_lane_root (lane_directory live) (live_source live) (acquire_laneRoot c)) (\<lambda>lane_identity.
     bindE (build_live_snapshot live) (\<lambda>current.
     bindE (raise_if (canonical_json_bytes (snapshot_json current) \<noteq> canonical_json_bytes (snapshot_json s))
              (Coordination_Error ''LIVE_AUTHORITY_SNAPSHOT_MISMATCH'')) (\<lambda>_.
     bindE (raise_if (\<not> development_allowed current)
              (Coordination_Error ''DEVELOPMENT_AUTHORITY_DENIED'')) (\<lambda>_.
       Inr lane_identity)))))))))"

definition rebuild_transition_snapshot ::
    "live_project \<Rightarrow> project_identity \<Rightarrow> acquire_command \<Rightarrow> authority_snapshot result" where
  "rebuild_transition_snapshot live identity c =
     bindE (same_identity live identity) (\<lambda>_.
     bindE (load_registration live) (\<lambda>loaded.
     bindE (raise_if (loaded_sourceRoot loaded \<noteq> live_source live
                       \<or> sourceAccess (registration loaded) \<noteq> ''READ_ONLY''
                       \<or> registered_integrationId (registration loaded) \<noteq> loaded_integrationId loaded
                       \<or> loaded_projectId loaded \<noteq> acquire_projectId c) binding_mismatch) (\<lambda>_.
     bindE (build_live_snapshot live) (\<lambda>s.
     bindE (raise_if (snapshot_projectId s \<noteq> acquire_projectId c) binding_mismatch) (\<lambda>_.
       Inr s)))))"

section \<open>Authorities and signatures\<close>

definition current_authority_record ::
    "authority_snapshot \<Rightarrow> string \<Rightarrow> string \<Rightarrow> string \<Rightarrow> string \<Rightarrow> authority_record result" where
  "current_authority_record s reference digest authority code =
     (case find (\<lambda>a. authority_path a = reference) (authorities s) of
        None \<Rightarrow> Inl (Coordination_Error code)
      | Some a \<Rightarrow>
          if digest \<noteq> ''sha256:'' @ authority_sha256 a \<or> authority_id a \<noteq> authority
          then Inl (Coordination_Error code)
          else Inr a)"

text \<open>The bytes of an authority's key file, whose digest is the record's.\<close>

definition read_current_authority_bytes ::
    "(string \<Rightarrow> string) \<Rightarrow> live_project \<Rightarrow> authority_record \<Rightarrow> string result" where
  "read_current_authority_bytes sha live a =
     (let unreadable = Coordination_Error ''AUTHORITY_PUBLIC_KEY_UNREADABLE'' in
      if is_absolute (authority_path a) \<or> path_parts (authority_path a) = []
         \<or> list_ex (\<lambda>part. part \<in> {[], ''.'', ''..''}) (path_parts (authority_path a))
      then Inl unreadable
      else (case authority_file live (authority_path a) of
              None \<Rightarrow> Inl unreadable
            | Some bytes \<Rightarrow>
                if 1048576 < length bytes \<or> sha bytes \<noteq> authority_sha256 a then Inl unreadable
                else Inr bytes))"

definition lifecycle_signature_payload :: "transition_command \<Rightarrow> json" where
  "lifecycle_signature_payload c =
     (let p = transition_proof c in
      JObj [(''schemaVersion'', JStr ''controlled-lifecycle-signature-payload/v1''),
            (''authorityId'', JStr (proof_authorityId p)),
            (''projectExecutionKey'', JStr (transition_executionKey c)),
            (''leaseId'', JStr (transition_leaseId c)),
            (''attemptId'', JStr (transition_attemptId c)),
            (''fencingToken'', JInt (transition_fencingToken c)),
            (''authoritySnapshotFingerprint'', JStr (transition_snapshotFingerprint c)),
            (''expectedState'', JStr (slice_state_str (expectedState c))),
            (''nextState'', JStr (slice_state_str (transition_nextState c))),
            (''candidateIdentity'', jopt candidate_json (transition_candidate c)),
            (''reviewBindingDigest'', jopt JStr (proof_reviewBindingDigest p)),
            (''reviewEvidenceDigest'', jopt JStr (proof_reviewEvidenceDigest p)),
            (''assertedAt'', JStr (assertedAt p))])"

definition review_signature_payload ::
    "transition_command \<Rightarrow> review_evidence \<Rightarrow> string list \<Rightarrow> string \<Rightarrow> json" where
  "review_signature_payload c v required_reviewers minimum_review_verdict =
     JObj [(''schemaVersion'', JStr ''controlled-review-signature-payload/v1''),
           (''projectExecutionKey'', JStr (transition_executionKey c)),
           (''leaseId'', JStr (transition_leaseId c)),
           (''attemptId'', JStr (transition_attemptId c)),
           (''fencingToken'', JInt (transition_fencingToken c)),
           (''authoritySnapshotFingerprint'', JStr (transition_snapshotFingerprint c)),
           (''candidateIdentity'', jopt candidate_json (transition_candidate c)),
           (''reviewerId'', JStr (review_reviewerId v)),
           (''reviewerRole'', JStr (review_role v)),
           (''verdict'', JStr ''GO_ZERO_FINDINGS''),
           (''findingCounts'', JObj [(''p0'', JInt 0), (''p1'', JInt 0), (''p2'', JInt 0)]),
           (''reviewedAt'', JStr (reviewedAt v)),
           (''requiredReviewerPolicy'', jstrs required_reviewers),
           (''minimumReviewVerdict'', JStr minimum_review_verdict)]"

section \<open>The review set\<close>

abbreviation policy_mismatch :: harness_error where
  "policy_mismatch \<equiv> Coordination_Error ''REVIEWER_POLICY_MISMATCH''"

definition acquired_review_policy :: "acquire_command \<Rightarrow> lease \<Rightarrow> (string list \<times> string) result" where
  "acquired_review_policy c l =
     (let q = executionRequirements (acquire_plan c);
          required = plan_requiredReviewers q; minimum = plan_minimumReviewVerdict q in
      case filter (\<lambda>x. requirement_sliceId x = lease_sliceId l) (sliceRequirements q) of
        [x] \<Rightarrow>
          if required \<noteq> sorted_union required [] \<or> required = []
             \<or> reviewerRole (requirement_policy x) \<notin> set required
             \<or> minimumVerdict (requirement_policy x) \<noteq> minimum
          then Inl policy_mismatch else Inr (required, minimum)
      | _ \<Rightarrow> Inl policy_mismatch)"

text \<open>One review, against the command, the lease, the live snapshot and the acquired policy.\<close>

definition review_satisfies ::
    "(string \<Rightarrow> string) \<Rightarrow> authority_snapshot \<Rightarrow> lease \<Rightarrow> transition_command \<Rightarrow> string \<Rightarrow> review_evidence \<Rightarrow> bool" where
  "review_satisfies sha s l c minimum v =
     (case (parse_timestamp (reviewedAt v), parse_timestamp (assertedAt (transition_proof c))) of
        (Some reviewed_at, Some asserted_at) \<Rightarrow>
          review_reviewerId v = review_role v
          \<and> Some (review_candidate v) = transition_candidate c
          \<and> Some (review_candidate v) = lease_candidate l
          \<and> review_executionKey v = lease_executionKey l
          \<and> review_leaseId v = leaseId l
          \<and> review_attemptId v = lease_attemptId l
          \<and> review_fencingToken v = lease_fencingToken l
          \<and> review_snapshotFingerprint v = snapshotFingerprint s
          \<and> ''GO_ZERO_FINDINGS'' = minimum
          \<and> reviewed_at \<le> asserted_at
          \<and> reviewBindingDigest v = review_binding_digest sha c v
          \<and> evidenceDigest v = review_evidence_digest sha v
      | _ \<Rightarrow> False)"

definition verify_review ::
    "(string \<Rightarrow> string) \<Rightarrow> live_project \<Rightarrow> authority_snapshot \<Rightarrow> lease \<Rightarrow> transition_command
      \<Rightarrow> string list \<Rightarrow> string \<Rightarrow> review_evidence \<Rightarrow> unit result" where
  "verify_review sha live s l c required minimum v =
     bindE (raise_if (\<not> review_satisfies sha s l c minimum v) policy_mismatch) (\<lambda>_.
     bindE (current_authority_record s (review_reference v) (review_authorityDigest v)
              (review_reviewerId v) ''REVIEWER_AUTHORITY_NOT_CURRENT'') (\<lambda>authority.
     bindE (read_current_authority_bytes sha live authority) (\<lambda>public_key.
       verify_sshsig_signature (live_ssh live) public_key (review_signature v)
         (review_signature_payload c v required minimum) (review_reviewerId v)
         ''agent-evolution-controlled-review-v1'' ''REVIEW_SIGNATURE_INVALID'')))"

definition validate_and_verify_review_set ::
    "(string \<Rightarrow> string) \<Rightarrow> live_project \<Rightarrow> authority_snapshot \<Rightarrow> acquire_command \<Rightarrow> lease
      \<Rightarrow> transition_command \<Rightarrow> unit result" where
  "validate_and_verify_review_set sha live s a l c =
     (let reviews = reviewEvidenceSet c; p = transition_proof c;
          roles = map review_role reviews in
      bindE (acquired_review_policy a l) (\<lambda>(required, minimum).
      bindE (raise_if (roles \<noteq> required \<or> \<not> distinct roles
                       \<or> \<not> distinct (map review_reviewerId reviews)) policy_mismatch) (\<lambda>_.
      bindE (eachE (verify_review sha live s l c required minimum) reviews) (\<lambda>_.
      let expected = map reviewer_binding_of reviews in
      raise_if (proof_reviewers p \<noteq> expected
                \<or> proof_reviewBindingDigest p \<noteq> Some (sha256_json sha (jstrs (map binding_reviewDigest expected)))
                \<or> proof_reviewEvidenceDigest p \<noteq> Some (sha256_json sha (JArr (map review_json reviews))))
        policy_mismatch))))"

section \<open>The candidate in its lane\<close>

abbreviation lane_changed :: harness_error where
  "lane_changed \<equiv> Coordination_Error ''LANE_ROOT_IDENTITY_CHANGED''"

abbreviation candidate_invalid :: harness_error where
  "candidate_invalid \<equiv> Coordination_Error ''LANE_CANDIDATE_INVALID''"

definition validate_lane_physical_identity :: "live_project \<Rightarrow> lease \<Rightarrow> unit result" where
  "validate_lane_physical_identity live l =
     raise_if (lane_directory live (lease_laneRoot l) \<noteq> Some (lanePhysicalIdentity l)) lane_changed"

text \<open>\<open>body.partition(b"\n\n")\<close>: the header, when there is a separator.\<close>

fun commit_header :: "string \<Rightarrow> string option" where
  "commit_header [] = None"
| "commit_header [c] = None"
| "commit_header (c # d # s) =
     (if c = newline \<and> d = newline then Some []
      else map_option ((#) c) (commit_header (d # s)))"

definition header_lines :: "string \<Rightarrow> string list" where
  "header_lines header = concat (map (split_on (CHR 0x0D)) (split_on newline header))"

definition header_values :: "string \<Rightarrow> string \<Rightarrow> string list" where
  "header_values prefix header =
     map (drop (length prefix)) (filter (has_prefix prefix) (header_lines header))"

text \<open>The sole tree and the sole parent a commit names.\<close>

definition commit_links :: "string \<Rightarrow> (string \<times> string) option" where
  "commit_links body =
     (case commit_header body of
        None \<Rightarrow> None
      | Some header \<Rightarrow>
          (case (header_values ''tree '' header, header_values ''parent '' header) of
             ([tree], [parent]) \<Rightarrow> if is_ascii tree \<and> is_ascii parent then Some (tree, parent) else None
           | _ \<Rightarrow> None))"

definition validate_live_lane_candidate :: "live_project \<Rightarrow> lease \<Rightarrow> candidate_identity \<Rightarrow> unit result" where
  "validate_live_lane_candidate live l candidate =
     bindE (validate_lane_physical_identity live l) (\<lambda>_.
     case lane_repository_of live (lease_laneRoot l) of
       None \<Rightarrow> Inl candidate_invalid
     | Some repo \<Rightarrow>
         (case git_object repo (candidate_commit candidate) ''commit'' of
            None \<Rightarrow> Inl candidate_invalid
          | Some body \<Rightarrow>
              (case commit_links body of
                 None \<Rightarrow> Inl candidate_invalid
               | Some (tree, parent) \<Rightarrow>
                   bindE (raise_if (git_object repo parent ''commit'' = None
                                    \<or> git_object repo tree ''tree'' = None) candidate_invalid) (\<lambda>_.
                   raise_if (repository_head repo \<noteq> candidate_commit candidate
                             \<or> parent \<noteq> candidate_parent candidate
                             \<or> tree \<noteq> candidate_tree candidate) candidate_invalid))))"

end
