(* ===== verification/Coordinator.thy ===== *)
theory Coordinator
  imports Coordinator_Authority
begin

text \<open>
  \<open>acquire_lane_lease\<close> and \<open>transition_lane_lease\<close> of \<open>controlled_coordinator.py\<close>. Each is
  a step on the journal, which answers an earlier command again or proposes the next journal
  with its receipt, and the run of that step under the project lock against the store.
\<close>

section \<open>Journals and receipts\<close>

definition empty_journal :: "string \<Rightarrow> journal" where
  "empty_journal key =
     \<lparr>journal_executionKey = key, journalVersion = 0, nextFencingToken = 1, recoveryState = CLEAR,
      recoveryEvidence = None, leases = [], receipts = []\<rparr>"

definition idempotency_tuple :: "string \<Rightarrow> acquire_command \<Rightarrow> string \<times> string \<times> string \<times> string" where
  "idempotency_tuple key c = (key, acquisition_key c)"

definition lease_tuple :: "lease \<Rightarrow> string \<times> string \<times> string \<times> string" where
  "lease_tuple l = (lease_executionKey l, lease_key l)"

fun acquire_command_in :: "receipt_evidence \<Rightarrow> acquire_command option" where
  "acquire_command_in (Acquire_Evidence c) = Some c"
| "acquire_command_in _ = None"

text \<open>The first \<open>ACQUIRE\<close> receipt of a lease, with its command.\<close>

definition acquire_receipt_for :: "journal \<Rightarrow> lease \<Rightarrow> (receipt \<times> acquire_command) option" where
  "acquire_receipt_for j l =
     map_option (\<lambda>r. (r, the (acquire_command_in (receipt_evidence_of r))))
       (find (\<lambda>r. case acquire_command_in (receipt_evidence_of r) of
                     None \<Rightarrow> False | Some c \<Rightarrow> acquisition_key c = lease_key l) (receipts j))"

fun transition_command_in :: "receipt_evidence \<Rightarrow> transition_command option" where
  "transition_command_in (Transition_Evidence c) = Some c"
| "transition_command_in _ = None"

definition transition_receipts_for :: "journal \<Rightarrow> string \<Rightarrow> (receipt \<times> transition_command) list" where
  "transition_receipts_for j lease_id =
     concat (map (\<lambda>r. case transition_command_in (receipt_evidence_of r) of
                         None \<Rightarrow> []
                       | Some c \<Rightarrow> if transition_leaseId c = lease_id then [(r, c)] else []) (receipts j))"

text \<open>The batches and attempts that a recovery retired for good.\<close>

definition retire_receipt :: "lease list \<Rightarrow> receipt \<Rightarrow> lease list \<Rightarrow> lease list result" where
  "retire_receipt ls r retired =
     (case receipt_evidence_of r of
        Recovery_Evidence _ _ revoked _ \<Rightarrow>
          bindE (mapE (\<lambda>i. case map_of (leases_by_id ls) i of
                              None \<Rightarrow> Inl corrupt | Some l \<Rightarrow> Inr l) revoked) (\<lambda>ls'. Inr (retired @ ls'))
      | _ \<Rightarrow> Inr retired)"

definition retired_recovery_identities :: "journal \<Rightarrow> (string list \<times> string list) result" where
  "retired_recovery_identities j =
     bindE (foldE (retire_receipt (leases j)) (receipts j) []) (\<lambda>retired.
       Inr (map lease_batchPlanId retired, map lease_attemptId retired))"

record lease_result =
  result_lease :: lease
  result_receiptId :: string
  result_journalVersion :: int
  leaseRetained :: bool

definition lease_result_of :: "lease \<Rightarrow> receipt \<Rightarrow> lease_result" where
  "lease_result_of l r =
     \<lparr>result_lease = l, result_receiptId = receiptId r, result_journalVersion = nextJournalVersion r,
      leaseRetained = (\<not> released l)\<rparr>"

text \<open>\<open>_lease_result_for_receipt\<close>: the lease as the command of one receipt left it.\<close>

definition acquire_result_for_receipt :: "lease \<Rightarrow> receipt \<Rightarrow> acquire_command \<Rightarrow> lease_result result" where
  "acquire_result_for_receipt l r c =
     bindE (raise_if (receipt_executionKey r \<noteq> lease_executionKey l
                       \<or> receipt_fencingToken r \<noteq> lease_fencingToken l
                       \<or> acquire_snapshotFingerprint c \<noteq> receipt_snapshotFingerprint r
                       \<or> receipt_commandDigest r \<noteq> acquire_digest c) corrupt) (\<lambda>_.
     bindE (raise_if (receipt_previousState r \<noteq> None
                       \<or> receipt_nextState r \<noteq> Some ADMITTED
                       \<or> receipt_snapshotFingerprint r \<noteq> lease_snapshotFingerprint l
                       \<or> acquisition_key c \<noteq> lease_key l
                       \<or> recordedAt r \<noteq> acquire_asOf c) corrupt) (\<lambda>_.
       Inr (lease_result_of
              (l\<lparr>lease_state := ADMITTED, lease_candidate := None, acquiredAt := acquire_asOf c,
                 lastTransitionAt := acquire_asOf c, released := False, recoveryStatus := CLEAR\<rparr>) r)))"

definition transition_result_for_receipt :: "lease \<Rightarrow> receipt \<Rightarrow> transition_command \<Rightarrow> lease_result result" where
  "transition_result_for_receipt l r c =
     bindE (raise_if (receipt_executionKey r \<noteq> lease_executionKey l
                       \<or> receipt_fencingToken r \<noteq> lease_fencingToken l
                       \<or> transition_snapshotFingerprint c \<noteq> receipt_snapshotFingerprint r
                       \<or> receipt_commandDigest r \<noteq> transition_digest c) corrupt) (\<lambda>_.
     bindE (raise_if (transition_leaseId c \<noteq> leaseId l
                       \<or> transition_attemptId c \<noteq> lease_attemptId l
                       \<or> transition_fencingToken c \<noteq> lease_fencingToken l
                       \<or> receipt_previousState r \<noteq> Some (expectedState c)
                       \<or> receipt_nextState r \<noteq> Some (transition_nextState c)
                       \<or> recordedAt r \<noteq> assertedAt (transition_proof c)) corrupt) (\<lambda>_.
       Inr (lease_result_of
              (l\<lparr>lease_state := transition_nextState c, lease_candidate := transition_candidate c,
                 lastTransitionAt := recordedAt r, released := (transition_nextState c = CLOSED),
                 recoveryStatus := CLEAR\<rparr>) r)))"

text \<open>A receipt appended with its digest zeroed, and then with the digest of that journal.\<close>

definition append_receipt :: "(string \<Rightarrow> string) \<Rightarrow> journal \<Rightarrow> receipt \<Rightarrow> journal \<times> receipt" where
  "append_receipt sha j r =
     (let unsealed = j\<lparr>receipts := receipts j @ [r\<lparr>receipt_journalDigest := zero_digest\<rparr>]\<rparr>;
          sealed = r\<lparr>receipt_journalDigest := journal_digest sha unsealed\<rparr>
      in (j\<lparr>receipts := receipts j @ [sealed]\<rparr>, sealed))"

text \<open>What a step does with a command: answer it again, or commit a journal.\<close>

datatype 'r step_outcome =
    Replayed 'r
  | Commit journal receipt

section \<open>Acquisition\<close>

text \<open>
  \<open>_planning_graph\<close>: every planned footprint of the active lanes and of the command, one for
  each slice; \<open>changed\<close> is the error for a slice with two different footprints.
\<close>

definition merge_footprint ::
    "harness_error \<Rightarrow> conflict_footprint \<Rightarrow> (string, conflict_footprint) dict
      \<Rightarrow> (string, conflict_footprint) dict result" where
  "merge_footprint changed f by_slice =
     (case map_of by_slice (sliceId f) of
        None \<Rightarrow> Inr (AList.update (sliceId f) f by_slice)
      | Some prior \<Rightarrow>
          if \<not> footprint_eq prior f then Inl changed
          else Inr (AList.update (sliceId f) f by_slice))"

definition merged_footprints ::
    "harness_error \<Rightarrow> conflict_footprint list \<Rightarrow> conflict_footprint list result" where
  "merged_footprints changed fs =
     bindE (foldE (merge_footprint changed) fs []) (\<lambda>by_slice. Inr (map snd (sort_key fst by_slice)))"

definition planning_graph ::
    "(string \<Rightarrow> string) \<Rightarrow> lease list \<Rightarrow> acquire_command \<Rightarrow> conflict_footprint list result" where
  "planning_graph sha active c =
     bindE (build_conflict_report sha (acquire_projectId c) (acquire_snapshotFingerprint c)
              (acquire_policyVersion c) (slices (acquire_request c))) (\<lambda>report.
     merged_footprints (Coordination_Error ''ACTIVE_PLANNING_GRAPH_CHANGED'')
       (concat (map planningFootprints active) @ footprints report))"

definition footprints_conflict ::
    "conflict_footprint \<Rightarrow> conflict_footprint \<Rightarrow> conflict_footprint list \<Rightarrow> bool" where
  "footprints_conflict left right graph =
     (conflict_reasons left right (dependency_closure graph) (owner_closure graph) \<noteq> [])"

definition lane_cap_of :: "acquire_command \<Rightarrow> int" where
  "lane_cap_of c = min (maxParallelLanes (acquire_envelope c)) 3"

text \<open>Admission: every check between the normalised command and the new lease.\<close>

definition admit ::
    "(string \<Rightarrow> string) \<Rightarrow> journal \<Rightarrow> acquire_command \<Rightarrow> physical_identity \<Rightarrow> conflict_footprint list result" where
  "admit sha j c lane_identity =
     (let active = filter is_nonterminal (leases j) in
      bindE (raise_if (list_ex (\<lambda>l. lease_envelopeDigest l \<noteq> acquire_envelopeDigest c) active)
               (Coordination_Error ''AUTHORIZATION_ENVELOPE_CHANGED'')) (\<lambda>_.
      bindE (raise_if (list_ex (\<lambda>l. lease_policyVersion l \<noteq> acquire_policyVersion c) active)
               (Coordination_Error ''CONFLICT_POLICY_CHANGED'')) (\<lambda>_.
      bindE (raise_if (list_ex (\<lambda>l. lease_laneBase l \<noteq> acquire_laneBase c) active)
               (Coordination_Error ''SOURCE_HEAD_CHANGED'')) (\<lambda>_.
      bindE (raise_if (list_ex (\<lambda>l. lanePhysicalIdentity l = lane_identity
                                     \<or> lease_laneRoot l = acquire_laneRoot c) active)
               (Coordination_Error ''LANE_ROOT_CONFLICT'')) (\<lambda>_.
      bindE (planning_graph sha active c) (\<lambda>graph.
      bindE (raise_if (list_ex (\<lambda>l. footprints_conflict (lease_footprint l) (acquire_footprint c) graph) active)
               (Coordination_Error ''ACTIVE_FOOTPRINT_CONFLICT'')) (\<lambda>_.
      bindE (raise_if (int (length active) \<ge> lane_cap_of c)
               (Coordination_Error ''PROJECT_CAPACITY_LIMIT'')) (\<lambda>_.
        Inr graph))))))))"

definition lease_id_of :: "(string \<Rightarrow> string) \<Rightarrow> string \<Rightarrow> acquire_command \<Rightarrow> string" where
  "lease_id_of sha key c =
     stable_id sha ''lease''
       (jstrs [key, acquire_batchPlanId c, acquire_sliceId c, acquire_attemptId c])"

definition new_lease ::
    "(string \<Rightarrow> string) \<Rightarrow> string \<Rightarrow> int \<Rightarrow> acquire_command \<Rightarrow> physical_identity \<Rightarrow> conflict_footprint list \<Rightarrow> lease" where
  "new_lease sha key token c lane_identity graph =
     \<lparr>lease_executionKey = key, leaseId = lease_id_of sha key c,
      lease_batchPlanId = acquire_batchPlanId c, lease_sliceId = acquire_sliceId c,
      lease_attemptId = acquire_attemptId c,
      lease_snapshotFingerprint = acquire_snapshotFingerprint c,
      lease_envelopeDigest = acquire_envelopeDigest c,
      lease_policyVersion = acquire_policyVersion c,
      lease_descriptorDigest = descriptorDigest (acquire_descriptor c),
      lease_footprint = acquire_footprint c,
      planningFootprints =
        filter (\<lambda>f. sliceId f \<in> set (map sliceId (slices (acquire_request c)))) graph,
      lease_sourceRoot = acquire_sourceRoot c, lease_laneRoot = acquire_laneRoot c,
      lanePhysicalIdentity = lane_identity, lease_laneBase = acquire_laneBase c,
      lease_fencingToken = token, lease_state = ADMITTED, lease_candidate = None,
      acquiredAt = acquire_asOf c, lastTransitionAt = acquire_asOf c, released = False,
      recoveryStatus = CLEAR\<rparr>"

definition acquire_receipt ::
    "(string \<Rightarrow> string) \<Rightarrow> string \<Rightarrow> int \<Rightarrow> int \<Rightarrow> acquire_command \<Rightarrow> receipt" where
  "acquire_receipt sha key previous_version token c =
     \<lparr>receiptId = receipt_id_of sha key (previous_version + 1) (acquire_digest c) token,
      receipt_executionKey = key, previousJournalVersion = previous_version,
      nextJournalVersion = previous_version + 1, receipt_commandDigest = acquire_digest c,
      receipt_fencingToken = token, receipt_previousState = None, receipt_nextState = Some ADMITTED,
      receipt_snapshotFingerprint = acquire_snapshotFingerprint c,
      receipt_journalDigest = zero_digest, recordedAt = acquire_asOf c,
      receipt_evidence_of = Acquire_Evidence c\<rparr>"

text \<open>The journal with the new lease and its receipt.\<close>

definition commit_acquisition ::
    "(string \<Rightarrow> string) \<Rightarrow> string \<Rightarrow> journal \<Rightarrow> acquire_command \<Rightarrow> physical_identity
      \<Rightarrow> conflict_footprint list \<Rightarrow> journal \<times> receipt" where
  "commit_acquisition sha key j c lane_identity graph =
     (let token = nextFencingToken j in
      append_receipt sha
        (j\<lparr>journalVersion := journalVersion j + 1, nextFencingToken := token + 1,
           leases := leases j @ [new_lease sha key token c lane_identity graph]\<rparr>)
        (acquire_receipt sha key (journalVersion j) token c))"

text \<open>A second acquisition under the same key: the same command gets the same answer.\<close>

definition replay_acquisition ::
    "(string \<Rightarrow> string) \<Rightarrow> live_project \<Rightarrow> project_identity \<Rightarrow> journal \<Rightarrow> lease \<Rightarrow> acquire_command
      \<Rightarrow> lease_result result" where
  "replay_acquisition sha live identity j existing raw =
     bindE (raise_if (\<not> is_nonterminal existing)
              (Coordination_Error ''TERMINAL_ACQUISITION_REPLAY'')) (\<lambda>_.
     case acquire_receipt_for j existing of
       None \<Rightarrow> Inl (Coordination_Error ''ACQUISITION_IDEMPOTENCY_CONFLICT'')
     | Some (r, recorded) \<Rightarrow>
         bindE (raise_if (receipt_commandDigest r \<noteq> acquire_digest raw)
                  (Coordination_Error ''ACQUISITION_IDEMPOTENCY_CONFLICT'')) (\<lambda>_.
         bindE (normalize_acquire_command sha raw) (\<lambda>normalized.
         bindE (validate_live_bindings live identity normalized) (\<lambda>lane_identity.
         bindE (raise_if (lane_identity \<noteq> lanePhysicalIdentity existing) lane_changed) (\<lambda>_.
         bindE (raise_if (canonical_json_bytes (acquire_json recorded)
                            \<noteq> canonical_json_bytes (acquire_json normalized))
                  (Coordination_Error ''ACQUISITION_IDEMPOTENCY_CONFLICT'')) (\<lambda>_.
           acquire_result_for_receipt existing r recorded))))))"

definition admit_command ::
    "(string \<Rightarrow> string) \<Rightarrow> live_project \<Rightarrow> project_identity \<Rightarrow> journal \<Rightarrow> acquire_command
      \<Rightarrow> (journal \<times> receipt) result" where
  "admit_command sha live identity j raw =
     bindE (normalize_acquire_command sha raw) (\<lambda>c.
     bindE (retired_recovery_identities j) (\<lambda>(retired_batches, retired_attempts).
     bindE (raise_if (acquire_batchPlanId c \<in> set retired_batches
                       \<or> acquire_attemptId c \<in> set retired_attempts)
              (Coordination_Error ''RECOVERED_PLAN_IDENTITY_REUSED'')) (\<lambda>_.
     bindE (validate_live_bindings live identity c) (\<lambda>lane_identity.
     bindE (admit sha j c lane_identity) (\<lambda>graph.
     bindE (validate_lane_root (lane_directory_recheck live) (live_source live) (acquire_laneRoot c)) (\<lambda>recheck.
     bindE (raise_if (recheck \<noteq> lane_identity) lane_changed) (\<lambda>_.
       Inr (commit_acquisition sha (projectExecutionKey identity) j c lane_identity graph))))))))"

definition acquire_step ::
    "(string \<Rightarrow> string) \<Rightarrow> live_project \<Rightarrow> project_identity \<Rightarrow> journal \<Rightarrow> acquire_command
      \<Rightarrow> lease_result step_outcome result" where
  "acquire_step sha live identity j raw =
     bindE (raise_if (recoveryState j \<noteq> CLEAR)
              (Coordination_Error ''COORDINATOR_RECOVERY_REQUIRED'')) (\<lambda>_.
     case find (\<lambda>l. lease_tuple l = idempotency_tuple (projectExecutionKey identity) raw) (leases j) of
       Some existing \<Rightarrow>
         bindE (replay_acquisition sha live identity j existing raw) (\<lambda>res. Inr (Replayed res))
     | None \<Rightarrow> bindE (admit_command sha live identity j raw) (\<lambda>(j', r). Inr (Commit j' r)))"

section \<open>Transitions\<close>

text \<open>\<open>_ALLOWED_LEASE_TRANSITIONS\<close>: the lifecycle of a lease.\<close>

fun lease_successors :: "slice_state \<Rightarrow> slice_state list" where
  "lease_successors ADMITTED = [ACTIVE, BLOCKED, NO_GO, STALE, CANCELLED]"
| "lease_successors ACTIVE = [FIXED_CANDIDATE, BLOCKED, NO_GO, STALE, CANCELLED]"
| "lease_successors FIXED_CANDIDATE = [REVIEW_GO, BLOCKED, NO_GO, STALE, CANCELLED]"
| "lease_successors REVIEW_GO = [QUEUED_FOR_INTEGRATION, BLOCKED, NO_GO, STALE, CANCELLED]"
| "lease_successors QUEUED_FOR_INTEGRATION = [INTEGRATING, BLOCKED, NO_GO, STALE, CANCELLED]"
| "lease_successors INTEGRATING = [CLOSED, BLOCKED, NO_GO, STALE, CANCELLED]"
| "lease_successors _ = []"

definition terminal_states :: "slice_state list" where
  "terminal_states = [CLOSED, CANCELLED]"

definition revocation_states :: "slice_state list" where
  "revocation_states = [STALE, CANCELLED]"

text \<open>The lifecycle controller's authority and signature over the transition.\<close>

definition verify_lifecycle ::
    "(string \<Rightarrow> string) \<Rightarrow> live_project \<Rightarrow> authority_snapshot \<Rightarrow> transition_command \<Rightarrow> unit result" where
  "verify_lifecycle sha live s c =
     (let p = transition_proof c in
      bindE (raise_if (proof_authorityId p \<noteq> ''lifecycle-controller'')
               (Coordination_Error ''LIFECYCLE_AUTHORITY_NOT_CURRENT'')) (\<lambda>_.
      bindE (current_authority_record s (proof_reference p) (proof_authorityDigest p)
               ''lifecycle-controller'' ''LIFECYCLE_AUTHORITY_NOT_CURRENT'') (\<lambda>authority.
      bindE (read_current_authority_bytes sha live authority) (\<lambda>public_key.
        verify_sshsig_signature (live_ssh live) public_key (proof_signature p)
          (lifecycle_signature_payload c) ''lifecycle-controller''
          ''agent-evolution-controlled-lifecycle-v1'' ''LIFECYCLE_SIGNATURE_INVALID''))))"

text \<open>The checks every transition command passes, replayed or not: the live fingerprint.\<close>

definition authorize_transition ::
    "(string \<Rightarrow> string) \<Rightarrow> live_project \<Rightarrow> project_identity \<Rightarrow> journal \<Rightarrow> lease \<Rightarrow> transition_command
      \<Rightarrow> string result" where
  "authorize_transition sha live identity j l c =
     bindE (raise_if (recoveryState j \<noteq> CLEAR) (Coordination_Error ''COORDINATOR_RECOVERY_REQUIRED'')) (\<lambda>_.
     bindE (raise_if (lease_attemptId l \<noteq> transition_attemptId c)
              (Coordination_Error ''LEASE_ATTEMPT_MISMATCH'')) (\<lambda>_.
     bindE (raise_if (lease_fencingToken l \<noteq> transition_fencingToken c)
              (Coordination_Error ''STALE_FENCING_TOKEN'')) (\<lambda>_.
     case acquire_receipt_for j l of
       None \<Rightarrow> Inl corrupt
     | Some (_, a) \<Rightarrow>
         bindE (raise_if (lease_sourceRoot l \<noteq> live_source live) binding_mismatch) (\<lambda>_.
         bindE (rebuild_transition_snapshot live identity a) (\<lambda>s.
         bindE (raise_if (transition_snapshotFingerprint c \<noteq> snapshotFingerprint s)
                  (Coordination_Error ''LIVE_AUTHORITY_SNAPSHOT_MISMATCH'')) (\<lambda>_.
         bindE (raise_if (snapshotFingerprint s \<noteq> lease_snapshotFingerprint l
                           \<and> transition_nextState c \<notin> set revocation_states)
                  (Coordination_Error ''AUTHORITY_SNAPSHOT_DRIFT'')) (\<lambda>_.
         bindE (verify_lifecycle sha live s c) (\<lambda>_.
         bindE (if transition_nextState c = REVIEW_GO then
                  bindE (raise_if (transition_candidate c \<noteq> lease_candidate l)
                           (Coordination_Error ''CANDIDATE_IDENTITY_MISMATCH'')) (\<lambda>_.
                    validate_and_verify_review_set sha live s a l c)
                else Inr ()) (\<lambda>_.
           Inr (snapshotFingerprint s))))))))))"

definition exact_transition_replay ::
    "journal \<Rightarrow> lease \<Rightarrow> transition_command \<Rightarrow> (receipt \<times> transition_command) option" where
  "exact_transition_replay j l c =
     find (\<lambda>(r, recorded). receipt_commandDigest r = transition_digest c
             \<and> canonical_json_bytes (transition_json recorded) = canonical_json_bytes (transition_json c))
       (transition_receipts_for j (leaseId l))"

definition conflicting_transition ::
    "journal \<Rightarrow> lease \<Rightarrow> transition_command \<Rightarrow> bool" where
  "conflicting_transition j l c =
     list_ex (\<lambda>(r, _). (receipt_previousState r, receipt_nextState r)
                        = (Some (expectedState c), Some (transition_nextState c)))
       (transition_receipts_for j (leaseId l))"

text \<open>The candidate a lease has after the transition: fixed once, never changed.\<close>

definition next_candidate :: "lease \<Rightarrow> transition_command \<Rightarrow> candidate_identity option result" where
  "next_candidate l c =
     (case lease_candidate l of
        None \<Rightarrow>
          if transition_nextState c = FIXED_CANDIDATE then Inr (transition_candidate c)
          else if transition_candidate c = None then Inr None
          else Inl (Coordination_Error ''CANDIDATE_IDENTITY_MISMATCH'')
      | Some candidate \<Rightarrow>
          if transition_candidate c \<noteq> Some candidate
          then Inl (Coordination_Error ''CANDIDATE_IDENTITY_MISMATCH'')
          else Inr (Some candidate))"

text \<open>The checks of a transition that is not a replay, down to its candidate.\<close>

definition check_transition ::
    "live_project \<Rightarrow> journal \<Rightarrow> lease \<Rightarrow> transition_command \<Rightarrow> candidate_identity option result" where
  "check_transition live j l c =
     bindE (raise_if (conflicting_transition j l c)
              (Coordination_Error ''TRANSITION_IDEMPOTENCY_CONFLICT'')) (\<lambda>_.
     bindE (raise_if (lease_state l \<in> set terminal_states \<or> released l)
              (Coordination_Error ''TERMINAL_LEASE_IMMUTABLE'')) (\<lambda>_.
     bindE (raise_if (lease_state l \<noteq> expectedState c)
              (Coordination_Error ''LEASE_STATE_MISMATCH'')) (\<lambda>_.
     bindE (raise_if (transition_nextState c \<notin> set (lease_successors (lease_state l)))
              (Coordination_Error ''INVALID_STATE_TRANSITION'')) (\<lambda>_.
     bindE (next_candidate l c) (\<lambda>candidate.
     bindE (raise_if (transition_nextState c \<in> set candidate_states \<and> candidate = None)
              (Coordination_Error ''CANDIDATE_IDENTITY_REQUIRED'')) (\<lambda>_.
     bindE (case candidate of None \<Rightarrow> Inr () | Some k \<Rightarrow> validate_live_lane_candidate live l k) (\<lambda>_.
     bindE (raise_if (transition_nextState c = CLOSED \<and> processIds (transition_quiescence c) \<noteq> [])
              (Coordination_Error ''PROCESS_NOT_QUIESCENT'')) (\<lambda>_.
       Inr candidate))))))))"

text \<open>In-place assignment to the lease found by its identity.\<close>

definition update_lease :: "string \<Rightarrow> (lease \<Rightarrow> lease) \<Rightarrow> lease list \<Rightarrow> lease list" where
  "update_lease lease_id f ls = map (\<lambda>l. if leaseId l = lease_id then f l else l) ls"

definition transitioned :: "transition_command \<Rightarrow> candidate_identity option \<Rightarrow> lease \<Rightarrow> lease" where
  "transitioned c candidate l =
     l\<lparr>lease_state := transition_nextState c, lease_candidate := candidate,
       lastTransitionAt := assertedAt (transition_proof c),
       released := (transition_nextState c = CLOSED)\<rparr>"

definition transition_receipt ::
    "(string \<Rightarrow> string) \<Rightarrow> string \<Rightarrow> int \<Rightarrow> int \<Rightarrow> transition_command \<Rightarrow> receipt" where
  "transition_receipt sha key previous_version token c =
     \<lparr>receiptId = receipt_id_of sha key (previous_version + 1) (transition_digest c) token,
      receipt_executionKey = key, previousJournalVersion = previous_version,
      nextJournalVersion = previous_version + 1, receipt_commandDigest = transition_digest c,
      receipt_fencingToken = token, receipt_previousState = Some (expectedState c),
      receipt_nextState = Some (transition_nextState c),
      receipt_snapshotFingerprint = transition_snapshotFingerprint c,
      receipt_journalDigest = zero_digest, recordedAt = assertedAt (transition_proof c),
      receipt_evidence_of = Transition_Evidence c\<rparr>"

definition commit_transition ::
    "(string \<Rightarrow> string) \<Rightarrow> string \<Rightarrow> journal \<Rightarrow> lease \<Rightarrow> transition_command \<Rightarrow> string
      \<Rightarrow> candidate_identity option \<Rightarrow> journal \<times> receipt" where
  "commit_transition sha key j l c live_fingerprint candidate =
     (let revokes = (transition_nextState c \<in> set revocation_states
                     \<or> live_fingerprint \<noteq> lease_snapshotFingerprint l) in
      append_receipt sha
        (j\<lparr>journalVersion := journalVersion j + 1,
           nextFencingToken := (if revokes then max (nextFencingToken j) (lease_fencingToken l + 1)
                                else nextFencingToken j),
           leases := update_lease (leaseId l) (transitioned c candidate) (leases j)\<rparr>)
        (transition_receipt sha key (journalVersion j) (lease_fencingToken l) c))"

definition find_lease :: "string \<Rightarrow> lease list \<Rightarrow> lease option" where
  "find_lease lease_id ls = find (\<lambda>l. leaseId l = lease_id) ls"

definition transition_step ::
    "(string \<Rightarrow> string) \<Rightarrow> live_project \<Rightarrow> project_identity \<Rightarrow> journal \<Rightarrow> transition_command
      \<Rightarrow> lease_result step_outcome result" where
  "transition_step sha live identity j raw =
     bindE (normalize_transition_command sha raw) (\<lambda>c.
     bindE (raise_if (transition_executionKey c \<noteq> projectExecutionKey identity)
              (Coordination_Error ''PROJECT_EXECUTION_KEY_MISMATCH'')) (\<lambda>_.
     case find_lease (transition_leaseId c) (leases j) of
       None \<Rightarrow> Inl (Coordination_Error ''COORDINATOR_LEASE_NOT_FOUND'')
     | Some l \<Rightarrow>
         bindE (authorize_transition sha live identity j l c) (\<lambda>live_fingerprint.
         case exact_transition_replay j l c of
           Some (r, recorded) \<Rightarrow>
             bindE (case transition_candidate c of
                      None \<Rightarrow> Inr () | Some k \<Rightarrow> validate_live_lane_candidate live l k) (\<lambda>_.
             bindE (transition_result_for_receipt l r recorded) (\<lambda>res. Inr (Replayed res)))
         | None \<Rightarrow>
             bindE (check_transition live j l c) (\<lambda>candidate.
             let (j', r) = commit_transition sha (projectExecutionKey identity) j l c live_fingerprint candidate
             in Inr (Commit j' r)))))"

section \<open>Running a step under the project lock\<close>

text \<open>
  The step sees the journal the store holds; a proposed journal is written with
  \<^const>\<open>replace_journal\<close> at the version that was read, and \<open>finish\<close> builds the answer from
  the journal that was proposed and the one that was read back. The directory after the call
  is returned, whether it failed or not.
\<close>

abbreviation post_write_mismatch :: harness_error where
  "post_write_mismatch \<equiv> Coordination_Error ''COORDINATOR_POST_WRITE_MISMATCH''"

definition persist ::
    "(string \<Rightarrow> string) \<Rightarrow> ssh_host \<Rightarrow> state_store \<Rightarrow> store_world \<Rightarrow> int
      \<Rightarrow> (journal \<Rightarrow> journal \<Rightarrow> receipt \<Rightarrow> 'r result) \<Rightarrow> 'r step_outcome \<Rightarrow> directory
      \<Rightarrow> 'r result \<times> directory" where
  "persist sha host s w version finish outcome d =
     (case outcome of
        Replayed res \<Rightarrow> (Inr res, d)
      | Commit proposed r \<Rightarrow>
          (case replace_journal sha host s w version proposed r d of
             (Inl e, d') \<Rightarrow> (Inl e, d')
           | (Inr persisted, d') \<Rightarrow> (finish proposed persisted r, d')))"

definition under_lock ::
    "(string \<Rightarrow> string) \<Rightarrow> ssh_host \<Rightarrow> state_store \<Rightarrow> store_world
      \<Rightarrow> (journal option \<Rightarrow> 'r step_outcome result) \<Rightarrow> (journal \<Rightarrow> journal \<Rightarrow> receipt \<Rightarrow> 'r result)
      \<Rightarrow> directory \<Rightarrow> 'r result \<times> directory" where
  "under_lock sha host s w step finish d =
     (case enter_project_lock s w d of
        Inl e \<Rightarrow> (Inl e, d)
      | Inr (locked, opened, d1) \<Rightarrow>
          (case bindE (read_journal sha host locked w d1) (\<lambda>j.
                  bindE (step j) (\<lambda>outcome. Inr (j, outcome))) of
             Inl e \<Rightarrow> (Inl e, d1)
           | Inr (j, outcome) \<Rightarrow>
               (case persist sha host locked w (case j of None \<Rightarrow> 0 | Some j \<Rightarrow> journalVersion j)
                       finish outcome d1 of
                  (res, d2) \<Rightarrow> (bindE res (\<lambda>x. bindE (leave_project_lock opened d2) (\<lambda>_. Inr x)), d2))))"

text \<open>The lease read back must be the one that was written, and the receipt the last one.\<close>

definition finish_acquire :: "journal \<Rightarrow> journal \<Rightarrow> receipt \<Rightarrow> lease_result result" where
  "finish_acquire proposed persisted r =
     (let l = last (leases proposed) in
      case find_lease (leaseId l) (leases persisted) of
        None \<Rightarrow> Inl Key_Error
      | Some l' \<Rightarrow>
          bindE (raise_if (l' \<noteq> l \<or> last (receipts persisted) \<noteq> r) post_write_mismatch) (\<lambda>_.
          case receipt_evidence_of r of
            Acquire_Evidence c \<Rightarrow> acquire_result_for_receipt l' r c
          | _ \<Rightarrow> Inl corrupt))"

definition finish_transition :: "journal \<Rightarrow> journal \<Rightarrow> receipt \<Rightarrow> lease_result result" where
  "finish_transition proposed persisted r =
     (case receipt_evidence_of r of
        Transition_Evidence c \<Rightarrow>
          (case find_lease (transition_leaseId c) (leases persisted) of
             None \<Rightarrow> Inl Key_Error
           | Some l \<Rightarrow>
               bindE (raise_if (Some l \<noteq> find_lease (transition_leaseId c) (leases proposed)
                                \<or> last (receipts persisted) \<noteq> r) post_write_mismatch) (\<lambda>_.
                 transition_result_for_receipt l r c))
      | _ \<Rightarrow> Inl corrupt)"

text \<open>Opening the project's store in the directory \<open>d\<close>, with the identity resolved first.\<close>

definition with_store ::
    "store_world \<Rightarrow> string \<Rightarrow> project_identity result \<Rightarrow> directory
      \<Rightarrow> (project_identity \<Rightarrow> state_store \<Rightarrow> directory \<Rightarrow> 'r result \<times> directory)
      \<Rightarrow> 'r result \<times> directory" where
  "with_store w root resolved d body =
     (case resolved of
        Inl e \<Rightarrow> (Inl e, d)
      | Inr identity \<Rightarrow>
          (case open_store w root (projectExecutionKey identity) d of
             Inl e \<Rightarrow> (Inl e, d)
           | Inr (s, d1) \<Rightarrow> body identity s d1))"

definition acquire_lane_lease ::
    "(string \<Rightarrow> string) \<Rightarrow> live_project \<Rightarrow> project_identity result \<Rightarrow> string \<Rightarrow> store_world \<Rightarrow> acquire_command
      \<Rightarrow> directory \<Rightarrow> lease_result result \<times> directory" where
  "acquire_lane_lease sha live resolved root w c d =
     with_store w root resolved d (\<lambda>identity s.
       under_lock sha (live_ssh live) s w
         (\<lambda>j. acquire_step sha live identity
                (case j of None \<Rightarrow> empty_journal (projectExecutionKey identity) | Some j \<Rightarrow> j) c)
         finish_acquire)"

definition transition_lane_lease ::
    "(string \<Rightarrow> string) \<Rightarrow> live_project \<Rightarrow> project_identity result \<Rightarrow> string \<Rightarrow> store_world \<Rightarrow> transition_command
      \<Rightarrow> directory \<Rightarrow> lease_result result \<times> directory" where
  "transition_lane_lease sha live resolved root w c d =
     with_store w root resolved d (\<lambda>identity s.
       under_lock sha (live_ssh live) s w
         (\<lambda>j. case j of
                None \<Rightarrow> Inl (Coordination_Error ''COORDINATOR_LEASE_NOT_FOUND'')
              | Some j \<Rightarrow> transition_step sha live identity j c)
         finish_transition)"

end
