(* ===== verification/Coordinator_Recovery.thy ===== *)
theory Coordinator_Recovery
  imports Coordinator
begin

text \<open>
  \<open>controlled_recovery.py\<close>: a write breach quarantines every lane of the project, and a
  signed recovery closes the quarantine by releasing every quarantined lane.
\<close>

section \<open>Leases a breach touches\<close>

definition recoverable_leases :: "journal \<Rightarrow> lease list" where
  "recoverable_leases j = filter (\<lambda>l. \<not> released l \<and> lease_state l \<noteq> CLOSED) (leases j)"

definition acquire_command_for :: "journal \<Rightarrow> lease \<Rightarrow> acquire_command result" where
  "acquire_command_for j l =
     (case filter (\<lambda>c. acquisition_key c = lease_key l)
             (List.map_filter (\<lambda>r. acquire_command_in (receipt_evidence_of r)) (receipts j)) of
        [c] \<Rightarrow> Inr c
      | _ \<Rightarrow> Inl corrupt)"

definition affected_decisions :: "journal \<Rightarrow> string list \<Rightarrow> lease_decision list result" where
  "affected_decisions j observed_write_set =
     bindE (mapE (\<lambda>l. bindE (acquire_command_for j l) (\<lambda>c. Inr (decide_lease c observed_write_set l)))
              (recoverable_leases j)) (\<lambda>ds.
       Inr (sort_key decided_leaseId ds))"

record mutation_result =
  mutation_receiptId :: string
  mutation_journalVersion :: int
  mutation_recoveryState :: recovery_state
  mutation_observed :: "string list"
  mutation_leaseIds :: "string list"
  mutation_decisions :: "lease_decision list"

fun mutation_evidence ::
    "receipt_evidence \<Rightarrow> (recovery_state \<times> string list \<times> string list \<times> lease_decision list) result" where
  "mutation_evidence (Quarantine_Evidence _ observed revoked ds) =
     Inr (PROJECT_WRITESET_RECOVERY, observed, revoked, ds)"
| "mutation_evidence (Recovery_Evidence _ observed revoked ds) = Inr (CLEAR, observed, revoked, ds)"
| "mutation_evidence _ = Inl Key_Error"

text \<open>
  \<open>_observation_result\<close> and \<open>_recovery_result\<close>, which differ in the name of one key: the
  revoked leases of an observation are the released leases of a recovery.
\<close>

definition mutation_result_of :: "receipt \<Rightarrow> mutation_result result" where
  "mutation_result_of r =
     bindE (mutation_evidence (receipt_evidence_of r)) (\<lambda>(state, observed, revoked, ds).
       Inr \<lparr>mutation_receiptId = receiptId r, mutation_journalVersion = nextJournalVersion r,
            mutation_recoveryState = state, mutation_observed = observed,
            mutation_leaseIds = revoked, mutation_decisions = ds\<rparr>)"

definition replayed :: "receipt \<Rightarrow> mutation_result step_outcome result" where
  "replayed r = bindE (mutation_result_of r) (\<lambda>res. Inr (Replayed res))"

section \<open>Quarantine\<close>

fun observation_command_in :: "receipt_evidence \<Rightarrow> observation_command option" where
  "observation_command_in (Quarantine_Evidence c _ _ _) = Some c"
| "observation_command_in _ = None"

definition exact_observation_replay :: "journal \<Rightarrow> observation_command \<Rightarrow> receipt option" where
  "exact_observation_replay j c =
     find (\<lambda>r. case observation_command_in (receipt_evidence_of r) of
                 None \<Rightarrow> False
               | Some recorded \<Rightarrow>
                   receipt_commandDigest r = observation_digest c
                   \<and> canonical_json_bytes (observation_json recorded) = canonical_json_bytes (observation_json c))
       (receipts j)"

definition conflicting_observation :: "journal \<Rightarrow> observation_command \<Rightarrow> bool" where
  "conflicting_observation j c =
     list_ex (\<lambda>r. case observation_command_in (receipt_evidence_of r) of
                    None \<Rightarrow> False
                  | Some recorded \<Rightarrow>
                      observation_leaseId recorded = observation_leaseId c
                      \<and> observation_fencingToken recorded = observation_fencingToken c
                      \<and> beforeInventoryDigest recorded = beforeInventoryDigest c) (receipts j)"

text \<open>The evidence of a recovery that is still open.\<close>

definition open_evidence :: "journal \<Rightarrow> recovery_evidence option" where
  "open_evidence j = (if recoveryState j = PROJECT_WRITESET_RECOVERY then recoveryEvidence j else None)"

definition prior_paths :: "journal \<Rightarrow> string list" where
  "prior_paths j = (case open_evidence j of None \<Rightarrow> [] | Some e \<Rightarrow> evidence_observed e)"

definition newly_revoked :: "journal \<Rightarrow> lease list" where
  "newly_revoked j =
     filter (\<lambda>l. leaseId l \<notin> set (case open_evidence j of None \<Rightarrow> [] | Some e \<Rightarrow> evidence_revoked e))
       (recoverable_leases j)"

definition quarantined :: "lease \<Rightarrow> lease" where
  "quarantined l =
     (if \<not> released l \<and> lease_state l \<noteq> CLOSED then l\<lparr>recoveryStatus := PROJECT_WRITESET_RECOVERY\<rparr> else l)"

definition observation_receipt ::
    "(string \<Rightarrow> string) \<Rightarrow> journal \<Rightarrow> lease \<Rightarrow> observation_command \<Rightarrow> string list \<Rightarrow> string list
      \<Rightarrow> lease_decision list \<Rightarrow> receipt" where
  "observation_receipt sha j l c observed revoked ds =
     \<lparr>receiptId = receipt_id_of sha (journal_executionKey j) (journalVersion j + 1)
                    (observation_digest c) (observation_fencingToken c),
      receipt_executionKey = journal_executionKey j, previousJournalVersion = journalVersion j,
      nextJournalVersion = journalVersion j + 1, receipt_commandDigest = observation_digest c,
      receipt_fencingToken = observation_fencingToken c,
      receipt_previousState = Some (lease_state l), receipt_nextState = Some (lease_state l),
      receipt_snapshotFingerprint = lease_snapshotFingerprint l,
      receipt_journalDigest = zero_digest,
      recordedAt = quiescence_observedAt (observation_quiescence c),
      receipt_evidence_of = Quarantine_Evidence c observed revoked ds\<rparr>"

text \<open>Every recoverable lease quarantined, the fencing tokens raised, the evidence recorded.\<close>

definition commit_quarantine ::
    "(string \<Rightarrow> string) \<Rightarrow> journal \<Rightarrow> lease \<Rightarrow> observation_command \<Rightarrow> string list \<Rightarrow> lease_decision list
      \<Rightarrow> journal \<times> receipt" where
  "commit_quarantine sha j l c observed ds =
     (let recoverable = recoverable_leases j;
          revoked = sort (map leaseId recoverable);
          top = (if recoverable = [] then 0 else Max (set (map lease_fencingToken recoverable))) in
      append_receipt sha
        (j\<lparr>journalVersion := journalVersion j + 1,
           nextFencingToken := max (nextFencingToken j + int (length (newly_revoked j))) (top + 1),
           recoveryState := PROJECT_WRITESET_RECOVERY,
           recoveryEvidence :=
             Some \<lparr>evidence_observed = observed, evidence_revoked = revoked, evidence_decisions = ds,
                   quarantineCommand = c, recoveryCommand = None\<rparr>,
           leases := map quarantined (leases j)\<rparr>)
        (observation_receipt sha j l c observed revoked ds))"

text \<open>\<open>quarantine_observed_writes_locked\<close>, up to the replacement of the journal.\<close>

definition quarantine_step ::
    "(string \<Rightarrow> string) \<Rightarrow> journal \<Rightarrow> observation_command \<Rightarrow> string list \<Rightarrow> mutation_result step_outcome result" where
  "quarantine_step sha j c observed_paths =
     (case exact_observation_replay j c of
        Some r \<Rightarrow> replayed r
      | None \<Rightarrow>
          bindE (raise_if (conflicting_observation j c)
                   (Coordination_Error ''WRITE_OBSERVATION_IDEMPOTENCY_CONFLICT'')) (\<lambda>_.
          bindE (raise_if (recoveryState j \<notin> {CLEAR, PROJECT_WRITESET_RECOVERY})
                   (Coordination_Error ''COORDINATOR_RECOVERY_REQUIRED'')) (\<lambda>_.
          case find_lease (observation_leaseId c) (leases j) of
            None \<Rightarrow> Inl (Coordination_Error ''COORDINATOR_LEASE_NOT_FOUND'')
          | Some l \<Rightarrow>
              bindE (raise_if (lease_fencingToken l \<noteq> observation_fencingToken c)
                       (Coordination_Error ''STALE_FENCING_TOKEN'')) (\<lambda>_.
              bindE (raise_if (released l) (Coordination_Error ''TERMINAL_LEASE_IMMUTABLE'')) (\<lambda>_.
              let observed = sorted_union (prior_paths j) observed_paths in
              bindE (affected_decisions j observed) (\<lambda>ds.
              let (j', r) = commit_quarantine sha j l c observed ds in Inr (Commit j' r)))))))"

text \<open>The checks of \<open>observe_lane_writes\<close> against the live lane: the breach is real and complete.\<close>

definition check_observed_lane ::
    "(string \<Rightarrow> string) \<Rightarrow> live_project \<Rightarrow> lease \<Rightarrow> observation_command \<Rightarrow> string list result" where
  "check_observed_lane sha live l c =
     bindE (breach_inventory live l) (\<lambda>(inventory, observed_paths, remaining_ephemeral).
     bindE (raise_if (remaining_ephemeral \<noteq> []) (Coordination_Error ''EPHEMERAL_PATH_NOT_REMOVED'')) (\<lambda>_.
     bindE (raise_if (observed_paths = []) (Coordination_Error ''WRITE_OBSERVATION_EMPTY'')) (\<lambda>_.
     bindE (raise_if (beforeInventoryDigest c \<noteq> sha256_json sha inventory)
              (Coordination_Error ''OBSERVATION_INVENTORY_MISMATCH'')) (\<lambda>_.
     bindE (raise_if (ephemeralPathsRemoved c \<noteq> sort (ephemeralWriteSet (lease_footprint l)))
              (Coordination_Error ''OBSERVATION_EPHEMERAL_SET_MISMATCH'')) (\<lambda>_.
     bindE (raise_if (processIds (observation_quiescence c) \<noteq> [])
              (Coordination_Error ''PROCESS_NOT_QUIESCENT'')) (\<lambda>_.
     bindE (raise_if (observed_paths \<noteq> observedPaths c)
              (Coordination_Error ''OBSERVED_WRITESET_MISMATCH'')) (\<lambda>_.
       Inr observed_paths)))))))"

definition observe_step ::
    "(string \<Rightarrow> string) \<Rightarrow> live_project \<Rightarrow> journal option \<Rightarrow> observation_command
      \<Rightarrow> mutation_result step_outcome result" where
  "observe_step sha live j c =
     (case j of
        None \<Rightarrow> Inl (Coordination_Error ''COORDINATOR_LEASE_NOT_FOUND'')
      | Some j \<Rightarrow>
          (case find_lease (observation_leaseId c) (leases j) of
             None \<Rightarrow> Inl (Coordination_Error ''COORDINATOR_LEASE_NOT_FOUND'')
           | Some l \<Rightarrow>
               bindE (raise_if (lease_sourceRoot l \<noteq> live_source live) binding_mismatch) (\<lambda>_.
               bindE (raise_if (lease_fencingToken l \<noteq> observation_fencingToken c)
                        (Coordination_Error ''STALE_FENCING_TOKEN'')) (\<lambda>_.
               case exact_observation_replay j c of
                 Some r \<Rightarrow> replayed r
               | None \<Rightarrow>
                   bindE (check_observed_lane sha live l c) (\<lambda>observed_paths.
                     quarantine_step sha j c observed_paths)))))"

text \<open>The receipt read back must be the one that was written.\<close>

definition finish_mutation ::
    "journal \<Rightarrow> journal \<Rightarrow> receipt \<Rightarrow> mutation_result result" where
  "finish_mutation proposed persisted r =
     bindE (raise_if (last (receipts persisted) \<noteq> r) post_write_mismatch) (\<lambda>_. mutation_result_of r)"

definition observe_lane_writes ::
    "(string \<Rightarrow> string) \<Rightarrow> live_project \<Rightarrow> project_identity result \<Rightarrow> string \<Rightarrow> store_world \<Rightarrow> observation_command
      \<Rightarrow> directory \<Rightarrow> mutation_result result \<times> directory" where
  "observe_lane_writes sha live resolved root w raw d =
     (case bindE resolved (\<lambda>identity.
           bindE (normalize_write_observation_command sha raw) (\<lambda>c.
           bindE (raise_if (observation_executionKey c \<noteq> projectExecutionKey identity)
                    (Coordination_Error ''PROJECT_EXECUTION_KEY_MISMATCH'')) (\<lambda>_. Inr c))) of
        Inl e \<Rightarrow> (Inl e, d)
      | Inr c \<Rightarrow>
          with_store w root resolved d (\<lambda>identity s.
            under_lock sha (live_ssh live) s w (\<lambda>j. observe_step sha live j c)
              finish_mutation))"

section \<open>Recovery\<close>

fun recovery_command_in :: "receipt_evidence \<Rightarrow> recovery_command option" where
  "recovery_command_in (Recovery_Evidence c _ _ _) = Some c"
| "recovery_command_in _ = None"

definition exact_recovery_replay :: "journal \<Rightarrow> recovery_command \<Rightarrow> receipt option" where
  "exact_recovery_replay j c =
     find (\<lambda>r. case recovery_command_in (receipt_evidence_of r) of
                 None \<Rightarrow> False
               | Some recorded \<Rightarrow>
                   receipt_commandDigest r = recovery_digest c
                   \<and> canonical_json_bytes (recovery_json recorded) = canonical_json_bytes (recovery_json c))
       (receipts j)"

definition conflicting_recovery :: "journal \<Rightarrow> recovery_command \<Rightarrow> bool" where
  "conflicting_recovery j c =
     list_ex (\<lambda>r. case recovery_command_in (receipt_evidence_of r) of
                    None \<Rightarrow> False | Some recorded \<Rightarrow> recoveryId recorded = recoveryId c) (receipts j)"

abbreviation authority_not_current :: harness_error where
  "authority_not_current \<equiv> Coordination_Error ''RECOVERY_AUTHORITY_NOT_CURRENT''"

text \<open>The leases the open evidence revokes.\<close>

definition revoked_leases :: "journal \<Rightarrow> recovery_evidence \<Rightarrow> lease list result" where
  "revoked_leases j e =
     bindE (mapE (\<lambda>i. case map_of (leases_by_id (leases j)) i of
                         None \<Rightarrow> Inl corrupt | Some l \<Rightarrow> Inr l) (evidence_revoked e)) (\<lambda>ls.
     bindE (raise_if (ls = []) corrupt) (\<lambda>_. Inr ls))"

text \<open>The recovery controller's authority and signature, checked for replays too.\<close>

definition authorize_recovery ::
    "(string \<Rightarrow> string) \<Rightarrow> live_project \<Rightarrow> project_identity \<Rightarrow> journal \<Rightarrow> recovery_command \<Rightarrow> lease list
      \<Rightarrow> string result" where
  "authorize_recovery sha live identity j c revoked =
     bindE (acquire_command_for j (hd revoked)) (\<lambda>a.
     bindE (rebuild_transition_snapshot live identity a) (\<lambda>s.
     bindE (current_authority_record s (recoveryAuthorityReference c) (recoveryAuthorityDigest c)
              ''recovery-controller'' ''RECOVERY_AUTHORITY_NOT_CURRENT'') (\<lambda>authority.
     bindE (read_current_authority_bytes sha live authority) (\<lambda>public_key.
     bindE (raise_if (\<not> is_ascii (recoveryAuthorityPublicKey c)) authority_not_current) (\<lambda>_.
     bindE (raise_if (recoveryAuthorityPublicKey c \<noteq> public_key) authority_not_current) (\<lambda>_.
     bindE (verify_sshsig_signature (live_ssh live) public_key (recovery_signature c)
              (recovery_signature_payload c) ''recovery-controller''
              ''agent-evolution-controlled-recovery-v1'' ''RECOVERY_SIGNATURE_INVALID'') (\<lambda>_.
     bindE (raise_if (set (map lease_snapshotFingerprint revoked) \<noteq> {snapshotFingerprint s})
              (Coordination_Error ''RECOVERY_AUTHORITY_SNAPSHOT_CHANGED'')) (\<lambda>_.
       Inr (snapshotFingerprint s)))))))))"

text \<open>The command binds the open evidence completely.\<close>

definition check_recovery_command ::
    "journal \<Rightarrow> recovery_command \<Rightarrow> recovery_evidence \<Rightarrow> unit result" where
  "check_recovery_command j c e =
     bindE (raise_if (conflicting_recovery j c)
              (Coordination_Error ''RECOVERY_IDEMPOTENCY_CONFLICT'')) (\<lambda>_.
     bindE (raise_if (recoveryState j \<noteq> PROJECT_WRITESET_RECOVERY)
              (Coordination_Error ''PROJECT_RECOVERY_NOT_PENDING'')) (\<lambda>_.
     bindE (raise_if (expectedJournalVersion c \<noteq> journalVersion j)
              (Coordination_Error ''RECOVERY_JOURNAL_VERSION_MISMATCH'')) (\<lambda>_.
     bindE (raise_if (observedWriteSet c \<noteq> evidence_observed e)
              (Coordination_Error ''RECOVERY_WRITESET_MISMATCH'')) (\<lambda>_.
     bindE (raise_if (affectedLeaseDecisions c \<noteq> evidence_decisions e)
              (Coordination_Error ''RECOVERY_DECISION_SET_MISMATCH'')) (\<lambda>_.
     raise_if (set (map quiescent_leaseId (processQuiescenceProofs c)) \<noteq> set (evidence_revoked e))
       (Coordination_Error ''RECOVERY_LEASE_SET_MISMATCH''))))))"

definition proofs_by_id :: "recovery_command \<Rightarrow> (string, quiescence_proof) dict" where
  "proofs_by_id c = dict_of (map (\<lambda>q. (quiescent_leaseId q, q)) (processQuiescenceProofs c))"

definition decisions_by_id :: "lease_decision list \<Rightarrow> (string, slice_state) dict" where
  "decisions_by_id ds = dict_of (map (\<lambda>d. (decided_leaseId d, decided_state d)) ds)"

text \<open>One revoked lane: its proof, its directory, and the ephemeral paths that remain in it.\<close>

definition check_recovered_lane ::
    "live_project \<Rightarrow> recovery_command \<Rightarrow> lease \<Rightarrow> string list result" where
  "check_recovered_lane live c l =
     bindE (lookupE (proofs_by_id c) (leaseId l)) (\<lambda>q.
     bindE (raise_if (quiescent_fencingToken q \<noteq> lease_fencingToken l)
              (Coordination_Error ''RECOVERY_FENCING_PROOF_MISMATCH'')) (\<lambda>_.
     bindE (validate_lane_physical_identity live l) (\<lambda>_.
     bindE (breach_inventory live l) (\<lambda>(_, _, remaining). Inr remaining))))"

definition recovered :: "recovery_command \<Rightarrow> lease \<Rightarrow> lease" where
  "recovered c l =
     (case (map_of (decisions_by_id (affectedLeaseDecisions c)) (leaseId l),
            map_of (proofs_by_id c) (leaseId l)) of
        (Some state, Some q) \<Rightarrow>
          l\<lparr>lease_state := state, released := True, recoveryStatus := CLEAR,
            lastTransitionAt := quiescent_observedAt q\<rparr>
      | _ \<Rightarrow> l)"

definition recovery_receipt ::
    "(string \<Rightarrow> string) \<Rightarrow> journal \<Rightarrow> recovery_command \<Rightarrow> recovery_evidence \<Rightarrow> string \<Rightarrow> receipt" where
  "recovery_receipt sha j c e fingerprint =
     (let token = Max (set (map quiescent_fencingToken (processQuiescenceProofs c))) in
      \<lparr>receiptId = receipt_id_of sha (journal_executionKey j) (journalVersion j + 1) (recovery_digest c) token,
       receipt_executionKey = journal_executionKey j, previousJournalVersion = journalVersion j,
       nextJournalVersion = journalVersion j + 1, receipt_commandDigest = recovery_digest c,
       receipt_fencingToken = token, receipt_previousState = None, receipt_nextState = None,
       receipt_snapshotFingerprint = fingerprint, receipt_journalDigest = zero_digest,
       recordedAt = Max (set (map quiescent_observedAt (processQuiescenceProofs c))),
       receipt_evidence_of =
         Recovery_Evidence c (evidence_observed e) (evidence_revoked e) (evidence_decisions e)\<rparr>)"

definition commit_recovery ::
    "(string \<Rightarrow> string) \<Rightarrow> journal \<Rightarrow> recovery_command \<Rightarrow> recovery_evidence \<Rightarrow> string \<Rightarrow> journal \<times> receipt" where
  "commit_recovery sha j c e fingerprint =
     append_receipt sha
       (j\<lparr>journalVersion := journalVersion j + 1, recoveryState := CLEAR,
          recoveryEvidence := Some (e\<lparr>recoveryCommand := Some c\<rparr>),
          leases := map (\<lambda>l. if leaseId l \<in> set (evidence_revoked e) then recovered c l else l) (leases j)\<rparr>)
       (recovery_receipt sha j c e fingerprint)"

definition recovery_step ::
    "(string \<Rightarrow> string) \<Rightarrow> live_project \<Rightarrow> project_identity \<Rightarrow> journal option \<Rightarrow> recovery_command
      \<Rightarrow> mutation_result step_outcome result" where
  "recovery_step sha live identity j c =
     (case j of
        None \<Rightarrow> Inl (Coordination_Error ''COORDINATOR_STATE_LOST'')
      | Some j \<Rightarrow>
          (case recoveryEvidence j of
             None \<Rightarrow>
               (case exact_recovery_replay j c of
                  Some r \<Rightarrow> replayed r
                | None \<Rightarrow> Inl (Coordination_Error ''PROJECT_RECOVERY_NOT_PENDING''))
           | Some e \<Rightarrow>
               bindE (revoked_leases j e) (\<lambda>revoked.
               bindE (authorize_recovery sha live identity j c revoked) (\<lambda>fingerprint.
               case exact_recovery_replay j c of
                 Some r \<Rightarrow> replayed r
               | None \<Rightarrow>
                   bindE (check_recovery_command j c e) (\<lambda>_.
                   bindE (mapE (check_recovered_lane live c) revoked) (\<lambda>remaining.
                   bindE (raise_if (concat remaining \<noteq> [])
                            (Coordination_Error ''EPHEMERAL_PATH_NOT_REMOVED'')) (\<lambda>_.
                   bindE (raise_if (\<not> set (evidence_revoked e) \<subseteq> set (map decided_leaseId (affectedLeaseDecisions c)))
                            Key_Error) (\<lambda>_.
                   let (j', r) = commit_recovery sha j c e fingerprint in Inr (Commit j' r))))))))) "

definition record_project_recovery ::
    "(string \<Rightarrow> string) \<Rightarrow> live_project \<Rightarrow> project_identity result \<Rightarrow> string \<Rightarrow> store_world \<Rightarrow> recovery_command
      \<Rightarrow> directory \<Rightarrow> mutation_result result \<times> directory" where
  "record_project_recovery sha live resolved root w raw d =
     (case bindE resolved (\<lambda>identity.
           bindE (normalize_recovery_command sha raw) (\<lambda>c.
           bindE (raise_if (recovery_executionKey c \<noteq> projectExecutionKey identity)
                    (Coordination_Error ''PROJECT_EXECUTION_KEY_MISMATCH'')) (\<lambda>_. Inr c))) of
        Inl e \<Rightarrow> (Inl e, d)
      | Inr c \<Rightarrow>
          with_store w root resolved d (\<lambda>identity s.
            under_lock sha (live_ssh live) s w (\<lambda>j. recovery_step sha live identity j c)
              finish_mutation))"

end
