(* ===== verification/Git_Text.thy ===== *)
theory Git_Text
  imports Coordinator_Recovery
begin

text \<open>
  The texts that \<open>controlled_write_guard.py\<close> reads before it trusts a lane: object identities,
  symbolic refs, packed refs, commit headers, tree objects, the staged index, literal ignore
  rules, and the paths a WriteSet may name. Every parser works on bytes, and every malformed input
  is an error value.
\<close>

section \<open>Errors of the guard\<close>

text \<open>
  \<open>Raised\<close> is an exception of the other modules, mostly a \<open>ControlledCoordinationError\<close> without
  paths; \<open>Breach\<close> is one that carries \<open>observedPaths\<close>. \<open>Missing_File\<close> is
  \<open>FileNotFoundError\<close>, which Python catches as an \<open>OSError\<close> too.
\<close>

datatype guard_error =
    Raised harness_error
  | Breach string "string list"
  | OS_Error
  | Missing_File
  | Index_Error

type_synonym 'a guarded = "guard_error + 'a"

abbreviation guard_error :: "string \<Rightarrow> guard_error" where
  "guard_error code \<equiv> Raised (Coordination_Error code)"

abbreviation unsafe_target :: guard_error where
  "unsafe_target \<equiv> guard_error ''UNSAFE_WRITE_TARGET''"

abbreviation inventory_unavailable :: guard_error where
  "inventory_unavailable \<equiv> guard_error ''LANE_INVENTORY_UNAVAILABLE''"

text \<open>\<open>except OSError\<close>, which \<open>FileNotFoundError\<close> is a case of.\<close>

fun is_os_error :: "guard_error \<Rightarrow> bool" where
  "is_os_error OS_Error = True"
| "is_os_error Missing_File = True"
| "is_os_error _ = False"

definition except_os :: "guard_error \<Rightarrow> 'a guarded \<Rightarrow> 'a guarded" where
  "except_os e m = (case m of Inl x \<Rightarrow> if is_os_error x then Inl e else Inl x | Inr a \<Rightarrow> Inr a)"

lemma except_os_eq_Inr [result_simps]: "except_os e m = Inr a \<longleftrightarrow> m = Inr a"
  by (auto simp: except_os_def split: sum.splits if_splits)

lemma except_os_Inr [simp]: "except_os e (Inr a) = Inr a"
  by (simp add: except_os_def)

text \<open>An exception of another module passes through.\<close>

definition raised :: "'a result \<Rightarrow> 'a guarded" where
  "raised m = (case m of Inl e \<Rightarrow> Inl (Raised e) | Inr a \<Rightarrow> Inr a)"

lemma raised_eq_Inr [result_simps]: "raised m = Inr a \<longleftrightarrow> m = Inr a"
  by (simp add: raised_def split: sum.splits)

lemma raised_Inr [simp]: "raised (Inr a) = Inr a"
  by (simp add: raised_def)

section \<open>UTF-8\<close>

abbreviation byte :: "char \<Rightarrow> nat" where "byte c \<equiv> of_char c"

definition continuation_byte :: "nat \<Rightarrow> bool" where
  "continuation_byte b = (128 \<le> b \<and> b < 192)"

text \<open>\<open>bytes.decode("utf-8", "strict")\<close> succeeds: neither overlong forms nor surrogates.\<close>

fun utf8_bytes :: "nat list \<Rightarrow> bool" where
  "utf8_bytes [] = True"
| "utf8_bytes (a # r) =
     (if a < 128 then utf8_bytes r
      else if 194 \<le> a \<and> a \<le> 223 then
        (case r of b # s \<Rightarrow> continuation_byte b \<and> utf8_bytes s | _ \<Rightarrow> False)
      else if 224 \<le> a \<and> a \<le> 239 then
        (case r of
           b # c # s \<Rightarrow> continuation_byte b \<and> continuation_byte c
             \<and> (a = 224 \<longrightarrow> 160 \<le> b) \<and> (a = 237 \<longrightarrow> b < 160) \<and> utf8_bytes s
         | _ \<Rightarrow> False)
      else if 240 \<le> a \<and> a \<le> 244 then
        (case r of
           b # c # d # s \<Rightarrow> continuation_byte b \<and> continuation_byte c \<and> continuation_byte d
             \<and> (a = 240 \<longrightarrow> 144 \<le> b) \<and> (a = 244 \<longrightarrow> b < 144) \<and> utf8_bytes s
         | _ \<Rightarrow> False)
      else False)"

definition is_utf8 :: "string \<Rightarrow> bool" where
  "is_utf8 s = utf8_bytes (map byte s)"

text \<open>\<open>len\<close> of the decoded text: the bytes that start a character.\<close>

definition text_length :: "string \<Rightarrow> nat" where
  "text_length s = length (filter (\<lambda>c. \<not> continuation_byte (byte c)) s)"

abbreviation nul :: char where "nul \<equiv> CHR 0x00"

text \<open>\<open>bytes.partition\<close>: the text before the first separator and the text after it.\<close>

definition partition_on :: "char \<Rightarrow> string \<Rightarrow> (string \<times> string) option" where
  "partition_on c s =
     (if c \<in> set s then Some (takeWhile (\<lambda>x. x \<noteq> c) s, tl (dropWhile (\<lambda>x. x \<noteq> c) s)) else None)"

lemma partition_on_append: "c \<notin> set a \<Longrightarrow> partition_on c (a @ c # b) = Some (a, b)"
  by (induction a) (auto simp: partition_on_def)

lemma partition_on_eq: "partition_on c s = Some (a, b) \<longleftrightarrow> s = a @ c # b \<and> c \<notin> set a"
proof
  assume p: "partition_on c s = Some (a, b)"
  then have "c \<in> set s" "a = takeWhile (\<lambda>x. x \<noteq> c) s" "b = tl (dropWhile (\<lambda>x. x \<noteq> c) s)"
    by (auto simp: partition_on_def split: if_splits)
  moreover from this(1) have "dropWhile (\<lambda>x. x \<noteq> c) s = c # tl (dropWhile (\<lambda>x. x \<noteq> c) s)"
    by (induction s) auto
  ultimately show "s = a @ c # b \<and> c \<notin> set a"
    by (metis (full_types) set_takeWhileD takeWhile_dropWhile_id)
qed (simp add: partition_on_append)

text \<open>The nonempty lines of \<open>bytes.splitlines()\<close>; the callers skip the empty ones.\<close>

definition byte_lines :: "string \<Rightarrow> string list" where
  "byte_lines s =
     filter (\<lambda>l. l \<noteq> []) (concat (map (split_on (CHR 0x0D)) (split_on newline s)))"

text \<open>
  The nonempty lines of \<open>str.splitlines()\<close>, which also breaks at the other line boundaries of
  Unicode.
\<close>

fun line_breaks :: "string \<Rightarrow> string" where
  "line_breaks [] = []"
| "line_breaks (a # s) =
     (if byte a \<in> {10, 11, 12, 13, 28, 29, 30} then newline # line_breaks s
      else if byte a = 194 \<and> map byte (take 1 s) = [133] then newline # line_breaks (drop 1 s)
      else if byte a = 226 \<and> map byte (take 2 s) \<in> {[128, 168], [128, 169]}
        then newline # line_breaks (drop 2 s)
      else a # line_breaks s)"

definition text_lines :: "string \<Rightarrow> string list" where
  "text_lines s = filter (\<lambda>l. l \<noteq> []) (split_on newline (line_breaks s))"

text \<open>The encodings of the characters \<open>str.strip()\<close> removes.\<close>

definition space_encodings :: "nat list list" where
  "space_encodings =
     map (\<lambda>n. [n]) ([9..<14] @ [28..<33]) @ [[194, 133], [194, 160], [225, 154, 128]]
     @ map (\<lambda>n. [226, 128, n]) ([128..<139] @ [168, 169, 175]) @ [[226, 129, 159], [227, 128, 128]]"

text \<open>\<open>s != s.strip()\<close>\<close>

definition has_outer_space :: "string \<Rightarrow> bool" where
  "has_outer_space s =
     list_ex (\<lambda>e. take (length e) (map byte s) = e
                \<or> (length e \<le> length s \<and> drop (length s - length e) (map byte s) = e)) space_encodings"

section \<open>Paths\<close>

text \<open>\<open>os.path.normpath\<close>\<close>

definition norm_name :: "string \<Rightarrow> string \<Rightarrow> string list \<Rightarrow> string list" where
  "norm_name root name names =
     (if name \<noteq> ''..'' \<or> (root = [] \<and> names = []) \<or> (names \<noteq> [] \<and> last names = ''..'')
      then names @ [name] else butlast names)"

definition normpath :: "string \<Rightarrow> string" where
  "normpath s = path_str (path_root s) (fold (norm_name (path_root s)) (path_names s) [])"

text \<open>\<open>_canonical_absolute\<close>: its argument is a \<open>Path\<close>, so \<open>os.fspath\<close> is the text \<open>Path\<close> prints.\<close>

definition guard_absolute :: "string \<Rightarrow> string guarded" where
  "guard_absolute path =
     (let raw = as_posix path in
      if raw = [] \<or> nul \<in> set raw \<or> \<not> has_prefix ''/'' raw \<or> normpath raw \<noteq> raw
      then Inl unsafe_target else Inr raw)"

text \<open>
  \<open>_canonical_relative\<close>. The last test reads \<open>path.parts[0]\<close>, which the current directory
  \<open>.\<close> does not have.
\<close>

definition guard_relative :: "string \<Rightarrow> string guarded" where
  "guard_relative value =
     (if value = [] \<or> nul \<in> set value then Inl unsafe_target
      else if is_absolute value \<or> value \<noteq> as_posix value
          \<or> list_ex (\<lambda>part. part \<in> {[], ''.'', ''..''}) (path_parts value)
        then Inl unsafe_target
      else (case path_parts value of
          [] \<Rightarrow> Inl Index_Error
        | part # _ \<Rightarrow> if part = ''.git'' then Inl unsafe_target else Inr value))"

section \<open>Object identities and refs\<close>

definition git_oid :: "string \<Rightarrow> string option" where
  "git_oid raw = (if length raw \<in> {40, 64} \<and> list_all is_hex raw then Some raw else None)"

definition git_ref :: "string \<Rightarrow> string guarded" where
  "git_ref raw =
     (if \<not> is_utf8 raw then Inl OS_Error
      else if \<not> has_prefix ''refs/'' raw \<or> 1024 < text_length raw \<or> is_absolute raw
          \<or> as_posix raw \<noteq> raw
          \<or> list_ex (\<lambda>part. part \<in> {[], ''.'', ''..''}) (path_parts raw)
          \<or> list_ex (\<lambda>c. c \<in> set raw) [backslash, nul, CHR 0x0D, newline]
        then Inl OS_Error
      else Inr raw)"

text \<open>The identities that \<open>packed-refs\<close> gives to a reference.\<close>

definition packed_entry :: "string \<Rightarrow> string \<Rightarrow> string list \<Rightarrow> string list guarded" where
  "packed_entry reference line found =
     (if has_prefix ''#'' line \<or> has_prefix ''^'' line then Inr found
      else (case split_on (CHR '' '') line of
          [oid, name] \<Rightarrow>
            if \<not> is_utf8 name then Inl OS_Error
            else if name = reference then
              (case git_oid oid of None \<Rightarrow> Inl OS_Error | Some i \<Rightarrow> Inr (found @ [i]))
            else Inr found
        | _ \<Rightarrow> Inl OS_Error))"

definition packed_ref_oid :: "string \<Rightarrow> string \<Rightarrow> string guarded" where
  "packed_ref_oid packed reference =
     bindE (foldE (packed_entry reference) (byte_lines packed) []) (\<lambda>found.
       case found of [oid] \<Rightarrow> Inr oid | _ \<Rightarrow> Inl OS_Error)"

text \<open>One line with its newline, as \<open>HEAD\<close> and the loose refs are read.\<close>

definition sole_line :: "string \<Rightarrow> string option" where
  "sole_line contents =
     (if contents \<noteq> [] \<and> last contents = newline \<and> newline \<notin> set (butlast contents)
      then Some (butlast contents) else None)"

section \<open>Objects\<close>

text \<open>A decimal that \<open>str(int(field))\<close> reproduces.\<close>

definition canonical_size :: "string \<Rightarrow> nat option" where
  "canonical_size field =
     (if field \<noteq> [] \<and> list_all is_digit field \<and> dec_nat (read_nat field) = field
      then Some (read_nat field) else None)"

text \<open>The reply of \<open>git cat-file --batch-check\<close>, and the header of \<open>--batch\<close>.\<close>

definition object_header :: "string \<Rightarrow> string \<Rightarrow> string \<Rightarrow> nat guarded" where
  "object_header oid type header =
     (case split_on (CHR '' '') header of
        [i, t, n] \<Rightarrow>
          (case canonical_size n of
             Some len \<Rightarrow> if git_oid i = Some oid \<and> t = type then Inr len else Inl OS_Error
           | None \<Rightarrow> Inl OS_Error)
      | _ \<Rightarrow> Inl OS_Error)"

definition object_bytes :: "string \<Rightarrow> string \<Rightarrow> string" where
  "object_bytes type body = type @ CHR '' '' # dec_nat (length body) @ nul # body"

definition object_body :: "string \<Rightarrow> string \<Rightarrow> nat \<Rightarrow> string \<Rightarrow> string guarded" where
  "object_body oid type len output =
     (case partition_on newline output of
        None \<Rightarrow> Inl OS_Error
      | Some (header, remainder) \<Rightarrow>
          bindE (object_header oid type header) (\<lambda>output_size.
          if output_size \<noteq> len \<or> length remainder \<noteq> output_size + 1 \<or> last remainder \<noteq> newline
          then Inl OS_Error else Inr (butlast remainder)))"

text \<open>\<open>_commit_tree_identity\<close>\<close>

definition commit_tree_identity :: "string \<Rightarrow> string guarded" where
  "commit_tree_identity body =
     (case commit_header body of
        None \<Rightarrow> Inl OS_Error
      | Some header \<Rightarrow>
          (case header_values ''tree '' header of
             [tree] \<Rightarrow> (case git_oid tree of None \<Rightarrow> Inl OS_Error | Some i \<Rightarrow> Inr i)
           | _ \<Rightarrow> Inl OS_Error))"

text \<open>The entries of one tree object: mode, name and object identity, in the order of the bytes.\<close>

definition hex_of :: "char \<Rightarrow> string" where
  "hex_of c = [''0123456789abcdef'' ! (byte c div 16), ''0123456789abcdef'' ! (byte c mod 16)]"

record tree_entry =
  tree_mode :: string
  tree_name :: string
  tree_object :: string

function tree_entries :: "nat \<Rightarrow> string list \<Rightarrow> string \<Rightarrow> tree_entry list guarded" where
  "tree_entries n seen body =
     (if body = [] then Inr []
      else (case partition_on (CHR '' '') body of
          None \<Rightarrow> Inl OS_Error
        | Some (mode, rest) \<Rightarrow>
            (case partition_on nul rest of
               None \<Rightarrow> Inl OS_Error
             | Some (name, rest') \<Rightarrow>
                 if mode = [] \<or> name = [] \<or> length rest' < n \<or> \<not> is_ascii mode \<or> \<not> is_utf8 name
                   \<or> name \<in> {''.'', ''..''} \<or> slash \<in> set name \<or> name \<in> set seen
                 then Inl OS_Error
                 else bindE (tree_entries n (name # seen) (drop n rest')) (\<lambda>es.
                   Inr (\<lparr>tree_mode = mode, tree_name = name,
                         tree_object = concat (map hex_of (take n rest'))\<rparr> # es)))))"
  by pat_completeness auto
termination
proof (relation "measure (\<lambda>(n, seen, body). length body)", goal_cases)
  case 1
  show ?case by simp
next
  case (2 n seen body parts mode rest parts' name rest')
  then have "body = mode @ CHR '' '' # rest" "rest = name @ nul # rest'"
    by (metis partition_on_eq)+
  then show ?case by simp
qed

declare tree_entries.simps [simp del]

end
