(* ===== verification/Lane_Tree.thy ===== *)
theory Lane_Tree
  imports Git_Text
begin

text \<open>
  The file tree that \<open>controlled_write_guard.py\<close> sees: the no-follow opens, the bounded reads,
  the anchors of the declared write targets, and the scan of a lane. A directory is the list of
  its named children. The scan works on one state of the tree; \<open>unstable\<close> marks the relative
  paths that change while they are read, for which the code compares two \<open>stat\<close> results.
\<close>

section \<open>Trees\<close>

record node_stat =
  node_device :: int
  node_inode :: int
  node_perms :: int
  node_uid :: int
  node_gid :: int

datatype lane_node =
    Lane_Directory node_stat "(string \<times> lane_node) list"
  | Lane_Regular node_stat string
  | Lane_Symlink node_stat string
  | Lane_Special node_stat

fun stat_of :: "lane_node \<Rightarrow> node_stat" where
  "stat_of (Lane_Directory s _) = s"
| "stat_of (Lane_Regular s _) = s"
| "stat_of (Lane_Symlink s _) = s"
| "stat_of (Lane_Special s) = s"

fun kind_of :: "lane_node \<Rightarrow> file_kind" where
  "kind_of (Lane_Directory _ _) = Directory_Kind"
| "kind_of (Lane_Regular _ _) = Regular"
| "kind_of (Lane_Symlink _ _) = Symlink"
| "kind_of (Lane_Special _) = Other_Kind"

type_synonym node_identity = "int \<times> int \<times> file_kind"

definition node_identity :: "lane_node \<Rightarrow> node_identity" where
  "node_identity n = (node_device (stat_of n), node_inode (stat_of n), kind_of n)"

abbreviation is_directory :: "lane_node \<Rightarrow> bool" where
  "is_directory n \<equiv> kind_of n = Directory_Kind"

fun children :: "lane_node \<Rightarrow> (string \<times> lane_node) list" where
  "children (Lane_Directory _ cs) = cs"
| "children _ = []"

section \<open>Opens that follow no symlink\<close>

text \<open>\<open>os.open(part, _DIRECTORY_FLAGS, dir_fd=current)\<close>\<close>

definition open_directory :: "lane_node \<Rightarrow> string \<Rightarrow> lane_node guarded" where
  "open_directory d part =
     (case map_of (children d) part of
        None \<Rightarrow> Inl Missing_File
      | Some n \<Rightarrow> if is_directory n then Inr n else Inl OS_Error)"

text \<open>\<open>os.open(part, _READ_FLAGS, dir_fd=current)\<close>\<close>

definition open_file :: "lane_node \<Rightarrow> string \<Rightarrow> lane_node guarded" where
  "open_file d part =
     (case map_of (children d) part of
        None \<Rightarrow> Inl Missing_File
      | Some n \<Rightarrow> if kind_of n = Symlink then Inl OS_Error else Inr n)"

text \<open>\<open>os.stat(part, dir_fd=current, follow_symlinks=False)\<close>\<close>

definition stat_name :: "lane_node \<Rightarrow> string \<Rightarrow> lane_node guarded" where
  "stat_name d part = (case map_of (children d) part of None \<Rightarrow> Inl Missing_File | Some n \<Rightarrow> Inr n)"

fun open_directories :: "lane_node \<Rightarrow> string list \<Rightarrow> lane_node guarded" where
  "open_directories d [] = Inr d"
| "open_directories d (part # parts) = bindE (open_directory d part) (\<lambda>n. open_directories n parts)"

text \<open>\<open>_open_absolute_directory_no_follow\<close>: from the root of the file system.\<close>

definition open_absolute_directory :: "lane_node \<Rightarrow> string \<Rightarrow> lane_node guarded" where
  "open_absolute_directory root path = open_directories root (path_names path)"

text \<open>\<open>_open_relative_no_follow\<close>\<close>

definition open_relative :: "lane_node \<Rightarrow> string \<Rightarrow> bool \<Rightarrow> lane_node guarded" where
  "open_relative lane relative directory =
     (let parts = path_parts relative in
      if relative = [] \<or> parts = [] then Inr lane
      else bindE (open_directories lane (butlast parts)) (\<lambda>d.
        if directory then open_directory d (last parts) else open_file d (last parts)))"

text \<open>\<open>_read_bounded_regular_file\<close>\<close>

definition read_bounded :: "lane_node \<Rightarrow> string \<Rightarrow> nat \<Rightarrow> string guarded" where
  "read_bounded root relative maximum =
     bindE (open_relative root relative False) (\<lambda>n.
     case n of
       Lane_Regular _ contents \<Rightarrow> if maximum < length contents then Inl OS_Error else Inr contents
     | _ \<Rightarrow> Inl OS_Error)"

text \<open>\<open>_path_exists_no_follow\<close>: a component that cannot be opened counts as present.\<close>

fun path_exists_in :: "lane_node \<Rightarrow> string list \<Rightarrow> bool" where
  "path_exists_in d [] = False"
| "path_exists_in d [part] = (map_of (children d) part \<noteq> None)"
| "path_exists_in d (part # parts) =
     (case open_directory d part of
        Inr n \<Rightarrow> path_exists_in n parts
      | Inl e \<Rightarrow> e \<noteq> Missing_File)"

definition path_exists :: "lane_node \<Rightarrow> string \<Rightarrow> bool" where
  "path_exists lane relative = path_exists_in lane (path_parts relative)"

definition ephemeral_presence :: "lane_node \<Rightarrow> string list \<Rightarrow> string list \<times> string list" where
  "ephemeral_presence lane ephemeral =
     (let existing = filter (path_exists lane) ephemeral in
      (sort (remdups (filter (\<lambda>p. p \<notin> set existing) ephemeral)), sort (remdups existing)))"

section \<open>Anchored write targets\<close>

record anchored_target =
  target_relative :: string
  target_absolute :: string
  target_identity :: "node_identity option"
  target_is_directory :: bool
  target_is_ephemeral :: bool
  target_ancestors :: "(string \<times> node_identity) list"

text \<open>
  The walk of \<open>_open_target_no_follow\<close>: the identities of the directories on the way, then the
  target itself, which may be missing.
\<close>

fun walk_target :: "lane_node \<Rightarrow> string list \<Rightarrow> string list
    \<Rightarrow> ((string \<times> node_identity) list \<times> lane_node option) guarded" where
  "walk_target d prefix [] = Inl (Raised Assertion_Error)"
| "walk_target d prefix [part] =
     (case open_file d part of
        Inr n \<Rightarrow> if kind_of n \<in> {Directory_Kind, Regular} then Inr ([], Some n) else Inl unsafe_target
      | Inl e \<Rightarrow> if e = Missing_File then Inr ([], None) else Inl unsafe_target)"
| "walk_target d prefix (part # parts) =
     (case open_directory d part of
        Inl _ \<Rightarrow> Inl unsafe_target
      | Inr n \<Rightarrow>
          bindE (walk_target n (prefix @ [part]) parts) (\<lambda>(ancestors, target).
            Inr ((path_str [] (prefix @ [part]), node_identity n) # ancestors, target)))"

definition open_target :: "lane_node \<Rightarrow> string \<Rightarrow> bool \<Rightarrow> string \<Rightarrow> anchored_target guarded" where
  "open_target lane lane_root is_ephemeral relative =
     bindE (walk_target lane [] (path_parts relative)) (\<lambda>(ancestors, target).
       Inr \<lparr>target_relative = relative,
            target_absolute = as_posix (lane_root @ ''/'' @ relative),
            target_identity = map_option node_identity target,
            target_is_directory = (case target of None \<Rightarrow> False | Some n \<Rightarrow> is_directory n),
            target_is_ephemeral = is_ephemeral,
            target_ancestors = ([], node_identity lane) # ancestors\<rparr>)"

text \<open>\<open>_revalidate_targets\<close>, one target: the named ancestors and target are still the anchored ones.\<close>

definition target_changed :: guard_error where
  "target_changed = guard_error ''WRITE_TARGET_IDENTITY_CHANGED''"

definition check_ancestor :: "lane_node \<Rightarrow> string \<times> node_identity \<Rightarrow> unit guarded" where
  "check_ancestor lane ancestor =
     except_os target_changed
       (bindE (open_relative lane (fst ancestor) True) (\<lambda>n.
          raise_if (node_identity n \<noteq> snd ancestor) OS_Error))"

definition check_target :: "lane_node \<Rightarrow> anchored_target \<Rightarrow> unit guarded" where
  "check_target lane t =
     except_os target_changed
       (case target_identity t of
          None \<Rightarrow>
            (case open_relative lane (target_relative t) False of
               Inl e \<Rightarrow> if e = Missing_File then Inr () else Inl e
             | Inr n \<Rightarrow> raise_if (kind_of n \<notin> {Regular, Directory_Kind}) OS_Error)
        | Some i \<Rightarrow>
            bindE (open_relative lane (target_relative t) (target_is_directory t)) (\<lambda>n.
              raise_if (node_identity n \<noteq> i) OS_Error))"

definition revalidate_targets :: "lane_node \<Rightarrow> anchored_target list \<Rightarrow> unit guarded" where
  "revalidate_targets lane ts =
     eachE (\<lambda>t. bindE (eachE (check_ancestor lane) (target_ancestors t)) (\<lambda>_. check_target lane t)) ts"

section \<open>The scan of a lane\<close>

text \<open>The hashes of the host, and the paths that change while the scan reads them.\<close>

record scan_host =
  host_sha256 :: "string \<Rightarrow> string"
  host_sha1 :: "string \<Rightarrow> string"
  unstable :: "string \<Rightarrow> bool"

record lane_entry =
  entry_type :: string
  entry_device :: int
  entry_inode :: int
  entry_sha256 :: "string option"
  entry_mode :: "string option"
  entry_gitSha1 :: "string option"
  entry_gitSha256 :: "string option"
  entry_physicalMode :: int

definition plain_entry :: "string \<Rightarrow> node_stat \<Rightarrow> lane_entry" where
  "plain_entry type s =
     \<lparr>entry_type = type, entry_device = node_device s, entry_inode = node_inode s,
      entry_sha256 = None, entry_mode = None, entry_gitSha1 = None, entry_gitSha256 = None,
      entry_physicalMode = node_perms s\<rparr>"

text \<open>\<open>perms & 0o111\<close>\<close>

definition any_execute :: "int \<Rightarrow> bool" where
  "any_execute perms = (bit perms 6 \<or> bit perms 3 \<or> bit perms 0)"

definition blob_entry :: "'h scan_host_scheme \<Rightarrow> string \<Rightarrow> string \<Rightarrow> string \<Rightarrow> node_stat \<Rightarrow> lane_entry" where
  "blob_entry h type mode blob s =
     (plain_entry type s)\<lparr>entry_mode := Some mode,
        entry_gitSha1 := Some (host_sha1 h (object_bytes ''blob'' blob)),
        entry_gitSha256 := Some (host_sha256 h (object_bytes ''blob'' blob))\<rparr>"

fun entry_of :: "'h scan_host_scheme \<Rightarrow> lane_node \<Rightarrow> lane_entry" where
  "entry_of h (Lane_Directory s _) = plain_entry ''DIRECTORY'' s"
| "entry_of h (Lane_Regular s contents) =
     (blob_entry h ''REGULAR'' (if any_execute (node_perms s) then ''100755'' else ''100644'') contents s)
       \<lparr>entry_sha256 := Some (host_sha256 h contents)\<rparr>"
| "entry_of h (Lane_Symlink s target) = blob_entry h ''SYMLINK'' ''120000'' target s"
| "entry_of h (Lane_Special s) = plain_entry ''OTHER'' s"

record scan_state =
  scan_nodes :: "(string, lane_entry) dict"
  scan_leaves :: "string list"
  scan_count :: nat
  scan_bytes :: nat

abbreviation max_depth :: nat where "max_depth \<equiv> 64"
abbreviation max_entries :: nat where "max_entries \<equiv> 100000"
abbreviation max_file :: nat where "max_file \<equiv> 268435456"
abbreviation max_bytes :: nat where "max_bytes \<equiv> 1073741824"

text \<open>The relative path of one child, checked as the code checks it.\<close>

definition scan_name :: "string list \<Rightarrow> string \<Rightarrow> string guarded" where
  "scan_name prefix name =
     bindE (raise_if (\<not> is_utf8 name) OS_Error) (\<lambda>_.
     bindE (raise_if (name \<in> {[], ''.'', ''..''} \<or> slash \<in> set name) OS_Error) (\<lambda>_.
       guard_relative (path_str [] (prefix @ [name]))))"

definition count_entry :: "scan_state \<Rightarrow> scan_state guarded" where
  "count_entry st =
     (if max_entries < scan_count st + 1 then Inl OS_Error
      else Inr (st\<lparr>scan_count := scan_count st + 1\<rparr>))"

definition put_entry :: "string \<Rightarrow> lane_entry \<Rightarrow> scan_state \<Rightarrow> scan_state" where
  "put_entry relative e st = st\<lparr>scan_nodes := AList.update relative e (scan_nodes st)\<rparr>"

definition put_leaf :: "string \<Rightarrow> scan_state \<Rightarrow> scan_state" where
  "put_leaf relative st = st\<lparr>scan_leaves := scan_leaves st @ [relative]\<rparr>"

text \<open>The bytes of a regular file count against two limits.\<close>

fun count_bytes :: "lane_node \<Rightarrow> scan_state \<Rightarrow> scan_state guarded" where
  "count_bytes (Lane_Regular _ contents) st =
     (if max_file < length contents \<or> max_bytes < scan_bytes st + length contents then Inl OS_Error
      else Inr (st\<lparr>scan_bytes := scan_bytes st + length contents\<rparr>))"
| "count_bytes _ st = Inr st"

lemma foldE_fundef_cong [fundef_cong]:
  "xs = ys \<Longrightarrow> s = t \<Longrightarrow> (\<And>x s. x \<in> set ys \<Longrightarrow> f x s = g x s) \<Longrightarrow> foldE f xs s = foldE g ys t"
  by (induction xs arbitrary: ys s t) (auto simp: bindE_def split: sum.splits)

lemma bindE_fundef_cong [fundef_cong]:
  "m = n \<Longrightarrow> (\<And>x. n = Inr x \<Longrightarrow> f x = g x) \<Longrightarrow> bindE m f = bindE n g"
  by (cases n) auto

lemma child_smaller:
  "(name, n) \<in> set cs \<Longrightarrow> size n < Suc (size_list (size_prod (\<lambda>_. 0) size) cs)"
  by (induction cs) auto

text \<open>
  \<open>visit\<close>: the children of a directory in the order of their names. The result counts the
  visible children; a directory without any is a leaf.
\<close>

function (sequential) scan_children ::
    "'h scan_host_scheme \<Rightarrow> nat \<Rightarrow> string list \<Rightarrow> (string \<times> lane_node) list \<Rightarrow> scan_state \<Rightarrow> (nat \<times> scan_state) guarded" where
  "scan_children h depth prefix cs st =
     bindE (raise_if (max_depth < depth) OS_Error) (\<lambda>_.
     foldE (\<lambda>(name, node) (visible, st).
       if prefix = [] \<and> name = ''.git'' then Inr (visible, st)
       else
         bindE (scan_name prefix name) (\<lambda>relative.
         bindE (count_entry st) (\<lambda>st.
         bindE (raise_if (unstable h relative) OS_Error) (\<lambda>_.
         bindE (count_bytes node st) (\<lambda>st.
           let st = put_entry relative (entry_of h node) st in
           case node of
             Lane_Directory s grandchildren \<Rightarrow>
               bindE (scan_children h (Suc depth) (prefix @ [name]) grandchildren st) (\<lambda>(n, st).
                 Inr (Suc visible, if n = 0 then put_leaf relative st else st))
           | _ \<Rightarrow> Inr (Suc visible, put_leaf relative st))))))
       (sort_key fst cs) (0, st))"
  by pat_completeness auto
termination
  by (relation "measure (\<lambda>(h, depth, prefix, cs, st). size_list (size_prod (\<lambda>_. 0) size) cs)")
    (auto dest!: child_smaller)

declare scan_children.simps [simp del]

definition empty_scan :: scan_state where
  "empty_scan = \<lparr>scan_nodes = [], scan_leaves = [], scan_count = 0, scan_bytes = 0\<rparr>"

type_synonym lane_snapshot = "(string, lane_entry) dict \<times> string list"

definition scan_lane_tree :: "'h scan_host_scheme \<Rightarrow> lane_node \<Rightarrow> lane_snapshot guarded" where
  "scan_lane_tree h lane =
     bindE (scan_children h 0 [] (children lane) empty_scan) (\<lambda>(_, st).
       Inr (scan_nodes st, scan_leaves st))"

end
