(* ===== verification/Git_Boundary.thy ===== *)
theory Git_Boundary
  imports Lane_Tree
begin

text \<open>
  The sealed view of a lane's Git repository: the identities \<open>_open_git_boundary\<close> anchors and
  \<open>_verify_git_boundary\<close> compares again, and the reads that go through it: \<open>HEAD\<close>, objects,
  the staged index and the entries of a commit. The \<open>git\<close> executable is a parameter: what it
  prints for an object directory, and for an index. A directory the code holds open is read by its
  name, which the boundary check requires to be the same directory.
\<close>

section \<open>The machine\<close>

record machine =
  machine_root :: lane_node
  git_executable :: "lane_node option"
  sandbox_executable :: "lane_node option"

text \<open>
  \<open>git_batch\<close> is the standard output of \<open>git cat-file --batch-check\<close> (\<open>True\<close>) or
  \<open>--batch\<close> on an object directory, \<open>git_stage\<close> that of \<open>git ls-files -z --stage\<close> on an
  administration directory and the contents of its index. \<open>None\<close> is a process that cannot start,
  times out, or fails where the code looks at its exit status.
\<close>

record guard_host = scan_host +
  git_batch :: "lane_node \<Rightarrow> bool \<Rightarrow> string \<Rightarrow> string option"
  git_stage :: "lane_node \<Rightarrow> string \<Rightarrow> string option"

record git_boundary =
  boundary_lane :: string
  lane_identity_of :: node_identity
  dot_git_identity :: node_identity
  dot_git_directory :: bool
  dot_git_contents :: "string option"
  admin_root :: string
  admin_identity :: node_identity
  commondir :: "(node_identity \<times> string) option"
  common_admin_root :: string
  common_admin_identity :: node_identity
  objects_identity :: node_identity
  git_identity :: node_identity
  boundary_code :: string

text \<open>Every handler of the boundary turns an \<open>OSError\<close> into the error of the boundary.\<close>

definition sealed_error :: "string \<Rightarrow> 'a guarded \<Rightarrow> 'a guarded" where
  "sealed_error code m =
     (case m of
        Inl (Raised (Coordination_Error _)) \<Rightarrow> Inl (guard_error code)
      | Inl e \<Rightarrow> if is_os_error e then Inl (guard_error code) else Inl e
      | Inr a \<Rightarrow> Inr a)"

lemma sealed_error_eq_Inr [result_simps]: "sealed_error code m = Inr a \<longleftrightarrow> m = Inr a"
  by (auto simp: sealed_error_def split: sum.splits guard_error.splits harness_error.splits if_splits)

section \<open>Opening the boundary\<close>

text \<open>\<open>stat.S_IMODE(mode) & (S_IWGRP | S_IWOTH)\<close>\<close>

definition others_write :: "int \<Rightarrow> bool" where
  "others_write perms = (bit perms 4 \<or> bit perms 1)"

definition system_executable :: "lane_node option \<Rightarrow> lane_node guarded" where
  "system_executable found =
     (case found of
        None \<Rightarrow> Inl Missing_File
      | Some n \<Rightarrow>
          if kind_of n \<noteq> Regular \<or> node_uid (stat_of n) \<noteq> 0 \<or> node_gid (stat_of n) \<noteq> 0
             \<or> others_write (node_perms (stat_of n))
          then Inl OS_Error else Inr n)"

definition checked_git :: "machine \<Rightarrow> lane_node guarded" where
  "checked_git m =
     bindE (system_executable (git_executable m)) (\<lambda>n.
     bindE (raise_if (\<not> any_execute (node_perms (stat_of n))) OS_Error) (\<lambda>_. Inr n))"

text \<open>\<open>_read_small_descriptor\<close>\<close>

definition read_small :: "lane_node \<Rightarrow> string guarded" where
  "read_small n =
     (case n of
        Lane_Regular _ contents \<Rightarrow> if 4096 < length contents then Inl OS_Error else Inr contents
      | _ \<Rightarrow> Inl OS_Error)"

text \<open>The administration directory: \<open>.git\<close> itself, or the directory that a \<open>gitdir:\<close> file names.\<close>

definition admin_link :: "string \<Rightarrow> string guarded" where
  "admin_link contents =
     (case (is_utf8 contents, sole_line contents) of
        (True, Some line) \<Rightarrow>
          if has_prefix ''gitdir: '' line then guard_absolute (drop 8 line) else Inl OS_Error
      | _ \<Rightarrow> Inl OS_Error)"

definition open_admin ::
    "machine \<Rightarrow> string \<Rightarrow> lane_node \<Rightarrow> (lane_node \<times> string option \<times> string \<times> lane_node) guarded" where
  "open_admin m lane_root lane =
     bindE (stat_name lane ''.git'') (\<lambda>named.
     case named of
       Lane_Directory _ _ \<Rightarrow> Inr (named, None, lane_root @ ''/.git'', named)
     | Lane_Regular _ _ \<Rightarrow>
         bindE (read_small named) (\<lambda>contents.
         bindE (admin_link contents) (\<lambda>root.
         bindE (open_absolute_directory (machine_root m) root) (\<lambda>admin.
           Inr (named, Some contents, root, admin))))
     | _ \<Rightarrow> Inl OS_Error)"

text \<open>\<open>os.path.join\<close>\<close>

definition path_join :: "string \<Rightarrow> string \<Rightarrow> string" where
  "path_join a b = (if has_prefix ''/'' b then b else a @ ''/'' @ b)"

definition open_common ::
    "machine \<Rightarrow> string \<Rightarrow> lane_node \<Rightarrow> ((node_identity \<times> string) option \<times> string \<times> lane_node) guarded" where
  "open_common m root admin =
     (case stat_name admin ''commondir'' of
        Inl e \<Rightarrow> Inr (None, root, admin)
      | Inr named \<Rightarrow>
          bindE (read_small named) (\<lambda>contents.
          bindE (raise_if (\<not> is_utf8 contents \<or> nul \<in> set contents) OS_Error) (\<lambda>_.
          case sole_line contents of
            None \<Rightarrow> Inl OS_Error
          | Some raw_common \<Rightarrow>
              bindE (raise_if (raw_common = []) OS_Error) (\<lambda>_.
              bindE (guard_absolute (normpath (path_join root raw_common))) (\<lambda>common_root.
              bindE (open_absolute_directory (machine_root m) common_root) (\<lambda>common.
                Inr (Some (node_identity named, contents), common_root, common)))))))"

text \<open>\<open>_verify_no_git_object_alternates\<close>\<close>

definition no_alternates :: "lane_node \<Rightarrow> unit guarded" where
  "no_alternates objects =
     (case open_directory objects ''info'' of
        Inl e \<Rightarrow> if e = Missing_File then Inr () else Inl e
      | Inr info \<Rightarrow> raise_if (map_of (children info) ''alternates'' \<noteq> None) OS_Error)"

definition open_git_boundary ::
    "machine \<Rightarrow> string \<Rightarrow> lane_node \<Rightarrow> string \<Rightarrow> git_boundary guarded" where
  "open_git_boundary m lane_root lane code =
     sealed_error code
       (bindE (checked_git m) (\<lambda>git.
        bindE (open_admin m lane_root lane) (\<lambda>(dot_git, contents, root, admin).
        bindE (open_common m root admin) (\<lambda>(link, common_root, common).
        bindE (open_directory common ''objects'') (\<lambda>objects.
        bindE (no_alternates objects) (\<lambda>_.
          Inr \<lparr>boundary_lane = lane_root, lane_identity_of = node_identity lane,
               dot_git_identity = node_identity dot_git,
               dot_git_directory = is_directory dot_git, dot_git_contents = contents,
               admin_root = root, admin_identity = node_identity admin, commondir = link,
               common_admin_root = common_root, common_admin_identity = node_identity common,
               objects_identity = node_identity objects, git_identity = node_identity git,
               boundary_code = code\<rparr>))))))"

section \<open>Verifying the boundary\<close>

definition same_node :: "lane_node \<Rightarrow> node_identity \<Rightarrow> unit guarded" where
  "same_node n i = raise_if (node_identity n \<noteq> i) OS_Error"

definition verify_dot_git :: "git_boundary \<Rightarrow> lane_node \<Rightarrow> unit guarded" where
  "verify_dot_git b lane =
     bindE (stat_name lane ''.git'') (\<lambda>named.
     bindE (raise_if (kind_of named = Symlink) OS_Error) (\<lambda>_.
     bindE (if dot_git_directory b then open_directory lane ''.git'' else open_file lane ''.git'') (\<lambda>opened.
     bindE (same_node opened (dot_git_identity b)) (\<lambda>_.
     case dot_git_contents b of
       None \<Rightarrow> Inr ()
     | Some contents \<Rightarrow>
         bindE (read_small opened) (\<lambda>current. raise_if (current \<noteq> contents) OS_Error)))))"

definition verify_commondir :: "git_boundary \<Rightarrow> lane_node \<Rightarrow> unit guarded" where
  "verify_commondir b admin =
     (case commondir b of
        None \<Rightarrow> raise_if (map_of (children admin) ''commondir'' \<noteq> None) OS_Error
      | Some (i, contents) \<Rightarrow>
          bindE (open_file admin ''commondir'') (\<lambda>named.
          bindE (same_node named i) (\<lambda>_.
          bindE (read_small named) (\<lambda>current. raise_if (current \<noteq> contents) OS_Error))))"

text \<open>The directories a verified boundary leads to: lane, administration, common administration, objects.\<close>

record sealed_view =
  view_lane :: lane_node
  view_admin :: lane_node
  view_common :: lane_node
  view_objects :: lane_node

definition verify_git_boundary :: "machine \<Rightarrow> git_boundary \<Rightarrow> sealed_view guarded" where
  "verify_git_boundary m b =
     except_os (guard_error (boundary_code b))
       (bindE (case git_executable m of None \<Rightarrow> Inl Missing_File | Some n \<Rightarrow> same_node n (git_identity b)) (\<lambda>_.
        bindE (open_absolute_directory (machine_root m) (boundary_lane b)) (\<lambda>lane.
        bindE (same_node lane (lane_identity_of b)) (\<lambda>_.
        bindE (verify_dot_git b lane) (\<lambda>_.
        bindE (open_absolute_directory (machine_root m) (admin_root b)) (\<lambda>admin.
        bindE (same_node admin (admin_identity b)) (\<lambda>_.
        bindE (verify_commondir b admin) (\<lambda>_.
        bindE (open_absolute_directory (machine_root m) (common_admin_root b)) (\<lambda>common.
        bindE (same_node common (common_admin_identity b)) (\<lambda>_.
        bindE (open_directory common ''objects'') (\<lambda>objects.
        bindE (same_node objects (objects_identity b)) (\<lambda>_.
        bindE (no_alternates objects) (\<lambda>_.
          Inr \<lparr>view_lane = lane, view_admin = admin, view_common = common, view_objects = objects\<rparr>)))))))))))))"

section \<open>\<open>HEAD\<close>\<close>

text \<open>The loose ref in the administration directory, or in the common one.\<close>

definition loose_ref :: "sealed_view \<Rightarrow> string \<Rightarrow> string option guarded" where
  "loose_ref v reference =
     (case read_bounded (view_admin v) reference 4096 of
        Inr contents \<Rightarrow> Inr (Some contents)
      | Inl e \<Rightarrow>
          if e \<noteq> Missing_File then Inl e
          else (case read_bounded (view_common v) reference 4096 of
              Inr contents \<Rightarrow> Inr (Some contents)
            | Inl e \<Rightarrow> if e = Missing_File then Inr None else Inl e))"

text \<open>At most eight links of symbolic refs, none of them twice.\<close>

fun follow_head :: "sealed_view \<Rightarrow> nat \<Rightarrow> string list \<Rightarrow> string \<Rightarrow> string guarded" where
  "follow_head v 0 seen contents = Inl OS_Error"
| "follow_head v (Suc n) seen contents =
     (case sole_line contents of
        None \<Rightarrow> Inl OS_Error
      | Some line \<Rightarrow>
          (case git_oid line of
             Some oid \<Rightarrow> Inr oid
           | None \<Rightarrow>
               bindE (raise_if (\<not> has_prefix ''ref: '' line) OS_Error) (\<lambda>_.
               bindE (git_ref (drop 5 line)) (\<lambda>reference.
               bindE (raise_if (reference \<in> set seen) OS_Error) (\<lambda>_.
               bindE (loose_ref v reference) (\<lambda>found.
               case found of
                 Some contents' \<Rightarrow> follow_head v n (reference # seen) contents'
               | None \<Rightarrow>
                   bindE (read_bounded (view_common v) ''packed-refs'' 16777216) (\<lambda>packed.
                     packed_ref_oid packed reference)))))))"

definition read_git_head :: "machine \<Rightarrow> git_boundary \<Rightarrow> string guarded" where
  "read_git_head m b =
     except_os (guard_error (boundary_code b))
       (bindE (verify_git_boundary m b) (\<lambda>v.
        bindE (read_bounded (view_admin v) ''HEAD'' 4096) (\<lambda>contents.
          follow_head v 8 [] contents)))"

section \<open>Objects\<close>

abbreviation max_object :: nat where "max_object \<equiv> 67108864"

definition object_hash :: "'a scan_host_scheme \<Rightarrow> string \<Rightarrow> string \<Rightarrow> string" where
  "object_hash h oid = (if length oid = 40 then host_sha1 h else host_sha256 h)"

text \<open>What \<open>_read_git_object\<close> accepts of the two replies of \<open>git cat-file\<close>.\<close>

definition checked_object ::
    "guard_host \<Rightarrow> lane_node \<Rightarrow> string \<Rightarrow> string \<Rightarrow> nat \<Rightarrow> string guarded" where
  "checked_object h objects oid type maximum =
     (case git_batch h objects True oid of
        None \<Rightarrow> Inl OS_Error
      | Some checked \<Rightarrow>
          bindE (object_header oid type (chomp checked)) (\<lambda>len.
          bindE (raise_if (maximum < len) OS_Error) (\<lambda>_.
          case git_batch h objects False oid of
            None \<Rightarrow> Inl OS_Error
          | Some output \<Rightarrow>
              bindE (object_body oid type len output) (\<lambda>body.
              bindE (raise_if (object_hash h oid (object_bytes type body) \<noteq> oid) OS_Error) (\<lambda>_.
                Inr body)))))"

definition read_git_object ::
    "guard_host \<Rightarrow> machine \<Rightarrow> git_boundary \<Rightarrow> string \<Rightarrow> string \<Rightarrow> nat \<Rightarrow> string guarded" where
  "read_git_object h m b oid type maximum =
     except_os (guard_error (boundary_code b))
       (bindE (raise_if (git_oid oid \<noteq> Some oid \<or> type \<notin> {''commit'', ''tree''}) OS_Error) (\<lambda>_.
        bindE (verify_git_boundary m b) (\<lambda>v. checked_object h (view_objects v) oid type maximum)))"

end
