(* ===== verification/Git_Entries.thy ===== *)
theory Git_Entries
  imports Git_Boundary
begin

text \<open>
  The paths Git knows: the staged index of \<open>_read_git_index\<close> and the committed tree of
  \<open>_read_tree_entries\<close>, both as dictionaries from a relative path to its mode and object identity.
\<close>

type_synonym git_entries = "(string, string \<times> string) dict"

section \<open>The staged index\<close>

text \<open>The exception of a path check, turned into the error of the inventory; an \<open>IndexError\<close> is not one.\<close>

definition except_coordination :: "guard_error \<Rightarrow> 'a guarded \<Rightarrow> 'a guarded" where
  "except_coordination e m =
     (case m of Inl (Raised (Coordination_Error _)) \<Rightarrow> Inl e | _ \<Rightarrow> m)"

lemma except_coordination_eq_Inr [result_simps]: "except_coordination e m = Inr a \<longleftrightarrow> m = Inr a"
  by (auto simp: except_coordination_def split: sum.splits guard_error.splits harness_error.splits)

definition index_entry :: "string \<Rightarrow> git_entries \<Rightarrow> git_entries guarded" where
  "index_entry field entries =
     (case partition_on (CHR 0x09) field of
        None \<Rightarrow> Inl inventory_unavailable
      | Some (metadata, path) \<Rightarrow>
          (case split_on (CHR '' '') metadata of
             [mode, oid, stage] \<Rightarrow>
               bindE (raise_if (stage \<noteq> ''0'' \<or> \<not> is_ascii mode \<or> \<not> is_utf8 path \<or> git_oid oid = None
                                \<or> mode \<notin> {''100644'', ''100755'', ''120000''}) inventory_unavailable) (\<lambda>_.
               bindE (except_coordination inventory_unavailable (guard_relative path)) (\<lambda>canonical.
               bindE (raise_if (canonical \<in> fst ` set entries) inventory_unavailable) (\<lambda>_.
                 Inr (entries @ [(canonical, mode, oid)]))))
           | _ \<Rightarrow> Inl inventory_unavailable))"

definition index_fields :: "string \<Rightarrow> string list" where
  "index_fields raw =
     (let fields = split_on nul raw in if last fields = [] then butlast fields else fields)"

definition parse_index :: "string \<Rightarrow> git_entries guarded" where
  "parse_index raw = foldE index_entry (index_fields raw) []"

text \<open>\<open>_run_git\<close>: only the index of a plain repository is inventoried, through a bounded regular file.\<close>

definition staged_index :: "guard_host \<Rightarrow> machine \<Rightarrow> git_boundary \<Rightarrow> string guarded" where
  "staged_index h m b =
     bindE (raise_if (\<not> dot_git_directory b \<or> commondir b \<noteq> None
                      \<or> admin_identity b \<noteq> common_admin_identity b) inventory_unavailable) (\<lambda>_.
     except_os inventory_unavailable
       (bindE (verify_git_boundary m b) (\<lambda>v.
        bindE (open_file (view_admin v) ''index'') (\<lambda>n.
        case n of
          Lane_Regular _ contents \<Rightarrow>
            bindE (raise_if (max_object < length contents) OS_Error) (\<lambda>_.
            case git_stage h (view_admin v) contents of
              None \<Rightarrow> Inl OS_Error
            | Some output \<Rightarrow> if max_object < length output then Inl OS_Error else Inr output)
        | _ \<Rightarrow> Inl OS_Error))))"

definition read_git_index :: "guard_host \<Rightarrow> machine \<Rightarrow> git_boundary \<Rightarrow> git_entries guarded" where
  "read_git_index h m b = bindE (staged_index h m b) parse_index"

section \<open>Committed trees\<close>

text \<open>The paths a caller asks for, and the directories that lead to them.\<close>

record tree_request =
  requested_paths :: "string list"
  requested_prefixes :: "string list"

definition path_prefixes :: "string \<Rightarrow> string list" where
  "path_prefixes relative =
     (let parts = path_parts relative in map (\<lambda>n. path_str [] (take n parts)) [1..<length parts])"

definition tree_request_of :: "string list \<Rightarrow> tree_request guarded" where
  "tree_request_of paths =
     bindE (mapE guard_relative paths) (\<lambda>ps.
       Inr \<lparr>requested_paths = ps, requested_prefixes = concat (map path_prefixes ps)\<rparr>)"

record walk_state =
  walk_entries :: git_entries
  walk_count :: nat

definition add_entry :: "string \<Rightarrow> tree_entry \<Rightarrow> walk_state \<Rightarrow> walk_state guarded" where
  "add_entry relative e st =
     (if relative \<in> fst ` set (walk_entries st) then Inl OS_Error
      else Inr (st\<lparr>walk_entries := walk_entries st @ [(relative, tree_mode e, tree_object e)]\<rparr>))"

text \<open>One tree entry; \<open>descend\<close> walks the tree it names.\<close>

definition walk_entry ::
    "tree_request option \<Rightarrow> string list \<Rightarrow> (string \<Rightarrow> string list \<Rightarrow> walk_state \<Rightarrow> walk_state guarded)
      \<Rightarrow> tree_entry \<Rightarrow> walk_state \<Rightarrow> walk_state guarded" where
  "walk_entry requested prefix descend e st =
     (let path = prefix @ [tree_name e]; relative = path_str [] path in
      bindE (raise_if (git_oid (tree_object e) = None \<or> relative = ''.git'' \<or> has_prefix ''.git/'' relative
                       \<or> max_entries < walk_count st + 1) OS_Error) (\<lambda>_.
      let st = st\<lparr>walk_count := walk_count st + 1\<rparr> in
      case requested of
        Some r \<Rightarrow>
          bindE (if relative \<in> set (requested_paths r) then add_entry relative e st else Inr st) (\<lambda>st.
            if tree_mode e = ''40000'' \<and> relative \<in> set (requested_prefixes r)
            then descend (tree_object e) path st else Inr st)
      | None \<Rightarrow>
          if tree_mode e = ''40000'' then descend (tree_object e) path st
          else if tree_mode e \<in> {''100644'', ''100755'', ''120000''} then add_entry relative e st
          else Inl OS_Error))"

text \<open>
  \<open>walk_tree\<close>: trees nest at most 64 deep, which the fuel counts down, and never contain
  themselves. \<open>read\<close> is \<open>_read_git_object\<close>.
\<close>

fun walk_tree ::
    "(string \<Rightarrow> string guarded) \<Rightarrow> nat \<Rightarrow> tree_request option \<Rightarrow> nat \<Rightarrow> string list \<Rightarrow> string \<Rightarrow> string list
      \<Rightarrow> walk_state \<Rightarrow> walk_state guarded" where
  "walk_tree read n requested 0 ancestors tree prefix st = Inl OS_Error"
| "walk_tree read n requested (Suc fuel) ancestors tree prefix st =
     bindE (raise_if (tree \<in> set ancestors) OS_Error) (\<lambda>_.
     bindE (read tree) (\<lambda>body.
     bindE (tree_entries n [] body) (\<lambda>es.
       foldE (walk_entry requested prefix
                (\<lambda>object path st. walk_tree read n requested fuel (tree # ancestors) object path st)) es st)))"

definition tree_fuel :: nat where
  "tree_fuel = Suc max_depth"

definition read_tree_entries ::
    "guard_host \<Rightarrow> machine \<Rightarrow> git_boundary \<Rightarrow> string \<Rightarrow> string list option \<Rightarrow> git_entries guarded" where
  "read_tree_entries h m b tree paths =
     except_os (guard_error (boundary_code b))
       (bindE (raise_if (git_oid tree \<noteq> Some tree) OS_Error) (\<lambda>_.
        bindE (case paths of None \<Rightarrow> Inr None | Some ps \<Rightarrow> bindE (tree_request_of ps) (\<lambda>r. Inr (Some r))) (\<lambda>requested.
        bindE (walk_tree (\<lambda>i. read_git_object h m b i ''tree'' max_object) (length tree div 2)
                 requested tree_fuel [] tree [] \<lparr>walk_entries = [], walk_count = 0\<rparr>) (\<lambda>st.
          Inr (walk_entries st)))))"

definition read_committed_entries :: "guard_host \<Rightarrow> machine \<Rightarrow> git_boundary \<Rightarrow> git_entries guarded" where
  "read_committed_entries h m b =
     except_os (guard_error (boundary_code b))
       (bindE (read_git_head m b) (\<lambda>head.
        bindE (read_git_object h m b head ''commit'' max_object) (\<lambda>body.
        bindE (commit_tree_identity body) (\<lambda>tree.
          read_tree_entries h m b tree None))))"

section \<open>Literal ignore rules\<close>

text \<open>
  One line of \<open>.gitignore\<close> that ends in a slash and has no pattern character. A path error skips
  the line; the \<open>IndexError\<close> of a line \<open>./\<close> does not.
\<close>

definition ignore_candidate :: "string \<Rightarrow> string option" where
  "ignore_candidate line =
     (if has_prefix ''#'' line \<or> last line \<noteq> slash then None
      else
        let rooted = (if has_prefix ''/'' line then drop 1 line else line);
            candidate = (if rooted \<noteq> [] \<and> last rooted = slash then butlast rooted else rooted) in
        if candidate = [] \<or> list_ex (\<lambda>c. c \<in> set candidate) [CHR ''*'', CHR ''?'', CHR ''['', backslash]
           \<or> has_outer_space candidate
        then None else Some candidate)"

definition add_ignore_root :: "string \<Rightarrow> string list \<Rightarrow> string list guarded" where
  "add_ignore_root line roots =
     (case ignore_candidate line of
        None \<Rightarrow> Inr roots
      | Some candidate \<Rightarrow>
          (case guard_relative candidate of
             Inr root \<Rightarrow> Inr (List.insert root roots)
           | Inl (Raised (Coordination_Error _)) \<Rightarrow> Inr roots
           | Inl e \<Rightarrow> Inl e))"

definition ignore_roots_of :: "string \<Rightarrow> string list guarded" where
  "ignore_roots_of text =
     (if \<not> is_utf8 text \<or> list_ex (has_prefix ''!'') (text_lines text) then Inr []
      else foldE add_ignore_root (text_lines text) [])"

definition literal_ignored_roots :: "lane_node \<Rightarrow> string list guarded" where
  "literal_ignored_roots lane =
     (case read_bounded lane ''.gitignore'' 1048576 of
        Inl e \<Rightarrow> if e = Missing_File then Inr [] else Inl e
      | Inr text \<Rightarrow> ignore_roots_of text)"

end
