(* ===== verification/Lane_Inventory.thy ===== *)
theory Lane_Inventory
  imports Git_Entries
begin

text \<open>
  What a lane contains beyond its commit: \<open>_inventory\<close> and the comparison of two physical scans,
  the breaches of a WriteSet, the declared sets of a lease, and
  \<open>_complete_persistent_breach_inventory\<close>, which \<open>controlled_recovery.py\<close> relies on.
\<close>

section \<open>The inventory\<close>

record inventory_entry =
  inventory_path :: string
  inventory_type :: string
  inventory_device :: "int option"
  inventory_inode :: "int option"
  inventory_sha256 :: "string option"

record lane_inventory =
  paths :: "string list"
  trackedPaths :: "string list"
  untrackedPaths :: "string list"
  ignoredPaths :: "string list"
  symlinkPaths :: "string list"
  entries :: "inventory_entry list"

definition matches_git_entry :: "lane_entry option \<Rightarrow> string \<times> string \<Rightarrow> bool" where
  "matches_git_entry node expected =
     (case node of
        None \<Rightarrow> False
      | Some n \<Rightarrow>
          entry_mode n = Some (fst expected)
          \<and> (if length (snd expected) = 40 then entry_gitSha1 n else entry_gitSha256 n) = Some (snd expected))"

text \<open>Committed paths whose node differs, and paths on which commit and index disagree.\<close>

definition tracked_changes ::
    "git_entries \<Rightarrow> git_entries \<Rightarrow> (string, lane_entry) dict \<Rightarrow> string list" where
  "tracked_changes committed indexed nodes =
     remdups (map fst (filter (\<lambda>(p, e). \<not> matches_git_entry (map_of nodes p) e) committed)
       @ filter (\<lambda>p. map_of committed p \<noteq> map_of indexed p) (map fst committed @ map fst indexed))"

definition untracked_leaves :: "git_entries \<Rightarrow> string list \<Rightarrow> string list \<Rightarrow> string list" where
  "untracked_leaves committed tracked leaves =
     remdups (filter (\<lambda>p. p \<notin> fst ` set committed \<and> p \<notin> set tracked) leaves)"

definition covering_roots :: "string list \<Rightarrow> string \<Rightarrow> string list" where
  "covering_roots roots path = filter (path_is_within path) roots"

text \<open>The roots that swallow an untracked leaf, shortest first, and the whole ignored directories.\<close>

definition shortest_root :: "string list \<Rightarrow> string" where
  "shortest_root roots = hd (sort_key (\<lambda>r. length (path_parts r)) roots)"

definition ignored_paths ::
    "string list \<Rightarrow> git_entries \<Rightarrow> (string, lane_entry) dict \<Rightarrow> string list \<Rightarrow> string list" where
  "ignored_paths roots committed nodes untracked =
     remdups (map (\<lambda>p. shortest_root (covering_roots roots p))
                  (filter (\<lambda>p. covering_roots roots p \<noteq> []) untracked)
       @ filter (\<lambda>r. map_option entry_type (map_of nodes r) = Some ''DIRECTORY''
                   \<and> \<not> list_ex (\<lambda>p. path_is_within p r) (map fst committed)) roots)"

definition inventory_entry_of :: "(string, lane_entry) dict \<Rightarrow> string \<Rightarrow> inventory_entry" where
  "inventory_entry_of nodes path =
     (case map_of nodes path of
        None \<Rightarrow> \<lparr>inventory_path = path, inventory_type = ''ABSENT'', inventory_device = None,
                inventory_inode = None, inventory_sha256 = None\<rparr>
      | Some n \<Rightarrow> \<lparr>inventory_path = path, inventory_type = entry_type n,
                  inventory_device = Some (entry_device n), inventory_inode = Some (entry_inode n),
                  inventory_sha256 = entry_sha256 n\<rparr>)"

definition inventory_of ::
    "git_entries \<Rightarrow> git_entries \<Rightarrow> lane_snapshot \<Rightarrow> string list \<Rightarrow> lane_inventory" where
  "inventory_of committed indexed snapshot roots =
     (let (nodes, leaves) = snapshot;
          tracked = tracked_changes committed indexed nodes;
          fresh = untracked_leaves committed tracked leaves;
          untracked = filter (\<lambda>p. covering_roots roots p = []) fresh;
          ignored = ignored_paths roots committed nodes fresh;
          all = sort (remdups (tracked @ untracked @ ignored)) in
      \<lparr>paths = all, trackedPaths = sort tracked, untrackedPaths = sort untracked,
       ignoredPaths = sort ignored,
       symlinkPaths = filter (\<lambda>p. map_option entry_type (map_of nodes p) = Some ''SYMLINK'') all,
       entries = map (inventory_entry_of nodes) all\<rparr>)"

text \<open>\<open>_inventory\<close>: the boundary is verified, the commit and the index read, the lane scanned.\<close>

definition lane_inventory_with ::
    "guard_host \<Rightarrow> machine \<Rightarrow> git_boundary \<Rightarrow> lane_node \<Rightarrow> lane_snapshot guarded \<Rightarrow> lane_inventory guarded" where
  "lane_inventory_with h m b lane scan =
     bindE (verify_git_boundary m b) (\<lambda>_.
     bindE (read_committed_entries h m b) (\<lambda>committed.
     bindE (read_git_index h m b) (\<lambda>indexed.
     bindE scan (\<lambda>snapshot.
     bindE (literal_ignored_roots lane) (\<lambda>roots.
       Inr (inventory_of committed indexed snapshot roots))))))"

definition opt_json :: "('a \<Rightarrow> json) \<Rightarrow> 'a option \<Rightarrow> json" where
  "opt_json f x = (case x of None \<Rightarrow> JNull | Some a \<Rightarrow> f a)"

definition inventory_entry_json :: "inventory_entry \<Rightarrow> json" where
  "inventory_entry_json e = JObj
     [(''path'', JStr (inventory_path e)), (''type'', JStr (inventory_type e)),
      (''device'', opt_json JInt (inventory_device e)), (''inode'', opt_json JInt (inventory_inode e)),
      (''sha256'', opt_json JStr (inventory_sha256 e))]"

definition inventory_json :: "lane_inventory \<Rightarrow> json" where
  "inventory_json i = JObj
     [(''paths'', jstrs (paths i)), (''trackedPaths'', jstrs (trackedPaths i)),
      (''untrackedPaths'', jstrs (untrackedPaths i)), (''ignoredPaths'', jstrs (ignoredPaths i)),
      (''symlinkPaths'', jstrs (symlinkPaths i)),
      (''entries'', JArr (map inventory_entry_json (entries i)))]"

section \<open>Changes and breaches\<close>

definition snapshot_changes :: "lane_snapshot \<Rightarrow> lane_snapshot \<Rightarrow> string list" where
  "snapshot_changes before after =
     (let (before_nodes, before_leaves) = before; (after_nodes, after_leaves) = after;
          is_dir = (\<lambda>nodes p. map_option entry_type (map_of nodes p) = Some ''DIRECTORY'');
          stable = filter (\<lambda>p. is_dir before_nodes p \<and> is_dir after_nodes p) (map fst before_nodes) in
      sort (remdups (filter (\<lambda>p. map_of before_nodes p \<noteq> map_of after_nodes p)
        (before_leaves @ after_leaves @ stable))))"

text \<open>A path the WriteSets cover: it or an ancestor is declared, or an exact path lies below it.\<close>

definition declared_path :: "string list \<Rightarrow> string list \<Rightarrow> string \<Rightarrow> bool" where
  "declared_path exact ephemeral path =
     (list_ex (\<lambda>allowed. path_is_within path allowed \<or> path_is_within allowed path) exact
      \<or> list_ex (path_is_within path) ephemeral)"

definition persistent_breaches :: "string list \<Rightarrow> string list \<Rightarrow> string list \<Rightarrow> string list" where
  "persistent_breaches ps exact ephemeral = sort (filter (\<lambda>p. \<not> declared_path exact ephemeral p) ps)"

definition remaining_ephemeral :: "lane_node \<Rightarrow> lane_inventory \<Rightarrow> string list \<Rightarrow> string list" where
  "remaining_ephemeral lane inventory ephemeral =
     sort (remdups (filter (\<lambda>p. list_ex (path_is_within p) ephemeral) (paths inventory)
       @ filter (path_exists lane) ephemeral))"

section \<open>Declared sets\<close>

text \<open>\<open>_validate_ephemeral_paths\<close>: ignored by a literal rule, and not tracked.\<close>

definition unsafe_ephemeral :: guard_error where
  "unsafe_ephemeral = guard_error ''UNSAFE_EPHEMERAL_WRITESET''"

definition check_ephemeral :: "string list \<Rightarrow> string list \<Rightarrow> string \<Rightarrow> unit guarded" where
  "check_ephemeral roots tracked relative =
     raise_if (\<not> list_ex (path_is_within relative) roots
               \<or> list_ex (\<lambda>p. path_is_within p relative) tracked) unsafe_ephemeral"

definition validate_ephemeral_paths ::
    "guard_host \<Rightarrow> machine \<Rightarrow> git_boundary \<Rightarrow> lane_node \<Rightarrow> string list \<Rightarrow> unit guarded" where
  "validate_ephemeral_paths h m b lane ephemeral =
     bindE (literal_ignored_roots lane) (\<lambda>roots.
     bindE (read_git_index h m b) (\<lambda>indexed.
     bindE (read_committed_entries h m b) (\<lambda>committed.
       eachE (check_ephemeral roots (map fst indexed @ map fst committed)) ephemeral)))"

text \<open>The targets in order, no two with one physical identity.\<close>

definition add_target ::
    "lane_node \<Rightarrow> string \<Rightarrow> bool \<times> string \<Rightarrow> anchored_target list \<Rightarrow> anchored_target list guarded" where
  "add_target lane lane_root kp ts =
     bindE (open_target lane lane_root (fst kp) (snd kp)) (\<lambda>t.
     bindE (raise_if (target_identity t \<noteq> None \<and> target_identity t \<in> target_identity ` set ts)
              unsafe_target) (\<lambda>_. Inr (ts @ [t])))"

definition writeset_invalid :: guard_error where
  "writeset_invalid = guard_error ''LEASE_WRITESET_INVALID''"

definition validate_declared_sets ::
    "guard_host \<Rightarrow> machine \<Rightarrow> git_boundary \<Rightarrow> string \<Rightarrow> lane_node \<Rightarrow> lease
      \<Rightarrow> (anchored_target list \<times> string list \<times> string list) guarded" where
  "validate_declared_sets h m b lane_root lane l =
     (let exact_raw = exactWriteSet (lease_footprint l);
          ephemeral_raw = ephemeralWriteSet (lease_footprint l) in
      bindE (mapE guard_relative exact_raw) (\<lambda>_.
      bindE (mapE guard_relative ephemeral_raw) (\<lambda>_.
      bindE (raise_if (\<not> distinct exact_raw \<or> \<not> distinct ephemeral_raw) writeset_invalid) (\<lambda>_.
      let exact = sort exact_raw; ephemeral = sort ephemeral_raw in
      bindE (raise_if (list_ex (\<lambda>e. list_ex (paths_overlap e) ephemeral) exact) unsafe_ephemeral) (\<lambda>_.
      bindE (raise_if (lease_candidate l \<noteq> None \<and> ephemeral \<noteq> []) unsafe_ephemeral) (\<lambda>_.
      bindE (foldE (add_target lane lane_root)
               (map (Pair False) exact @ map (Pair True) ephemeral) []) (\<lambda>targets.
      bindE (validate_ephemeral_paths h m b lane ephemeral) (\<lambda>_.
        Inr (targets, exact, ephemeral)))))))))"

section \<open>The complete inventory of a breached lane\<close>

definition open_leased_lane :: "machine \<Rightarrow> lease \<Rightarrow> string \<Rightarrow> lane_node guarded" where
  "open_leased_lane m l lane_root =
     bindE (open_absolute_directory (machine_root m) lane_root) (\<lambda>lane.
     bindE (raise_if (\<lparr>identity_device = node_device (stat_of lane), identity_inode = node_inode (stat_of lane)\<rparr>
                        \<noteq> lanePhysicalIdentity l)
              (guard_error ''LANE_ROOT_IDENTITY_CHANGED'')) (\<lambda>_. Inr lane))"

definition complete_breach_inventory ::
    "guard_host \<Rightarrow> machine \<Rightarrow> lease \<Rightarrow> (lane_inventory \<times> string list \<times> string list) guarded" where
  "complete_breach_inventory h m l =
     bindE (guard_absolute (lease_laneRoot l)) (\<lambda>lane_root.
     except_os unsafe_target
       (bindE (open_leased_lane m l lane_root) (\<lambda>lane.
        bindE (open_git_boundary m lane_root lane ''LANE_INVENTORY_UNAVAILABLE'') (\<lambda>b.
        bindE (mapE guard_relative (exactWriteSet (lease_footprint l))) (\<lambda>exact.
        bindE (mapE guard_relative (ephemeralWriteSet (lease_footprint l))) (\<lambda>ephemeral.
        bindE (raise_if (\<not> distinct exact \<or> \<not> distinct ephemeral) (guard_error ''STALE_LEASE_BINDING'')) (\<lambda>_.
        bindE (lane_inventory_with h m b lane (scan_lane_tree h lane)) (\<lambda>inventory.
          Inr (inventory, persistent_breaches (paths inventory) exact ephemeral,
               remaining_ephemeral lane inventory ephemeral)))))))))"

end
