(* ===== verification/Write_Guard.thy ===== *)
theory Write_Guard
  imports Lane_Inventory
begin

text \<open>
  \<open>run_guarded_command\<close>: one command under the project lock, inside a sandbox that may write the
  declared paths only, with the lane inventoried before and after. The sandboxed process is a
  parameter that maps the machine to its exit status, its output and any later state of the
  machine; what the guard promises does not rest on the sandbox.
\<close>

section \<open>The sandbox\<close>

definition sandbox_escape :: "char \<Rightarrow> string" where
  "sandbox_escape c = (if c \<in> {backslash, quote_char} then [backslash, c] else [c])"

definition sandbox_literal :: "string \<Rightarrow> string" where
  "sandbox_literal text = quote_char # concat (map sandbox_escape text) @ [quote_char]"

definition write_rule :: "string \<Rightarrow> string \<Rightarrow> string" where
  "write_rule kind path = ''('' @ kind @ '' '' @ sandbox_literal path @ '')''"

definition target_rules :: "anchored_target \<Rightarrow> string list" where
  "target_rules t =
     write_rule ''literal'' (target_absolute t)
     # (if target_is_directory t \<or> target_is_ephemeral t
        then [write_rule ''subpath'' (target_absolute t)] else [])"

definition sandbox_profile :: "anchored_target list \<Rightarrow> string" where
  "sandbox_profile targets =
     join (CHR '' '')
       [''(version 1)'', ''(deny default)'', ''(allow file-read*)'', ''(allow process-exec*)'',
        ''(deny process-fork)'', ''(allow sysctl-read)'', ''(allow mach-lookup)'',
        ''(allow file-write* ''
          @ join (CHR '' '') ([write_rule ''literal'' ''/dev/null'', write_rule ''literal'' ''/dev/tty'']
               @ concat (map target_rules targets)) @ '')'']"

definition sandbox_digest :: string where
  "sandbox_digest = ''8857d087219f0f39d3e3c163e5d0a0aed690cc22f34b50c7eee3d74f93e69688''"

definition sandbox_unavailable :: guard_error where
  "sandbox_unavailable = guard_error ''PROCESS_SANDBOX_UNAVAILABLE''"

definition validate_sandbox_exec :: "'h scan_host_scheme \<Rightarrow> machine \<Rightarrow> unit guarded" where
  "validate_sandbox_exec h m =
     except_os sandbox_unavailable
       (bindE (system_executable (sandbox_executable m)) (\<lambda>n.
        case n of
          Lane_Regular _ contents \<Rightarrow> raise_if (host_sha256 h contents \<noteq> sandbox_digest) OS_Error
        | _ \<Rightarrow> Inl OS_Error))"

section \<open>The lease\<close>

definition current_durable_lease :: "journal option \<Rightarrow> lease \<Rightarrow> lease guarded" where
  "current_durable_lease journal presented =
     (case journal of
        None \<Rightarrow> Inl (guard_error ''COORDINATOR_LEASE_NOT_FOUND'')
      | Some j \<Rightarrow>
          bindE (raise_if (recoveryState j \<noteq> CLEAR) (guard_error ''COORDINATOR_RECOVERY_REQUIRED'')) (\<lambda>_.
          case find_lease (leaseId presented) (leases j) of
            None \<Rightarrow> Inl (guard_error ''COORDINATOR_LEASE_NOT_FOUND'')
          | Some l \<Rightarrow>
              bindE (raise_if (lease_attemptId presented \<noteq> lease_attemptId l)
                       (guard_error ''LEASE_ATTEMPT_MISMATCH'')) (\<lambda>_.
              bindE (raise_if (lease_fencingToken presented \<noteq> lease_fencingToken l)
                       (guard_error ''STALE_FENCING_TOKEN'')) (\<lambda>_.
              bindE (raise_if (lease_state presented \<noteq> ACTIVE \<or> lease_state l \<noteq> ACTIVE
                               \<or> released presented \<or> released l \<or> recoveryStatus l \<noteq> CLEAR)
                       (guard_error ''LEASE_NOT_ACTIVE'')) (\<lambda>_.
              bindE (raise_if (lease_executionKey presented \<noteq> lease_executionKey l
                               \<or> lease_laneRoot presented \<noteq> lease_laneRoot l
                               \<or> lease_footprint presented \<noteq> lease_footprint l)
                       (guard_error ''STALE_LEASE_BINDING'')) (\<lambda>_. Inr l))))))"

section \<open>Quarantine\<close>

definition breach_command ::
    "(string \<Rightarrow> string) \<Rightarrow> string \<Rightarrow> lease \<Rightarrow> lane_inventory \<Rightarrow> string list \<Rightarrow> string list \<Rightarrow> observation_command" where
  "breach_command sha clock l inventory observed removed =
     (let c = \<lparr>observation_executionKey = lease_executionKey l, observation_leaseId = leaseId l,
               observation_fencingToken = lease_fencingToken l,
               beforeInventoryDigest = sha256_json sha (inventory_json inventory),
               observedPaths = sort observed, ephemeralPathsRemoved = sort removed,
               observation_quiescence = \<lparr>quiescence_observedAt = clock, processIds = []\<rparr>,
               observation_digest = []\<rparr>
      in c\<lparr>observation_digest := sha256_json sha (JObj (observation_payload c))\<rparr>)"

definition quarantine_guard_breach ::
    "(string \<Rightarrow> string) \<Rightarrow> ssh_host \<Rightarrow> state_store \<Rightarrow> store_world \<Rightarrow> string \<Rightarrow> journal \<Rightarrow> lease \<Rightarrow> lane_inventory
      \<Rightarrow> string list \<Rightarrow> string list \<Rightarrow> directory \<Rightarrow> mutation_result result \<times> directory" where
  "quarantine_guard_breach sha ssh s w clock j l inventory observed removed d =
     (case bindE (normalize_write_observation_command sha
                    (breach_command sha clock l inventory observed removed))
             (\<lambda>c. quarantine_step sha j c observed) of
        Inl e \<Rightarrow> (Inl e, d)
      | Inr outcome \<Rightarrow> persist sha ssh s w (journalVersion j) finish_mutation outcome d)"

section \<open>The guarded run\<close>

record guarded_command =
  command_argv :: "string list"
  command_cwd :: string
  command_environment :: "(string, string) dict"

record guarded_result =
  result_returncode :: int
  result_stdout :: string
  result_stderr :: string
  beforeInventory :: lane_inventory
  afterInventory :: lane_inventory
  result_observedPaths :: "string list"

text \<open>The sandboxed process: profile and command to exit status, output and the machine it leaves.\<close>

type_synonym runner = "string \<Rightarrow> guarded_command \<Rightarrow> machine \<Rightarrow> (int \<times> string \<times> string \<times> machine) option"

definition command_invalid :: guard_error where
  "command_invalid = guard_error ''GUARDED_COMMAND_INVALID''"

definition guard_arguments :: "'h scan_host_scheme \<Rightarrow> machine \<Rightarrow> string \<Rightarrow> guarded_command \<Rightarrow> (string \<times> string) guarded" where
  "guard_arguments h m lane_root c =
     bindE (raise_if (command_argv c = [] \<or> list_ex (\<lambda>a. a = [] \<or> nul \<in> set a) (command_argv c))
              command_invalid) (\<lambda>_.
     bindE (raise_if (list_ex (\<lambda>(k, v). k = [] \<or> CHR ''='' \<in> set k \<or> nul \<in> set k \<or> nul \<in> set v)
                        (command_environment c)) command_invalid) (\<lambda>_.
     bindE (guard_absolute lane_root) (\<lambda>lane.
     bindE (guard_absolute (command_cwd c)) (\<lambda>cwd.
     bindE (raise_if (\<not> contains_path lane cwd) command_invalid) (\<lambda>_.
     bindE (validate_sandbox_exec h m) (\<lambda>_. Inr (lane, cwd)))))))"

record prepared_lane =
  prepared_node :: lane_node
  prepared_boundary :: git_boundary
  prepared_targets :: "anchored_target list"
  prepared_exact :: "string list"
  prepared_ephemeral :: "string list"
  prepared_snapshot :: lane_snapshot
  prepared_inventory :: lane_inventory

definition prepare_lane ::
    "guard_host \<Rightarrow> machine \<Rightarrow> string \<Rightarrow> string \<Rightarrow> lease \<Rightarrow> prepared_lane guarded" where
  "prepare_lane h m lane_root cwd l =
     bindE (open_leased_lane m l lane_root) (\<lambda>lane.
     bindE (open_absolute_directory (machine_root m) cwd) (\<lambda>_.
     bindE (open_git_boundary m lane_root lane ''LANE_INVENTORY_UNAVAILABLE'') (\<lambda>b.
     bindE (validate_declared_sets h m b lane_root lane l) (\<lambda>(targets, exact, ephemeral).
     bindE (scan_lane_tree h lane) (\<lambda>snapshot.
     bindE (lane_inventory_with h m b lane (Inr snapshot)) (\<lambda>inventory.
       Inr \<lparr>prepared_node = lane, prepared_boundary = b, prepared_targets = targets,
            prepared_exact = exact, prepared_ephemeral = ephemeral,
            prepared_snapshot = snapshot, prepared_inventory = inventory\<rparr>))))))"

text \<open>The lane after the run. A lane that is no longer found under its name fails the boundary check.\<close>

definition reopen_lane :: "machine \<Rightarrow> git_boundary \<Rightarrow> lane_node guarded" where
  "reopen_lane m b =
     except_os (guard_error (boundary_code b))
       (bindE (open_absolute_directory (machine_root m) (boundary_lane b)) (\<lambda>lane.
        bindE (same_node lane (lane_identity_of b)) (\<lambda>_. Inr lane)))"

record inspected_lane =
  inspected_node :: lane_node
  inspected_snapshot :: lane_snapshot
  inspected_inventory :: lane_inventory

definition inspect_lane :: "guard_host \<Rightarrow> machine \<Rightarrow> prepared_lane \<Rightarrow> inspected_lane guarded" where
  "inspect_lane h m p =
     bindE (reopen_lane m (prepared_boundary p)) (\<lambda>lane.
     bindE (scan_lane_tree h lane) (\<lambda>snapshot.
     bindE (lane_inventory_with h m (prepared_boundary p) lane (Inr snapshot)) (\<lambda>inventory.
     bindE (revalidate_targets lane (prepared_targets p)) (\<lambda>_.
       Inr \<lparr>inspected_node = lane, inspected_snapshot = snapshot, inspected_inventory = inventory\<rparr>))))"

text \<open>Physical changes that no inventory path covers are judged on their own.\<close>

definition uncovered_changes :: "string list \<Rightarrow> string list \<Rightarrow> string list" where
  "uncovered_changes changes coverage =
     filter (\<lambda>p. \<not> list_ex (path_is_within p) coverage) changes"

definition after_breaches :: "prepared_lane \<Rightarrow> inspected_lane \<Rightarrow> string list" where
  "after_breaches p q =
     (let changes = snapshot_changes (prepared_snapshot p) (inspected_snapshot q);
          coverage = paths (prepared_inventory p) @ paths (inspected_inventory q) in
      sorted_union
        (persistent_breaches (paths (inspected_inventory q)) (prepared_exact p) (prepared_ephemeral p))
        (persistent_breaches (uncovered_changes changes coverage) (prepared_exact p) (prepared_ephemeral p)))"

definition observed_changes :: "prepared_lane \<Rightarrow> inspected_lane \<Rightarrow> string list" where
  "observed_changes p q =
     (let before = map (\<lambda>e. (inventory_path e, e)) (entries (prepared_inventory p));
          changed = map inventory_path
            (filter (\<lambda>e. map_of before (inventory_path e) \<noteq> Some e) (entries (inspected_inventory q))) in
      sorted_union changed
        (uncovered_changes (snapshot_changes (prepared_snapshot p) (inspected_snapshot q)) changed))"

text \<open>What the guard concludes from the two inspections.\<close>

datatype verdict =
    Breached "string list"
  | Left_Ephemeral "string list"
  | Clean "string list"

definition judge :: "prepared_lane \<Rightarrow> inspected_lane \<Rightarrow> verdict" where
  "judge p q =
     (let breaches = after_breaches p q;
          remaining = remaining_ephemeral (inspected_node q) (inspected_inventory q) (prepared_ephemeral p) in
      if breaches \<noteq> [] then Breached breaches
      else if remaining \<noteq> [] then Left_Ephemeral remaining
      else Clean (observed_changes p q))"

text \<open>Quarantine the breach, then raise it.\<close>

definition raise_breach ::
    "guard_host \<Rightarrow> ssh_host \<Rightarrow> state_store \<Rightarrow> store_world \<Rightarrow> string \<Rightarrow> journal \<Rightarrow> lease \<Rightarrow> prepared_lane \<Rightarrow> lane_node
      \<Rightarrow> string list \<Rightarrow> directory \<Rightarrow> guarded_result guarded \<times> directory" where
  "raise_breach h ssh s w clock j l p lane observed d =
     (case quarantine_guard_breach (host_sha256 h) ssh s w clock j l (prepared_inventory p) observed
             (fst (ephemeral_presence lane (prepared_ephemeral p))) d of
        (Inl e, d') \<Rightarrow> (Inl (Raised e), d')
      | (Inr _, d') \<Rightarrow> (Inl (Breach ''WRITESET_BREACH'' observed), d'))"

definition guarded_lane ::
    "guard_host \<Rightarrow> ssh_host \<Rightarrow> runner \<Rightarrow> state_store \<Rightarrow> store_world \<Rightarrow> string \<Rightarrow> journal \<Rightarrow> lease
      \<Rightarrow> string \<Rightarrow> string \<Rightarrow> guarded_command \<Rightarrow> machine \<Rightarrow> directory \<Rightarrow> guarded_result guarded \<times> machine \<times> directory" where
  "guarded_lane h ssh run s w clock j l lane_root cwd c m d =
     (case prepare_lane h m lane_root cwd l of
        Inl e \<Rightarrow> (Inl e, m, d)
      | Inr p \<Rightarrow>
          let breaches = persistent_breaches (paths (prepared_inventory p)) (prepared_exact p) (prepared_ephemeral p) in
          if breaches \<noteq> []
          then (case raise_breach h ssh s w clock j l p (prepared_node p) breaches d of (r, d') \<Rightarrow> (r, m, d'))
          else (case run (sandbox_profile (prepared_targets p)) c m of
              None \<Rightarrow> (Inl sandbox_unavailable, m, d)
            | Some (status, out, err, m') \<Rightarrow>
                (case inspect_lane h m' p of
                   Inl e \<Rightarrow> (Inl e, m', d)
                 | Inr q \<Rightarrow>
                     (case judge p q of
                        Breached observed \<Rightarrow>
                          (case raise_breach h ssh s w clock j l p (inspected_node q) observed d of
                             (r, d') \<Rightarrow> (r, m', d'))
                      | Left_Ephemeral remaining \<Rightarrow>
                          (Inl (Breach ''EPHEMERAL_PATH_NOT_REMOVED'' remaining), m', d)
                      | Clean observed \<Rightarrow>
                          (Inr \<lparr>result_returncode = status, result_stdout = out, result_stderr = err,
                                beforeInventory = prepared_inventory p,
                                afterInventory = inspected_inventory q,
                                result_observedPaths = observed\<rparr>, m', d)))))"

definition run_guarded_command ::
    "guard_host \<Rightarrow> ssh_host \<Rightarrow> runner \<Rightarrow> string \<Rightarrow> store_world \<Rightarrow> string \<Rightarrow> lease \<Rightarrow> string \<Rightarrow> guarded_command
      \<Rightarrow> machine \<Rightarrow> directory \<Rightarrow> guarded_result guarded \<times> machine \<times> directory" where
  "run_guarded_command h ssh run root w clock presented lane_root c m d =
     (case bindE (guard_arguments h m lane_root c) (\<lambda>(lane, cwd).
           bindE (raised (open_store w root (lease_executionKey presented) d)) (\<lambda>(s, d1).
             Inr (lane, cwd, s, d1))) of
        Inl e \<Rightarrow> (Inl e, m, d)
      | Inr (lane, cwd, s, d1) \<Rightarrow>
          (case raised (enter_project_lock s w d1) of
             Inl e \<Rightarrow> (Inl e, m, d1)
           | Inr (locked, opened, d2) \<Rightarrow>
               (case bindE (raised (read_journal (host_sha256 h) ssh locked w d2)) (\<lambda>j.
                     bindE (current_durable_lease j presented) (\<lambda>l.
                     bindE (raise_if (lease_laneRoot l \<noteq> lane) (guard_error ''STALE_LEASE_BINDING'')) (\<lambda>_.
                       Inr (the j, l)))) of
                  Inl e \<Rightarrow> (Inl e, m, d2)
                | Inr (j, l) \<Rightarrow>
                    (case guarded_lane h ssh run locked w clock j l lane cwd c m d2 of
                       (r, m', d3) \<Rightarrow>
                         (bindE (except_os unsafe_target r) (\<lambda>x.
                          bindE (raised (leave_project_lock opened d3)) (\<lambda>_. Inr x)), m', d3)))))"

end
