(* ===== verification/Scan_Correct.thy ===== *)
theory Scan_Correct
  imports Lane_Inventory
begin

text \<open>
  The scan of a lane against the tree it reads: the nodes it lists are the nodes of the tree
  under their relative paths, its leaves are the nodes without children, and its counters are
  within the limits.
\<close>

section \<open>Canonical paths\<close>

text \<open>The text of a path with safe components: what every path of an inventory is.\<close>

definition canonical :: "string \<Rightarrow> bool" where
  "canonical p = (safe_relative_path p = Inr (path_parts p) \<and> path_str [] (path_parts p) = p)"

lemma canonical_relative: "canonical p \<Longrightarrow> canonical_relative_path p = Inr p"
  by (simp add: canonical_def canonical_relative_path_def safe_posix_def)

lemma canonical_text:
  assumes "ns \<noteq> []" "list_all safe_component ns"
  shows "canonical (path_str [] ns)" "path_parts (path_str [] ns) = ns"
proof -
  have r: "safe_relative_path (path_str [] ns) = Inr ns"
    using assms(2) by (intro safe_relative_path_path_str) (simp add: list_all_iff)
  then show parts: "path_parts (path_str [] ns) = ns"
    by (auto simp: safe_relative_path_def split: if_splits)
  show "canonical (path_str [] ns)" by (simp add: canonical_def parts r)
qed

lemma canonical_parts:
  assumes "canonical p"
  shows "list_all safe_component (path_parts p)" "path_str [] (path_parts p) = p"
  using assms safe_relative_path_components by (auto simp: canonical_def list_all_iff)

lemma guard_relative_Inr:
  assumes "guard_relative v = Inr r"
  shows "r = v" "canonical v" "path_parts v \<noteq> []" "hd (path_parts v) \<noteq> ''.git''"
proof -
  from assms have v: "v \<noteq> []" "\<not> is_absolute v" "v = as_posix v"
    "\<not> list_ex (\<lambda>part. part \<in> {[], ''.'', ''..''}) (path_parts v)"
    by (auto simp: guard_relative_def split: if_splits)
  from assms v show "r = v" "path_parts v \<noteq> []" "hd (path_parts v) \<noteq> ''.git''"
    by (auto simp: guard_relative_def split: if_splits list.splits)
  from v have "safe_relative_path v = Inr (path_parts v)" by (simp add: safe_relative_path_def)
  moreover from v(2) have "path_root v = []" by (simp add: is_absolute_def)
  with v(3) have "path_str [] (path_parts v) = v" by (simp add: as_posix_def path_parts_def)
  ultimately show "canonical v" by (simp add: canonical_def)
qed

section \<open>The tree as a list of paths\<close>

text \<open>The node under a path, and the nodes below a directory in the order of the scan.\<close>

fun node_at :: "lane_node \<Rightarrow> string list \<Rightarrow> lane_node option" where
  "node_at n [] = Some n"
| "node_at n (p # ps) = (case map_of (children n) p of None \<Rightarrow> None | Some m \<Rightarrow> node_at m ps)"

lemma children_smaller:
  assumes "(name, n) \<in> set cs"
  shows "size_list (size_prod (\<lambda>_. 0) size) (children n) < size_list (size_prod (\<lambda>_. 0) size) cs"
  using child_smaller[OF assms] assms by (cases n; cases cs) auto

function flat :: "string list \<Rightarrow> (string \<times> lane_node) list \<Rightarrow> (string list \<times> lane_node) list" where
  "flat prefix cs =
     concat (map (\<lambda>(name, n).
         if prefix = [] \<and> name = ''.git'' then []
         else (prefix @ [name], n) # flat (prefix @ [name]) (children n))
       (sort_key fst cs))"
  by pat_completeness auto
termination
  by (relation "measure (\<lambda>(prefix, cs). size_list (size_prod (\<lambda>_. 0) size) cs)") (auto dest: children_smaller)

declare flat.simps [simp del]

section \<open>The scan, without its checks\<close>

text \<open>A leaf of the scan is anything but a directory with children.\<close>

definition is_leaf :: "lane_node \<Rightarrow> bool" where
  "is_leaf n = (children n = [])"

fun file_bytes :: "lane_node \<Rightarrow> nat" where
  "file_bytes (Lane_Regular _ contents) = length contents"
| "file_bytes _ = 0"

definition scanned :: "'h scan_host_scheme \<Rightarrow> (string list \<times> lane_node) list \<Rightarrow> scan_state \<Rightarrow> scan_state" where
  "scanned h ns st =
     \<lparr>scan_nodes = fold (\<lambda>(p, n). AList.update (path_str [] p) (entry_of h n)) ns (scan_nodes st),
      scan_leaves = scan_leaves st @ map (path_str [] \<circ> fst) (filter (is_leaf \<circ> snd) ns),
      scan_count = scan_count st + length ns,
      scan_bytes = scan_bytes st + (\<Sum>(p, n)\<leftarrow>ns. file_bytes n)\<rparr>"

lemma scanned_Nil [simp]: "scanned h [] st = st"
  by (simp add: scanned_def)

lemma scanned_append: "scanned h (ns @ ms) st = scanned h ms (scanned h ns st)"
  by (simp add: scanned_def)

lemma scanned_Cons: "scanned h ((p, n) # ns) st = scanned h ns (scanned h [(p, n)] st)"
  by (simp add: scanned_def)

definition named_here :: "string list \<Rightarrow> (string \<times> lane_node) list \<Rightarrow> nat" where
  "named_here prefix cs = length (filter (\<lambda>(name, n). \<not> (prefix = [] \<and> name = ''.git'')) cs)"

definition below :: "string list \<Rightarrow> string \<times> lane_node \<Rightarrow> (string list \<times> lane_node) list" where
  "below prefix c =
     (if prefix = [] \<and> fst c = ''.git'' then []
      else (prefix @ [fst c], snd c) # flat (prefix @ [fst c]) (children (snd c)))"

lemma flat_below: "flat prefix cs = concat (map (below prefix) (sort_key fst cs))"
proof -
  have "(\<lambda>(name, n). if prefix = [] \<and> name = ''.git'' then []
      else (prefix @ [name], n) # flat (prefix @ [name]) (children n)) = below prefix"
    by (auto simp: below_def)
  then show ?thesis by (subst flat.simps) simp
qed

lemma foldE_relates:
  assumes "foldE f xs s = Inr t" and "\<And>x s s'. x \<in> set xs \<Longrightarrow> f x s = Inr s' \<Longrightarrow> s' = g x s \<and> Q x"
  shows "t = fold g xs s \<and> (\<forall>x\<in>set xs. Q x)"
  using assms by (induction xs arbitrary: s) (auto simp: result_simps)

lemma scanned_fold:
  "fold (\<lambda>c (visible, st). (visible + (if prefix = [] \<and> fst c = ''.git'' then 0 else 1), scanned h (below prefix c) st)) cs (v, st)
    = (v + named_here prefix cs, scanned h (concat (map (below prefix) cs)) st)"
  by (induction cs arbitrary: v st) (auto simp: named_here_def scanned_append)

text \<open>What the scan checks of every path: it is canonical, at most 65 components long, and readable.\<close>

definition path_checked :: "'h scan_host_scheme \<Rightarrow> nat \<Rightarrow> string list \<times> lane_node \<Rightarrow> bool" where
  "path_checked h depth c =
     (list_all safe_component (fst c) \<and> length (fst c) \<le> depth \<and> \<not> unstable h (path_str [] (fst c))
      \<and> file_bytes (snd c) \<le> max_file)"

lemma scan_name_Inr:
  assumes "scan_name prefix name = Inr relative" "list_all safe_component prefix"
  shows "relative = path_str [] (prefix @ [name])" "safe_component name"
proof -
  from assms(1) have r: "guard_relative (path_str [] (prefix @ [name])) = Inr relative"
    and name: "name \<notin> {[], ''.'', ''..''}" "slash \<notin> set name"
    by (auto simp: scan_name_def result_simps)
  from r show "relative = path_str [] (prefix @ [name])" by (rule guard_relative_Inr)
  from name show "safe_component name" by (simp add: safe_component_def)
qed

lemma count_bytes_Inr:
  "count_bytes n st = Inr st' \<longleftrightarrow> st' = st\<lparr>scan_bytes := scan_bytes st + file_bytes n\<rparr>
    \<and> file_bytes n \<le> max_file \<and> (kind_of n = Regular \<longrightarrow> scan_bytes st + file_bytes n \<le> max_bytes)"
  by (cases n) auto

lemma count_entry_Inr:
  "count_entry st = Inr st' \<longleftrightarrow> st' = st\<lparr>scan_count := scan_count st + 1\<rparr> \<and> scan_count st + 1 \<le> max_entries"
  by (auto simp: count_entry_def)

lemma scan_put:
  "is_leaf n \<Longrightarrow> put_leaf (path_str [] p) (put_entry (path_str [] p) (entry_of h n)
      (st\<lparr>scan_count := Suc (scan_count st), scan_bytes := scan_bytes st + file_bytes n\<rparr>)) = scanned h [(p, n)] st"
  "\<not> is_leaf n \<Longrightarrow> put_entry (path_str [] p) (entry_of h n)
      (st\<lparr>scan_count := Suc (scan_count st), scan_bytes := scan_bytes st + file_bytes n\<rparr>) = scanned h [(p, n)] st"
  by (simp_all add: put_leaf_def put_entry_def scanned_def)

lemma named_here_below: "prefix \<noteq> [] \<Longrightarrow> named_here prefix cs = length cs"
  by (simp add: named_here_def filter_id_conv)

lemma flat_Nil [simp]: "flat prefix [] = []"
  by (simp add: flat_below)

text \<open>The scan of a directory is the list of the nodes below it, when every check passes.\<close>

lemma scan_children_scanned:
  assumes "scan_children h depth prefix cs st = Inr (n, st')" "list_all safe_component prefix" "length prefix = depth"
  shows "n = named_here prefix cs \<and> st' = scanned h (flat prefix cs) st
    \<and> (\<forall>c\<in>set (flat prefix cs). path_checked h (Suc max_depth) c)"
  using assms
proof (induction "size_list (size_prod (\<lambda>_. 0) size) cs" arbitrary: depth prefix cs st n st' rule: less_induct)
  case less
  let ?step = "\<lambda>(name, node) (visible, st).
       if prefix = [] \<and> name = ''.git'' then Inr (visible, st)
       else
         bindE (scan_name prefix name) (\<lambda>relative.
         bindE (count_entry st) (\<lambda>st.
         bindE (raise_if (unstable h relative) OS_Error) (\<lambda>_.
         bindE (count_bytes node st) (\<lambda>st.
           let st = put_entry relative (entry_of h node) st in
           case node of
             Lane_Directory s grandchildren \<Rightarrow>
               bindE (scan_children h (Suc depth) (prefix @ [name]) grandchildren st) (\<lambda>(n, st).
                 Inr (Suc visible, if n = 0 then put_leaf relative st else st))
           | _ \<Rightarrow> Inr (Suc visible, put_leaf relative st)))))"
  let ?g = "\<lambda>c (visible, st). (visible + (if prefix = [] \<and> fst c = ''.git'' then 0 else 1), scanned h (below prefix c) st)"
  let ?Q = "\<lambda>c. \<forall>x\<in>set (below prefix c). path_checked h (Suc max_depth) x"
  from less.prems(1) have depth: "depth \<le> max_depth" and run: "foldE ?step (sort_key fst cs) (0, st) = Inr (n, st')"
    by (subst (asm) scan_children.simps, simp add: result_simps)+
  have one: "s' = ?g c s \<and> ?Q c" if c: "c \<in> set cs" and step: "?step c s = Inr s'" for c s s'
  proof (cases "prefix = [] \<and> fst c = ''.git''")
    case True
    with step show ?thesis by (cases c; cases s) (auto simp: below_def)
  next
    case False
    obtain name node visible st0 where cs_eq: "c = (name, node)" "s = (visible, st0)" by (cases c; cases s)
    let ?p = "prefix @ [name]"
    let ?st = "st0\<lparr>scan_count := Suc (scan_count st0), scan_bytes := scan_bytes st0 + file_bytes node\<rparr>"
    let ?put = "put_entry (path_str [] ?p) (entry_of h node) ?st"
    from step False obtain relative st1 st2 where name: "scan_name prefix name = Inr relative"
      and counted: "count_entry st0 = Inr st1" and stable: "\<not> unstable h relative" and bytes: "count_bytes node st1 = Inr st2"
      and rest: "(let st = put_entry relative (entry_of h node) st2 in
           case node of
             Lane_Directory s grandchildren \<Rightarrow>
               bindE (scan_children h (Suc depth) ?p grandchildren st) (\<lambda>(n, st).
                 Inr (Suc visible, if n = 0 then put_leaf relative st else st))
           | _ \<Rightarrow> Inr (Suc visible, put_leaf relative st)) = Inr s'"
      by (auto simp: cs_eq result_simps)
    note name = scan_name_Inr[OF name less.prems(2)]
    from counted bytes have st2: "st2 = ?st" and small: "file_bytes node \<le> max_file"
      by (auto simp: count_entry_Inr count_bytes_Inr)
    have checked: "path_checked h (Suc max_depth) (?p, node)"
      using less.prems(2,3) name stable small depth by (simp add: path_checked_def)
    have below: "below prefix c = (?p, node) # flat ?p (children node)" using False by (simp add: below_def cs_eq)
    show ?thesis
    proof (cases "is_directory node")
      case False
      then have leaf: "children node = []" by (cases node) simp_all
      with False rest have "s' = (Suc visible, put_leaf (path_str [] ?p) ?put)"
        by (cases node) (simp_all add: name(1) st2 Let_def)
      with leaf below checked scan_put(1)[of node ?p h st0] show ?thesis
        using \<open>\<not> (prefix = [] \<and> fst c = ''.git'')\<close> by (auto simp: cs_eq is_leaf_def)
    next
      case True
      then obtain d gs where node: "node = Lane_Directory d gs" by (cases node) simp_all
      from rest node obtain m st3 where scan: "scan_children h (Suc depth) ?p gs ?put = Inr (m, st3)"
        and s': "s' = (Suc visible, if m = 0 then put_leaf (path_str [] ?p) st3 else st3)"
        by (auto simp: name(1) st2 Let_def result_simps)
      have "size_list (size_prod (\<lambda>_. 0) size) gs < size_list (size_prod (\<lambda>_. 0) size) cs"
        using children_smaller c node cs_eq by (metis children.simps(1))
      from less.hyps[OF this scan] less.prems(2,3) name(2)
      have ih: "m = length gs" "st3 = scanned h (flat ?p gs) ?put"
        "\<forall>x\<in>set (flat ?p gs). path_checked h (Suc max_depth) x"
        by (auto simp: named_here_below)
      have "(if m = 0 then put_leaf (path_str [] ?p) st3 else st3) = scanned h (flat ?p gs) (scanned h [(?p, node)] st0)"
        using scan_put[of node ?p h st0] ih(1,2) by (cases gs) (simp_all add: is_leaf_def node)
      then show ?thesis
        using s' ih(3) checked below scanned_Cons[of h ?p node "flat ?p gs" st0] False by (auto simp: cs_eq node)
    qed
  qed
  have "(n, st') = fold ?g (sort_key fst cs) (0, st) \<and> (\<forall>c\<in>set (sort_key fst cs). ?Q c)"
    using run by (rule foldE_relates) (use one in simp)
  moreover have "named_here prefix (sort_key fst cs) = named_here prefix cs"
    by (simp add: named_here_def flip: size_mset) 
  ultimately show ?case by (simp add: scanned_fold flat_below) 
qed

text \<open>The counters stay within the limits.\<close>

definition within_limits :: "scan_state \<Rightarrow> bool" where
  "within_limits st = (scan_count st \<le> max_entries \<and> scan_bytes st \<le> max_bytes)"

lemma within_limits_put [simp]:
  "within_limits (put_leaf p st) = within_limits st" "within_limits (put_entry p e st) = within_limits st"
  by (simp_all add: within_limits_def put_leaf_def put_entry_def)

lemma scan_children_limits:
  assumes "scan_children h depth prefix cs st = Inr (n, st')" "within_limits st"
  shows "within_limits st'"
  using assms
proof (induction "size_list (size_prod (\<lambda>_. 0) size) cs" arbitrary: depth prefix cs st n st' rule: less_induct)
  case less
  have "(\<lambda>(v, st). within_limits st) (n, st')"
    using less.prems(1) unfolding scan_children.simps[of h depth] bindE_eq_Inr raise_if_eq_Inr
  proof (elim exE conjE, elim foldE_invariant[where P = "\<lambda>(v, st). within_limits st"], goal_cases)
    case 1
    show ?case using less.prems(2) by simp
  next
    case (2 u c s s')
    obtain name node visible st0 where eq: "c = (name, node)" "s = (visible, st0)" by (cases c; cases s)
    show ?case
    proof (cases "prefix = [] \<and> name = ''.git''")
      case True
      with 2(5) have "s' = s" by (simp add: eq)
      with 2(4) show ?thesis by simp
    next
      case False
      from 2 False obtain relative st1 st2 where counted: "count_entry st0 = Inr st1" "count_bytes node st1 = Inr st2"
        and rest: "(let st = put_entry relative (entry_of h node) st2 in
             case node of
               Lane_Directory s grandchildren \<Rightarrow>
                 bindE (scan_children h (Suc depth) (prefix @ [name]) grandchildren st) (\<lambda>(n, st).
                   Inr (Suc visible, if n = 0 then put_leaf relative st else st))
             | _ \<Rightarrow> Inr (Suc visible, put_leaf relative st)) = Inr s'"
        by (auto simp: eq result_simps)
      from counted 2(4) have st2: "within_limits st2"
        by (cases node) (auto simp: count_entry_Inr within_limits_def eq split: if_splits)
      show ?thesis
      proof (cases node)
        case (Lane_Directory d gs)
        with rest obtain m st3 where scan: "scan_children h (Suc depth) (prefix @ [name]) gs
            (put_entry relative (entry_of h node) st2) = Inr (m, st3)"
          and s': "s' = (Suc visible, if m = 0 then put_leaf relative st3 else st3)"
          by (auto simp: Let_def result_simps)
        from 2(3) have "size_list (size_prod (\<lambda>_. 0) size) gs < size_list (size_prod (\<lambda>_. 0) size) cs"
          using children_smaller Lane_Directory eq by (metis children.simps(1) set_sort)
        from less.hyps[OF this scan] st2 s' show ?thesis by simp
      qed (use rest st2 in \<open>auto simp: Let_def\<close>)
    qed
  qed
  then show ?case by simp
qed

section \<open>The nodes of a tree by their paths\<close>

text \<open>No directory has two entries of one name.\<close>

function unique_names :: "(string \<times> lane_node) list \<Rightarrow> bool" where
  "unique_names cs = (distinct (map fst cs) \<and> list_all (\<lambda>(name, n). unique_names (children n)) cs)"
  by pat_completeness auto
termination
  by (relation "measure (size_list (size_prod (\<lambda>_. 0) size))") (auto dest: children_smaller)

declare unique_names.simps [simp del]

lemma unique_names_children:
  assumes "unique_names cs" "map_of cs name = Some n"
  shows "unique_names (children n)"
  using assms by (subst (asm) unique_names.simps) (auto simp: list_all_iff dest!: map_of_SomeD)

lemma map_of_unique:
  assumes "unique_names cs"
  shows "map_of cs name = Some n \<longleftrightarrow> (name, n) \<in> set cs"
  using assms by (subst (asm) unique_names.simps) (simp add: map_of_eq_Some_iff)

text \<open>Membership in the list of nodes: the path leads to the node, and does not start at \<open>.git\<close>.\<close>

abbreviation directory_of :: "(string \<times> lane_node) list \<Rightarrow> lane_node" where
  "directory_of cs \<equiv> Lane_Directory \<lparr>node_device = 0, node_inode = 0, node_perms = 0, node_uid = 0, node_gid = 0\<rparr> cs"

lemma node_at_children: "children a = children b \<Longrightarrow> ps \<noteq> [] \<Longrightarrow> node_at a ps = node_at b ps"
  by (cases ps) simp_all

lemma ex_list_cases: "(\<exists>ns. A ns) \<longleftrightarrow> A [] \<or> (\<exists>ns. ns \<noteq> [] \<and> A ns)"
  by metis

lemma in_flat:
  assumes "unique_names cs"
  shows "(q, n) \<in> set (flat prefix cs) \<longleftrightarrow>
    (\<exists>name ns. q = prefix @ name # ns \<and> node_at (directory_of cs) (name # ns) = Some n
       \<and> \<not> (prefix = [] \<and> name = ''.git''))"
  using assms
proof (induction "size_list (size_prod (\<lambda>_. 0) size) cs" arbitrary: prefix cs q rule: less_induct)
  case less
  have one: "(q, n) \<in> set (below prefix (name, m)) \<longleftrightarrow>
      (\<exists>ns. q = prefix @ name # ns \<and> node_at m ns = Some n \<and> \<not> (prefix = [] \<and> name = ''.git''))"
    if m: "(name, m) \<in> set cs" for name m
  proof -
    have "map_of cs name = Some m" using m by (simp add: map_of_unique[OF less.prems])
    note ih = less.hyps[OF children_smaller[OF m] unique_names_children[OF less.prems this]]
    have "(q, n) \<in> set (flat (prefix @ [name]) (children m)) \<longleftrightarrow>
        (\<exists>x ns. q = prefix @ name # x # ns \<and> node_at (directory_of (children m)) (x # ns) = Some n)"
      unfolding ih by simp
    also have "\<dots> \<longleftrightarrow> (\<exists>ns. ns \<noteq> [] \<and> q = prefix @ name # ns \<and> node_at m ns = Some n)"
      using node_at_children[of "directory_of (children m)" m] by (metis children.simps(1) list.distinct(1) list.exhaust)
    finally have nested: "(q, n) \<in> set (flat (prefix @ [name]) (children m)) \<longleftrightarrow>
        (\<exists>ns. ns \<noteq> [] \<and> q = prefix @ name # ns \<and> node_at m ns = Some n)" .
    have "(q, n) \<in> set (below prefix (name, m)) \<longleftrightarrow> \<not> (prefix = [] \<and> name = ''.git'')
        \<and> (q = prefix @ name # [] \<and> node_at m [] = Some n \<or> (q, n) \<in> set (flat (prefix @ [name]) (children m)))"
      by (auto simp: below_def)
    then show ?thesis
      using nested ex_list_cases[of "\<lambda>ns. q = prefix @ name # ns \<and> node_at m ns = Some n"]
      by (metis (no_types, lifting))
  qed
  have at: "node_at (directory_of cs) (name # ns) = Some n \<longleftrightarrow> (\<exists>m. map_of cs name = Some m \<and> node_at m ns = Some n)"
    for name ns by (simp split: option.split)
  have "(q, n) \<in> set (flat prefix cs) \<longleftrightarrow> (\<exists>(name, m)\<in>set cs. (q, n) \<in> set (below prefix (name, m)))"
    by (auto simp: flat_below)
  also have "\<dots> \<longleftrightarrow> (\<exists>name m ns. (name, m) \<in> set cs \<and> q = prefix @ name # ns \<and> node_at m ns = Some n
      \<and> \<not> (prefix = [] \<and> name = ''.git''))"
    using one by fastforce
  also have "\<dots> \<longleftrightarrow> (\<exists>name ns. q = prefix @ name # ns \<and> node_at (directory_of cs) (name # ns) = Some n
      \<and> \<not> (prefix = [] \<and> name = ''.git''))"
    unfolding at map_of_unique[OF less.prems, symmetric] by blast
  finally show ?case .
qed

section \<open>The scan of a lane\<close>

lemma fold_update_functional:
  assumes "\<And>p n p' n'. (p, n) \<in> set ns \<Longrightarrow> (p', n') \<in> set ns \<Longrightarrow> f p = f p' \<Longrightarrow> g n = g n'"
  shows "map_of (fold (\<lambda>(p, n). AList.update (f p) (g n)) ns []) k = Some e \<longleftrightarrow>
    (\<exists>p n. (p, n) \<in> set ns \<and> f p = k \<and> g n = e)"
  using assms
proof (induction ns rule: rev_induct)
  case (snoc x xs)
  obtain p n where x: "x = (p, n)" by (cases x)
  have ih: "map_of (fold (\<lambda>(p, n). AList.update (f p) (g n)) xs []) k = Some e \<longleftrightarrow>
      (\<exists>p n. (p, n) \<in> set xs \<and> f p = k \<and> g n = e)"
  proof (rule snoc.IH)
    fix p n p' n'
    assume "(p, n) \<in> set xs" "(p', n') \<in> set xs" "f p = f p'"
    then show "g n = g n'" using snoc.prems[of p n p' n'] by simp
  qed
  show ?case
  proof (cases "f p = k")
    case False
    then show ?thesis using ih by (auto simp: x update_conv')
  next
    case True
    have "g n' = g n" if "(p', n') \<in> set (xs @ [x])" "f p' = k" for p' n'
      using snoc.prems[of p' n' p n] that True x by simp
    then have "(\<exists>p' n'. (p', n') \<in> set (xs @ [x]) \<and> f p' = k \<and> g n' = e) \<longleftrightarrow> e = g n" using True x by auto
    then show ?thesis using True x by (auto simp: update_conv')
  qed
qed simp

text \<open>The paths the scan visits: not the administration directory, and nothing below it.\<close>

definition visible_path :: "string list \<Rightarrow> bool" where
  "visible_path parts = (parts \<noteq> [] \<and> hd parts \<noteq> ''.git'' \<and> list_all safe_component parts)"

lemma path_str_inject:
  "visible_path p \<Longrightarrow> visible_path q \<Longrightarrow> path_str [] p = path_str [] q \<longleftrightarrow> p = q"
  by (metis canonical_text(2) visible_path_def)

lemma scan_lane_tree_Inr:
  assumes "scan_lane_tree h lane = Inr (nodes, leaves)"
  obtains st where "st = scanned h (flat [] (children lane)) empty_scan" "nodes = scan_nodes st"
    "leaves = scan_leaves st" "\<forall>c\<in>set (flat [] (children lane)). path_checked h (Suc max_depth) c" "within_limits st"
proof -
  from assms obtain n st where run: "scan_children h 0 [] (children lane) empty_scan = Inr (n, st)"
    and eq: "nodes = scan_nodes st" "leaves = scan_leaves st"
    by (auto simp: scan_lane_tree_def result_simps)
  have "within_limits st" by (rule scan_children_limits[OF run]) (simp add: within_limits_def empty_scan_def)
  with scan_children_scanned[OF run] eq show thesis by (intro that) auto
qed

lemma in_flat_root:
  assumes "unique_names (children lane)" "\<forall>c\<in>set (flat [] (children lane)). path_checked h depth c"
  shows "(parts, n) \<in> set (flat [] (children lane)) \<longleftrightarrow> visible_path parts \<and> node_at lane parts = Some n"
proof -
  have "(parts, n) \<in> set (flat [] (children lane)) \<longleftrightarrow> parts \<noteq> [] \<and> hd parts \<noteq> ''.git'' \<and> node_at lane parts = Some n"
    unfolding in_flat[OF assms(1)]
    using node_at_children[of "directory_of (children lane)" lane] by (cases parts) auto
  with assms(2) show ?thesis by (fastforce simp: visible_path_def path_checked_def)
qed

lemma scan_lane_tree_nodes:
  assumes scan: "scan_lane_tree h lane = Inr (nodes, leaves)" and unique: "unique_names (children lane)"
  shows "map_of nodes p = Some e \<longleftrightarrow>
      (\<exists>parts n. visible_path parts \<and> p = path_str [] parts \<and> node_at lane parts = Some n \<and> e = entry_of h n)"
    "p \<in> set leaves \<longleftrightarrow> (\<exists>parts n. visible_path parts \<and> p = path_str [] parts \<and> node_at lane parts = Some n \<and> is_leaf n)"
proof -
  obtain st where st: "st = scanned h (flat [] (children lane)) empty_scan" and eq: "nodes = scan_nodes st" "leaves = scan_leaves st"
    and checked: "\<forall>c\<in>set (flat [] (children lane)). path_checked h (Suc max_depth) c"
    using scan by (rule scan_lane_tree_Inr)
  note flat = in_flat_root[OF unique checked]
  have same: "entry_of h n = entry_of h n'"
    if "(q, n) \<in> set (flat [] (children lane))" "(q', n') \<in> set (flat [] (children lane))"
      "path_str [] q = path_str [] q'" for q n q' n'
    using that by (auto simp: flat path_str_inject)
  have "map_of (fold (\<lambda>(p, n). AList.update (path_str [] p) (entry_of h n)) (flat [] (children lane)) []) p = Some e
      \<longleftrightarrow> (\<exists>q n. (q, n) \<in> set (flat [] (children lane)) \<and> path_str [] q = p \<and> entry_of h n = e)"
    by (rule fold_update_functional) (rule same)
  then show "map_of nodes p = Some e \<longleftrightarrow>
      (\<exists>parts n. visible_path parts \<and> p = path_str [] parts \<and> node_at lane parts = Some n \<and> e = entry_of h n)"
    unfolding eq st scanned_def empty_scan_def by (auto simp: flat)
  show "p \<in> set leaves \<longleftrightarrow> (\<exists>parts n. visible_path parts \<and> p = path_str [] parts \<and> node_at lane parts = Some n \<and> is_leaf n)"
    unfolding eq st scanned_def empty_scan_def by (auto simp: flat image_iff)
qed

text \<open>Every path of a scan is canonical.\<close>

lemma visible_canonical: "visible_path parts \<Longrightarrow> canonical (path_str [] parts)"
  by (simp add: visible_path_def canonical_text(1))

lemma keys_fold_scan:
  "fst ` set (fold (\<lambda>(p, n). AList.update (f p) (g n)) ns d) = fst ` set d \<union> f ` fst ` set ns"
proof (induction ns arbitrary: d)
  case (Cons x ns)
  obtain p n where x: "x = (p, n)" by (cases x)
  have "fst ` set (fold (\<lambda>(p, n). AList.update (f p) (g n)) (x # ns) d) =
      fst ` set (AList.update (f p) (g n) d) \<union> f ` fst ` set ns"
    by (simp only: x fold_simps prod.case o_apply Cons.IH)
  also have "\<dots> = fst ` set d \<union> f ` fst ` set (x # ns)" unfolding dom_update x by simp
  finally show ?case .
qed simp

lemma flat_longer: "(q, n) \<in> set (flat prefix cs) \<Longrightarrow> length prefix < length q"
proof (induction "size_list (size_prod (\<lambda>_. 0) size) cs" arbitrary: prefix cs rule: less_induct)
  case less
  from less.prems obtain name m where m: "(name, m) \<in> set cs"
    "q = prefix @ [name] \<or> (q, n) \<in> set (flat (prefix @ [name]) (children m))"
    by (subst (asm) flat_below) (auto simp: below_def split: if_splits)
  with less.hyps[OF children_smaller[OF m(1)], of "prefix @ [name]"] show ?case by auto
qed

lemma scan_canonical:
  assumes "scan_lane_tree h lane = Inr (nodes, leaves)"
  shows "list_all canonical (map fst nodes)" "list_all canonical leaves"
proof -
  obtain st where st: "st = scanned h (flat [] (children lane)) empty_scan" and eq: "nodes = scan_nodes st" "leaves = scan_leaves st"
    and checked: "\<forall>c\<in>set (flat [] (children lane)). path_checked h (Suc max_depth) c"
    using assms by (rule scan_lane_tree_Inr)
  have all: "canonical (path_str [] q)" if "(q, n) \<in> set (flat [] (children lane))" for q n
    using checked that flat_longer[OF that] canonical_text(1)[of q] by (fastforce simp: path_checked_def)
  have "fst ` set nodes = path_str [] ` fst ` set (flat [] (children lane))"
    by (simp add: eq st scanned_def empty_scan_def keys_fold_scan)
  then show "list_all canonical (map fst nodes)" using all by (auto simp: list_all_iff)
  from all show "list_all canonical leaves"
    by (auto simp: list_all_iff eq st scanned_def empty_scan_def)
qed

end
