(* ===== verification/Coordinator_Projection.thy ===== *)
theory Coordinator_Projection
  imports Coordinator_Recovery
begin

text \<open>
  Two read-only views of a coordinator journal: \<open>_coordinator_projection\<close> of
  \<open>controlled_planner.py\<close>, which tells how much of a provisional plan the lanes in use leave
  room for, and \<open>inspect_project_coordinator\<close> of \<open>controlled_coordinator.py\<close>.
\<close>

section \<open>Coordinator snapshots and projections\<close>

record coordinator_snapshot =
  coordinator_projectId :: string
  coordinator_executionKey :: string
  baseBatchPlanId :: string
  coordinator_journalVersion :: int
  coordinator_journalDigest :: string
  coordinator_recoveryState :: recovery_state
  coordinator_envelopeDigest :: string
  coordinator_policyVersion :: string
  coordinator_laneBase :: string
  coordinator_journal :: journal

record coordinator_projection =
  projection_projectId :: string
  projection_executionKey :: string
  projection_batchPlanId :: string
  projection_journalVersion :: int
  projection_journalDigest :: string
  availableProjectLanes :: int
  retainedAdmissions :: "admission list"
  projection_queued :: "plan_entry list"

text \<open>\<open>core/schemas/controlled-coordinator-snapshot.schema.json\<close>\<close>

definition coordinator_snapshot_schema :: "coordinator_snapshot \<Rightarrow> bool" where
  "coordinator_snapshot_schema s =
     (is_id (coordinator_projectId s) \<and> is_execution_key (coordinator_executionKey s)
      \<and> is_stable_id ''batch-plan'' (baseBatchPlanId s) \<and> 0 \<le> coordinator_journalVersion s
      \<and> is_digest (coordinator_journalDigest s) \<and> is_digest (coordinator_envelopeDigest s)
      \<and> coordinator_policyVersion s = ''controlled-conflict-policy/v1''
      \<and> is_commit (coordinator_laneBase s) \<and> journal_schema (coordinator_journal s))"

text \<open>\<open>core/schemas/controlled-coordinator-projection.schema.json\<close>\<close>

definition projection_schema :: "coordinator_projection \<Rightarrow> bool" where
  "projection_schema p =
     (is_id (projection_projectId p) \<and> is_execution_key (projection_executionKey p)
      \<and> is_stable_id ''batch-plan'' (projection_batchPlanId p) \<and> 0 \<le> projection_journalVersion p
      \<and> is_digest (projection_journalDigest p)
      \<and> 0 \<le> availableProjectLanes p \<and> availableProjectLanes p \<le> 3
      \<and> list_all admission_schema (retainedAdmissions p) \<and> distinct (retainedAdmissions p)
      \<and> list_all entry_schema (projection_queued p) \<and> distinct (projection_queued p))"

section \<open>The projection\<close>

abbreviation snapshot_mismatch :: harness_error where
  "snapshot_mismatch \<equiv> Planning_Error ''COORDINATOR_SNAPSHOT_BINDING_MISMATCH''"

definition active_leases :: "journal \<Rightarrow> lease list" where
  "active_leases j = filter is_nonterminal (leases j)"

definition snapshot_digest_of :: "(string \<Rightarrow> string) \<Rightarrow> journal \<Rightarrow> string" where
  "snapshot_digest_of sha j =
     (if receipts j \<noteq> [] then receipt_journalDigest (last (receipts j)) else sha256_json sha (journal_json j))"

text \<open>The checks that tie the snapshot to the request, the plan and its own journal.\<close>

definition check_coordinator_snapshot ::
    "(string \<Rightarrow> string) \<Rightarrow> ssh_host \<Rightarrow> planning_request \<Rightarrow> execution_plan \<Rightarrow> coordinator_snapshot \<Rightarrow> unit result" where
  "check_coordinator_snapshot sha host r p s =
     (let j = coordinator_journal s; active = active_leases j;
          projects = List.map_filter (\<lambda>x. acquire_command_in (receipt_evidence_of x)) (receipts j) in
      bindE (raise_if (\<not> coordinator_snapshot_schema s) (Schema_Error ''controlled-coordinator-snapshot'')) (\<lambda>_.
      bindE (case validate_journal_integrity sha host j False of
               Inl _ \<Rightarrow> Inl (Planning_Error ''COORDINATOR_SNAPSHOT_CORRUPT'') | Inr _ \<Rightarrow> Inr ()) (\<lambda>_.
      bindE (raise_if (coordinator_recoveryState s \<noteq> CLEAR \<or> recoveryState j \<noteq> CLEAR)
               (Planning_Error ''COORDINATOR_RECOVERY_REQUIRED'')) (\<lambda>_.
      bindE (raise_if (coordinator_projectId s \<noteq> request_projectId r
                       \<or> coordinator_executionKey s \<noteq> journal_executionKey j
                       \<or> baseBatchPlanId s \<noteq> batchPlanId p
                       \<or> coordinator_journalVersion s \<noteq> journalVersion j
                       \<or> coordinator_journalDigest s \<noteq> snapshot_digest_of sha j
                       \<or> coordinator_recoveryState s \<noteq> recoveryState j
                       \<or> coordinator_envelopeDigest s \<noteq> envelopeDigest (authorizationEnvelope r)
                       \<or> coordinator_policyVersion s \<noteq> conflictPolicyVersion r
                       \<or> coordinator_laneBase s \<noteq> batchBaseCommit r) snapshot_mismatch) (\<lambda>_.
      bindE (raise_if (list_ex (\<lambda>l. lease_envelopeDigest l \<noteq> coordinator_envelopeDigest s
                                   \<or> lease_policyVersion l \<noteq> coordinator_policyVersion s
                                   \<or> lease_laneBase l \<noteq> coordinator_laneBase s) active) snapshot_mismatch) (\<lambda>_.
      raise_if (projects \<noteq> [] \<and> set (map acquire_projectId projects) \<noteq> {coordinator_projectId s})
        snapshot_mismatch))))))"

text \<open>The planning graph of the lanes in use and the plan, under the planner's error code.\<close>

definition projection_graph ::
    "lease list \<Rightarrow> conflict_report \<Rightarrow> conflict_footprint list result" where
  "projection_graph active report =
     merged_footprints snapshot_mismatch (concat (map planningFootprints active) @ footprints report)"

text \<open>One proposed admission: queued behind a lane in use, queued for capacity, or retained.\<close>

definition project_admission ::
    "lease list \<Rightarrow> conflict_footprint list \<Rightarrow> (string, conflict_footprint) dict \<Rightarrow> int \<Rightarrow> admission
      \<Rightarrow> admission list \<times> plan_entry list \<Rightarrow> (admission list \<times> plan_entry list) result" where
  "project_admission active graph by_slice lane_cap a st =
     bindE (lookupE by_slice (admission_sliceId a)) (\<lambda>current.
       Inr (if list_ex (\<lambda>l. footprints_conflict (lease_footprint l) current graph) active
            then (fst st, snd st @ [\<lparr>entry_sliceId = admission_sliceId a,
                                     entry_reasons = [''ACTIVE_LEASE_CONFLICT'']\<rparr>])
            else if int (length active) + int (length (fst st)) \<ge> lane_cap
            then (fst st, snd st @ [\<lparr>entry_sliceId = admission_sliceId a,
                                     entry_reasons = [''PROJECT_CAPACITY_LIMIT'']\<rparr>])
            else (fst st @ [a], snd st)))"

definition build_coordinator_projection ::
    "(string \<Rightarrow> string) \<Rightarrow> ssh_host \<Rightarrow> planning_request \<Rightarrow> execution_plan \<Rightarrow> conflict_report
      \<Rightarrow> coordinator_snapshot \<Rightarrow> coordinator_projection result" where
  "build_coordinator_projection sha host r p report s =
     (let active = active_leases (coordinator_journal s); lane_cap = projectLaneCap p in
      bindE (check_coordinator_snapshot sha host r p s) (\<lambda>_.
      bindE (projection_graph active report) (\<lambda>graph.
      bindE (foldE (project_admission active graph
                      (dict_of (map (\<lambda>f. (sliceId f, f)) (footprints report))) lane_cap)
               (proposedAdmissions p) ([], [])) (\<lambda>(retained, queued).
      let projection =
        \<lparr>projection_projectId = request_projectId r, projection_executionKey = coordinator_executionKey s,
         projection_batchPlanId = batchPlanId p, projection_journalVersion = coordinator_journalVersion s,
         projection_journalDigest = coordinator_journalDigest s,
         availableProjectLanes = max 0 (lane_cap - int (length active)),
         retainedAdmissions = retained, projection_queued = sort_key entry_sliceId queued\<rparr> in
      bindE (raise_if (\<not> projection_schema projection) (Schema_Error ''controlled-coordinator-projection'')) (\<lambda>_.
        Inr projection)))))"

text \<open>\<open>build_provisional_execution_plan\<close> with a coordinator snapshot.\<close>

definition plan_with_projection ::
    "(string \<Rightarrow> string) \<Rightarrow> ssh_host \<Rightarrow> planning_request \<Rightarrow> coordinator_snapshot
      \<Rightarrow> (plan_bundle \<times> coordinator_projection) result" where
  "plan_with_projection sha host request s =
     bindE (normalize_planning_request sha request) (\<lambda>normalized.
     bindE (build_provisional_plan sha normalized) (\<lambda>bundle.
     bindE (build_coordinator_projection sha host normalized (executionPlan bundle)
              (conflictReport bundle) s) (\<lambda>projection.
       Inr (bundle, projection))))"

section \<open>Inspection\<close>

record lease_status =
  status_leaseId :: string
  status_key :: "string \<times> string \<times> string"
  status_token :: int
  status_state :: slice_state
  status_released :: bool
  status_retained :: bool
  status_recovery :: recovery_state

record coordinator_status =
  status_executionKey :: string
  status_initialized :: bool
  status_version :: int
  status_nextToken :: int
  status_recoveryState :: recovery_state
  latestReceiptId :: "string option"
  status_digest :: "string option"
  retainedLeaseIds :: "string list"
  releasedLeaseIds :: "string list"
  status_leases :: "lease_status list"

definition lease_status_of :: "lease \<Rightarrow> lease_status" where
  "lease_status_of l =
     \<lparr>status_leaseId = leaseId l, status_key = lease_key l, status_token = lease_fencingToken l,
      status_state = lease_state l, status_released = released l, status_retained = (\<not> released l),
      status_recovery = recoveryStatus l\<rparr>"

definition coordinator_status_of :: "string \<Rightarrow> journal option \<Rightarrow> coordinator_status" where
  "coordinator_status_of key j =
     (case j of
        None \<Rightarrow>
          \<lparr>status_executionKey = key, status_initialized = False, status_version = 0, status_nextToken = 1,
           status_recoveryState = CLEAR, latestReceiptId = None, status_digest = None,
           retainedLeaseIds = [], releasedLeaseIds = [], status_leases = []\<rparr>
      | Some j \<Rightarrow>
          (let ls = map lease_status_of (leases j); latest = last (receipts j) in
           \<lparr>status_executionKey = key, status_initialized = True, status_version = journalVersion j,
            status_nextToken = nextFencingToken j, status_recoveryState = recoveryState j,
            latestReceiptId = Some (receiptId latest), status_digest = Some (receipt_journalDigest latest),
            retainedLeaseIds = map status_leaseId (filter status_retained ls),
            releasedLeaseIds = map status_leaseId (filter status_released ls),
            status_leases = ls\<rparr>))"

end
