(* ===== verification/Coordinator_Steps.thy ===== *)
theory Coordinator_Steps
  imports Coordinator_Projection
begin

text \<open>
  The coordinator as a state machine on journals: the four commands as one step relation (an
  observation commits by the quarantine that the write guard also uses), the
  journals it reaches from the empty one, and what each step changes. The step lemmas invert
  the handlers once, so that the invariants only look at the committed journals.
\<close>

section \<open>Steps and reachable journals\<close>

text \<open>A committed journal passed the integrity check before it was written (\<^const>\<open>check_replacement\<close>).\<close>

inductive coordinator_step :: "(string \<Rightarrow> string) \<Rightarrow> string \<Rightarrow> journal \<Rightarrow> journal \<Rightarrow> bool" for sha key where
  acquired: "projectExecutionKey identity = key \<Longrightarrow>
    acquire_step sha live identity j raw = Inr (Commit j' r) \<Longrightarrow>
    validate_journal_integrity sha (live_ssh live) j' True = Inr () \<Longrightarrow> coordinator_step sha key j j'"
| transitioned: "projectExecutionKey identity = key \<Longrightarrow>
    transition_step sha live identity j raw' = Inr (Commit j' r) \<Longrightarrow>
    validate_journal_integrity sha (live_ssh live) j' True = Inr () \<Longrightarrow> coordinator_step sha key j j'"
| observed: "normalize_write_observation_command sha raw'' = Inr ob \<Longrightarrow>
    quarantine_step sha j ob (observedPaths ob) = Inr (Commit j' r) \<Longrightarrow>
    validate_journal_integrity sha host j' True = Inr () \<Longrightarrow> coordinator_step sha key j j'"
| recovered: "projectExecutionKey identity = key \<Longrightarrow>
    normalize_recovery_command sha raw''' = Inr rc \<Longrightarrow>
    recovery_step sha live identity (Some j) rc = Inr (Commit j' r) \<Longrightarrow>
    validate_journal_integrity sha (live_ssh live) j' True = Inr () \<Longrightarrow> coordinator_step sha key j j'"

inductive coordinated :: "(string \<Rightarrow> string) \<Rightarrow> string \<Rightarrow> journal \<Rightarrow> bool" for sha key where
  empty: "coordinated sha key (empty_journal key)"
| step: "coordinated sha key j \<Longrightarrow> coordinator_step sha key j j' \<Longrightarrow> coordinated sha key j'"

section \<open>Appending a receipt\<close>

lemma append_receipt_fields [simp]:
  "journal_executionKey (fst (append_receipt sha j r)) = journal_executionKey j"
  "journalVersion (fst (append_receipt sha j r)) = journalVersion j"
  "nextFencingToken (fst (append_receipt sha j r)) = nextFencingToken j"
  "recoveryState (fst (append_receipt sha j r)) = recoveryState j"
  "recoveryEvidence (fst (append_receipt sha j r)) = recoveryEvidence j"
  "leases (fst (append_receipt sha j r)) = leases j"
  "receipts (fst (append_receipt sha j r)) = receipts j @ [snd (append_receipt sha j r)]"
  by (simp_all add: append_receipt_def Let_def)

lemma append_receipt_receipt:
  "\<exists>d. snd (append_receipt sha j r) = r\<lparr>receipt_journalDigest := d\<rparr>"
  by (auto simp: append_receipt_def Let_def)

text \<open>The sealed receipt keeps everything but its digest.\<close>

lemma append_receipt_sealed [simp]:
  "receiptId (snd (append_receipt sha j r)) = receiptId r"
  "receipt_executionKey (snd (append_receipt sha j r)) = receipt_executionKey r"
  "previousJournalVersion (snd (append_receipt sha j r)) = previousJournalVersion r"
  "nextJournalVersion (snd (append_receipt sha j r)) = nextJournalVersion r"
  "receipt_commandDigest (snd (append_receipt sha j r)) = receipt_commandDigest r"
  "receipt_fencingToken (snd (append_receipt sha j r)) = receipt_fencingToken r"
  "receipt_previousState (snd (append_receipt sha j r)) = receipt_previousState r"
  "receipt_nextState (snd (append_receipt sha j r)) = receipt_nextState r"
  "receipt_snapshotFingerprint (snd (append_receipt sha j r)) = receipt_snapshotFingerprint r"
  "recordedAt (snd (append_receipt sha j r)) = recordedAt r"
  "receipt_evidence_of (snd (append_receipt sha j r)) = receipt_evidence_of r"
  by (simp_all add: append_receipt_def Let_def)

text \<open>The digest of the sealed receipt is the digest of the journal it ends.\<close>

lemma append_receipt_digest:
  "receipt_journalDigest (snd (append_receipt sha j r)) = journal_digest sha (fst (append_receipt sha j r))"
  by (simp add: append_receipt_def Let_def journal_digest_def zero_last_def)

section \<open>Inversion of the handlers\<close>

lemma commit_pair_eq [simp]:
  "((case p of (a, b) \<Rightarrow> Inr (Commit a b)) = Inr (Commit j r)) \<longleftrightarrow> p = (j, r)"
  by (cases p) simp


lemma bindE_InrE:
  assumes "bindE m f = Inr y"
  obtains x where "m = Inr x" "f x = Inr y"
  using assms by (auto simp: bindE_eq_Inr)

lemma raise_ifE:
  assumes "bindE (raise_if c e) f = Inr y"
  obtains "\<not> c" "f () = Inr y"
  using assms by (cases c) simp_all

lemma replayed_not_Commit [simp]:
  "bindE m (\<lambda>res. Inr (Replayed res)) \<noteq> Inr (Commit j r)" "replayed x \<noteq> Inr (Commit j r)"
  by (auto simp: replayed_def bindE_eq_Inr)

lemma acquire_step_Commit:
  assumes "acquire_step sha live identity j raw = Inr (Commit j' r)"
  obtains c lane graph where
    "normalize_acquire_command sha raw = Inr c" "recoveryState j = CLEAR"
    "\<forall>l\<in>set (leases j). lease_tuple l \<noteq> idempotency_tuple (projectExecutionKey identity) raw"
    "validate_live_bindings live identity c = Inr lane"
    "admit sha j c lane = Inr graph"
    "j' = fst (commit_acquisition sha (projectExecutionKey identity) j c lane graph)"
    "r = snd (commit_acquisition sha (projectExecutionKey identity) j c lane graph)"
proof -
  let ?key = "projectExecutionKey identity"
  let ?known = "find (\<lambda>l. lease_tuple l = idempotency_tuple ?key raw) (leases j)"
  from assms have clear: "recoveryState j = CLEAR"
    unfolding acquire_step_def by (elim raise_ifE) simp
  from assms clear have none: "?known = None" and "admit_command sha live identity j raw = Inr (j', r)"
    by (simp_all add: acquire_step_def bindE_eq_Inr split: option.splits)
  from this(2) obtain c retired lane graph where c: "normalize_acquire_command sha raw = Inr c"
    and lane: "validate_live_bindings live identity c = Inr lane" and graph: "admit sha j c lane = Inr graph"
    and commit: "commit_acquisition sha ?key j c lane graph = (j', r)"
    unfolding admit_command_def split_def by (elim bindE_InrE raise_ifE) simp
  show thesis
    by (rule that[OF c clear _ lane graph]) (use none commit in \<open>simp_all add: find_None_iff\<close>)
qed

lemma transition_step_Commit:
  assumes "transition_step sha live identity j raw = Inr (Commit j' r)"
  obtains c l fp candidate where
    "normalize_transition_command sha raw = Inr c"
    "transition_executionKey c = projectExecutionKey identity"
    "find_lease (transition_leaseId c) (leases j) = Some l"
    "authorize_transition sha live identity j l c = Inr fp"
    "exact_transition_replay j l c = None"
    "check_transition live j l c = Inr candidate"
    "j' = fst (commit_transition sha (projectExecutionKey identity) j l c fp candidate)"
    "r = snd (commit_transition sha (projectExecutionKey identity) j l c fp candidate)"
proof -
  let ?key = "projectExecutionKey identity"
  from assms obtain c where c: "normalize_transition_command sha raw = Inr c"
    "transition_executionKey c = ?key"
    unfolding transition_step_def by (elim bindE_InrE raise_ifE) simp
  from assms c obtain l where l: "find_lease (transition_leaseId c) (leases j) = Some l"
    by (simp add: transition_step_def split: option.splits)
  from assms c l obtain fp where fp: "authorize_transition sha live identity j l c = Inr fp"
    by (auto simp: transition_step_def bindE_eq_Inr)
  have no: "exact_transition_replay j l c = None"
  proof (rule ccontr)
    assume "\<not> ?thesis"
    then obtain p where "exact_transition_replay j l c = Some p" by auto
    with assms c l fp show False
      by (cases p) (simp add: transition_step_def bindE_eq_Inr)
  qed
  have "bindE (check_transition live j l c) (\<lambda>candidate.
      case commit_transition sha ?key j l c fp candidate of (a, b) \<Rightarrow> Inr (Commit a b)) = (Inr (Commit j' r) :: lease_result step_outcome result)"
    using assms c l fp no by (simp add: transition_step_def)
  then obtain candidate where candidate: "check_transition live j l c = Inr candidate"
    and commit: "commit_transition sha ?key j l c fp candidate = (j', r)"
    by (elim bindE_InrE) simp
  show thesis by (rule that[OF c l fp no candidate]) (simp_all add: commit)
qed

lemma quarantine_step_Commit:
  assumes "quarantine_step sha j c paths = Inr (Commit j' r)"
  obtains l ds where
    "find_lease (observation_leaseId c) (leases j) = Some l"
    "recoveryState j \<in> {CLEAR, PROJECT_WRITESET_RECOVERY}"
    "lease_fencingToken l = observation_fencingToken c" "\<not> released l"
    "exact_observation_replay j c = None" "\<not> conflicting_observation j c"
    "affected_decisions j (sorted_union (prior_paths j) paths) = Inr ds"
    "j' = fst (commit_quarantine sha j l c (sorted_union (prior_paths j) paths) ds)"
    "r = snd (commit_quarantine sha j l c (sorted_union (prior_paths j) paths) ds)"
proof -
  let ?paths = "sorted_union (prior_paths j) paths"
  from assms have no: "exact_observation_replay j c = None"
    by (cases "exact_observation_replay j c") (simp_all add: quarantine_step_def)
  from assms no have clear: "\<not> conflicting_observation j c"
    "recoveryState j \<in> {CLEAR, PROJECT_WRITESET_RECOVERY}"
    unfolding quarantine_step_def by (auto elim!: raise_ifE)
  from assms no clear obtain l where l: "find_lease (observation_leaseId c) (leases j) = Some l"
    by (cases "find_lease (observation_leaseId c) (leases j)") (auto simp: quarantine_step_def bindE_eq_Inr)
  have "bindE (raise_if (lease_fencingToken l \<noteq> observation_fencingToken c)
            (Coordination_Error ''STALE_FENCING_TOKEN'')) (\<lambda>_.
        bindE (raise_if (released l) (Coordination_Error ''TERMINAL_LEASE_IMMUTABLE'')) (\<lambda>_.
        bindE (affected_decisions j ?paths) (\<lambda>ds.
          case commit_quarantine sha j l c ?paths ds of (a, b) \<Rightarrow> Inr (Commit a b)))) = (Inr (Commit j' r) :: mutation_result step_outcome result)"
    using assms no clear l by (elim insertE) (simp_all add: quarantine_step_def Let_def)
  then obtain ds where tok: "lease_fencingToken l = observation_fencingToken c" "\<not> released l"
    and ds: "affected_decisions j ?paths = Inr ds"
    and commit: "commit_quarantine sha j l c ?paths ds = (j', r)"
    by (elim raise_ifE bindE_InrE) simp
  show thesis by (rule that[OF l clear(2) tok no clear(1) ds]) (simp_all add: commit)
qed

lemma observe_step_Commit:
  assumes "observe_step sha live (Some j) c = Inr (Commit j' r)"
  obtains paths l where
    "find_lease (observation_leaseId c) (leases j) = Some l"
    "check_observed_lane sha live l c = Inr paths"
    "quarantine_step sha j c paths = Inr (Commit j' r)"
proof -
  from assms obtain l where l: "find_lease (observation_leaseId c) (leases j) = Some l"
    by (simp add: observe_step_def split: option.splits)
  have no: "exact_observation_replay j c = None"
  proof (rule ccontr)
    assume "\<not> ?thesis"
    then obtain p where "exact_observation_replay j c = Some p" by auto
    with assms l show False by (simp add: observe_step_def bindE_eq_Inr)
  qed
  from assms l no obtain paths where "check_observed_lane sha live l c = Inr paths"
    "quarantine_step sha j c paths = Inr (Commit j' r)"
    by (auto simp: observe_step_def elim!: raise_ifE bindE_InrE)
  with l show thesis by (rule that)
qed

lemma checked_observation:
  assumes "check_observed_lane sha live l c = Inr ps"
  shows "ps = observedPaths c"
  using assms unfolding check_observed_lane_def split_def by (elim bindE_InrE raise_ifE) simp

text \<open>\<open>observe_lane_writes\<close> commits by the quarantine that the write guard uses as well.\<close>

lemma observed_quarantine:
  assumes "observe_step sha live (Some j) c = Inr (Commit j' r)"
  shows "quarantine_step sha j c (observedPaths c) = Inr (Commit j' r)"
  using assms by (rule observe_step_Commit) (simp only: checked_observation[symmetric])

lemma recovery_step_Commit:
  assumes "recovery_step sha live identity (Some j) c = Inr (Commit j' r)"
  obtains e ls fp remaining where
    "recoveryEvidence j = Some e" "revoked_leases j e = Inr ls"
    "authorize_recovery sha live identity j c ls = Inr fp"
    "check_recovery_command j c e = Inr ()"
    "mapE (check_recovered_lane live c) ls = Inr remaining" "concat remaining = []"
    "set (evidence_revoked e) \<subseteq> set (map decided_leaseId (affectedLeaseDecisions c))"
    "j' = fst (commit_recovery sha j c e fp)" "r = snd (commit_recovery sha j c e fp)"
proof -
  have "recoveryEvidence j \<noteq> None"
    using assms by (auto simp: recovery_step_def split: option.splits)
  then obtain e where e: "recoveryEvidence j = Some e" by auto
  from assms e obtain ls fp where ls: "revoked_leases j e = Inr ls"
    "authorize_recovery sha live identity j c ls = Inr fp"
    by (auto simp: recovery_step_def elim!: bindE_InrE)
  have no: "exact_recovery_replay j c = None"
    using assms e ls by (auto simp: recovery_step_def split: option.splits)
  have "bindE (check_recovery_command j c e) (\<lambda>_.
        bindE (mapE (check_recovered_lane live c) ls) (\<lambda>remaining.
        bindE (raise_if (concat remaining \<noteq> []) (Coordination_Error ''EPHEMERAL_PATH_NOT_REMOVED'')) (\<lambda>_.
        bindE (raise_if (\<not> set (evidence_revoked e) \<subseteq> set (map decided_leaseId (affectedLeaseDecisions c)))
                 Key_Error) (\<lambda>_.
          case commit_recovery sha j c e fp of (a, b) \<Rightarrow> Inr (Commit a b))))) = (Inr (Commit j' r) :: mutation_result step_outcome result)"
    using assms e ls no by (simp add: recovery_step_def)
  then obtain u remaining where check: "check_recovery_command j c e = Inr u"
    and lanes: "mapE (check_recovered_lane live c) ls = Inr remaining" "concat remaining = []"
    and decided: "set (evidence_revoked e) \<subseteq> set (map decided_leaseId (affectedLeaseDecisions c))"
    and commit: "commit_recovery sha j c e fp = (j', r)"
    by (elim raise_ifE bindE_InrE) simp
  show thesis
    by (rule that[OF e ls _ lanes decided]) (use check commit in simp_all)
qed

section \<open>What a step commits\<close>

text \<open>One receipt more, one version more, no smaller token, the same project.\<close>

definition appends :: "(string \<Rightarrow> string) \<Rightarrow> journal \<Rightarrow> journal \<Rightarrow> bool" where
  "appends sha j j' =
     (journal_executionKey j' = journal_executionKey j
      \<and> journalVersion j' = journalVersion j + 1
      \<and> nextFencingToken j \<le> nextFencingToken j'
      \<and> (\<exists>r. receipts j' = receipts j @ [r] \<and> previousJournalVersion r = journalVersion j
              \<and> nextJournalVersion r = journalVersion j'
              \<and> receipt_journalDigest r = journal_digest sha j'))"

lemma appends_append_receipt:
  assumes "journal_executionKey k = journal_executionKey j" "journalVersion k = journalVersion j + 1"
    "nextFencingToken j \<le> nextFencingToken k" "receipts k = receipts j"
    "previousJournalVersion r = journalVersion j" "nextJournalVersion r = journalVersion j + 1"
  shows "appends sha j (fst (append_receipt sha k r))"
  using assms append_receipt_digest[of sha k r] by (auto simp: appends_def)

lemma commit_appends:
  "appends sha j (fst (commit_acquisition sha key j c lane graph))"
  "appends sha j (fst (commit_transition sha key j l tr fp candidate))"
  "appends sha j (fst (commit_quarantine sha j l ob paths ds))"
  "appends sha j (fst (commit_recovery sha j rc e fp))"
  by (auto simp: commit_acquisition_def commit_transition_def commit_quarantine_def commit_recovery_def
      Let_def acquire_receipt_def transition_receipt_def observation_receipt_def recovery_receipt_def
      intro!: appends_append_receipt)

lemma coordinator_step_appends: "coordinator_step sha key j j' \<Longrightarrow> appends sha j j'"
  by (erule coordinator_step.cases)
    (auto elim!: acquire_step_Commit transition_step_Commit quarantine_step_Commit
        recovery_step_Commit simp: commit_appends)

text \<open>What happens to one lease: its identity stays, and a released lease stays as it is.\<close>

definition same_lane :: "lease \<Rightarrow> lease \<Rightarrow> bool" where
  "same_lane l l' =
     (l' = l\<lparr>lease_state := lease_state l', lease_candidate := lease_candidate l',
             lastTransitionAt := lastTransitionAt l', released := released l',
             recoveryStatus := recoveryStatus l'\<rparr>)"

definition follows :: "lease \<Rightarrow> lease \<Rightarrow> bool" where
  "follows l l' =
     (same_lane l l'
      \<and> (released l \<longrightarrow> l' = l)
      \<and> (lease_state l' = lease_state l
          \<or> lease_state l' \<in> set (lease_successors (lease_state l)) \<and> (released l' \<longleftrightarrow> lease_state l' = CLOSED)
          \<or> lease_state l' \<in> {STALE, CANCELLED} \<and> released l')
      \<and> (lease_state l' = lease_state l \<longrightarrow> released l' \<longrightarrow> released l \<or> lease_state l \<in> {STALE, CANCELLED})
      \<and> (lease_candidate l' = lease_candidate l
          \<or> lease_candidate l = None \<and> lease_state l' = FIXED_CANDIDATE)
      \<and> (lease_state l' \<in> set candidate_states \<longrightarrow> lease_state l' = lease_state l \<or> lease_candidate l' \<noteq> None))"

lemma follows_refl: "follows l l"
  by (simp add: follows_def same_lane_def)

lemma same_lane_fields:
  assumes "same_lane l l'"
  shows "leaseId l' = leaseId l" "lease_key l' = lease_key l" "lease_executionKey l' = lease_executionKey l"
    "lease_footprint l' = lease_footprint l" "lease_laneRoot l' = lease_laneRoot l"
    "lanePhysicalIdentity l' = lanePhysicalIdentity l" "lease_fencingToken l' = lease_fencingToken l"
    "lease_envelopeDigest l' = lease_envelopeDigest l" "lease_laneBase l' = lease_laneBase l"
    "lease_policyVersion l' = lease_policyVersion l" "planningFootprints l' = planningFootprints l"
    "lease_snapshotFingerprint l' = lease_snapshotFingerprint l"
    "lease_attemptId l' = lease_attemptId l" "lease_batchPlanId l' = lease_batchPlanId l"
    "lease_descriptorDigest l' = lease_descriptorDigest l" "lease_sourceRoot l' = lease_sourceRoot l"
  using arg_cong[OF assms[unfolded same_lane_def], of leaseId]
    arg_cong[OF assms[unfolded same_lane_def], of lease_key]
    arg_cong[OF assms[unfolded same_lane_def], of lease_executionKey]
    arg_cong[OF assms[unfolded same_lane_def], of lease_footprint]
    arg_cong[OF assms[unfolded same_lane_def], of lease_laneRoot]
    arg_cong[OF assms[unfolded same_lane_def], of lanePhysicalIdentity]
    arg_cong[OF assms[unfolded same_lane_def], of lease_fencingToken]
    arg_cong[OF assms[unfolded same_lane_def], of lease_envelopeDigest]
    arg_cong[OF assms[unfolded same_lane_def], of lease_laneBase]
    arg_cong[OF assms[unfolded same_lane_def], of lease_policyVersion]
    arg_cong[OF assms[unfolded same_lane_def], of planningFootprints]
    arg_cong[OF assms[unfolded same_lane_def], of lease_snapshotFingerprint]
    arg_cong[OF assms[unfolded same_lane_def], of lease_attemptId]
    arg_cong[OF assms[unfolded same_lane_def], of lease_batchPlanId]
    arg_cong[OF assms[unfolded same_lane_def], of lease_descriptorDigest]
    arg_cong[OF assms[unfolded same_lane_def], of lease_sourceRoot]
  by (simp_all add: lease_key_def)

lemma follows_same_lane: "follows l l' \<Longrightarrow> same_lane l l'"
  by (simp add: follows_def)

lemmas follows_fields = same_lane_fields[OF follows_same_lane]

lemma follows_nonterminal: "follows l l' \<Longrightarrow> is_nonterminal l' \<Longrightarrow> is_nonterminal l"
  by (auto simp: follows_def is_nonterminal_def)

section \<open>The lanes of a project, abstractly\<close>

text \<open>
  Two leases may interfere when their footprints conflict under some planning graph; the
  reasons that need no graph are the ones every graph reports.
\<close>

definition lane_conflict :: "lease \<Rightarrow> lease \<Rightarrow> bool" where
  "lane_conflict l m = (conflict_reasons (lease_footprint l) (lease_footprint m) [] [] \<noteq> [])"

lemma no_graph [simp]: "\<not> has_path [] xs ys" "succs [] x = {}"
  by (auto simp: has_path_def succs_def list_ex_iff)

lemma conflict_reasons_no_graph:
  assumes "conflict_reasons a b dependency owner = []"
  shows "conflict_reasons a b [] [] = []"
  using assms by (simp add: conflict_reasons_def reasons_where_Nil)

lemma not_lane_conflict: "\<not> footprints_conflict (lease_footprint l) (lease_footprint m) graph \<Longrightarrow> \<not> lane_conflict l m"
  unfolding footprints_conflict_def lane_conflict_def by (metis conflict_reasons_no_graph)

interpretation lanes: conflict_policy lane_conflict "\<lambda>l. write_paths (lease_footprint l)"
  "\<lambda>l. authorityReferences (lease_footprint l)"
proof unfold_locales
  show "lane_conflict a b \<Longrightarrow> lane_conflict b a" for a b
    unfolding lane_conflict_def by (subst conflict_reasons_sym)
  show "\<not> lane_conflict a b \<Longrightarrow> p \<in> set (write_paths (lease_footprint a)) \<Longrightarrow>
      q \<in> set (write_paths (lease_footprint b)) \<Longrightarrow> \<not> (contains_path p f \<and> contains_path q f)" for a b p q f
    unfolding lane_conflict_def by (rule no_conflict_writes) blast+
  show "\<not> lane_conflict a b \<Longrightarrow> p \<in> set (write_paths (lease_footprint a)) \<Longrightarrow>
      q \<in> set (authorityReferences (lease_footprint b)) \<Longrightarrow> \<not> (contains_path p f \<and> contains_path q f)" for a b p q f
    unfolding lane_conflict_def by (rule no_conflict_authority) blast+
qed

text \<open>
  The lane machine: a lane is added when fewer than three are in use and none of them may
  interfere with it; otherwise every lease follows its lifecycle.
\<close>

definition admissible :: "lease list \<Rightarrow> lease \<Rightarrow> bool" where
  "admissible ls l =
     (length (filter is_nonterminal ls) < 3
      \<and> (\<forall>m\<in>set (filter is_nonterminal ls).
            \<not> lane_conflict m l \<and> lease_laneRoot m \<noteq> lease_laneRoot l
            \<and> lanePhysicalIdentity m \<noteq> lanePhysicalIdentity l
            \<and> lease_envelopeDigest m = lease_envelopeDigest l \<and> lease_laneBase m = lease_laneBase l)
      \<and> lease_state l = ADMITTED \<and> lease_candidate l = None \<and> \<not> released l)"

inductive lane_step :: "lease list \<Rightarrow> lease list \<Rightarrow> bool" where
  add_lane: "admissible ls l \<Longrightarrow> leaseId l \<notin> set (map leaseId ls) \<Longrightarrow>
    \<forall>m\<in>set ls. lease_fencingToken m < lease_fencingToken l \<Longrightarrow> lane_step ls (ls @ [l])"
| follow_lanes: "list_all2 follows ls ls' \<Longrightarrow> lane_step ls ls'"

inductive_cases lane_stepE: "lane_step ls ls'"

text \<open>What every reachable set of lanes satisfies.\<close>

definition lanes_ok :: "lease list \<Rightarrow> bool" where
  "lanes_ok ls =
     (distinct (map leaseId ls)
      \<and> sorted_wrt (<) (map lease_fencingToken ls)
      \<and> length (filter is_nonterminal ls) \<le> 3
      \<and> (\<forall>l\<in>set (filter is_nonterminal ls). \<forall>m\<in>set (filter is_nonterminal ls).
            leaseId l \<noteq> leaseId m \<longrightarrow>
              \<not> lane_conflict l m \<and> lease_laneRoot l \<noteq> lease_laneRoot m
              \<and> lanePhysicalIdentity l \<noteq> lanePhysicalIdentity m)
      \<and> (\<forall>l\<in>set (filter is_nonterminal ls). \<forall>m\<in>set (filter is_nonterminal ls).
            lease_envelopeDigest l = lease_envelopeDigest m \<and> lease_laneBase l = lease_laneBase m))"

lemma follows_map_fields:
  assumes "list_all2 follows ls ls'"
  shows "map leaseId ls' = map leaseId ls" "map lease_fencingToken ls' = map lease_fencingToken ls"
    "map lease_key ls' = map lease_key ls"
  using assms by (induction rule: list_all2_induct) (simp_all add: follows_fields)

lemma follows_member:
  assumes "list_all2 follows ls ls'" and "l' \<in> set ls'"
  obtains l where "l \<in> set ls" "follows l l'"
  using assms by (metis in_set_conv_nth list_all2_conv_all_nth)

lemma follows_active:
  assumes "list_all2 follows ls ls'" and "l' \<in> set (filter is_nonterminal ls')"
  obtains l where "l \<in> set (filter is_nonterminal ls)" "follows l l'"
proof -
  from assms(2) have l': "l' \<in> set ls'" "is_nonterminal l'" by simp_all
  from assms(1) l'(1) obtain l where "l \<in> set ls" "follows l l'" by (rule follows_member)
  with l'(2) show thesis by (intro that[of l]) (auto dest: follows_nonterminal)
qed

lemma follows_active_length:
  "list_all2 follows ls ls' \<Longrightarrow>
    length (filter is_nonterminal ls') \<le> length (filter is_nonterminal ls)"
  by (induction rule: list_all2_induct) (auto dest: follows_nonterminal)

lemma lanes_okI:
  assumes "distinct (map leaseId ls)" "sorted_wrt (<) (map lease_fencingToken ls)"
    "length (filter is_nonterminal ls) \<le> 3"
    "\<And>l m. l \<in> set (filter is_nonterminal ls) \<Longrightarrow> m \<in> set (filter is_nonterminal ls) \<Longrightarrow>
       leaseId l \<noteq> leaseId m \<Longrightarrow> \<not> lane_conflict l m \<and> lease_laneRoot l \<noteq> lease_laneRoot m
         \<and> lanePhysicalIdentity l \<noteq> lanePhysicalIdentity m"
    "\<And>l m. l \<in> set (filter is_nonterminal ls) \<Longrightarrow> m \<in> set (filter is_nonterminal ls) \<Longrightarrow>
       lease_envelopeDigest l = lease_envelopeDigest m \<and> lease_laneBase l = lease_laneBase m"
  shows "lanes_ok ls"
  unfolding lanes_ok_def using assms(1-3) by (intro conjI ballI impI) (use assms(4,5) in blast)+

lemma lane_step_ok:
  assumes "lane_step ls ls'" and ok: "lanes_ok ls"
  shows "lanes_ok ls'"
  using assms(1)
proof (cases rule: lane_step.cases)
  case (add_lane l)
  have conflict: "\<not> lane_conflict l m" if "\<not> lane_conflict m l" for m
    using that lanes.conflict_sym by blast
  from add_lane ok conflict show ?thesis
    by (auto simp: lanes_ok_def admissible_def sorted_wrt_append)
next
  case follow_lanes
  note fields = follows_map_fields[OF follow_lanes]
  note active = follows_active[OF follow_lanes]
  have few: "length (filter is_nonterminal ls') \<le> 3"
    using follows_active_length[OF follow_lanes] ok by (simp add: lanes_ok_def)
  have apart: "\<not> lane_conflict l' m' \<and> lease_laneRoot l' \<noteq> lease_laneRoot m'
      \<and> lanePhysicalIdentity l' \<noteq> lanePhysicalIdentity m'"
    if l': "l' \<in> set (filter is_nonterminal ls')" and m': "m' \<in> set (filter is_nonterminal ls')"
      and ne: "leaseId l' \<noteq> leaseId m'" for l' m'
  proof -
    obtain l where l: "l \<in> set (filter is_nonterminal ls)" "follows l l'" using l' by (rule active)
    obtain m where m: "m \<in> set (filter is_nonterminal ls)" "follows m m'" using m' by (rule active)
    from ne have "leaseId l \<noteq> leaseId m" by (simp add: follows_fields[OF l(2)] follows_fields[OF m(2)])
    with ok l(1) m(1) have "\<not> lane_conflict l m \<and> lease_laneRoot l \<noteq> lease_laneRoot m
        \<and> lanePhysicalIdentity l \<noteq> lanePhysicalIdentity m" unfolding lanes_ok_def by blast
    then show ?thesis
      by (simp add: lane_conflict_def follows_fields[OF l(2)] follows_fields[OF m(2)])
  qed
  have alike: "lease_envelopeDigest l' = lease_envelopeDigest m' \<and> lease_laneBase l' = lease_laneBase m'"
    if l': "l' \<in> set (filter is_nonterminal ls')" and m': "m' \<in> set (filter is_nonterminal ls')" for l' m'
  proof -
    obtain l where l: "l \<in> set (filter is_nonterminal ls)" "follows l l'" using l' by (rule active)
    obtain m where m: "m \<in> set (filter is_nonterminal ls)" "follows m m'" using m' by (rule active)
    from ok l(1) m(1) have "lease_envelopeDigest l = lease_envelopeDigest m \<and> lease_laneBase l = lease_laneBase m"
      unfolding lanes_ok_def by blast
    then show ?thesis by (simp add: follows_fields[OF l(2)] follows_fields[OF m(2)])
  qed
  from ok have "distinct (map leaseId ls')" "sorted_wrt (<) (map lease_fencingToken ls')"
    unfolding fields lanes_ok_def by blast+
  then show ?thesis using few apart alike by (rule lanes_okI)
qed

end
