(* ===== verification/Coordinator_Invariant.thy ===== *)
theory Coordinator_Invariant
  imports Coordinator_Steps
begin

text \<open>
  What holds of every journal the coordinator reaches: the journal is at the version of its
  last receipt, fencing tokens grow, the lanes are bounded and isolated, and an open recovery
  covers every lease that is not released. The steps of the journal refine the lane machine.
\<close>

section \<open>What the integrity check gives\<close>

lemma validate_leases_Inr:
  assumes "validate_leases j persisted = Inr ()"
  shows "\<forall>l\<in>set (leases j). lease_executionKey l = journal_executionKey j"
    "distinct (map leaseId (leases j))" "distinct (map lease_key (leases j))"
    "distinct (map lease_laneRoot (filter is_nonterminal (leases j)))"
    "distinct (map lanePhysicalIdentity (filter is_nonterminal (leases j)))"
    "journalVersion j = int (length (receipts j))" "persisted \<Longrightarrow> journalVersion j \<noteq> 0"
  using assms by (auto simp: validate_leases_def Let_def list_ex_iff elim!: raise_ifE split: if_splits)

lemma validate_tokens_Inr:
  assumes "validate_tokens sha j = Inr ()"
  shows "distinct (map lease_fencingToken (leases j))"
    "\<forall>l\<in>set (leases j). lease_fencingToken l < nextFencingToken j"
    "\<forall>r\<in>set (receipts j). receipt_fencingToken r < nextFencingToken j"
    "receipts j \<noteq> [] \<Longrightarrow> receipt_journalDigest (last (receipts j)) = journal_digest sha j"
proof -
  let ?tokens = "map lease_fencingToken (leases j) @ map receipt_fencingToken (receipts j)"
  from assms have raw: "distinct (map lease_fencingToken (leases j))
      \<and> (?tokens = [] \<or> Max (set ?tokens) < nextFencingToken j)
      \<and> (receipts j = [] \<or> receipt_journalDigest (last (receipts j)) = journal_digest sha j)"
    unfolding validate_tokens_def Let_def result_simps de_Morgan_conj not_not not_le by blast
  have "t < nextFencingToken j" if t: "t \<in> set ?tokens" for t
  proof -
    from t have "?tokens \<noteq> []" by auto
    with raw have "Max (set ?tokens) < nextFencingToken j" by blast
    moreover from t have "t \<le> Max (set ?tokens)" by (rule Max_ge[OF finite_set])
    ultimately show ?thesis by simp
  qed
  then show "\<forall>l\<in>set (leases j). lease_fencingToken l < nextFencingToken j"
    "\<forall>r\<in>set (receipts j). receipt_fencingToken r < nextFencingToken j" by auto
  show "distinct (map lease_fencingToken (leases j))" using raw by blast
  show "receipts j \<noteq> [] \<Longrightarrow> receipt_journalDigest (last (receipts j)) = journal_digest sha j"
    using raw by blast
qed

lemma integrity_parts:
  assumes "validate_journal_integrity sha host j persisted = Inr ()"
  obtains idx where "validate_leases j persisted = Inr ()"
    "foldE (check_receipt sha j) (numbered (receipts j)) (empty_index (leases j)) = Inr idx"
    "list_all (\<lambda>kv. snd kv = 1) (acquire_counts idx)"
    "validate_recovery_integrity sha host j (acquire_commands idx) (observation_receipts idx)
       (recovery_receipts idx) = Inr ()"
    "validate_tokens sha j = Inr ()"
proof -
  have u: "m = Inr ()" if "m = Inr (x :: unit)" for m :: "unit result" and x using that by simp
  from assms show thesis
    unfolding validate_journal_integrity_def
    by (elim bindE_InrE raise_ifE) (rule that, auto simp: list_ex_iff list_all_iff)
qed

lemma integrity_facts:
  assumes "validate_journal_integrity sha host j True = Inr ()"
  shows "\<forall>l\<in>set (leases j). lease_executionKey l = journal_executionKey j"
    "distinct (map leaseId (leases j))" "distinct (map lease_key (leases j))"
    "journalVersion j = int (length (receipts j))" "receipts j \<noteq> []"
    "\<forall>l\<in>set (leases j). lease_fencingToken l < nextFencingToken j"
    "\<forall>r\<in>set (receipts j). receipt_fencingToken r < nextFencingToken j"
    "receipt_journalDigest (last (receipts j)) = journal_digest sha j"
proof -
  obtain idx where ls: "validate_leases j True = Inr ()" and ts: "validate_tokens sha j = Inr ()"
    using assms by (rule integrity_parts)
  note ls = validate_leases_Inr[OF ls] and ts = validate_tokens_Inr[OF ts]
  from ls show "\<forall>l\<in>set (leases j). lease_executionKey l = journal_executionKey j"
    "distinct (map leaseId (leases j))" "distinct (map lease_key (leases j))"
    "journalVersion j = int (length (receipts j))" by blast+
  from ls(6,7) show receipts: "receipts j \<noteq> []" by auto
  from ts(2,3) ts(4)[OF receipts] show "\<forall>l\<in>set (leases j). lease_fencingToken l < nextFencingToken j"
    "\<forall>r\<in>set (receipts j). receipt_fencingToken r < nextFencingToken j"
    "receipt_journalDigest (last (receipts j)) = journal_digest sha j" by blast+
qed

lemma coordinator_step_integrity:
  assumes "coordinator_step sha key j j'"
  obtains host where "validate_journal_integrity sha host j' True = Inr ()"
  using assms by (cases rule: coordinator_step.cases)

section \<open>The invariant of a journal\<close>

text \<open>An open recovery covers every lease that is not released.\<close>

definition recovery_covers :: "journal \<Rightarrow> bool" where
  "recovery_covers j =
     (recoveryState j = CLEAR
      \<or> recoveryState j = PROJECT_WRITESET_RECOVERY
        \<and> (case recoveryEvidence j of
              None \<Rightarrow> False
            | Some e \<Rightarrow> recoveryCommand e = None
                       \<and> set (evidence_revoked e) = leaseId ` set (recoverable_leases j)))"

definition lease_ok :: "lease \<Rightarrow> bool" where
  "lease_ok l =
     ((lease_state l = CLOSED \<longrightarrow> released l)
      \<and> (released l \<longrightarrow> lease_state l \<in> {CLOSED, STALE, CANCELLED})
      \<and> (lease_state l \<in> set candidate_states \<longrightarrow> lease_candidate l \<noteq> None))"

definition journal_ok :: "string \<Rightarrow> journal \<Rightarrow> bool" where
  "journal_ok key j =
     (journal_executionKey j = key
      \<and> (\<forall>l\<in>set (leases j). lease_executionKey l = key \<and> lease_ok l
                            \<and> lease_fencingToken l < nextFencingToken j)
      \<and> (\<forall>r\<in>set (receipts j). receipt_fencingToken r < nextFencingToken j)
      \<and> journalVersion j = int (length (receipts j))
      \<and> lanes_ok (leases j)
      \<and> recovery_covers j)"

lemma journal_ok_empty: "journal_ok key (empty_journal key)"
  by (simp add: journal_ok_def empty_journal_def lanes_ok_def recovery_covers_def)

section \<open>Every step follows the lane machine\<close>

lemma commit_fields:
  "leases (fst (commit_acquisition sha key j c lane graph)) =
     leases j @ [new_lease sha key (nextFencingToken j) c lane graph]"
  "recoveryState (fst (commit_acquisition sha key j c lane graph)) = recoveryState j"
  "recoveryEvidence (fst (commit_acquisition sha key j c lane graph)) = recoveryEvidence j"
  "leases (fst (commit_transition sha key j l tr fp candidate)) =
     update_lease (leaseId l) (transitioned tr candidate) (leases j)"
  "recoveryState (fst (commit_transition sha key j l tr fp candidate)) = recoveryState j"
  "recoveryEvidence (fst (commit_transition sha key j l tr fp candidate)) = recoveryEvidence j"
  "leases (fst (commit_quarantine sha j l ob paths ds)) = map quarantined (leases j)"
  "recoveryState (fst (commit_quarantine sha j l ob paths ds)) = PROJECT_WRITESET_RECOVERY"
  "recoveryEvidence (fst (commit_quarantine sha j l ob paths ds)) =
     Some \<lparr>evidence_observed = paths, evidence_revoked = sort (map leaseId (recoverable_leases j)),
           evidence_decisions = ds, quarantineCommand = ob, recoveryCommand = None\<rparr>"
  "leases (fst (commit_recovery sha j rc e fp)) =
     map (\<lambda>l. if leaseId l \<in> set (evidence_revoked e) then recovered rc l else l) (leases j)"
  "recoveryState (fst (commit_recovery sha j rc e fp)) = CLEAR"
  "recoveryEvidence (fst (commit_recovery sha j rc e fp)) = Some (e\<lparr>recoveryCommand := Some rc\<rparr>)"
  by (simp_all add: commit_acquisition_def commit_transition_def commit_quarantine_def commit_recovery_def
      Let_def)

text \<open>The new lane of an acquisition.\<close>

lemma admit_admissible:
  assumes "admit sha j c lane = Inr graph"
  shows "admissible (leases j) (new_lease sha key token c lane graph)"
proof -
  let ?active = "filter is_nonterminal (leases j)"
  from assms have checks: "\<not> list_ex (\<lambda>l. lease_envelopeDigest l \<noteq> acquire_envelopeDigest c) ?active"
    "\<not> list_ex (\<lambda>l. lease_laneBase l \<noteq> acquire_laneBase c) ?active"
    "\<not> list_ex (\<lambda>l. lanePhysicalIdentity l = lane \<or> lease_laneRoot l = acquire_laneRoot c) ?active"
    "\<not> int (length ?active) \<ge> lane_cap_of c"
    unfolding admit_def Let_def by - (elim raise_ifE bindE_InrE, assumption)+
  from assms have free: "\<not> list_ex (\<lambda>l. footprints_conflict (lease_footprint l) (acquire_footprint c) graph) ?active"
    unfolding admit_def Let_def by (elim raise_ifE bindE_InrE) simp
  let ?l = "new_lease sha key token c lane graph"
  have fields: "lease_envelopeDigest ?l = acquire_envelopeDigest c" "lease_laneBase ?l = acquire_laneBase c"
    "lanePhysicalIdentity ?l = lane" "lease_laneRoot ?l = acquire_laneRoot c"
    "lease_footprint ?l = acquire_footprint c" "lease_state ?l = ADMITTED"
    "lease_candidate ?l = None" "\<not> released ?l"
    by (simp_all add: new_lease_def)
  have "\<not> lane_conflict m ?l" if "m \<in> set ?active" for m
  proof (rule not_lane_conflict)
    show "\<not> footprints_conflict (lease_footprint m) (lease_footprint ?l) graph"
      using that free unfolding fields list_ex_iff by blast
  qed
  moreover have "length ?active < 3" using checks(4) by (simp add: lane_cap_of_def)
  ultimately show ?thesis using checks(1-3) fields(8) unfolding admissible_def fields(1-7) list_ex_iff by blast
qed

text \<open>A transition follows the lifecycle of its lease, and leaves the others alone.\<close>

lemma next_candidate_follows:
  assumes "next_candidate l c = Inr k"
  shows "k = lease_candidate l \<or> lease_candidate l = None \<and> transition_nextState c = FIXED_CANDIDATE"
  using assms by (auto simp: next_candidate_def split: option.splits if_splits)

lemma lease_successors_distinct: "x \<in> set (lease_successors s) \<Longrightarrow> x \<noteq> s"
  by (cases s) auto

lemma check_transition_Inr:
  assumes "check_transition live j l c = Inr candidate"
  shows "\<not> conflicting_transition j l c" "lease_state l \<notin> set terminal_states" "\<not> released l"
    "lease_state l = expectedState c" "transition_nextState c \<in> set (lease_successors (lease_state l))"
    "next_candidate l c = Inr candidate"
    "transition_nextState c \<in> set candidate_states \<Longrightarrow> candidate \<noteq> None"
    "transition_nextState c = CLOSED \<Longrightarrow> processIds (transition_quiescence c) = []"
  using assms unfolding check_transition_def by - (elim raise_ifE bindE_InrE, simp)+

lemma transitioned_follows:
  assumes "check_transition live j l c = Inr candidate"
  shows "follows l (transitioned c candidate l)"
proof -
  note check = check_transition_Inr[OF assms]
  have "transition_nextState c \<noteq> lease_state l" using check(5) by (rule lease_successors_distinct)
  with check(3,5,7) next_candidate_follows[OF check(6)] show ?thesis
    by (auto simp: follows_def same_lane_def transitioned_def)
qed

lemma find_lease_Some:
  assumes "find_lease i ls = Some l"
  shows "l \<in> set ls" "leaseId l = i"
  using assms by (auto simp: find_lease_def find_Some_iff)

lemma update_lease_follows:
  assumes "distinct (map leaseId ls)" "l \<in> set ls" "follows l (f l)"
  shows "list_all2 follows ls (update_lease (leaseId l) f ls)"
proof -
  have "follows m (if leaseId m = leaseId l then f m else m)" if "m \<in> set ls" for m
    using assms that by (auto simp: follows_refl dest: distinct_map[THEN iffD1] inj_onD)
  then show ?thesis by (auto simp: update_lease_def list_all2_conv_all_nth)
qed

text \<open>A quarantine changes no more than the recovery status.\<close>

lemma quarantined_follows: "follows l (quarantined l)"
  by (simp add: follows_def same_lane_def quarantined_def)

lemma map_follows: "(\<And>l. l \<in> set ls \<Longrightarrow> follows l (f l)) \<Longrightarrow> list_all2 follows ls (map f ls)"
  by (auto simp: list_all2_conv_all_nth)

text \<open>A recovery releases the leases it names, with the decision it carries.\<close>

lemma dict_of_values: "map_of (dict_of kvs) k = Some v \<Longrightarrow> (k, v) \<in> set kvs"
  by (auto simp: map_of_dict_of dest!: map_of_SomeD)

lemma decisions_by_id_Some:
  assumes "map_of (decisions_by_id ds) i = Some s"
  obtains d where "d \<in> set ds" "decided_leaseId d = i" "decided_state d = s"
  using dict_of_values[OF assms[unfolded decisions_by_id_def]] by auto

lemma decided_states:
  assumes "list_all lease_decision_schema ds" "map_of (decisions_by_id ds) i = Some s"
  shows "s \<in> {STALE, CANCELLED}"
  using assms(1) decisions_by_id_Some[OF assms(2)]
  by (metis list.pred_set lease_decision_schema_def)

lemma recovered_follows:
  assumes "list_all lease_decision_schema (affectedLeaseDecisions c)" "\<not> released l"
  shows "follows l (recovered c l)"
proof (cases "recovered c l = l")
  case False
  then obtain state q where state: "map_of (decisions_by_id (affectedLeaseDecisions c)) (leaseId l) = Some state"
    and q: "map_of (proofs_by_id c) (leaseId l) = Some q"
    unfolding recovered_def by (auto split: option.splits)
  then have l': "recovered c l = l\<lparr>lease_state := state, released := True, recoveryStatus := CLEAR,
                               lastTransitionAt := quiescent_observedAt q\<rparr>"
    by (simp add: recovered_def)
  from decided_states[OF assms(1) state] have "state \<in> {STALE, CANCELLED}" .
  with assms(2) show ?thesis unfolding l'
    by (auto simp: follows_def same_lane_def candidate_states_def)
qed (simp add: follows_refl)

section \<open>Refinement and invariance\<close>

lemma normalize_recovery_decisions:
  assumes "normalize_recovery_command sha raw = Inr c"
  shows "list_all lease_decision_schema (affectedLeaseDecisions c)"
proof -
  from assms have "recovery_schema c"
    unfolding normalize_recovery_command_def Let_def
    by (elim raise_ifE bindE_InrE) (simp add: validate_schema_eq_Inr)
  then show ?thesis by (simp add: recovery_schema_def)
qed

lemma check_recovery_command_Inr:
  assumes "check_recovery_command j c e = Inr ()"
  shows "\<not> conflicting_recovery j c" "recoveryState j = PROJECT_WRITESET_RECOVERY"
    "expectedJournalVersion c = journalVersion j" "observedWriteSet c = evidence_observed e"
    "affectedLeaseDecisions c = evidence_decisions e"
    "set (map quiescent_leaseId (processQuiescenceProofs c)) = set (evidence_revoked e)"
  using assms unfolding check_recovery_command_def by - (elim raise_ifE, simp add: result_simps)+

text \<open>While it is open, the evidence names exactly the recoverable leases.\<close>

lemma covered_iff:
  assumes "journal_ok key j" "recoveryState j = PROJECT_WRITESET_RECOVERY" "recoveryEvidence j = Some e"
    "l \<in> set (leases j)"
  shows "leaseId l \<in> set (evidence_revoked e) \<longleftrightarrow> l \<in> set (recoverable_leases j)"
proof -
  from assms(1-3) have "distinct (map leaseId (leases j))"
    and "set (evidence_revoked e) = leaseId ` set (recoverable_leases j)"
    by (simp_all add: journal_ok_def lanes_ok_def recovery_covers_def)
  with assms(4) show ?thesis by (auto simp: recoverable_leases_def distinct_map dest: inj_onD)
qed

lemma coordinator_step_lanes:
  assumes ok: "journal_ok key j" and "coordinator_step sha key j j'"
  shows "lane_step (leases j) (leases j')"
  using assms(2)
proof (cases rule: coordinator_step.cases)
  case (acquired identity live raw r)
  obtain c lane graph where graph: "admit sha j c lane = Inr graph"
    and j': "j' = fst (commit_acquisition sha key j c lane graph)"
    using acquired(1,2) by (auto elim: acquire_step_Commit)
  let ?l = "new_lease sha key (nextFencingToken j) c lane graph"
  have leases: "leases j' = leases j @ [?l]" unfolding j' by (rule commit_fields)
  have "leaseId ?l \<notin> set (map leaseId (leases j))"
    using integrity_facts(2)[OF acquired(3)] by (simp add: leases)
  moreover have "\<forall>m\<in>set (leases j). lease_fencingToken m < lease_fencingToken ?l"
    using ok by (simp add: journal_ok_def new_lease_def)
  ultimately show ?thesis unfolding leases by (intro add_lane admit_admissible[OF graph])
next
  case (transitioned identity live raw r)
  obtain c l fp candidate where l: "find_lease (transition_leaseId c) (leases j) = Some l"
    and check: "check_transition live j l c = Inr candidate"
    and j': "j' = fst (commit_transition sha key j l c fp candidate)"
    using transitioned(1,2) by (auto elim: transition_step_Commit)
  have ids: "distinct (map leaseId (leases j))" using ok by (simp add: journal_ok_def lanes_ok_def)
  have "list_all2 follows (leases j) (leases j')"
    unfolding j' commit_fields
    using ids find_lease_Some(1)[OF l] transitioned_follows[OF check] by (rule update_lease_follows)
  then show ?thesis by (rule follow_lanes)
next
  case (observed raw c r)
  obtain l paths ds where "j' = fst (commit_quarantine sha j l c paths ds)"
    using observed(2) by (auto elim!: quarantine_step_Commit)
  then have "leases j' = map quarantined (leases j)" by (simp add: commit_fields)
  then show ?thesis by (auto intro: follow_lanes map_follows quarantined_follows)
next
  case (recovered identity raw c live r)
  obtain e fp where e: "recoveryEvidence j = Some e" and check: "check_recovery_command j c e = Inr ()"
    and j': "j' = fst (commit_recovery sha j c e fp)"
    using recovered(3) by (auto elim: recovery_step_Commit)
  have "follows l (if leaseId l \<in> set (evidence_revoked e) then Coordinator_Recovery.recovered c l else l)"
    if l: "l \<in> set (leases j)" for l
    using covered_iff[OF ok check_recovery_command_Inr(2)[OF check] e l]
      recovered_follows[OF normalize_recovery_decisions[OF recovered(2)]] follows_refl
    by (simp add: recoverable_leases_def)
  then show ?thesis unfolding j' commit_fields by (intro follow_lanes map_follows)
qed

lemma follows_parts:
  assumes "follows l l'"
  shows "released l \<Longrightarrow> l' = l"
    "lease_state l' = lease_state l
      \<or> lease_state l' \<in> set (lease_successors (lease_state l)) \<and> (released l' \<longleftrightarrow> lease_state l' = CLOSED)
      \<or> lease_state l' \<in> {STALE, CANCELLED} \<and> released l'"
    "lease_state l' = lease_state l \<Longrightarrow> released l' \<Longrightarrow> released l \<or> lease_state l \<in> {STALE, CANCELLED}"
    "lease_candidate l' = lease_candidate l \<or> lease_candidate l = None \<and> lease_state l' = FIXED_CANDIDATE"
    "lease_state l' \<in> set candidate_states \<Longrightarrow> lease_state l' = lease_state l \<or> lease_candidate l' \<noteq> None"
  using assms by (simp_all add: follows_def)

lemma lease_ok_follows:
  assumes f: "follows l l'" and ok: "lease_ok l"
  shows "lease_ok l'"
proof (cases "released l")
  case True
  with ok show ?thesis by (simp add: follows_parts(1)[OF f])
next
  case False
  then have unclosed: "lease_state l \<noteq> CLOSED" using ok by (simp add: lease_ok_def)
  have "released l'" if "lease_state l' = CLOSED" using that follows_parts(2)[OF f] unclosed by simp
  moreover have "lease_state l' \<in> {CLOSED, STALE, CANCELLED}" if "released l'"
    using that False follows_parts(2,3)[OF f] by auto
  moreover have "lease_candidate l' \<noteq> None" if "lease_state l' \<in> set candidate_states"
    using follows_parts(5)[OF f that] follows_parts(4)[OF f] that ok by (auto simp: lease_ok_def)
  ultimately show ?thesis unfolding lease_ok_def by blast
qed

lemma lane_step_lease_ok:
  assumes "lane_step ls ls'" "\<forall>l\<in>set ls. lease_ok l"
  shows "\<forall>l\<in>set ls'. lease_ok l"
  using assms(1)
proof (cases rule: lane_step.cases)
  case (add_lane l)
  then have "lease_ok l" by (simp add: admissible_def lease_ok_def candidate_states_def)
  with add_lane(1) assms(2) show ?thesis by simp
next
  case follow_lanes
  then show ?thesis using assms(2) by (blast elim: follows_member intro: lease_ok_follows)
qed

lemma quarantined_recoverable:
  "leaseId ` set (filter (\<lambda>l. \<not> released l \<and> lease_state l \<noteq> CLOSED) (map quarantined ls)) =
     leaseId ` set (filter (\<lambda>l. \<not> released l \<and> lease_state l \<noteq> CLOSED) ls)"
  by (induction ls) (auto simp: quarantined_def)

lemma coordinator_step_covers:
  assumes "recovery_covers j" "coordinator_step sha key j j'"
  shows "recovery_covers j'"
  using assms(2)
proof (cases rule: coordinator_step.cases)
  case (acquired identity live raw r)
  then show ?thesis by (auto elim!: acquire_step_Commit simp: recovery_covers_def commit_fields)
next
  case (transitioned identity live raw r)
  obtain c l fp candidate where "authorize_transition sha live identity j l c = Inr fp"
    and j': "j' = fst (commit_transition sha key j l c fp candidate)"
    using transitioned(1,2) by (auto elim: transition_step_Commit)
  then have "recoveryState j = CLEAR" unfolding authorize_transition_def by (elim raise_ifE) simp
  then show ?thesis by (simp add: j' recovery_covers_def commit_fields)
next
  case (observed raw c r)
  obtain l paths ds where j': "j' = fst (commit_quarantine sha j l c paths ds)"
    using observed(2) by (auto elim!: quarantine_step_Commit)
  show ?thesis
    using quarantined_recoverable[of "leases j"]
    by (simp add: j' recovery_covers_def commit_fields recoverable_leases_def)
next
  case (recovered identity raw c live r)
  then show ?thesis by (auto elim!: recovery_step_Commit simp: recovery_covers_def commit_fields)
qed

lemma coordinator_step_ok:
  assumes ok: "journal_ok key j" and step: "coordinator_step sha key j j'"
  shows "journal_ok key j'"
proof -
  obtain host where integrity: "validate_journal_integrity sha host j' True = Inr ()"
    using step by (rule coordinator_step_integrity)
  note facts = integrity_facts[OF integrity]
  note lanes = coordinator_step_lanes[OF ok step]
  from ok have "lanes_ok (leases j)" "\<forall>l\<in>set (leases j). lease_ok l" "recovery_covers j"
    "journal_executionKey j = key" by (simp_all add: journal_ok_def)
  then have "lanes_ok (leases j')" "\<forall>l\<in>set (leases j'). lease_ok l" "recovery_covers j'"
    "journal_executionKey j' = key"
    using lane_step_ok[OF lanes] lane_step_lease_ok[OF lanes] coordinator_step_covers[OF _ step]
      coordinator_step_appends[OF step] by (simp_all add: appends_def)
  with facts show ?thesis by (simp add: journal_ok_def)
qed

lemma coordinated_ok: "coordinated sha key j \<Longrightarrow> journal_ok key j"
  by (induction rule: coordinated.induct) (simp add: journal_ok_empty, rule coordinator_step_ok)

end
