(* ===== verification/Coordinator_History.thy ===== *)
theory Coordinator_History
  imports Coordinator_Invariant
begin

text \<open>
  The receipts of a reachable journal are its history: replaying them, as the integrity check
  does, gives the state of every lease and the open recovery of the journal.
\<close>

section \<open>Replaying receipts\<close>

lemma foldE_agree:
  assumes "foldE f xs s = Inr a" "foldE g xs s = Inr b"
    and "\<And>x s t u. x \<in> set xs \<Longrightarrow> f x s = Inr t \<Longrightarrow> g x s = Inr u \<Longrightarrow> t = u"
  shows "a = b"
  using assms
proof (induction xs arbitrary: s)
  case (Cons x xs)
  from Cons.prems(1,2) obtain t u where "f x s = Inr t" "g x s = Inr u"
    and rest: "foldE f xs t = Inr a" "foldE g xs u = Inr b" by (auto simp: result_simps)
  moreover from this Cons.prems(3)[of x s t u] have "t = u" by simp
  ultimately show ?case using Cons.IH Cons.prems(3) by (metis list.set_intros(2))
qed simp

text \<open>Which lease an acquisition names depends on the keys only.\<close>

lemma replay_receipt_agree:
  assumes "replay_receipt ls r h = Inr a" "replay_receipt ls' r h = Inr b"
    and "\<And>k l l'. filter (\<lambda>l. lease_key l = k) ls = [l] \<Longrightarrow> filter (\<lambda>l. lease_key l = k) ls' = [l'] \<Longrightarrow>
      leaseId l = leaseId l'"
  shows "a = b"
proof (cases "receipt_evidence_of r")
  case (Acquire_Evidence c)
  have found: "\<exists>l. filter (\<lambda>l. lease_key l = acquisition_key c) ks = [l]
      \<and> t = h\<lparr>history_leases := AList.update (leaseId l) (ADMITTED, False) (history_leases h)\<rparr>"
    if "replay_receipt ks r h = Inr t" for ks t
    using that unfolding replay_receipt_def Acquire_Evidence
    by (auto elim!: raise_ifE split: list.splits)
  obtain l where l: "filter (\<lambda>l. lease_key l = acquisition_key c) ls = [l]"
    "a = h\<lparr>history_leases := AList.update (leaseId l) (ADMITTED, False) (history_leases h)\<rparr>"
    using found[OF assms(1)] by blast
  obtain l' where l': "filter (\<lambda>l. lease_key l = acquisition_key c) ls' = [l']"
    "b = h\<lparr>history_leases := AList.update (leaseId l') (ADMITTED, False) (history_leases h)\<rparr>"
    using found[OF assms(2)] by blast
  show ?thesis unfolding l(2) l'(2) assms(3)[OF l(1) l'(1)] by (rule refl)
qed (use assms in \<open>simp_all add: replay_receipt_def\<close>)

lemma follows_filter_agree:
  assumes "list_all2 follows ls ls'" "filter (\<lambda>l. lease_key l = k) ls = [l]"
    "filter (\<lambda>l. lease_key l = k) ls' = [l']"
  shows "leaseId l = leaseId l'"
proof -
  have "map leaseId (filter (\<lambda>l. lease_key l = k) ls) = map leaseId (filter (\<lambda>l. lease_key l = k) ls')"
    using assms(1) by (induction rule: list_all2_induct) (simp_all add: follows_fields)
  then show ?thesis by (simp add: assms(2,3))
qed

lemma lane_step_filter_agree:
  assumes "lane_step ls ls'" "filter (\<lambda>l. lease_key l = k) ls = [l]"
    "filter (\<lambda>l. lease_key l = k) ls' = [l']"
  shows "leaseId l = leaseId l'"
  using assms(1)
proof (cases rule: lane_step.cases)
  case (add_lane m)
  with assms(2,3) show ?thesis by (cases "lease_key m = k") simp_all
next
  case follow_lanes
  from follow_lanes assms(2,3) show ?thesis by (rule follows_filter_agree)
qed

section \<open>The journal is its history\<close>

definition sourced :: "journal \<Rightarrow> lease_history \<Rightarrow> bool" where
  "sourced j h =
     (replay_receipts j = Inr h
      \<and> fst ` set (history_leases h) = leaseId ` set (leases j)
      \<and> (\<forall>l\<in>set (leases j). map_of (history_leases h) (leaseId l) = Some (lease_state l, released l))
      \<and> (recovery_pending h \<longleftrightarrow> recoveryState j = PROJECT_WRITESET_RECOVERY)
      \<and> (recoveryState j = PROJECT_WRITESET_RECOVERY \<longrightarrow>
           map_option evidence_revoked (recoveryEvidence j) = Some (pending_revoked h)))"

lemma integrity_replay:
  assumes "validate_journal_integrity sha host j True = Inr ()"
  obtains h where "replay_receipts j = Inr h"
proof -
  obtain idx :: receipt_index where "validate_recovery_integrity sha host j (acquire_commands idx)
      (observation_receipts idx) (recovery_receipts idx) = Inr ()"
    using assms by (rule integrity_parts)
  then show thesis unfolding validate_recovery_integrity_def Let_def
    by (elim raise_ifE bindE_InrE) (rule that)
qed

lemma replay_last:
  assumes step: "lane_step (leases j) (leases j')" and receipts: "receipts j' = receipts j @ [r]"
    and h: "replay_receipts j = Inr h" and h': "replay_receipts j' = Inr h'"
  shows "replay_receipt (leases j') r h = Inr h'"
proof -
  from h' obtain h0 where h0: "foldE (replay_receipt (leases j')) (receipts j) empty_history = Inr h0"
    and last: "replay_receipt (leases j') r h0 = Inr h'"
    by (auto simp: replay_receipts_def receipts foldE_append result_simps)
  have "h = h0"
    using h[unfolded replay_receipts_def] h0
    by (rule foldE_agree) (erule (1) replay_receipt_agree, rule lane_step_filter_agree[OF step])
  with last show ?thesis by simp
qed

lemma map_of_update: "map_of (AList.update k v d) i = (if i = k then Some v else map_of d i)"
  by (simp add: update_conv' fun_upd_def)

lemma map_of_fold_update_set:
  "map_of (fold (\<lambda>i d. AList.update i (f i) d) is d) k = (if k \<in> set is then Some (f k) else map_of d k)"
  by (induction "is" arbitrary: d) (auto simp: map_of_update)

lemma keys_fold_update:
  "fst ` set (fold (\<lambda>i d. AList.update i (f i) d) is d) = fst ` set d \<union> set is"
  by (induction "is" arbitrary: d) (auto simp: AList.dom_update)

lemma commit_receipt:
  "\<exists>r. receipts (fst (commit_acquisition sha key j c lane graph)) = receipts j @ [r]
     \<and> receipt_evidence_of r = Acquire_Evidence c"
  "\<exists>r. receipts (fst (commit_transition sha key j l tr fp candidate)) = receipts j @ [r]
     \<and> receipt_evidence_of r = Transition_Evidence tr"
  "\<exists>r. receipts (fst (commit_quarantine sha j l ob paths ds)) = receipts j @ [r]
     \<and> receipt_evidence_of r = Quarantine_Evidence ob paths (sort (map leaseId (recoverable_leases j))) ds"
  "\<exists>r. receipts (fst (commit_recovery sha j rc e fp)) = receipts j @ [r]
     \<and> receipt_evidence_of r =
        Recovery_Evidence rc (evidence_observed e) (evidence_revoked e) (evidence_decisions e)"
  by (simp_all add: commit_acquisition_def commit_transition_def commit_quarantine_def commit_recovery_def
      Let_def acquire_receipt_def transition_receipt_def observation_receipt_def recovery_receipt_def)

lemma sourced_acquired:
  assumes ok: "journal_ok key j" and h: "sourced j h" and clear: "recoveryState j = CLEAR"
    and j': "j' = fst (commit_acquisition sha key j c lane graph)"
    and step: "lane_step (leases j) (leases j')" and h': "replay_receipts j' = Inr h'"
    and keys: "distinct (map lease_key (leases j'))" and ids: "distinct (map leaseId (leases j'))"
  shows "sourced j' h'"
proof -
  let ?l = "new_lease sha key (nextFencingToken j) c lane graph"
  obtain r where r: "receipts j' = receipts j @ [r]" "receipt_evidence_of r = Acquire_Evidence c"
    using commit_receipt(1) j' by blast
  have leases: "leases j' = leases j @ [?l]" unfolding j' by (rule commit_fields)
  have key: "lease_key ?l = acquisition_key c" by (simp add: new_lease_def lease_key_def acquisition_key_def)
  have fresh: "leaseId ?l \<notin> leaseId ` set (leases j)" using ids by (simp add: leases)
  have "filter (\<lambda>l. lease_key l = acquisition_key c) (leases j') = [?l]"
    using keys by (auto simp: leases key[symmetric] filter_empty_conv image_iff)
  then have h'_eq: "h' = h\<lparr>history_leases := AList.update (leaseId ?l) (ADMITTED, False) (history_leases h)\<rparr>"
    using replay_last[OF step r(1) _ h'] h by (simp add: sourced_def replay_receipt_def r(2) bindE_def raise_if_def split: if_splits)
  have "lease_state ?l = ADMITTED" "\<not> released ?l" by (simp_all add: new_lease_def)
  with h fresh clear h' show ?thesis
    by (auto simp: sourced_def h'_eq leases AList.dom_update map_of_update j' commit_fields image_iff)
qed

lemma sourced_transitioned:
  assumes h: "sourced j h" and clear: "recoveryState j = CLEAR"
    and l: "l \<in> set (leases j)" "transition_leaseId c = leaseId l"
    and j': "j' = fst (commit_transition sha key j l c fp candidate)"
    and step: "lane_step (leases j) (leases j')" and h': "replay_receipts j' = Inr h'"
  shows "sourced j' h'"
proof -
  obtain r where r: "receipts j' = receipts j @ [r]" "receipt_evidence_of r = Transition_Evidence c"
    using commit_receipt(2) j' by blast
  have leases: "leases j' = update_lease (leaseId l) (transitioned c candidate) (leases j)"
    unfolding j' by (rule commit_fields)
  have h'_eq: "h' = h\<lparr>history_leases := AList.update (leaseId l)
      (transition_nextState c, transition_nextState c = CLOSED) (history_leases h)\<rparr>"
    using replay_last[OF step r(1) _ h'] h l(2)
    by (simp add: sourced_def replay_receipt_def r(2) bindE_def raise_if_def split: if_splits)
  have "map leaseId (leases j') = map leaseId (leases j)"
    by (simp add: leases update_lease_def transitioned_def)
  then have ids: "leaseId ` set (leases j') = leaseId ` set (leases j)" by (metis set_map)
  have "map_of (history_leases h') (leaseId m) = Some (lease_state m, released m)"
    if "m \<in> set (leases j')" for m
    using that h by (auto simp: leases update_lease_def h'_eq map_of_update sourced_def transitioned_def)
  moreover have "fst ` set (history_leases h') = leaseId ` set (leases j')"
    using h l(1) by (auto simp: h'_eq AList.dom_update ids sourced_def)
  ultimately show ?thesis
    using h h' clear by (simp add: sourced_def h'_eq j' commit_fields)
qed

lemma sourced_quarantined:
  assumes h: "sourced j h" and j': "j' = fst (commit_quarantine sha j l c paths ds)"
    and step: "lane_step (leases j) (leases j')" and h': "replay_receipts j' = Inr h'"
  shows "sourced j' h'"
proof -
  let ?revoked = "sort (map leaseId (recoverable_leases j))"
  obtain r where r: "receipts j' = receipts j @ [r]"
    "receipt_evidence_of r = Quarantine_Evidence c paths ?revoked ds"
    using commit_receipt(3) j' by blast
  have leases: "leases j' = map quarantined (leases j)" unfolding j' by (rule commit_fields)
  have h'_eq: "h' = h\<lparr>recovery_pending := True, pending_revoked := ?revoked\<rparr>"
    using replay_last[OF step r(1) _ h'] h
    by (simp add: sourced_def replay_receipt_def r(2) bindE_def raise_if_def split: if_splits)
  have q: "leaseId (quarantined m) = leaseId m" "lease_state (quarantined m) = lease_state m"
    "released (quarantined m) = released m" for m by (simp_all add: quarantined_def)
  from h h' show ?thesis
    by (simp add: sourced_def h'_eq leases q image_image j' commit_fields)
qed

lemma dict_of_total: "k \<in> fst ` set kvs \<Longrightarrow> \<exists>v. map_of (dict_of kvs) k = Some v"
  by (metis map_of_dict_of map_of_eq_None_iff option.exhaust set_rev)

text \<open>The lease a checked recovery leaves: its decision and its proof are both in the command.\<close>

lemma recovered_lookup:
  assumes "check_recovery_command j c e = Inr ()"
    "set (evidence_revoked e) \<subseteq> set (map decided_leaseId (affectedLeaseDecisions c))"
    "leaseId m \<in> set (evidence_revoked e)"
  obtains s where "map_of (decisions_by_id (affectedLeaseDecisions c)) (leaseId m) = Some s"
    "lease_state (recovered c m) = s" "released (recovered c m)" "recoveryStatus (recovered c m) = CLEAR"
proof -
  note check = check_recovery_command_Inr[OF assms(1)]
  obtain s q where "map_of (decisions_by_id (affectedLeaseDecisions c)) (leaseId m) = Some s"
    "map_of (proofs_by_id c) (leaseId m) = Some q"
    using assms(2,3) check(6)
      dict_of_total[of "leaseId m" "map (\<lambda>d. (decided_leaseId d, decided_state d)) (affectedLeaseDecisions c)"]
      dict_of_total[of "leaseId m" "map (\<lambda>q. (quiescent_leaseId q, q)) (processQuiescenceProofs c)"]
    by (fastforce simp: decisions_by_id_def proofs_by_id_def image_image)
  then show thesis by (intro that[of s]) (simp_all add: recovered_def)
qed

lemma recovered_leaseId [simp]: "leaseId (recovered c m) = leaseId m"
  by (auto simp: recovered_def split: option.splits)

lemma sourced_recovered:
  assumes h: "sourced j h" and e: "recoveryEvidence j = Some e"
    and checked: "check_recovery_command j c e = Inr ()"
    and decided: "set (evidence_revoked e) \<subseteq> set (map decided_leaseId (affectedLeaseDecisions c))"
    and ids: "set (evidence_revoked e) \<subseteq> leaseId ` set (leases j)"
    and j': "j' = fst (commit_recovery sha j c e fp)"
    and step: "lane_step (leases j) (leases j')" and h': "replay_receipts j' = Inr h'"
  shows "sourced j' h'"
proof -
  note check = check_recovery_command_Inr[OF checked]
  let ?ds = "evidence_decisions e" and ?revoked = "evidence_revoked e"
  obtain r where r: "receipts j' = receipts j @ [r]"
    "receipt_evidence_of r = Recovery_Evidence c (evidence_observed e) ?revoked ?ds"
    using commit_receipt(4) j' by blast
  have leases: "leases j' = map (\<lambda>l. if leaseId l \<in> set ?revoked then recovered c l else l) (leases j)"
    unfolding j' by (rule commit_fields)
  have pending: "pending_revoked h = ?revoked" using h e check(2) by (simp add: sourced_def)
  have h'_eq: "h' = h\<lparr>history_leases := fold (\<lambda>i d. AList.update i (the (map_of (decisions_by_id ?ds) i), True) d)
        ?revoked (history_leases h), recovery_pending := False, pending_revoked := []\<rparr>"
    using replay_last[OF step r(1) _ h'] h
    by (simp add: sourced_def replay_receipt_def r(2) pending bindE_def raise_if_def Let_def
        decisions_by_id_def split: if_splits)
  have rec: "lease_state (recovered c m) = the (map_of (decisions_by_id ?ds) (leaseId m))
      \<and> released (recovered c m)" if "leaseId m \<in> set ?revoked" for m
    by (rule recovered_lookup[OF checked decided that]) (simp add: check(5))
  have "map_of (history_leases h') (leaseId m) = Some (lease_state m, released m)"
    if "m \<in> set (leases j')" for m
    using that h rec by (auto simp: leases h'_eq map_of_fold_update_set sourced_def)
  moreover have "map leaseId (leases j') = map leaseId (leases j)" by (simp add: leases)
  then have "leaseId ` set (leases j') = leaseId ` set (leases j)" by (metis set_map)
  then have "fst ` set (history_leases h') = leaseId ` set (leases j')"
    using h ids by (auto simp: h'_eq keys_fold_update sourced_def)
  ultimately show ?thesis
    using h' by (simp add: sourced_def h'_eq j' commit_fields)
qed

lemma coordinator_step_sourced:
  assumes ok: "journal_ok key j" and h: "sourced j h" and step: "coordinator_step sha key j j'"
  shows "\<exists>h'. sourced j' h'"
proof -
  obtain host where integrity: "validate_journal_integrity sha host j' True = Inr ()"
    using step by (rule coordinator_step_integrity)
  then obtain h' where h': "replay_receipts j' = Inr h'" by (rule integrity_replay)
  note lanes = coordinator_step_lanes[OF ok step] and facts = integrity_facts[OF integrity]
  from step have "sourced j' h'"
  proof (cases rule: coordinator_step.cases)
    case (acquired identity live raw r)
    then obtain c lane graph where "recoveryState j = CLEAR"
      "j' = fst (commit_acquisition sha key j c lane graph)" by (auto elim: acquire_step_Commit)
    then show ?thesis by (rule sourced_acquired[OF ok h _ _ lanes h' facts(3,2)])
  next
    case (transitioned identity live raw r)
    then obtain c l fp candidate where l: "find_lease (transition_leaseId c) (leases j) = Some l"
      and fp: "authorize_transition sha live identity j l c = Inr fp"
      and j': "j' = fst (commit_transition sha key j l c fp candidate)"
      by (auto elim: transition_step_Commit)
    from fp have clear: "recoveryState j = CLEAR" unfolding authorize_transition_def by (elim raise_ifE) simp
    show ?thesis
      using find_lease_Some[OF l] by (intro sourced_transitioned[OF h clear _ _ j' lanes h']) simp_all
  next
    case (observed raw c r)
    then obtain l paths ds where "j' = fst (commit_quarantine sha j l c paths ds)"
      by (auto elim!: quarantine_step_Commit)
    then show ?thesis by (rule sourced_quarantined[OF h _ lanes h'])
  next
    case (recovered identity raw c live r)
    then obtain e fp where e: "recoveryEvidence j = Some e" and check: "check_recovery_command j c e = Inr ()"
      and decided: "set (evidence_revoked e) \<subseteq> set (map decided_leaseId (affectedLeaseDecisions c))"
      and j': "j' = fst (commit_recovery sha j c e fp)" by (auto elim: recovery_step_Commit)
    have "set (evidence_revoked e) \<subseteq> leaseId ` set (leases j)"
      using ok e check_recovery_command_Inr(2)[OF check]
      by (auto simp: journal_ok_def recovery_covers_def recoverable_leases_def)
    then show ?thesis by (rule sourced_recovered[OF h e check decided _ j' lanes h'])
  qed
  then show ?thesis by blast
qed

lemma coordinated_sourced:
  assumes "coordinated sha key j"
  obtains h where "sourced j h"
proof -
  from assms have "\<exists>h. sourced j h"
  proof (induction rule: coordinated.induct)
    case empty
    have "sourced (empty_journal key) empty_history"
      by (simp add: sourced_def empty_journal_def empty_history_def replay_receipts_def)
    then show ?case ..
  next
    case (step j j')
    then show ?case using coordinator_step_sourced coordinated_ok by blast
  qed
  then show thesis using that by blast
qed

end
