(* ===== verification/Coordinator_Properties.thy ===== *)
theory Coordinator_Properties
  imports Coordinator_History "HOL-Library.Sublist"
begin

text \<open>
  What the coordinator guarantees over every sequence of its four commands: bounded and isolated
  lanes, growing fencing tokens, an append-only history that determines the leases, a lifecycle
  no lease runs backwards, and the quarantine that a recovery has to close. The witnesses
  are in \<open>Coordinator_Witnesses\<close>, on the sample journals of \<open>Sample_Lanes\<close> and
  \<open>Sample_Journals\<close>.
\<close>

section \<open>Runs of the coordinator\<close>

abbreviation coordinator_run :: "(string \<Rightarrow> string) \<Rightarrow> string \<Rightarrow> journal \<Rightarrow> journal \<Rightarrow> bool" where
  "coordinator_run sha key \<equiv> (coordinator_step sha key)\<^sup>*\<^sup>*"

lemma coordinated_run:
  assumes "coordinated sha key j" "coordinator_run sha key j j'"
  shows "coordinated sha key j'"
  using assms(2,1) by (induction rule: rtranclp_induct) (auto intro: coordinated.step)

text \<open>A new lease takes the next token.\<close>

lemma new_lease_token:
  assumes ok: "journal_ok key j" and step: "coordinator_step sha key j j'"
    and l: "l \<in> set (leases j')" "leaseId l \<notin> leaseId ` set (leases j)"
  shows "lease_fencingToken l = nextFencingToken j"
proof -
  have known: "leaseId l \<in> leaseId ` set (leases j)" if all: "list_all2 follows (leases j) (leases j')"
  proof -
    obtain m where "m \<in> set (leases j)" "follows m l" using all l(1) by (rule follows_member)
    then show ?thesis using follows_fields(1)[of m l] by (metis imageI)
  qed
  show ?thesis using coordinator_step_lanes[OF ok step]
  proof (cases rule: lane_step.cases)
    case (add_lane n)
    with l have "l = n" by auto
    moreover have "lease_fencingToken n = nextFencingToken j"
      using step
    proof (cases rule: coordinator_step.cases)
      case (acquired identity live raw r)
      then obtain c lane graph where "j' = fst (commit_acquisition sha key j c lane graph)"
        by (auto elim: acquire_step_Commit)
      with add_lane(1) show ?thesis by (auto simp: commit_fields new_lease_def)
    next
      case (transitioned identity live raw r)
      then obtain c l' fp candidate where "j' = fst (commit_transition sha key j l' c fp candidate)"
        by (auto elim: transition_step_Commit)
      then have "length (leases j') = length (leases j)" by (simp add: commit_fields update_lease_def)
      with add_lane(1) show ?thesis by simp
    next
      case (observed raw c r)
      then obtain l' paths ds where "j' = fst (commit_quarantine sha j l' c paths ds)"
        by (auto elim!: quarantine_step_Commit)
      then have "length (leases j') = length (leases j)" by (simp add: commit_fields)
      with add_lane(1) show ?thesis by simp
    next
      case (recovered identity raw c live r)
      then obtain e fp where "j' = fst (commit_recovery sha j c e fp)" by (auto elim: recovery_step_Commit)
      then have "length (leases j') = length (leases j)" by (simp add: commit_fields)
      with add_lane(1) show ?thesis by simp
    qed
    ultimately show ?thesis by simp
  next
    case follow_lanes
    with known l(2) show ?thesis by blast
  qed
qed

section \<open>Lanes\<close>

text \<open>C3: every command that commits is a step of the abstract lane machine: a lane is added when
  fewer than three are in use and none of them may interfere with it, or each lease follows its
  lifecycle; and the lanes reached this way are bounded, isolated and fenced.\<close>

theorem coordinator_refines_lanes:
  assumes "coordinated sha key j" "coordinator_step sha key j j'"
  shows "lane_step (leases j) (leases j') \<and> lanes_ok (leases j')"
proof -
  have lanes: "lane_step (leases j) (leases j')"
    using coordinator_step_lanes[OF coordinated_ok[OF assms(1)] assms(2)] .
  moreover have "lanes_ok (leases j)" using coordinated_ok[OF assms(1)] by (simp add: journal_ok_def)
  ultimately show ?thesis using lane_step_ok by blast
qed

text \<open>C1: of two leases that occupy a lane at the same time, no file is written by both, and neither
  may write an authority input of the other; their lane directories differ in path and inode.\<close>

theorem active_lanes_isolated:
  assumes "coordinated sha key j" "l \<in> set (leases j)" "m \<in> set (leases j)"
    "is_nonterminal l" "is_nonterminal m" "leaseId l \<noteq> leaseId m"
    "p \<in> set (write_paths (lease_footprint l))" "contains_path p f"
  shows "(\<forall>q\<in>set (write_paths (lease_footprint m)). \<not> contains_path q f)
    \<and> (\<forall>q\<in>set (authorityReferences (lease_footprint m)). \<not> contains_path q f)
    \<and> lease_laneRoot l \<noteq> lease_laneRoot m \<and> lanePhysicalIdentity l \<noteq> lanePhysicalIdentity m"
proof -
  have "lanes_ok (leases j)" using coordinated_ok[OF assms(1)] by (simp add: journal_ok_def)
  then have apart: "\<not> lane_conflict l m" "lease_laneRoot l \<noteq> lease_laneRoot m"
    "lanePhysicalIdentity l \<noteq> lanePhysicalIdentity m"
    using assms(2-6) unfolding lanes_ok_def by auto
  from lanes.free_outputs[OF apart(1) assms(7)] lanes.free_inputs[OF apart(1) assms(7)] assms(8) apart(2,3)
  show ?thesis by blast
qed

text \<open>at most three leases occupy a lane, and those that do were admitted by one authorisation
  envelope on one source commit.\<close>

theorem active_lane_bound:
  assumes "coordinated sha key j"
  shows "length (active_leases j) \<le> 3
    \<and> (\<forall>l\<in>set (active_leases j). \<forall>m\<in>set (active_leases j).
          lease_envelopeDigest l = lease_envelopeDigest m \<and> lease_laneBase l = lease_laneBase m)"
  using coordinated_ok[OF assms] unfolding journal_ok_def lanes_ok_def active_leases_def by blast

section \<open>Fencing tokens\<close>

text \<open>C14: fencing tokens grow in the order of acquisition and the counter never goes back; the token of
  a new lease is the counter, above every token any lease or receipt of the journal ever had.\<close>

theorem fencing_tokens_grow:
  assumes "coordinated sha key j" "coordinator_step sha key j j'"
  shows "sorted_wrt (<) (map lease_fencingToken (leases j'))
    \<and> nextFencingToken j \<le> nextFencingToken j'
    \<and> (\<forall>l\<in>set (leases j'). lease_fencingToken l < nextFencingToken j')
    \<and> (\<forall>l\<in>set (leases j'). leaseId l \<notin> leaseId ` set (leases j) \<longrightarrow>
          (\<forall>m\<in>set (leases j). lease_fencingToken m < lease_fencingToken l)
          \<and> (\<forall>r\<in>set (receipts j). receipt_fencingToken r < lease_fencingToken l))"
proof (intro conjI)
  note ok = coordinated_ok[OF assms(1)]
  have ok': "journal_ok key j'" using coordinator_step_ok[OF ok assms(2)] .
  then show "sorted_wrt (<) (map lease_fencingToken (leases j'))"
    "\<forall>l\<in>set (leases j'). lease_fencingToken l < nextFencingToken j'"
    by (simp_all add: journal_ok_def lanes_ok_def)
  show "nextFencingToken j \<le> nextFencingToken j'"
    using coordinator_step_appends[OF assms(2)] by (simp add: appends_def)
  show "\<forall>l\<in>set (leases j'). leaseId l \<notin> leaseId ` set (leases j) \<longrightarrow>
          (\<forall>m\<in>set (leases j). lease_fencingToken m < lease_fencingToken l)
          \<and> (\<forall>r\<in>set (receipts j). receipt_fencingToken r < lease_fencingToken l)"
    using ok new_lease_token[OF ok assms(2)] by (simp add: journal_ok_def)
qed

section \<open>The history\<close>

text \<open>C10: the receipts are the history of the journal: replaying them gives exactly the leases of the
  journal with their states and whether they are released, and whether a recovery is open.\<close>

theorem journal_is_its_history:
  assumes "coordinated sha key j"
  shows "\<exists>h. replay_receipts j = Inr h
    \<and> (\<forall>i. map_of (history_leases h) i =
            map_option (\<lambda>l. (lease_state l, released l)) (find_lease i (leases j)))
    \<and> (recovery_pending h \<longleftrightarrow> recoveryState j \<noteq> CLEAR)"
proof -
  obtain h where h: "sourced j h" using assms by (rule coordinated_sourced)
  have "map_of (history_leases h) i =
      map_option (\<lambda>l. (lease_state l, released l)) (find_lease i (leases j))" for i
  proof (cases "find_lease i (leases j)")
    case None
    then have "i \<notin> fst ` set (history_leases h)"
      using h by (auto simp: find_lease_def find_None_iff sourced_def)
    with None show ?thesis by (simp add: map_of_eq_None_iff)
  next
    case (Some l)
    with find_lease_Some[OF Some] h show ?thesis by (auto simp: sourced_def)
  qed
  moreover have "recovery_pending h \<longleftrightarrow> recoveryState j \<noteq> CLEAR"
    using h coordinated_ok[OF assms] by (auto simp: sourced_def journal_ok_def recovery_covers_def)
  ultimately show ?thesis using h by (auto simp: sourced_def)
qed

text \<open>No run rewrites a receipt: the receipts of an earlier journal are a prefix of those of every
  later one, the version counts them, and the last one carries the digest of the whole journal.\<close>

theorem receipts_append_only:
  assumes "coordinated sha key j" "coordinator_run sha key j j'"
  shows "prefix (receipts j) (receipts j') \<and> journalVersion j' = int (length (receipts j'))
    \<and> (receipts j' \<noteq> [] \<longrightarrow> receipt_journalDigest (last (receipts j')) = journal_digest sha j')"
  using assms(2)
proof (induction rule: rtranclp_induct)
  case base
  have "receipts j \<noteq> [] \<longrightarrow> receipt_journalDigest (last (receipts j)) = journal_digest sha j"
    using assms(1)
  proof (cases rule: coordinated.cases)
    case (step k)
    from step(2) obtain host where "validate_journal_integrity sha host j True = Inr ()"
      by (rule coordinator_step_integrity)
    then show ?thesis using integrity_facts(8) by blast
  qed (simp add: empty_journal_def)
  with coordinated_ok[OF assms(1)] show ?case by (simp add: journal_ok_def)
next
  case (step k k')
  from coordinator_step_appends[OF step(2)] obtain r where
    "receipts k' = receipts k @ [r]" "journalVersion k' = journalVersion k + 1"
    "receipt_journalDigest r = journal_digest sha k'" by (auto simp: appends_def)
  with step.IH show ?case by (auto intro: prefix_order.trans)
qed

section \<open>The lifecycle of a lease\<close>

fun lifecycle_rank :: "slice_state \<Rightarrow> nat" where
  "lifecycle_rank ADMITTED = 1"
| "lifecycle_rank ACTIVE = 2"
| "lifecycle_rank FIXED_CANDIDATE = 3"
| "lifecycle_rank REVIEW_GO = 4"
| "lifecycle_rank QUEUED_FOR_INTEGRATION = 5"
| "lifecycle_rank INTEGRATING = 6"
| "lifecycle_rank CLOSED = 7"
| "lifecycle_rank PROPOSED = 0"
| "lifecycle_rank READY = 0"
| "lifecycle_rank _ = 8"

lemma successor_rank: "t \<in> set (lease_successors s) \<Longrightarrow> lifecycle_rank s < lifecycle_rank t"
  by (cases s) auto

lemma lifecycle_rank_top: "lifecycle_rank s \<le> 8"
  by (cases s) auto

text \<open>How a lease may look in a later journal.\<close>

definition progressed :: "lease \<Rightarrow> lease \<Rightarrow> bool" where
  "progressed l l' =
     (same_lane l l' \<and> (released l \<longrightarrow> l' = l)
      \<and> lifecycle_rank (lease_state l) \<le> lifecycle_rank (lease_state l')
      \<and> (lease_candidate l \<noteq> None \<longrightarrow> lease_candidate l' = lease_candidate l))"

lemma progressed_refl: "progressed l l"
  by (simp add: progressed_def same_lane_def)

lemma same_lane_trans: "same_lane l m \<Longrightarrow> same_lane m n \<Longrightarrow> same_lane l n"
  unfolding same_lane_def by (cases l, cases m, cases n) simp

lemma progressed_trans: "progressed l m \<Longrightarrow> progressed m n \<Longrightarrow> progressed l n"
  unfolding progressed_def using same_lane_trans by auto

lemma follows_progressed: "follows l l' \<Longrightarrow> progressed l l'"
  using successor_rank[of "lease_state l'" "lease_state l"] lifecycle_rank_top[of "lease_state l"]
    follows_parts[of l l'] follows_same_lane[of l l']
  by (auto simp: progressed_def)

lemma coordinator_run_progress:
  assumes "coordinated sha key j" "coordinator_run sha key j j'" "l \<in> set (leases j)"
  shows "\<exists>l'\<in>set (leases j'). progressed l l'"
  using assms(2)
proof (induction rule: rtranclp_induct)
  case base
  with assms(3) show ?case using progressed_refl by blast
next
  case (step k k')
  then obtain m where m: "m \<in> set (leases k)" "progressed l m" by blast
  have "coordinated sha key k" using assms(1) step(1) by (rule coordinated_run)
  then have "lane_step (leases k) (leases k')"
    using step(2) by (rule coordinator_step_lanes[OF coordinated_ok])
  then have "\<exists>n\<in>set (leases k'). progressed m n"
  proof (cases rule: lane_step.cases)
    case (add_lane n)
    with m(1) show ?thesis using progressed_refl by force
  next
    case follow_lanes
    with m(1) show ?thesis
      by (metis follows_progressed in_set_conv_nth list_all2_conv_all_nth)
  qed
  with m(2) show ?case using progressed_trans by blast
qed

text \<open>C26: over any run a lease keeps its identity, its token, its footprint and its lane; once released
  it never changes again; its candidate is fixed once; and its state never goes back.\<close>

theorem lease_lifecycle:
  assumes "coordinated sha key j" "coordinator_run sha key j j'" "l \<in> set (leases j)"
  shows "\<exists>l'\<in>set (leases j'). leaseId l' = leaseId l \<and> lease_fencingToken l' = lease_fencingToken l
    \<and> lease_footprint l' = lease_footprint l \<and> lease_laneRoot l' = lease_laneRoot l
    \<and> (released l \<longrightarrow> l' = l)
    \<and> (lease_candidate l \<noteq> None \<longrightarrow> lease_candidate l' = lease_candidate l)
    \<and> lifecycle_rank (lease_state l) \<le> lifecycle_rank (lease_state l')"
proof -
  obtain l' where l': "l' \<in> set (leases j')" "progressed l l'"
    using coordinator_run_progress[OF assms] by blast
  then have lane: "same_lane l l'" by (simp add: progressed_def)
  show ?thesis
    using l' same_lane_fields(1,4,5,7)[OF lane] unfolding progressed_def by blast
qed

lemma releasedLeaseIds_member:
  assumes "l \<in> set (leases j)" "released l"
  shows "leaseId l \<in> set (releasedLeaseIds (coordinator_status_of key (Some j)))"
proof -
  have "lease_status_of l \<in> set (filter status_released (map lease_status_of (leases j)))"
    using assms by (simp add: lease_status_of_def)
  then have "status_leaseId (lease_status_of l) \<in> set (releasedLeaseIds (coordinator_status_of key (Some j)))"
    unfolding coordinator_status_of_def by (simp add: Let_def)
  then show ?thesis by (simp add: lease_status_of_def)
qed

text \<open>C34: a lane whose recovery decided STALE is released, and reported as released, but it occupies
  its lane in every later journal: no command can free it.\<close>

theorem recovered_stale_lane_stuck:
  assumes "coordinated sha key j" "coordinator_run sha key j j'"
    "l \<in> set (leases j)" "lease_state l = STALE" "released l"
  shows "l \<in> set (active_leases j')
    \<and> leaseId l \<in> set (releasedLeaseIds (coordinator_status_of key (Some j')))"
proof -
  obtain l' where "l' \<in> set (leases j')" "progressed l l'"
    using coordinator_run_progress[OF assms(1-3)] by blast
  then have "l \<in> set (leases j')" using assms(5) by (simp add: progressed_def)
  moreover from this have "leaseId l \<in> set (releasedLeaseIds (coordinator_status_of key (Some j')))"
    using assms(5) by (rule releasedLeaseIds_member)
  ultimately show ?thesis using assms(4) by (simp add: active_leases_def is_nonterminal_def)
qed

section \<open>Recovery\<close>

text \<open>While a recovery is open no lane is admitted and no lease moves: the two commands fail, the
  acquisition with COORDINATOR_RECOVERY_REQUIRED.\<close>

theorem recovery_blocks_lanes:
  assumes "recoveryState j \<noteq> CLEAR"
  shows "acquire_step sha live identity j c = Inl (Coordination_Error ''COORDINATOR_RECOVERY_REQUIRED'')
    \<and> (\<exists>e. transition_step sha live identity j t = Inl e)"
proof -
  have "\<exists>e. authorize_transition sha live identity j l t' = Inl e" for l t'
    using assms by (simp add: authorize_transition_def)
  then have auth: "\<exists>e. bindE (authorize_transition sha live identity j l t') f = Inl e" for l t'
    and f :: "string \<Rightarrow> lease_result step_outcome result"
    by (metis bindE_Inl)
  have "\<exists>e. transition_step sha live identity j t = Inl e"
  proof (cases "normalize_transition_command sha t")
    case (Inr t')
    then show ?thesis
      using auth by (cases "transition_executionKey t' \<noteq> projectExecutionKey identity")
        (simp_all add: transition_step_def split: option.split)
  qed (simp add: transition_step_def)
  with assms show ?thesis by (simp add: acquire_step_def)
qed

text \<open>C11: a committed recovery closes the quarantine completely: every lease that was not released or
  closed is now released in the state its evidence decided, STALE or CANCELLED, no other lease
  changed, and nothing is left to recover.\<close>

theorem recovery_releases_lanes:
  assumes "coordinated sha key j" "normalize_recovery_command sha raw = Inr c"
    "recovery_step sha live identity (Some j) c = Inr (Commit j' r)"
  shows "recoveryState j' = CLEAR \<and> recoverable_leases j' = []
    \<and> (\<forall>l\<in>set (recoverable_leases j). \<exists>l'\<in>set (leases j'). leaseId l' = leaseId l \<and> released l'
          \<and> lease_state l' \<in> {STALE, CANCELLED}
          \<and> (\<exists>d\<in>set (affectedLeaseDecisions c). decided_leaseId d = leaseId l \<and> decided_state d = lease_state l'))
    \<and> (\<forall>l\<in>set (leases j). l \<notin> set (recoverable_leases j) \<longrightarrow> l \<in> set (leases j'))"
proof -
  obtain e fp where e: "recoveryEvidence j = Some e" and check: "check_recovery_command j c e = Inr ()"
    and decided: "set (evidence_revoked e) \<subseteq> set (map decided_leaseId (affectedLeaseDecisions c))"
    and j': "j' = fst (commit_recovery sha j c e fp)"
    using assms(3) by (auto elim: recovery_step_Commit)
  note covered = covered_iff[OF coordinated_ok[OF assms(1)] check_recovery_command_Inr(2)[OF check] e]
  note states = decided_states[OF normalize_recovery_decisions[OF assms(2)]]
  have rec: "released (recovered c l) \<and> lease_state (recovered c l) \<in> {STALE, CANCELLED}
      \<and> (\<exists>d\<in>set (affectedLeaseDecisions c). decided_leaseId d = leaseId l \<and> decided_state d = lease_state (recovered c l))"
    if l: "l \<in> set (leases j)" "l \<in> set (recoverable_leases j)" for l
  proof -
    from l have "leaseId l \<in> set (evidence_revoked e)" by (simp add: covered)
    then obtain s where s: "map_of (decisions_by_id (affectedLeaseDecisions c)) (leaseId l) = Some s"
      and l': "lease_state (recovered c l) = s" "released (recovered c l)"
      by (rule recovered_lookup[OF check decided])
    obtain d where "d \<in> set (affectedLeaseDecisions c)" "decided_leaseId d = leaseId l" "decided_state d = s"
      using s by (rule decisions_by_id_Some)
    with states[OF s] l' show ?thesis by metis
  qed
  have leases: "leases j' = map (\<lambda>l. if l \<in> set (recoverable_leases j) then recovered c l else l) (leases j)"
    unfolding j' commit_fields by (rule map_cong) (simp_all add: covered)
  have member: "l \<in> set (leases j)" if "l \<in> set (recoverable_leases j)" for l
    using that by (simp add: recoverable_leases_def)
  have "l' \<notin> set (recoverable_leases j')" for l'
    using rec by (fastforce simp: recoverable_leases_def leases)
  then have "recoverable_leases j' = []" by (metis list.set_intros(1) neq_Nil_conv)
  moreover have "recovered c l \<in> set (leases j')" if "l \<in> set (recoverable_leases j)" for l
    using member[OF that] that by (auto simp: leases)
  moreover have "l \<in> set (leases j')" if "l \<in> set (leases j)" "l \<notin> set (recoverable_leases j)" for l
    using that by (force simp: leases)
  moreover have "recoveryState j' = CLEAR" by (simp add: j' commit_fields)
  ultimately show ?thesis using rec member recovered_leaseId by blast
qed

end
