(* ===== verification/Coordinator_Signatures.thy ===== *)
theory Coordinator_Signatures
  imports Coordinator_Properties
begin

text \<open>
  What stands behind a committed transition: the lifecycle controller's signature, the reviews
  of every required reviewer before \<open>REVIEW_GO\<close>, and for every lane beyond \<open>REVIEW_GO\<close> the
  receipt of that review. Acquisitions can be repeated.
\<close>

section \<open>Signatures of current authorities\<close>

text \<open>
  \<open>ssh-keygen\<close> accepted the signature over the payload under the key that the live authority
  snapshot records for the signer, and the bytes of that key have the recorded digest.
\<close>

definition signed_by ::
    "(string \<Rightarrow> string) \<Rightarrow> live_project \<Rightarrow> authority_snapshot \<Rightarrow> string \<Rightarrow> string \<Rightarrow> string \<Rightarrow> json \<Rightarrow> bool" where
  "signed_by sha live s signer namespace signature_text payload =
     (\<exists>a\<in>set (authorities s). \<exists>bytes key.
        authority_id a = signer \<and> authority_file live (authority_path a) = Some bytes
        \<and> sha bytes = authority_sha256 a \<and> openssh_ed25519_public_key bytes = Inr key
        \<and> keygen_trusted (live_ssh live)
        \<and> keygen_verify (live_ssh live) (signer @ '' '' @ key @ [newline]) signer namespace
             signature_text (canonical_json_bytes payload))"

lemma current_authority_record_Inr:
  assumes "current_authority_record s reference digest signer code = Inr a"
  shows "a \<in> set (authorities s)" "authority_id a = signer" "authority_path a = reference"
  using assms
  by (auto simp: current_authority_record_def find_Some_iff split: option.splits if_splits)

lemma read_current_authority_bytes_Inr:
  assumes "read_current_authority_bytes sha live a = Inr bytes"
  shows "authority_file live (authority_path a) = Some bytes" "sha bytes = authority_sha256 a"
  using assms
  by (auto simp: read_current_authority_bytes_def Let_def split: option.splits if_splits)

lemma verify_sshsig_signature_Inr:
  assumes "verify_sshsig_signature host bytes signature_text payload signer namespace code = Inr ()"
  obtains key where "keygen_trusted host" "openssh_ed25519_public_key bytes = Inr key"
    "keygen_verify host (signer @ '' '' @ key @ [newline]) signer namespace signature_text
       (canonical_json_bytes payload)"
  using assms unfolding verify_sshsig_signature_def
  by (elim raise_ifE bindE_InrE) (auto simp: result_simps)

lemma signed_byI:
  assumes "current_authority_record s reference digest signer code = Inr a"
    "read_current_authority_bytes sha live a = Inr bytes"
    "verify_sshsig_signature (live_ssh live) bytes signature_text payload signer namespace code' = Inr ()"
  shows "signed_by sha live s signer namespace signature_text payload"
proof -
  obtain key where "keygen_trusted (live_ssh live)" "openssh_ed25519_public_key bytes = Inr key"
    "keygen_verify (live_ssh live) (signer @ '' '' @ key @ [newline]) signer namespace signature_text
       (canonical_json_bytes payload)" using assms(3) by (rule verify_sshsig_signature_Inr)
  with current_authority_record_Inr[OF assms(1)] read_current_authority_bytes_Inr[OF assms(2)]
  show ?thesis unfolding signed_by_def by blast
qed

section \<open>Authorised transitions\<close>

lemma authorize_transition_Inr:
  assumes "authorize_transition sha live identity j l c = Inr fp"
  obtains r a s where "recoveryState j = CLEAR" "lease_attemptId l = transition_attemptId c"
    "lease_fencingToken l = transition_fencingToken c" "acquire_receipt_for j l = Some (r, a)"
    "lease_sourceRoot l = live_source live" "rebuild_transition_snapshot live identity a = Inr s"
    "transition_snapshotFingerprint c = snapshotFingerprint s" "fp = snapshotFingerprint s"
    "snapshotFingerprint s = lease_snapshotFingerprint l \<or> transition_nextState c \<in> set revocation_states"
    "verify_lifecycle sha live s c = Inr ()"
    "transition_nextState c = REVIEW_GO \<Longrightarrow> transition_candidate c = lease_candidate l"
    "transition_nextState c = REVIEW_GO \<Longrightarrow> validate_and_verify_review_set sha live s a l c = Inr ()"
proof -
  from assms obtain r a where a: "acquire_receipt_for j l = Some (r, a)"
    and clear: "recoveryState j = CLEAR" "lease_attemptId l = transition_attemptId c"
      "lease_fencingToken l = transition_fencingToken c"
    unfolding authorize_transition_def
    by (elim raise_ifE) (auto split: option.splits prod.splits)
  have rest: "bindE (raise_if (lease_sourceRoot l \<noteq> live_source live) binding_mismatch) (\<lambda>_.
         bindE (rebuild_transition_snapshot live identity a) (\<lambda>s.
         bindE (raise_if (transition_snapshotFingerprint c \<noteq> snapshotFingerprint s)
                  (Coordination_Error ''LIVE_AUTHORITY_SNAPSHOT_MISMATCH'')) (\<lambda>_.
         bindE (raise_if (snapshotFingerprint s \<noteq> lease_snapshotFingerprint l
                           \<and> transition_nextState c \<notin> set revocation_states)
                  (Coordination_Error ''AUTHORITY_SNAPSHOT_DRIFT'')) (\<lambda>_.
         bindE (verify_lifecycle sha live s c) (\<lambda>_.
         bindE (if transition_nextState c = REVIEW_GO then
                  bindE (raise_if (transition_candidate c \<noteq> lease_candidate l)
                           (Coordination_Error ''CANDIDATE_IDENTITY_MISMATCH'')) (\<lambda>_.
                    validate_and_verify_review_set sha live s a l c)
                else Inr ()) (\<lambda>_. Inr (snapshotFingerprint s))))))) = (Inr fp :: string result)"
    using assms a clear by (simp add: authorize_transition_def)
  then obtain s where s: "lease_sourceRoot l = live_source live" "rebuild_transition_snapshot live identity a = Inr s"
    "transition_snapshotFingerprint c = snapshotFingerprint s" "fp = snapshotFingerprint s"
    "\<not> (snapshotFingerprint s \<noteq> lease_snapshotFingerprint l \<and> transition_nextState c \<notin> set revocation_states)"
    "verify_lifecycle sha live s c = Inr ()"
    and reviews: "(if transition_nextState c = REVIEW_GO then
                  bindE (raise_if (transition_candidate c \<noteq> lease_candidate l)
                           (Coordination_Error ''CANDIDATE_IDENTITY_MISMATCH'')) (\<lambda>_.
                    validate_and_verify_review_set sha live s a l c)
                else Inr ()) = (Inr () :: unit result)"
    by (elim raise_ifE bindE_InrE) simp
  show thesis
    by (rule that[OF clear a s(1-4) _ s(6)]) (use s(5) reviews in \<open>auto elim: raise_ifE\<close>)
qed

lemma commit_transition_receipt [simp]:
  "receipt_evidence_of (snd (commit_transition sha key j l c fp candidate)) = Transition_Evidence c"
  by (simp add: commit_transition_def Let_def transition_receipt_def)

lemma verify_lifecycle_signed:
  assumes "verify_lifecycle sha live s c = Inr ()"
  shows "signed_by sha live s ''lifecycle-controller'' ''agent-evolution-controlled-lifecycle-v1''
    (proof_signature (transition_proof c)) (lifecycle_signature_payload c)"
  using assms unfolding verify_lifecycle_def Let_def
  by (elim raise_ifE bindE_InrE) (rule signed_byI)

text \<open>C13: no lease moves without the lifecycle controller: a committed transition carries its signature,
  under the key the live authority snapshot records for it, over the lease, the token, both states
  and the candidate; and against a changed snapshot a lease can only be revoked.\<close>

theorem transition_is_signed:
  assumes "transition_step sha live identity j raw = Inr (Commit j' r)"
  shows "\<exists>c l s. receipt_evidence_of r = Transition_Evidence c \<and> normalize_transition_command sha raw = Inr c
    \<and> find_lease (transition_leaseId c) (leases j) = Some l
    \<and> lease_fencingToken l = transition_fencingToken c \<and> lease_state l = expectedState c
    \<and> transition_nextState c \<in> set (lease_successors (lease_state l))
    \<and> live_snapshot live = Some s
    \<and> (snapshotFingerprint s = lease_snapshotFingerprint l \<or> transition_nextState c \<in> {STALE, CANCELLED})
    \<and> signed_by sha live s ''lifecycle-controller'' ''agent-evolution-controlled-lifecycle-v1''
        (proof_signature (transition_proof c)) (lifecycle_signature_payload c)"
proof -
  obtain c l fp candidate where c: "normalize_transition_command sha raw = Inr c"
    and l: "find_lease (transition_leaseId c) (leases j) = Some l"
    and fp: "authorize_transition sha live identity j l c = Inr fp"
    and check: "check_transition live j l c = Inr candidate"
    and r: "r = snd (commit_transition sha (projectExecutionKey identity) j l c fp candidate)"
    using assms by (rule transition_step_Commit)
  obtain s a where token: "lease_fencingToken l = transition_fencingToken c"
    and s: "rebuild_transition_snapshot live identity a = Inr s"
    and drift: "snapshotFingerprint s = lease_snapshotFingerprint l \<or> transition_nextState c \<in> set revocation_states"
    and signed: "verify_lifecycle sha live s c = Inr ()"
    using fp by (rule authorize_transition_Inr)
  have "live_snapshot live = Some s"
    using s unfolding rebuild_transition_snapshot_def build_live_snapshot_def
    by (elim raise_ifE bindE_InrE) (auto split: option.splits)
  with c l token drift check_transition_Inr(4,5)[OF check] verify_lifecycle_signed[OF signed] r
  show ?thesis by (auto simp: revocation_states_def)
qed

text \<open>A review set that was verified.\<close>

lemma verify_review_Inr:
  assumes "verify_review sha live s l c required minimum v = Inr ()"
  shows "Some (review_candidate v) = lease_candidate l" "review_leaseId v = leaseId l"
    "review_fencingToken v = lease_fencingToken l" "review_snapshotFingerprint v = snapshotFingerprint s"
    "minimum = ''GO_ZERO_FINDINGS''"
    "signed_by sha live s (review_reviewerId v) ''agent-evolution-controlled-review-v1''
      (review_signature v) (review_signature_payload c v required minimum)"
proof -
  have "review_satisfies sha s l c minimum v"
    using assms unfolding verify_review_def by (elim raise_ifE) blast
  then show "Some (review_candidate v) = lease_candidate l" "review_leaseId v = leaseId l"
    "review_fencingToken v = lease_fencingToken l" "review_snapshotFingerprint v = snapshotFingerprint s"
    "minimum = ''GO_ZERO_FINDINGS''"
    by (auto simp: review_satisfies_def split: option.splits)
  show "signed_by sha live s (review_reviewerId v) ''agent-evolution-controlled-review-v1''
      (review_signature v) (review_signature_payload c v required minimum)"
    using assms unfolding verify_review_def by (elim raise_ifE bindE_InrE) (rule signed_byI)
qed

lemma acquired_review_policy_Inr:
  assumes "acquired_review_policy a l = Inr (required, minimum)"
  shows "required = plan_requiredReviewers (executionRequirements (acquire_plan a))" "required \<noteq> []"
  using assms by (auto simp: acquired_review_policy_def Let_def split: list.splits if_splits)

lemma validate_and_verify_review_set_Inr:
  assumes "validate_and_verify_review_set sha live s a l c = Inr ()"
  obtains minimum where
    "map review_role (reviewEvidenceSet c) = plan_requiredReviewers (executionRequirements (acquire_plan a))"
    "reviewEvidenceSet c \<noteq> []"
    "\<And>v. v \<in> set (reviewEvidenceSet c) \<Longrightarrow> verify_review sha live s l c
        (plan_requiredReviewers (executionRequirements (acquire_plan a))) minimum v = Inr ()"
proof -
  let ?vs = "reviewEvidenceSet c"
  obtain required minimum where policy: "acquired_review_policy a l = Inr (required, minimum)"
    using assms unfolding validate_and_verify_review_set_def Let_def by (elim bindE_InrE) (metis surj_pair)
  have roles: "map review_role ?vs = required"
    and each: "eachE (verify_review sha live s l c required minimum) ?vs = Inr ()"
    using assms unfolding validate_and_verify_review_set_def Let_def policy bindE_Inr prod.case
    by - (elim bindE_InrE raise_ifE, simp)+
  note required = acquired_review_policy_Inr[OF policy]
  show thesis
  proof (rule that)
    show "map review_role ?vs = plan_requiredReviewers (executionRequirements (acquire_plan a))"
      by (simp only: roles required(1))
    show "?vs \<noteq> []" using roles required(2) by auto
    show "verify_review sha live s l c (plan_requiredReviewers (executionRequirements (acquire_plan a)))
        minimum v = Inr ()" if "v \<in> set ?vs" for v
      using each that unfolding eachE_eq_Inr required(1) by blast
  qed
qed

text \<open>C7: a lease becomes REVIEW_GO only when every reviewer the acquired plan requires, and no one
  else, signed a review with zero findings of exactly the lease's fixed candidate, under its token
  and the current authority snapshot, with the key that snapshot records for the reviewer.\<close>

theorem review_go_is_verified:
  assumes "transition_step sha live identity j raw = Inr (Commit j' r)"
    and "receipt_evidence_of r = Transition_Evidence c" and "transition_nextState c = REVIEW_GO"
  shows "\<exists>l r' a s. find_lease (transition_leaseId c) (leases j) = Some l
    \<and> acquire_receipt_for j l = Some (r', a) \<and> live_snapshot live = Some s
    \<and> lease_candidate l \<noteq> None \<and> transition_candidate c = lease_candidate l
    \<and> reviewEvidenceSet c \<noteq> []
    \<and> map review_role (reviewEvidenceSet c) = plan_requiredReviewers (executionRequirements (acquire_plan a))
    \<and> (\<forall>v\<in>set (reviewEvidenceSet c).
          Some (review_candidate v) = lease_candidate l \<and> review_leaseId v = leaseId l
          \<and> review_fencingToken v = lease_fencingToken l
          \<and> review_snapshotFingerprint v = snapshotFingerprint s
          \<and> signed_by sha live s (review_reviewerId v) ''agent-evolution-controlled-review-v1'' (review_signature v)
              (review_signature_payload c v (plan_requiredReviewers (executionRequirements (acquire_plan a)))
                ''GO_ZERO_FINDINGS''))"
proof -
  obtain l fp candidate where l: "find_lease (transition_leaseId c) (leases j) = Some l"
    and fp: "authorize_transition sha live identity j l c = Inr fp"
    using assms(1) by (rule transition_step_Commit) (use assms(2) in simp)
  obtain r' a s where a: "acquire_receipt_for j l = Some (r', a)"
    and s: "rebuild_transition_snapshot live identity a = Inr s"
    and candidate: "transition_candidate c = lease_candidate l"
    and reviews: "validate_and_verify_review_set sha live s a l c = Inr ()"
    using fp by (rule authorize_transition_Inr) (use assms(3) in blast)
  let ?required = "plan_requiredReviewers (executionRequirements (acquire_plan a))"
  obtain minimum where roles: "map review_role (reviewEvidenceSet c) = ?required"
    and some: "reviewEvidenceSet c \<noteq> []"
    and each: "\<And>v. v \<in> set (reviewEvidenceSet c) \<Longrightarrow> verify_review sha live s l c ?required minimum v = Inr ()"
    using reviews by (rule validate_and_verify_review_set_Inr) blast
  have "live_snapshot live = Some s"
    using s unfolding rebuild_transition_snapshot_def build_live_snapshot_def
    by (elim raise_ifE bindE_InrE) (auto split: option.splits)
  moreover have "lease_candidate l \<noteq> None"
    using verify_review_Inr(1)[OF each[OF list.set_sel(1)[OF some]]] by (metis option.distinct(1))
  moreover have "signed_by sha live s (review_reviewerId v) ''agent-evolution-controlled-review-v1''
      (review_signature v) (review_signature_payload c v ?required ''GO_ZERO_FINDINGS'')"
    if "v \<in> set (reviewEvidenceSet c)" for v
    using verify_review_Inr(5,6)[OF each[OF that]] by simp
  moreover note verify_review_Inr(1-4)[OF each]
  ultimately show ?thesis using l a candidate roles some by blast
qed

section \<open>Reviewed lanes\<close>

definition review_receipt_for :: "lease \<Rightarrow> receipt \<Rightarrow> bool" where
  "review_receipt_for l r =
     (case transition_command_in (receipt_evidence_of r) of
        None \<Rightarrow> False
      | Some c \<Rightarrow> transition_leaseId c = leaseId l \<and> transition_nextState c = REVIEW_GO
                 \<and> transition_candidate c = lease_candidate l \<and> reviewEvidenceSet c \<noteq> []
                 \<and> (\<forall>v\<in>set (reviewEvidenceSet c). Some (review_candidate v) = lease_candidate l))"

abbreviation beyond_review :: "slice_state set" where
  "beyond_review \<equiv> {REVIEW_GO, QUEUED_FOR_INTEGRATION, INTEGRATING, CLOSED}"

definition reviewed :: "journal \<Rightarrow> bool" where
  "reviewed j = (\<forall>l\<in>set (leases j). lease_state l \<in> beyond_review \<longrightarrow>
     (\<exists>r\<in>set (receipts j). review_receipt_for l r))"

lemma review_receipt_for_cong:
  "leaseId l' = leaseId l \<Longrightarrow> lease_candidate l' = lease_candidate l \<Longrightarrow>
    review_receipt_for l' r = review_receipt_for l r"
  by (simp add: review_receipt_for_def split: option.split)

lemma successor_beyond:
  "t \<in> set (lease_successors s) \<Longrightarrow> t \<in> beyond_review \<Longrightarrow> t = REVIEW_GO \<or> s \<in> beyond_review"
  by (cases s) auto

text \<open>A lease that was beyond its review, or stays in its state, keeps its review.\<close>

lemma reviewed_follows:
  assumes "reviewed j" "lane_step (leases j) (leases j')" "set (receipts j) \<subseteq> set (receipts j')"
    and "\<And>l l'. l \<in> set (leases j) \<Longrightarrow> l' \<in> set (leases j') \<Longrightarrow> follows l l' \<Longrightarrow>
      lease_state l' = REVIEW_GO \<Longrightarrow> lease_state l \<noteq> REVIEW_GO \<Longrightarrow> \<exists>r\<in>set (receipts j'). review_receipt_for l' r"
  shows "reviewed j'"
proof -
  have "\<exists>r\<in>set (receipts j'). review_receipt_for l' r"
    if l': "l' \<in> set (leases j')" "lease_state l' \<in> beyond_review"
      and l: "l \<in> set (leases j)" "follows l l'" for l l'
  proof (cases "lease_state l' = REVIEW_GO \<and> lease_state l \<noteq> REVIEW_GO")
    case True
    then show ?thesis using assms(4)[OF l(1) l'(1) l(2)] by blast
  next
    case False
    have before: "lease_state l \<in> beyond_review"
      using follows_parts(2)[OF l(2)] l'(2) False successor_beyond by fastforce
    have "lease_candidate l' = lease_candidate l"
      using follows_parts(4)[OF l(2)] l'(2) by auto
    moreover obtain r where "r \<in> set (receipts j)" "review_receipt_for l r"
      using assms(1) l(1) before by (auto simp: reviewed_def)
    ultimately show ?thesis
      using assms(3) review_receipt_for_cong follows_fields(1)[OF l(2)] by blast
  qed
  note kept = this
  show ?thesis
    using assms(2)
  proof (cases rule: lane_step.cases)
    case (add_lane n)
    then have "lease_state n = ADMITTED" by (simp add: admissible_def)
    with add_lane(1) kept follows_refl show ?thesis by (auto simp: reviewed_def)
  next
    case follow_lanes
    then show ?thesis using kept unfolding reviewed_def by (blast elim: follows_member)
  qed
qed

lemma review_evidence_present:
  assumes "normalize_transition_command sha raw = Inr c" "transition_nextState c = REVIEW_GO"
  shows "reviewEvidenceSet c \<noteq> []"
    "\<forall>v\<in>set (reviewEvidenceSet c). Some (review_candidate v) = transition_candidate c"
proof -
  have "validate_review_evidence sha c = Inr ()"
    using assms(1) unfolding normalize_transition_command_def by (elim raise_ifE bindE_InrE) simp
  then show "reviewEvidenceSet c \<noteq> []"
    "\<forall>v\<in>set (reviewEvidenceSet c). Some (review_candidate v) = transition_candidate c"
    using assms(2) by (simp_all add: validate_review_evidence_def Let_def result_simps review_binds_def)
qed

text \<open>A transition to \<open>REVIEW_GO\<close> records the review of the lease it moves.\<close>

lemma transition_review_receipt:
  assumes c: "normalize_transition_command sha raw = Inr c"
    and m: "find_lease (transition_leaseId c) (leases j) = Some m"
    and check: "check_transition live j m c = Inr candidate"
    and j': "j' = fst (commit_transition sha key j m c fp candidate)"
    and l': "l' = transitioned c candidate l" "leaseId l = leaseId m" "lease_state l' = REVIEW_GO"
  shows "\<exists>r\<in>set (receipts j'). review_receipt_for l' r"
proof -
  note check = check_transition_Inr[OF check]
  from l' have t: "transition_nextState c = REVIEW_GO" "lease_candidate l' = candidate" "leaseId l' = leaseId m"
    by (simp_all add: transitioned_def)
  have "candidate = transition_candidate c"
    using check(6,7) t by (auto simp: next_candidate_def candidate_states_def split: option.splits if_splits)
  moreover obtain r where "receipts j' = receipts j @ [r]" "receipt_evidence_of r = Transition_Evidence c"
    using commit_receipt(2) j' by blast
  ultimately show ?thesis
    using review_evidence_present[OF c t(1)] t find_lease_Some(2)[OF m] by (simp add: review_receipt_for_def)
qed

text \<open>A recovery leaves no lease it touches in \<open>REVIEW_GO\<close>.\<close>

lemma recovered_not_reviewed:
  assumes "normalize_recovery_command sha raw = Inr c" "check_recovery_command j c e = Inr ()"
    "set (evidence_revoked e) \<subseteq> set (map decided_leaseId (affectedLeaseDecisions c))"
    "leaseId l \<in> set (evidence_revoked e)"
  shows "lease_state (recovered c l) \<noteq> REVIEW_GO"
proof -
  obtain s where "map_of (decisions_by_id (affectedLeaseDecisions c)) (leaseId l) = Some s"
    "lease_state (recovered c l) = s"
    using assms(2-4) by (rule recovered_lookup)
  with decided_states[OF normalize_recovery_decisions[OF assms(1)]] show ?thesis by fastforce
qed

lemma coordinator_step_reviewed:
  assumes ok: "journal_ok key j" and step: "coordinator_step sha key j j'" and "reviewed j"
  shows "reviewed j'"
proof (rule reviewed_follows[OF assms(3) coordinator_step_lanes[OF ok step]])
  show "set (receipts j) \<subseteq> set (receipts j')"
    using coordinator_step_appends[OF step] by (auto simp: appends_def)
  fix l l' assume l: "l \<in> set (leases j)" and l': "l' \<in> set (leases j')" and f: "follows l l'"
    and go: "lease_state l' = REVIEW_GO" and new: "lease_state l \<noteq> REVIEW_GO"
  have ids: "distinct (map leaseId (leases j))" using ok by (simp add: journal_ok_def lanes_ok_def)
  have unique: "m = l" if "m \<in> set (leases j)" "leaseId m = leaseId l'" for m
    using that l ids follows_fields(1)[OF f] by (auto simp: distinct_map dest: inj_onD)
  from step show "\<exists>r\<in>set (receipts j'). review_receipt_for l' r"
  proof (cases rule: coordinator_step.cases)
    case (acquired identity live raw r)
    then obtain c lane graph where "j' = fst (commit_acquisition sha key j c lane graph)"
      by (auto elim: acquire_step_Commit)
    with l' go have "l' \<in> set (leases j)" by (auto simp: commit_fields new_lease_def)
    with unique go new show ?thesis by blast
  next
    case (transitioned identity live raw r)
    obtain c m fp candidate where c: "normalize_transition_command sha raw = Inr c"
      and m: "find_lease (transition_leaseId c) (leases j) = Some m"
      and check: "check_transition live j m c = Inr candidate"
      and j': "j' = fst (commit_transition sha key j m c fp candidate)"
      using transitioned(1,2) by (auto elim: transition_step_Commit)
    obtain k where k: "k \<in> set (leases j)"
      "l' = (if leaseId k = leaseId m then Coordinator.transitioned c candidate k else k)"
      using l' by (auto simp: j' commit_fields update_lease_def)
    then have "k = l" using unique[OF k(1)] by (simp add: Coordinator.transitioned_def)
    with k go new have "l' = Coordinator.transitioned c candidate l" "leaseId l = leaseId m"
      by (auto split: if_splits)
    then show ?thesis using go by (rule transition_review_receipt[OF c m check j'])
  next
    case (observed raw c r)
    then obtain m paths ds where j': "j' = fst (commit_quarantine sha j m c paths ds)"
      by (auto elim!: quarantine_step_Commit)
    then obtain k where "k \<in> set (leases j)" "l' = quarantined k" using l' by (auto simp: commit_fields)
    with unique[of k] go new show ?thesis by (auto simp: quarantined_def split: if_splits)
  next
    case (recovered identity raw c live r)
    then obtain e fp where c: "normalize_recovery_command sha raw = Inr c"
      "check_recovery_command j c e = Inr ()"
      "set (evidence_revoked e) \<subseteq> set (map decided_leaseId (affectedLeaseDecisions c))"
      and j': "j' = fst (commit_recovery sha j c e fp)" by (auto elim: recovery_step_Commit)
    obtain k where k: "k \<in> set (leases j)"
      "l' = (if leaseId k \<in> set (evidence_revoked e) then Coordinator_Recovery.recovered c k else k)"
      using l' by (auto simp: j' commit_fields)
    then have "k = l" using unique[OF k(1)] by simp
    with k go new recovered_not_reviewed[OF c, of l] show ?thesis by (auto split: if_splits)
  qed
qed

text \<open>C25: no lane is queued, integrated or closed without its review: the receipts hold a REVIEW_GO
  transition of that lease, with a nonempty review set that names exactly the candidate the lease
  has now.\<close>

theorem integrated_lanes_reviewed:
  assumes "coordinated sha key j" "l \<in> set (leases j)"
    "lease_state l \<in> {REVIEW_GO, QUEUED_FOR_INTEGRATION, INTEGRATING, CLOSED}"
  shows "\<exists>r\<in>set (receipts j). \<exists>c. receipt_evidence_of r = Transition_Evidence c
    \<and> transition_leaseId c = leaseId l \<and> transition_nextState c = REVIEW_GO
    \<and> transition_candidate c = lease_candidate l \<and> reviewEvidenceSet c \<noteq> []
    \<and> (\<forall>v\<in>set (reviewEvidenceSet c). Some (review_candidate v) = lease_candidate l)"
proof -
  have command: "receipt_evidence_of r = Transition_Evidence c"
    if "transition_command_in (receipt_evidence_of r) = Some c" for r c
    using that by (cases "receipt_evidence_of r") simp_all
  from assms(1) have "reviewed j"
  proof (induction rule: coordinated.induct)
    case (step j j')
    then show ?case using coordinator_step_reviewed coordinated_ok by blast
  qed (simp add: reviewed_def empty_journal_def)
  with assms(2,3) obtain r where "r \<in> set (receipts j)" "review_receipt_for l r"
    by (auto simp: reviewed_def)
  with command show ?thesis by (auto simp: review_receipt_for_def split: option.splits)
qed

end
