(* ===== verification/Coordinator_Index.thy ===== *)
theory Coordinator_Index
  imports Coordinator_Signatures
begin

text \<open>
  What the integrity check of a journal computes: the loop over the receipts is replaced by the
  receipts it accepts and the index of acquisition commands, observations and recoveries it
  builds. The decisions of a quarantine are then the ones the check recomputes.
\<close>

section \<open>The loop over the receipts\<close>

definition evidence_bound :: "(string \<Rightarrow> string) \<Rightarrow> lease list \<Rightarrow> receipt \<Rightarrow> bool" where
  "evidence_bound sha ls r =
     (case receipt_evidence_of r of
        Acquire_Evidence c \<Rightarrow>
          (\<exists>l. filter (\<lambda>l. lease_key l = acquisition_key c) ls = [l]
               \<and> lease_fencingToken l = receipt_fencingToken r \<and> preserves_command sha l c)
      | Transition_Evidence c \<Rightarrow>
          (\<exists>l. filter (\<lambda>l. leaseId l = transition_leaseId c \<and> lease_attemptId l = transition_attemptId c) ls = [l]
               \<and> lease_fencingToken l = receipt_fencingToken r)
          \<and> transition_fencingToken c = receipt_fencingToken r
          \<and> receipt_previousState r = Some (expectedState c)
          \<and> receipt_nextState r = Some (transition_nextState c)
          \<and> receipt_snapshotFingerprint r = transition_snapshotFingerprint c
      | _ \<Rightarrow> True)"

definition receipt_sound :: "(string \<Rightarrow> string) \<Rightarrow> string \<Rightarrow> lease list \<Rightarrow> int \<times> receipt \<Rightarrow> bool" where
  "receipt_sound sha key ls ir =
     (let i = fst ir; r = snd ir; evidence = receipt_evidence_of r in
      receipt_executionKey r = key \<and> previousJournalVersion r = i - 1 \<and> nextJournalVersion r = i
      \<and> (receipt_type_of evidence = RECOVERY \<longrightarrow> receiptId r = expected_receipt_id sha r)
      \<and> receipt_commandDigest r = evidence_command_digest evidence
      \<and> evidence_command_digest evidence = sha256_json sha (JObj (evidence_command_payload evidence))
      \<and> evidence_bound sha ls r)"

definition index_add :: "lease list \<Rightarrow> receipt \<Rightarrow> receipt_index \<Rightarrow> receipt_index" where
  "index_add ls r st =
     (case receipt_evidence_of r of
        Acquire_Evidence c \<Rightarrow>
          (let l = hd (filter (\<lambda>l. lease_key l = acquisition_key c) ls) in
           st\<lparr>acquire_counts := AList.update (leaseId l)
                (Suc (the (map_of (acquire_counts st) (leaseId l)))) (acquire_counts st),
              acquire_commands := AList.update (leaseId l) c (acquire_commands st)\<rparr>)
      | Transition_Evidence c \<Rightarrow> st
      | Quarantine_Evidence _ _ _ _ \<Rightarrow> st\<lparr>observation_receipts := observation_receipts st @ [r]\<rparr>
      | Recovery_Evidence _ _ _ _ \<Rightarrow> st\<lparr>recovery_receipts := recovery_receipts st @ [r]\<rparr>)"

lemma sole_lease_eq_Inr:
  "sole_lease r ls = Inr l \<longleftrightarrow> ls = [l] \<and> lease_fencingToken l = receipt_fencingToken r"
  by (auto simp: sole_lease_def split: list.splits if_splits)

lemma index_receipt_eq_Inr:
  "index_receipt sha ls r st = Inr st' \<longleftrightarrow> evidence_bound sha ls r \<and> st' = index_add ls r st"
proof (cases "receipt_evidence_of r")
  case (Acquire_Evidence c)
  show ?thesis
    unfolding index_receipt_def evidence_bound_def index_add_def Acquire_Evidence receipt_evidence.case
      Let_def result_simps sole_lease_eq_Inr by (auto simp: Let_def)
next
  case (Transition_Evidence c)
  show ?thesis
    unfolding index_receipt_def evidence_bound_def index_add_def Transition_Evidence receipt_evidence.case
      result_simps sole_lease_eq_Inr by auto
qed (auto simp: index_receipt_def evidence_bound_def index_add_def)

lemma check_receipt_eq_Inr:
  "check_receipt sha j ir st = Inr st' \<longleftrightarrow>
     receipt_sound sha (journal_executionKey j) (leases j) ir \<and> st' = index_add (leases j) (snd ir) st"
  unfolding check_receipt_def receipt_sound_def Let_def result_simps index_receipt_eq_Inr by auto

lemma foldE_check_receipt:
  "foldE (check_receipt sha j) irs st = Inr st' \<longleftrightarrow>
     list_all (receipt_sound sha (journal_executionKey j) (leases j)) irs
     \<and> st' = fold (index_add (leases j)) (map snd irs) st"
  by (induction irs arbitrary: st) (auto simp: result_simps check_receipt_eq_Inr)

lemma numbered_snoc: "numbered (xs @ [x]) = numbered xs @ [(int (length xs) + 1, x)]"
  by (simp add: numbered_def)

lemma map_snd_numbered [simp]: "map snd (numbered xs) = xs"
  by (simp add: numbered_def)

lemma sound_evidence:
  assumes "list_all (receipt_sound sha key ls) (numbered rs)" "r \<in> set rs"
  shows "evidence_bound sha ls r"
proof -
  from assms(2) obtain i where "(i, r) \<in> set (numbered rs)"
    by (metis imageE map_snd_numbered set_map prod.collapse)
  with assms(1) have "receipt_sound sha key ls (i, r)" unfolding list_all_iff by blast
  then show ?thesis by (simp add: receipt_sound_def Let_def)
qed

section \<open>The index the loop builds\<close>

definition acquisitions :: "lease \<Rightarrow> receipt list \<Rightarrow> acquire_command list" where
  "acquisitions l rs =
     filter (\<lambda>c. acquisition_key c = lease_key l)
       (List.map_filter (\<lambda>r. acquire_command_in (receipt_evidence_of r)) rs)"

definition is_recovery :: "receipt \<Rightarrow> bool" where
  "is_recovery r = (receipt_type_of (receipt_evidence_of r) = RECOVERY)"

definition indexes :: "lease list \<Rightarrow> receipt list \<Rightarrow> receipt_index \<Rightarrow> bool" where
  "indexes ls rs idx =
     (fst ` set (acquire_counts idx) = leaseId ` set ls
      \<and> distinct (map fst (acquire_counts idx))
      \<and> (\<forall>l\<in>set ls. map_of (acquire_counts idx) (leaseId l) = Some (length (acquisitions l rs)))
      \<and> (\<forall>l\<in>set ls. map_of (acquire_commands idx) (leaseId l) =
            (if acquisitions l rs = [] then None else Some (last (acquisitions l rs))))
      \<and> observation_receipts idx = filter is_observation rs
      \<and> recovery_receipts idx = filter is_recovery rs)"

lemma map_filter_snoc:
  "List.map_filter f (xs @ [x]) = List.map_filter f xs @ (case f x of None \<Rightarrow> [] | Some y \<Rightarrow> [y])"
  by (simp add: List.map_filter_def split: option.split)

lemma acquisitions_snoc:
  "acquisitions l (rs @ [r]) =
     acquisitions l rs @
       (case acquire_command_in (receipt_evidence_of r) of
          Some c \<Rightarrow> if acquisition_key c = lease_key l then [c] else []
        | None \<Rightarrow> [])"
  by (simp add: acquisitions_def map_filter_snoc split: option.split)

lemma filter_single:
  assumes "filter P xs = [x]"
  shows "x \<in> set xs" "P x"
proof -
  have "x \<in> set (filter P xs)" by (simp add: assms)
  then show "x \<in> set xs" "P x" by simp_all
qed

lemma filter_key:
  assumes "distinct (map lease_key ls)" "l \<in> set ls"
  shows "filter (\<lambda>m. lease_key m = lease_key l) ls = [l]"
  using assms by (induction ls) (auto simp: filter_empty_conv image_iff)

lemma indexes_snoc:
  assumes ids: "distinct (map leaseId ls)" and keys: "distinct (map lease_key ls)"
    and idx: "indexes ls rs idx" and bound: "evidence_bound sha ls r"
  shows "indexes ls (rs @ [r]) (index_add ls r idx)"
proof (cases "receipt_evidence_of r")
  case (Acquire_Evidence c)
  obtain l where l: "filter (\<lambda>l. lease_key l = acquisition_key c) ls = [l]"
    using bound unfolding evidence_bound_def Acquire_Evidence by auto
  note mem = filter_single[OF l]
  have other: "(acquisition_key c = lease_key m) = (m = l)" "(leaseId m = leaseId l) = (m = l)"
    if "m \<in> set ls" for m
    using that mem ids keys by (auto simp: distinct_map dest: inj_onD)
  have add: "index_add ls r idx =
      idx\<lparr>acquire_counts := AList.update (leaseId l)
            (Suc (the (map_of (acquire_counts idx) (leaseId l)))) (acquire_counts idx),
          acquire_commands := AList.update (leaseId l) c (acquire_commands idx)\<rparr>"
    by (simp add: index_add_def Acquire_Evidence l)
  have kept: "filter is_observation (rs @ [r]) = filter is_observation rs"
    "filter is_recovery (rs @ [r]) = filter is_recovery rs"
    by (simp_all add: is_observation_def is_recovery_def Acquire_Evidence)
  have acq: "acquisitions m (rs @ [r]) = acquisitions m rs @ (if m = l then [c] else [])"
    if "m \<in> set ls" for m
    using other(1)[OF that] by (simp add: acquisitions_snoc Acquire_Evidence)
  have count: "map_of (acquire_counts idx) (leaseId l) = Some (length (acquisitions l rs))"
    using idx mem(1) by (simp add: indexes_def)
  show ?thesis
    using idx mem unfolding indexes_def add kept
    by (auto simp: acq other map_of_update AList.dom_update AList.distinct_update count simp del: map_of_eq_Some_iff)
qed (use idx in \<open>simp_all add: indexes_def index_add_def acquisitions_snoc is_observation_def is_recovery_def\<close>)

lemma indexes_empty:
  assumes "distinct (map leaseId ls)"
  shows "indexes ls [] (empty_index ls)"
  using assms by (simp add: indexes_def empty_index_def dict_of_key_distinct map_of_map_key image_image
      acquisitions_def map_filter_simps comp_def)

lemma indexes_fold:
  assumes "distinct (map leaseId ls)" "distinct (map lease_key ls)"
    and "\<forall>r\<in>set rs. evidence_bound sha ls r"
  shows "indexes ls rs (fold (index_add ls) rs (empty_index ls))"
  using assms(3) by (induction rs rule: rev_induct) (auto simp: indexes_empty assms(1) intro: indexes_snoc[OF assms(1,2)])

lemma indexes_counts:
  assumes "indexes ls rs idx"
  shows "(\<exists>kv\<in>set (acquire_counts idx). P (snd kv)) \<longleftrightarrow> (\<exists>l\<in>set ls. P (length (acquisitions l rs)))"
proof
  assume "\<exists>kv\<in>set (acquire_counts idx). P (snd kv)"
  then obtain i n where kv: "(i, n) \<in> set (acquire_counts idx)" "P n" by auto
  then have "i \<in> fst ` set (acquire_counts idx)" by force
  with assms have "i \<in> leaseId ` set ls" by (simp add: indexes_def)
  then obtain l where l: "l \<in> set ls" "leaseId l = i" by blast
  from assms kv(1) have "map_of (acquire_counts idx) i = Some n" by (simp add: indexes_def)
  with assms l have "n = length (acquisitions l rs)" by (auto simp: indexes_def)
  with kv(2) l(1) show "\<exists>l\<in>set ls. P (length (acquisitions l rs))" by blast
next
  assume "\<exists>l\<in>set ls. P (length (acquisitions l rs))"
  then obtain l where "l \<in> set ls" "P (length (acquisitions l rs))" by blast
  with assms have "(leaseId l, length (acquisitions l rs)) \<in> set (acquire_counts idx)"
    unfolding indexes_def by (meson map_of_SomeD)
  with \<open>P (length (acquisitions l rs))\<close> show "\<exists>kv\<in>set (acquire_counts idx). P (snd kv)" by force
qed

text \<open>What the checked index says: each lease has exactly one acquisition command.\<close>

definition index_of :: "journal \<Rightarrow> receipt_index" where
  "index_of j = fold (index_add (leases j)) (receipts j) (empty_index (leases j))"

definition commands_of :: "journal \<Rightarrow> (string, acquire_command) dict" where
  "commands_of j = acquire_commands (index_of j)"

lemma integrity_iff:
  "validate_journal_integrity sha host j persisted = Inr () \<longleftrightarrow>
     validate_leases j persisted = Inr ()
     \<and> list_all (receipt_sound sha (journal_executionKey j) (leases j)) (numbered (receipts j))
     \<and> (\<forall>l\<in>set (leases j). length (acquisitions l (receipts j)) = 1)
     \<and> validate_recovery_integrity sha host j (commands_of j)
         (filter is_observation (receipts j)) (filter is_recovery (receipts j)) = Inr ()
     \<and> validate_tokens sha j = Inr ()"
proof (cases "validate_leases j persisted = Inr ()
    \<and> list_all (receipt_sound sha (journal_executionKey j) (leases j)) (numbered (receipts j))")
  case True
  then have ids: "distinct (map leaseId (leases j))" "distinct (map lease_key (leases j))"
    using validate_leases_Inr by blast+
  have "evidence_bound sha (leases j) r" if "r \<in> set (receipts j)" for r
    using True that sound_evidence by blast
  then have idx: "indexes (leases j) (receipts j) (index_of j)"
    unfolding index_of_def by (intro indexes_fold[OF ids]) blast
  have "list_ex (\<lambda>kv. snd kv \<noteq> 1) (acquire_counts (index_of j)) \<longleftrightarrow>
      (\<exists>l\<in>set (leases j). length (acquisitions l (receipts j)) \<noteq> 1)"
    using indexes_counts[OF idx] by (simp add: list_ex_iff)
  with True idx show ?thesis
    unfolding validate_journal_integrity_def foldE_check_receipt result_simps map_snd_numbered
      index_of_def[symmetric] commands_of_def indexes_def by auto
next
  case False
  then show ?thesis unfolding validate_journal_integrity_def
    by (auto simp: result_simps foldE_check_receipt)
qed

lemma leases_by_id_lookup:
  assumes "distinct (map leaseId ls)"
  shows "map_of (leases_by_id ls) i = find_lease i ls"
proof (cases "find_lease i ls")
  case None
  then have "i \<notin> leaseId ` set ls" by (auto simp: find_lease_def find_None_iff)
  with None show ?thesis
    by (simp add: leases_by_id_def dict_of_key_distinct[OF assms] map_of_eq_None_iff image_image)
next
  case (Some l)
  with find_lease_Some[OF Some] map_of_map_key[OF assms, of l "\<lambda>l. l"] show ?thesis
    by (simp add: leases_by_id_def dict_of_key_distinct[OF assms])
qed

lemma find_lease_member:
  assumes "distinct (map leaseId ls)" "l \<in> set ls"
  shows "find_lease (leaseId l) ls = Some l"
proof (cases "find_lease (leaseId l) ls")
  case (Some m)
  with find_lease_Some[OF Some] assms show ?thesis by (auto simp: distinct_map dest: inj_onD)
qed (use assms(2) in \<open>auto simp: find_lease_def find_None_iff\<close>)

text \<open>The one acquisition command of a lease, wherever the code looks for it.\<close>

lemma acquisition_lookup:
  assumes "validate_journal_integrity sha host j persisted = Inr ()" "l \<in> set (leases j)"
  obtains c where "acquisitions l (receipts j) = [c]" "map_of (commands_of j) (leaseId l) = Some c"
    "acquire_command_for j l = Inr c" "preserves_command sha l c"
proof -
  from assms(1) have ls: "validate_leases j persisted = Inr ()"
    and sound: "list_all (receipt_sound sha (journal_executionKey j) (leases j)) (numbered (receipts j))"
    and one: "length (acquisitions l (receipts j)) = 1" using assms(2) by (simp_all add: integrity_iff)
  from one obtain c where c: "acquisitions l (receipts j) = [c]" by (auto simp: length_Suc_conv)
  from sound have bound: "evidence_bound sha (leases j) r" if "r \<in> set (receipts j)" for r
    using that sound_evidence by blast
  have "indexes (leases j) (receipts j) (index_of j)"
    unfolding index_of_def using bound by (intro indexes_fold[OF validate_leases_Inr(2,3)[OF ls]]) blast
  then have command: "map_of (commands_of j) (leaseId l) = Some c"
    using assms(2) c by (simp add: indexes_def commands_of_def)
  have "c \<in> set (acquisitions l (receipts j))" by (simp add: c)
  then obtain r where r: "r \<in> set (receipts j)" "acquire_command_in (receipt_evidence_of r) = Some c"
    and key: "acquisition_key c = lease_key l"
    by (auto simp: acquisitions_def List.map_filter_def)
  from r(2) have "receipt_evidence_of r = Acquire_Evidence c" by (cases "receipt_evidence_of r") simp_all
  with bound[OF r(1)] obtain m where m: "filter (\<lambda>m. lease_key m = lease_key l) (leases j) = [m]"
    "preserves_command sha m c" by (auto simp: evidence_bound_def key)
  with filter_key[OF validate_leases_Inr(3)[OF ls] assms(2)] have "preserves_command sha l c" by simp
  then show thesis using c command by (intro that[of c]) (simp_all add: acquire_command_for_def acquisitions_def)
qed

section \<open>The decisions of a breach\<close>

text \<open>What the breach decides for one lease, with the lease's acquisition command.\<close>

definition decision_for :: "journal \<Rightarrow> string list \<Rightarrow> lease \<Rightarrow> lease_decision" where
  "decision_for j paths l = decide_lease (the (map_of (commands_of j) (leaseId l))) paths l"

lemma decision_for_leaseId [simp]: "decided_leaseId (decision_for j paths l) = leaseId l"
  by (simp add: decision_for_def decide_lease_def Let_def)

lemma integrity_ids:
  assumes "validate_journal_integrity sha host j persisted = Inr ()"
  shows "distinct (map leaseId (leases j))"
proof -
  from assms have "validate_leases j persisted = Inr ()" by (simp add: integrity_iff)
  then show ?thesis by (rule validate_leases_Inr)
qed

lemma affected_decisions_eq:
  assumes "validate_journal_integrity sha host j persisted = Inr ()"
  shows "affected_decisions j paths = Inr (sort_key decided_leaseId (map (decision_for j paths) (recoverable_leases j)))"
proof -
  have "mapE (\<lambda>l. bindE (acquire_command_for j l) (\<lambda>c. Inr (decide_lease c paths l))) (recoverable_leases j)
      = Inr (map (decision_for j paths) (recoverable_leases j))"
  proof (rule mapE_Inr_map)
    fix l assume "l \<in> set (recoverable_leases j)"
    then have "l \<in> set (leases j)" by (simp add: recoverable_leases_def)
    with assms obtain c where "map_of (commands_of j) (leaseId l) = Some c" "acquire_command_for j l = Inr c"
      by (rule acquisition_lookup)
    then show "bindE (acquire_command_for j l) (\<lambda>c. Inr (decide_lease c paths l)) = Inr (decision_for j paths l)"
      by (simp add: decision_for_def)
  qed
  then show ?thesis by (simp add: affected_decisions_def)
qed

text \<open>The check takes the leases in the order of their identities; the sorted decisions are the same.\<close>

lemma expected_decisions_eq:
  assumes integrity: "validate_journal_integrity sha host j persisted = Inr ()"
    and revoked: "mset is = mset (map leaseId ls)" and ls: "set ls \<subseteq> set (leases j)" "distinct (map leaseId ls)"
  shows "expected_recovery_decisions (leases j) (commands_of j) is paths
    = Inr (sort_key decided_leaseId (map (decision_for j paths) ls))"
proof -
  note ids = integrity_ids[OF integrity]
  let ?e = "\<lambda>i. decision_for j paths (the (find_lease i (leases j)))"
  have e: "?e (leaseId l) = decision_for j paths l" if "l \<in> set ls" for l
    using find_lease_member[OF ids] ls(1) that by (simp add: subset_iff)
  have "mapE (\<lambda>i. case (map_of (leases_by_id (leases j)) i, map_of (commands_of j) i) of
      (Some l, Some c) \<Rightarrow> Inr (decide_lease c paths l) | _ \<Rightarrow> Inl corrupt) is = Inr (map ?e is)"
  proof (rule mapE_Inr_map)
    fix i assume "i \<in> set is"
    then have "i \<in> set (map leaseId ls)" using revoked by (metis set_mset_mset)
    then obtain l where l: "l \<in> set ls" "i = leaseId l" by auto
    with ls(1) have mem: "l \<in> set (leases j)" by blast
    with integrity obtain c where "map_of (commands_of j) (leaseId l) = Some c" by (rule acquisition_lookup)
    then show "(case (map_of (leases_by_id (leases j)) i, map_of (commands_of j) i) of
      (Some l, Some c) \<Rightarrow> Inr (decide_lease c paths l) | _ \<Rightarrow> Inl corrupt) = Inr (?e i)"
      by (simp add: l(2) leases_by_id_lookup[OF ids] find_lease_member[OF ids mem] decision_for_def)
  qed
  moreover have "mset (map ?e is) = mset (map ?e (map leaseId ls))" using revoked by (metis mset_map)
  then have "mset (map ?e is) = mset (map (decision_for j paths) ls)"
    using e by (simp add: comp_def cong: map_cong)
  then have "sort_key decided_leaseId (map ?e is) = sort_key decided_leaseId (map (decision_for j paths) ls)"
    using sort_key_permutation[of "map (decision_for j paths) ls" "map ?e is" decided_leaseId] ls(2)
    by (simp add: comp_def)
  ultimately show ?thesis by (simp add: expected_recovery_decisions_def)
qed

text \<open>The decisions a quarantine records are the ones the integrity check recomputes from the receipts
  of the journal: for any observed paths, both derivations of the revoked leases' decisions agree,
  and neither fails.\<close>

theorem quarantine_decisions_recomputed:
  assumes "validate_journal_integrity sha host j persisted = Inr ()"
  shows "expected_recovery_decisions (leases j) (commands_of j)
      (sort (map leaseId (recoverable_leases j))) paths = affected_decisions j paths
    \<and> (\<exists>ds. affected_decisions j paths = Inr ds
         \<and> set (map decided_leaseId ds) = leaseId ` set (recoverable_leases j))"
proof -
  have "distinct (map leaseId (recoverable_leases j))"
    unfolding recoverable_leases_def using integrity_ids[OF assms] by (rule distinct_map_filter)
  then have "expected_recovery_decisions (leases j) (commands_of j)
      (sort (map leaseId (recoverable_leases j))) paths = affected_decisions j paths"
    unfolding affected_decisions_eq[OF assms]
    by (intro expected_decisions_eq[OF assms]) (auto simp: recoverable_leases_def)
  then show ?thesis by (simp add: affected_decisions_eq[OF assms] image_image)
qed

end
