(* ===== verification/Coordinator_Complete.thy ===== *)
theory Coordinator_Complete
  imports Coordinator_Index
begin

text \<open>
  The coordinator never proposes a journal that its own integrity check refuses: what a command
  commits on an accepted journal passes every check again. The parts of the check are taken one
  by one: leases and lanes, the receipts and their commands, the recovery cycles, the tokens.
\<close>

section \<open>Leases and tokens\<close>

lemma lanes_ok_distinct:
  assumes "lanes_ok ls"
  shows "distinct (map lease_laneRoot (filter is_nonterminal ls))"
    "distinct (map lanePhysicalIdentity (filter is_nonterminal ls))"
proof -
  let ?active = "filter is_nonterminal ls"
  have ids: "distinct (map leaseId ?active)"
    using assms unfolding lanes_ok_def by (blast intro: distinct_map_filter)
  have "lease_laneRoot l \<noteq> lease_laneRoot m \<and> lanePhysicalIdentity l \<noteq> lanePhysicalIdentity m"
    if "l \<in> set ?active" "m \<in> set ?active" "l \<noteq> m" for l m
  proof -
    have "leaseId l \<noteq> leaseId m" using that ids by (auto simp: distinct_map dest: inj_onD)
    with assms that show ?thesis unfolding lanes_ok_def by blast
  qed
  then have "inj_on lease_laneRoot (set ?active)" "inj_on lanePhysicalIdentity (set ?active)"
    unfolding inj_on_def by blast+
  with ids show "distinct (map lease_laneRoot ?active)" "distinct (map lanePhysicalIdentity ?active)"
    by (simp_all add: distinct_map)
qed

lemma validate_leasesI:
  assumes "lanes_ok (leases j)" "distinct (map lease_key (leases j))"
    "\<forall>l\<in>set (leases j). lease_executionKey l = journal_executionKey j"
    "journalVersion j = int (length (receipts j))" "receipts j \<noteq> []"
  shows "validate_leases j True = Inr ()"
proof -
  have "journalVersion j \<noteq> 0" using assms(4,5) by simp
  moreover have "distinct (map leaseId (leases j))" using assms(1) by (simp add: lanes_ok_def)
  ultimately show ?thesis
    using assms lanes_ok_distinct[OF assms(1)]
    by (simp add: validate_leases_def Let_def result_simps list_ex_iff)
qed

lemma validate_tokensI:
  assumes "lanes_ok (leases j)" "\<forall>l\<in>set (leases j). lease_fencingToken l < nextFencingToken j"
    "\<forall>r\<in>set (receipts j). receipt_fencingToken r < nextFencingToken j"
    "receipts j \<noteq> []" "receipt_journalDigest (last (receipts j)) = journal_digest sha j"
  shows "validate_tokens sha j = Inr ()"
proof -
  let ?ts = "map lease_fencingToken (leases j) @ map receipt_fencingToken (receipts j)"
  have "t < nextFencingToken j" if "t \<in> set ?ts" for t using that assms(2,3) by auto
  moreover have "?ts \<noteq> []" using assms(4) by simp
  ultimately have "Max (set ?ts) < nextFencingToken j" by (subst Max_less_iff) auto
  moreover have "distinct (map lease_fencingToken (leases j))"
    using assms(1) unfolding lanes_ok_def strict_sorted_iff by blast
  ultimately show ?thesis
    using assms(5) by (simp add: validate_tokens_def Let_def result_simps not_le del: set_append)
qed

section \<open>The receipts of a lane step\<close>

lemma preserves_same_lane: "same_lane l l' \<Longrightarrow> preserves_command sha l c \<Longrightarrow> preserves_command sha l' c"
  by (simp add: preserves_command_def same_lane_fields)

lemma filter_all2:
  assumes "list_all2 R xs ys" "\<And>x y. R x y \<Longrightarrow> P x = Q y"
  shows "list_all2 R (filter P xs) (filter Q ys)"
  using assms(1) by (induction rule: list_all2_induct) (auto simp: assms(2))

lemma evidence_bound_follows:
  assumes "list_all2 follows ls ls'" "evidence_bound sha ls r"
  shows "evidence_bound sha ls' r"
proof -
  have one: "\<exists>l'. filter P' ls' = [l'] \<and> same_lane l l'"
    if "filter P ls = [l]" "\<And>l l'. same_lane l l' \<Longrightarrow> P l = P' l'" for P P' l
  proof -
    have "list_all2 follows (filter P ls) (filter P' ls')"
      using assms(1) by (rule filter_all2) (use that(2) follows_same_lane in blast)
    with that(1) show ?thesis by (auto simp: list_all2_Cons1 dest: follows_same_lane)
  qed
  show ?thesis
  proof (cases "receipt_evidence_of r")
    case (Acquire_Evidence c)
    with assms(2) obtain l where l: "filter (\<lambda>l. lease_key l = acquisition_key c) ls = [l]"
      "lease_fencingToken l = receipt_fencingToken r" "preserves_command sha l c"
      by (auto simp: evidence_bound_def)
    obtain l' where "filter (\<lambda>l. lease_key l = acquisition_key c) ls' = [l']" "same_lane l l'"
      using one[OF l(1), of "\<lambda>l. lease_key l = acquisition_key c"] by (auto simp: same_lane_fields)
    with l(2,3) show ?thesis
      using preserves_same_lane[of l l'] same_lane_fields(7)[of l l'] by (simp add: evidence_bound_def Acquire_Evidence)
  next
    case (Transition_Evidence c)
    with assms(2) obtain l where l:
      "filter (\<lambda>l. leaseId l = transition_leaseId c \<and> lease_attemptId l = transition_attemptId c) ls = [l]"
      "lease_fencingToken l = receipt_fencingToken r" by (auto simp: evidence_bound_def)
    obtain l' where "filter (\<lambda>l. leaseId l = transition_leaseId c \<and> lease_attemptId l = transition_attemptId c) ls' = [l']"
      "same_lane l l'"
      using one[OF l(1), of "\<lambda>l. leaseId l = transition_leaseId c \<and> lease_attemptId l = transition_attemptId c"]
      by (auto simp: same_lane_fields)
    with assms(2) l(2) show ?thesis
      using same_lane_fields(7)[of l l'] by (simp add: evidence_bound_def Transition_Evidence)
  qed (simp_all add: evidence_bound_def)
qed

lemma evidence_bound_add:
  assumes "evidence_bound sha ls r" "leaseId n \<notin> leaseId ` set ls" "lease_key n \<notin> lease_key ` set ls"
  shows "evidence_bound sha (ls @ [n]) r"
proof (cases "receipt_evidence_of r")
  case (Acquire_Evidence c)
  with assms(1) obtain l where l: "filter (\<lambda>l. lease_key l = acquisition_key c) ls = [l]"
    "lease_fencingToken l = receipt_fencingToken r" "preserves_command sha l c"
    by (auto simp: evidence_bound_def)
  with filter_single[OF l(1)] assms(3) have "lease_key n \<noteq> acquisition_key c" by (metis imageI)
  with l show ?thesis by (simp add: evidence_bound_def Acquire_Evidence)
next
  case (Transition_Evidence c)
  with assms(1) obtain l where l:
    "filter (\<lambda>l. leaseId l = transition_leaseId c \<and> lease_attemptId l = transition_attemptId c) ls = [l]"
    by (auto simp: evidence_bound_def)
  with filter_single[OF l] assms(2) have "leaseId n \<noteq> transition_leaseId c" by (metis imageI)
  with l assms(1) show ?thesis by (simp add: evidence_bound_def Transition_Evidence)
qed (simp_all add: evidence_bound_def)

lemma receipt_sound_lanes:
  assumes "\<And>r. evidence_bound sha ls r \<Longrightarrow> evidence_bound sha ls' r" "receipt_sound sha key ls ir"
  shows "receipt_sound sha key ls' ir"
  using assms by (simp add: receipt_sound_def Let_def)

text \<open>The acquisition commands of the leases after a step.\<close>

lemma acquisitions_key: "lease_key l' = lease_key l \<Longrightarrow> acquisitions l' rs = acquisitions l rs"
  by (simp add: acquisitions_def)

lemma acquisitions_fresh:
  assumes "\<forall>r\<in>set rs. evidence_bound sha ls r" "lease_key n \<notin> lease_key ` set ls"
  shows "acquisitions n rs = []"
proof -
  have "acquisition_key c \<noteq> lease_key n"
    if r: "r \<in> set rs" "acquire_command_in (receipt_evidence_of r) = Some c" for r c
  proof -
    from r(2) have ev: "receipt_evidence_of r = Acquire_Evidence c" by (cases "receipt_evidence_of r") simp_all
    from assms(1) r(1) have "evidence_bound sha ls r" by blast
    then obtain l where l: "filter (\<lambda>l. lease_key l = acquisition_key c) ls = [l]"
      by (auto simp: evidence_bound_def ev)
    from filter_single[OF l] assms(2) show ?thesis by (metis imageI)
  qed
  then show ?thesis by (auto simp: acquisitions_def List.map_filter_def filter_empty_conv)
qed

section \<open>Replaying the receipts of a step\<close>

lemma replay_receipt_cong:
  assumes "\<And>c. receipt_evidence_of r = Acquire_Evidence c \<Longrightarrow>
    map leaseId (filter (\<lambda>l. lease_key l = acquisition_key c) ls)
      = map leaseId (filter (\<lambda>l. lease_key l = acquisition_key c) ls')"
  shows "replay_receipt ls r h = replay_receipt ls' r h"
proof (cases "receipt_evidence_of r")
  case (Acquire_Evidence c)
  let ?F = "\<lambda>ls. filter (\<lambda>l. lease_key l = acquisition_key c) ls"
  have step: "replay_receipt ks r h =
      bindE (raise_if (recovery_pending h) corrupt) (\<lambda>_.
        case map leaseId (?F ks) of
          [i] \<Rightarrow> Inr (h\<lparr>history_leases := AList.update i (ADMITTED, False) (history_leases h)\<rparr>)
        | _ \<Rightarrow> Inl corrupt)" for ks
    unfolding replay_receipt_def Acquire_Evidence receipt_evidence.case
    by (cases "?F ks" rule: remdups_adj.cases) simp_all
  show ?thesis unfolding step assms[OF Acquire_Evidence] ..
qed (simp_all add: replay_receipt_def)

lemma foldE_cong:
  assumes "\<And>x s. x \<in> set xs \<Longrightarrow> f x s = g x s"
  shows "foldE f xs s = foldE g xs s"
  using assms by (induction xs arbitrary: s) (simp_all add: bindE_def split: sum.split)

text \<open>The check of a journal with one more receipt, from the check of the journal before it.\<close>

lemma integrity_snoc:
  assumes integrity: "validate_journal_integrity sha host j persisted = Inr ()"
    and app: "appends sha j j'" and r: "receipts j' = receipts j @ [r]"
    and lanes: "lanes_ok (leases j')" "distinct (map lease_key (leases j'))"
      "\<forall>l\<in>set (leases j'). lease_executionKey l = journal_executionKey j'"
      "\<forall>l\<in>set (leases j'). lease_fencingToken l < nextFencingToken j'"
    and bound: "\<And>r. evidence_bound sha (leases j) r \<Longrightarrow> evidence_bound sha (leases j') r"
    and sound: "receipt_sound sha (journal_executionKey j') (leases j') (journalVersion j', r)"
    and token: "receipt_fencingToken r < nextFencingToken j'"
    and counts: "\<forall>l\<in>set (leases j'). length (acquisitions l (receipts j')) = 1"
    and recovery: "validate_recovery_integrity sha host j' (commands_of j')
      (filter is_observation (receipts j')) (filter is_recovery (receipts j')) = Inr ()"
  shows "validate_journal_integrity sha host j' True = Inr ()"
proof -
  from integrity have ls: "validate_leases j persisted = Inr ()" and ts: "validate_tokens sha j = Inr ()"
    and old: "list_all (receipt_sound sha (journal_executionKey j) (leases j)) (numbered (receipts j))"
    by (simp_all add: integrity_iff)
  note ls = validate_leases_Inr[OF ls] and ts = validate_tokens_Inr[OF ts]
  from app have key: "journal_executionKey j' = journal_executionKey j" and version: "journalVersion j' = journalVersion j + 1"
    and grows: "nextFencingToken j \<le> nextFencingToken j'" and digest: "receipt_journalDigest r = journal_digest sha j'"
    using r by (auto simp: appends_def)
  have "validate_leases j' True = Inr ()"
    by (rule validate_leasesI) (use lanes ls(6) version r in simp_all)
  moreover have "validate_tokens sha j' = Inr ()"
  proof (rule validate_tokensI[OF lanes(1,4)])
    show "\<forall>r\<in>set (receipts j'). receipt_fencingToken r < nextFencingToken j'"
      using ts(3) grows token by (force simp: r)
    show "receipt_journalDigest (last (receipts j')) = journal_digest sha j'" using digest r by simp
  qed (simp add: r)
  moreover have "list_all (receipt_sound sha (journal_executionKey j') (leases j')) (numbered (receipts j'))"
  proof -
    have "journalVersion j' = int (length (receipts j)) + 1" using version ls(6) by simp
    then show ?thesis
      using old sound receipt_sound_lanes[OF bound] by (simp add: r numbered_snoc key list_all_iff)
  qed
  ultimately show ?thesis using counts recovery by (simp add: integrity_iff)
qed

section \<open>Recovery cycles\<close>

text \<open>Cycles split into the closed ones and the observations of the open one.\<close>

definition cycles_of :: "receipt list \<Rightarrow> receipt list \<Rightarrow> recovery_cycle list \<Rightarrow> receipt list \<Rightarrow> bool" where
  "cycles_of pending rs closed opened =
     (split_cycles pending rs = Inr (closed @ (if opened = [] then [] else [(opened, None)]))
      \<and> (\<forall>c\<in>set closed. snd c \<noteq> None)
      \<and> (\<forall>r. is_observation r \<longrightarrow> split_cycles pending (rs @ [r]) = Inr (closed @ [(opened @ [r], None)]))
      \<and> (\<forall>r. \<not> is_observation r \<longrightarrow> opened \<noteq> [] \<longrightarrow>
            split_cycles pending (rs @ [r]) = Inr (closed @ [(opened, Some r)])))"

lemma split_cycles_form:
  assumes "split_cycles pending rs = Inr cs"
  shows "\<exists>closed opened. cycles_of pending rs closed opened"
  using assms
proof (induction pending rs arbitrary: cs rule: split_cycles.induct)
  case (1 pending)
  have "cycles_of pending [] [] pending" by (simp add: cycles_of_def)
  then show ?case by blast
next
  case (2 pending r rs)
  show ?case
  proof (cases "is_observation r")
    case True
    with 2(3) have "split_cycles (pending @ [r]) rs = Inr cs" by simp
    from 2(1)[OF True this] True show ?thesis by (simp add: cycles_of_def)
  next
    case False
    then have some: "pending \<noteq> []" using 2(3) by auto
    then obtain cs' where cs': "split_cycles [] rs = Inr cs'"
      using False 2(3) by (auto simp: result_simps)
    obtain closed opened where "cycles_of [] rs closed opened" using 2(2)[OF False some cs'] by blast
    with False some have "cycles_of pending (r # rs) ((pending, Some r) # closed) opened"
      by (simp add: cycles_of_def)
    then show ?thesis by blast
  qed
qed

lemma check_cycles_snoc:
  "check_cycles sha host j commands (cs @ [c]) latest = Inr out \<longleftrightarrow>
     (\<forall>d\<in>set cs. \<exists>e. check_cycle sha host j commands False d = Inr e)
     \<and> (\<exists>e. check_cycle sha host j commands True c = Inr e \<and> out = Some e)"
  by (induction cs arbitrary: latest) (auto simp: result_simps)

section \<open>Cycles of a changed journal\<close>

text \<open>The leases a cycle looks at, up to what a step may change in them.\<close>

definition same_view ::
    "lease list \<Rightarrow> (string, acquire_command) dict \<Rightarrow> lease list \<Rightarrow> (string, acquire_command) dict
      \<Rightarrow> string list \<Rightarrow> bool" where
  "same_view ls commands ls' commands' is =
     (\<forall>i\<in>set is. map_of commands' i = map_of commands i
        \<and> rel_option same_lane (map_of (leases_by_id ls) i) (map_of (leases_by_id ls') i))"

lemma decide_lease_same_lane: "same_lane l l' \<Longrightarrow> decide_lease c paths l' = decide_lease c paths l"
  by (simp add: decide_lease_def same_lane_fields)

lemma mapE_cong: "(\<And>x. x \<in> set xs \<Longrightarrow> f x = g x) \<Longrightarrow> mapE f xs = mapE g xs"
  by (induction xs) simp_all

lemma expected_decisions_cong:
  assumes "same_view ls commands ls' commands' is"
  shows "expected_recovery_decisions ls' commands' is paths = expected_recovery_decisions ls commands is paths"
proof -
  have "(case (map_of (leases_by_id ls') i, map_of commands' i) of
      (Some l, Some c) \<Rightarrow> Inr (decide_lease c paths l) | _ \<Rightarrow> Inl corrupt)
    = (case (map_of (leases_by_id ls) i, map_of commands i) of
      (Some l, Some c) \<Rightarrow> Inr (decide_lease c paths l) | _ \<Rightarrow> Inl corrupt)" if "i \<in> set is" for i
  proof -
    from assms that have "map_of commands' i = map_of commands i"
      "rel_option same_lane (map_of (leases_by_id ls) i) (map_of (leases_by_id ls') i)"
      by (simp_all add: same_view_def)
    then show ?thesis
      by (auto simp: decide_lease_same_lane elim!: option.rel_cases split: option.split)
  qed
  then show ?thesis unfolding expected_recovery_decisions_def by (simp cong: mapE_cong)
qed

lemma check_observation_cong:
  assumes "same_view (leases j) commands (leases j') commands' revoked"
  shows "check_observation j' commands' revoked r st = check_observation j commands revoked r st"
proof (cases "receipt_evidence_of r")
  case (Quarantine_Evidence c observed rev ds)
  let ?bad = "\<lambda>l. observation_leaseId c \<notin> set revoked
                  \<or> observation_fencingToken c \<noteq> receipt_fencingToken r
                  \<or> observation_fencingToken c \<noteq> lease_fencingToken l
                  \<or> receipt_snapshotFingerprint r \<noteq> lease_snapshotFingerprint l
                  \<or> recordedAt r \<noteq> quiescence_observedAt (observation_quiescence c)
                  \<or> receipt_previousState r \<noteq> receipt_nextState r"
  have "(case map_of (leases_by_id (leases j')) (observation_leaseId c) of None \<Rightarrow> True | Some l \<Rightarrow> ?bad l)
      = (case map_of (leases_by_id (leases j)) (observation_leaseId c) of None \<Rightarrow> True | Some l \<Rightarrow> ?bad l)"
  proof (cases "observation_leaseId c \<in> set revoked")
    case True
    with assms have "rel_option same_lane (map_of (leases_by_id (leases j)) (observation_leaseId c))
        (map_of (leases_by_id (leases j')) (observation_leaseId c))" by (simp add: same_view_def)
    then show ?thesis by (cases rule: option.rel_cases) (simp_all add: same_lane_fields)
  qed (simp split: option.split)
  then show ?thesis
    unfolding check_observation_def Quarantine_Evidence receipt_evidence.case
    by (simp only: expected_decisions_cong[OF assms])
qed (simp_all add: check_observation_def)

abbreviation cycle_revoked :: "recovery_cycle \<Rightarrow> string list" where
  "cycle_revoked cycle \<equiv> evidence_revoked_ids (receipt_evidence_of (last (fst cycle)))"

text \<open>A closed cycle only looks at leases it released.\<close>

lemma closed_cycle_released:
  assumes "check_cycle sha host j commands latest cycle = Inr e" "snd cycle \<noteq> None" "i \<in> set (cycle_revoked cycle)"
  obtains l where "map_of (leases_by_id (leases j)) i = Some l" "released l"
proof -
  from assms(2) obtain r where r: "snd cycle = Some r" by blast
  from assms(1) obtain observed expected c where
    "check_closed_cycle sha host j commands latest (cycle_revoked cycle) observed expected r = Inr c"
    unfolding check_cycle_def Let_def r option.case by (elim raise_ifE bindE_InrE)
  then obtain c' observed' revoked' ds' where ev: "receipt_evidence_of r = Recovery_Evidence c' observed' revoked' ds'"
    and closed: "\<not> list_ex (\<lambda>i. case (map_of (leases_by_id (leases j)) i,
            map_of (dict_of (map (\<lambda>q. (quiescent_leaseId q, q)) (processQuiescenceProofs c'))) i) of
        (Some l, Some q) \<Rightarrow> quiescent_fencingToken q \<noteq> lease_fencingToken l
          \<or> Some (lease_state l) \<noteq> map_of (dict_of (map (\<lambda>d. (decided_leaseId d, decided_state d)) expected)) i
          \<or> \<not> released l \<or> recoveryStatus l \<noteq> CLEAR
        | _ \<Rightarrow> True) (cycle_revoked cycle)"
    unfolding check_closed_cycle_def
    by (cases "receipt_evidence_of r") (simp_all add: Let_def, elim raise_ifE bindE_InrE, blast)
  from closed assms(3) obtain l where "map_of (leases_by_id (leases j)) i = Some l" "released l"
    by (auto simp: list_ex_iff split: option.splits)
  then show thesis by (rule that)
qed

section \<open>Closed cycles of a changed journal\<close>

lemma raise_pass: "\<not> c \<Longrightarrow> f () = y \<Longrightarrow> bindE (raise_if c e) f = y"
  and bind_pass: "m = Inr x \<Longrightarrow> f x = y \<Longrightarrow> bindE m f = y"
  by simp_all

lemma same_view_eq:
  assumes "\<forall>i\<in>set is. map_of commands' i = map_of commands i
    \<and> map_of (leases_by_id ls') i = map_of (leases_by_id ls) i"
  shows "same_view ls commands ls' commands' is"
proof -
  have "rel_option same_lane x x" for x by (cases x) (simp_all add: same_lane_def)
  with assms show ?thesis by (simp add: same_view_def)
qed

lemma persisted_authority_cong:
  assumes "\<forall>i\<in>set is. map_of commands' i = map_of commands i"
  shows "validate_persisted_recovery_authority sha host c is commands'
    = validate_persisted_recovery_authority sha host c is commands"
proof -
  have "mapE (authority_anchor commands') is = mapE (authority_anchor commands) is"
    using assms by (intro mapE_cong) (simp add: authority_anchor_def)
  then show ?thesis by (simp only: validate_persisted_recovery_authority_def)
qed

lemma check_closed_cycle_frame:
  assumes checked: "check_closed_cycle sha host j commands latest revoked cumulative expected r = Inr c"
    and kept: "\<forall>i\<in>set revoked. map_of commands' i = map_of commands i
      \<and> map_of (leases_by_id (leases j')) i = map_of (leases_by_id (leases j)) i"
    and clear: "latest' \<Longrightarrow> recoveryState j' = CLEAR"
  shows "check_closed_cycle sha host j' commands' latest' revoked cumulative expected r = Inr c"
proof (cases "receipt_evidence_of r")
  case (Recovery_Evidence c' observed rev ds)
  have img: "(\<lambda>i. map_option lease_snapshotFingerprint (map_of (leases_by_id (leases j')) i)) ` set revoked
      = (\<lambda>i. map_option lease_snapshotFingerprint (map_of (leases_by_id (leases j)) i)) ` set revoked"
    using kept by (intro image_cong) simp_all
  have auth: "validate_persisted_recovery_authority sha host c' revoked commands'
      = validate_persisted_recovery_authority sha host c' revoked commands"
    using kept by (intro persisted_authority_cong) simp
  have lanes: "list_ex (\<lambda>i. case (map_of (leases_by_id (leases j')) i, f i) of (Some l, Some q) \<Rightarrow> P i l q | _ \<Rightarrow> True) revoked
      = list_ex (\<lambda>i. case (map_of (leases_by_id (leases j)) i, f i) of (Some l, Some q) \<Rightarrow> P i l q | _ \<Rightarrow> True) revoked"
    for f :: "string \<Rightarrow> quiescence_proof option" and P
    using kept by (intro list_ex_cong) simp_all
  show ?thesis
    using checked clear
    unfolding check_closed_cycle_def Recovery_Evidence receipt_evidence.case Let_def img auth lanes
    by (elim raise_ifE bindE_InrE) (assumption | rule raise_pass | rule bind_pass | blast)+
qed (use checked in \<open>simp_all add: check_closed_cycle_def\<close>)

lemma closed_cycle_frame:
  assumes checked: "check_cycle sha host j commands latest cycle = Inr e" and some: "snd cycle = Some r"
    and kept: "\<forall>i\<in>set (cycle_revoked cycle). map_of commands' i = map_of commands i
      \<and> map_of (leases_by_id (leases j')) i = map_of (leases_by_id (leases j)) i"
    and ids: "leaseId ` set (leases j) \<subseteq> leaseId ` set (leases j')"
    and clear: "latest' \<Longrightarrow> recoveryState j' = CLEAR"
  shows "check_cycle sha host j' commands' latest' cycle = Inr e"
proof -
  note frame = check_closed_cycle_frame[OF _ kept clear]
  have obs: "foldE (check_observation j' commands' (cycle_revoked cycle)) xs st
      = foldE (check_observation j commands (cycle_revoked cycle)) xs st" for xs st
    by (intro foldE_cong check_observation_cong same_view_eq kept)
  let ?revoked = "cycle_revoked cycle"
  from checked obtain st quarantine c where
    revoked: "\<not> (?revoked = [] \<or> ?revoked \<noteq> sorted_union ?revoked [])"
    and known: "set ?revoked \<subseteq> set (map leaseId (leases j))"
    and st: "foldE (check_observation j commands ?revoked) (fst cycle) ([], []) = Inr st"
    and quarantine: "latest_quarantine_command (last (fst cycle)) = Inr quarantine"
    and closed: "check_closed_cycle sha host j commands latest ?revoked (fst st) (snd st) r = Inr c"
    and e: "e = \<lparr>evidence_observed = fst st, evidence_revoked = ?revoked, evidence_decisions = snd st,
      quarantineCommand = quarantine, recoveryCommand = Some c\<rparr>"
    unfolding check_cycle_def Let_def some option.case by (elim raise_ifE bindE_InrE) simp
  from known ids have "set ?revoked \<subseteq> set (map leaseId (leases j'))" by simp
  with revoked st quarantine frame[OF closed] show ?thesis
    unfolding check_cycle_def Let_def some option.case obs e by simp
qed

text \<open>Whichever cycle is looked at, the last one decides whether a recovery is open.\<close>

lemma check_cycle_pending:
  assumes "check_cycle sha host j commands latest (observations, None) = Inr e"
  shows "latest" "recoveryState j = PROJECT_WRITESET_RECOVERY"
  using assms unfolding check_cycle_def Let_def check_pending_cycle_def fst_conv snd_conv option.case
  by - (elim raise_ifE bindE_InrE, simp)+

lemma check_cycle_last:
  assumes "check_cycle sha host j commands True (observations, Some r) = Inr e"
  shows "recoveryState j = CLEAR"
proof -
  from assms obtain observed expected c where
    "check_closed_cycle sha host j commands True (cycle_revoked (observations, Some r)) observed expected r = Inr c"
    unfolding check_cycle_def Let_def fst_conv snd_conv option.case by (elim raise_ifE bindE_InrE)
  then show ?thesis
    unfolding check_closed_cycle_def by (cases "receipt_evidence_of r") (simp_all add: Let_def, elim raise_ifE bindE_InrE, simp)
qed

end
