(* ===== verification/Coordinator_Accepted.thy ===== *)
theory Coordinator_Accepted
  imports Coordinator_Complete
begin

text \<open>
  What a command of the coordinator commits on a journal that the integrity check accepts is
  accepted again. The steps that change leases in place and the step that adds a lane share the
  parts of the check that look at the receipts of earlier commands.
\<close>

section \<open>The receipts of an accepted journal\<close>

lemma accepted_bound:
  assumes "validate_journal_integrity sha host j persisted = Inr ()" "r \<in> set (receipts j)"
  shows "evidence_bound sha (leases j) r"
  using assms sound_evidence by (auto simp: integrity_iff)

lemma accepted_keys:
  assumes "validate_journal_integrity sha host j persisted = Inr ()"
  shows "distinct (map lease_key (leases j))" "distinct (map leaseId (leases j))"
  using assms validate_leases_Inr by (auto simp: integrity_iff)

lemma accepted_recovery:
  assumes "validate_journal_integrity sha host j persisted = Inr ()"
  shows "validate_recovery_integrity sha host j (commands_of j)
    (filter is_observation (receipts j)) (filter is_recovery (receipts j)) = Inr ()"
  using assms by (simp add: integrity_iff)

lemma commands_lookup:
  assumes "distinct (map leaseId (leases j))" "distinct (map lease_key (leases j))"
    "\<forall>r\<in>set (receipts j). evidence_bound sha (leases j) r" "l \<in> set (leases j)"
  shows "map_of (commands_of j) (leaseId l) =
    (if acquisitions l (receipts j) = [] then None else Some (last (acquisitions l (receipts j))))"
  using indexes_fold[OF assms(1-3)] assms(4) by (simp add: indexes_def commands_of_def index_of_def)

text \<open>The acquisition command of an earlier lease stays the one it was.\<close>

lemma commands_kept:
  assumes integrity: "validate_journal_integrity sha host j persisted = Inr ()"
    and r: "receipts j' = receipts j @ [r]"
    and ids: "distinct (map leaseId (leases j'))" and keys: "distinct (map lease_key (leases j'))"
    and bound: "\<forall>r\<in>set (receipts j'). evidence_bound sha (leases j') r"
    and l: "l \<in> set (leases j)" "l' \<in> set (leases j')" "same_lane l l'"
    and other: "\<And>c. acquire_command_in (receipt_evidence_of r) = Some c \<Longrightarrow> acquisition_key c \<noteq> lease_key l"
  shows "map_of (commands_of j') (leaseId l) = map_of (commands_of j) (leaseId l)"
    "acquisitions l' (receipts j') = acquisitions l (receipts j)"
proof -
  have key: "leaseId l' = leaseId l" "lease_key l' = lease_key l"
    using same_lane_fields[OF l(3)] by blast+
  have "acquisitions l' (receipts j') = acquisitions l (receipts j')" using key(2) by (rule acquisitions_key)
  also have "\<dots> = acquisitions l (receipts j)"
    using other by (simp add: r acquisitions_snoc split: option.split)
  finally show acq: "acquisitions l' (receipts j') = acquisitions l (receipts j)" .
  have old: "\<forall>r\<in>set (receipts j). evidence_bound sha (leases j) r" using accepted_bound[OF integrity] by blast
  show "map_of (commands_of j') (leaseId l) = map_of (commands_of j) (leaseId l)"
    using commands_lookup[OF ids keys bound l(2)]
      commands_lookup[OF accepted_keys(2,1)[OF integrity] old l(1)]
    by (simp add: acq key(1))
qed

section \<open>The recovery part of the check\<close>

lemma mutation_count:
  "length (filter is_mutation rs) = length (filter is_observation rs) + length (filter is_recovery rs)"
proof (induction rs)
  case (Cons r rs)
  then show ?case
    by (cases "receipt_evidence_of r") (simp_all add: is_mutation_def is_observation_def is_recovery_def)
qed simp

lemma recovery_integrity_iff:
  "validate_recovery_integrity sha host j commands
      (filter is_observation (receipts j)) (filter is_recovery (receipts j)) = Inr () \<longleftrightarrow>
     (\<exists>h. replay_receipts j = Inr h)
     \<and> (\<exists>cs. split_cycles [] (filter is_mutation (receipts j)) = Inr cs
          \<and> (if cs = [] then recoveryEvidence j = None \<and> recoveryState j = CLEAR
             else recoveryEvidence j \<noteq> None
                  \<and> check_cycles sha host j commands cs None = Inr (recoveryEvidence j)))"
  unfolding validate_recovery_integrity_def Let_def mutation_count
  by (auto simp: result_simps)

text \<open>The cycles of an accepted journal: closed ones, and at the end one that may be open.\<close>

lemma accepted_cycles:
  assumes "validate_recovery_integrity sha host j commands
      (filter is_observation (receipts j)) (filter is_recovery (receipts j)) = Inr ()"
  obtains closed opened where "cycles_of [] (filter is_mutation (receipts j)) closed opened"
    "\<forall>c\<in>set closed. \<exists>e latest. check_cycle sha host j commands latest c = Inr e"
    "opened \<noteq> [] \<Longrightarrow> recoveryState j = PROJECT_WRITESET_RECOVERY
      \<and> (\<exists>e. check_cycle sha host j commands True (opened, None) = Inr e \<and> recoveryEvidence j = Some e)"
    "opened = [] \<Longrightarrow> recoveryState j = CLEAR"
    "opened = [] \<Longrightarrow> (if closed = [] then recoveryEvidence j = None
      else \<exists>e. check_cycle sha host j commands True (last closed) = Inr e \<and> recoveryEvidence j = Some e)"
proof -
  from assms obtain cs where cs: "split_cycles [] (filter is_mutation (receipts j)) = Inr cs"
    and checks: "if cs = [] then recoveryEvidence j = None \<and> recoveryState j = CLEAR
             else recoveryEvidence j \<noteq> None
                  \<and> check_cycles sha host j commands cs None = Inr (recoveryEvidence j)"
    by (auto simp: recovery_integrity_iff)
  obtain closed opened where form: "cycles_of [] (filter is_mutation (receipts j)) closed opened"
    using split_cycles_form[OF cs] by blast
  then have cs_eq: "cs = closed @ (if opened = [] then [] else [(opened, None)])"
    and some: "\<forall>c\<in>set closed. snd c \<noteq> None" using cs by (auto simp: cycles_of_def)
  show thesis
  proof (cases "opened = []")
    case False
    with checks cs_eq have "check_cycles sha host j commands (closed @ [(opened, None)]) None = Inr (recoveryEvidence j)"
      by simp
    then have closed: "\<forall>c\<in>set closed. \<exists>e. check_cycle sha host j commands False c = Inr e"
      and opened: "\<exists>e. check_cycle sha host j commands True (opened, None) = Inr e \<and> recoveryEvidence j = Some e"
      unfolding check_cycles_snoc by blast+
    show thesis
      by (rule that[OF form]) (use closed opened False check_cycle_pending in blast)+
  next
    case True
    with cs_eq have cs_eq: "cs = closed" by simp
    show thesis
    proof (cases "closed = []")
      case True
      with checks cs_eq \<open>opened = []\<close> show thesis by (intro that[OF form]) simp_all
    next
      case False
      then obtain ds d where ds: "closed = ds @ [d]" by (metis rev_exhaust)
      with checks cs_eq have "check_cycles sha host j commands (ds @ [d]) None = Inr (recoveryEvidence j)" by simp
      then have "\<forall>c\<in>set ds. \<exists>e. check_cycle sha host j commands False c = Inr e"
        and last: "\<exists>e. check_cycle sha host j commands True d = Inr e \<and> recoveryEvidence j = Some e"
        unfolding check_cycles_snoc by blast+
      then have closed: "\<forall>c\<in>set closed. \<exists>e latest. check_cycle sha host j commands latest c = Inr e"
        unfolding ds set_append by (metis Un_iff empty_iff insert_iff list.set)
      obtain observations r where "d = (observations, Some r)" using some by (cases d) (auto simp: ds)
      with last have "recoveryState j = CLEAR" using check_cycle_last by blast
      with closed last True show thesis by (intro that[OF form]) (simp_all add: ds)
    qed
  qed
qed

text \<open>What a step leaves as it was: the lanes, the released leases, and every acquisition command.\<close>

definition keeps_lanes :: "journal \<Rightarrow> journal \<Rightarrow> bool" where
  "keeps_lanes j j' =
     (distinct (map leaseId (leases j)) \<and> distinct (map leaseId (leases j'))
      \<and> (\<forall>l\<in>set (leases j). \<exists>l'\<in>set (leases j'). same_lane l l')
      \<and> (\<forall>l\<in>set (leases j). released l \<longrightarrow> l \<in> set (leases j'))
      \<and> (\<forall>l\<in>set (leases j). map_of (commands_of j') (leaseId l) = map_of (commands_of j) (leaseId l)))"

lemma keeps_lanes_ids:
  assumes "keeps_lanes j j'"
  shows "leaseId ` set (leases j) \<subseteq> leaseId ` set (leases j')"
proof
  fix i assume "i \<in> leaseId ` set (leases j)"
  then obtain l where "l \<in> set (leases j)" "i = leaseId l" by blast
  with assms obtain l' where "l' \<in> set (leases j')" "same_lane l l'" unfolding keeps_lanes_def by blast
  with \<open>i = leaseId l\<close> show "i \<in> leaseId ` set (leases j')" using same_lane_fields(1) by (metis imageI)
qed

lemma keeps_lanes_view:
  assumes kept: "keeps_lanes j j'" and known: "set is \<subseteq> leaseId ` set (leases j)"
  shows "same_view (leases j) (commands_of j) (leases j') (commands_of j') is"
proof -
  from kept have ids: "distinct (map leaseId (leases j))" "distinct (map leaseId (leases j'))"
    and lanes: "\<forall>l\<in>set (leases j). \<exists>l'\<in>set (leases j'). same_lane l l'"
    and commands: "\<forall>l\<in>set (leases j). map_of (commands_of j') (leaseId l) = map_of (commands_of j) (leaseId l)"
    by (simp_all add: keeps_lanes_def)
  have "map_of (commands_of j') i = map_of (commands_of j) i
      \<and> rel_option same_lane (map_of (leases_by_id (leases j)) i) (map_of (leases_by_id (leases j')) i)"
    if "i \<in> set is" for i
  proof -
    from that known obtain l where l: "l \<in> set (leases j)" "i = leaseId l" by blast
    with lanes obtain l' where l': "l' \<in> set (leases j')" "same_lane l l'" by blast
    from find_lease_member[OF ids(1) l(1)] find_lease_member[OF ids(2) l'(1)] l l'(2) commands
    show ?thesis by (simp add: leases_by_id_lookup ids same_lane_fields(1)[OF l'(2)])
  qed
  then show ?thesis by (simp add: same_view_def)
qed

lemma closed_cycle_kept:
  assumes kept: "keeps_lanes j j'"
    and checked: "check_cycle sha host j (commands_of j) latest cycle = Inr e" and some: "snd cycle \<noteq> None"
    and clear: "latest' \<Longrightarrow> recoveryState j' = CLEAR"
  shows "check_cycle sha host j' (commands_of j') latest' cycle = Inr e"
proof -
  from kept have ids: "distinct (map leaseId (leases j))" "distinct (map leaseId (leases j'))"
    and same: "\<forall>l\<in>set (leases j). released l \<longrightarrow> l \<in> set (leases j')"
    and commands: "\<forall>l\<in>set (leases j). map_of (commands_of j') (leaseId l) = map_of (commands_of j) (leaseId l)"
    by (simp_all add: keeps_lanes_def)
  note sub = keeps_lanes_ids[OF kept]
  have view: "map_of (commands_of j') i = map_of (commands_of j) i
      \<and> map_of (leases_by_id (leases j')) i = map_of (leases_by_id (leases j)) i"
    if i: "i \<in> set (cycle_revoked cycle)" for i
  proof -
    obtain l where "map_of (leases_by_id (leases j)) i = Some l" and rel: "released l"
      using checked some i by (rule closed_cycle_released)
    then have find: "find_lease i (leases j) = Some l" by (simp add: leases_by_id_lookup[OF ids(1)])
    note l = find_lease_Some[OF find]
    with same rel have "l \<in> set (leases j')" by blast
    from find_lease_member[OF ids(2) this] l commands find show ?thesis
      by (auto simp: leases_by_id_lookup ids)
  qed
  obtain r where r: "snd cycle = Some r" using some by blast
  have view: "\<forall>i\<in>set (cycle_revoked cycle). map_of (commands_of j') i = map_of (commands_of j) i
      \<and> map_of (leases_by_id (leases j')) i = map_of (leases_by_id (leases j)) i"
    using view by blast
  show ?thesis using checked r view sub clear by (rule closed_cycle_frame)
qed

text \<open>A step that records no breach and no recovery.\<close>

lemma recovery_kept:
  assumes kept: "keeps_lanes j j'"
    and old: "validate_recovery_integrity sha host j (commands_of j)
      (filter is_observation (receipts j)) (filter is_recovery (receipts j)) = Inr ()"
    and state: "recoveryState j = CLEAR" "recoveryState j' = CLEAR" "recoveryEvidence j' = recoveryEvidence j"
    and r: "receipts j' = receipts j @ [r]" "\<not> is_mutation r"
    and replay: "replay_receipts j' = Inr h'"
  shows "validate_recovery_integrity sha host j' (commands_of j')
    (filter is_observation (receipts j')) (filter is_recovery (receipts j')) = Inr ()"
proof -
  from old obtain closed opened where form: "cycles_of [] (filter is_mutation (receipts j)) closed opened"
    and closed: "\<forall>c\<in>set closed. \<exists>e latest. check_cycle sha host j (commands_of j) latest c = Inr e"
    and opened: "opened \<noteq> [] \<Longrightarrow> recoveryState j = PROJECT_WRITESET_RECOVERY"
    and last: "opened = [] \<Longrightarrow> (if closed = [] then recoveryEvidence j = None
      else \<exists>e. check_cycle sha host j (commands_of j) True (last closed) = Inr e \<and> recoveryEvidence j = Some e)"
    by (rule accepted_cycles) blast
  have none: "opened = []" using opened state(1) by auto
  have some: "\<forall>c\<in>set closed. snd c \<noteq> None" using form by (simp add: cycles_of_def)
  have split: "split_cycles [] (filter is_mutation (receipts j')) = Inr closed"
    using form by (simp add: cycles_of_def none r)
  have "if closed = [] then recoveryEvidence j' = None \<and> recoveryState j' = CLEAR
      else recoveryEvidence j' \<noteq> None
           \<and> check_cycles sha host j' (commands_of j') closed None = Inr (recoveryEvidence j')"
  proof (cases "closed = []")
    case True
    with last none state show ?thesis by simp
  next
    case False
    then obtain ds d where ds: "closed = ds @ [d]" by (metis rev_exhaust)
    with last none obtain e where e: "check_cycle sha host j (commands_of j) True d = Inr e" "recoveryEvidence j = Some e"
      by auto
    have "check_cycle sha host j' (commands_of j') True d = Inr e"
      using closed_cycle_kept[OF kept e(1)] some state(2) by (simp add: ds)
    moreover have "\<exists>e. check_cycle sha host j' (commands_of j') False c = Inr e" if c: "c \<in> set ds" for c
    proof -
      from c closed obtain e latest where "check_cycle sha host j (commands_of j) latest c = Inr e"
        unfolding ds by (metis Un_iff set_append)
      from closed_cycle_kept[OF kept this, of False] some c show ?thesis by (auto simp: ds)
    qed
    ultimately show ?thesis using e(2) by (simp add: ds check_cycles_snoc state(3))
  qed
  with split replay show ?thesis by (auto simp: recovery_integrity_iff)
qed

text \<open>A step that records a breach: it opens a cycle or extends the open one.\<close>

lemma check_cycle_open_Inr:
  assumes "check_cycle sha host j commands latest (observations, None) = Inr e"
  obtains st quarantine where
    "foldE (check_observation j commands (evidence_revoked e)) observations ([], []) = Inr st"
    "evidence_revoked e = cycle_revoked (observations, None)"
    "sorted (evidence_revoked e)" "distinct (evidence_revoked e)" "evidence_revoked e \<noteq> []"
    "evidence_observed e = fst st" "evidence_decisions e = snd st"
    "latest_quarantine_command (last observations) = Inr quarantine" "quarantineCommand e = quarantine"
    "recoveryCommand e = None"
proof -
  let ?R = "cycle_revoked (observations, None)"
  from assms obtain st quarantine where
    R: "\<not> (?R = [] \<or> ?R \<noteq> sorted_union ?R [])"
    and st: "foldE (check_observation j commands ?R) observations ([], []) = Inr st"
    and quarantine: "latest_quarantine_command (last observations) = Inr quarantine"
    and e: "e = \<lparr>evidence_observed = fst st, evidence_revoked = ?R, evidence_decisions = snd st,
      quarantineCommand = quarantine, recoveryCommand = None\<rparr>"
    unfolding check_cycle_def Let_def fst_conv snd_conv option.case by (elim raise_ifE bindE_InrE) simp
  from R have "sorted ?R" "distinct ?R" by (metis sorted_sorted_union, metis distinct_sorted_union)
  with R st quarantine show thesis by (intro that[of st quarantine]) (simp_all add: e)
qed

lemma check_observation_fst:
  "fst st = fst st' \<Longrightarrow> check_observation j commands revoked r st = check_observation j commands revoked r st'"
  unfolding check_observation_def by (simp only:)

lemma cycles_before:
  assumes kept: "keeps_lanes j j'" and some: "\<forall>c\<in>set closed. snd c \<noteq> None"
    and closed: "\<forall>c\<in>set closed. \<exists>e latest. check_cycle sha host j (commands_of j) latest c = Inr e"
  shows "\<forall>c\<in>set closed. \<exists>e. check_cycle sha host j' (commands_of j') False c = Inr e"
proof
  fix c assume c: "c \<in> set closed"
  with closed obtain e latest where "check_cycle sha host j (commands_of j) latest c = Inr e" by blast
  from closed_cycle_kept[OF kept this, of False] some c
  show "\<exists>e. check_cycle sha host j' (commands_of j') False c = Inr e" by blast
qed

lemma recovery_opened:
  assumes kept: "keeps_lanes j j'" and ok: "journal_ok key j"
    and old: "validate_recovery_integrity sha host j (commands_of j)
      (filter is_observation (receipts j)) (filter is_recovery (receipts j)) = Inr ()"
    and r: "receipts j' = receipts j @ [r]" "receipt_evidence_of r = Quarantine_Evidence c observed R ds"
    and R: "R = sort (map leaseId (recoverable_leases j))" "R \<noteq> []"
    and observation: "check_observation j' (commands_of j') R r (prior_paths j, []) = Inr (observed, ds)"
    and pending: "check_pending_cycle j' True R = Inr ()"
    and evidence: "recoveryEvidence j' = Some \<lparr>evidence_observed = observed, evidence_revoked = R,
      evidence_decisions = ds, quarantineCommand = c, recoveryCommand = None\<rparr>"
    and replay: "replay_receipts j' = Inr h'"
  shows "validate_recovery_integrity sha host j' (commands_of j')
    (filter is_observation (receipts j')) (filter is_recovery (receipts j')) = Inr ()"
proof -
  from old obtain closed opened where form: "cycles_of [] (filter is_mutation (receipts j)) closed opened"
    and closed: "\<forall>c\<in>set closed. \<exists>e latest. check_cycle sha host j (commands_of j) latest c = Inr e"
    and opened: "opened \<noteq> [] \<Longrightarrow> recoveryState j = PROJECT_WRITESET_RECOVERY
      \<and> (\<exists>e. check_cycle sha host j (commands_of j) True (opened, None) = Inr e \<and> recoveryEvidence j = Some e)"
    and none: "opened = [] \<Longrightarrow> recoveryState j = CLEAR"
    by (rule accepted_cycles) blast
  have known: "set R \<subseteq> leaseId ` set (leases j)" by (auto simp: R recoverable_leases_def)
  have "distinct (map leaseId (leases j))" using kept by (simp add: keeps_lanes_def)
  then have distinct_R: "distinct R" unfolding R recoverable_leases_def by (simp add: distinct_map_filter)
  have obs: "is_observation r" "is_mutation r" by (simp_all add: is_observation_def is_mutation_def r(2))
  have "\<exists>st. foldE (check_observation j' (commands_of j') R) opened ([], []) = Inr st \<and> fst st = prior_paths j"
  proof (cases "opened = []")
    case True
    then show ?thesis using none by (simp add: prior_paths_def open_evidence_def)
  next
    case False
    with opened obtain e where state: "recoveryState j = PROJECT_WRITESET_RECOVERY"
      and e: "check_cycle sha host j (commands_of j) True (opened, None) = Inr e" "recoveryEvidence j = Some e" by blast
    from e(1) obtain st where st: "foldE (check_observation j (commands_of j) (evidence_revoked e)) opened ([], []) = Inr st"
      and sorted: "sorted (evidence_revoked e)" "distinct (evidence_revoked e)"
      and observed: "evidence_observed e = fst st" by (rule check_cycle_open_Inr)
    have "set (evidence_revoked e) = set R"
      using ok state e(2) by (simp add: journal_ok_def recovery_covers_def R)
    with sorted distinct_R have R_eq: "evidence_revoked e = R"
      by (intro sorted_distinct_set_unique) (simp_all add: R)
    have "foldE (check_observation j' (commands_of j') R) opened ([], []) = Inr st"
      using st unfolding R_eq by (simp add: check_observation_cong[OF keeps_lanes_view[OF kept known]] cong: foldE_cong)
    moreover have "fst st = prior_paths j"
      using state e(2) observed by (simp add: prior_paths_def open_evidence_def)
    ultimately show ?thesis by blast
  qed
  then obtain st where st: "foldE (check_observation j' (commands_of j') R) opened ([], []) = Inr st"
    "fst st = prior_paths j" by blast
  have last: "check_observation j' (commands_of j') R r st = Inr (observed, ds)"
    using observation check_observation_fst[of st "(prior_paths j, [])"] st(2) by simp
  have "set R \<subseteq> set (map leaseId (leases j'))" using known keeps_lanes_ids[OF kept] by auto
  moreover have "R = sorted_union R []"
    using distinct_R by (simp add: sorted_union_def R distinct_remdups_id)
  ultimately have cycle: "check_cycle sha host j' (commands_of j') True (opened @ [r], None)
      = Inr (the (recoveryEvidence j'))"
    using R(2) pending
    by (simp add: check_cycle_def r(2) foldE_append st(1) last latest_quarantine_command_def evidence)
  have split: "split_cycles [] (filter is_mutation (receipts j')) = Inr (closed @ [(opened @ [r], None)])"
    using form obs by (simp add: cycles_of_def r)
  have some: "\<forall>c\<in>set closed. snd c \<noteq> None" using form by (simp add: cycles_of_def)
  have "check_cycles sha host j' (commands_of j') (closed @ [(opened @ [r], None)]) None = Inr (recoveryEvidence j')"
    unfolding check_cycles_snoc using cycles_before[OF kept some closed] cycle by (simp add: evidence)
  with split replay show ?thesis by (auto simp: recovery_integrity_iff evidence)
qed

text \<open>A step that records a recovery: it closes the open cycle.\<close>

lemma recovery_closed:
  assumes kept: "keeps_lanes j j'" and ok: "journal_ok key j"
    and old: "validate_recovery_integrity sha host j (commands_of j)
      (filter is_observation (receipts j)) (filter is_recovery (receipts j)) = Inr ()"
    and state: "recoveryState j = PROJECT_WRITESET_RECOVERY" and e: "recoveryEvidence j = Some e"
    and r: "receipts j' = receipts j @ [r]" "is_recovery r"
    and check: "check_closed_cycle sha host j' (commands_of j') True (evidence_revoked e)
      (evidence_observed e) (evidence_decisions e) r = Inr c"
    and evidence: "recoveryEvidence j' = Some (e\<lparr>recoveryCommand := Some c\<rparr>)"
    and replay: "replay_receipts j' = Inr h'"
  shows "validate_recovery_integrity sha host j' (commands_of j')
    (filter is_observation (receipts j')) (filter is_recovery (receipts j')) = Inr ()"
proof -
  from old obtain closed opened where form: "cycles_of [] (filter is_mutation (receipts j)) closed opened"
    and closed: "\<forall>c\<in>set closed. \<exists>e latest. check_cycle sha host j (commands_of j) latest c = Inr e"
    and opened: "opened \<noteq> [] \<Longrightarrow>
      \<exists>e. check_cycle sha host j (commands_of j) True (opened, None) = Inr e \<and> recoveryEvidence j = Some e"
    and none: "opened = [] \<Longrightarrow> recoveryState j = CLEAR"
    by (rule accepted_cycles) blast
  have some_open: "opened \<noteq> []" using none state by auto
  with opened e have open_check: "check_cycle sha host j (commands_of j) True (opened, None) = Inr e" by auto
  then obtain st where st: "foldE (check_observation j (commands_of j) (evidence_revoked e)) opened ([], []) = Inr st"
    and R: "evidence_revoked e = cycle_revoked (opened, None)"
      "sorted (evidence_revoked e)" "distinct (evidence_revoked e)" "evidence_revoked e \<noteq> []"
    and fields: "evidence_observed e = fst st" "evidence_decisions e = snd st"
      "latest_quarantine_command (last opened) = Inr (quarantineCommand e)"
    by (rule check_cycle_open_Inr) simp
  have known: "set (evidence_revoked e) \<subseteq> leaseId ` set (leases j)"
    using ok state e by (auto simp: journal_ok_def recovery_covers_def recoverable_leases_def)
  have st': "foldE (check_observation j' (commands_of j') (evidence_revoked e)) opened ([], []) = Inr st"
    using st by (simp add: check_observation_cong[OF keeps_lanes_view[OF kept known]] cong: foldE_cong)
  have "set (evidence_revoked e) \<subseteq> set (map leaseId (leases j'))" using known keeps_lanes_ids[OF kept] by auto
  moreover have "sorted_union (evidence_revoked e) [] = evidence_revoked e"
    using R(2,3) by (simp add: sorted_union_def distinct_remdups_id sort_key_id_if_sorted)
  moreover have "e\<lparr>recoveryCommand := Some c\<rparr> =
      \<lparr>evidence_observed = fst st, evidence_revoked = evidence_revoked e, evidence_decisions = snd st,
       quarantineCommand = quarantineCommand e, recoveryCommand = Some c\<rparr>"
    using fields by (cases e) simp
  ultimately have cycle: "check_cycle sha host j' (commands_of j') True (opened, Some r)
      = Inr (e\<lparr>recoveryCommand := Some c\<rparr>)"
    using R(4) check st' fields by (simp add: check_cycle_def R(1)[unfolded fst_conv, symmetric])
  have not_obs: "\<not> is_observation r" "is_mutation r"
    using r(2) by (simp_all add: is_observation_def is_recovery_def is_mutation_def)
  have split: "split_cycles [] (filter is_mutation (receipts j')) = Inr (closed @ [(opened, Some r)])"
    using form not_obs some_open by (simp add: cycles_of_def r)
  have some: "\<forall>c\<in>set closed. snd c \<noteq> None" using form by (simp add: cycles_of_def)
  have "check_cycles sha host j' (commands_of j') (closed @ [(opened, Some r)]) None = Inr (recoveryEvidence j')"
    unfolding check_cycles_snoc using cycles_before[OF kept some closed] cycle by (simp add: evidence)
  with split replay show ?thesis by (auto simp: recovery_integrity_iff evidence)
qed

section \<open>Replaying one more receipt\<close>

lemma replay_append:
  assumes h: "replay_receipts j = Inr h" and r: "receipts j' = receipts j @ [r]"
    and same: "\<And>r c. r \<in> set (receipts j) \<Longrightarrow> receipt_evidence_of r = Acquire_Evidence c \<Longrightarrow>
      map leaseId (filter (\<lambda>l. lease_key l = acquisition_key c) (leases j'))
        = map leaseId (filter (\<lambda>l. lease_key l = acquisition_key c) (leases j))"
  shows "replay_receipts j' = replay_receipt (leases j') r h"
proof -
  have "foldE (replay_receipt (leases j')) (receipts j) empty_history
      = foldE (replay_receipt (leases j)) (receipts j) empty_history"
    by (intro foldE_cong replay_receipt_cong same)
  with h show ?thesis
    by (cases "replay_receipt (leases j') r h") (simp_all add: replay_receipts_def r foldE_append)
qed

lemma follows_filter_ids:
  assumes "list_all2 follows ls ls'"
  shows "map leaseId (filter (\<lambda>l. lease_key l = k) ls') = map leaseId (filter (\<lambda>l. lease_key l = k) ls)"
  using assms by (induction rule: list_all2_induct) (simp_all add: follows_fields)

lemma fresh_filter_ids:
  assumes "evidence_bound sha ls r" "receipt_evidence_of r = Acquire_Evidence c" "lease_key n \<notin> lease_key ` set ls"
  shows "filter (\<lambda>l. lease_key l = acquisition_key c) (ls @ [n]) = filter (\<lambda>l. lease_key l = acquisition_key c) ls"
proof -
  from assms(1,2) obtain l where l: "filter (\<lambda>l. lease_key l = acquisition_key c) ls = [l]"
    by (auto simp: evidence_bound_def)
  from filter_single[OF l] assms(3) have "lease_key n \<noteq> acquisition_key c" by (metis imageI)
  then show ?thesis by simp
qed

lemma replay_distinct:
  assumes "replay_receipts j = Inr h"
  shows "distinct (map fst (history_leases h))"
proof -
  have upd: "distinct (map fst (fold (\<lambda>i d. AList.update i (f i) d) is d))"
    if "distinct (map fst d)" for f :: "string \<Rightarrow> slice_state \<times> bool" and "is" d
    using that by (induction "is" arbitrary: d) (simp_all add: AList.distinct_update)
  show ?thesis
    using assms unfolding replay_receipts_def
  proof (rule foldE_invariant[where P = "\<lambda>h. distinct (map fst (history_leases h))"])
    fix r h h' assume "replay_receipt (leases j) r h = Inr h'" "distinct (map fst (history_leases h))"
    then show "distinct (map fst (history_leases h'))"
      unfolding replay_receipt_def Let_def
      by (cases "receipt_evidence_of r")
        (auto simp: AList.distinct_update upd elim!: raise_ifE split: list.splits)
  qed (simp add: empty_history_def)
qed

text \<open>The leases a replay would revoke are the recoverable ones.\<close>

lemma recoverable_ids_eq:
  assumes h: "sourced j h" and ids: "distinct (map leaseId (leases j))"
  shows "recoverable_ids (history_leases h) = sort (map leaseId (recoverable_leases j))"
proof -
  let ?xs = "map fst (filter (\<lambda>(i, state, rel). \<not> rel \<and> state \<noteq> CLOSED) (history_leases h))"
  let ?ys = "map leaseId (recoverable_leases j)"
  from h have replay: "replay_receipts j = Inr h" by (simp add: sourced_def)
  note keys = replay_distinct[OF replay]
  from h have dom: "fst ` set (history_leases h) = leaseId ` set (leases j)"
    and val: "\<forall>l\<in>set (leases j). map_of (history_leases h) (leaseId l) = Some (lease_state l, released l)"
    by (simp_all add: sourced_def)
  have "i \<in> set ?xs \<longleftrightarrow> i \<in> set ?ys" for i
  proof -
    have "i \<in> set ?xs \<longleftrightarrow> (\<exists>s b. map_of (history_leases h) i = Some (s, b) \<and> \<not> b \<and> s \<noteq> CLOSED)"
      using keys by (force simp: image_iff)
    also have "\<dots> \<longleftrightarrow> i \<in> set ?ys"
    proof
      assume "\<exists>s b. map_of (history_leases h) i = Some (s, b) \<and> \<not> b \<and> s \<noteq> CLOSED"
      then obtain s b where sb: "map_of (history_leases h) i = Some (s, b)" "\<not> b" "s \<noteq> CLOSED" by blast
      then have "i \<in> fst ` set (history_leases h)" by (force dest: map_of_SomeD)
      then obtain l where l: "l \<in> set (leases j)" "i = leaseId l" using dom by blast
      with val sb show "i \<in> set ?ys" by (auto simp: recoverable_leases_def)
    next
      assume "i \<in> set ?ys"
      with val show "\<exists>s b. map_of (history_leases h) i = Some (s, b) \<and> \<not> b \<and> s \<noteq> CLOSED"
        by (auto simp: recoverable_leases_def)
    qed
    finally show ?thesis .
  qed
  then have "set ?xs = set ?ys" by blast
  moreover have "distinct ?xs" using keys by (rule distinct_map_filter)
  moreover have "distinct ?ys" unfolding recoverable_leases_def using ids by (rule distinct_map_filter)
  ultimately have "sort ?xs = sort ?ys" by (intro sorted_distinct_set_unique) simp_all
  then show ?thesis by (simp only: recoverable_ids_def)
qed

section \<open>The frame of a step\<close>

text \<open>Leases changed in place.\<close>

lemma accepted_follow:
  assumes integrity: "validate_journal_integrity sha host j persisted = Inr ()" and ok: "journal_ok key j"
    and app: "appends sha j j'" and r: "receipts j' = receipts j @ [r]"
    and lanes: "list_all2 follows (leases j) (leases j')"
    and sound: "receipt_sound sha key (leases j') (journalVersion j', r)"
    and other: "acquire_command_in (receipt_evidence_of r) = None"
    and token: "receipt_fencingToken r < nextFencingToken j'"
    and recovery: "keeps_lanes j j' \<Longrightarrow> validate_recovery_integrity sha host j' (commands_of j')
      (filter is_observation (receipts j')) (filter is_recovery (receipts j')) = Inr ()"
  shows "validate_journal_integrity sha host j' True = Inr ()"
proof -
  note fields = follows_map_fields[OF lanes]
  have keys: "distinct (map lease_key (leases j'))" "distinct (map leaseId (leases j'))"
    unfolding fields using accepted_keys[OF integrity] .
  have key: "journal_executionKey j' = key" using ok app by (simp add: journal_ok_def appends_def)
  have bound: "evidence_bound sha (leases j') r" if "evidence_bound sha (leases j) r" for r
    using lanes that by (rule evidence_bound_follows)
  have all_bound: "\<forall>r\<in>set (receipts j'). evidence_bound sha (leases j') r"
    using bound accepted_bound[OF integrity] sound by (auto simp: r receipt_sound_def Let_def)
  have pair: "\<exists>l'\<in>set (leases j'). follows l l'" if "l \<in> set (leases j)" for l
    using lanes that by (metis in_set_conv_nth list_all2_conv_all_nth)
  note kept = commands_kept[OF integrity r keys(2,1) all_bound]
  have "keeps_lanes j j'"
    unfolding keeps_lanes_def
  proof (intro conjI ballI impI)
    fix l assume l: "l \<in> set (leases j)"
    then obtain l' where l': "l' \<in> set (leases j')" "follows l l'" using pair by blast
    then show "\<exists>l'\<in>set (leases j'). same_lane l l'" using follows_same_lane by blast
    show "released l \<Longrightarrow> l \<in> set (leases j')" using l' follows_parts(1)[OF l'(2)] by simp
    show "map_of (commands_of j') (leaseId l) = map_of (commands_of j) (leaseId l)"
      using kept(1)[OF l l'(1) follows_same_lane[OF l'(2)]] other by simp
  qed (use accepted_keys[OF integrity] keys in blast)+
  note recovery = recovery[OF this]
  have old: "\<forall>l\<in>set (leases j). lease_executionKey l = key \<and> lease_fencingToken l < nextFencingToken j" "lanes_ok (leases j)"
    using ok by (simp_all add: journal_ok_def)
  have lanes_ok: "lanes_ok (leases j')" using lane_step_ok[OF follow_lanes[OF lanes] old(2)] .
  have grows: "nextFencingToken j \<le> nextFencingToken j'" using app by (simp add: appends_def)
  have each: "lease_executionKey l' = key \<and> lease_fencingToken l' < nextFencingToken j'
      \<and> length (acquisitions l' (receipts j')) = 1" if l': "l' \<in> set (leases j')" for l'
  proof -
    obtain l where l: "l \<in> set (leases j)" "follows l l'" using lanes l' by (rule follows_member)
    have "length (acquisitions l (receipts j)) = 1" using integrity l(1) by (simp add: integrity_iff)
    with kept(2)[OF l(1) l' follows_same_lane[OF l(2)]] other old(1) l grows show ?thesis
      by (auto simp: follows_fields[OF l(2)])
  qed
  show ?thesis
    by (rule integrity_snoc[OF integrity app r lanes_ok keys(1) _ _ bound _ token _ recovery])
      (use each key sound in auto)
qed

text \<open>A lane added.\<close>

lemma accepted_add:
  assumes integrity: "validate_journal_integrity sha host j persisted = Inr ()" and ok: "journal_ok key j"
    and app: "appends sha j j'" and r: "receipts j' = receipts j @ [r]" "receipt_evidence_of r = Acquire_Evidence c"
    and lanes: "leases j' = leases j @ [n]" "lane_step (leases j) (leases j')"
    and fresh: "leaseId n \<notin> leaseId ` set (leases j)" "lease_key n \<notin> lease_key ` set (leases j)"
    and n: "lease_executionKey n = key" "lease_fencingToken n < nextFencingToken j'" "lease_key n = acquisition_key c"
    and sound: "receipt_sound sha key (leases j') (journalVersion j', r)"
    and token: "receipt_fencingToken r < nextFencingToken j'"
    and recovery: "keeps_lanes j j' \<Longrightarrow> validate_recovery_integrity sha host j' (commands_of j')
      (filter is_observation (receipts j')) (filter is_recovery (receipts j')) = Inr ()"
  shows "validate_journal_integrity sha host j' True = Inr ()"
proof -
  have keys: "distinct (map lease_key (leases j'))" "distinct (map leaseId (leases j'))"
    using accepted_keys[OF integrity] fresh by (simp_all add: lanes(1))
  have key: "journal_executionKey j' = key" using ok app by (simp add: journal_ok_def appends_def)
  have bound: "evidence_bound sha (leases j') r" if "evidence_bound sha (leases j) r" for r
    unfolding lanes(1) using that fresh by (rule evidence_bound_add)
  have all_bound: "\<forall>r\<in>set (receipts j'). evidence_bound sha (leases j') r"
    using bound accepted_bound[OF integrity] sound by (auto simp: r receipt_sound_def Let_def)
  have same: "same_lane l l" for l by (simp add: same_lane_def)
  have other: "acquisition_key c' \<noteq> lease_key l"
    if "acquire_command_in (receipt_evidence_of r) = Some c'" "l \<in> set (leases j)" for c' l
    using that fresh(2) n(3) by (auto simp: r(2) image_iff)
  have kept: "map_of (commands_of j') (leaseId l) = map_of (commands_of j) (leaseId l)"
    "acquisitions l (receipts j') = acquisitions l (receipts j)" if "l \<in> set (leases j)" for l
    using commands_kept[OF integrity r(1) keys(2,1) all_bound that _ same] that other by (auto simp: lanes(1))
  have "keeps_lanes j j'"
    unfolding keeps_lanes_def
  proof (intro conjI ballI impI)
    show "\<exists>l'\<in>set (leases j'). same_lane l l'" if "l \<in> set (leases j)" for l
      using that same by (auto simp: lanes(1))
  qed (use accepted_keys(2)[OF integrity] keys(2) kept in \<open>simp_all add: lanes(1)\<close>)
  note recovery = recovery[OF this]
  have old: "\<forall>l\<in>set (leases j). lease_executionKey l = key \<and> lease_fencingToken l < nextFencingToken j" "lanes_ok (leases j)"
    using ok by (simp_all add: journal_ok_def)
  have lanes_ok: "lanes_ok (leases j')" using lane_step_ok[OF lanes(2) old(2)] .
  have grows: "nextFencingToken j \<le> nextFencingToken j'" using app by (simp add: appends_def)
  have "acquisitions n (receipts j) = []"
    using acquisitions_fresh[OF _ fresh(2)] accepted_bound[OF integrity] by blast
  then have new: "acquisitions n (receipts j') = [c]" by (simp add: r acquisitions_snoc n(3))
  have each: "lease_executionKey l' = key \<and> lease_fencingToken l' < nextFencingToken j'
      \<and> length (acquisitions l' (receipts j')) = 1" if l': "l' \<in> set (leases j')" for l'
  proof (cases "l' = n")
    case True
    with n new show ?thesis by simp
  next
    case False
    with l' have l: "l' \<in> set (leases j)" by (simp add: lanes(1))
    with integrity have "length (acquisitions l' (receipts j)) = 1" by (simp add: integrity_iff)
    with kept(2)[OF l] old(1) l grows show ?thesis by auto
  qed
  show ?thesis
    by (rule integrity_snoc[OF integrity app r(1) lanes_ok keys(1) _ _ bound _ token _ recovery])
      (use each key sound in auto)
qed

end
