(* ===== verification/Coordinator_Closure.thy ===== *)
theory Coordinator_Closure
  imports Coordinator_Accepted
begin

text \<open>
  Each command of the coordinator, started on an accepted journal, proposes an accepted journal:
  what \<open>replace_journal\<close> checks before it writes, and \<open>read_journal\<close> after it has read, holds of
  every proposal. Two assumptions remain, both on things outside the journal: the truncated hash
  that names a new lease names no earlier one, and the authority a recovery command names is the
  one the acquired snapshots recorded.
\<close>

section \<open>Transitions\<close>

lemma verified_digest:
  assumes "verify_command_digest sha payload d = Inr u"
  shows "d = sha256_json sha (JObj payload)"
  using assms by (simp add: verify_command_digest_def result_simps)

lemma normalize_transition_digest:
  assumes "normalize_transition_command sha raw = Inr c"
  shows "transition_digest c = sha256_json sha (JObj (transition_payload c))"
proof -
  from assms have "verify_command_digest sha (transition_payload c) (transition_digest c) = Inr ()"
    unfolding normalize_transition_command_def by (elim raise_ifE bindE_InrE) simp
  then show ?thesis by (rule verified_digest)
qed

lemma filter_id:
  assumes "distinct (map leaseId ls)" "l \<in> set ls" "P l"
  shows "filter (\<lambda>m. leaseId m = leaseId l \<and> P m) ls = [l]"
  using assms by (induction ls) (auto simp: filter_empty_conv image_iff)

lemma transition_sealed:
  "receipts (fst (commit_transition sha key j l c fp k)) = receipts j @ [snd (commit_transition sha key j l c fp k)]"
  "receipt_executionKey (snd (commit_transition sha key j l c fp k)) = key"
  "previousJournalVersion (snd (commit_transition sha key j l c fp k)) = journalVersion j"
  "nextJournalVersion (snd (commit_transition sha key j l c fp k)) = journalVersion j + 1"
  "receipt_commandDigest (snd (commit_transition sha key j l c fp k)) = transition_digest c"
  "receipt_fencingToken (snd (commit_transition sha key j l c fp k)) = lease_fencingToken l"
  "receipt_previousState (snd (commit_transition sha key j l c fp k)) = Some (expectedState c)"
  "receipt_nextState (snd (commit_transition sha key j l c fp k)) = Some (transition_nextState c)"
  "receipt_snapshotFingerprint (snd (commit_transition sha key j l c fp k)) = transition_snapshotFingerprint c"
  "journalVersion (fst (commit_transition sha key j l c fp k)) = journalVersion j + 1"
  by (simp_all add: commit_transition_def Let_def transition_receipt_def)

lemma accepted_transition:
  assumes integrity: "validate_journal_integrity sha host j persisted = Inr ()"
    and ok: "journal_ok key j" and h: "sourced j h" and identity: "projectExecutionKey identity = key"
    and step: "transition_step sha live identity j raw = Inr (Commit j' r)"
  shows "validate_journal_integrity sha host j' True = Inr ()"
proof -
  obtain c l fp candidate where c: "normalize_transition_command sha raw = Inr c"
    and find: "find_lease (transition_leaseId c) (leases j) = Some l"
    and fp: "authorize_transition sha live identity j l c = Inr fp"
    and check: "check_transition live j l c = Inr candidate"
    and j': "j' = fst (commit_transition sha key j l c fp candidate)"
    and r: "r = snd (commit_transition sha key j l c fp candidate)"
    using step identity by (auto elim: transition_step_Commit)
  note l = find_lease_Some[OF find] and sealed = transition_sealed[of sha key j l c fp candidate, folded j' r]
  from fp have clear: "recoveryState j = CLEAR" and attempt: "lease_attemptId l = transition_attemptId c"
    and token: "lease_fencingToken l = transition_fencingToken c"
    by - (erule authorize_transition_Inr, assumption)+
  have ev: "receipt_evidence_of r = Transition_Evidence c" by (simp add: r)
  have ids: "distinct (map leaseId (leases j))" using integrity by (rule integrity_ids)
  have lanes: "list_all2 follows (leases j) (leases j')"
    unfolding j' commit_fields using ids l(1) transitioned_follows[OF check] by (rule update_lease_follows)
  have "filter (\<lambda>m. leaseId m = transition_leaseId c \<and> lease_attemptId m = transition_attemptId c) (leases j) = [l]"
    using filter_id[OF ids l(1), of "\<lambda>m. lease_attemptId m = transition_attemptId c"] l(2) attempt by simp
  then have "evidence_bound sha (leases j) r"
    using token sealed by (simp add: evidence_bound_def ev)
  then have "evidence_bound sha (leases j') r" by (rule evidence_bound_follows[OF lanes])
  then have sound: "receipt_sound sha key (leases j') (journalVersion j', r)"
    using sealed normalize_transition_digest[OF c] by (simp add: receipt_sound_def ev)
  have app: "appends sha j j'" unfolding j' by (rule commit_appends)
  have grows: "receipt_fencingToken r < nextFencingToken j'"
    using ok l(1) app by (fastforce simp: journal_ok_def appends_def sealed)
  show ?thesis
  proof (rule accepted_follow[OF integrity ok app sealed(1) lanes sound _ grows])
    assume kept: "keeps_lanes j j'"
    from h have replay: "replay_receipts j = Inr h" and pending: "\<not> recovery_pending h"
      and dom: "fst ` set (history_leases h) = leaseId ` set (leases j)"
      using clear by (simp_all add: sourced_def)
    have "replay_receipts j' = replay_receipt (leases j') r h"
      using replay sealed(1) follows_filter_ids[OF lanes] by (rule replay_append)
    moreover have "map_of (history_leases h) (transition_leaseId c) \<noteq> None"
      using l dom by (metis imageI map_of_eq_None_iff)
    ultimately obtain h' where h': "replay_receipts j' = Inr h'"
      using pending by (auto simp: replay_receipt_def ev)
    show "validate_recovery_integrity sha host j' (commands_of j')
        (filter is_observation (receipts j')) (filter is_recovery (receipts j')) = Inr ()"
      by (rule recovery_kept[OF kept accepted_recovery[OF integrity] clear _ _ sealed(1) _ h'])
        (simp_all add: j' commit_fields clear ev[unfolded r] is_mutation_def r)
  qed (simp add: ev)
qed

section \<open>Observations\<close>

lemma canonical_path_set_sorted:
  assumes "canonical_path_set ps = Inr qs"
  shows "sorted_union qs [] = qs"
  using assms by (auto simp: canonical_path_set_def result_simps sorted_union_def distinct_remdups_id
      sort_key_id_if_sorted)

lemma normalize_observation_Inr:
  assumes "normalize_write_observation_command sha raw = Inr c"
  shows "observation_digest c = sha256_json sha (JObj (observation_payload c))"
    "sorted_union (observedPaths c) [] = observedPaths c"
proof -
  from assms have "verify_command_digest sha (observation_payload c) (observation_digest c) = Inr ()"
    unfolding normalize_write_observation_command_def Let_def by (elim raise_ifE bindE_InrE) auto
  then show "observation_digest c = sha256_json sha (JObj (observation_payload c))" by (rule verified_digest)
  from assms obtain ps where "canonical_path_set ps = Inr (observedPaths c)"
    unfolding normalize_write_observation_command_def Let_def by (elim raise_ifE bindE_InrE) auto
  then show "sorted_union (observedPaths c) [] = observedPaths c" by (rule canonical_path_set_sorted)
qed

lemma observation_sealed:
  "receipts (fst (commit_quarantine sha j l c paths ds)) = receipts j @ [snd (commit_quarantine sha j l c paths ds)]"
  "receipt_executionKey (snd (commit_quarantine sha j l c paths ds)) = journal_executionKey j"
  "previousJournalVersion (snd (commit_quarantine sha j l c paths ds)) = journalVersion j"
  "nextJournalVersion (snd (commit_quarantine sha j l c paths ds)) = journalVersion j + 1"
  "receipt_commandDigest (snd (commit_quarantine sha j l c paths ds)) = observation_digest c"
  "receipt_fencingToken (snd (commit_quarantine sha j l c paths ds)) = observation_fencingToken c"
  "receipt_previousState (snd (commit_quarantine sha j l c paths ds)) = Some (lease_state l)"
  "receipt_nextState (snd (commit_quarantine sha j l c paths ds)) = Some (lease_state l)"
  "receipt_snapshotFingerprint (snd (commit_quarantine sha j l c paths ds)) = lease_snapshotFingerprint l"
  "recordedAt (snd (commit_quarantine sha j l c paths ds)) = quiescence_observedAt (observation_quiescence c)"
  "receipt_evidence_of (snd (commit_quarantine sha j l c paths ds)) =
     Quarantine_Evidence c paths (sort (map leaseId (recoverable_leases j))) ds"
  "journalVersion (fst (commit_quarantine sha j l c paths ds)) = journalVersion j + 1"
  by (simp_all add: commit_quarantine_def Let_def observation_receipt_def)

lemma quarantined_fields [simp]:
  "leaseId (quarantined l) = leaseId l" "lease_fencingToken (quarantined l) = lease_fencingToken l"
  "lease_snapshotFingerprint (quarantined l) = lease_snapshotFingerprint l"
  by (simp_all add: quarantined_def)

lemma find_lease_map:
  assumes "\<And>l. leaseId (f l) = leaseId l"
  shows "find_lease i (map f ls) = map_option f (find_lease i ls)"
  using assms by (induction ls) (simp_all add: find_lease_def)

text \<open>The observation of the receipt just written.\<close>

lemma check_new_observation:
  assumes integrity: "validate_journal_integrity sha host j persisted = Inr ()"
    and kept: "keeps_lanes j j'" and leases: "leases j' = map quarantined (leases j)"
    and find: "find_lease (observation_leaseId c) (leases j) = Some l"
    and l: "lease_fencingToken l = observation_fencingToken c" "\<not> released l" "lease_state l \<noteq> CLOSED"
    and ordered: "sorted_union (observedPaths c) [] = observedPaths c"
    and observed: "observed = sorted_union (prior_paths j) (observedPaths c)"
    and ds: "affected_decisions j observed = Inr ds"
    and ev: "receipt_evidence_of r = Quarantine_Evidence c observed R ds"
    and R: "R = sort (map leaseId (recoverable_leases j))"
    and r: "receipt_fencingToken r = observation_fencingToken c"
      "receipt_snapshotFingerprint r = lease_snapshotFingerprint l"
      "recordedAt r = quiescence_observedAt (observation_quiescence c)"
      "receipt_previousState r = receipt_nextState r"
  shows "check_observation j' (commands_of j') R r (prior_paths j, []) = Inr (observed, ds)"
proof -
  have ids: "distinct (map leaseId (leases j))" using integrity by (rule integrity_ids)
  then have ids': "distinct (map leaseId (leases j'))" by (simp add: leases comp_def)
  note mem = find_lease_Some[OF find]
  have found: "map_of (leases_by_id (leases j')) (observation_leaseId c) = Some (quarantined l)"
    by (simp add: leases_by_id_lookup[OF ids'], simp add: leases find_lease_map find)
  have sub: "set (recoverable_leases j) \<subseteq> set (leases j)" and "distinct (map leaseId (recoverable_leases j))"
    using ids by (auto simp: recoverable_leases_def distinct_map_filter)
  then have "expected_recovery_decisions (leases j) (commands_of j) R observed = Inr ds"
    using expected_decisions_eq[OF integrity _ sub, of R] ds by (simp add: R affected_decisions_eq[OF integrity])
  moreover have "set R \<subseteq> leaseId ` set (leases j)" using sub by (auto simp: R)
  ultimately have expected: "expected_recovery_decisions (leases j') (commands_of j') R observed = Inr ds"
    using expected_decisions_cong[OF keeps_lanes_view[OF kept]] by simp
  have "observation_leaseId c \<in> set R"
    using mem l(2,3) by (auto simp: R recoverable_leases_def intro!: image_eqI[of _ _ l])
  then show ?thesis
    using l(1) r ordered expected by (simp add: check_observation_def ev found observed[symmetric])
qed

lemma check_new_quarantine:
  assumes "distinct (map leaseId (leases j))" "leases j' = map quarantined (leases j)"
    "recoveryState j' = PROJECT_WRITESET_RECOVERY" "R = sort (map leaseId (recoverable_leases j))"
  shows "check_pending_cycle j' True R = Inr ()"
proof -
  have ids': "distinct (map leaseId (leases j'))" using assms(1) by (simp add: assms(2) comp_def)
  have "map_of (leases_by_id (leases j')) (leaseId m) = Some (quarantined m)
      \<and> \<not> released (quarantined m) \<and> recoveryStatus (quarantined m) = PROJECT_WRITESET_RECOVERY"
    if "m \<in> set (recoverable_leases j)" for m
    using that find_lease_member[OF assms(1), of m]
    by (simp add: leases_by_id_lookup[OF ids'], simp add: assms(2) find_lease_map recoverable_leases_def quarantined_def)
  then show ?thesis
    by (auto simp: check_pending_cycle_def assms(3,4) list_ex_iff result_simps)
qed

lemma accepted_quarantine:
  assumes integrity: "validate_journal_integrity sha host j persisted = Inr ()"
    and ok: "journal_ok key j" and h: "sourced j h"
    and c: "normalize_write_observation_command sha raw = Inr c"
    and step: "quarantine_step sha j c (observedPaths c) = Inr (Commit j' r)"
  shows "validate_journal_integrity sha host j' True = Inr ()"
proof -
  let ?observed = "sorted_union (prior_paths j) (observedPaths c)"
  obtain ds l where find: "find_lease (observation_leaseId c) (leases j) = Some l"
    and token: "lease_fencingToken l = observation_fencingToken c" and rel: "\<not> released l"
    and ds: "affected_decisions j ?observed = Inr ds"
    and j': "j' = fst (commit_quarantine sha j l c ?observed ds)"
    and r: "r = snd (commit_quarantine sha j l c ?observed ds)"
    using step by (auto elim: quarantine_step_Commit)
  let ?R = "sort (map leaseId (recoverable_leases j))"
  note mem = find_lease_Some[OF find] and sealed = observation_sealed[of sha j l c ?observed ds, folded j' r]
  note ev = sealed(11) and normal = normalize_observation_Inr[OF c]
  have leases: "leases j' = map quarantined (leases j)" by (simp add: j' commit_fields)
  have ids: "distinct (map leaseId (leases j))" using integrity by (rule integrity_ids)
  have lanes: "list_all2 follows (leases j) (leases j')"
    unfolding leases using quarantined_follows by (rule map_follows)
  have unclosed: "lease_state l \<noteq> CLOSED" using ok mem(1) rel by (auto simp: journal_ok_def lease_ok_def)
  have app: "appends sha j j'" unfolding j' by (rule commit_appends)
  have key: "journal_executionKey j = key" using ok by (simp add: journal_ok_def)
  have sound: "receipt_sound sha key (leases j') (journalVersion j', r)"
    using sealed normal(1) by (simp add: receipt_sound_def evidence_bound_def key)
  have grows: "receipt_fencingToken r < nextFencingToken j'"
    using ok mem(1) app token by (fastforce simp: journal_ok_def appends_def sealed)
  show ?thesis
  proof (rule accepted_follow[OF integrity ok app sealed(1) lanes sound _ grows])
    assume kept: "keeps_lanes j j'"
    have observation: "check_observation j' (commands_of j') ?R r (prior_paths j, []) = Inr (?observed, ds)"
      by (rule check_new_observation[OF integrity kept leases find token rel unclosed normal(2) refl ds ev refl])
        (simp_all add: sealed)
    from h have "replay_receipts j = Inr h" by (simp add: sourced_def)
    then have "replay_receipts j' = replay_receipt (leases j') r h"
      using sealed(1) follows_filter_ids[OF lanes] by (rule replay_append)
    then obtain h' where h': "replay_receipts j' = Inr h'"
      using recoverable_ids_eq[OF h ids] by (simp add: replay_receipt_def ev)
    have some: "?R \<noteq> []"
    proof
      assume "?R = []"
      then have "set ?R = {}" by (simp only: list.set)
      then have "recoverable_leases j = []" by simp
      with mem(1) rel unclosed show False by (auto simp: recoverable_leases_def filter_empty_conv)
    qed
    show "validate_recovery_integrity sha host j' (commands_of j')
        (filter is_observation (receipts j')) (filter is_recovery (receipts j')) = Inr ()"
      by (rule recovery_opened[OF kept ok accepted_recovery[OF integrity] sealed(1) ev refl some observation
            check_new_quarantine[OF ids leases _ refl] _ h']) (simp_all add: j' commit_fields)
  qed (simp add: ev)
qed

lemma accepted_observation:
  assumes "validate_journal_integrity sha host j persisted = Inr ()" "journal_ok key j" "sourced j h"
    "normalize_write_observation_command sha raw = Inr c"
    "observe_step sha live (Some j) c = Inr (Commit j' r)"
  shows "validate_journal_integrity sha host j' True = Inr ()"
  using accepted_quarantine[OF assms(1-4) observed_quarantine[OF assms(5)]] .

section \<open>Recoveries\<close>

lemma normalize_recovery_Inr:
  assumes "normalize_recovery_command sha raw = Inr c"
  shows "recovery_digest c = sha256_json sha (JObj (recovery_payload c))"
    "distinct (map quiescent_leaseId (processQuiescenceProofs c))"
    "set (map quiescent_leaseId (processQuiescenceProofs c)) = set (map decided_leaseId (affectedLeaseDecisions c))"
proof -
  from assms have "verify_command_digest sha (recovery_payload c) (recovery_digest c) = Inr ()"
    unfolding normalize_recovery_command_def Let_def by (elim raise_ifE bindE_InrE) auto
  then show "recovery_digest c = sha256_json sha (JObj (recovery_payload c))" by (rule verified_digest)
  from assms have "\<exists>qs. canonical_object_set quiescent_leaseId qs = Inr (processQuiescenceProofs c)"
    unfolding normalize_recovery_command_def Let_def by (elim raise_ifE bindE_InrE) auto
  then obtain qs where qs: "sort_key quiescent_leaseId qs = processQuiescenceProofs c" "distinct (map quiescent_leaseId qs)"
    by (auto simp: canonical_object_set_def result_simps)
  then show "distinct (map quiescent_leaseId (processQuiescenceProofs c))"
    by (simp add: qs(1)[symmetric] distinct_map)
  from assms show "set (map quiescent_leaseId (processQuiescenceProofs c)) = set (map decided_leaseId (affectedLeaseDecisions c))"
    unfolding normalize_recovery_command_def Let_def by (elim raise_ifE bindE_InrE)
      (drule sum.inject(2)[THEN iffD1], drule sym, simp)
qed

lemma recovery_sealed:
  "receipts (fst (commit_recovery sha j c e fp)) = receipts j @ [snd (commit_recovery sha j c e fp)]"
  "receipt_executionKey (snd (commit_recovery sha j c e fp)) = journal_executionKey j"
  "previousJournalVersion (snd (commit_recovery sha j c e fp)) = journalVersion j"
  "nextJournalVersion (snd (commit_recovery sha j c e fp)) = journalVersion j + 1"
  "receipt_commandDigest (snd (commit_recovery sha j c e fp)) = recovery_digest c"
  "receipt_fencingToken (snd (commit_recovery sha j c e fp)) = Max (set (map quiescent_fencingToken (processQuiescenceProofs c)))"
  "receipt_previousState (snd (commit_recovery sha j c e fp)) = None"
  "receipt_nextState (snd (commit_recovery sha j c e fp)) = None"
  "receipt_snapshotFingerprint (snd (commit_recovery sha j c e fp)) = fp"
  "recordedAt (snd (commit_recovery sha j c e fp)) = Max (set (map quiescent_observedAt (processQuiescenceProofs c)))"
  "receipt_evidence_of (snd (commit_recovery sha j c e fp)) =
     Recovery_Evidence c (evidence_observed e) (evidence_revoked e) (evidence_decisions e)"
  "receiptId (snd (commit_recovery sha j c e fp)) = expected_receipt_id sha (snd (commit_recovery sha j c e fp))"
  "journalVersion (fst (commit_recovery sha j c e fp)) = journalVersion j + 1"
  by (simp_all add: commit_recovery_def Let_def recovery_receipt_def expected_receipt_id_def)

lemma recovered_fields [simp]:
  "lease_fencingToken (recovered c l) = lease_fencingToken l"
  "lease_snapshotFingerprint (recovered c l) = lease_snapshotFingerprint l"
  by (auto simp: recovered_def split: option.splits)

lemma mapE_Inr_member: "mapE f xs = Inr ys \<Longrightarrow> x \<in> set xs \<Longrightarrow> \<exists>y\<in>set ys. f x = Inr y"
  by (induction xs arbitrary: ys) (auto simp: result_simps)

lemma authorize_recovery_Inr:
  assumes "authorize_recovery sha live identity j c ls = Inr fp"
  shows "set (map lease_snapshotFingerprint ls) = {fp}"
  using assms unfolding authorize_recovery_def by (elim raise_ifE bindE_InrE) simp

lemma check_recovered_lane_Inr:
  assumes "check_recovered_lane live c l = Inr remaining"
  obtains q where "map_of (proofs_by_id c) (leaseId l) = Some q" "quiescent_fencingToken q = lease_fencingToken l"
  using assms unfolding check_recovered_lane_def lookupE_def
  by (elim raise_ifE bindE_InrE) (auto split: option.splits)

text \<open>The lease a revoked identity names, before and after the recovery.\<close>

lemma revoked_lane:
  assumes ids: "distinct (map leaseId (leases j))"
    and ls: "revoked_leases j e = Inr ls" and lanes: "mapE (check_recovered_lane live c) ls = Inr remaining"
    and leases: "leases j' = map (\<lambda>l. if leaseId l \<in> set (evidence_revoked e) then recovered c l else l) (leases j)"
    and i: "i \<in> set (evidence_revoked e)"
  obtains l q where "l \<in> set (leases j)" "leaseId l = i" "l \<in> set ls"
    "map_of (leases_by_id (leases j')) i = Some (recovered c l)"
    "map_of (proofs_by_id c) i = Some q" "quiescent_fencingToken q = lease_fencingToken l"
proof -
  let ?f = "\<lambda>l. if leaseId l \<in> set (evidence_revoked e) then recovered c l else l"
  have "map leaseId (leases j') = map leaseId (leases j)" by (simp add: leases)
  then have ids': "distinct (map leaseId (leases j'))" using ids by simp
  from ls have "mapE (\<lambda>i. case map_of (leases_by_id (leases j)) i of None \<Rightarrow> Inl corrupt | Some l \<Rightarrow> Inr l)
      (evidence_revoked e) = Inr ls" by (auto simp: revoked_leases_def result_simps)
  from mapE_Inr_member[OF this i] obtain l where l: "l \<in> set ls" "find_lease i (leases j) = Some l"
    by (auto simp: leases_by_id_lookup[OF ids] split: option.splits)
  note mem = find_lease_Some[OF l(2)]
  have "leaseId (?f m) = leaseId m" for m by simp
  from find_lease_map[of ?f, OF this] l(2) i mem(2)
  have found: "map_of (leases_by_id (leases j')) i = Some (recovered c l)"
    by (simp add: leases_by_id_lookup[OF ids']) (simp add: leases)
  obtain q where "map_of (proofs_by_id c) i = Some q" "quiescent_fencingToken q = lease_fencingToken l"
    using mapE_Inr_member[OF lanes l(1)] mem(2) by (auto elim: check_recovered_lane_Inr)
  with mem l(1) found show thesis by (rule that)
qed

lemma accepted_recovery_step:
  assumes integrity: "validate_journal_integrity sha host j persisted = Inr ()"
    and ok: "journal_ok key j" and h: "sourced j h"
    and c: "normalize_recovery_command sha raw = Inr c"
    and step: "recovery_step sha live identity (Some j) c = Inr (Commit j' r)"
    and authority: "\<And>e. recoveryEvidence j = Some e \<Longrightarrow>
      validate_persisted_recovery_authority sha host c (evidence_revoked e) (commands_of j) = Inr ()"
  shows "validate_journal_integrity sha host j' True = Inr ()"
proof -
  obtain e ls fp remaining where e: "recoveryEvidence j = Some e" and ls: "revoked_leases j e = Inr ls"
    and fp: "authorize_recovery sha live identity j c ls = Inr fp"
    and check: "check_recovery_command j c e = Inr ()"
    and lane_checks: "mapE (check_recovered_lane live c) ls = Inr remaining"
    and decided: "set (evidence_revoked e) \<subseteq> set (map decided_leaseId (affectedLeaseDecisions c))"
    and j': "j' = fst (commit_recovery sha j c e fp)" and r: "r = snd (commit_recovery sha j c e fp)"
    using step by (rule recovery_step_Commit)
  let ?R = "evidence_revoked e" and ?proofs = "processQuiescenceProofs c"
  note binds = check_recovery_command_Inr[OF check] and normal = normalize_recovery_Inr[OF c]
  note sealed = recovery_sealed[of sha j c e fp, folded j' r]
  note ev = sealed(11)
  have ids: "distinct (map leaseId (leases j))" using integrity by (rule integrity_ids)
  have key: "journal_executionKey j = key" using ok by (simp add: journal_ok_def)
  have leases: "leases j' = map (\<lambda>l. if leaseId l \<in> set ?R then recovered c l else l) (leases j)"
    unfolding j' by (rule commit_fields)
  have "follows l (if leaseId l \<in> set ?R then recovered c l else l)" if l: "l \<in> set (leases j)" for l
    using covered_iff[OF ok binds(2) e l] recovered_follows[OF normalize_recovery_decisions[OF c]] follows_refl
    by (simp add: recoverable_leases_def)
  then have lanes: "list_all2 follows (leases j) (leases j')" unfolding leases by (rule map_follows)
  have app: "appends sha j j'" unfolding j' by (rule commit_appends)
  have sound: "receipt_sound sha key (leases j') (journalVersion j', r)"
    using sealed(1-11,13) sealed(12) normal(1) by (simp add: receipt_sound_def evidence_bound_def key)
  note lane = revoked_lane[OF ids ls lane_checks leases]
  have some: "?R \<noteq> []" using ls by (auto simp: revoked_leases_def result_simps)
  have proof_token: "quiescent_fencingToken q < nextFencingToken j" if q: "q \<in> set ?proofs" for q
  proof -
    have "quiescent_leaseId q \<in> set ?R" using q binds(6) by auto
    then obtain l q' where l: "l \<in> set (leases j)" and q': "map_of (proofs_by_id c) (quiescent_leaseId q) = Some q'"
      "quiescent_fencingToken q' = lease_fencingToken l" by (rule lane)
    have "map_of (proofs_by_id c) (quiescent_leaseId q) = Some q"
      using map_of_map_key[OF normal(2) q, of "\<lambda>q. q"] by (simp add: proofs_by_id_def dict_of_key_distinct[OF normal(2)])
    with q' l ok show ?thesis by (simp add: journal_ok_def)
  qed
  have "?proofs \<noteq> []" using binds(6) some by auto
  then have "Max (set (map quiescent_fencingToken ?proofs)) < nextFencingToken j"
    using proof_token by (subst Max_less_iff) auto
  then have grows: "receipt_fencingToken r < nextFencingToken j'" using app by (auto simp: sealed appends_def)
  show ?thesis
  proof (rule accepted_follow[OF integrity ok app sealed(1) lanes sound _ grows])
    assume kept: "keeps_lanes j j'"
    have known: "set ?R \<subseteq> leaseId ` set (leases j)" by (auto elim: lane)
    have view: "\<forall>i\<in>set ?R. map_of (commands_of j') i = map_of (commands_of j) i"
      using keeps_lanes_view[OF kept known] by (simp add: same_view_def)
    have fps: "(\<lambda>i. map_option lease_snapshotFingerprint (map_of (leases_by_id (leases j')) i)) ` set ?R = {Some fp}"
    proof -
      have "map_option lease_snapshotFingerprint (map_of (leases_by_id (leases j')) i) = Some fp" if i: "i \<in> set ?R" for i
      proof -
        obtain l where "l \<in> set ls" "map_of (leases_by_id (leases j')) i = Some (recovered c l)"
          using i by (rule lane)
        with authorize_recovery_Inr[OF fp] show ?thesis by auto
      qed
      then have "(\<lambda>i. map_option lease_snapshotFingerprint (map_of (leases_by_id (leases j')) i)) ` set ?R
          = (\<lambda>_. Some fp) ` set ?R" by (intro image_cong) simp_all
      with some show ?thesis by (simp add: image_constant_conv)
    qed
    have each: "\<not> list_ex (\<lambda>i. case (map_of (leases_by_id (leases j')) i, map_of (proofs_by_id c) i) of
        (Some l, Some q) \<Rightarrow> quiescent_fencingToken q \<noteq> lease_fencingToken l
          \<or> Some (lease_state l) \<noteq> map_of (decisions_by_id (affectedLeaseDecisions c)) i
          \<or> \<not> released l \<or> recoveryStatus l \<noteq> CLEAR
      | _ \<Rightarrow> True) ?R"
    proof -
      have "case (map_of (leases_by_id (leases j')) i, map_of (proofs_by_id c) i) of
        (Some l, Some q) \<Rightarrow> \<not> (quiescent_fencingToken q \<noteq> lease_fencingToken l
          \<or> Some (lease_state l) \<noteq> map_of (decisions_by_id (affectedLeaseDecisions c)) i
          \<or> \<not> released l \<or> recoveryStatus l \<noteq> CLEAR)
      | _ \<Rightarrow> False" if i: "i \<in> set ?R" for i
      proof -
        obtain l q where l: "leaseId l = i" "map_of (leases_by_id (leases j')) i = Some (recovered c l)"
          "map_of (proofs_by_id c) i = Some q" "quiescent_fencingToken q = lease_fencingToken l"
          using i by (rule lane)
        obtain s where "map_of (decisions_by_id (affectedLeaseDecisions c)) (leaseId l) = Some s"
          "lease_state (recovered c l) = s" "released (recovered c l)" "recoveryStatus (recovered c l) = CLEAR"
          by (rule recovered_lookup[OF check decided]) (use i l(1) in blast)+
        with l show ?thesis by simp
      qed
      then show ?thesis by (fastforce simp: list_ex_iff split: option.splits)
    qed
    have closed: "check_closed_cycle sha host j' (commands_of j') True ?R (evidence_observed e) (evidence_decisions e) r = Inr c"
      unfolding check_closed_cycle_def ev receipt_evidence.case Let_def
        proofs_by_id_def[symmetric] decisions_by_id_def[symmetric] binds(5)[symmetric]
      by (rule raise_pass, use normal(2) binds fps sealed in simp,
          rule bind_pass[OF authority[OF e, folded persisted_authority_cong[OF view]]],
          rule raise_pass[OF each], rule raise_pass, simp add: j' commit_fields, rule refl)
    have replay: "replay_receipts j = Inr h" and pending: "recovery_pending h" "pending_revoked h = ?R"
      using h e binds(2) by (simp_all add: sourced_def)
    have "replay_receipts j' = replay_receipt (leases j') r h"
      using replay sealed(1) follows_filter_ids[OF lanes] by (rule replay_append)
    moreover have "set (map decided_leaseId (evidence_decisions e)) = set ?R" using normal(3) binds(5,6) by simp
    ultimately obtain h' where h': "replay_receipts j' = Inr h'"
      using pending by (simp add: replay_receipt_def ev Let_def)
    show "validate_recovery_integrity sha host j' (commands_of j')
        (filter is_observation (receipts j')) (filter is_recovery (receipts j')) = Inr ()"
      by (rule recovery_closed[OF kept ok accepted_recovery[OF integrity] binds(2) e sealed(1) _ closed _ h'])
        (simp_all add: is_recovery_def ev j' commit_fields)
  qed (simp add: ev)
qed

section \<open>Acquisitions\<close>

text \<open>What the merged planning graph holds: the last footprint of every slice.\<close>

lemma merge_footprints_inv:
  assumes "foldE (merge_footprint changed) fs d = Inr d'"
    and "distinct (map fst d)" "\<forall>(i, f)\<in>set d. sliceId f = i"
  shows "distinct (map fst d')" "\<forall>(i, f)\<in>set d'. sliceId f = i"
proof -
  have step: "e' = AList.update (sliceId f) f e" if "merge_footprint changed f e = Inr e'" for f e e'
    using that by (auto simp: merge_footprint_def split: option.splits if_splits)
  have "distinct (map fst d') \<and> (\<forall>(i, f)\<in>set d'. sliceId f = i)"
    using assms(1)
  proof (rule foldE_invariant[where P = "\<lambda>d. distinct (map fst d) \<and> (\<forall>(i, f)\<in>set d. sliceId f = i)"])
    fix f e e' assume inv: "distinct (map fst e) \<and> (\<forall>(i, f)\<in>set e. sliceId f = i)" and "merge_footprint changed f e = Inr e'"
    from step[OF this(2)] have e': "e' = AList.update (sliceId f) f e" .
    have "sliceId g = i" if "(i, g) \<in> set e'" for i g
    proof -
      from inv have d: "distinct (map fst e')" by (simp add: e' AList.distinct_update)
      then have "map_of e' i = Some g" using that by simp
      then show ?thesis
        using inv by (auto simp: e' map_of_update split: if_splits dest: map_of_SomeD)
    qed
    with inv show "distinct (map fst e') \<and> (\<forall>(i, f)\<in>set e'. sliceId f = i)"
      by (auto simp: e' AList.distinct_update)
  qed (use assms(2,3) in blast)
  then show "distinct (map fst d')" "\<forall>(i, f)\<in>set d'. sliceId f = i" by blast+
qed

lemma merge_footprints_lookup:
  assumes "foldE (merge_footprint changed) fs d = Inr d'" "distinct (map sliceId fs)"
  shows "map_of d' i = (case find (\<lambda>f. sliceId f = i) fs of None \<Rightarrow> map_of d i | Some f \<Rightarrow> Some f)"
  using assms
proof (induction fs arbitrary: d)
  case (Cons f fs)
  then obtain e where e: "merge_footprint changed f d = Inr e" "foldE (merge_footprint changed) fs e = Inr d'"
    by (auto simp: result_simps)
  have "e = AList.update (sliceId f) f d"
    using e(1) by (auto simp: merge_footprint_def split: option.splits if_splits)
  moreover have "find (\<lambda>g. sliceId g = sliceId f) fs = None"
    unfolding find_None_iff using Cons.prems(2) by (metis distinct.simps(2) image_eqI list.set_map list.simps(9))
  ultimately show ?case
    using Cons.IH[OF e(2)] Cons.prems(2) by (auto simp: map_of_update split: option.split)
qed simp

lemma merged_footprints_filter:
  assumes merged: "merged_footprints changed (fs @ gs) = Inr graph" and ids: "distinct (map sliceId gs)"
  shows "filter (\<lambda>f. sliceId f \<in> sliceId ` set gs) graph = sort_key sliceId gs"
proof -
  from merged obtain d where fold: "foldE (merge_footprint changed) (fs @ gs) [] = Inr d"
    and graph: "graph = map snd (sort_key fst d)" by (auto simp: merged_footprints_def result_simps)
  then obtain e where e: "foldE (merge_footprint changed) gs e = Inr d"
    by (auto simp: foldE_append result_simps)
  have inv: "distinct (map fst d)" "\<forall>(i, f)\<in>set d. sliceId f = i"
    using merge_footprints_inv[OF fold] by simp_all
  have "map sliceId graph = map fst (sort_key fst d)"
    using inv(2) by (auto simp: graph)
  then have graph_ids: "sorted (map sliceId graph)" "distinct (map sliceId graph)"
    using inv(1) by simp_all
  let ?zs = "filter (\<lambda>f. sliceId f \<in> sliceId ` set gs) graph"
  have found: "find (\<lambda>g. sliceId g = sliceId f) gs = Some f" if "f \<in> set gs" for f
    using that ids by (induction gs) auto
  have member: "f \<in> set graph \<longleftrightarrow> map_of d (sliceId f) = Some f" for f
    using inv by (force simp: graph image_iff)
  have "f \<in> set ?zs \<longleftrightarrow> f \<in> set gs" for f
  proof
    assume f: "f \<in> set ?zs"
    then obtain g where g: "g \<in> set gs" "sliceId f = sliceId g" by auto
    have "map_of d (sliceId g) = Some g" using merge_footprints_lookup[OF e ids] found[OF g(1)] by simp
    with f g show "f \<in> set gs" by (simp add: member)
  next
    assume f: "f \<in> set gs"
    then have "map_of d (sliceId f) = Some f" using merge_footprints_lookup[OF e ids] found by simp
    with f show "f \<in> set ?zs" by (simp add: member)
  qed
  then have "set ?zs = set gs" by blast
  moreover have zs: "distinct (map sliceId ?zs)" using graph_ids(2) by (rule distinct_map_filter)
  ultimately have "mset ?zs = mset gs"
    using ids by (intro set_eq_iff_mset_eq_distinct[THEN iffD1]) (auto simp: distinct_map)
  then have "sort_key sliceId ?zs = sort_key sliceId gs" using zs by (rule sort_key_permutation)
  moreover have "sort_key sliceId ?zs = ?zs"
    using graph_ids(1) by (intro sort_key_id_if_sorted sorted_filter)
  ultimately show ?thesis by simp
qed

lemma footprint_of_ids: "map sliceId (map (footprint_of sha p v) ds) = map sliceId ds"
  by simp

lemma normalize_acquire_Inr:
  assumes "normalize_acquire_command sha raw = Inr c"
  shows "acquire_digest c = sha256_json sha (JObj (acquire_payload c))"
    "acquisition_key c = acquisition_key raw" "distinct (map sliceId (slices (acquire_request c)))"
proof -
  from assms obtain f n where evidence: "normalize_acquire_evidence sha (raw\<lparr>acquire_footprint := f\<rparr>) = Inr n"
    and "n = c" and digest: "verify_command_digest sha (acquire_payload c) (acquire_digest c) = Inr ()"
    unfolding normalize_acquire_command_def by (elim raise_ifE bindE_InrE) simp
  show "acquire_digest c = sha256_json sha (JObj (acquire_payload c))" using digest by (rule verified_digest)
  from evidence obtain request where request: "normalize_planning_request sha (acquire_request raw) = Inr request"
    and key: "acquisition_key n = acquisition_key raw" and n: "acquire_request n = request"
    unfolding normalize_acquire_evidence_def
    by (elim bindE_InrE) (auto simp: wrap_planning_eq_Inr acquisition_key_def)
  show "acquisition_key c = acquisition_key raw" using key \<open>n = c\<close> by simp
  obtain by_path where "request_checked sha request by_path"
    using request by (rule normalize_planning_request_checked)
  then show "distinct (map sliceId (slices (acquire_request c)))"
    using n \<open>n = c\<close> by (simp add: request_checked_def)
qed

lemma acquisition_sealed:
  "receipts (fst (commit_acquisition sha key j c lane graph)) = receipts j @ [snd (commit_acquisition sha key j c lane graph)]"
  "receipt_executionKey (snd (commit_acquisition sha key j c lane graph)) = key"
  "previousJournalVersion (snd (commit_acquisition sha key j c lane graph)) = journalVersion j"
  "nextJournalVersion (snd (commit_acquisition sha key j c lane graph)) = journalVersion j + 1"
  "receipt_commandDigest (snd (commit_acquisition sha key j c lane graph)) = acquire_digest c"
  "receipt_fencingToken (snd (commit_acquisition sha key j c lane graph)) = nextFencingToken j"
  "receipt_evidence_of (snd (commit_acquisition sha key j c lane graph)) = Acquire_Evidence c"
  "journalVersion (fst (commit_acquisition sha key j c lane graph)) = journalVersion j + 1"
  "nextFencingToken (fst (commit_acquisition sha key j c lane graph)) = nextFencingToken j + 1"
  by (simp_all add: commit_acquisition_def Let_def acquire_receipt_def)

lemma new_lease_preserves:
  assumes "admit sha j c lane = Inr graph" "distinct (map sliceId (slices (acquire_request c)))"
  shows "preserves_command sha (new_lease sha key token c lane graph) c"
proof -
  let ?gs = "map (footprint_of sha (acquire_projectId c) (acquire_policyVersion c)) (sort_key sliceId (slices (acquire_request c)))"
  from assms(1) obtain active where "planning_graph sha active c = Inr graph"
    unfolding admit_def Let_def by (elim raise_ifE bindE_InrE) simp
  then obtain report where report: "build_conflict_report sha (acquire_projectId c) (acquire_snapshotFingerprint c)
      (acquire_policyVersion c) (slices (acquire_request c)) = Inr report"
    and merged: "merged_footprints (Coordination_Error ''ACTIVE_PLANNING_GRAPH_CHANGED'')
      (concat (map planningFootprints active) @ footprints report) = Inr graph"
    unfolding planning_graph_def by (elim bindE_InrE)
  have gs: "footprints report = ?gs" using build_conflict_report_eq_Inr[OF report] by blast
  have ids: "distinct (map sliceId ?gs)" using assms(2) by (simp add: comp_def)
  have "sliceId ` set ?gs = set (map sliceId (slices (acquire_request c)))" by (simp add: image_image)
  with merged_footprints_filter[OF merged[unfolded gs] ids]
  have "filter (\<lambda>f. sliceId f \<in> set (map sliceId (slices (acquire_request c)))) graph = sort_key sliceId ?gs" by simp
  also have "mset ?gs = mset (map (footprint_of sha (acquire_projectId c) (acquire_policyVersion c)) (slices (acquire_request c)))"
    by simp
  then have "sort_key sliceId ?gs = acquire_planning_footprints sha c"
    unfolding acquire_planning_footprints_def using ids by (rule sort_key_permutation)
  finally show ?thesis
    by (simp add: preserves_command_def new_lease_def lease_key_def acquisition_key_def footprint_eq_def)
qed

lemma accepted_acquisition:
  assumes integrity: "validate_journal_integrity sha host j persisted = Inr ()"
    and ok: "journal_ok key j" and h: "sourced j h" and identity: "projectExecutionKey identity = key"
    and step: "acquire_step sha live identity j raw = Inr (Commit j' r)"
    and fresh: "lease_id_of sha key raw \<notin> leaseId ` set (leases j)"
  shows "validate_journal_integrity sha host j' True = Inr ()"
proof -
  obtain c lane graph where c: "normalize_acquire_command sha raw = Inr c" and clear: "recoveryState j = CLEAR"
    and new: "\<forall>l\<in>set (leases j). lease_tuple l \<noteq> idempotency_tuple key raw"
    and graph: "admit sha j c lane = Inr graph"
    and j': "j' = fst (commit_acquisition sha key j c lane graph)"
    and r: "r = snd (commit_acquisition sha key j c lane graph)"
    using step identity by (auto elim: acquire_step_Commit)
  let ?n = "new_lease sha key (nextFencingToken j) c lane graph"
  note normal = normalize_acquire_Inr[OF c] and sealed = acquisition_sealed[of sha key j c lane graph, folded j' r]
  note ev = sealed(7)
  have leases: "leases j' = leases j @ [?n]" unfolding j' by (rule commit_fields)
  have n: "lease_executionKey ?n = key" "lease_fencingToken ?n = nextFencingToken j" "lease_key ?n = acquisition_key c"
    "leaseId ?n = lease_id_of sha key c"
    by (simp_all add: new_lease_def lease_key_def acquisition_key_def)
  have "lease_id_of sha key c = lease_id_of sha key raw"
    using normal(2) by (simp add: lease_id_of_def acquisition_key_def)
  with fresh have fresh_id: "leaseId ?n \<notin> leaseId ` set (leases j)" by (simp add: n(4))
  have fresh_key: "lease_key ?n \<notin> lease_key ` set (leases j)"
    using new ok normal(2) by (auto simp: n(3) lease_tuple_def idempotency_tuple_def journal_ok_def)
  have app: "appends sha j j'" unfolding j' by (rule commit_appends)
  have key: "journal_executionKey j = key" using ok by (simp add: journal_ok_def)
  have "lane_step (leases j) (leases j @ [?n])"
    using admit_admissible[OF graph] fresh_id ok
    by (intro add_lane) (auto simp: journal_ok_def n(2))
  then have lanes: "lane_step (leases j) (leases j')" by (simp add: leases)
  have sole: "filter (\<lambda>l. lease_key l = acquisition_key c) (leases j') = [?n]"
    using fresh_key by (auto simp: leases n(3) filter_empty_conv image_iff)
  then have "evidence_bound sha (leases j') r"
    using new_lease_preserves[OF graph normal(3)] by (simp add: evidence_bound_def ev sealed n(2))
  then have sound: "receipt_sound sha key (leases j') (journalVersion j', r)"
    using sealed normal(1) by (simp add: receipt_sound_def)
  show ?thesis
  proof (rule accepted_add[OF integrity ok app sealed(1) ev leases lanes fresh_id fresh_key n(1) _ n(3) sound])
    assume kept: "keeps_lanes j j'"
    have bound: "evidence_bound sha (leases j) r" if "r \<in> set (receipts j)" for r
      using integrity that by (rule accepted_bound)
    have "map leaseId (filter (\<lambda>l. lease_key l = acquisition_key c') (leases j'))
        = map leaseId (filter (\<lambda>l. lease_key l = acquisition_key c') (leases j))"
      if "r \<in> set (receipts j)" "receipt_evidence_of r = Acquire_Evidence c'" for r c'
      unfolding leases using fresh_filter_ids[OF bound[OF that(1)] that(2) fresh_key] by simp
    moreover have "replay_receipts j = Inr h" and pending: "\<not> recovery_pending h"
      using h clear by (simp_all add: sourced_def)
    ultimately have "replay_receipts j' = replay_receipt (leases j') r h"
      using sealed(1) by (intro replay_append)
    then obtain h' where h': "replay_receipts j' = Inr h'" using pending by (simp add: replay_receipt_def ev sole)
    show "validate_recovery_integrity sha host j' (commands_of j')
        (filter is_observation (receipts j')) (filter is_recovery (receipts j')) = Inr ()"
      by (rule recovery_kept[OF kept accepted_recovery[OF integrity] clear _ _ sealed(1) _ h'])
        (simp_all add: j' commit_fields clear ev[unfolded r] is_mutation_def r)
  qed (simp_all add: sealed n(2))
qed

end
