(* ===== verification/Coordinator_Schema.thy ===== *)
theory Coordinator_Schema
  imports Coordinator_Closure
begin

text \<open>
  The documents the coordinator writes match their JSON schemas: when a journal does, so do the
  journal and the receipt that any of the four commands proposes next.
\<close>

section \<open>Appending\<close>

lemma zero_digest_schema: "is_digest zero_digest"
  by code_simp

lemma receipt_schema_sealed:
  assumes "hex_digest sha" "receipt_schema r"
  shows "receipt_schema (snd (append_receipt sha j r))"
proof -
  have "is_digest (receipt_journalDigest (snd (append_receipt sha j r)))"
    unfolding append_receipt_digest journal_digest_def by (rule is_digest_sha256_json[OF assms(1)])
  with assms(2) show ?thesis by (simp add: receipt_schema_def)
qed

lemma receipt_id_schema: "hex_digest sha \<Longrightarrow> is_stable_id ''coordinator-receipt'' (receipt_id_of sha key version digest token)"
  by (simp add: receipt_id_of_def is_stable_id_stable_id)

lemma append_receipt_schema:
  assumes "hex_digest sha" "receipt_schema r" "journal_schema k"
  shows "journal_schema (fst (append_receipt sha k r))"
  using assms(3) receipt_schema_sealed[OF assms(1,2)] by (simp add: journal_schema_def)

lemma journal_schema_lease: "journal_schema j \<Longrightarrow> l \<in> set (leases j) \<Longrightarrow> lease_schema l"
  by (simp add: journal_schema_def list_all_iff)

section \<open>Acquisitions\<close>

lemma normalized_acquire_schema:
  assumes "normalize_acquire_command sha raw = Inr c"
  shows "acquire_schema c"
  using assms unfolding normalize_acquire_command_def validate_schema_def by (elim raise_ifE bindE_InrE) simp

lemma planned_footprints:
  assumes "admit sha j c lane = Inr graph" "distinct (map sliceId (slices (acquire_request c)))"
  obtains report where "report_schema report"
    "filter (\<lambda>f. sliceId f \<in> set (map sliceId (slices (acquire_request c)))) graph = footprints report"
    "footprints report = map (footprint_of sha (acquire_projectId c) (acquire_policyVersion c))
       (sort_key sliceId (slices (acquire_request c)))"
proof -
  let ?gs = "map (footprint_of sha (acquire_projectId c) (acquire_policyVersion c)) (sort_key sliceId (slices (acquire_request c)))"
  from assms(1) obtain active where "planning_graph sha active c = Inr graph"
    unfolding admit_def Let_def by (elim raise_ifE bindE_InrE) simp
  then obtain report where report: "build_conflict_report sha (acquire_projectId c) (acquire_snapshotFingerprint c)
      (acquire_policyVersion c) (slices (acquire_request c)) = Inr report"
    and merged: "merged_footprints (Coordination_Error ''ACTIVE_PLANNING_GRAPH_CHANGED'')
      (concat (map planningFootprints active) @ footprints report) = Inr graph"
    unfolding planning_graph_def by (elim bindE_InrE)
  have gs: "footprints report = ?gs" using build_conflict_report_eq_Inr[OF report] by blast
  have ids: "distinct (map sliceId ?gs)" using assms(2) by (simp add: comp_def)
  have "sliceId ` set ?gs = set (map sliceId (slices (acquire_request c)))" by (simp add: image_image)
  with merged_footprints_filter[OF merged[unfolded gs] ids]
  have "filter (\<lambda>f. sliceId f \<in> set (map sliceId (slices (acquire_request c)))) graph = sort_key sliceId ?gs" by simp
  moreover have "sort_key sliceId ?gs = ?gs"
    by (rule sort_key_id_if_sorted) (simp add: comp_def)
  ultimately have "filter (\<lambda>f. sliceId f \<in> set (map sliceId (slices (acquire_request c)))) graph = footprints report"
    using gs by metis
  with build_conflict_report_eq_Inr[OF report] show thesis by (intro that[of report]) auto
qed

lemma new_lease_schema:
  assumes sha: "hex_digest sha" and c: "normalize_acquire_command sha raw = Inr c"
    and graph: "admit sha j c lane = Inr graph" and key: "is_execution_key key" and token: "1 \<le> token"
    and lane: "0 \<le> identity_device lane" "1 \<le> identity_inode lane"
  shows "lease_schema (new_lease sha key token c lane graph)"
proof -
  have schema: "acquire_schema c" using c by (rule normalized_acquire_schema)
  obtain report where report: "report_schema report"
    "filter (\<lambda>f. sliceId f \<in> set (map sliceId (slices (acquire_request c)))) graph = footprints report"
    "footprints report = map (footprint_of sha (acquire_projectId c) (acquire_policyVersion c))
       (sort_key sliceId (slices (acquire_request c)))"
    using graph normalize_acquire_Inr(3)[OF c] by (rule planned_footprints)
  have "slices (acquire_request c) \<noteq> []" using schema by (simp add: acquire_schema_def request_schema_def)
  then have "set (sort_key sliceId (slices (acquire_request c))) \<noteq> {}" by simp
  then have "footprints report \<noteq> []" unfolding report(3) by (metis list.set(1) map_is_Nil_conv)
  moreover have "list_all conflict_footprint_schema (footprints report)" "distinct (footprints report)"
    using report(1) by (simp_all add: report_schema_def conflict_footprint_schema_def list_all_iff)
  ultimately show ?thesis
    using schema key token lane unfolding lease_schema_def new_lease_def lease.simps report(2)
    by (simp add: acquire_schema_def descriptor_schema_def lease_id_of_def is_stable_id_stable_id sha lease_states_def)
qed

lemma acquire_receipt_schema:
  assumes "hex_digest sha" "acquire_schema c" "is_execution_key key" "1 \<le> token" "0 \<le> version"
  shows "receipt_schema (acquire_receipt sha key version token c)"
  using assms zero_digest_schema
  by (simp add: receipt_schema_def acquire_receipt_def receipt_id_schema acquire_schema_def[of c] lease_states_def)

section \<open>Transitions\<close>

lemma normalized_transition_schema:
  assumes "normalize_transition_command sha raw = Inr c"
  shows "transition_schema c"
  using assms unfolding normalize_transition_command_def validate_schema_def by (elim raise_ifE bindE_InrE) simp

lemma successor_state: "t \<in> set (lease_successors s) \<Longrightarrow> t \<in> set lease_states"
  by (cases s) (auto simp: lease_states_def)

lemma transitioned_schema:
  assumes l: "lease_schema l" and c: "transition_schema c" and check: "check_transition live j l c = Inr k"
  shows "lease_schema (transitioned c k l)"
proof -
  from check have t: "transition_nextState c \<in> set (lease_successors (lease_state l))" and k: "next_candidate l c = Inr k"
    unfolding check_transition_def by (elim raise_ifE bindE_InrE; simp)+
  have "pred_option candidate_schema k"
  proof -
    have "pred_option candidate_schema (lease_candidate l)" "pred_option candidate_schema (transition_candidate c)"
      using l c by (simp_all add: lease_schema_def transition_schema_def)
    moreover have "k = lease_candidate l \<or> k = transition_candidate c \<or> k = None"
      using k by (auto simp: next_candidate_def split: option.splits if_splits)
    ultimately show ?thesis by auto
  qed
  with l c successor_state[OF t] show ?thesis
    by (simp add: lease_schema_def transitioned_def transition_schema_def lifecycle_proof_schema_def)
qed

lemma transition_receipt_schema:
  assumes "hex_digest sha" "lease_schema l" "transition_schema c" "is_execution_key key" "0 \<le> version"
    "check_transition live j l c = Inr k"
  shows "receipt_schema (transition_receipt sha key version (lease_fencingToken l) c)"
proof -
  from assms(6) have "transition_nextState c \<in> set (lease_successors (lease_state l))" "lease_state l = expectedState c"
    unfolding check_transition_def by (elim raise_ifE bindE_InrE; simp)+
  with successor_state have "transition_nextState c \<in> set lease_states" "expectedState c \<in> set lease_states"
    using assms(2) by (auto simp: lease_schema_def)
  then show ?thesis
    using assms zero_digest_schema
    by (simp add: receipt_schema_def transition_receipt_def receipt_id_schema lease_schema_def[of l]
        transition_schema_def[of c] lifecycle_proof_schema_def)
qed

lemma transition_keeps_schema:
  assumes sha: "hex_digest sha" and j: "journal_schema j" and key: "is_execution_key key"
    and c: "normalize_transition_command sha raw = Inr c" and l: "l \<in> set (leases j)"
    and check: "check_transition live j l c = Inr k" and ids: "distinct (map leaseId (leases j))"
  shows "journal_schema (fst (commit_transition sha key j l c fp k))"
    "receipt_schema (snd (commit_transition sha key j l c fp k))"
proof -
  note cs = normalized_transition_schema[OF c] and ls = journal_schema_lease[OF j l]
  have version: "0 \<le> journalVersion j" using j by (simp add: journal_schema_def)
  note r = transition_receipt_schema[OF sha ls cs key version check]
  show "receipt_schema (snd (commit_transition sha key j l c fp k))"
    unfolding commit_transition_def Let_def by (rule receipt_schema_sealed[OF sha r])
  have "list_all lease_schema (update_lease (leaseId l) (transitioned c k) (leases j))"
  proof -
    have "lease_schema (if leaseId m = leaseId l then transitioned c k m else m)" if m: "m \<in> set (leases j)" for m
    proof (cases "leaseId m = leaseId l")
      case True
      with ids m l have "m = l" by (metis distinct_map inj_onD)
      then show ?thesis using transitioned_schema[OF ls cs check] by simp
    qed (use journal_schema_lease[OF j m] in simp)
    then show ?thesis unfolding update_lease_def list_all_iff set_map by blast
  qed
  then show "journal_schema (fst (commit_transition sha key j l c fp k))"
    unfolding commit_transition_def Let_def using j
    by (intro append_receipt_schema[OF sha r]) (auto simp: journal_schema_def)
qed

section \<open>Observations\<close>

lemma normalized_observation_schema:
  assumes "normalize_write_observation_command sha raw = Inr c"
  shows "observation_schema c"
  using assms unfolding normalize_write_observation_command_def validate_schema_def Let_def
  by (elim raise_ifE bindE_InrE) auto

lemma string_set_union: "string_set xs \<Longrightarrow> string_set ys \<Longrightarrow> string_set (sorted_union xs ys)"
  by (auto simp: string_set_def sorted_union_def list_all_iff)

lemma prior_paths_schema: "journal_schema j \<Longrightarrow> string_set (prior_paths j)"
  by (auto simp: prior_paths_def open_evidence_def journal_schema_def recovery_evidence_schema_def string_set_def
      split: option.split)

lemma decide_lease_schema: "lease_schema l \<Longrightarrow> lease_decision_schema (decide_lease c paths l)"
  by (simp add: decide_lease_def lease_decision_schema_def lease_schema_def Let_def)

lemma affected_decisions_schema:
  assumes j: "journal_schema j" "distinct (map leaseId (leases j))" and ds: "affected_decisions j paths = Inr ds"
  shows "list_all lease_decision_schema ds \<and> distinct ds"
proof -
  let ?f = "\<lambda>l. bindE (acquire_command_for j l) (\<lambda>c. Inr (decide_lease c paths l))"
  from ds obtain es where es: "mapE ?f (recoverable_leases j) = Inr es" "ds = sort_key decided_leaseId es"
    by (auto simp: affected_decisions_def result_simps)
  have member: "lease_schema l" if "l \<in> set (recoverable_leases j)" for l
    using that journal_schema_lease[OF j(1)] by (simp add: recoverable_leases_def)
  have run: "list_all lease_decision_schema es \<and> map decided_leaseId es = map leaseId ls"
    if "mapE ?f ls = Inr es" "\<forall>l\<in>set ls. lease_schema l" for ls es
    using that
  proof (induction ls arbitrary: es)
    case (Cons l ls)
    then obtain c es' where "es = decide_lease c paths l # es'" "mapE ?f ls = Inr es'"
      by (auto simp: result_simps)
    with Cons show ?case using decide_lease_schema[of l c paths] by (auto simp: decide_lease_def Let_def)
  qed simp
  have "distinct (map leaseId (recoverable_leases j))"
    unfolding recoverable_leases_def using j(2) by (rule distinct_map_filter)
  with run[OF es(1)] member have "list_all lease_decision_schema es" "distinct (map decided_leaseId es)" by auto
  then show ?thesis by (auto simp: es(2) list_all_iff distinct_map)
qed

lemma recoverable_id_set:
  assumes "journal_schema j" "distinct (map leaseId (leases j))"
  shows "lease_id_set (sort (map leaseId (recoverable_leases j)))"
proof -
  have "distinct (map leaseId (recoverable_leases j))"
    unfolding recoverable_leases_def using assms(2) by (rule distinct_map_filter)
  moreover have "is_stable_id ''lease'' (leaseId l)" if "l \<in> set (recoverable_leases j)" for l
    using that journal_schema_lease[OF assms(1)] by (simp add: recoverable_leases_def lease_schema_def)
  ultimately show ?thesis by (simp add: lease_id_set_def list_all_iff)
qed

lemma observation_keeps_schema:
  assumes sha: "hex_digest sha" and j: "journal_schema j" "distinct (map leaseId (leases j))"
    and c: "observation_schema c" and l: "l \<in> set (leases j)" and paths: "string_set paths"
    and ds: "affected_decisions j paths = Inr ds"
  shows "journal_schema (fst (commit_quarantine sha j l c paths ds))"
    "receipt_schema (snd (commit_quarantine sha j l c paths ds))"
proof -
  note ls = journal_schema_lease[OF j(1) l] and decisions = affected_decisions_schema[OF j ds]
    and revoked = recoverable_id_set[OF j]
  have r: "receipt_schema (observation_receipt sha j l c paths (sort (map leaseId (recoverable_leases j))) ds)"
    using j(1) ls c decisions revoked paths zero_digest_schema
    by (simp add: receipt_schema_def observation_receipt_def receipt_id_schema sha journal_schema_def[of j]
        observation_schema_def lease_schema_def[of l] quiescence_schema_def)
  show "receipt_schema (snd (commit_quarantine sha j l c paths ds))"
    unfolding commit_quarantine_def Let_def by (rule receipt_schema_sealed[OF sha r])
  have "list_all lease_schema (map quarantined (leases j))"
    using j(1) by (auto simp: journal_schema_def list_all_iff quarantined_def lease_schema_def)
  then show "journal_schema (fst (commit_quarantine sha j l c paths ds))"
    unfolding commit_quarantine_def Let_def using j(1) c decisions revoked paths
    by (intro append_receipt_schema[OF sha r])
      (auto simp: journal_schema_def recovery_evidence_schema_def)
qed

section \<open>Recoveries\<close>

lemma normalized_recovery_schema:
  assumes "normalize_recovery_command sha raw = Inr c"
  shows "recovery_schema c"
  using assms unfolding normalize_recovery_command_def validate_schema_def Let_def
  by (elim raise_ifE bindE_InrE) auto

lemma recovered_schema:
  assumes l: "lease_schema l" and c: "recovery_schema c"
  shows "lease_schema (recovered c l)"
proof -
  have state: "s \<in> {STALE, CANCELLED}" if s: "map_of (decisions_by_id (affectedLeaseDecisions c)) i = Some s" for i s
  proof -
    from s obtain d where "d \<in> set (affectedLeaseDecisions c)" "decided_state d = s" by (rule decisions_by_id_Some)
    with c show ?thesis by (auto simp: recovery_schema_def list_all_iff lease_decision_schema_def)
  qed
  have moment: "quiescent_observedAt q \<noteq> []" if "map_of (proofs_by_id c) i = Some q" for i q
  proof -
    from that have "q \<in> set (processQuiescenceProofs c)"
      by (auto simp: proofs_by_id_def map_of_dict_of dest!: map_of_SomeD)
    with c show ?thesis by (auto simp: recovery_schema_def list_all_iff)
  qed
  show ?thesis
    using l state moment by (auto simp: recovered_def lease_schema_def lease_states_def split: option.split)
qed

lemma recovery_keeps_schema:
  assumes sha: "hex_digest sha" and j: "journal_schema j" and c: "recovery_schema c"
    and e: "recovery_evidence_schema e" and proofs: "processQuiescenceProofs c \<noteq> []" and fp: "is_digest fp"
  shows "journal_schema (fst (commit_recovery sha j c e fp))" "receipt_schema (snd (commit_recovery sha j c e fp))"
proof -
  let ?tokens = "set (map quiescent_fencingToken (processQuiescenceProofs c))"
  let ?times = "set (map quiescent_observedAt (processQuiescenceProofs c))"
  have "Max ?tokens \<in> ?tokens" "Max ?times \<in> ?times" using proofs by (intro Max_in; simp)+
  then have most: "1 \<le> Max ?tokens" "Max ?times \<noteq> []" using c by (auto simp: recovery_schema_def list_all_iff)
  have r: "receipt_schema (recovery_receipt sha j c e fp)"
    using j c e fp most zero_digest_schema
    by (simp add: receipt_schema_def recovery_receipt_def Let_def receipt_id_schema sha journal_schema_def[of j]
        recovery_schema_def[of c] recovery_evidence_schema_def[of e])
  show "receipt_schema (snd (commit_recovery sha j c e fp))"
    unfolding commit_recovery_def by (rule receipt_schema_sealed[OF sha r])
  have "list_all lease_schema (map (\<lambda>l. if leaseId l \<in> set (evidence_revoked e) then recovered c l else l) (leases j))"
    using journal_schema_lease[OF j] recovered_schema[OF _ c] by (auto simp: list_all_iff)
  then show "journal_schema (fst (commit_recovery sha j c e fp))"
    unfolding commit_recovery_def using j c e
    by (intro append_receipt_schema[OF sha r]) (auto simp: journal_schema_def recovery_evidence_schema_def)
qed

section \<open>Every command keeps the schemas\<close>

text \<open>The lane directories a live project reports have a device and an inode number.\<close>

definition natural_lanes :: "live_project \<Rightarrow> bool" where
  "natural_lanes live =
     (\<forall>path i. lane_directory live path = Some i \<longrightarrow> 0 \<le> identity_device i \<and> 1 \<le> identity_inode i)"

lemma acquire_step_schema:
  assumes sha: "hex_digest sha" and j: "journal_schema j" and key: "is_execution_key (projectExecutionKey identity)"
    and lanes: "natural_lanes live" and step: "acquire_step sha live identity j raw = Inr (Commit j' r)"
  shows "journal_schema j' \<and> receipt_schema r"
proof -
  let ?key = "projectExecutionKey identity" and ?token = "nextFencingToken j"
  obtain c lane graph where c: "normalize_acquire_command sha raw = Inr c"
    and live: "validate_live_bindings live identity c = Inr lane" and graph: "admit sha j c lane = Inr graph"
    and j': "j' = fst (commit_acquisition sha ?key j c lane graph)" and r: "r = snd (commit_acquisition sha ?key j c lane graph)"
    using step by (auto elim: acquire_step_Commit)
  from live have "validate_lane_root (lane_directory live) (live_source live) (acquire_laneRoot c) = Inr lane"
    unfolding validate_live_bindings_def Let_def by (elim raise_ifE bindE_InrE) simp
  then have "lane_directory live (acquire_laneRoot c) = Some lane"
    by (auto simp: validate_lane_root_def split: option.splits if_splits)
  then have lane: "0 \<le> identity_device lane" "1 \<le> identity_inode lane"
    using lanes by (auto simp: natural_lanes_def)
  have token: "1 \<le> ?token" "0 \<le> journalVersion j" using j by (simp_all add: journal_schema_def)
  note lease = new_lease_schema[OF sha c graph key token(1) lane]
  note receipt = acquire_receipt_schema[OF sha normalized_acquire_schema[OF c] key token]
  have "journal_schema j'"
    unfolding j' commit_acquisition_def Let_def using j lease token
    by (intro append_receipt_schema[OF sha receipt]) (auto simp: journal_schema_def)
  moreover have "receipt_schema r"
    unfolding r commit_acquisition_def Let_def by (rule receipt_schema_sealed[OF sha receipt])
  ultimately show ?thesis by blast
qed

lemma transition_step_schema:
  assumes sha: "hex_digest sha" and j: "journal_schema j" "distinct (map leaseId (leases j))"
    and key: "is_execution_key (projectExecutionKey identity)"
    and step: "transition_step sha live identity j raw = Inr (Commit j' r)"
  shows "journal_schema j' \<and> receipt_schema r"
proof -
  obtain c l fp k where c: "normalize_transition_command sha raw = Inr c"
    and l: "find_lease (transition_leaseId c) (leases j) = Some l" and check: "check_transition live j l c = Inr k"
    and j': "j' = fst (commit_transition sha (projectExecutionKey identity) j l c fp k)"
    and r: "r = snd (commit_transition sha (projectExecutionKey identity) j l c fp k)"
    using step by (auto elim: transition_step_Commit)
  show ?thesis
    using transition_keeps_schema[OF sha j(1) key c find_lease_Some(1)[OF l] check j(2)] by (simp add: j' r)
qed

lemma quarantine_step_schema:
  assumes sha: "hex_digest sha" and j: "journal_schema j" "distinct (map leaseId (leases j))"
    and c: "normalize_write_observation_command sha raw = Inr c"
    and step: "quarantine_step sha j c (observedPaths c) = Inr (Commit j' r)"
  shows "journal_schema j' \<and> receipt_schema r"
proof -
  note cs = normalized_observation_schema[OF c]
  let ?observed = "sorted_union (prior_paths j) (observedPaths c)"
  have union: "string_set ?observed"
    using cs prior_paths_schema[OF j(1)] by (simp add: string_set_union observation_schema_def)
  obtain l ds where l: "find_lease (observation_leaseId c) (leases j) = Some l"
    and ds: "affected_decisions j ?observed = Inr ds"
    and j': "j' = fst (commit_quarantine sha j l c ?observed ds)"
    and r: "r = snd (commit_quarantine sha j l c ?observed ds)"
    using step by (rule quarantine_step_Commit)
  show ?thesis
    using observation_keeps_schema[OF sha j cs find_lease_Some(1)[OF l] union ds] by (simp add: j' r)
qed

lemma observe_step_schema:
  assumes "hex_digest sha" "journal_schema j" "distinct (map leaseId (leases j))"
    "normalize_write_observation_command sha raw = Inr c"
    "observe_step sha live (Some j) c = Inr (Commit j' r)"
  shows "journal_schema j' \<and> receipt_schema r"
  using quarantine_step_schema[OF assms(1-4) observed_quarantine[OF assms(5)]] .

lemma mapE_source: "mapE f xs = Inr ys \<Longrightarrow> y \<in> set ys \<Longrightarrow> \<exists>x\<in>set xs. f x = Inr y"
  by (induction xs arbitrary: ys) (auto simp: result_simps)

lemma revoked_leases_Inr:
  assumes "revoked_leases j e = Inr ls"
  shows "ls \<noteq> []" "evidence_revoked e \<noteq> []" "l \<in> set ls \<Longrightarrow> l \<in> set (leases j)"
proof -
  let ?f = "\<lambda>i. case map_of (leases_by_id (leases j)) i of None \<Rightarrow> Inl corrupt | Some l \<Rightarrow> Inr l"
  from assms have run: "mapE ?f (evidence_revoked e) = Inr ls" and some: "ls \<noteq> []"
    unfolding revoked_leases_def by (elim raise_ifE bindE_InrE; simp)+
  from some show "ls \<noteq> []" .
  from run some show "evidence_revoked e \<noteq> []" by auto
  assume "l \<in> set ls"
  from mapE_source[OF run this] obtain i where "map_of (leases_by_id (leases j)) i = Some l"
    by (auto split: option.splits)
  from dict_of_values[OF this[unfolded leases_by_id_def]] show "l \<in> set (leases j)" by auto
qed

lemma recovery_step_schema:
  assumes sha: "hex_digest sha" and j: "journal_schema j"
    and c: "normalize_recovery_command sha raw = Inr c"
    and step: "recovery_step sha live identity (Some j) c = Inr (Commit j' r)"
  shows "journal_schema j' \<and> receipt_schema r"
proof -
  obtain e ls fp where e: "recoveryEvidence j = Some e" and ls: "revoked_leases j e = Inr ls"
    and fp: "authorize_recovery sha live identity j c ls = Inr fp"
    and check: "check_recovery_command j c e = Inr ()"
    and j': "j' = fst (commit_recovery sha j c e fp)" and r: "r = snd (commit_recovery sha j c e fp)"
    using step by (auto elim: recovery_step_Commit)
  have es: "recovery_evidence_schema e" using j e by (simp add: journal_schema_def)
  note some = revoked_leases_Inr[OF ls]
  have "set (map lease_snapshotFingerprint ls) = {fp}"
    using fp unfolding authorize_recovery_def by (elim raise_ifE bindE_InrE) simp
  with some(1) obtain l where "l \<in> set ls" "lease_snapshotFingerprint l = fp"
    by (metis image_iff list.set_map singletonI)
  with journal_schema_lease[OF j some(3)] have "is_digest fp" by (auto simp: lease_schema_def)
  moreover have "processQuiescenceProofs c \<noteq> []"
    using check_recovery_command_Inr(6)[OF check] some(2) by auto
  ultimately show ?thesis
    using recovery_keeps_schema[OF sha j normalized_recovery_schema[OF c] es] by (simp add: j' r)
qed

end
