(* ===== verification/Store_Correct.thy ===== *)
theory Store_Correct
  imports Coordinator_Schema
begin

text \<open>
  The state store, proved: what a healthy directory is, that the lock, the reads and the
  compare-and-swap replacement keep it healthy, and what a command run under the lock leaves
  on disk when nothing interferes.
\<close>

section \<open>Healthy directories\<close>

definition own_file :: "int \<Rightarrow> directory \<Rightarrow> state_name \<Rightarrow> file_stat \<Rightarrow> state_doc \<Rightarrow> bool" where
  "own_file uid d name st doc =
     (dir_files d name = Some (st, doc) \<and> st_kind st = Regular \<and> st_uid st = uid \<and> st_perms st = 384 \<and> st_nlink st = 1)"

definition lock_bound :: "state_store \<Rightarrow> int \<Rightarrow> directory \<Rightarrow> bool" where
  "lock_bound s uid d =
     (\<exists>st doc. own_file uid d Lock_File st doc \<and> (\<exists>st'. own_file uid d Lock_Identity st' (lock_identity s st)))"

definition lock_unbound :: "int \<Rightarrow> directory \<Rightarrow> bool" where
  "lock_unbound uid d =
     (dir_files d Lock_Identity = None
      \<and> (dir_files d Lock_File = None \<or> (\<exists>st doc. own_file uid d Lock_File st doc)))"

definition store_rooted :: "state_store \<Rightarrow> store_world \<Rightarrow> directory \<Rightarrow> bool" where
  "store_rooted s w d =
     (store_owner s = world_uid w
      \<and> st_kind (dir_stat d) = Directory_Kind \<and> st_uid (dir_stat d) = world_uid w \<and> st_perms (dir_stat d) = 448
      \<and> (\<exists>st. own_file (world_uid w) d Root_Identity st (root_identity s d)))"

text \<open>The directory of a project that was never initialised, or that holds the journal \<open>j\<close>.\<close>

definition store_holds ::
    "(string \<Rightarrow> string) \<Rightarrow> ssh_host \<Rightarrow> state_store \<Rightarrow> store_world \<Rightarrow> journal option \<Rightarrow> directory \<Rightarrow> bool" where
  "store_holds sha host s w jo d =
     (store_rooted s w d
      \<and> (case jo of
           None \<Rightarrow> dir_files d Initialized_Marker = None \<and> dir_files d Journal_Name = None
             \<and> (lock_unbound (world_uid w) d \<or> lock_bound s (world_uid w) d)
         | Some j \<Rightarrow>
             (\<exists>st. own_file (world_uid w) d Initialized_Marker st (Marker_Doc (store_key s)))
             \<and> lock_bound s (world_uid w) d
             \<and> (\<exists>st. own_file (world_uid w) d Journal_Name st (Journal_Doc j))
             \<and> journal_schema j \<and> journal_executionKey j = store_key s
             \<and> validate_journal_integrity sha host j True = Inr ()))"

text \<open>A world in which every system call succeeds and nobody else touches the directory.\<close>

definition quiet :: "store_world \<Rightarrow> bool" where
  "quiet w =
     (lock_free w \<and> writes_ok w \<and> marker_fault w = None \<and> rename_ok w \<and> dir_sync_ok w
      \<and> (\<forall>d. before_cas w d = d) \<and> (\<forall>d. before_reread w d = d))"

lemma own_file_read:
  assumes "own_file uid d name st doc" "doc \<noteq> Oversized"
  shows "read_state d name missing unsafe uid = Inr (doc, st)"
  using assms by (simp add: own_file_def read_state_file_def validate_regular_def same_inode_def)

lemma own_file_read_json:
  assumes "own_file uid d name st doc" "doc \<notin> {Oversized, Not_An_Object, Empty_Doc}"
  shows "read_state_json d name missing unsafe uid = Inr doc"
  using own_file_read[OF assms(1)] assms(2) by (simp add: read_state_json_def)

lemma missing_read:
  assumes "dir_files d name = None"
  shows "read_state d name missing unsafe uid = Inl (Coordination_Error missing)"
    "read_state_json d name missing unsafe uid = Inl (Coordination_Error missing)"
  using assms by (simp_all add: read_state_file_def read_state_json_def)

lemma own_file_create:
  "own_file uid (create_file w n doc' d) name st doc \<longleftrightarrow>
     (if name = n
      then st = \<lparr>st_dev = st_dev (dir_stat d), st_ino = next_inode d, st_kind = Regular, st_uid = world_uid w,
                 st_perms = 384, st_nlink = 1\<rparr> \<and> doc = doc' \<and> uid = world_uid w
      else own_file uid d name st doc)"
  by (auto simp: own_file_def create_file_def)

lemma create_file_fields [simp]:
  "dir_stat (create_file w n doc d) = dir_stat d"
  "name \<noteq> n \<Longrightarrow> dir_files (create_file w n doc d) name = dir_files d name"
  by (simp_all add: create_file_def)

lemma root_identity_create [simp]: "root_identity s (create_file w n doc d) = root_identity s d"
  by (simp add: root_identity_def)

lemma store_rooted_create:
  assumes "store_rooted s w d" "n \<noteq> Root_Identity"
  shows "store_rooted s w (create_file w n doc d)"
  using assms by (auto simp: store_rooted_def own_file_create)

lemma lock_bound_create:
  assumes "lock_bound s (world_uid w) d" "n \<noteq> Lock_File" "n \<noteq> Lock_Identity"
  shows "lock_bound s (world_uid w) (create_file w n doc d)"
  using assms by (auto simp: lock_bound_def own_file_create)

lemma rooted_verified:
  assumes "store_rooted s w d"
  shows "verify_root_identity s d = Inr ()"
proof -
  obtain st where "own_file (world_uid w) d Root_Identity st (root_identity s d)" "store_owner s = world_uid w"
    using assms by (auto simp: store_rooted_def)
  then have "read_state_json d Root_Identity m u (store_owner s) = Inr (root_identity s d)" for m u
    using own_file_read_json by (simp add: root_identity_def)
  with assms show ?thesis by (simp add: verify_root_identity_def validate_directory_def store_rooted_def)
qed

lemma marker_read:
  assumes "store_holds sha host s w jo d"
  shows "read_marker s w d = Inr (jo \<noteq> None)"
proof (cases jo)
  case None
  with assms have "dir_files d Initialized_Marker = None" by (simp add: store_holds_def)
  with None show ?thesis by (simp add: read_marker_def missing_read)
next
  case (Some j)
  with assms obtain st where "own_file (world_uid w) d Initialized_Marker st (Marker_Doc (store_key s))"
    by (auto simp: store_holds_def)
  with Some show ?thesis by (simp add: read_marker_def own_file_read_json)
qed

lemma journal_read:
  assumes "store_holds sha host s w jo d"
  shows "\<exists>snapshot. read_journal_snapshot sha host s w d = Inr snapshot \<and> map_option snapshot_journal snapshot = jo
    \<and> (\<forall>j. snapshot = Some j \<longrightarrow> snapshot_bytes j = journal_bytes (snapshot_journal j))"
proof (cases jo)
  case None
  with assms have "dir_files d Journal_Name = None" "store_rooted s w d" by (simp_all add: store_holds_def)
  with None marker_read[OF assms] show ?thesis
    by (simp add: read_journal_snapshot_def rooted_verified missing_read)
next
  case (Some j)
  with assms obtain st where st: "own_file (world_uid w) d Journal_Name st (Journal_Doc j)"
    and j: "journal_schema j" "journal_executionKey j = store_key s" "validate_journal_integrity sha host j True = Inr ()"
    and root: "store_rooted s w d"
    by (auto simp: store_holds_def)
  from own_file_read[OF st] Some marker_read[OF assms] rooted_verified[OF root] j show ?thesis
    by (simp add: read_journal_snapshot_def check_snapshot_def)
qed

lemma read_journal_holds:
  assumes "store_holds sha host s w jo d"
  shows "read_journal sha host s w d = Inr jo"
  using journal_read[OF assms] by (auto simp: read_journal_def)

lemma store_locked_irrelevant [simp]:
  "store_holds sha host (s\<lparr>store_locked := b\<rparr>) w jo d = store_holds sha host s w jo d"
  by (simp add: store_holds_def store_rooted_def lock_bound_def lock_identity_def root_identity_def split: option.split)

section \<open>Entering the lock\<close>

lemma lock_bound_reads:
  assumes "lock_bound s (world_uid w) d"
  obtains st doc where "dir_files d Lock_File = Some (st, doc)" "lock_still_named d st"
    "validate_regular st (world_uid w) unsafe_file = Inr ()" "st_kind st \<noteq> Symlink"
    "read_lock_identity w d = Inr (Some (lock_identity s st))"
proof -
  from assms obtain st doc st' where st: "own_file (world_uid w) d Lock_File st doc"
    and id: "own_file (world_uid w) d Lock_Identity st' (lock_identity s st)"
    by (auto simp: lock_bound_def)
  have "read_state_json d Lock_Identity m u (world_uid w) = Inr (lock_identity s st)" for m u
    by (rule own_file_read_json[OF id]) (simp add: lock_identity_def)
  then have "read_lock_identity w d = Inr (Some (lock_identity s st))" by (simp add: read_lock_identity_def)
  with st show thesis
    by (intro that[of st doc]) (simp_all add: own_file_def lock_still_named_def same_inode_def validate_regular_def)
qed

lemma bound_lock_kept:
  assumes "lock_still_named d st"
  shows "bind_or_validate_lock_identity s w st (Some (lock_identity s st)) d = Inr d"
  using assms by (simp add: bind_or_validate_lock_identity_def)

lemma enter_bound:
  assumes d: "store_holds sha host s w jo d" and bound: "lock_bound s (world_uid w) d"
    and w: "lock_free w" and s: "\<not> store_locked s"
  shows "\<exists>st. enter_project_lock s w d = Inr (s\<lparr>store_locked := True\<rparr>, st, d) \<and> lock_still_named d st"
proof -
  obtain st doc where st: "dir_files d Lock_File = Some (st, doc)" "lock_still_named d st"
    "validate_regular st (world_uid w) unsafe_file = Inr ()" "st_kind st \<noteq> Symlink"
    and id: "read_lock_identity w d = Inr (Some (lock_identity s st))"
    using bound by (rule lock_bound_reads)
  have root: "verify_root_identity s d = Inr ()" using d rooted_verified[of s w d] by (simp add: store_holds_def)
  have "open_lock w create d = Inr (st, d)" for create using st by (simp add: open_lock_def)
  with st id root marker_read[OF d] bound_lock_kept[OF st(2), of s w] w s show ?thesis
    by (auto simp: enter_project_lock_def)
qed

lemma unbound_lock_opened:
  assumes "lock_unbound (world_uid w) d" "writes_ok w"
  obtains st doc d1 where "open_lock w True d = Inr (st, d1)" "own_file (world_uid w) d1 Lock_File st doc"
    "d1 = d \<or> (\<exists>doc. d1 = create_file w Lock_File doc d)" "dir_files d1 Lock_Identity = None"
proof (cases "dir_files d Lock_File")
  case None
  let ?d = "create_file w Lock_File Empty_Doc d"
  let ?st = "fst (the (dir_files ?d Lock_File))"
  have st: "?st = \<lparr>st_dev = st_dev (dir_stat d), st_ino = next_inode d, st_kind = Regular, st_uid = world_uid w,
      st_perms = 384, st_nlink = 1\<rparr>" by (simp add: create_file_def)
  show thesis
    by (rule that[of ?st ?d Empty_Doc]) (use None assms st in
      \<open>auto simp: open_lock_def Let_def own_file_create lock_unbound_def\<close>)
next
  case (Some f)
  with assms obtain st doc where "own_file (world_uid w) d Lock_File st doc" by (auto simp: lock_unbound_def)
  with assms show thesis by (intro that[of st d doc]) (auto simp: open_lock_def own_file_def lock_unbound_def)
qed

lemma enter_unbound:
  assumes d: "store_holds sha host s w None d" and unbound: "lock_unbound (world_uid w) d"
    and w: "lock_free w" "writes_ok w" and s: "\<not> store_locked s"
  shows "\<exists>st d'. enter_project_lock s w d = Inr (s\<lparr>store_locked := True\<rparr>, st, d') \<and> lock_still_named d' st
    \<and> store_holds sha host s w None d' \<and> lock_bound s (world_uid w) d'"
proof -
  obtain st doc d1 where opened: "open_lock w True d = Inr (st, d1)" and st: "own_file (world_uid w) d1 Lock_File st doc"
    and d1: "d1 = d \<or> (\<exists>doc. d1 = create_file w Lock_File doc d)" and none: "dir_files d1 Lock_Identity = None"
    using unbound w(2) by (rule unbound_lock_opened)
  let ?d2 = "create_file w Lock_Identity (lock_identity s st) d1"
  have root: "store_rooted s w d" using d by (simp add: store_holds_def)
  then have root1: "store_rooted s w d1" using d1 store_rooted_create by auto
  then have root2: "store_rooted s w ?d2" by (rule store_rooted_create) simp
  have bound: "lock_bound s (world_uid w) ?d2" using st by (auto simp: lock_bound_def own_file_create)
  have kept: "store_holds sha host s w None ?d2"
    using d d1 root2 bound by (auto simp: store_holds_def)
  have named: "lock_still_named d1 st" "lock_still_named ?d2 st"
    using st by (simp_all add: own_file_def lock_still_named_def same_inode_def)
  have valid: "validate_regular st (world_uid w) unsafe_file = Inr ()" using st by (simp add: own_file_def validate_regular_def)
  have none1: "read_lock_identity w d1 = Inr None" using none by (simp add: read_lock_identity_def missing_read)
  have "own_file (world_uid w) ?d2 Lock_Identity st' doc' \<Longrightarrow> doc' = lock_identity s st" for st' doc'
    by (simp add: own_file_create)
  then have "read_state_json ?d2 Lock_Identity m u (world_uid w) = Inr (lock_identity s st)" for m u
    by (intro own_file_read_json) (auto simp: own_file_create lock_identity_def)
  then have some2: "read_lock_identity w ?d2 = Inr (Some (lock_identity s st))" by (simp add: read_lock_identity_def)
  have bind1: "bind_or_validate_lock_identity s w st None d1 = Inr ?d2"
    using named none w(2) by (simp add: bind_or_validate_lock_identity_def)
  have "enter_project_lock s w d = Inr (s\<lparr>store_locked := True\<rparr>, st, ?d2)"
    using opened valid named none1 bind1 some2 bound_lock_kept[OF named(2), of s w] rooted_verified[OF root]
      rooted_verified[OF root2] marker_read[OF d] w s
    by (simp add: enter_project_lock_def)
  with named kept bound show ?thesis by blast
qed

lemma enter_holds:
  assumes d: "store_holds sha host s w jo d" and w: "quiet w" and s: "\<not> store_locked s"
  shows "\<exists>st d'. enter_project_lock s w d = Inr (s\<lparr>store_locked := True\<rparr>, st, d') \<and> lock_still_named d' st
    \<and> store_holds sha host s w jo d' \<and> lock_bound s (world_uid w) d'"
proof (cases "lock_bound s (world_uid w) d")
  case True
  with enter_bound[OF d _ _ s] w d show ?thesis by (auto simp: quiet_def)
next
  case False
  with d have "jo = None" "lock_unbound (world_uid w) d" by (auto simp: store_holds_def split: option.splits)
  with enter_unbound[OF d[unfolded \<open>jo = None\<close>] _ _ _ s] w show ?thesis by (auto simp: quiet_def)
qed

section \<open>Replacing the journal\<close>

text \<open>A journal and its receipt that may follow the stored one.\<close>

definition next_journal :: "(string \<Rightarrow> string) \<Rightarrow> ssh_host \<Rightarrow> state_store \<Rightarrow> journal option \<Rightarrow> journal \<Rightarrow> receipt \<Rightarrow> bool" where
  "next_journal sha host s jo j r =
     (let version = (case jo of None \<Rightarrow> 0 | Some k \<Rightarrow> journalVersion k);
          before = (case jo of None \<Rightarrow> [] | Some k \<Rightarrow> receipts k) in
      receipts j = before @ [r] \<and> journalVersion j = version + 1 \<and> previousJournalVersion r = version
      \<and> nextJournalVersion r = version + 1 \<and> journal_executionKey j = store_key s
      \<and> receipt_executionKey r = store_key s \<and> journal_schema j \<and> receipt_schema r
      \<and> validate_journal_integrity sha host j True = Inr ())"

lemma check_replacement_ok:
  assumes d: "store_holds sha host s w jo d" and locked: "store_locked s" and j: "next_journal sha host s jo j r"
    and snap: "read_journal_snapshot sha host s w d = Inr snapshot" "map_option snapshot_journal snapshot = jo"
  shows "check_replacement sha host s w (case jo of None \<Rightarrow> 0 | Some k \<Rightarrow> journalVersion k) j r d = Inr snapshot"
  using assms by (auto simp: check_replacement_def next_journal_def Let_def validate_replacement_def split: option.splits)

lemma holds_next:
  assumes d: "store_holds sha host s w jo d" and bound: "lock_bound s (world_uid w) d"
    and marker: "own_file (world_uid w) d Initialized_Marker st (Marker_Doc (store_key s))"
    and j: "next_journal sha host s jo j r"
  shows "store_holds sha host s w (Some j) (create_file w Journal_Name (Journal_Doc j) d)"
proof -
  have "store_rooted s w (create_file w Journal_Name (Journal_Doc j) d)"
    using d by (intro store_rooted_create) (simp_all add: store_holds_def)
  moreover have "lock_bound s (world_uid w) (create_file w Journal_Name (Journal_Doc j) d)"
    using bound by (rule lock_bound_create) simp_all
  ultimately show ?thesis
    using marker j by (auto simp: store_holds_def own_file_create next_journal_def Let_def)
qed

lemma swap_journal_ok:
  assumes d: "store_holds sha host s w jo d" and bound: "lock_bound s (world_uid w) d" and w: "quiet w"
    and j: "next_journal sha host s jo j r"
    and snap: "read_journal_snapshot sha host s w d = Inr snapshot" "map_option snapshot_journal snapshot = jo"
  shows "\<exists>d'. swap_journal sha host s w snapshot j d = (Inr (), d') \<and> store_holds sha host s w (Some j) d'
    \<and> dir_files d' Lock_File = dir_files d Lock_File"
proof -
  have root: "verify_root_identity s d = Inr ()" using d rooted_verified[of s w d] by (simp add: store_holds_def)
  have cas: "verify_cas_snapshot sha host s w snapshot d = Inr ()"
    using snap(1) by (cases snapshot) (simp_all add: verify_cas_snapshot_def same_inode_def)
  show ?thesis
  proof (cases jo)
    case None
    let ?d1 = "create_file w Initialized_Marker (Marker_Doc (store_key s)) d"
    let ?st = "\<lparr>st_dev = st_dev (dir_stat d), st_ino = next_inode d, st_kind = Regular, st_uid = world_uid w,
                 st_perms = 384, st_nlink = 1\<rparr>"
    from None snap(2) have none: "snapshot = None" by simp
    have marker: "write_initialized_marker s w d = (Inr (), ?d1)"
      using marker_read[OF d] None w by (simp add: write_initialized_marker_def quiet_def)
    have absent: "assert_no_journal w ?d1 = Inr ()"
      using d None by (simp add: assert_no_journal_def store_holds_def)
    have m1: "own_file (world_uid w) ?d1 Initialized_Marker ?st (Marker_Doc (store_key s))" by (simp add: own_file_create)
    have b1: "lock_bound s (world_uid w) ?d1" using bound by (rule lock_bound_create) simp_all
    have r1: "store_rooted s w ?d1" using d by (intro store_rooted_create) (simp_all add: store_holds_def)
    have "store_holds sha host s w (Some j) (create_file w Journal_Name (Journal_Doc j) ?d1)"
      using r1 b1 m1 j store_rooted_create[OF r1, of Journal_Name] lock_bound_create[OF b1, of Journal_Name]
      by (auto simp: store_holds_def own_file_create next_journal_def Let_def)
    with none marker absent root cas w show ?thesis by (simp add: swap_journal_def quiet_def Let_def)
  next
    case (Some k)
    with d obtain st where marker: "own_file (world_uid w) d Initialized_Marker st (Marker_Doc (store_key s))"
      by (auto simp: store_holds_def)
    from Some snap(2) obtain a where some: "snapshot = Some a" by auto
    from holds_next[OF d bound marker j] some root cas w show ?thesis
      by (simp add: swap_journal_def quiet_def Let_def)
  qed
qed

lemma replace_journal_ok:
  assumes d: "store_holds sha host s w jo d" and bound: "lock_bound s (world_uid w) d" and w: "quiet w"
    and locked: "store_locked s" and j: "next_journal sha host s jo j r"
  shows "\<exists>d'. replace_journal sha host s w (case jo of None \<Rightarrow> 0 | Some k \<Rightarrow> journalVersion k) j r d = (Inr j, d')
    \<and> store_holds sha host s w (Some j) d' \<and> dir_files d' Lock_File = dir_files d Lock_File"
proof -
  obtain snapshot where snap: "read_journal_snapshot sha host s w d = Inr snapshot" "map_option snapshot_journal snapshot = jo"
    using journal_read[OF d] by blast
  obtain d' where d': "swap_journal sha host s w snapshot j d = (Inr (), d')" "store_holds sha host s w (Some j) d'"
    "dir_files d' Lock_File = dir_files d Lock_File"
    using swap_journal_ok[OF d bound w j snap] by blast
  obtain after where "read_journal_snapshot sha host s w d' = Inr after" "map_option snapshot_journal after = Some j"
    "\<forall>a. after = Some a \<longrightarrow> snapshot_bytes a = journal_bytes (snapshot_journal a)"
    using journal_read[OF d'(2)] by blast
  then obtain a where "read_journal_snapshot sha host s w d' = Inr (Some a)" "snapshot_journal a = j"
    "snapshot_bytes a = journal_bytes j" by auto
  with d' w check_replacement_ok[OF d locked j snap] show ?thesis
    by (simp add: replace_journal_def quiet_def)
qed

section \<open>A command under the lock\<close>

lemma under_lock_commit:
  assumes d: "store_holds sha host s w jo d" and w: "quiet w" and s: "\<not> store_locked s"
    and step: "step jo = Inr (Commit j r)" and j: "next_journal sha host s jo j r"
    and finish: "finish j j r = Inr res"
  shows "\<exists>d'. under_lock sha host s w step finish d = (Inr res, d') \<and> store_holds sha host s w (Some j) d'"
proof -
  let ?s = "s\<lparr>store_locked := True\<rparr>"
  obtain st d1 where enter: "enter_project_lock s w d = Inr (?s, st, d1)" "lock_still_named d1 st"
    and d1: "store_holds sha host s w jo d1" "lock_bound s (world_uid w) d1"
    using enter_holds[OF d w s] by blast
  have d1': "store_holds sha host ?s w jo d1" "lock_bound ?s (world_uid w) d1"
    using d1 by (simp_all add: lock_bound_def lock_identity_def)
  have j': "next_journal sha host ?s jo j r" using j by (simp add: next_journal_def)
  obtain d2 where d2: "replace_journal sha host ?s w (case jo of None \<Rightarrow> 0 | Some k \<Rightarrow> journalVersion k) j r d1 = (Inr j, d2)"
    "store_holds sha host ?s w (Some j) d2" "dir_files d2 Lock_File = dir_files d1 Lock_File"
    using replace_journal_ok[OF d1' w _ j'] by auto
  have "leave_project_lock st d2 = Inr ()" using enter(2) d2(3) by (simp add: leave_project_lock_def lock_still_named_def)
  with enter d2 read_journal_holds[OF d1'(1)] step finish show ?thesis
    by (simp add: under_lock_def persist_def)
qed

lemma under_lock_replayed:
  assumes d: "store_holds sha host s w jo d" and w: "quiet w" and s: "\<not> store_locked s"
    and step: "step jo = Inr (Replayed res)"
  shows "\<exists>d'. under_lock sha host s w step finish d = (Inr res, d') \<and> store_holds sha host s w jo d'"
proof -
  let ?s = "s\<lparr>store_locked := True\<rparr>"
  obtain st d1 where enter: "enter_project_lock s w d = Inr (?s, st, d1)" "lock_still_named d1 st"
    and d1: "store_holds sha host s w jo d1"
    using enter_holds[OF d w s] by blast
  have "read_journal sha host ?s w d1 = Inr jo" by (rule read_journal_holds) (simp add: d1)
  with enter d1 step show ?thesis by (simp add: under_lock_def persist_def leave_project_lock_def)
qed

lemma under_lock_refused:
  assumes d: "store_holds sha host s w jo d" and w: "quiet w" and s: "\<not> store_locked s"
    and step: "step jo = Inl e"
  shows "\<exists>d'. under_lock sha host s w step finish d = (Inl e, d') \<and> store_holds sha host s w jo d'"
proof -
  let ?s = "s\<lparr>store_locked := True\<rparr>"
  obtain st d1 where enter: "enter_project_lock s w d = Inr (?s, st, d1)" "lock_still_named d1 st"
    and d1: "store_holds sha host s w jo d1"
    using enter_holds[OF d w s] by blast
  have "read_journal sha host ?s w d1 = Inr jo" by (rule read_journal_holds) (simp add: d1)
  with enter d1 step show ?thesis by (simp add: under_lock_def)
qed

end
