(* ===== verification/Sample_Lanes.thy ===== *)
theory Sample_Lanes
  imports Coordinator_Closure Sample_Batch
begin

text \<open>
  Two lanes of one project, from the planning request to the acquire command: the lanes \<open>tool\<close>
  and \<open>web\<close> are planned, authorised and admitted on one authority snapshot. The digest function
  of the sample gives every text the same digest, except the one that names the lease of the
  second lane, and the empty text.
\<close>

section \<open>The digests of the sample\<close>

definition lane_key :: string where
  "lane_key = ''project-execution:'' @ replicate 64 (CHR ''a'')"

definition lane_batch :: string where
  "lane_batch = ''batch-plan:'' @ replicate 24 (CHR ''a'')"

definition second_lane :: json where
  "second_lane = jstrs [lane_key, lane_batch, ''web'', ''attempt-2'']"

definition lane_sha :: "string \<Rightarrow> string" where
  "lane_sha s =
     (if s = [] then ''8857d087219f0f39d3e3c163e5d0a0aed690cc22f34b50c7eee3d74f93e69688''
      else replicate 64 (if s = canonical_json_bytes second_lane then CHR ''b'' else CHR ''a''))"

lemma hex_digest_lane: "hex_digest lane_sha"
  by (simp add: hex_digest_def lane_sha_def is_hex_def list_all_iff)

lemma json_bytes_not_Nil [simp]: "canonical_json_bytes v \<noteq> []"
  using render_first[of "canon_form v"] by (auto simp: canonical_json_bytes_def)

lemma lane_digest: "sha256_json lane_sha v = (if json_eq v second_lane then digest_b else digest_a)"
  by (simp add: sha256_json_def lane_sha_def canonical_json_bytes_inject digest_a_def digest_b_def)

lemma lane_digest_obj [simp]: "sha256_json lane_sha (JObj kvs) = digest_a"
  by (simp add: lane_digest json_eq_def second_lane_def jstrs_def)

lemma lane_stable: "stable_id lane_sha p v =
    p @ CHR '':'' # replicate 24 (if json_eq v second_lane then CHR ''b'' else CHR ''a'')"
  by (simp add: stable_id_def lane_sha_def canonical_json_bytes_inject)

lemma lane_stable_obj [simp]: "stable_id lane_sha p (JObj kvs) = p @ CHR '':'' # replicate 24 (CHR ''a'')"
  by (simp add: lane_stable json_eq_def second_lane_def jstrs_def)

section \<open>The planning requests\<close>

definition lane_name :: "bool \<Rightarrow> string" where
  "lane_name first = (if first then ''tool'' else ''web'')"

definition lane_attempt :: "bool \<Rightarrow> string" where
  "lane_attempt first = (if first then ''attempt-1'' else ''attempt-2'')"

definition lane_slice :: "bool \<Rightarrow> slice_descriptor" where
  "lane_slice first =
     (if first then sample_slice ''tool'' ''owner:tool'' ''src/tools'' READY 1 [] digest_a
      else sample_slice ''web'' ''owner:web'' ''src/web'' READY 1 [] digest_a)"

definition lane_root :: "bool \<Rightarrow> string" where
  "lane_root first = ''/srv/demo-lanes/'' @ lane_name first"

definition lane_binding :: "bool \<Rightarrow> admission_binding" where
  "lane_binding first =
     \<lparr>binding_projectId = ''demo'', binding_sliceId = lane_name first,
      binding_attemptId = lane_attempt first, binding_sourceRoot = ''/srv/demo'',
      binding_laneRoot = lane_root first\<rparr>"

definition lane_binding_text :: "bool \<Rightarrow> string" where
  "lane_binding_text first =
     ''{\"attemptId\":\"'' @ lane_attempt first @ ''\",\"laneRoot\":\"/srv/demo-lanes/'' @ lane_name first
     @ ''\",\"originalSourceRoot\":\"/srv/demo\",\"projectId\":\"demo\",\"sliceId\":\"'' @ lane_name first @ ''\"}''"

definition lane_envelope :: authorization_envelope where
  "lane_envelope = sample_envelope\<lparr>requiredReviewers := [''reviewer''], envelopeDigest := digest_a\<rparr>"

definition lane_authority :: "string \<Rightarrow> string \<Rightarrow> authority_record" where
  "lane_authority name path =
     \<lparr>authority_id = name, authority_path = path, authority_role = name,
      authority_sha256 = replicate 64 (CHR ''a'')\<rparr>"

definition lane_authorities :: "authority_record list" where
  "lane_authorities =
     [lane_authority ''authority:manifest'' ''docs/manifest.yaml'',
      lane_authority ''authority:owner'' ''docs/owner.md'',
      lane_authority ''authority:plan'' ''docs/plan.md'',
      lane_authority ''lifecycle-controller'' ''keys/lifecycle.pub'',
      lane_authority ''recovery-controller'' ''keys/recovery.pub'',
      lane_authority ''reviewer'' ''keys/reviewer.pub'']"

definition lane_snapshot :: authority_snapshot where
  "lane_snapshot =
     \<lparr>integrationId = ''integration:1'', snapshot_projectId = ''demo'',
      sourceRevision = \<lparr>revision_kind_of = GIT, revision_head = replicate 40 (CHR ''0''),
        revision_tree = ''tree'', authoritySetStatus = CLEAN_FOR_AUTHORITY_SET,
        authoritySetDigest = digest_a\<rparr>,
      authorities = lane_authorities,
      facts =
        [sample_fact ''controlled_planning.mode'' ''CONTROLLED_PARALLEL'',
         sample_fact ''controlled_planning.contract_registry_digest'' digest_a,
         sample_fact ''controlled_planning.dependency_graph_digest'' digest_a,
         sample_fact ''controlled_planning.authorization_envelope_digest'' digest_a,
         sample_fact ''controlled_planning.slice_descriptor_digests''
           (''[\"'' @ digest_a @ ''\"]''),
         sample_fact ''controlled_planning.conflict_policy_version'' ''controlled-conflict-policy/v1'',
         sample_fact ''controlled_coordination.admission.tool''
           (lane_binding_text True),
         sample_fact ''controlled_coordination.admission.web''
           (lane_binding_text False),
         sample_fact ''permission.development'' ''ALLOW''],
      conflicts = [], missingFacts = [], excludedPaths = [], snapshot_gate = PASS,
      snapshotFingerprint = digest_a\<rparr>"

definition lane_request :: "bool \<Rightarrow> planning_request" where
  "lane_request first =
     \<lparr>planningMode = ''CONTROLLED_PARALLEL'', request_projectId = ''demo'',
      batchBaseCommit = replicate 40 (CHR ''0''), authoritySnapshot = lane_snapshot,
      contractRegistryDigest = digest_a, dependencyGraphDigest = digest_a,
      conflictPolicyVersion = ''controlled-conflict-policy/v1'',
      harnessVersion = ''agent-evolution-harness/0.1.0'', asOf = ''2026-01-15T09:30:00Z'',
      authorizationEnvelope = lane_envelope, slices = [lane_slice first]\<rparr>"

lemma lane_binding_text:
  "lane_binding_text first = canonical_json_bytes (admission_binding_json (lane_binding first))"
  by (induct first) code_simp+

lemma lane_slice_schema: "descriptor_schema (lane_slice first)"
  by (induct first) code_simp+

lemma lane_slice_normal: "normalize_descriptor_fields (lane_slice first) = Inr (lane_slice first)"
  by (induct first) code_simp+

lemma lane_request_schema: "request_schema (lane_request first)"
  by (induct first) code_simp+

lemma lane_slice_accepted: "normalize_slice_descriptor lane_sha (lane_slice first) = Inr (lane_slice first)"
proof -
  have "descriptorDigest (lane_slice first) = digest_a" by (simp add: lane_slice_def sample_slice_def)
  with lane_slice_schema lane_slice_normal show ?thesis
    unfolding normalize_slice_descriptor_eq_Inr descriptor_digest_def by simp
qed

lemma lane_envelope_accepted: "normalize_authorization_envelope lane_sha lane_envelope = Inr lane_envelope"
proof -
  have "envelope_schema lane_envelope" "normalize_envelope_fields lane_envelope = Inr lane_envelope"
    by code_simp+
  moreover have "envelopeDigest lane_envelope = digest_a" by (simp add: lane_envelope_def)
  ultimately show ?thesis
    unfolding normalize_authorization_envelope_eq_Inr envelope_digest_def by simp
qed

definition lane_by_path :: "(string, authority_record) dict" where
  "lane_by_path = map (\<lambda>a. (authority_path a, a)) (authorities lane_snapshot)"

lemma lane_authority_set: "authority_set_digest lane_sha lane_snapshot = digest_a"
proof -
  have "\<not> json_eq (authorities_json (authorities lane_snapshot)) second_lane" by code_simp
  then show ?thesis by (simp add: authority_set_digest_def lane_digest)
qed

lemma lane_snapshot_accepted:
  "validate_snapshot lane_sha lane_snapshot (batchBaseCommit (lane_request first)) = Inr lane_by_path"
proof -
  have d: "snapshot_fingerprint lane_sha lane_snapshot = digest_a" by (simp add: snapshot_fingerprint_def)
  show ?thesis unfolding validate_snapshot_def d lane_authority_set by (induct first) code_simp+
qed

lemma lane_graph_digest:
  "dependency_graph_digest lane_sha [lane_slice first] = digest_a"
  unfolding dependency_graph_digest_def lane_digest by (induct first) code_simp+

lemma lane_facts_accepted:
  "validate_authority_facts (lane_request first) [lane_slice first] lane_envelope lane_by_path = Inr ()"
  by (induct first) code_simp+

lemma lane_references_accepted:
  "validate_authority_references lane_by_path [lane_slice first] lane_envelope = Inr ()"
  by (induct first) code_simp+

lemma lane_select [simp]:
  "slices (lane_request first) = [lane_slice first]" "authorizationEnvelope (lane_request first) = lane_envelope"
  "authoritySnapshot (lane_request first) = lane_snapshot" "asOf (lane_request first) = ''2026-01-15T09:30:00Z''"
  "issuedAt lane_envelope = ''2026-01-01T00:00:00Z''" "expiresAt lane_envelope = ''2026-02-01T00:00:00Z''"
  "request_projectId (lane_request first) = ''demo''" "snapshot_projectId lane_snapshot = ''demo''"
  "env_projectId lane_envelope = ''demo''" "dependencyGraphDigest (lane_request first) = digest_a"
  "conflictPolicyVersion (lane_request first) = ''controlled-conflict-policy/v1''"
  "snapshotFingerprint lane_snapshot = digest_a"
  by (simp_all add: lane_request_def lane_envelope_def lane_snapshot_def)

lemma lane_checked: "request_checked lane_sha (lane_request first) lane_by_path"
  using lane_request_schema lane_slice_accepted lane_envelope_accepted lane_snapshot_accepted
    lane_graph_digest lane_facts_accepted lane_references_accepted sample_times
  by (simp add: request_checked_def)

lemma lane_accepted: "normalize_planning_request lane_sha (lane_request first) = Inr (lane_request first)"
  by (rule request_checked_accepted[OF lane_checked])

section \<open>The plans\<close>

definition lane_plan :: "bool \<Rightarrow> execution_plan" where
  "lane_plan first = executionPlan (projr (build_provisional_execution_plan lane_sha (lane_request first)))"

lemma lane_triage:
  "plan_triage (lane_request first) sample_issued sample_expires sample_now (lane_slice first) = Eligible"
  by (induct first) code_simp+

lemma lane_cap: "plan_lane_cap (lane_request first) = 2"
  by (induct first) code_simp+

lemma lane_depths: "dependency_depths [lane_slice first] = Inr [(lane_name first, 0)]"
  by (induct first) code_simp+

lemma lane_known: "known_dependencies [lane_slice first]"
  by (induct first) code_simp+

lemma lane_times: "request_times (lane_request first) i x t \<longleftrightarrow>
    i = sample_issued \<and> x = sample_expires \<and> t = sample_now"
  by (auto simp: request_times_def sample_times sample_now_def sample_issued_def sample_expires_def)

lemma lane_bundle:
  obtains b r i x t depths where "build_provisional_execution_plan lane_sha (lane_request first) = Inr b"
    "executionPlan b = lane_plan first"
    "lane_plan first = final_plan lane_sha (lane_request first) i x t depths r" "plan_schema (lane_plan first)"
    "schedule_proposed (plan_schedule (lane_request first) i x t depths r) = [lane_slice first]"
proof -
  have acyc: "acyclic (dependency_edges [lane_slice first])"
  proof (rule ccontr)
    assume "\<not> acyclic (dependency_edges [lane_slice first])"
    then have "dependency_depths [lane_slice first] = Inl (Planning_Error ''DEPENDENCY_CYCLE'')"
      using dependency_depths_run[OF _ lane_known] request_checked_sliced(1)[OF lane_checked]
      by (metis lane_select(1))
    then show False by (simp add: lane_depths)
  qed
  obtain b where b: "build_provisional_plan lane_sha (lane_request first) = Inr b"
    using build_provisional_plan_total[OF lane_checked hex_digest_lane] lane_known acyc by auto
  then have build: "build_provisional_execution_plan lane_sha (lane_request first) = Inr b"
    by (simp add: build_provisional_execution_plan_def lane_accepted)
  from build_provisional_plan_Inr[OF lane_checked b] obtain i x t depths r where
    times: "request_times (lane_request first) i x t"
    and schema: "plan_schema (final_plan lane_sha (lane_request first) i x t depths r)"
    and bun: "executionPlan b = final_plan lane_sha (lane_request first) i x t depths r"
    by (metis plan_bundle.select_convs(3))
  have plan: "executionPlan b = lane_plan first" by (simp add: lane_plan_def build)
  have "filter (is_Eligible \<circ> plan_triage (lane_request first) i x t) [lane_slice first] = [lane_slice first]"
    using times lane_triage by (simp add: lane_times)
  then have "schedule_proposed (plan_schedule (lane_request first) i x t depths r) = [lane_slice first]"
    by (simp add: plan_schedule_def schedule_all_def schedule_slice_def lane_cap empty_schedule_def)
  with build plan bun schema show thesis by (intro that) simp_all
qed

lemma lane_plan_schema: "plan_schema (lane_plan first)"
  by (rule lane_bundle)

lemma lane_plan_select:
  "plan_projectId (lane_plan first) = ''demo''" "plan_batchBaseCommit (lane_plan first) = replicate 40 (CHR ''0'')"
  "plan_snapshotFingerprint (lane_plan first) = digest_a" "plan_envelopeDigest (lane_plan first) = digest_a"
  "plan_conflictPolicyVersion (lane_plan first) = ''controlled-conflict-policy/v1''"
  "plan_asOf (lane_plan first) = ''2026-01-15T09:30:00Z''" "batchPlanId (lane_plan first) = lane_batch"
  "executionRequirements (lane_plan first) = execution_requirements_of lane_envelope [lane_slice first]"
proof -
  obtain r i x t depths where p: "lane_plan first = final_plan lane_sha (lane_request first) i x t depths r"
    and s: "schedule_proposed (plan_schedule (lane_request first) i x t depths r) = [lane_slice first]"
    by (rule lane_bundle)
  have e: "envelopeDigest lane_envelope = digest_a" by (simp add: lane_envelope_def)
  have base: "batchBaseCommit (lane_request first) = replicate 40 (CHR ''0'')" by (simp add: lane_request_def)
  show "plan_projectId (lane_plan first) = ''demo''" "plan_batchBaseCommit (lane_plan first) = replicate 40 (CHR ''0'')"
    "plan_snapshotFingerprint (lane_plan first) = digest_a" "plan_envelopeDigest (lane_plan first) = digest_a"
    "plan_conflictPolicyVersion (lane_plan first) = ''controlled-conflict-policy/v1''"
    "plan_asOf (lane_plan first) = ''2026-01-15T09:30:00Z''" "batchPlanId (lane_plan first) = lane_batch"
    "executionRequirements (lane_plan first) = execution_requirements_of lane_envelope [lane_slice first]"
    unfolding p by (simp_all add: final_plan_def draft_plan_def Let_def s e base lane_batch_def)
qed

lemma lane_admission:
  obtains a where "proposedAdmissions (lane_plan first) = [a]" "admission_sliceId a = lane_name first"
    "admission_descriptorDigest a = digest_a" "exactWriteSetDigest a = exact_writeset_digest lane_sha (lane_slice first)"
proof -
  obtain r i x t depths where p: "lane_plan first = final_plan lane_sha (lane_request first) i x t depths r"
    and s: "schedule_proposed (plan_schedule (lane_request first) i x t depths r) = [lane_slice first]"
    by (rule lane_bundle)
  have "sliceId (lane_slice first) = lane_name first" "descriptorDigest (lane_slice first) = digest_a"
    by (simp_all add: lane_slice_def sample_slice_def lane_name_def)
  then show thesis
    by (intro that[of "plan_admission lane_sha r (lane_slice first)"])
      (simp_all add: p final_plan_def draft_plan_def Let_def s plan_admission_def)
qed

end
