(* ===== verification/Sample_Commands.thy ===== *)
theory Sample_Commands
  imports Sample_Lanes
begin

text \<open>
  The commands of the sample lanes and the live project they run against: both acquisitions,
  the transitions of the first lane up to its integration, a write breach and its recovery.
\<close>

section \<open>The acquire commands\<close>

definition lane_fact_id :: "bool \<Rightarrow> string" where
  "lane_fact_id first = ''controlled_coordination.admission.'' @ lane_name first"

definition lane_footprint :: "bool \<Rightarrow> conflict_footprint" where
  "lane_footprint first =
     \<lparr>sliceId = lane_name first, ownerSet = [if first then ''owner:tool'' else ''owner:web''],
      factFamilySet = [], publicContractSet = [], producerConsumerSet = [], bindingSet = [],
      exactWriteSet = [if first then ''src/tools'' else ''src/web''], ephemeralWriteSet = [],
      sharedArtifactSet = [], dependencySet = [], migrationResourceSet = [],
      authorityReferences = [''docs/plan.md''],
      conflictFootprintId = ''footprint:'' @ replicate 24 (CHR ''a'')\<rparr>"

lemma lane_footprint_of:
  "footprint_of lane_sha ''demo'' ''controlled-conflict-policy/v1'' (lane_slice first) = lane_footprint first"
  by (simp add: footprint_of_def lane_footprint_def lane_slice_def sample_slice_def lane_name_def
      slice_footprint.defs conflict_footprint.defs)

definition lane_proof :: "bool \<Rightarrow> admission_proof" where
  "lane_proof first =
     \<lparr>proof_factId = lane_fact_id first,
      manifestAuthorityId = ''authority:manifest'', manifestAuthorityReference = ''docs/manifest.yaml'',
      manifestAuthorityDigest = digest_a, proof_binding = lane_binding first,
      admission_proofDigest = digest_a\<rparr>"

definition lane_acquire :: "bool \<Rightarrow> acquire_command" where
  "lane_acquire first =
     \<lparr>acquire_projectId = ''demo'', acquire_batchPlanId = lane_batch,
      acquire_sliceId = lane_name first, acquire_attemptId = lane_attempt first,
      acquire_snapshotFingerprint = digest_a, acquire_envelopeDigest = digest_a,
      acquire_policyVersion = ''controlled-conflict-policy/v1'',
      acquire_asOf = ''2026-01-15T09:30:00Z'', acquire_request = lane_request first,
      acquire_plan = lane_plan first, acquire_descriptor = lane_slice first,
      acquire_envelope = lane_envelope, acquire_snapshot = lane_snapshot,
      acquire_proof = lane_proof first, acquire_footprint = lane_footprint first,
      acquire_sourceRoot = ''/srv/demo'', acquire_laneRoot = lane_root first,
      acquire_laneBase = replicate 40 (CHR ''0''), acquire_digest = digest_a\<rparr>"

lemma lane_acquire_select [simp]:
  "acquire_projectId (lane_acquire first) = ''demo''" "acquire_batchPlanId (lane_acquire first) = lane_batch"
  "acquire_sliceId (lane_acquire first) = lane_name first" "acquire_attemptId (lane_acquire first) = lane_attempt first"
  "acquire_snapshotFingerprint (lane_acquire first) = digest_a" "acquire_envelopeDigest (lane_acquire first) = digest_a"
  "acquire_policyVersion (lane_acquire first) = ''controlled-conflict-policy/v1''"
  "acquire_asOf (lane_acquire first) = ''2026-01-15T09:30:00Z''" "acquire_request (lane_acquire first) = lane_request first"
  "acquire_plan (lane_acquire first) = lane_plan first" "acquire_descriptor (lane_acquire first) = lane_slice first"
  "acquire_envelope (lane_acquire first) = lane_envelope" "acquire_snapshot (lane_acquire first) = lane_snapshot"
  "acquire_proof (lane_acquire first) = lane_proof first" "acquire_footprint (lane_acquire first) = lane_footprint first"
  "acquire_sourceRoot (lane_acquire first) = ''/srv/demo''"
  "acquire_laneRoot (lane_acquire first) = lane_root first"
  "acquire_laneBase (lane_acquire first) = replicate 40 (CHR ''0'')" "acquire_digest (lane_acquire first) = digest_a"
  by (simp_all add: lane_acquire_def)

lemma lane_acquire_schema: "acquire_schema (lane_acquire first)"
proof -
  have "descriptor_schema (lane_slice first) \<and> envelope_schema lane_envelope \<and> snapshot_schema lane_snapshot"
    using lane_request_schema[of first] by (simp add: request_schema_def)
  moreover have "is_id (lane_name first)" "is_id (lane_attempt first)" "admission_proof_schema (lane_proof first)"
    "conflict_footprint_schema (lane_footprint first)" "is_absolute_text (lane_root first)"
    by (induct first) code_simp+
  moreover have "is_id ''demo''" "is_stable_id ''batch-plan'' lane_batch" "is_digest digest_a"
    "is_absolute_text ''/srv/demo''" "is_commit (replicate 40 (CHR ''0''))"
    by code_simp+
  ultimately show ?thesis
    using lane_request_schema lane_plan_schema by (simp add: acquire_schema_def)
qed

lemma lane_footprint_normal: "normalize_footprint (lane_footprint first) = Inr (lane_footprint first)"
  by (induct first) code_simp+

lemma lane_paths:
  "canonical_absolute_path ''/srv/demo'' = Inr ''/srv/demo''"
  "canonical_absolute_path (lane_root first) = Inr (lane_root first)"
  "canonical_relative_path ''docs/manifest.yaml'' = Inr ''docs/manifest.yaml''"
  by code_simp (induct first; code_simp)+

lemma lane_evidence_checks: "check_request_authorities lane_snapshot = Inr ()"
  by code_simp

lemma lane_evidence:
  "normalize_acquire_evidence lane_sha (lane_acquire first) = Inr (lane_acquire first)"
proof -
  have "binding_sourceRoot (proof_binding (lane_proof first)) = ''/srv/demo''"
    "binding_laneRoot (proof_binding (lane_proof first)) = lane_root first"
    "manifestAuthorityReference (lane_proof first) = ''docs/manifest.yaml''"
    by (simp_all add: lane_proof_def lane_binding_def)
  then show ?thesis
    by (simp add: normalize_acquire_evidence_def lane_accepted lane_slice_accepted lane_envelope_accepted
        lane_evidence_checks lane_paths)
qed

lemma lane_admission_snapshot: "validate_admission_snapshot lane_sha (lane_acquire first) = Inr ()"
proof -
  have "snapshot_fingerprint lane_sha lane_snapshot = digest_a" by (simp add: snapshot_fingerprint_def)
  moreover have "authoritySetDigest (sourceRevision lane_snapshot) = digest_a"
    "revision_head (sourceRevision lane_snapshot) = replicate 40 (CHR ''0'')"
    "revision_kind_of (sourceRevision lane_snapshot) = GIT"
    "authoritySetStatus (sourceRevision lane_snapshot) = CLEAN_FOR_AUTHORITY_SET"
    "snapshot_gate lane_snapshot = PASS" "conflicts lane_snapshot = []" "missingFacts lane_snapshot = []"
    by (simp_all add: lane_snapshot_def)
  ultimately show ?thesis by (simp add: validate_admission_snapshot_def lane_authority_set)
qed

lemma lane_fact:
  "map_of (facts lane_snapshot) (lane_fact_id first) =
     Some (snd (sample_fact [] (lane_binding_text first)))"
  by (induct first) code_simp+

lemma lane_manifest:
  "find (\<lambda>a. authority_path a = ''docs/manifest.yaml'') (authorities lane_snapshot) =
     Some (lane_authority ''authority:manifest'' ''docs/manifest.yaml'')"
  by code_simp

lemma lane_admission_proof: "validate_admission_proof lane_sha (lane_acquire first) = Inr ()"
proof -
  have "lane_binding first = expected_admission_binding (lane_acquire first)"
    by (simp add: expected_admission_binding_def lane_binding_def)
  then show ?thesis
    by (simp add: validate_admission_proof_def lane_proof_def lane_fact lane_manifest sample_fact_def
        admission_matches_def lane_binding_text digest_a_def lane_authority_def)
qed

lemma sort_one: "sort [x] = [x]"
  by simp

lemma lane_planning_facts: "validate_planning_facts (lane_acquire first) = Inr ()"
proof -
  have "eachE (require_planning_fact lane_snapshot (lane_proof first))
       [(''controlled_planning.authorization_envelope_digest'', JStr digest_a),
        (''controlled_planning.conflict_policy_version'', JStr ''controlled-conflict-policy/v1''),
        (''controlled_planning.slice_descriptor_digests'', jstrs [digest_a])] = Inr ()"
    by (induct first) code_simp+
  moreover have "envelopeDigest lane_envelope = digest_a" "descriptorDigest (lane_slice first) = digest_a"
    by (simp_all add: lane_envelope_def lane_slice_def sample_slice_def)
  ultimately show ?thesis
    by (simp only: validate_planning_facts_def lane_acquire_select lane_select list.map sort_one)
qed

lemma lane_plan_bound: "validate_plan_binding lane_sha (lane_acquire first) = Inr ()"
proof -
  have d: "sliceId (lane_slice first) = lane_name first" "descriptorDigest (lane_slice first) = digest_a"
    "authorizationClass (lane_slice first) = ''action:edit''"
    "exactWriteSet (lane_slice first) = exactWriteSet (lane_footprint first)"
    "sliceId (lane_footprint first) = lane_name first"
    by (simp_all add: lane_slice_def sample_slice_def lane_name_def lane_footprint_def)
  have e: "envelopeDigest lane_envelope = digest_a" "permittedActionClasses lane_envelope = [''action:edit'']"
    "deniedActions lane_envelope = [''action:deny'']"
    by (simp_all add: lane_envelope_def sample_envelope_def)
  have "validate_plan_identity lane_sha (lane_acquire first) = Inr ()"
    by (simp add: validate_plan_identity_def plan_id_def lane_plan_select lane_batch_def d
        protected_action_classes_def)
  moreover have "replay_plan lane_sha (lane_acquire first) = Inr ()"
    by (rule lane_bundle[of first]) (simp add: replay_plan_def plan_eq_def)
  moreover obtain a where a: "proposedAdmissions (lane_plan first) = [a]" "admission_sliceId a = lane_name first"
    "admission_descriptorDigest a = digest_a" "exactWriteSetDigest a = exact_writeset_digest lane_sha (lane_slice first)"
    by (rule lane_admission)
  then have "sole_admission (lane_acquire first) = Inr a" by (simp add: sole_admission_def)
  moreover have "validate_admission_binding lane_sha (lane_acquire first) a = Inr ()"
    by (simp add: validate_admission_binding_def Let_def d e a exact_writeset_digest_def
        expected_footprint_def lane_footprint_of)
  ultimately show ?thesis by (simp add: validate_plan_binding_def)
qed

lemma lane_request_bound: "validate_planning_request_binding (lane_acquire first) = Inr ()"
proof -
  have "sliceId (lane_slice first) = lane_name first" by (simp add: lane_slice_def sample_slice_def lane_name_def)
  moreover have "batchBaseCommit (lane_request first) = replicate 40 (CHR ''0'')" by (simp add: lane_request_def)
  ultimately show ?thesis
    by (simp add: validate_planning_request_binding_def snapshot_eq_def dict_of_def)
qed

lemma lane_acquire_refooted: "(lane_acquire first)\<lparr>acquire_footprint := lane_footprint first\<rparr> = lane_acquire first"
  by (simp add: lane_acquire_def)

lemma lane_acquire_normal: "normalize_acquire_command lane_sha (lane_acquire first) = Inr (lane_acquire first)"
proof -
  have "validate_timestamp ''2026-01-15T09:30:00Z'' = Inr ()"
    by (simp add: validate_timestamp_def sample_times)
  then show ?thesis
    by (simp add: normalize_acquire_command_def validate_schema_def lane_acquire_schema lane_footprint_normal
        lane_acquire_refooted lane_evidence lane_paths verify_command_digest_def lane_plan_select lane_request_bound
        validate_admission_authority_def lane_admission_snapshot lane_admission_proof lane_planning_facts
        lane_plan_bound)
qed

end
