(* ===== verification/Sample_Project.thy ===== *)
theory Sample_Project
  imports Sample_Commands
begin

text \<open>
  The live project of the sample lanes, and their journals: both lanes acquired, one after the
  other. Every sample journal is reached by the coordinator's own commands, and each passes the
  integrity check because the commands are closed under it.
\<close>

section \<open>The live project\<close>

definition lane_inode :: "bool \<Rightarrow> physical_identity" where
  "lane_inode first = \<lparr>identity_device = 1, identity_inode = (if first then 11 else 12)\<rparr>"

definition lane_public_key :: string where
  "lane_public_key = ''ssh-ed25519 AAAA'' @ [newline]"

definition lane_ssh :: ssh_host where
  "lane_ssh = \<lparr>keygen_trusted = True, keygen_verify = (\<lambda>_ _ _ _ _. True)\<rparr>"

definition lane_loaded :: loaded_registration where
  "lane_loaded =
     \<lparr>registration = \<lparr>registration_json = JNull, harnessId = ''harness:1'',
        registered_integrationId = ''integration:1'', integrationPath = ''integration.yaml'',
        sourceAccess = ''READ_ONLY'', registered_runtime = ''claude'', capabilityLockFingerprint = digest_a\<rparr>,
      loaded_sourceRoot = ''/srv/demo'', loaded_integrationId = ''integration:1'', loaded_projectId = ''demo''\<rparr>"

definition lane_identity :: project_identity where
  "lane_identity =
     \<lparr>projectExecutionKey = lane_key, identity_registration = registration lane_loaded,
      identity_sourceRoot = ''/srv/demo'',
      identity_physical = \<lparr>identity_device = 1, identity_inode = 10\<rparr>\<rparr>"

definition lane_candidate :: candidate_identity where
  "lane_candidate =
     \<lparr>candidate_commit = replicate 40 (CHR ''1''), candidate_parent = replicate 40 (CHR ''0''),
      candidate_tree = replicate 40 (CHR ''2'')\<rparr>"

definition lane_repository :: lane_repository where
  "lane_repository =
     \<lparr>repository_head = candidate_commit lane_candidate,
      git_object = (\<lambda>name kind.
        if kind = ''commit'' \<and> name = candidate_commit lane_candidate
        then Some (''tree '' @ candidate_tree lane_candidate @ [newline] @ ''parent ''
                   @ candidate_parent lane_candidate @ [newline, newline])
        else if kind = ''commit'' \<and> name = candidate_parent lane_candidate
          \<or> kind = ''tree'' \<and> name = candidate_tree lane_candidate then Some []
        else None)\<rparr>"

definition lane_open :: "string \<Rightarrow> physical_identity option" where
  "lane_open path =
     (if path = lane_root True then Some (lane_inode True)
      else if path = lane_root False then Some (lane_inode False) else None)"

definition lane_page :: string where
  "lane_page = ''src/web/page''"

definition lane_live :: live_project where
  "lane_live =
     \<lparr>live_source = ''/srv/demo'', live_identity = Inr lane_identity, live_registration = Some lane_loaded,
      live_head = Inr (replicate 40 (CHR ''0'')), lane_directory = lane_open, lane_directory_recheck = lane_open,
      live_snapshot = Some lane_snapshot, authority_file = (\<lambda>_. Some lane_public_key),
      lane_repository_of = (\<lambda>_. Some lane_repository), live_ssh = lane_ssh,
      breach_inventory = (\<lambda>_. Inr (JObj [], [lane_page], []))\<rparr>"

lemma lane_live_select [simp]:
  "live_source lane_live = ''/srv/demo''" "live_identity lane_live = Inr lane_identity"
  "live_registration lane_live = Some lane_loaded" "live_head lane_live = Inr (replicate 40 (CHR ''0''))"
  "lane_directory lane_live = lane_open" "lane_directory_recheck lane_live = lane_open"
  "live_snapshot lane_live = Some lane_snapshot" "authority_file lane_live = (\<lambda>_. Some lane_public_key)"
  "lane_repository_of lane_live = (\<lambda>_. Some lane_repository)" "live_ssh lane_live = lane_ssh"
  "breach_inventory lane_live = (\<lambda>_. Inr (JObj [], [lane_page], []))"
  by (simp_all add: lane_live_def)

lemma lane_identity_select [simp]:
  "projectExecutionKey lane_identity = lane_key"
  "registered_integrationId (registration lane_loaded) = ''integration:1''"
  "sourceAccess (registration lane_loaded) = ''READ_ONLY''" "loaded_sourceRoot lane_loaded = ''/srv/demo''"
  "loaded_integrationId lane_loaded = ''integration:1''" "loaded_projectId lane_loaded = ''demo''"
  by (simp_all add: lane_identity_def lane_loaded_def)

lemma lane_root_distinct: "lane_root True \<noteq> lane_root False"
  by code_simp

lemma lane_open_root [simp]: "lane_open (lane_root first) = Some (lane_inode first)"
  using lane_root_distinct by (induct first) (simp_all add: lane_open_def)

lemma lane_relative_root: "lane_relative ''/srv/demo'' (lane_root first) = Some [lane_name first]"
  by (induct first) code_simp+

lemma lane_root_valid: "validate_lane_root lane_open ''/srv/demo'' (lane_root first) = Inr (lane_inode first)"
  by (simp add: validate_lane_root_def lane_relative_root)

lemma lane_development: "development_allowed lane_snapshot"
  by code_simp

lemma lane_snapshot_integration: "integrationId lane_snapshot = ''integration:1''"
  by (simp add: lane_snapshot_def)

lemma lane_live_bindings: "validate_live_bindings lane_live lane_identity (lane_acquire first) = Inr (lane_inode first)"
  by (simp add: validate_live_bindings_def same_identity_def identity_eq_def load_registration_def
      build_live_snapshot_def lane_root_valid lane_development lane_snapshot_integration Let_def)

lemma lane_transition_snapshot:
  "rebuild_transition_snapshot lane_live lane_identity (lane_acquire first) = Inr lane_snapshot"
  by (simp add: rebuild_transition_snapshot_def same_identity_def identity_eq_def load_registration_def
      build_live_snapshot_def)

section \<open>The sample journals are reached\<close>

definition lane_reached :: "journal \<Rightarrow> bool" where
  "lane_reached j =
     (coordinated lane_sha lane_key j
      \<and> (\<exists>persisted. validate_journal_integrity lane_sha lane_ssh j persisted = Inr ()))"

lemma lane_reached_empty: "lane_reached (empty_journal lane_key)"
proof -
  have "validate_journal_integrity lane_sha lane_ssh (empty_journal lane_key) False = Inr ()"
    by code_simp
  then show ?thesis unfolding lane_reached_def using coordinated.empty by blast
qed

lemma lane_reachedE:
  assumes "lane_reached j"
  obtains persisted h where "coordinated lane_sha lane_key j" "journal_ok lane_key j" "sourced j h"
    "validate_journal_integrity lane_sha lane_ssh j persisted = Inr ()"
  using assms unfolding lane_reached_def by (metis coordinated_ok coordinated_sourced)

lemma lane_reachedI:
  assumes "lane_reached j" "coordinator_step lane_sha lane_key j j'"
    "validate_journal_integrity lane_sha lane_ssh j' True = Inr ()"
  shows "lane_reached j'"
  using assms unfolding lane_reached_def by (blast intro: coordinated.step)

lemma lane_acquired:
  assumes "lane_reached j" "acquire_step lane_sha lane_live lane_identity j raw = Inr (Commit j' r)"
    "lease_id_of lane_sha lane_key raw \<notin> leaseId ` set (leases j)"
  shows "coordinator_step lane_sha lane_key j j' \<and> lane_reached j'"
proof -
  obtain persisted h where j: "journal_ok lane_key j" "sourced j h"
    "validate_journal_integrity lane_sha lane_ssh j persisted = Inr ()"
    using assms(1) by (rule lane_reachedE)
  have ok: "validate_journal_integrity lane_sha lane_ssh j' True = Inr ()"
    by (rule accepted_acquisition[OF j(3,1,2) lane_identity_select(1) assms(2,3)])
  have "coordinator_step lane_sha lane_key j j'"
    by (rule coordinator_step.acquired[OF lane_identity_select(1) assms(2)]) (simp add: ok)
  with ok lane_reachedI[OF assms(1)] show ?thesis by blast
qed

lemma lane_transitioned:
  assumes "lane_reached j" "transition_step lane_sha lane_live lane_identity j raw = Inr (Commit j' r)"
  shows "coordinator_step lane_sha lane_key j j' \<and> lane_reached j'"
proof -
  obtain persisted h where j: "journal_ok lane_key j" "sourced j h"
    "validate_journal_integrity lane_sha lane_ssh j persisted = Inr ()"
    using assms(1) by (rule lane_reachedE)
  have ok: "validate_journal_integrity lane_sha lane_ssh j' True = Inr ()"
    by (rule accepted_transition[OF j(3,1,2) lane_identity_select(1) assms(2)])
  have "coordinator_step lane_sha lane_key j j'"
    by (rule coordinator_step.transitioned[OF lane_identity_select(1) assms(2)]) (simp add: ok)
  with ok lane_reachedI[OF assms(1)] show ?thesis by blast
qed

lemma lane_observed:
  assumes "lane_reached j" "normalize_write_observation_command lane_sha raw = Inr c"
    "observe_step lane_sha lane_live (Some j) c = Inr (Commit j' r)"
  shows "coordinator_step lane_sha lane_key j j' \<and> lane_reached j'"
proof -
  obtain persisted h where j: "journal_ok lane_key j" "sourced j h"
    "validate_journal_integrity lane_sha lane_ssh j persisted = Inr ()"
    using assms(1) by (rule lane_reachedE)
  have ok: "validate_journal_integrity lane_sha lane_ssh j' True = Inr ()"
    by (rule accepted_observation[OF j(3,1,2) assms(2,3)])
  have "coordinator_step lane_sha lane_key j j'"
    by (rule coordinator_step.observed[OF assms(2) observed_quarantine[OF assms(3)] ok])
  with ok lane_reachedI[OF assms(1)] show ?thesis by blast
qed

lemma lane_recovered:
  assumes "lane_reached j" "normalize_recovery_command lane_sha raw = Inr c"
    "recovery_step lane_sha lane_live lane_identity (Some j) c = Inr (Commit j' r)"
    "\<And>e. recoveryEvidence j = Some e \<Longrightarrow>
      validate_persisted_recovery_authority lane_sha lane_ssh c (evidence_revoked e) (commands_of j) = Inr ()"
  shows "coordinator_step lane_sha lane_key j j' \<and> lane_reached j'"
proof -
  obtain persisted h where j: "journal_ok lane_key j" "sourced j h"
    "validate_journal_integrity lane_sha lane_ssh j persisted = Inr ()"
    using assms(1) by (rule lane_reachedE)
  have ok: "validate_journal_integrity lane_sha lane_ssh j' True = Inr ()"
    by (rule accepted_recovery_step[OF j(3,1,2) assms(2,3,4)])
  have "coordinator_step lane_sha lane_key j j'"
    by (rule coordinator_step.recovered[OF lane_identity_select(1) assms(2,3)]) (simp add: ok)
  with ok lane_reachedI[OF assms(1)] show ?thesis by blast
qed

section \<open>Both lanes acquired\<close>

lemma lane_lease_id: "lease_id_of lane_sha lane_key (lane_acquire first) =
    ''lease:'' @ replicate 24 (if first then CHR ''a'' else CHR ''b'')"
proof -
  have "json_eq (jstrs [lane_key, lane_batch, lane_name first, lane_attempt first]) second_lane \<longleftrightarrow> \<not> first"
    by (induct first) code_simp+
  then show ?thesis by (simp add: lease_id_of_def lane_stable)
qed

definition lane_lease :: "bool \<Rightarrow> lease" where
  "lane_lease first =
     new_lease lane_sha lane_key (if first then 1 else 2) (lane_acquire first) (lane_inode first)
       (if first then [lane_footprint True] else [lane_footprint True, lane_footprint False])"

lemma lane_report: "\<exists>r. build_conflict_report lane_sha ''demo'' digest_a ''controlled-conflict-policy/v1'' [lane_slice first] = Inr r
    \<and> footprints r = [lane_footprint first]"
proof -
  have schema: "\<forall>d\<in>set [lane_slice first]. footprint_schema d"
    by (induct first) code_simp+
  have "is_id ''demo''" "is_digest digest_a" by code_simp+
  then obtain r where r: "build_conflict_report lane_sha ''demo'' digest_a ''controlled-conflict-policy/v1'' [lane_slice first] = Inr r"
    using build_conflict_report_total[OF hex_digest_lane _ _ refl schema] by auto
  with build_conflict_report_eq_Inr[OF r] show ?thesis by (simp add: lane_footprint_of)
qed

lemma lane_merged:
  "merged_footprints e [lane_footprint True] = Inr [lane_footprint True]"
  "merged_footprints e [lane_footprint True, lane_footprint False] = Inr [lane_footprint True, lane_footprint False]"
  by (simp_all add: merged_footprints_def merge_footprint_def lane_footprint_def lane_name_def)

definition acquired_journal :: journal where
  "acquired_journal =
     fst (commit_acquisition lane_sha lane_key (empty_journal lane_key) (lane_acquire True) (lane_inode True)
            [lane_footprint True])"

definition acquired_receipt :: receipt where
  "acquired_receipt =
     snd (commit_acquisition lane_sha lane_key (empty_journal lane_key) (lane_acquire True) (lane_inode True)
            [lane_footprint True])"

definition two_lanes :: journal where
  "two_lanes =
     fst (commit_acquisition lane_sha lane_key acquired_journal (lane_acquire False) (lane_inode False)
            [lane_footprint True, lane_footprint False])"

definition two_lanes_receipt :: receipt where
  "two_lanes_receipt =
     snd (commit_acquisition lane_sha lane_key acquired_journal (lane_acquire False) (lane_inode False)
            [lane_footprint True, lane_footprint False])"

lemma empty_journal_fields [simp]:
  "leases (empty_journal key) = []" "recoveryState (empty_journal key) = CLEAR" "receipts (empty_journal key) = []"
  by (simp_all add: empty_journal_def)

lemma acquired_fields [simp]:
  "leases acquired_journal = [lane_lease True]" "recoveryState acquired_journal = CLEAR"
  "recoveryEvidence acquired_journal = None" "nextFencingToken acquired_journal = 2"
  "journalVersion acquired_journal = 1" "receipts acquired_journal = [acquired_receipt]"
  "receipt_evidence_of acquired_receipt = Acquire_Evidence (lane_acquire True)"
  "journal_executionKey acquired_journal = lane_key"
  by (simp_all add: acquired_journal_def acquired_receipt_def commit_acquisition_def Let_def empty_journal_def
      lane_lease_def acquire_receipt_def)

lemma two_lanes_fields [simp]:
  "leases two_lanes = [lane_lease True, lane_lease False]" "recoveryState two_lanes = CLEAR"
  "recoveryEvidence two_lanes = None" "nextFencingToken two_lanes = 3" "journalVersion two_lanes = 2"
  "receipts two_lanes = [acquired_receipt, two_lanes_receipt]"
  "receipt_evidence_of two_lanes_receipt = Acquire_Evidence (lane_acquire False)"
  "journal_executionKey two_lanes = lane_key"
  by (simp_all add: two_lanes_def two_lanes_receipt_def commit_acquisition_def Let_def
      lane_lease_def acquire_receipt_def)

lemma lane_lease_select [simp]:
  "leaseId (lane_lease first) = ''lease:'' @ replicate 24 (if first then CHR ''a'' else CHR ''b'')"
  "lease_executionKey (lane_lease first) = lane_key" "lease_key (lane_lease first) = acquisition_key (lane_acquire first)"
  "lease_batchPlanId (lane_lease first) = lane_batch" "lease_sliceId (lane_lease first) = lane_name first"
  "lease_attemptId (lane_lease first) = lane_attempt first" "lease_snapshotFingerprint (lane_lease first) = digest_a"
  "lease_envelopeDigest (lane_lease first) = digest_a"
  "lease_policyVersion (lane_lease first) = ''controlled-conflict-policy/v1''"
  "lease_footprint (lane_lease first) = lane_footprint first"
  "planningFootprints (lane_lease first) = [lane_footprint first]"
  "lease_sourceRoot (lane_lease first) = ''/srv/demo''" "lease_laneRoot (lane_lease first) = lane_root first"
  "lanePhysicalIdentity (lane_lease first) = lane_inode first" "lease_laneBase (lane_lease first) = replicate 40 (CHR ''0'')"
  "lease_fencingToken (lane_lease first) = (if first then 1 else 2)" "lease_state (lane_lease first) = ADMITTED"
  "lease_candidate (lane_lease first) = None" "released (lane_lease first) = False"
  "recoveryStatus (lane_lease first) = CLEAR" "is_nonterminal (lane_lease first)"
  by (simp_all add: lane_lease_def new_lease_def lane_lease_id lease_key_def acquisition_key_def is_nonterminal_def
      lane_slice_def sample_slice_def lane_footprint_def lane_name_def)

lemma lane_cap_two: "lane_cap_of (lane_acquire first) = 2"
  by (simp add: lane_cap_of_def) code_simp

lemma lane_retired:
  "retired_recovery_identities (empty_journal lane_key) = Inr ([], [])"
  "retired_recovery_identities acquired_journal = Inr ([], [])"
  by (simp_all add: retired_recovery_identities_def retire_receipt_def empty_journal_def)

lemma lane_inode_distinct: "lane_inode True \<noteq> lane_inode False"
  by (simp add: lane_inode_def)

lemma lane_disjoint:
  "\<not> footprints_conflict (lane_footprint True) (lane_footprint False) [lane_footprint True, lane_footprint False]"
  by code_simp

lemma lane_graph:
  "planning_graph lane_sha [] (lane_acquire True) = Inr [lane_footprint True]"
  "planning_graph lane_sha [lane_lease True] (lane_acquire False) = Inr [lane_footprint True, lane_footprint False]"
  using lane_report[of True] lane_report[of False] by (auto simp: planning_graph_def lane_merged)

lemma lane_admitted:
  "admit lane_sha (empty_journal lane_key) (lane_acquire True) (lane_inode True) = Inr [lane_footprint True]"
  "admit lane_sha acquired_journal (lane_acquire False) (lane_inode False) = Inr [lane_footprint True, lane_footprint False]"
  using lane_root_distinct lane_inode_distinct
  by (simp_all add: admit_def lane_graph lane_cap_two lane_disjoint empty_journal_def)

lemma lane_new_key:
  "lease_tuple (lane_lease True) \<noteq> idempotency_tuple lane_key (lane_acquire False)"
  by (simp add: lease_tuple_def idempotency_tuple_def acquisition_key_def lane_name_def)

lemma lane_acquire_steps:
  "acquire_step lane_sha lane_live lane_identity (empty_journal lane_key) (lane_acquire True) =
     Inr (Commit acquired_journal acquired_receipt)"
  "acquire_step lane_sha lane_live lane_identity acquired_journal (lane_acquire False) =
     Inr (Commit two_lanes two_lanes_receipt)"
  using lane_new_key
  by (simp_all add: acquire_step_def admit_command_def lane_acquire_normal lane_retired lane_live_bindings
      lane_admitted lane_root_valid acquired_journal_def[symmetric] acquired_receipt_def[symmetric]
      two_lanes_def[symmetric] two_lanes_receipt_def[symmetric] prod.case_eq_if)

lemma lane_acquired_steps:
  "coordinator_step lane_sha lane_key (empty_journal lane_key) acquired_journal" "lane_reached acquired_journal"
  "coordinator_step lane_sha lane_key acquired_journal two_lanes" "lane_reached two_lanes"
proof -
  have new: "lease_id_of lane_sha lane_key (lane_acquire False) \<noteq> leaseId (lane_lease True)"
    by (simp add: lane_lease_id)
  show first: "coordinator_step lane_sha lane_key (empty_journal lane_key) acquired_journal" "lane_reached acquired_journal"
    using lane_acquired[OF lane_reached_empty lane_acquire_steps(1)] by (simp_all add: empty_journal_def)
  show "coordinator_step lane_sha lane_key acquired_journal two_lanes" "lane_reached two_lanes"
    using lane_acquired[OF first(2) lane_acquire_steps(2)] new by (simp_all del: lane_lease_select(1))
qed

end
