(* ===== verification/Sample_Journals.thy ===== *)
theory Sample_Journals
  imports Sample_Project
begin

text \<open>
  The life of the sample lane \<open>tool\<close>: six signed transitions from its admission to its closing,
  with the review between. The journal after any prefix of them is reached by the coordinator.
\<close>

section \<open>Signed transitions\<close>

definition lane_moment :: string where
  "lane_moment = ''2026-01-15T10:00:00Z''"

definition lane_signature :: string where
  "lane_signature = ''-----BEGIN SSH SIGNATURE-----'' @ [newline] @ ''AAAAAAAA'' @ [newline]
     @ ''-----END SSH SIGNATURE-----'' @ [newline]"

definition candidate_at :: "slice_state \<Rightarrow> candidate_identity option" where
  "candidate_at s = (if s \<in> set candidate_states then Some lane_candidate else None)"

definition lane_review :: review_evidence where
  "lane_review =
     \<lparr>review_candidate = lane_candidate, review_reviewerId = ''reviewer'', review_role = ''reviewer'',
      review_executionKey = lane_key, review_leaseId = leaseId (lane_lease True),
      review_attemptId = ''attempt-1'', review_fencingToken = 1, review_snapshotFingerprint = digest_a,
      review_reference = ''keys/reviewer.pub'', review_authorityDigest = digest_a,
      reviewedAt = lane_moment, review_signature = lane_signature,
      reviewBindingDigest = digest_a, evidenceDigest = digest_a\<rparr>"

definition lane_move_proof :: "slice_state \<Rightarrow> slice_state \<Rightarrow> lifecycle_proof" where
  "lane_move_proof s t =
     \<lparr>proof_authorityId = ''lifecycle-controller'', proof_reference = ''keys/lifecycle.pub'',
      proof_authorityDigest = digest_a, proof_attemptId = ''attempt-1'', proof_expectedState = s,
      proof_nextState = t, proof_candidate = candidate_at t,
      proof_reviewBindingDigest = (if t = REVIEW_GO then Some digest_a else None),
      proof_reviewEvidenceDigest = (if t = REVIEW_GO then Some digest_a else None),
      proof_reviewers = (if t = REVIEW_GO then [reviewer_binding_of lane_review] else []),
      assertedAt = lane_moment, proof_signature = lane_signature, lifecycle_proofDigest = digest_a\<rparr>"

definition lane_move :: "slice_state \<Rightarrow> slice_state \<Rightarrow> transition_command" where
  "lane_move s t =
     \<lparr>transition_executionKey = lane_key, transition_leaseId = leaseId (lane_lease True),
      transition_attemptId = ''attempt-1'', transition_fencingToken = 1, expectedState = s,
      transition_nextState = t, transition_snapshotFingerprint = digest_a,
      transition_candidate = candidate_at t,
      transition_quiescence = \<lparr>quiescence_observedAt = lane_moment, processIds = []\<rparr>,
      transition_proof = lane_move_proof s t,
      reviewEvidenceSet = (if t = REVIEW_GO then [lane_review] else []),
      transition_digest = digest_a\<rparr>"

definition lane_moves :: "(slice_state \<times> slice_state) list" where
  "lane_moves =
     [(ADMITTED, ACTIVE), (ACTIVE, FIXED_CANDIDATE), (FIXED_CANDIDATE, REVIEW_GO),
      (REVIEW_GO, QUEUED_FOR_INTEGRATION), (QUEUED_FOR_INTEGRATION, INTEGRATING), (INTEGRATING, CLOSED)]"

lemma lane_move_select [simp]:
  "transition_executionKey (lane_move s t) = lane_key"
  "transition_leaseId (lane_move s t) = leaseId (lane_lease True)"
  "transition_attemptId (lane_move s t) = ''attempt-1''" "transition_fencingToken (lane_move s t) = 1"
  "expectedState (lane_move s t) = s" "transition_nextState (lane_move s t) = t"
  "transition_snapshotFingerprint (lane_move s t) = digest_a"
  "transition_candidate (lane_move s t) = candidate_at t" "transition_proof (lane_move s t) = lane_move_proof s t"
  "processIds (transition_quiescence (lane_move s t)) = []"
  "quiescence_observedAt (transition_quiescence (lane_move s t)) = lane_moment"
  "reviewEvidenceSet (lane_move s t) = (if t = REVIEW_GO then [lane_review] else [])"
  "transition_digest (lane_move s t) = digest_a"
  by (simp_all add: lane_move_def del: lane_lease_select(1))

lemma lane_move_proof_select [simp]:
  "proof_authorityId (lane_move_proof s t) = ''lifecycle-controller''"
  "proof_reference (lane_move_proof s t) = ''keys/lifecycle.pub''"
  "proof_authorityDigest (lane_move_proof s t) = digest_a" "proof_attemptId (lane_move_proof s t) = ''attempt-1''"
  "proof_expectedState (lane_move_proof s t) = s" "proof_nextState (lane_move_proof s t) = t"
  "proof_candidate (lane_move_proof s t) = candidate_at t"
  "assertedAt (lane_move_proof s t) = lane_moment" "proof_signature (lane_move_proof s t) = lane_signature"
  "lifecycle_proofDigest (lane_move_proof s t) = digest_a"
  by (simp_all add: lane_move_proof_def)

lemma lane_move_review [simp]:
  "proof_reviewBindingDigest (lane_move_proof s t) = (if t = REVIEW_GO then Some digest_a else None)"
  "proof_reviewEvidenceDigest (lane_move_proof s t) = (if t = REVIEW_GO then Some digest_a else None)"
  "proof_reviewers (lane_move_proof s t) = (if t = REVIEW_GO then [reviewer_binding_of lane_review] else [])"
  by (simp_all add: lane_move_proof_def)

lemma lane_review_select [simp]:
  "review_candidate lane_review = lane_candidate" "review_reviewerId lane_review = ''reviewer''"
  "review_role lane_review = ''reviewer''" "review_executionKey lane_review = lane_key"
  "review_leaseId lane_review = leaseId (lane_lease True)" "review_attemptId lane_review = ''attempt-1''"
  "review_fencingToken lane_review = 1" "review_snapshotFingerprint lane_review = digest_a"
  "review_reference lane_review = ''keys/reviewer.pub''" "review_authorityDigest lane_review = digest_a"
  "reviewedAt lane_review = lane_moment" "review_signature lane_review = lane_signature"
  "reviewBindingDigest lane_review = digest_a" "evidenceDigest lane_review = digest_a"
  by (simp_all add: lane_review_def del: lane_lease_select(1))

lemma lane_time [simp]: "validate_timestamp lane_moment = Inr ()"
  by code_simp

lemma lane_signature_ok: "is_ssh_signature lane_signature" "is_ascii lane_signature" "is_sshsig_armor lane_signature"
  by code_simp+

lemma lane_candidate_schema: "candidate_schema lane_candidate"
  by code_simp

lemma lane_lease_id_schema: "is_stable_id ''lease'' (leaseId (lane_lease True))"
  unfolding lane_lease_select(1) by code_simp

lemma lane_review_schema: "review_schema lane_review"
proof -
  have "is_id ''reviewer''" "is_id ''attempt-1''" "is_execution_key lane_key" "is_digest digest_a" "lane_moment \<noteq> []"
    by code_simp+
  then show ?thesis
    using lane_candidate_schema lane_lease_id_schema lane_signature_ok(1)
    by (simp add: review_schema_def lane_review_def del: lane_lease_select(1))
qed

lemma lane_move_proof_schema: "lifecycle_proof_schema (lane_move_proof s t)"
proof -
  have "is_id ''lifecycle-controller''" "is_id ''attempt-1''" "is_digest digest_a" "lane_moment \<noteq> []" "is_id ''reviewer''"
    by code_simp+
  then show ?thesis
    using lane_candidate_schema lane_signature_ok(1)
    by (simp add: lifecycle_proof_schema_def candidate_at_def reviewer_binding_of_def reviewer_binding_schema_def
        lane_review_def del: lane_lease_select(1))
qed

lemma lane_move_schema: "transition_schema (lane_move s t)"
proof -
  have "is_execution_key lane_key" "is_id ''attempt-1''" "is_digest digest_a"
    "quiescence_schema \<lparr>quiescence_observedAt = lane_moment, processIds = []\<rparr>"
    by code_simp+
  moreover from this have "quiescence_schema (transition_quiescence (lane_move s t))"
    by (simp add: lane_move_def del: lane_lease_select(1))
  ultimately show ?thesis
    using lane_candidate_schema lane_lease_id_schema lane_move_proof_schema lane_review_schema
    by (simp add: transition_schema_def candidate_at_def del: lane_lease_select(1))
qed

lemma lane_move_fields: "normalize_transition_fields (lane_move s t) = Inr (lane_move s t)"
proof -
  have paths: "canonical_relative_path ''keys/lifecycle.pub'' = Inr ''keys/lifecycle.pub''"
    "canonical_relative_path ''keys/reviewer.pub'' = Inr ''keys/reviewer.pub''" by code_simp+
  have authority: "normalize_lifecycle_authority_proof (lane_move_proof s t) = Inr (lane_move_proof s t)"
    by (simp add: normalize_lifecycle_authority_proof_def canonical_reviewer_set_def paths
        reviewer_binding_of_def lane_review_def)
  have reviews: "normalize_review_evidence_set (reviewEvidenceSet (lane_move s t)) = Inr (reviewEvidenceSet (lane_move s t))"
    using lane_time by (simp add: normalize_review_evidence_set_def canonical_reviewer_set_def paths lane_review_def)
  have same: "normalize_process_quiescence (transition_quiescence (lane_move s t)) = transition_quiescence (lane_move s t)"
    by (simp add: normalize_process_quiescence_def lane_move_def)
  have "normalize_transition_fields (lane_move s t) =
      Inr ((lane_move s t)\<lparr>transition_quiescence := transition_quiescence (lane_move s t),
        transition_proof := lane_move_proof s t, reviewEvidenceSet := reviewEvidenceSet (lane_move s t)\<rparr>)"
    unfolding normalize_transition_fields_def reviews same lane_move_select(9) authority by simp
  then show ?thesis by (simp add: lane_move_def)
qed

lemma lane_digest_list: "sha256_json lane_sha (jstrs [digest_a]) = digest_a"
  "sha256_json lane_sha (JArr [review_json lane_review]) = digest_a"
proof -
  have "\<not> json_eq (jstrs [digest_a]) second_lane" by code_simp
  then show "sha256_json lane_sha (jstrs [digest_a]) = digest_a" by (simp add: lane_digest)
  have "\<not> json_eq (JArr [review_json lane_review]) second_lane"
    by (simp add: second_lane_def jstrs_def json_eq_JArr)
  then show "sha256_json lane_sha (JArr [review_json lane_review]) = digest_a" by (simp add: lane_digest)
qed

lemma lane_review_digests:
  "review_binding_digest lane_sha c v = digest_a" "review_evidence_digest lane_sha v = digest_a"
  by (simp_all add: review_binding_digest_def review_evidence_digest_def)

lemma lane_move_reviews: "validate_review_evidence lane_sha (lane_move s t) = Inr ()"
proof (cases "t = REVIEW_GO")
  case True
  then show ?thesis
    by (simp add: validate_review_evidence_def review_binds_def lane_review_digests lane_digest_list candidate_at_def
        candidate_states_def del: lane_lease_select(1))
      (simp add: lane_review_def reviewer_binding_of_def lane_digest_list)
next
  case False
  then show ?thesis by (simp add: validate_review_evidence_def)
qed

lemma lane_move_normal:
  assumes "(s, t) \<in> set lane_moves"
  shows "normalize_transition_command lane_sha (lane_move s t) = Inr (lane_move s t)"
proof -
  have "transition_allowed s t" using assms by (auto simp: lane_moves_def transition_allowed_def)
  moreover have "validate_lifecycle_authority lane_sha (lane_move s t) = Inr ()"
    by (simp add: validate_lifecycle_authority_def)
  ultimately show ?thesis
    by (simp add: normalize_transition_command_def validate_schema_def lane_move_schema lane_move_fields
        verify_command_digest_def lane_move_reviews candidate_at_def del: lane_lease_select(1))
qed

section \<open>The authorities\<close>

lemma lane_public_key_digest: "lane_sha lane_public_key = replicate 64 (CHR ''a'')"
proof -
  have "lane_public_key \<noteq> canonical_json_bytes second_lane" by code_simp
  then show ?thesis by (simp add: lane_sha_def lane_public_key_def)
qed

lemma lane_controllers:
  "current_authority_record lane_snapshot ''keys/lifecycle.pub'' digest_a ''lifecycle-controller'' code =
     Inr (lane_authority ''lifecycle-controller'' ''keys/lifecycle.pub'')"
  "current_authority_record lane_snapshot ''keys/recovery.pub'' digest_a ''recovery-controller'' code =
     Inr (lane_authority ''recovery-controller'' ''keys/recovery.pub'')"
  "current_authority_record lane_snapshot ''keys/reviewer.pub'' digest_a ''reviewer'' code =
     Inr (lane_authority ''reviewer'' ''keys/reviewer.pub'')"
  by code_simp+

lemma lane_keys:
  "read_current_authority_bytes lane_sha lane_live (lane_authority name ''keys/lifecycle.pub'') = Inr lane_public_key"
  "read_current_authority_bytes lane_sha lane_live (lane_authority name ''keys/recovery.pub'') = Inr lane_public_key"
  "read_current_authority_bytes lane_sha lane_live (lane_authority name ''keys/reviewer.pub'') = Inr lane_public_key"
proof -
  have "length lane_public_key \<le> 1048576" by (simp add: lane_public_key_def)
  moreover have "path_parts ''keys/lifecycle.pub'' = [''keys'', ''lifecycle.pub'']"
    "path_parts ''keys/recovery.pub'' = [''keys'', ''recovery.pub'']"
    "path_parts ''keys/reviewer.pub'' = [''keys'', ''reviewer.pub'']"
    "\<not> is_absolute ''keys/lifecycle.pub''" "\<not> is_absolute ''keys/recovery.pub''" "\<not> is_absolute ''keys/reviewer.pub''"
    by code_simp+
  ultimately show
    "read_current_authority_bytes lane_sha lane_live (lane_authority name ''keys/lifecycle.pub'') = Inr lane_public_key"
    "read_current_authority_bytes lane_sha lane_live (lane_authority name ''keys/recovery.pub'') = Inr lane_public_key"
    "read_current_authority_bytes lane_sha lane_live (lane_authority name ''keys/reviewer.pub'') = Inr lane_public_key"
    by (simp_all add: read_current_authority_bytes_def lane_authority_def lane_public_key_digest)
qed

lemma lane_signed:
  assumes "is_ascii identity"
  shows "verify_sshsig_signature lane_ssh lane_public_key lane_signature payload identity namespace code = Inr ()"
proof -
  have "openssh_ed25519_public_key lane_public_key = Inr ''ssh-ed25519 AAAA''" by code_simp
  with assms show ?thesis by (simp add: verify_sshsig_signature_def lane_ssh_def lane_signature_ok)
qed

lemma lane_lifecycle: "verify_lifecycle lane_sha lane_live lane_snapshot (lane_move s t) = Inr ()"
proof -
  have "is_ascii ''lifecycle-controller''" by code_simp
  then show ?thesis by (simp add: verify_lifecycle_def lane_controllers lane_keys lane_signed)
qed

section \<open>The lane at every state\<close>

definition lane_at :: "slice_state \<Rightarrow> lease" where
  "lane_at s =
     (if s = ADMITTED then lane_lease True
      else (lane_lease True)\<lparr>lease_state := s, lease_candidate := candidate_at s,
             lastTransitionAt := lane_moment, released := (s = CLOSED)\<rparr>)"

lemma lane_at_select [simp]:
  "leaseId (lane_at s) = leaseId (lane_lease True)" "lease_key (lane_at s) = acquisition_key (lane_acquire True)"
  "lease_executionKey (lane_at s) = lane_key" "lease_sliceId (lane_at s) = ''tool''"
  "lease_attemptId (lane_at s) = ''attempt-1''" "lease_snapshotFingerprint (lane_at s) = digest_a"
  "lease_sourceRoot (lane_at s) = ''/srv/demo''" "lease_laneRoot (lane_at s) = lane_root True"
  "lanePhysicalIdentity (lane_at s) = lane_inode True" "lease_fencingToken (lane_at s) = 1"
  "lease_state (lane_at s) = s" "lease_candidate (lane_at s) = candidate_at s"
  "released (lane_at s) \<longleftrightarrow> s = CLOSED"
  using lane_lease_select[of True]
  by (simp_all add: lane_at_def candidate_at_def candidate_states_def lease_key_def lane_name_def lane_attempt_def
      del: lane_lease_select)

lemma lane_at_transitioned:
  assumes "(s, t) \<in> set lane_moves"
  shows "transitioned (lane_move s t) (candidate_at t) (lane_at s) = lane_at t"
  using assms by (auto simp: lane_moves_def transitioned_def lane_at_def)

lemma lane_candidate_live: "validate_live_lane_candidate lane_live (lane_at s) lane_candidate = Inr ()"
proof -
  have "git_object lane_repository (candidate_commit lane_candidate) ''commit'' =
      Some (''tree '' @ candidate_tree lane_candidate @ [newline] @ ''parent ''
                   @ candidate_parent lane_candidate @ [newline, newline])"
    "git_object lane_repository (candidate_parent lane_candidate) ''commit'' = Some []"
    "git_object lane_repository (candidate_tree lane_candidate) ''tree'' = Some []"
    "repository_head lane_repository = candidate_commit lane_candidate"
    "commit_links (''tree '' @ candidate_tree lane_candidate @ [newline] @ ''parent ''
                   @ candidate_parent lane_candidate @ [newline, newline]) =
       Some (candidate_tree lane_candidate, candidate_parent lane_candidate)"
    by code_simp+
  then show ?thesis by (simp only: validate_live_lane_candidate_def validate_lane_physical_identity_def
      lane_live_select lane_at_select lane_open_root simp_thms raise_if_def if_False bindE_Inr option.case prod.case option.distinct)
qed

lemma lane_review_policy: "acquired_review_policy (lane_acquire True) (lane_at s) = Inr ([''reviewer''], ''GO_ZERO_FINDINGS'')"
proof -
  let ?q = "execution_requirements_of lane_envelope [lane_slice True]"
  have "plan_requiredReviewers ?q = [''reviewer'']" "plan_minimumReviewVerdict ?q = ''GO_ZERO_FINDINGS''"
    "map (\<lambda>x. (requirement_sliceId x, reviewerRole (requirement_policy x), minimumVerdict (requirement_policy x)))
       (sliceRequirements ?q) = [(''tool'', ''reviewer'', ''GO_ZERO_FINDINGS'')]"
    by code_simp+
  then show ?thesis by (auto simp: acquired_review_policy_def lane_plan_select sorted_union_def map_eq_Cons_conv)
qed

lemma lane_review_satisfies: "review_satisfies lane_sha lane_snapshot (lane_at FIXED_CANDIDATE) (lane_move s REVIEW_GO) ''GO_ZERO_FINDINGS'' lane_review"
proof -
  obtain x where "parse_timestamp lane_moment = Some x"
    using lane_time by (cases "parse_timestamp lane_moment")
      (simp_all add: validate_timestamp_def parse_rfc3339_def wrap_planning_def)
  then show ?thesis
    by (simp add: review_satisfies_def lane_review_digests candidate_at_def candidate_states_def
        del: lane_lease_select(1))
qed

lemma lane_reviewed:
  "validate_and_verify_review_set lane_sha lane_live lane_snapshot (lane_acquire True) (lane_at FIXED_CANDIDATE)
     (lane_move s REVIEW_GO) = Inr ()"
proof -
  have "is_ascii ''reviewer''" by code_simp
  then have "verify_review lane_sha lane_live lane_snapshot (lane_at FIXED_CANDIDATE) (lane_move s REVIEW_GO)
      [''reviewer''] ''GO_ZERO_FINDINGS'' lane_review = Inr ()"
    using lane_review_satisfies[of s]
    by (simp add: verify_review_def lane_controllers lane_keys lane_signed)
  then show ?thesis
    by (simp add: validate_and_verify_review_set_def Let_def lane_review_policy lane_digest_list
        reviewer_binding_of_def)
qed

section \<open>The journals of the lane's life\<close>

text \<open>The journal after a list of moves, and the receipt of the next one.\<close>

definition move_lane :: "journal \<Rightarrow> slice_state \<times> slice_state \<Rightarrow> journal \<times> receipt" where
  "move_lane j m =
     commit_transition lane_sha lane_key j (lane_at (fst m)) (lane_move (fst m) (snd m)) digest_a
       (candidate_at (snd m))"

definition moved_journal :: "(slice_state \<times> slice_state) list \<Rightarrow> journal" where
  "moved_journal ms = foldl (\<lambda>j m. fst (move_lane j m)) acquired_journal ms"

definition move_receipt :: "slice_state \<times> slice_state \<Rightarrow> receipt \<Rightarrow> bool" where
  "move_receipt m r =
     (receipt_evidence_of r = Transition_Evidence (lane_move (fst m) (snd m))
      \<and> receipt_previousState r = Some (fst m) \<and> receipt_nextState r = Some (snd m))"

text \<open>What the journal holds when the lane has reached a state by the given moves.\<close>

definition lane_stage :: "slice_state \<Rightarrow> (slice_state \<times> slice_state) list \<Rightarrow> journal \<Rightarrow> bool" where
  "lane_stage s ms j =
     (lane_reached j \<and> leases j = [lane_at s] \<and> recoveryState j = CLEAR
      \<and> (\<exists>rs. receipts j = acquired_receipt # rs \<and> list_all2 move_receipt ms rs))"

lemma lane_stage_acquired: "lane_stage ADMITTED [] acquired_journal"
  by (simp add: lane_stage_def lane_acquired_steps lane_at_def del: lane_at_select)

lemma lane_move_distinct:
  assumes "canonical_json_bytes (transition_json (lane_move s t)) = canonical_json_bytes (transition_json (lane_move s' t'))"
  shows "s = s' \<and> t = t'"
proof -
  let ?a = "transition_payload (lane_move s t) @ [(''commandDigest'', JStr (transition_digest (lane_move s t)))]"
  let ?b = "transition_payload (lane_move s' t') @ [(''commandDigest'', JStr (transition_digest (lane_move s' t')))]"
  have "list_all2 (\<lambda>a b. json_eq (snd a) (snd b)) ?a ?b"
    using assms unfolding canonical_json_bytes_inject transition_json_def
    by (subst (asm) json_eq_same_keys) (simp_all add: transition_payload_def)
  then show ?thesis by (simp add: transition_payload_def)
qed

lemma lane_stage_receipts:
  assumes "lane_stage s ms j"
  shows "acquire_receipt_for j (lane_at s') = Some (acquired_receipt, lane_acquire True)"
    and "m \<notin> set ms \<Longrightarrow> r \<in> set (transition_receipts_for j i) \<Longrightarrow>
      canonical_json_bytes (transition_json (snd r)) \<noteq> canonical_json_bytes (transition_json (lane_move (fst m) (snd m)))
      \<and> (receipt_previousState (fst r), receipt_nextState (fst r)) \<noteq> (Some (fst m), Some (snd m))"
proof -
  obtain rs where rs: "receipts j = acquired_receipt # rs" "list_all2 move_receipt ms rs"
    using assms by (auto simp: lane_stage_def)
  then show "acquire_receipt_for j (lane_at s') = Some (acquired_receipt, lane_acquire True)"
    by (simp add: acquire_receipt_for_def)
  assume m: "m \<notin> set ms" and r: "r \<in> set (transition_receipts_for j i)"
  then obtain c where c: "fst r \<in> set rs" "receipt_evidence_of (fst r) = Transition_Evidence (snd r)"
    by (cases "receipt_evidence_of (fst r)") (auto simp: transition_receipts_for_def rs split: option.splits if_splits)
  from rs(2) c(1) obtain n where n: "n \<in> set ms" "move_receipt n (fst r)"
    by (metis in_set_conv_nth list_all2_conv_all_nth)
  with m have "n \<noteq> m" by blast
  then have "\<not> (fst n = fst m \<and> snd n = snd m)" by (simp add: prod_eq_iff)
  with n c(2) lane_move_distinct show "canonical_json_bytes (transition_json (snd r)) \<noteq>
      canonical_json_bytes (transition_json (lane_move (fst m) (snd m)))
      \<and> (receipt_previousState (fst r), receipt_nextState (fst r)) \<noteq> (Some (fst m), Some (snd m))"
    by (auto simp: move_receipt_def)
qed

lemma lane_authorized:
  assumes "lane_stage s ms j" "(s, t) \<in> set lane_moves"
  shows "authorize_transition lane_sha lane_live lane_identity j (lane_at s) (lane_move s t) = Inr digest_a"
proof -
  have review: "t = REVIEW_GO \<Longrightarrow> s = FIXED_CANDIDATE" using assms(2) by (auto simp: lane_moves_def)
  have clear: "recoveryState j = CLEAR" using assms(1) by (simp add: lane_stage_def)
  show ?thesis
    using review lane_reviewed[of s] lane_stage_receipts(1)[OF assms(1)]
    by (auto simp: authorize_transition_def clear lane_transition_snapshot lane_lifecycle candidate_at_def
        candidate_states_def)
qed

lemma lane_checked_move:
  assumes "lane_stage s ms j" "(s, t) \<in> set lane_moves" "(s, t) \<notin> set ms"
  shows "exact_transition_replay j (lane_at s) (lane_move s t) = None"
    and "check_transition lane_live j (lane_at s) (lane_move s t) = Inr (candidate_at t)"
proof -
  note fresh = lane_stage_receipts(2)[OF assms(1,3)]
  show "exact_transition_replay j (lane_at s) (lane_move s t) = None"
    using fresh unfolding exact_transition_replay_def find_None_iff by fastforce
  have "\<not> conflicting_transition j (lane_at s) (lane_move s t)"
    using fresh unfolding conflicting_transition_def list_ex_iff by fastforce
  then show "check_transition lane_live j (lane_at s) (lane_move s t) = Inr (candidate_at t)"
    using assms(2) lane_candidate_live
    by (auto simp: check_transition_def lane_moves_def next_candidate_def candidate_at_def candidate_states_def
        terminal_states_def)
qed

lemma lane_stage_step:
  assumes "lane_stage s ms j" "(s, t) \<in> set lane_moves" "(s, t) \<notin> set ms"
  shows "transition_step lane_sha lane_live lane_identity j (lane_move s t) =
      Inr (Commit (fst (move_lane j (s, t))) (snd (move_lane j (s, t))))"
    and "coordinator_step lane_sha lane_key j (fst (move_lane j (s, t)))"
    and "lane_stage t (ms @ [(s, t)]) (fst (move_lane j (s, t)))"
    and "move_receipt (s, t) (snd (move_lane j (s, t)))"
proof -
  have leases: "leases j = [lane_at s]" and reached: "lane_reached j" using assms(1) by (simp_all add: lane_stage_def)
  have find: "find_lease (leaseId (lane_lease True)) (leases j) = Some (lane_at s)"
    by (simp add: find_lease_def leases del: lane_lease_select(1))
  show step: "transition_step lane_sha lane_live lane_identity j (lane_move s t) =
      Inr (Commit (fst (move_lane j (s, t))) (snd (move_lane j (s, t))))"
    by (simp add: transition_step_def lane_move_normal[OF assms(2)] find lane_authorized[OF assms(1,2)]
        lane_checked_move[OF assms] move_lane_def prod.case_eq_if del: lane_lease_select(1))
  from lane_transitioned[OF reached step]
  show "coordinator_step lane_sha lane_key j (fst (move_lane j (s, t)))" by blast
  show receipt: "move_receipt (s, t) (snd (move_lane j (s, t)))"
    by (simp add: move_receipt_def move_lane_def commit_transition_def Let_def transition_receipt_def)
  have "leases (fst (move_lane j (s, t))) = [lane_at t]"
    by (simp add: move_lane_def commit_fields leases update_lease_def lane_at_transitioned[OF assms(2)])
  moreover have "recoveryState (fst (move_lane j (s, t))) = CLEAR"
    using assms(1) by (simp add: move_lane_def commit_fields lane_stage_def)
  moreover have "receipts (fst (move_lane j (s, t))) = receipts j @ [snd (move_lane j (s, t))]"
    by (simp add: move_lane_def commit_transition_def Let_def)
  ultimately show "lane_stage t (ms @ [(s, t)]) (fst (move_lane j (s, t)))"
    using assms(1) receipt lane_transitioned[OF reached step]
    by (auto simp: lane_stage_def intro: list_all2_appendI)
qed

lemma moved_journal_simps [simp]:
  "moved_journal [] = acquired_journal" "moved_journal (ms @ [m]) = fst (move_lane (moved_journal ms) m)"
  by (simp_all add: moved_journal_def)

text \<open>The lane after each of its six moves.\<close>

lemma lane_life:
  assumes "n < 6"
  shows "lane_stage (fst (lane_moves ! n)) (take n lane_moves) (moved_journal (take n lane_moves))"
  using assms
proof (induction n)
  case 0
  then show ?case using lane_stage_acquired by (simp add: lane_moves_def)
next
  case (Suc n)
  let ?m = "lane_moves ! n"
  have n: "n < length lane_moves" and last: "snd ?m = fst (lane_moves ! Suc n)"
    using Suc.prems by (auto simp: lane_moves_def less_Suc_eq numeral_eq_Suc)
  have "distinct lane_moves" by (simp add: lane_moves_def)
  then have "?m \<notin> set (take n lane_moves)"
    using n by (metis distinct_take id_take_nth_drop not_distinct_conv_prefix take_Suc_conv_app_nth)
  with Suc have "lane_stage (snd ?m) (take n lane_moves @ [?m]) (fst (move_lane (moved_journal (take n lane_moves)) ?m))"
    using lane_stage_step(3)[of "fst ?m" "take n lane_moves" "moved_journal (take n lane_moves)" "snd ?m"] n by simp
  then show ?case using n last by (simp add: take_Suc_conv_app_nth)
qed

end
