(* ===== verification/Sample_Recovery.thy ===== *)
theory Sample_Recovery
  imports Sample_Journals
begin

text \<open>
  A write breach of the sample lanes and its recovery: the lane \<open>tool\<close> wrote a page of the lane
  \<open>web\<close>, both lanes are quarantined, and the signed recovery releases them, the writer as
  CANCELLED and the owner of the page as STALE.
\<close>

section \<open>The observation\<close>

lemma lane_id_order: "leaseId (lane_lease True) < leaseId (lane_lease False)"
  unfolding lane_lease_select(1) by code_simp

lemma lane_id_distinct [simp]:
  "leaseId (lane_lease True) \<noteq> leaseId (lane_lease False)" "leaseId (lane_lease False) \<noteq> leaseId (lane_lease True)"
  using lane_id_order by auto

lemma lane_id_schema: "is_stable_id ''lease'' (leaseId (lane_lease first))"
  unfolding lane_lease_select(1) by (induct first) code_simp+

declare lane_lease_select(1) [simp del]

definition lane_observation :: observation_command where
  "lane_observation =
     \<lparr>observation_executionKey = lane_key, observation_leaseId = leaseId (lane_lease True),
      observation_fencingToken = 1, beforeInventoryDigest = digest_a,
      observedPaths = [lane_page], ephemeralPathsRemoved = [],
      observation_quiescence = \<lparr>quiescence_observedAt = lane_moment, processIds = []\<rparr>,
      observation_digest = digest_a\<rparr>"

definition lane_decisions :: "lease_decision list" where
  "lane_decisions =
     [\<lparr>decided_leaseId = leaseId (lane_lease True), decided_state = CANCELLED, decided_reason = ''PROJECT_RECOVERY''\<rparr>,
      \<lparr>decided_leaseId = leaseId (lane_lease False), decided_state = STALE, decided_reason = ''WRITESET_OVERLAP''\<rparr>]"

lemma lane_observation_select [simp]:
  "observation_executionKey lane_observation = lane_key"
  "observation_leaseId lane_observation = leaseId (lane_lease True)"
  "observation_fencingToken lane_observation = 1" "beforeInventoryDigest lane_observation = digest_a"
  "observedPaths lane_observation = [lane_page]" "ephemeralPathsRemoved lane_observation = []"
  "observation_quiescence lane_observation = \<lparr>quiescence_observedAt = lane_moment, processIds = []\<rparr>"
  "observation_digest lane_observation = digest_a"
  by (simp_all add: lane_observation_def)

lemma lane_paths_set:
  "canonical_path_set [lane_page] = Inr [lane_page]" "canonical_path_set [] = Inr []"
  by code_simp+

lemma lane_observation_same:
  "lane_observation\<lparr>observedPaths := [lane_page], ephemeralPathsRemoved := [],
     observation_quiescence := \<lparr>quiescence_observedAt = lane_moment, processIds = []\<rparr>\<rparr> = lane_observation"
  by (simp add: lane_observation_def)

lemma lane_observation_normal:
  "normalize_write_observation_command lane_sha lane_observation = Inr lane_observation"
proof -
  have "is_execution_key lane_key" "is_digest digest_a" "string_set [lane_page]" "string_set []"
    "quiescence_schema \<lparr>quiescence_observedAt = lane_moment, processIds = []\<rparr>"
    by code_simp+
  then have schema: "observation_schema lane_observation"
    using lane_id_schema[of True] by (simp add: observation_schema_def)
  from this show ?thesis
    using schema lane_time
    by (simp add: normalize_write_observation_command_def validate_schema_def lane_paths_set
        normalize_process_quiescence_def verify_command_digest_def Let_def lane_observation_same)
qed

lemma lane_recoverable: "recoverable_leases two_lanes = [lane_lease True, lane_lease False]"
  by (simp add: recoverable_leases_def)

lemma lane_key_distinct [simp]:
  "acquisition_key (lane_acquire True) \<noteq> acquisition_key (lane_acquire False)"
  "acquisition_key (lane_acquire False) \<noteq> acquisition_key (lane_acquire True)"
  by (simp_all add: acquisition_key_def lane_name_def)

lemma lane_commands: "acquire_command_for two_lanes (lane_lease first) = Inr (lane_acquire first)"
  by (induct first) (simp_all add: acquire_command_for_def List.map_filter_simps)

lemma lane_decided:
  "decide_lease (lane_acquire True) [lane_page] (lane_lease True) =
     \<lparr>decided_leaseId = leaseId (lane_lease True), decided_state = CANCELLED, decided_reason = ''PROJECT_RECOVERY''\<rparr>"
  "decide_lease (lane_acquire False) [lane_page] (lane_lease False) =
     \<lparr>decided_leaseId = leaseId (lane_lease False), decided_state = STALE, decided_reason = ''WRITESET_OVERLAP''\<rparr>"
proof -
  have "\<not> list_ex (paths_overlap lane_page) (authority_paths (lane_acquire first))" for first
  proof -
    have "authority_paths (lane_acquire first) =
        sorted_union (authorityReferences (lane_slice first)) (map authority_path (authorities lane_snapshot))"
      by (simp add: authority_paths_def)
    moreover have "\<not> list_ex (paths_overlap lane_page)
        (sorted_union (authorityReferences (lane_slice first)) (map authority_path (authorities lane_snapshot)))"
      by (induct first) code_simp+
    ultimately show ?thesis by simp
  qed
  moreover have "\<not> list_ex (paths_overlap lane_page) (exactWriteSet (lane_footprint True) @ ephemeralWriteSet (lane_footprint True))"
    "list_ex (paths_overlap lane_page) (exactWriteSet (lane_footprint False) @ ephemeralWriteSet (lane_footprint False))"
    by code_simp+
  moreover have "list_ex f [lane_page] = f lane_page" for f by simp
  ultimately show
    "decide_lease (lane_acquire True) [lane_page] (lane_lease True) =
       \<lparr>decided_leaseId = leaseId (lane_lease True), decided_state = CANCELLED, decided_reason = ''PROJECT_RECOVERY''\<rparr>"
    "decide_lease (lane_acquire False) [lane_page] (lane_lease False) =
       \<lparr>decided_leaseId = leaseId (lane_lease False), decided_state = STALE, decided_reason = ''WRITESET_OVERLAP''\<rparr>"
    by (simp_all only: decide_lease_def lane_lease_select Let_def simp_thms if_True if_False)
qed

lemma lane_sorted_ids:
  "sort [leaseId (lane_lease True), leaseId (lane_lease False)] = [leaseId (lane_lease True), leaseId (lane_lease False)]"
  "sort_key decided_leaseId lane_decisions = lane_decisions"
  using lane_id_order by (simp_all add: lane_decisions_def)

lemma lane_affected: "affected_decisions two_lanes [lane_page] = Inr lane_decisions"
  using lane_sorted_ids(2)
  by (simp add: affected_decisions_def lane_recoverable lane_commands lane_decided lane_decisions_def)

definition quarantined_journal :: journal where
  "quarantined_journal =
     fst (commit_quarantine lane_sha two_lanes (lane_lease True) lane_observation [lane_page] lane_decisions)"

definition quarantine_receipt :: receipt where
  "quarantine_receipt =
     snd (commit_quarantine lane_sha two_lanes (lane_lease True) lane_observation [lane_page] lane_decisions)"

definition lane_evidence :: recovery_evidence where
  "lane_evidence =
     \<lparr>evidence_observed = [lane_page],
      evidence_revoked = [leaseId (lane_lease True), leaseId (lane_lease False)],
      evidence_decisions = lane_decisions, quarantineCommand = lane_observation, recoveryCommand = None\<rparr>"

lemma lane_observe_step:
  "observe_step lane_sha lane_live (Some two_lanes) lane_observation = Inr (Commit quarantined_journal quarantine_receipt)"
proof -
  have "find_lease (leaseId (lane_lease True)) (leases two_lanes) = Some (lane_lease True)"
    by (simp add: find_lease_def)
  moreover have "exact_observation_replay two_lanes lane_observation = None" "\<not> conflicting_observation two_lanes lane_observation"
    by (simp_all add: exact_observation_replay_def conflicting_observation_def)
  moreover have "check_observed_lane lane_sha lane_live (lane_lease True) lane_observation = Inr [lane_page]"
    by (simp add: check_observed_lane_def lane_footprint_def)
  moreover have "sorted_union (prior_paths two_lanes) [lane_page] = [lane_page]"
    by (simp add: prior_paths_def open_evidence_def sorted_union_def)
  ultimately show ?thesis
    by (simp add: observe_step_def quarantine_step_def lane_affected quarantined_journal_def quarantine_receipt_def
        prod.case_eq_if Let_def)
qed

lemma lane_quarantined:
  "coordinator_step lane_sha lane_key two_lanes quarantined_journal" "lane_reached quarantined_journal"
  using lane_observed[OF lane_acquired_steps(4) lane_observation_normal lane_observe_step] by blast+

lemma quarantined_fields_sample [simp]:
  "leases quarantined_journal = [quarantined (lane_lease True), quarantined (lane_lease False)]"
  "recoveryState quarantined_journal = PROJECT_WRITESET_RECOVERY"
  "recoveryEvidence quarantined_journal = Some lane_evidence"
  "journalVersion quarantined_journal = 3"
  "receipts quarantined_journal = [acquired_receipt, two_lanes_receipt, quarantine_receipt]"
  "receipt_evidence_of quarantine_receipt = Quarantine_Evidence lane_observation [lane_page]
     [leaseId (lane_lease True), leaseId (lane_lease False)] lane_decisions"
  using lane_sorted_ids(1)
  by (simp_all add: quarantined_journal_def quarantine_receipt_def commit_fields lane_evidence_def lane_recoverable
      commit_quarantine_def Let_def observation_receipt_def)

section \<open>The recovery\<close>

definition lane_recovery :: recovery_command where
  "lane_recovery =
     \<lparr>recovery_executionKey = lane_key, recoveryId = ''recovery:'' @ replicate 24 (CHR ''a''),
      recoveryAuthorityReference = ''keys/recovery.pub'', recoveryAuthorityDigest = digest_a,
      recoveryAuthorityPublicKey = lane_public_key, recovery_signature = lane_signature,
      expectedJournalVersion = 3,
      processQuiescenceProofs =
        [\<lparr>quiescent_leaseId = leaseId (lane_lease True), quiescent_fencingToken = 1, quiescent_observedAt = lane_moment\<rparr>,
         \<lparr>quiescent_leaseId = leaseId (lane_lease False), quiescent_fencingToken = 2, quiescent_observedAt = lane_moment\<rparr>],
      observedWriteSet = [lane_page], affectedLeaseDecisions = lane_decisions, recovery_digest = digest_a\<rparr>"

lemma lane_recovery_select [simp]:
  "recovery_executionKey lane_recovery = lane_key" "recoveryId lane_recovery = ''recovery:'' @ replicate 24 (CHR ''a'')"
  "recoveryAuthorityReference lane_recovery = ''keys/recovery.pub''" "recoveryAuthorityDigest lane_recovery = digest_a"
  "recoveryAuthorityPublicKey lane_recovery = lane_public_key" "recovery_signature lane_recovery = lane_signature"
  "expectedJournalVersion lane_recovery = 3" "observedWriteSet lane_recovery = [lane_page]"
  "processQuiescenceProofs lane_recovery =
     [\<lparr>quiescent_leaseId = leaseId (lane_lease True), quiescent_fencingToken = 1, quiescent_observedAt = lane_moment\<rparr>,
      \<lparr>quiescent_leaseId = leaseId (lane_lease False), quiescent_fencingToken = 2, quiescent_observedAt = lane_moment\<rparr>]"
  "affectedLeaseDecisions lane_recovery = lane_decisions" "recovery_digest lane_recovery = digest_a"
  by (simp_all add: lane_recovery_def)

lemma lane_recovery_same:
  "lane_recovery\<lparr>recoveryAuthorityReference := ''keys/recovery.pub'',
     processQuiescenceProofs := processQuiescenceProofs lane_recovery,
     observedWriteSet := [lane_page], affectedLeaseDecisions := lane_decisions\<rparr> = lane_recovery"
  by (simp add: lane_recovery_def)

lemma lane_recovery_schema: "recovery_schema lane_recovery"
proof -
  have "is_execution_key lane_key" "is_digest digest_a" "string_set [lane_page]"
    "is_stable_id ''recovery'' (''recovery:'' @ replicate 24 (CHR ''a''))" "is_ssh_public_key lane_public_key"
    "lane_signature \<noteq> []" "lane_moment \<noteq> []"
    by code_simp+
  then show ?thesis
    using lane_id_schema by (simp add: recovery_schema_def lane_decisions_def lease_decision_schema_def)
qed

lemma lane_recovery_sets:
  "canonical_object_set quiescent_leaseId (processQuiescenceProofs lane_recovery) = Inr (processQuiescenceProofs lane_recovery)"
  "canonical_object_set decided_leaseId lane_decisions = Inr lane_decisions"
  "map quiescent_leaseId (processQuiescenceProofs lane_recovery) = map decided_leaseId lane_decisions"
  using lane_id_order by (simp_all add: canonical_object_set_def lane_decisions_def)

lemma lane_recovery_path: "canonical_relative_path ''keys/recovery.pub'' = Inr ''keys/recovery.pub''"
  by code_simp

lemma lane_recovery_normal: "normalize_recovery_command lane_sha lane_recovery = Inr lane_recovery"
proof -
  have times: "eachE (\<lambda>q. validate_timestamp (quiescent_observedAt q)) (processQuiescenceProofs lane_recovery) = Inr ()"
    using lane_time by simp
  show ?thesis
    unfolding normalize_recovery_command_def Let_def lane_recovery_select(1-8,10,11) lane_recovery_sets lane_recovery_path
      lane_paths_set bindE_Inr lane_recovery_same validate_schema_def times verify_command_digest_def
    by (simp add: lane_recovery_schema)
qed

section \<open>The lanes released\<close>

lemma lane_quarantined_select [simp]:
  "lease_sourceRoot (quarantined l) = lease_sourceRoot l" "lease_laneRoot (quarantined l) = lease_laneRoot l"
  "lanePhysicalIdentity (quarantined l) = lanePhysicalIdentity l"
  "lease_snapshotFingerprint (quarantined l) = lease_snapshotFingerprint l"
  by (simp_all add: quarantined_def)

lemma lane_quarantined_key [simp]: "lease_key (quarantined l) = lease_key l"
  by (simp add: quarantined_def lease_key_def)

lemma lane_revoked:
  "revoked_leases quarantined_journal lane_evidence = Inr [quarantined (lane_lease True), quarantined (lane_lease False)]"
  by (simp add: revoked_leases_def lane_evidence_def leases_by_id_def map_of_dict_of)

lemma lane_recovery_command:
  "acquire_command_for quarantined_journal (quarantined (lane_lease first)) = Inr (lane_acquire first)"
  by (induct first) (simp_all add: acquire_command_for_def List.map_filter_simps)

lemma lane_recovery_authorized:
  "authorize_recovery lane_sha lane_live lane_identity quarantined_journal lane_recovery
     [quarantined (lane_lease True), quarantined (lane_lease False)] = Inr digest_a"
proof -
  have "is_ascii lane_public_key" "is_ascii ''recovery-controller''" by code_simp+
  then show ?thesis
    by (simp add: authorize_recovery_def lane_recovery_command lane_transition_snapshot lane_controllers lane_keys
        lane_signed)
qed

lemma lane_recovery_lanes:
  "mapE (check_recovered_lane lane_live lane_recovery) [quarantined (lane_lease True), quarantined (lane_lease False)] =
     Inr [[], []]"
  by (simp add: check_recovered_lane_def proofs_by_id_def lookupE_def validate_lane_physical_identity_def map_of_dict_of)

lemma lane_recovery_checked: "check_recovery_command quarantined_journal lane_recovery lane_evidence = Inr ()"
  by (simp add: check_recovery_command_def conflicting_recovery_def lane_evidence_def)

definition recovered_journal :: journal where
  "recovered_journal = fst (commit_recovery lane_sha quarantined_journal lane_recovery lane_evidence digest_a)"

definition recovered_receipt :: receipt where
  "recovered_receipt = snd (commit_recovery lane_sha quarantined_journal lane_recovery lane_evidence digest_a)"

lemma lane_recovery_step:
  "recovery_step lane_sha lane_live lane_identity (Some quarantined_journal) lane_recovery =
     Inr (Commit recovered_journal recovered_receipt)"
proof -
  have "exact_recovery_replay quarantined_journal lane_recovery = None"
    by (simp add: exact_recovery_replay_def)
  moreover have "set (evidence_revoked lane_evidence) \<subseteq> set (map decided_leaseId lane_decisions)"
    by (simp add: lane_evidence_def lane_decisions_def)
  ultimately show ?thesis
    by (simp only: recovery_step_def option.case quarantined_fields_sample lane_revoked lane_recovery_authorized
        lane_recovery_checked lane_recovery_lanes lane_recovery_select bindE_Inr)
      (simp add: recovered_journal_def recovered_receipt_def prod.case_eq_if)
qed

lemma lane_anchor:
  "filter (\<lambda>a. authority_id a = ''recovery-controller'') (authorities lane_snapshot) =
     [lane_authority ''recovery-controller'' ''keys/recovery.pub'']"
  by code_simp

lemma lane_recorded_commands:
  "map_of (commands_of quarantined_journal) (leaseId (lane_lease first)) = Some (lane_acquire first)"
proof -
  obtain persisted where ok: "validate_journal_integrity lane_sha lane_ssh quarantined_journal persisted = Inr ()"
    using lane_quarantined(2) by (rule lane_reachedE)
  have "acquisitions (quarantined (lane_lease first)) (receipts quarantined_journal) = [lane_acquire first]"
    by (induct first) (simp_all add: acquisitions_def List.map_filter_simps)
  moreover have "\<forall>r\<in>set (receipts quarantined_journal). evidence_bound lane_sha (leases quarantined_journal) r"
    using accepted_bound[OF ok] by blast
  ultimately show ?thesis
    using commands_lookup[OF accepted_keys(2,1)[OF ok], of _ "quarantined (lane_lease first)"]
    by (cases first) simp_all
qed

lemma lane_recovery_anchored:
  "validate_persisted_recovery_authority lane_sha lane_ssh lane_recovery (evidence_revoked lane_evidence)
     (commands_of quarantined_journal) = Inr ()"
proof -
  have "is_ascii lane_public_key" "is_ascii ''recovery-controller''" by code_simp+
  moreover have "authority_anchor (commands_of quarantined_journal) (leaseId (lane_lease first)) =
      Inr (''keys/recovery.pub'', digest_a)" for first
    by (simp add: authority_anchor_def lane_recorded_commands lane_anchor) (simp add: lane_authority_def digest_a_def)
  moreover have "''sha256:'' @ lane_sha lane_public_key = digest_a" by (simp add: lane_public_key_digest digest_a_def)
  ultimately show ?thesis
    by (simp add: validate_persisted_recovery_authority_def lane_evidence_def lane_signed)
qed

lemma lane_released:
  "coordinator_step lane_sha lane_key quarantined_journal recovered_journal" "lane_reached recovered_journal"
proof -
  have "validate_persisted_recovery_authority lane_sha lane_ssh lane_recovery (evidence_revoked e)
      (commands_of quarantined_journal) = Inr ()" if "recoveryEvidence quarantined_journal = Some e" for e
    using that lane_recovery_anchored by simp
  from lane_recovered[OF lane_quarantined(2) lane_recovery_normal lane_recovery_step this]
  show "coordinator_step lane_sha lane_key quarantined_journal recovered_journal" "lane_reached recovered_journal"
    by blast+
qed

text \<open>The lanes after the recovery: \<open>tool\<close> cancelled, \<open>web\<close> stale, both released.\<close>

definition released_lane :: "bool \<Rightarrow> lease" where
  "released_lane first =
     (lane_lease first)\<lparr>lease_state := (if first then CANCELLED else STALE), released := True,
       recoveryStatus := CLEAR, lastTransitionAt := lane_moment\<rparr>"

lemma recovered_leases: "leases recovered_journal = [released_lane True, released_lane False]"
  by (simp add: recovered_journal_def commit_fields lane_evidence_def recovered_def decisions_by_id_def
      proofs_by_id_def lane_decisions_def map_of_dict_of) (simp add: quarantined_def released_lane_def)

lemma released_lane_select [simp]:
  "lease_state (released_lane first) = (if first then CANCELLED else STALE)" "released (released_lane first)"
  "leaseId (released_lane first) = leaseId (lane_lease first)"
  by (simp_all add: released_lane_def)

end
