(* ===== verification/Coordinator_Witnesses.thy ===== *)
theory Coordinator_Witnesses
  imports Sample_Recovery
begin

text \<open>
  Every property of the coordinator applied to the sample journals: two lanes acquired, one of
  them taken through its review to its closing, or both quarantined and released.
\<close>

lemma lane_coordinated: "lane_reached j \<Longrightarrow> coordinated lane_sha lane_key j"
  by (simp add: lane_reached_def)

lemmas two_lanes_coordinated = lane_coordinated[OF lane_acquired_steps(4)]
lemmas acquired_coordinated = lane_coordinated[OF lane_acquired_steps(2)]
lemmas quarantined_coordinated = lane_coordinated[OF lane_quarantined(2)]
lemmas recovered_coordinated = lane_coordinated[OF lane_released(2)]

lemma released_run: "coordinator_run lane_sha lane_key two_lanes recovered_journal"
  using lane_quarantined(1) lane_released(1) by (meson rtranclp.rtrancl_into_rtrancl r_into_rtranclp)

section \<open>Lanes and tokens\<close>

theorem coordinator_refines_lanes_witness:
  "lane_step [lane_lease True] [lane_lease True, lane_lease False] \<and> lanes_ok [lane_lease True, lane_lease False]"
  using coordinator_refines_lanes[OF acquired_coordinated lane_acquired_steps(3)] by simp

theorem active_lanes_isolated_witness:
  "\<not> contains_path ''src/web'' ''src/tools/main'' \<and> \<not> contains_path ''docs/plan.md'' ''src/tools/main''
    \<and> lane_root True \<noteq> lane_root False \<and> lane_inode True \<noteq> lane_inode False"
proof -
  have "''src/tools'' \<in> set (write_paths (lane_footprint True))" "contains_path ''src/tools'' ''src/tools/main''"
    by code_simp+
  from active_lanes_isolated[OF two_lanes_coordinated, of "lane_lease True" "lane_lease False", simplified, OF this]
  show ?thesis by (simp add: lane_footprint_def write_paths_def)
qed

theorem active_lane_bound_witness:
  "length (active_leases two_lanes) \<le> 3 \<and> length (active_leases two_lanes) = 2"
  using active_lane_bound[OF two_lanes_coordinated] by (simp add: active_leases_def)

theorem fencing_tokens_grow_witness:
  "sorted_wrt (<) (map lease_fencingToken (leases two_lanes)) \<and> nextFencingToken acquired_journal \<le> nextFencingToken two_lanes
    \<and> list_all (\<lambda>r. receipt_fencingToken r < lease_fencingToken (lane_lease False)) (receipts acquired_journal)"
  using fencing_tokens_grow[OF acquired_coordinated lane_acquired_steps(3)] by (simp add: list_all_iff)

section \<open>The history\<close>

theorem journal_is_its_history_witness:
  "\<exists>h. replay_receipts recovered_journal = Inr h
    \<and> map_of (history_leases h) (leaseId (lane_lease False)) = Some (STALE, True) \<and> \<not> recovery_pending h"
proof -
  have "find_lease (leaseId (lane_lease False)) (leases recovered_journal) = Some (released_lane False)"
    by (simp add: find_lease_def recovered_leases)
  moreover have "recoveryState recovered_journal = CLEAR" by (simp add: recovered_journal_def commit_fields)
  ultimately show ?thesis using journal_is_its_history[OF recovered_coordinated] by auto
qed

theorem receipts_append_only_witness:
  "prefix [acquired_receipt, two_lanes_receipt] (receipts recovered_journal) \<and> journalVersion recovered_journal = 4
    \<and> receipt_journalDigest (last (receipts recovered_journal)) = journal_digest lane_sha recovered_journal"
proof -
  have "receipts recovered_journal = receipts quarantined_journal @ [recovered_receipt]"
    by (simp add: recovered_journal_def recovered_receipt_def commit_recovery_def)
  then show ?thesis using receipts_append_only[OF two_lanes_coordinated released_run] by simp
qed

section \<open>The lifecycle\<close>

theorem lease_lifecycle_witness:
  "\<exists>l'\<in>set (leases recovered_journal). leaseId l' = leaseId (lane_lease True)
    \<and> lease_fencingToken l' = 1 \<and> lease_laneRoot l' = lane_root True"
  using lease_lifecycle[OF two_lanes_coordinated released_run, of "lane_lease True"] by auto

theorem recovered_stale_lane_stuck_witness:
  "released_lane False \<in> set (active_leases recovered_journal)
    \<and> leaseId (lane_lease False) \<in> set (releasedLeaseIds (coordinator_status_of lane_key (Some recovered_journal)))"
  using recovered_stale_lane_stuck[OF recovered_coordinated rtranclp.rtrancl_refl, of "released_lane False"]
  by (simp add: recovered_leases)

section \<open>Recovery\<close>

theorem recovery_blocks_lanes_witness:
  "acquire_step lane_sha lane_live lane_identity quarantined_journal (lane_acquire True) =
     Inl (Coordination_Error ''COORDINATOR_RECOVERY_REQUIRED'')
   \<and> (\<exists>e. transition_step lane_sha lane_live lane_identity quarantined_journal (lane_move ADMITTED ACTIVE) = Inl e)"
  by (rule recovery_blocks_lanes) simp

theorem recovery_releases_lanes_witness:
  "recoveryState recovered_journal = CLEAR \<and> recoverable_leases recovered_journal = []
    \<and> (\<exists>l'\<in>set (leases recovered_journal). leaseId l' = leaseId (lane_lease True) \<and> released l')"
proof -
  have "quarantined (lane_lease True) \<in> set (recoverable_leases quarantined_journal)"
    by (simp add: recoverable_leases_def quarantined_def)
  with recovery_releases_lanes[OF quarantined_coordinated lane_recovery_normal lane_recovery_step]
  show ?thesis by fastforce
qed

section \<open>Signatures and reviews\<close>

theorem transition_is_signed_witness:
  "signed_by lane_sha lane_live lane_snapshot ''lifecycle-controller'' ''agent-evolution-controlled-lifecycle-v1''
     lane_signature (lifecycle_signature_payload (lane_move ADMITTED ACTIVE))"
proof -
  have move: "(ADMITTED, ACTIVE) \<in> set lane_moves" "(ADMITTED, ACTIVE) \<notin> set []" by (simp_all add: lane_moves_def)
  note step = lane_stage_step[OF lane_stage_acquired move]
  from transition_is_signed[OF step(1)] step(4) show ?thesis by (auto simp: move_receipt_def)
qed

text \<open>The journal that holds the reviewed lane.\<close>

lemma lane_stage_at:
  "lane_stage FIXED_CANDIDATE (take 2 lane_moves) (moved_journal (take 2 lane_moves))"
  "lane_stage REVIEW_GO (take 3 lane_moves) (moved_journal (take 3 lane_moves))"
  "lane_stage INTEGRATING (take 5 lane_moves) (moved_journal (take 5 lane_moves))"
  using lane_life[of 2] lane_life[of 3] lane_life[of 5] by (simp_all add: lane_moves_def)

theorem review_go_is_verified_witness:
  "signed_by lane_sha lane_live lane_snapshot ''reviewer'' ''agent-evolution-controlled-review-v1'' lane_signature
     (review_signature_payload (lane_move FIXED_CANDIDATE REVIEW_GO) lane_review [''reviewer''] ''GO_ZERO_FINDINGS'')"
proof -
  have move: "(FIXED_CANDIDATE, REVIEW_GO) \<in> set lane_moves" "(FIXED_CANDIDATE, REVIEW_GO) \<notin> set (take 2 lane_moves)"
    by (simp_all add: lane_moves_def)
  note step = lane_stage_step[OF lane_stage_at(1) move]
  have "receipt_evidence_of (snd (move_lane (moved_journal (take 2 lane_moves)) (FIXED_CANDIDATE, REVIEW_GO))) =
      Transition_Evidence (lane_move FIXED_CANDIDATE REVIEW_GO)"
    using step(4) by (simp add: move_receipt_def)
  from review_go_is_verified[OF step(1) this] show ?thesis by auto
qed

theorem integrated_lanes_reviewed_witness:
  "\<exists>r\<in>set (receipts (moved_journal (take 5 lane_moves))). \<exists>c. receipt_evidence_of r = Transition_Evidence c
    \<and> transition_nextState c = REVIEW_GO \<and> transition_candidate c = Some lane_candidate"
proof -
  have j: "lane_reached (moved_journal (take 5 lane_moves))" "lane_at INTEGRATING \<in> set (leases (moved_journal (take 5 lane_moves)))"
    using lane_stage_at(3) by (simp_all add: lane_stage_def)
  from integrated_lanes_reviewed[OF lane_coordinated[OF j(1)] j(2)] show ?thesis
    by (auto simp: candidate_at_def candidate_states_def)
qed

theorem quarantine_decisions_recomputed_witness:
  "expected_recovery_decisions (leases two_lanes) (commands_of two_lanes)
     (sort (map leaseId (recoverable_leases two_lanes))) [lane_page] = Inr lane_decisions"
proof -
  obtain persisted where "validate_journal_integrity lane_sha lane_ssh two_lanes persisted = Inr ()"
    using lane_acquired_steps(4) by (rule lane_reachedE)
  from quarantine_decisions_recomputed[OF this, of "[lane_page]"] show ?thesis by (simp add: lane_affected)
qed

end
