(* ===== verification/Coordinator_Liveness.thy ===== *)
theory Coordinator_Liveness
  imports Coordinator_Witnesses
begin

text \<open>
  The coordinator never blocks itself: what its commands propose passes the integrity check the
  store applies before it writes and on every later read. A refusal of that check is thus always
  about the stored bytes, the hash or the signatures, never about the coordinator's own bookkeeping.
\<close>

text \<open>C22: a transition or a write observation that passes its own checks proposes a journal that passes
  the complete integrity check: every lane, receipt, digest, recovery cycle and fencing token of it.\<close>

theorem moves_pass_integrity:
  assumes "coordinated sha key j" "validate_journal_integrity sha host j persisted = Inr ()"
    "projectExecutionKey identity = key"
  shows "(transition_step sha live identity j t = Inr (Commit j1 r1) \<longrightarrow>
            validate_journal_integrity sha host j1 True = Inr ())
    \<and> (normalize_write_observation_command sha raw = Inr c \<and> observe_step sha live (Some j) c = Inr (Commit j2 r2) \<longrightarrow>
            validate_journal_integrity sha host j2 True = Inr ())"
proof -
  obtain h where h: "sourced j h" using assms(1) by (rule coordinated_sourced)
  note ok = coordinated_ok[OF assms(1)]
  show ?thesis
    using accepted_transition[OF assms(2) ok h assms(3)] accepted_observation[OF assms(2) ok h] by blast
qed

theorem moves_pass_integrity_witness:
  "validate_journal_integrity lane_sha lane_ssh (fst (move_lane acquired_journal (ADMITTED, ACTIVE))) True = Inr ()"
proof -
  obtain persisted where ok: "validate_journal_integrity lane_sha lane_ssh acquired_journal persisted = Inr ()"
    using lane_acquired_steps(2) by (rule lane_reachedE)
  have move: "(ADMITTED, ACTIVE) \<in> set lane_moves" "(ADMITTED, ACTIVE) \<notin> set []" by (simp_all add: lane_moves_def)
  from moves_pass_integrity[OF acquired_coordinated ok lane_identity_select(1)]
    lane_stage_step(1)[OF lane_stage_acquired move]
  show ?thesis by blast
qed

text \<open>C23: an acquisition that passes admission proposes a journal that passes the complete integrity
  check, unless the truncated digest that names its lease collides with the one of an earlier lease.\<close>

theorem acquisition_passes_integrity:
  assumes "coordinated sha key j" "validate_journal_integrity sha host j persisted = Inr ()"
    "projectExecutionKey identity = key" "acquire_step sha live identity j raw = Inr (Commit j' r)"
    "lease_id_of sha key raw \<notin> leaseId ` set (leases j)"
  shows "validate_journal_integrity sha host j' True = Inr () \<and> last (leases j') \<in> set (active_leases j')"
proof -
  obtain h where h: "sourced j h" using assms(1) by (rule coordinated_sourced)
  have "last (leases j') \<in> set (active_leases j')"
    using assms(4) by (auto elim!: acquire_step_Commit simp: commit_fields active_leases_def new_lease_def is_nonterminal_def)
  then show ?thesis
    using accepted_acquisition[OF assms(2) coordinated_ok[OF assms(1)] h assms(3,4,5)] by blast
qed

theorem acquisition_passes_integrity_witness:
  "validate_journal_integrity lane_sha lane_ssh two_lanes True = Inr () \<and> lane_lease False \<in> set (active_leases two_lanes)"
proof -
  obtain persisted where ok: "validate_journal_integrity lane_sha lane_ssh acquired_journal persisted = Inr ()"
    using lane_acquired_steps(2) by (rule lane_reachedE)
  have "lease_id_of lane_sha lane_key (lane_acquire False) \<notin> leaseId ` set (leases acquired_journal)"
    by (simp add: lane_lease_id lane_lease_select(1))
  from acquisition_passes_integrity[OF acquired_coordinated ok lane_identity_select(1) lane_acquire_steps(2) this]
  show ?thesis by simp
qed



end
