(* ===== verification/Store_Properties.thy ===== *)
theory Store_Properties
  imports Store_Correct Coordinator_Liveness
begin

text \<open>
  The commands from end to end, on the directory that holds the project's state: what is on disk
  after a command, what a failed one leaves, and what the compare-and-swap guarantees.
\<close>

section \<open>From the command to the directory\<close>

definition opened_store :: "store_world \<Rightarrow> string \<Rightarrow> string \<Rightarrow> state_store" where
  "opened_store w root key =
     \<lparr>store_root = root, store_owner = world_uid w, store_key = key, store_locked = False\<rparr>"

lemma opened_store_select [simp]:
  "store_key (opened_store w root key) = key" "\<not> store_locked (opened_store w root key)"
  by (simp_all add: opened_store_def)

text \<open>The journal a command starts from.\<close>

definition starting_journal :: "string \<Rightarrow> journal option \<Rightarrow> journal" where
  "starting_journal key jo = (case jo of None \<Rightarrow> empty_journal key | Some j \<Rightarrow> j)"

lemma open_rooted:
  assumes "store_rooted (opened_store w root key) w d" "is_execution_key key" "chomp key = key"
  shows "open_store w root key d = Inr (opened_store w root key, d)"
proof -
  obtain st where "own_file (world_uid w) d Root_Identity st (root_identity (opened_store w root key) d)"
    using assms(1) by (auto simp: store_rooted_def)
  then have "read_state_json d Root_Identity m u (world_uid w) = Inr (root_identity (opened_store w root key) d)" for m u
    using own_file_read_json by (simp add: root_identity_def)
  with assms show ?thesis
    by (simp add: open_store_def Let_def open_or_validate_root_identity_def opened_store_def)
qed

lemma holds_open:
  assumes "store_holds sha host (opened_store w root key) w jo d" "is_execution_key key" "chomp key = key"
    "projectExecutionKey identity = key"
  shows "with_store w root (Inr identity) d body = body identity (opened_store w root key) d"
  using assms open_rooted[of w root key d] by (simp add: with_store_def store_holds_def)

lemma empty_journal_integrity: "validate_journal_integrity sha host (empty_journal key) False = Inr ()"
  by (simp add: integrity_iff empty_journal_def validate_leases_def numbered_def validate_recovery_integrity_def
      validate_tokens_def replay_receipts_def)

lemma starting_integrity:
  assumes "store_holds sha host (opened_store w root key) w jo d" "is_execution_key key"
  shows "\<exists>persisted. validate_journal_integrity sha host (starting_journal key jo) persisted = Inr ()"
    "journal_schema (starting_journal key jo)"
proof -
  show "\<exists>persisted. validate_journal_integrity sha host (starting_journal key jo) persisted = Inr ()"
    using assms empty_journal_integrity
    by (auto simp: store_holds_def starting_journal_def split: option.splits)
  show "journal_schema (starting_journal key jo)"
    using assms by (auto simp: store_holds_def starting_journal_def journal_schema_def empty_journal_def split: option.splits)
qed

lemma next_journalI:
  assumes "appends sha (starting_journal key jo) j" "last (receipts j) = r" "receipt_executionKey r = key"
    "journal_executionKey j = key" "journal_schema j" "receipt_schema r"
    "validate_journal_integrity sha host j True = Inr ()"
  shows "next_journal sha host (opened_store w root key) jo j r"
proof -
  obtain r' where r': "receipts j = receipts (starting_journal key jo) @ [r']"
    "previousJournalVersion r' = journalVersion (starting_journal key jo)" "nextJournalVersion r' = journalVersion j"
    and v: "journalVersion j = journalVersion (starting_journal key jo) + 1"
    using assms(1) by (auto simp: appends_def)
  have "r' = r" using r'(1) assms(2) by simp
  with r' v assms(3-) show ?thesis
    by (auto simp: next_journal_def Let_def starting_journal_def empty_journal_def split: option.splits)
qed

lemma find_last_lease:
  assumes "distinct (map leaseId (ls @ [l]))"
  shows "find_lease (leaseId l) (ls @ [l]) = Some l"
  using assms by (induction ls) (auto simp: find_lease_def)

lemma acquire_finishes:
  assumes "distinct (map leaseId (leases (fst (commit_acquisition sha key j c lane graph))))"
  shows "\<exists>res. finish_acquire (fst (commit_acquisition sha key j c lane graph)) (fst (commit_acquisition sha key j c lane graph))
      (snd (commit_acquisition sha key j c lane graph)) = Inr res
    \<and> result_lease res = last (leases (fst (commit_acquisition sha key j c lane graph)))
    \<and> result_receiptId res = receiptId (snd (commit_acquisition sha key j c lane graph)) \<and> leaseRetained res"
proof -
  let ?j = "fst (commit_acquisition sha key j c lane graph)" and ?r = "snd (commit_acquisition sha key j c lane graph)"
  let ?l = "new_lease sha key (nextFencingToken j) c lane graph"
  have last: "last (leases ?j) = ?l" by (simp add: commit_fields)
  have found: "find_lease (leaseId ?l) (leases ?j) = Some ?l"
    using find_last_lease[of "leases j" ?l] assms by (simp add: commit_fields)
  have sealed: "last (receipts ?j) = ?r" "receipt_evidence_of ?r = Acquire_Evidence c"
    by (simp_all add: acquisition_sealed)
  have result: "acquire_result_for_receipt ?l ?r c = Inr (lease_result_of ?l ?r)"
    by (simp add: acquire_result_for_receipt_def acquisition_sealed commit_acquisition_def Let_def
        acquire_receipt_def new_lease_def lease_key_def acquisition_key_def)
  show ?thesis
    unfolding finish_acquire_def Let_def last found
    by (simp add: sealed result lease_result_of_def) (simp add: new_lease_def)
qed


section \<open>The other commands\<close>

lemma transition_finishes:
  assumes l: "find_lease (transition_leaseId c) (leases j) = Some l" and ids: "distinct (map leaseId (leases j))"
    and key: "lease_executionKey l = key" and token: "lease_fencingToken l = transition_fencingToken c"
    and attempt: "lease_attemptId l = transition_attemptId c"
  shows "\<exists>res. finish_transition (fst (commit_transition sha key j l c fp k)) (fst (commit_transition sha key j l c fp k))
      (snd (commit_transition sha key j l c fp k)) = Inr res
    \<and> lease_state (result_lease res) = transition_nextState c
    \<and> result_receiptId res = receiptId (snd (commit_transition sha key j l c fp k))"
proof -
  let ?j = "fst (commit_transition sha key j l c fp k)" and ?r = "snd (commit_transition sha key j l c fp k)"
  let ?l = "transitioned c k l"
  have id: "leaseId l = transition_leaseId c" using find_lease_Some(2)[OF l] by simp
  have "find_lease (transition_leaseId c) (update_lease (leaseId l) (transitioned c k) (leases j)) =
      map_option (\<lambda>m. if leaseId m = leaseId l then transitioned c k m else m) (find_lease (transition_leaseId c) (leases j))"
    unfolding update_lease_def by (rule find_lease_map) (simp add: transitioned_def)
  then have found: "find_lease (transition_leaseId c) (leases ?j) = Some ?l" by (simp add: commit_fields l)
  have sealed: "last (receipts ?j) = ?r" by (simp add: transition_sealed)
  have "transition_result_for_receipt ?l ?r c = Inr (lease_result_of
      (?l\<lparr>lease_state := transition_nextState c, lease_candidate := transition_candidate c,
          lastTransitionAt := recordedAt ?r, released := (transition_nextState c = CLOSED), recoveryStatus := CLEAR\<rparr>) ?r)"
    using key token attempt id
    by (simp add: transition_result_for_receipt_def transition_sealed transitioned_def)
      (simp add: commit_transition_def Let_def transition_receipt_def)
  with found sealed show ?thesis
    by (simp add: finish_transition_def transition_sealed lease_result_of_def)
qed

lemma persisted_next:
  assumes d: "store_holds sha host (opened_store w root key) w (Some j) d" and app: "appends sha j j'"
    and j': "last (receipts j') = r" "receipt_executionKey r = key" "journal_schema j'" "receipt_schema r"
    "validate_journal_integrity sha host j' True = Inr ()"
  shows "next_journal sha host (opened_store w root key) (Some j) j' r"
proof -
  have "journal_executionKey j' = key" using d app by (simp add: store_holds_def appends_def)
  with app j' show ?thesis by (intro next_journalI) (simp_all add: starting_journal_def)
qed

text \<open>What the stored journal of a healthy directory satisfies.\<close>

lemma stored_journal:
  assumes "store_holds sha host (opened_store w root key) w (Some j) d"
  shows "validate_journal_integrity sha host j True = Inr ()" "journal_schema j" "journal_executionKey j = key"
    "distinct (map leaseId (leases j))"
proof -
  show ok: "validate_journal_integrity sha host j True = Inr ()" "journal_schema j" "journal_executionKey j = key"
    using assms by (simp_all add: store_holds_def)
  show "distinct (map leaseId (leases j))" using ok(1) by (rule integrity_ids)
qed

lemma transition_durable:
  assumes d: "store_holds sha (live_ssh live) (opened_store w root key) w (Some j) d" and w: "quiet w"
    and sha: "hex_digest sha"
    and key: "is_execution_key key" "chomp key = key" "projectExecutionKey identity = key"
    and j: "coordinated sha key j" and step: "transition_step sha live identity j t = Inr (Commit j' r)"
  shows "\<exists>res d'. transition_lane_lease sha live (Inr identity) root w t d = (Inr res, d')
    \<and> store_holds sha (live_ssh live) (opened_store w root key) w (Some j') d' \<and> result_receiptId res = receiptId r"
proof -
  note stored = stored_journal[OF d] and ok = coordinated_ok[OF j]
  obtain h where h: "sourced j h" using j by (rule coordinated_sourced)
  obtain c l fp k where find: "find_lease (transition_leaseId c) (leases j) = Some l"
    and fp: "authorize_transition sha live identity j l c = Inr fp"
    and j': "j' = fst (commit_transition sha key j l c fp k)" and r: "r = snd (commit_transition sha key j l c fp k)"
    using step key(3) by (auto elim: transition_step_Commit)
  have match: "lease_attemptId l = transition_attemptId c" "lease_fencingToken l = transition_fencingToken c"
    using fp unfolding authorize_transition_def by (elim raise_ifE; simp)+
  have "lease_executionKey l = key" using ok find_lease_Some(1)[OF find] by (simp add: journal_ok_def)
  then obtain res where res: "finish_transition j' j' r = Inr res" "result_receiptId res = receiptId r"
    using transition_finishes[OF find stored(4) _ match(2,1)] unfolding j' r by blast
  have next_j: "next_journal sha (live_ssh live) (opened_store w root key) (Some j) j' r"
    using transition_step_schema[OF sha stored(2,4) _ step] accepted_transition[OF stored(1) ok h key(3) step]
      commit_appends(2)[of sha j key l c fp k] key
    by (intro persisted_next[OF d]) (simp_all add: j' r transition_sealed)
  let ?step = "\<lambda>j. case j of None \<Rightarrow> Inl (Coordination_Error ''COORDINATOR_LEASE_NOT_FOUND'')
      | Some j \<Rightarrow> transition_step sha live identity j t"
  have "?step (Some j) = Inr (Commit j' r)" using step by simp
  from under_lock_commit[where step = ?step and finish = finish_transition, OF d w opened_store_select(2) this next_j res(1)]
  show ?thesis using res(2) unfolding transition_lane_lease_def holds_open[OF d key] by blast
qed

lemma observation_durable:
  assumes d: "store_holds sha (live_ssh live) (opened_store w root key) w (Some j) d" and w: "quiet w"
    and sha: "hex_digest sha"
    and key: "is_execution_key key" "chomp key = key" "projectExecutionKey identity = key"
    and j: "coordinated sha key j"
    and c: "normalize_write_observation_command sha raw = Inr c" "observation_executionKey c = key"
    and step: "observe_step sha live (Some j) c = Inr (Commit j' r)"
  shows "\<exists>res d'. observe_lane_writes sha live (Inr identity) root w raw d = (Inr res, d')
    \<and> store_holds sha (live_ssh live) (opened_store w root key) w (Some j') d' \<and> mutation_receiptId res = receiptId r"
proof -
  note stored = stored_journal[OF d] and ok = coordinated_ok[OF j]
  obtain h where h: "sourced j h" using j by (rule coordinated_sourced)
  obtain l paths ds where j': "j' = fst (commit_quarantine sha j l c paths ds)" and r: "r = snd (commit_quarantine sha j l c paths ds)"
    using step by (auto elim!: observe_step_Commit quarantine_step_Commit)
  have next_j: "next_journal sha (live_ssh live) (opened_store w root key) (Some j) j' r"
    using observe_step_schema[OF sha stored(2,4) c(1) step] accepted_observation[OF stored(1) ok h c(1) step]
      commit_appends(3)[of sha j l c paths ds] stored(3)
    by (intro persisted_next[OF d]) (simp_all add: j' r observation_sealed)
  obtain res where res: "finish_mutation j' j' r = Inr res" "mutation_receiptId res = receiptId r"
    by (simp add: finish_mutation_def j' r observation_sealed mutation_result_of_def)
  from under_lock_commit[where step = "\<lambda>j. observe_step sha live j c" and finish = finish_mutation,
      OF d w opened_store_select(2) step next_j res(1)]
  show ?thesis using res(2) c key(3) unfolding observe_lane_writes_def by (simp add: holds_open[OF d key]) blast
qed

lemma recovery_durable:
  assumes d: "store_holds sha (live_ssh live) (opened_store w root key) w (Some j) d" and w: "quiet w"
    and sha: "hex_digest sha"
    and key: "is_execution_key key" "chomp key = key" "projectExecutionKey identity = key"
    and j: "coordinated sha key j"
    and c: "normalize_recovery_command sha raw = Inr c" "recovery_executionKey c = key"
    and step: "recovery_step sha live identity (Some j) c = Inr (Commit j' r)"
    and anchored: "\<And>e. recoveryEvidence j = Some e \<Longrightarrow>
      validate_persisted_recovery_authority sha (live_ssh live) c (evidence_revoked e) (commands_of j) = Inr ()"
  shows "\<exists>res d'. record_project_recovery sha live (Inr identity) root w raw d = (Inr res, d')
    \<and> store_holds sha (live_ssh live) (opened_store w root key) w (Some j') d' \<and> mutation_receiptId res = receiptId r"
proof -
  note stored = stored_journal[OF d] and ok = coordinated_ok[OF j]
  obtain h where h: "sourced j h" using j by (rule coordinated_sourced)
  obtain e fp where j': "j' = fst (commit_recovery sha j c e fp)" and r: "r = snd (commit_recovery sha j c e fp)"
    using step by (auto elim: recovery_step_Commit)
  have next_j: "next_journal sha (live_ssh live) (opened_store w root key) (Some j) j' r"
    using recovery_step_schema[OF sha stored(2) c(1) step] accepted_recovery_step[OF stored(1) ok h c(1) step anchored]
      commit_appends(4)[of sha j c e fp] stored(3)
    by (intro persisted_next[OF d]) (simp_all add: j' r recovery_sealed)
  obtain res where res: "finish_mutation j' j' r = Inr res" "mutation_receiptId res = receiptId r"
    by (simp add: finish_mutation_def j' r recovery_sealed mutation_result_of_def)
  from under_lock_commit[where step = "\<lambda>j. recovery_step sha live identity j c" and finish = finish_mutation,
      OF d w opened_store_select(2) step next_j res(1)]
  show ?thesis using res(2) c key(3) unfolding record_project_recovery_def by (simp add: holds_open[OF d key]) blast
qed


section \<open>A lost journal\<close>

lemma enter_initialized:
  assumes "read_marker s w d = Inr True" "enter_project_lock s w d = Inr (s', st, d')"
  shows "d' = d \<and> s' = s\<lparr>store_locked := True\<rparr>"
proof -
  have bind: "d2 = d1" if "bind_or_validate_lock_identity s w opened (Some doc) d1 = Inr d2" for opened doc d1 d2
    using that by (auto simp: bind_or_validate_lock_identity_def bindE_eq_Inr)
  have open_same: "d1 = d" if "open_lock w False d = Inr (opened, d1)" for opened d1
    using that by (auto simp: open_lock_def split: option.splits if_splits)
  from assms obtain identity opened d1 d2 identity' where id: "read_lock_identity w d = Inr identity" "identity \<noteq> None"
    and opened: "open_lock w False d = Inr (opened, d1)"
    and first: "bind_or_validate_lock_identity s w opened identity d1 = Inr d2"
    and again: "read_lock_identity w d2 = Inr identity'"
    and second: "bind_or_validate_lock_identity s w opened identity' d2 = Inr d'" and s': "s' = s\<lparr>store_locked := True\<rparr>"
    unfolding enter_project_lock_def by (elim raise_ifE bindE_InrE) (auto elim!: raise_ifE bindE_InrE)
  have "d2 = d" using id(2) first open_same[OF opened] bind by blast
  with again id have "identity' = identity" by simp
  with second id(2) \<open>d2 = d\<close> bind s' show ?thesis by blast
qed

lemma lost_journal_step:
  assumes "read_marker s w d = Inr True" "dir_files d Journal_Name = None"
  shows "\<exists>e. under_lock sha host s w step finish d = (Inl e, d)"
proof (cases "enter_project_lock s w d")
  case (Inl e)
  then show ?thesis by (simp add: under_lock_def)
next
  case (Inr x)
  obtain s' st d' where x: "x = (s', st, d')" by (cases x)
  have same: "d' = d" "s' = s\<lparr>store_locked := True\<rparr>" using enter_initialized[OF assms(1) Inr[unfolded x]] by blast+
  have key: "store_key (s\<lparr>store_locked := True\<rparr>) = store_key s" by simp
  have "read_marker s' w d = Inr True" using assms(1) unfolding same(2) read_marker_def key .
  then have "\<exists>e. read_journal sha host s' w d = Inl e"
    by (cases "verify_root_identity s' d")
      (simp_all add: read_journal_def read_journal_snapshot_def missing_read assms(2))
  with Inr x same show ?thesis by (auto simp: under_lock_def)
qed

text \<open>C31: a project that was initialised and whose journal is gone never starts over: every command fails
  and leaves the directory as it found it, so no lease and no fencing token is given out again.\<close>

theorem lost_journal_never_restarts:
  assumes "store_rooted (opened_store w root key) w d" "is_execution_key key" "chomp key = key"
    "projectExecutionKey identity = key"
    "own_file (world_uid w) d Initialized_Marker st (Marker_Doc key)" "dir_files d Journal_Name = None"
  shows "(\<exists>e. acquire_lane_lease sha live (Inr identity) root w c d = (Inl e, d))
    \<and> (\<exists>e. transition_lane_lease sha live (Inr identity) root w t d = (Inl e, d))
    \<and> (\<exists>e. observe_lane_writes sha live (Inr identity) root w ob d = (Inl e, d))
    \<and> (\<exists>e. record_project_recovery sha live (Inr identity) root w rc d = (Inl e, d))"
proof -
  let ?s = "opened_store w root key"
  have marker: "read_marker ?s w d = Inr True"
    by (simp add: read_marker_def own_file_read_json[OF assms(5)])
  have opened: "with_store w root (Inr identity) d body = body identity ?s d"
    for body :: "project_identity \<Rightarrow> state_store \<Rightarrow> directory \<Rightarrow> 'r result \<times> directory"
    using open_rooted[OF assms(1,2,3)] assms(4) by (simp add: with_store_def)
  have lost: "\<exists>e. under_lock sha (live_ssh live) ?s w step finish d = (Inl e, d)"
    for step :: "journal option \<Rightarrow> 'r step_outcome result" and finish
    by (rule lost_journal_step[OF marker assms(6)])
  have refused: "\<exists>e. (case res of Inl e \<Rightarrow> (Inl e, d) | Inr x \<Rightarrow> under_lock sha (live_ssh live) ?s w (step x) finish d) = (Inl e, d)"
    for res :: "'a result" and step :: "'a \<Rightarrow> journal option \<Rightarrow> 'r step_outcome result" and finish
    using lost by (cases res) simp_all
  show ?thesis
    unfolding acquire_lane_lease_def transition_lane_lease_def observe_lane_writes_def record_project_recovery_def opened
    by (intro conjI lost refused)
qed

section \<open>Compare and swap\<close>

text \<open>Nobody touches the journal between the system calls of a replacement, whatever fails.\<close>

definition journal_untouched :: "store_world \<Rightarrow> bool" where
  "journal_untouched w =
     ((\<forall>d. dir_files (before_cas w d) Journal_Name = dir_files d Journal_Name)
      \<and> (\<forall>d. dir_files (before_reread w d) Journal_Name = dir_files d Journal_Name)
      \<and> (\<forall>f d. marker_fault w = Some f \<longrightarrow> dir_files (f d) Journal_Name = dir_files d Journal_Name))"

lemma swap_journal_files:
  assumes "journal_untouched w" "swap_journal sha host s w expected j d = (res, d')"
  shows "dir_files d' Journal_Name = dir_files d Journal_Name \<or> (\<exists>st. dir_files d' Journal_Name = Some (st, Journal_Doc j))"
proof -
  have marker: "dir_files d2 Journal_Name = dir_files d1 Journal_Name"
    if "write_initialized_marker s w d1 = (x, d2)" for x d1 d2
    using that assms(1) by (auto simp: write_initialized_marker_def journal_untouched_def create_file_def
        split: sum.splits bool.splits option.splits)
  have before: "dir_files (before_cas w d) Journal_Name = dir_files d Journal_Name"
    using assms(1) by (simp add: journal_untouched_def)
  have written: "\<exists>st. dir_files (create_file w Journal_Name (Journal_Doc j) d1) Journal_Name = Some (st, Journal_Doc j)" for d1
    by (simp add: create_file_def)
  show ?thesis
    using assms(2) before written marker
    by (auto simp: swap_journal_def Let_def split: sum.splits prod.splits if_splits)
qed

lemma swap_journal_verified:
  assumes "swap_journal sha host s w expected j d = (Inr (), d')"
  shows "verify_cas_snapshot sha host s w expected (before_cas w d) = Inr ()"
proof (cases "bindE (verify_root_identity s (before_cas w d)) (\<lambda>_. verify_cas_snapshot sha host s w expected (before_cas w d))")
  case (Inl e)
  with assms show ?thesis by (simp add: swap_journal_def Let_def split: if_splits)
next
  case (Inr u)
  then show ?thesis by (elim bindE_InrE) simp
qed

lemma read_snapshot_bytes:
  assumes "read_journal_snapshot sha host s w d = Inr (Some a)"
  shows "snapshot_bytes a = journal_bytes (snapshot_journal a)"
proof -
  have checked: "snapshot_bytes a = journal_bytes (snapshot_journal a)"
    if "check_snapshot sha host s initialized doc inode = Inr a" for initialized doc inode
    using that by (cases doc) (auto simp: check_snapshot_def bindE_eq_Inr)
  from assms obtain initialized where "(case read_state d Journal_Name ''COORDINATOR_JOURNAL_ABSENT'' unsafe_file (world_uid w) of
       Inl e \<Rightarrow> if e = Coordination_Error ''COORDINATOR_JOURNAL_ABSENT''
         then if initialized then Inl (Coordination_Error ''COORDINATOR_JOURNAL_MISSING'') else Inr None
         else Inl e
     | Inr (doc, inode) \<Rightarrow>
         bindE (check_snapshot sha host s initialized doc inode) (\<lambda>snapshot. Inr (Some snapshot))) = Inr (Some a)"
    unfolding read_journal_snapshot_def by (elim bindE_InrE)
  then show ?thesis
    by (cases "read_state d Journal_Name ''COORDINATOR_JOURNAL_ABSENT'' unsafe_file (world_uid w)")
      (auto simp: bindE_eq_Inr checked split: if_splits)
qed

lemma replace_journal_Inr:
  assumes "replace_journal sha host s w version j r d = (Inr k, d')"
    "check_replacement sha host s w version j r d = Inr seen" "swap_journal sha host s w seen j d = (x, d1)"
  obtains after where "x = Inr ()" "read_journal_snapshot sha host s w d' = Inr (Some after)"
    "snapshot_journal after = k" "snapshot_bytes after = journal_bytes j"
proof (cases x)
  case (Inl e)
  with assms show thesis by (simp add: replace_journal_def)
next
  case (Inr u)
  have run: "(case read_journal_snapshot sha host s w (before_reread w d1) of
                  Inl e \<Rightarrow> (Inl e, before_reread w d1)
                | Inr None \<Rightarrow> (Inl (Coordination_Error ''COORDINATOR_POST_WRITE_MISMATCH''), before_reread w d1)
                | Inr (Some snapshot) \<Rightarrow>
                    if snapshot_bytes snapshot \<noteq> journal_bytes j
                    then (Inl (Coordination_Error ''COORDINATOR_POST_WRITE_MISMATCH''), before_reread w d1)
                    else (Inr (snapshot_journal snapshot), before_reread w d1)) = (Inr k, d')"
    using assms Inr by (simp add: replace_journal_def Let_def)
  show thesis
  proof (cases "read_journal_snapshot sha host s w (before_reread w d1)")
    case Inl
    with run show thesis by simp
  next
    case (Inr y)
    with run \<open>x = Inr u\<close> show thesis by (cases y) (auto split: if_splits intro: that)
  qed
qed

text \<open>C16: the journal is replaced only by compare and swap: a replacement that succeeds ran under the
  lock, at the expected version, on receipts it only extends, and found at the moment of the swap the
  journal it had read, byte for byte; what it returns is what a later read gives. One that fails
  leaves the old journal, or the new one in full, never a mixture.\<close>

theorem replacement_is_compare_and_swap:
  assumes "replace_journal sha host s w version j r d = (res, d')"
  shows "(case res of
      Inr k \<Rightarrow> store_locked s \<and> journal_bytes k = journal_bytes j \<and> read_journal sha host s w d' = Inr (Some k)
        \<and> (\<exists>seen now. read_journal_snapshot sha host s w d = Inr seen
            \<and> read_journal_snapshot sha host s w (before_cas w d) = Inr now
            \<and> (case seen of None \<Rightarrow> version = 0 \<and> butlast (receipts j) = [] \<and> now = None
               | Some a \<Rightarrow> version = journalVersion (snapshot_journal a) \<and> butlast (receipts j) = receipts (snapshot_journal a)
                   \<and> (\<exists>b. now = Some b \<and> snapshot_bytes b = snapshot_bytes a \<and> same_inode (snapshot_inode a) (snapshot_inode b))))
    | Inl e \<Rightarrow> journal_untouched w \<longrightarrow>
        dir_files d' Journal_Name = dir_files d Journal_Name \<or> (\<exists>st. dir_files d' Journal_Name = Some (st, Journal_Doc j)))"
proof (cases "check_replacement sha host s w version j r d")
  case (Inl e)
  with assms show ?thesis by (auto simp: replace_journal_def)
next
  case (Inr seen)
  obtain x d1 where swap: "swap_journal sha host s w seen j d = (x, d1)" by fastforce
  have d': "d' = d1 \<or> d' = before_reread w d1"
    using assms Inr swap by (auto simp: replace_journal_def Let_def split: sum.splits option.splits if_splits)
  show ?thesis
  proof (cases res)
    case (Inl e)
    with swap_journal_files[OF _ swap] d' show ?thesis by (auto simp: journal_untouched_def)
  next
    case k: (Inr k)
    from assms[unfolded k] Inr swap obtain after where x: "x = Inr ()"
      and after: "read_journal_snapshot sha host s w d' = Inr (Some after)"
      "snapshot_journal after = k" "snapshot_bytes after = journal_bytes j"
      by (rule replace_journal_Inr)
    have "snapshot_bytes after = journal_bytes k"
      using read_snapshot_bytes[OF after(1)] after(2) by simp
    moreover have "verify_cas_snapshot sha host s w seen (before_cas w d) = Inr ()"
      using swap unfolding x by (rule swap_journal_verified)
    then obtain now where "read_journal_snapshot sha host s w (before_cas w d) = Inr now"
      "case seen of None \<Rightarrow> now = None
       | Some a \<Rightarrow> \<exists>b. now = Some b \<and> snapshot_bytes b = snapshot_bytes a \<and> same_inode (snapshot_inode a) (snapshot_inode b)"
      unfolding verify_cas_snapshot_def by (elim bindE_InrE) (auto split: option.splits simp: result_simps)
    moreover have "store_locked s" "read_journal_snapshot sha host s w d = Inr seen"
      "version = (case seen of None \<Rightarrow> 0 | Some a \<Rightarrow> journalVersion (snapshot_journal a))"
      "butlast (receipts j) = (case seen of None \<Rightarrow> [] | Some a \<Rightarrow> receipts (snapshot_journal a))"
      using Inr unfolding check_replacement_def Let_def by (elim raise_ifE bindE_InrE; simp)+
    ultimately show ?thesis
      using k after by (cases seen) (auto simp: read_journal_def)
  qed
qed

end
