(* ===== verification/Guard_Journal.thy ===== *)
theory Guard_Journal
  imports Write_Guard Scan_Correct Store_Properties
begin

text \<open>
  What the journal gives the write guard: a lease with an observation on record is released as
  soon as no recovery is open, so the observation of a guarded run is never a replay and never a
  conflict, and the quarantine of a breach is written.
\<close>

section \<open>Leases with an observation on record\<close>

definition observed_lease :: "journal \<Rightarrow> observation_command \<Rightarrow> lease \<Rightarrow> bool" where
  "observed_lease j c l =
     (l \<in> set (leases j) \<and> leaseId l = observation_leaseId c
      \<and> lease_fencingToken l = observation_fencingToken c
      \<and> (recoveryState j = CLEAR \<longrightarrow> released l))"

definition observations_released :: "journal \<Rightarrow> bool" where
  "observations_released j =
     (\<forall>r\<in>set (receipts j). \<forall>c. observation_command_in (receipt_evidence_of r) = Some c \<longrightarrow>
        (\<exists>l. observed_lease j c l))"

lemma observations_releasedI:
  assumes before: "observations_released j" and rs: "receipts j' = receipts j @ [r]"
    and kept: "\<And>l c. observed_lease j c l \<Longrightarrow> \<exists>l'. observed_lease j' c l'"
    and new: "\<And>c. observation_command_in (receipt_evidence_of r) = Some c \<Longrightarrow> \<exists>l. observed_lease j' c l"
  shows "observations_released j'"
  using assms unfolding observations_released_def rs by fastforce

text \<open>A step that leaves the state of the recovery alone keeps the leases on record.\<close>

lemma observed_lease_follows:
  assumes "lane_step (leases j) (leases j')" "recoveryState j' = recoveryState j" "observed_lease j c l"
  shows "\<exists>l'. observed_lease j' c l'"
  using assms(1)
proof (cases rule: lane_step.cases)
  case (add_lane m)
  with assms(2,3) show ?thesis by (auto simp: observed_lease_def)
next
  case follow_lanes
  from assms(3) have "l \<in> set (leases j)" by (simp add: observed_lease_def)
  with follow_lanes obtain l' where l': "l' \<in> set (leases j')" "follows l l'"
    by (metis in_set_conv_nth list_all2_conv_all_nth)
  with assms(2,3) follows_parts(1)[OF l'(2)] show ?thesis
    by (intro exI[of _ l']) (auto simp: observed_lease_def follows_fields[OF l'(2)])
qed

lemma new_receipt_evidence:
  "observation_command_in (receipt_evidence_of (snd (commit_acquisition sha key j c lane graph))) = None"
  "observation_command_in (receipt_evidence_of (snd (commit_transition sha key j l tr fp candidate))) = None"
  "observation_command_in (receipt_evidence_of (snd (commit_quarantine sha j l ob observed ds))) = Some ob"
  "observation_command_in (receipt_evidence_of (snd (commit_recovery sha j rc e fp))) = None"
  by (simp_all add: commit_acquisition_def commit_transition_def commit_quarantine_def commit_recovery_def
      Let_def acquire_receipt_def transition_receipt_def observation_receipt_def recovery_receipt_def)

lemma new_receipts:
  "receipts (fst (commit_acquisition sha key j c lane graph)) = receipts j @ [snd (commit_acquisition sha key j c lane graph)]"
  "receipts (fst (commit_transition sha key j l tr fp candidate)) = receipts j @ [snd (commit_transition sha key j l tr fp candidate)]"
  "receipts (fst (commit_quarantine sha j l ob observed ds)) = receipts j @ [snd (commit_quarantine sha j l ob observed ds)]"
  "receipts (fst (commit_recovery sha j rc e fp)) = receipts j @ [snd (commit_recovery sha j rc e fp)]"
  by (simp_all add: commit_acquisition_def commit_transition_def commit_quarantine_def commit_recovery_def Let_def)

lemma quarantine_observed:
  assumes "quarantine_step sha j ob observed = Inr (Commit j' r)" and lanes: "list_all2 follows (leases j) (leases j')"
    and before: "observations_released j"
  shows "observations_released j'"
proof -
  obtain l ds where l: "find_lease (observation_leaseId ob) (leases j) = Some l"
    and token: "lease_fencingToken l = observation_fencingToken ob"
    and j': "j' = fst (commit_quarantine sha j l ob (sorted_union (prior_paths j) observed) ds)"
    and r: "r = snd (commit_quarantine sha j l ob (sorted_union (prior_paths j) observed) ds)"
    using assms(1) by (rule quarantine_step_Commit)
  have leases: "leases j' = map quarantined (leases j)" and state: "recoveryState j' \<noteq> CLEAR"
    by (simp_all add: j' commit_fields)
  have quarantined: "leaseId (quarantined m) = leaseId m" "lease_fencingToken (quarantined m) = lease_fencingToken m" for m
    by (simp_all add: quarantined_def)
  show ?thesis
  proof (rule observations_releasedI[OF before, of j' r])
    show "receipts j' = receipts j @ [r]" by (simp add: j' r new_receipts)
    show "\<exists>l'. observed_lease j' c l'" if "observed_lease j c m" for m c
      using that state by (intro exI[of _ "quarantined m"]) (simp add: observed_lease_def leases quarantined)
    show "\<exists>l. observed_lease j' c l" if "observation_command_in (receipt_evidence_of r) = Some c" for c
      using that state token find_lease_Some[OF l]
      by (intro exI[of _ "quarantined l"]) (simp add: observed_lease_def leases quarantined r new_receipt_evidence)
  qed
qed

lemma recovery_observed:
  assumes ok: "journal_ok key j" and step: "recovery_step sha live identity (Some j) c = Inr (Commit j' r)"
    and before: "observations_released j"
  shows "observations_released j'"
proof -
  obtain e fp where e: "recoveryEvidence j = Some e" and check: "check_recovery_command j c e = Inr ()"
    and decided: "set (evidence_revoked e) \<subseteq> set (map decided_leaseId (affectedLeaseDecisions c))"
    and j': "j' = fst (commit_recovery sha j c e fp)" and r: "r = snd (commit_recovery sha j c e fp)"
    using step by (rule recovery_step_Commit)
  note covered = covered_iff[OF ok check_recovery_command_Inr(2)[OF check] e]
  let ?f = "\<lambda>l. if leaseId l \<in> set (evidence_revoked e) then recovered c l else l"
  have token: "lease_fencingToken (recovered c l) = lease_fencingToken l" for l
    by (auto simp: recovered_def split: option.splits)
  have closed: "released (?f l)" if "l \<in> set (leases j)" for l
  proof (cases "leaseId l \<in> set (evidence_revoked e)")
    case True
    show ?thesis unfolding if_P[OF True] by (rule recovered_lookup[OF check decided True])
  next
    case False
    with covered[OF that] that have "released l \<or> lease_state l = CLOSED" by (auto simp: recoverable_leases_def)
    moreover from ok that have "lease_ok l" by (simp add: journal_ok_def)
    ultimately show ?thesis using False by (auto simp: lease_ok_def)
  qed
  show ?thesis
  proof (rule observations_releasedI[OF before, of j' r])
    show "receipts j' = receipts j @ [r]" by (simp add: j' r new_receipts)
    show "\<exists>l'. observed_lease j' k l'" if "observed_lease j k l" for l k
      using that closed[of l] by (intro exI[of _ "?f l"]) (auto simp: observed_lease_def j' commit_fields token)
    show "\<exists>l. observed_lease j' k l" if "observation_command_in (receipt_evidence_of r) = Some k" for k
      using that by (simp add: r new_receipt_evidence)
  qed
qed

lemma coordinator_step_observed:
  assumes ok: "journal_ok key j" and step: "coordinator_step sha key j j'" and before: "observations_released j"
  shows "observations_released j'"
proof -
  note lanes = coordinator_step_lanes[OF ok step]
  have quiet: "observations_released j'"
    if "recoveryState j' = recoveryState j" "receipts j' = receipts j @ [r]"
      "observation_command_in (receipt_evidence_of r) = None" for r
    using observations_releasedI[OF before that(2)] observed_lease_follows[OF lanes that(1)] that(3) by simp
  from step show ?thesis
  proof (cases rule: coordinator_step.cases)
    case (acquired identity live raw r)
    then show ?thesis
      by (elim acquire_step_Commit) (rule quiet, simp_all add: commit_fields new_receipts, rule new_receipt_evidence)
  next
    case (transitioned identity live raw r)
    then show ?thesis
      by (elim transition_step_Commit) (rule quiet, simp_all add: commit_fields new_receipts, rule new_receipt_evidence)
  next
    case (observed raw ob r host)
    from observed(2) have "leases j' = map quarantined (leases j)"
      by (rule quarantine_step_Commit) (simp add: commit_fields)
    then have "list_all2 follows (leases j) (leases j')" by (simp add: map_follows quarantined_follows)
    with observed(2) show ?thesis using before by (rule quarantine_observed)
  next
    case (recovered identity raw c live r)
    from ok recovered(3) before show ?thesis by (rule recovery_observed)
  qed
qed

lemma coordinated_observed: "coordinated sha key j \<Longrightarrow> observations_released j"
proof (induction rule: coordinated.induct)
  case empty
  show ?case by (simp add: observations_released_def empty_journal_def)
next
  case (step j j')
  from coordinated_ok[OF step(1)] step(2,3) show ?case by (rule coordinator_step_observed)
qed

section \<open>The observation of a breach\<close>

lemma observation_json_lease:
  assumes "json_eq (observation_json a) (observation_json b)"
  shows "observation_leaseId a = observation_leaseId b" "observation_fencingToken a = observation_fencingToken b"
  using assms by (simp_all add: observation_json_def observation_payload_def json_eq_same_keys)

lemma nothing_observed:
  assumes j: "observations_released j" "distinct (map leaseId (leases j))" "recoveryState j = CLEAR"
    and l: "find_lease (observation_leaseId c) (leases j) = Some l" "lease_fencingToken l = observation_fencingToken c"
      "\<not> released l"
  shows "exact_observation_replay j c = None" "\<not> conflicting_observation j c"
proof -
  have other: "\<not> (observation_leaseId k = observation_leaseId c \<and> observation_fencingToken k = observation_fencingToken c)"
    if "r \<in> set (receipts j)" "observation_command_in (receipt_evidence_of r) = Some k" for r k
  proof -
    from j(1,3) that obtain m where m: "m \<in> set (leases j)" "leaseId m = observation_leaseId k" "released m"
      by (fastforce simp: observations_released_def observed_lease_def)
    show ?thesis
    proof
      assume "observation_leaseId k = observation_leaseId c \<and> observation_fencingToken k = observation_fencingToken c"
      with m find_lease_Some[OF l(1)] j(2) have "m = l" by (simp add: distinct_map inj_on_def)
      with m(3) l(3) show False by simp
    qed
  qed
  have "\<not> json_eq (observation_json k) (observation_json c)"
    if "r \<in> set (receipts j)" "observation_command_in (receipt_evidence_of r) = Some k" for r k
    using other[OF that] observation_json_lease[of k c] by blast
  then show "exact_observation_replay j c = None"
    by (auto simp: exact_observation_replay_def find_None_iff canonical_json_bytes_inject split: option.splits)
  show "\<not> conflicting_observation j c"
    using other by (auto simp: conflicting_observation_def list_ex_iff split: option.splits)
qed

lemma quarantine_commits:
  assumes j: "observations_released j" "validate_journal_integrity sha host j True = Inr ()" "recoveryState j = CLEAR"
    and l: "find_lease (observation_leaseId c) (leases j) = Some l" "lease_fencingToken l = observation_fencingToken c"
      "\<not> released l"
  obtains ds where "quarantine_step sha j c observed =
    Inr (Commit (fst (commit_quarantine sha j l c (sorted_union [] observed) ds))
                (snd (commit_quarantine sha j l c (sorted_union [] observed) ds)))"
proof -
  have "distinct (map leaseId (leases j))" using j(2) by (rule integrity_ids)
  note none = nothing_observed[OF j(1) this j(3) l]
  have "prior_paths j = []" using j(3) by (simp add: prior_paths_def open_evidence_def)
  then show thesis
    using none l j(3) affected_decisions_eq[OF j(2)]
    by (intro that) (simp add: quarantine_step_def Let_def split_def)
qed

text \<open>The command the guard writes is in normal form already.\<close>

definition clock_ok :: "string \<Rightarrow> bool" where
  "clock_ok clock = (clock \<noteq> [] \<and> validate_timestamp clock = Inr ())"

definition path_list :: "string list \<Rightarrow> bool" where
  "path_list ps = (list_all canonical ps \<and> sorted ps \<and> distinct ps)"

lemma canonical_not_Nil: "canonical p \<Longrightarrow> p \<noteq> []"
  by (auto simp: canonical_def safe_relative_path_def)

lemma path_list_normal:
  assumes "path_list ps"
  shows "canonical_path_set ps = Inr ps" "string_set ps" "sort ps = ps"
proof -
  from assms have "mapE canonical_relative_path ps = Inr ps"
    by (induction ps) (auto simp: path_list_def canonical_relative)
  with assms show "canonical_path_set ps = Inr ps"
    by (simp add: canonical_path_set_def path_list_def sorted_sort_id)
  from assms show "string_set ps" "sort ps = ps"
    by (auto simp: path_list_def string_set_def list_all_iff canonical_not_Nil sorted_sort_id)
qed

lemma breach_command_fields [simp]:
  "observation_leaseId (breach_command sha clock l i observed removed) = leaseId l"
  "observation_fencingToken (breach_command sha clock l i observed removed) = lease_fencingToken l"
  "observation_executionKey (breach_command sha clock l i observed removed) = lease_executionKey l"
  "observedPaths (breach_command sha clock l i observed removed) = sort observed"
  "ephemeralPathsRemoved (breach_command sha clock l i observed removed) = sort removed"
  "beforeInventoryDigest (breach_command sha clock l i observed removed) = sha256_json sha (inventory_json i)"
  by (simp_all add: breach_command_def Let_def)

lemma breach_command_normal:
  assumes sha: "hex_digest sha" and l: "lease_schema l" and clock: "clock_ok clock"
    and ps: "path_list observed" "path_list removed"
  shows "normalize_write_observation_command sha (breach_command sha clock l i observed removed) =
    Inr (breach_command sha clock l i observed removed)"
proof -
  let ?c = "breach_command sha clock l i observed removed"
  note normal = path_list_normal[OF ps(1)] path_list_normal[OF ps(2)]
  have quiet: "observation_quiescence ?c = \<lparr>quiescence_observedAt = clock, processIds = []\<rparr>"
    by (simp add: breach_command_def Let_def)
  have digest: "observation_digest ?c = sha256_json sha (JObj (observation_payload ?c))"
    by (simp add: breach_command_def Let_def observation_payload_def)
  have schema: "observation_schema ?c"
    using l clock normal is_digest_sha256_json[OF sha]
    by (simp add: observation_schema_def lease_schema_def quiet digest quiescence_schema_def clock_ok_def)
  have same: "?c\<lparr>observedPaths := observed, ephemeralPathsRemoved := removed,
      observation_quiescence := normalize_process_quiescence \<lparr>quiescence_observedAt = clock, processIds = []\<rparr>\<rparr> = ?c"
    using normal by (simp add: breach_command_def Let_def normalize_process_quiescence_def)
  have "quiescence_observedAt (normalize_process_quiescence q) = quiescence_observedAt q" for q
    by (simp add: normalize_process_quiescence_def)
  then show ?thesis
    using schema normal clock digest
    by (simp add: normalize_write_observation_command_def validate_schema_def Let_def same verify_command_digest_def
        clock_ok_def quiet)
qed

text \<open>Under the lock of a healthy store, the quarantine of a breach is written.\<close>

lemma guard_quarantine_persists:
  assumes d: "store_holds sha host (opened_store w root key) w (Some j) d"
    and bound: "lock_bound (opened_store w root key) (world_uid w) d" and w: "quiet w"
    and sha: "hex_digest sha" and j: "coordinated sha key j" "recoveryState j = CLEAR"
    and l: "find_lease (leaseId l) (leases j) = Some l" "\<not> released l"
    and clock: "clock_ok clock" and ps: "path_list observed" "path_list removed"
  shows "\<exists>ds res d'. quarantine_guard_breach sha host ((opened_store w root key)\<lparr>store_locked := True\<rparr>) w clock j l i observed removed d = (Inr res, d')
    \<and> store_holds sha host (opened_store w root key) w
        (Some (fst (commit_quarantine sha j l (breach_command sha clock l i observed removed) observed ds))) d'
    \<and> coordinated sha key (fst (commit_quarantine sha j l (breach_command sha clock l i observed removed) observed ds))"
proof -
  let ?s = "(opened_store w root key)\<lparr>store_locked := True\<rparr>" and ?c = "breach_command sha clock l i observed removed"
  note stored = stored_journal[OF d] and ok = coordinated_ok[OF j(1)]
  obtain h where h: "sourced j h" using j(1) by (rule coordinated_sourced)
  have schema: "lease_schema l" using stored(2) find_lease_Some(1)[OF l(1)] by (rule journal_schema_lease)
  note c = breach_command_normal[OF sha schema clock ps, of i]
  have union: "sorted_union [] observed = observed"
    using ps(1) by (simp add: sorted_union_def path_list_def distinct_remdups_id sorted_sort_id)
  obtain ds where step: "quarantine_step sha j ?c observed =
      Inr (Commit (fst (commit_quarantine sha j l ?c observed ds)) (snd (commit_quarantine sha j l ?c observed ds)))"
    by (rule quarantine_commits[OF coordinated_observed[OF j(1)] stored(1) j(2), of ?c l observed])
      (use l in \<open>simp_all add: union\<close>)
  let ?j = "fst (commit_quarantine sha j l ?c observed ds)" and ?r = "snd (commit_quarantine sha j l ?c observed ds)"
  have step': "quarantine_step sha j ?c (observedPaths ?c) = Inr (Commit ?j ?r)"
    using step path_list_normal(3)[OF ps(1)] by simp
  note accepted = accepted_quarantine[OF stored(1) ok h c step']
  have reached: "coordinated sha key ?j"
    by (rule coordinated.step[OF j(1) coordinator_step.observed[OF c step' accepted]])
  have next_j: "next_journal sha host (opened_store w root key) (Some j) ?j ?r"
    using quarantine_step_schema[OF sha stored(2,4) c step'] accepted
      commit_appends(3)[of sha j l ?c observed ds] stored(3)
    by (intro persisted_next[OF d]) (simp_all add: observation_sealed)
  have s: "store_holds sha host ?s w (Some j) d" "lock_bound ?s (world_uid w) d" "next_journal sha host ?s (Some j) ?j ?r"
    using d bound next_j by (simp_all add: lock_bound_def lock_identity_def next_journal_def)
  obtain d' where d': "replace_journal sha host ?s w (journalVersion j) ?j ?r d = (Inr ?j, d')"
    "store_holds sha host ?s w (Some ?j) d'"
    using replace_journal_ok[OF s(1,2) w _ s(3)] by auto
  obtain res where "finish_mutation ?j ?j ?r = Inr res"
    by (simp add: finish_mutation_def observation_sealed mutation_result_of_def)
  with c step d' reached show ?thesis by (auto simp: quarantine_guard_breach_def persist_def)
qed

end
