(* ===== verification/Inventory_Correct.thy ===== *)
theory Inventory_Correct
  imports Guard_Journal
begin

text \<open>
  The sources of an inventory against their specifications: the committed entries are the blobs
  of the tree objects that \<open>HEAD\<close> leads to, every path of an inventory is canonical, and the
  breaches are the paths that no WriteSet covers.
\<close>

section \<open>Git objects\<close>

text \<open>An object that is read reproduces the identity it was asked for.\<close>

lemma read_git_object_Inr:
  assumes "read_git_object h m b oid type maximum = Inr body"
  obtains v where "verify_git_boundary m b = Inr v" "git_oid oid = Some oid" "type \<in> {''commit'', ''tree''}"
    "object_hash h oid (object_bytes type body) = oid" "length body \<le> maximum"
proof -
  from assms obtain v where v: "verify_git_boundary m b = Inr v" "git_oid oid = Some oid" "type \<in> {''commit'', ''tree''}"
    and run: "checked_object h (view_objects v) oid type maximum = Inr body"
    by (auto simp: read_git_object_def result_simps)
  from run obtain checked out len where len: "len \<le> maximum"
    and out: "object_body oid type len out = Inr body"
    and hash: "object_hash h oid (object_bytes type body) = oid"
    by (auto simp: checked_object_def result_simps not_less split: option.splits)
  from out have "length body = len"
    by (auto simp: object_body_def result_simps split: option.splits if_splits)
  with len v hash show thesis by (intro that) auto
qed

section \<open>Trees\<close>

lemma tree_entries_safe:
  assumes "tree_entries n seen body = Inr es"
  shows "(\<forall>e\<in>set es. safe_component (tree_name e) \<and> tree_name e \<notin> set seen) \<and> distinct (map tree_name es)"
  using assms
proof (induction n seen body arbitrary: es rule: tree_entries.induct)
  case (1 n seen body)
  show ?case
  proof (cases "body = []")
    case True
    with 1(2) show ?thesis by (subst (asm) tree_entries.simps) simp
  next
    case False
    from 1(2) False obtain mode rest name rest' es' where parts: "partition_on (CHR '' '') body = Some (mode, rest)"
        "partition_on nul rest = Some (name, rest')"
      and ok: "\<not> (mode = [] \<or> name = [] \<or> length rest' < n \<or> \<not> is_ascii mode \<or> \<not> is_utf8 name
                   \<or> name \<in> {''.'', ''..''} \<or> slash \<in> set name \<or> name \<in> set seen)"
      and more: "tree_entries n (name # seen) (drop n rest') = Inr es'"
      and es: "es = \<lparr>tree_mode = mode, tree_name = name, tree_object = concat (map hex_of (take n rest'))\<rparr> # es'"
      by (subst (asm) tree_entries.simps) (auto simp: result_simps split: option.splits if_splits)
    from 1(1)[OF False parts(1) refl parts(2) refl ok more] ok show ?thesis by (auto simp: es safe_component_def)
  qed
qed

text \<open>What a tree contains, as Git defines it: blobs and links under the names that lead to them.\<close>

inductive in_tree :: "(string \<Rightarrow> string guarded) \<Rightarrow> nat \<Rightarrow> string \<Rightarrow> string list \<Rightarrow> string \<times> string \<Rightarrow> bool"
  for read n where
  blob: "read tree = Inr body \<Longrightarrow> tree_entries n [] body = Inr es \<Longrightarrow> e \<in> set es \<Longrightarrow> tree_mode e \<noteq> ''40000'' \<Longrightarrow>
    in_tree read n tree [tree_name e] (tree_mode e, tree_object e)"
| subtree: "read tree = Inr body \<Longrightarrow> tree_entries n [] body = Inr es \<Longrightarrow> e \<in> set es \<Longrightarrow> tree_mode e = ''40000'' \<Longrightarrow>
    in_tree read n (tree_object e) ps x \<Longrightarrow> in_tree read n tree (tree_name e # ps) x"

text \<open>The blobs below one entry of a tree.\<close>

definition in_entry :: "(string \<Rightarrow> string guarded) \<Rightarrow> nat \<Rightarrow> tree_entry \<Rightarrow> string list \<Rightarrow> string \<times> string \<Rightarrow> bool" where
  "in_entry read n e ps x =
     (if tree_mode e = ''40000'' then \<exists>qs. ps = tree_name e # qs \<and> in_tree read n (tree_object e) qs x
      else ps = [tree_name e] \<and> x = (tree_mode e, tree_object e))"

lemma in_tree_iff:
  assumes "read tree = Inr body" "tree_entries n [] body = Inr es"
  shows "in_tree read n tree ps x \<longleftrightarrow> (\<exists>e\<in>set es. in_entry read n e ps x)"
proof
  assume "in_tree read n tree ps x"
  then show "\<exists>e\<in>set es. in_entry read n e ps x"
    by cases (use assms in \<open>fastforce simp: in_entry_def\<close>)+
next
  assume "\<exists>e\<in>set es. in_entry read n e ps x"
  then obtain e where "e \<in> set es" "in_entry read n e ps x" ..
  then show "in_tree read n tree ps x"
    using assms by (cases "tree_mode e = ''40000''") (auto simp: in_entry_def intro: in_tree.intros)
qed

text \<open>What a walk adds to the entries it has.\<close>

definition adds :: "string list \<Rightarrow> (string list \<Rightarrow> string \<times> string \<Rightarrow> bool) \<Rightarrow> walk_state \<Rightarrow> walk_state \<Rightarrow> bool" where
  "adds here contents st st' =
     (set (walk_entries st') = set (walk_entries st) \<union> {(path_str [] (here @ ps), x) |ps x. contents ps x}
      \<and> (\<forall>ps x. contents ps x \<longrightarrow> ps \<noteq> [] \<and> list_all safe_component ps)
      \<and> (distinct (map fst (walk_entries st)) \<longrightarrow> distinct (map fst (walk_entries st'))))"

lemma adds_refl: "adds here (\<lambda>_ _. False) st st"
  by (simp add: adds_def)

lemma adds_trans:
  assumes "adds here a st st'" "adds here b st' st''"
  shows "adds here (\<lambda>ps x. a ps x \<or> b ps x) st st''"
  using assms unfolding adds_def by blast

lemma adds_foldE:
  assumes "foldE f es st = Inr st'"
    and "\<And>e st st'. e \<in> set es \<Longrightarrow> f e st = Inr st' \<Longrightarrow> adds here (contents e) st st'"
  shows "adds here (\<lambda>ps x. \<exists>e\<in>set es. contents e ps x) st st'"
  using assms
proof (induction es arbitrary: st)
  case Nil
  then show ?case by (simp add: adds_refl)
next
  case (Cons e es)
  from Cons.prems(1) obtain s where s: "f e st = Inr s" "foldE f es s = Inr st'" by (auto simp: result_simps)
  have "adds here (\<lambda>ps x. contents e ps x \<or> (\<exists>e\<in>set es. contents e ps x)) st st'"
    by (rule adds_trans[OF Cons.prems(2)[OF _ s(1)] Cons.IH[OF s(2)]]) (use Cons.prems(2) in auto)
  then show ?case by simp
qed

lemma adds_prefix:
  assumes "adds (here @ [name]) contents st st'" "safe_component name"
  shows "adds here (\<lambda>ps x. \<exists>qs. ps = name # qs \<and> contents qs x) st st'"
proof -
  have "{(path_str [] (here @ ps), x) |ps x. \<exists>qs. ps = name # qs \<and> contents qs x} =
      {(path_str [] ((here @ [name]) @ qs), x) |qs x. contents qs x}" by auto
  moreover have "\<forall>ps x. (\<exists>qs. ps = name # qs \<and> contents qs x) \<longrightarrow> ps \<noteq> [] \<and> list_all safe_component ps"
    using assms unfolding adds_def by fastforce
  ultimately show ?thesis using assms(1) unfolding adds_def by simp
qed

lemma add_entry_Inr:
  assumes "add_entry relative e st = Inr st'"
  shows "walk_entries st' = walk_entries st @ [(relative, tree_mode e, tree_object e)]"
    "relative \<notin> fst ` set (walk_entries st)"
  using assms by (auto simp: add_entry_def split: if_splits)

lemma adds_count: "adds here c (st\<lparr>walk_count := k\<rparr>) st' \<longleftrightarrow> adds here c st st'"
  by (simp add: adds_def)

lemma walk_tree_adds:
  assumes "walk_tree read n None fuel ancestors tree here st = Inr st'"
  shows "adds here (in_tree read n tree) st st'"
  using assms
proof (induction fuel arbitrary: ancestors tree here st st')
  case (Suc fuel)
  let ?descend = "\<lambda>object path st. walk_tree read n None fuel (tree # ancestors) object path st"
  from Suc.prems obtain body es where body: "read tree = Inr body" and es: "tree_entries n [] body = Inr es"
    and run: "foldE (walk_entry None here ?descend) es st = Inr st'"
    by (auto simp: result_simps)
  have entry: "adds here (in_entry read n e) st st'"
    if e: "e \<in> set es" and step: "walk_entry None here ?descend e st = Inr st'" for e st st'
  proof -
    from tree_entries_safe[OF es] e have name: "safe_component (tree_name e)" by blast
    let ?st = "st\<lparr>walk_count := walk_count st + 1\<rparr>"
    show ?thesis
    proof (cases "tree_mode e = ''40000''")
      case True
      with step have "walk_tree read n None fuel (tree # ancestors) (tree_object e) (here @ [tree_name e]) ?st = Inr st'"
        by (auto simp: walk_entry_def Let_def result_simps)
      from adds_prefix[OF Suc.IH[OF this] name] True show ?thesis
        by (simp add: in_entry_def[abs_def] adds_count)
    next
      case False
      with step have "add_entry (path_str [] (here @ [tree_name e])) e ?st = Inr st'"
        by (auto simp: walk_entry_def Let_def result_simps split: if_splits)
      from add_entry_Inr[OF this] name False show ?thesis
        by (auto simp: adds_def in_entry_def)
    qed
  qed
  have "adds here (\<lambda>ps x. \<exists>e\<in>set es. in_entry read n e ps x) st st'"
    using run entry by (rule adds_foldE)
  then show ?case by (simp add: in_tree_iff[of read tree body n es, OF body es, abs_def])
qed simp

text \<open>All blobs of the tree, and nothing else.\<close>

lemma read_tree_entries_Inr:
  assumes "read_tree_entries h m b tree None = Inr es"
  shows "git_oid tree = Some tree" "distinct (map fst es)"
    "set es = {(path_str [] ps, x) |ps x. in_tree (\<lambda>i. read_git_object h m b i ''tree'' max_object) (length tree div 2) tree ps x}"
    "\<And>ps x. in_tree (\<lambda>i. read_git_object h m b i ''tree'' max_object) (length tree div 2) tree ps x \<Longrightarrow>
       ps \<noteq> [] \<and> list_all safe_component ps"
proof -
  from assms obtain st where oid: "git_oid tree = Some tree"
    and walk: "walk_tree (\<lambda>i. read_git_object h m b i ''tree'' max_object) (length tree div 2)
                 None tree_fuel [] tree [] \<lparr>walk_entries = [], walk_count = 0\<rparr> = Inr st"
    and es: "es = walk_entries st"
    by (auto simp: read_tree_entries_def result_simps)
  from walk_tree_adds[OF walk]
  show "git_oid tree = Some tree" "distinct (map fst es)"
    "set es = {(path_str [] ps, x) |ps x. in_tree (\<lambda>i. read_git_object h m b i ''tree'' max_object) (length tree div 2) tree ps x}"
    "\<And>ps x. in_tree (\<lambda>i. read_git_object h m b i ''tree'' max_object) (length tree div 2) tree ps x \<Longrightarrow>
       ps \<noteq> [] \<and> list_all safe_component ps"
    using oid by (auto simp: adds_def es)
qed

lemma read_committed_entries_Inr:
  assumes "read_committed_entries h m b = Inr es"
  obtains head body tree where "read_git_head m b = Inr head"
    "read_git_object h m b head ''commit'' max_object = Inr body"
    "commit_tree_identity body = Inr tree" "read_tree_entries h m b tree None = Inr es"
  using assms by (auto simp: read_committed_entries_def result_simps)

lemma committed_canonical:
  assumes "read_committed_entries h m b = Inr es"
  shows "list_all canonical (map fst es)" "distinct (map fst es)"
proof -
  obtain tree where "read_tree_entries h m b tree None = Inr es"
    using assms by (rule read_committed_entries_Inr)
  note tree = read_tree_entries_Inr[OF this]
  show "distinct (map fst es)" by (rule tree(2))
  show "list_all canonical (map fst es)" using tree(4) by (auto simp: list_all_iff tree(3) intro!: canonical_text(1))
qed

section \<open>Index and ignore rules\<close>

lemma index_canonical:
  assumes "read_git_index h m b = Inr es"
  shows "list_all canonical (map fst es)"
proof -
  from assms obtain raw where "foldE index_entry (index_fields raw) [] = Inr es"
    by (auto simp: read_git_index_def parse_index_def result_simps)
  then show ?thesis
  proof (rule foldE_invariant[where P = "\<lambda>es. list_all canonical (map fst es)"])
    fix field es es'
    assume es: "list_all canonical (map fst es)" and step: "index_entry field es = Inr es'"
    from step obtain v path mode oid where "guard_relative v = Inr path" and "es' = es @ [(path, mode, oid)]"
      by (auto simp: index_entry_def result_simps split: option.splits list.splits)
    with es guard_relative_Inr(1,2)[of v path] show "list_all canonical (map fst es')" by auto
  qed simp
qed

lemma ignored_canonical:
  assumes "literal_ignored_roots lane = Inr roots"
  shows "list_all canonical roots \<and> distinct roots"
proof -
  have "list_all canonical roots \<and> distinct roots" if run: "foldE add_ignore_root lines [] = Inr roots" for lines
    using run
  proof (rule foldE_invariant[where P = "\<lambda>roots. list_all canonical roots \<and> distinct roots"])
    fix line roots roots'
    assume roots: "list_all canonical roots \<and> distinct roots" and step: "add_ignore_root line roots = Inr roots'"
    show "list_all canonical roots' \<and> distinct roots'"
    proof (cases "roots' = roots")
      case False
      with step obtain root where "guard_relative root = Inr root" "roots' = List.insert root roots"
        by (auto simp: add_ignore_root_def dest: guard_relative_Inr(1)
            split: option.splits sum.splits guard_error.splits harness_error.splits)
      with roots guard_relative_Inr(2) show ?thesis by (auto simp: list_all_iff)
    qed (use roots in simp)
  qed simp
  with assms show ?thesis
    by (auto simp: literal_ignored_roots_def ignore_roots_of_def split: sum.splits if_splits)
qed

section \<open>The inventory\<close>

lemma shortest_root_in: "roots \<noteq> [] \<Longrightarrow> shortest_root roots \<in> set roots"
  unfolding shortest_root_def by (metis hd_in_set set_sort sort_key_simps(1) set_empty)

text \<open>Every change of an inventory is accounted for by a path of it.\<close>

lemma inventory_paths:
  "set (paths (inventory_of committed indexed (nodes, leaves) roots)) \<subseteq>
     fst ` set committed \<union> fst ` set indexed \<union> set leaves \<union> set roots"
  using shortest_root_in[of "covering_roots roots p" for p]
  by (fastforce simp: inventory_of_def Let_def tracked_changes_def untracked_leaves_def ignored_paths_def
      covering_roots_def)

lemma path_list_sort: "list_all canonical ps \<Longrightarrow> path_list (sort (remdups ps))"
  by (simp add: path_list_def list_all_iff)

lemma lane_inventory_Inr:
  assumes "lane_inventory_with h m b lane scan = Inr i"
  obtains v committed indexed nodes leaves roots where "verify_git_boundary m b = Inr v"
    "read_committed_entries h m b = Inr committed" "read_git_index h m b = Inr indexed"
    "scan = Inr (nodes, leaves)" "literal_ignored_roots lane = Inr roots"
    "i = inventory_of committed indexed (nodes, leaves) roots"
  using assms by (auto simp: lane_inventory_with_def result_simps)

lemma inventory_path_list:
  assumes "lane_inventory_with h m b lane (scan_lane_tree h lane) = Inr i"
  shows "path_list (paths i)"
proof -
  obtain committed indexed nodes leaves roots where parts: "read_committed_entries h m b = Inr committed"
    "read_git_index h m b = Inr indexed" "scan_lane_tree h lane = Inr (nodes, leaves)"
    "literal_ignored_roots lane = Inr roots" and i: "i = inventory_of committed indexed (nodes, leaves) roots"
    using assms by (rule lane_inventory_Inr)
  have "list_all canonical (paths i)"
    using inventory_paths[of committed indexed nodes leaves roots] committed_canonical[OF parts(1)]
      index_canonical[OF parts(2)] scan_canonical[OF parts(3)] ignored_canonical[OF parts(4)]
    unfolding i list_all_iff by auto
  moreover have "sorted (paths i)" "distinct (paths i)"
    by (simp_all add: i inventory_of_def Let_def)
  ultimately show ?thesis by (simp add: path_list_def)
qed

lemma persistent_breaches_list: "path_list ps \<Longrightarrow> path_list (persistent_breaches ps exact ephemeral)"
  by (auto simp: path_list_def persistent_breaches_def list_all_iff)

lemma uncovered_list: "path_list ps \<Longrightarrow> path_list (uncovered_changes ps coverage)"
  by (auto simp: path_list_def uncovered_changes_def list_all_iff intro: sorted_wrt_filter)

lemma sorted_union_list: "path_list ps \<Longrightarrow> path_list qs \<Longrightarrow> path_list (sorted_union ps qs)"
  by (simp add: path_list_def list_all_iff ball_Un)

lemma snapshot_changes_list:
  assumes "scan_lane_tree h lane = Inr before" "scan_lane_tree h lane' = Inr after"
  shows "path_list (snapshot_changes before after)"
proof -
  obtain nodes leaves nodes' leaves' where eq: "before = (nodes, leaves)" "after = (nodes', leaves')"
    by (cases before; cases after)
  note canonical = scan_canonical[OF assms(1)[unfolded eq]] scan_canonical[OF assms(2)[unfolded eq]]
  show ?thesis
    unfolding snapshot_changes_def eq prod.case Let_def
    by (rule path_list_sort) (use canonical in \<open>auto simp: list_all_iff\<close>)
qed

lemma ephemeral_presence_list:
  "list_all canonical ephemeral \<Longrightarrow> path_list (fst (ephemeral_presence lane ephemeral))"
  by (simp add: ephemeral_presence_def Let_def path_list_sort list_all_iff)

end
