(* ===== verification/Guard_Correct.thy ===== *)
theory Guard_Correct
  imports Inventory_Correct
begin

text \<open>
  One guarded run, taken apart: what it checks before the command runs, what it compares
  afterwards, and what it writes when the lane holds a path that the lease does not declare.
\<close>

section \<open>Before the command\<close>

lemma validate_declared_sets_Inr:
  assumes "validate_declared_sets h m b lr lane l = Inr (targets, exact, ephemeral)"
  shows "exact = sort (exactWriteSet (lease_footprint l))" "ephemeral = sort (ephemeralWriteSet (lease_footprint l))"
    "list_all canonical exact" "list_all canonical ephemeral"
    "foldE (add_target lane lr) (map (Pair False) exact @ map (Pair True) ephemeral) [] = Inr targets"
    "validate_ephemeral_paths h m b lane ephemeral = Inr ()"
proof -
  have list: "list_all canonical ps" if "mapE guard_relative ps = Inr qs" for ps qs
    using that guard_relative_Inr(2) by (induction ps arbitrary: qs) (auto simp: result_simps)
  from assms obtain qs rs where sets: "mapE guard_relative (exactWriteSet (lease_footprint l)) = Inr qs"
    "mapE guard_relative (ephemeralWriteSet (lease_footprint l)) = Inr rs"
    and eq: "exact = sort (exactWriteSet (lease_footprint l))" "ephemeral = sort (ephemeralWriteSet (lease_footprint l))"
    and rest: "foldE (add_target lane lr) (map (Pair False) exact @ map (Pair True) ephemeral) [] = Inr targets"
    "validate_ephemeral_paths h m b lane ephemeral = Inr ()"
    unfolding validate_declared_sets_def Let_def
    by (elim bindE_InrE raise_ifE) (simp add: result_simps)
  from eq show "exact = sort (exactWriteSet (lease_footprint l))" "ephemeral = sort (ephemeralWriteSet (lease_footprint l))" .
  from list[OF sets(1)] list[OF sets(2)] show "list_all canonical exact" "list_all canonical ephemeral"
    by (simp_all add: eq list_all_iff)
  from rest show "foldE (add_target lane lr) (map (Pair False) exact @ map (Pair True) ephemeral) [] = Inr targets"
    "validate_ephemeral_paths h m b lane ephemeral = Inr ()" .
qed

lemma prepare_lane_Inr:
  assumes "prepare_lane h m lr cwd l = Inr p"
  shows "open_leased_lane m l lr = Inr (prepared_node p)"
    "open_git_boundary m lr (prepared_node p) ''LANE_INVENTORY_UNAVAILABLE'' = Inr (prepared_boundary p)"
    "validate_declared_sets h m (prepared_boundary p) lr (prepared_node p) l =
       Inr (prepared_targets p, prepared_exact p, prepared_ephemeral p)"
    "scan_lane_tree h (prepared_node p) = Inr (prepared_snapshot p)"
    "lane_inventory_with h m (prepared_boundary p) (prepared_node p) (scan_lane_tree h (prepared_node p)) = Inr (prepared_inventory p)"
  using assms by (auto simp: prepare_lane_def result_simps)

lemma inspect_lane_Inr:
  assumes "inspect_lane h m p = Inr q"
  shows "reopen_lane m (prepared_boundary p) = Inr (inspected_node q)"
    "scan_lane_tree h (inspected_node q) = Inr (inspected_snapshot q)"
    "lane_inventory_with h m (prepared_boundary p) (inspected_node q) (scan_lane_tree h (inspected_node q)) = Inr (inspected_inventory q)"
    "revalidate_targets (inspected_node q) (prepared_targets p) = Inr ()"
  using assms by (auto simp: inspect_lane_def result_simps)

lemma current_durable_lease_Inr:
  assumes "current_durable_lease jo presented = Inr l"
  obtains j where "jo = Some j" "recoveryState j = CLEAR" "find_lease (leaseId presented) (leases j) = Some l"
    "lease_attemptId presented = lease_attemptId l" "lease_fencingToken presented = lease_fencingToken l"
    "lease_state l = ACTIVE" "\<not> released l" "recoveryStatus l = CLEAR"
    "lease_executionKey presented = lease_executionKey l" "lease_laneRoot presented = lease_laneRoot l"
    "lease_footprint presented = lease_footprint l"
  using assms by (auto simp: current_durable_lease_def result_simps split: option.splits)

section \<open>The whole run\<close>

text \<open>How far a run came: each case is one exit of \<open>run_guarded_command\<close>.\<close>

lemma run_started:
  assumes run: "run_guarded_command h ssh run root w clock presented lr c m d = (r, m', d')"
    and past: "m' \<noteq> m \<or> (\<exists>x. r = Inr x)"
  obtains lane cwd s d1 locked opened d2 j l d3 x where
    "guard_arguments h m lr c = Inr (lane, cwd)"
    "open_store w root (lease_executionKey presented) d = Inr (s, d1)"
    "enter_project_lock s w d1 = Inr (locked, opened, d2)"
    "read_journal (host_sha256 h) ssh locked w d2 = Inr (Some j)"
    "current_durable_lease (Some j) presented = Inr l" "lease_laneRoot l = lane"
    "guarded_lane h ssh run locked w clock j l lane cwd c m d2 = (x, m', d3)"
    "r = bindE (except_os unsafe_target x) (\<lambda>x. bindE (raised (leave_project_lock opened d3)) (\<lambda>_. Inr x))" "d' = d3"
proof -
  let ?start = "bindE (guard_arguments h m lr c) (\<lambda>(lane, cwd).
      bindE (raised (open_store w root (lease_executionKey presented) d)) (\<lambda>(s, d1). Inr (lane, cwd, s, d1)))"
  have "\<exists>y. ?start = Inr y"
    using run past by (cases ?start) (auto simp: run_guarded_command_def)
  then obtain lane cwd s d1 where start: "?start = Inr (lane, cwd, s, d1)" by (metis prod_cases4)
  then have args: "guard_arguments h m lr c = Inr (lane, cwd)"
    "open_store w root (lease_executionKey presented) d = Inr (s, d1)" by (auto simp: result_simps)
  obtain locked opened d2 where lock: "enter_project_lock s w d1 = Inr (locked, opened, d2)"
    using run past start by (cases "enter_project_lock s w d1") (auto simp: run_guarded_command_def raised_def)
  let ?journal = "bindE (raised (read_journal (host_sha256 h) ssh locked w d2)) (\<lambda>j.
      bindE (current_durable_lease j presented) (\<lambda>l.
      bindE (raise_if (lease_laneRoot l \<noteq> lane) (guard_error ''STALE_LEASE_BINDING'')) (\<lambda>_. Inr (the j, l))))"
  have run: "(case ?journal of
        Inl e \<Rightarrow> (Inl e, m, d2)
      | Inr (j, l) \<Rightarrow>
          (case guarded_lane h ssh run locked w clock j l lane cwd c m d2 of
             (r, m', d3) \<Rightarrow>
               (bindE (except_os unsafe_target r) (\<lambda>x.
                bindE (raised (leave_project_lock opened d3)) (\<lambda>_. Inr x)), m', d3))) = (r, m', d')"
    using run by (simp add: run_guarded_command_def start lock)
  then have "\<exists>y. ?journal = Inr y" using past by (cases ?journal) auto
  then obtain j0 l where journal: "?journal = Inr (j0, l)" by auto
  then obtain jo where jo: "read_journal (host_sha256 h) ssh locked w d2 = Inr jo" "current_durable_lease jo presented = Inr l"
    "lease_laneRoot l = lane" "j0 = the jo" by (auto simp: result_simps)
  moreover from jo(2) obtain j where "jo = Some j" by (rule current_durable_lease_Inr)
  ultimately have read: "read_journal (host_sha256 h) ssh locked w d2 = Inr (Some j0)"
    "current_durable_lease (Some j0) presented = Inr l" "lease_laneRoot l = lane" by simp_all
  obtain x m1 d3 where lane: "guarded_lane h ssh run locked w clock j0 l lane cwd c m d2 = (x, m1, d3)"
    by (metis prod_cases3)
  with run journal have "m1 = m'" "d' = d3"
    "r = bindE (except_os unsafe_target x) (\<lambda>x. bindE (raised (leave_project_lock opened d3)) (\<lambda>_. Inr x))" by auto
  with args lock read lane show thesis by (intro that) simp_all
qed

abbreviation before_breaches :: "prepared_lane \<Rightarrow> string list" where
  "before_breaches p \<equiv> persistent_breaches (paths (prepared_inventory p)) (prepared_exact p) (prepared_ephemeral p)"

lemma guarded_lane_ran:
  assumes run: "guarded_lane h ssh run s w clock j l lr cwd c m d = (r, m', d')"
    and past: "m' \<noteq> m \<or> (\<exists>x. r = Inr x)"
  obtains p status out err where "prepare_lane h m lr cwd l = Inr p" "before_breaches p = []"
    "run (sandbox_profile (prepared_targets p)) c m = Some (status, out, err, m')"
proof -
  obtain p where p: "prepare_lane h m lr cwd l = Inr p"
    using run past by (cases "prepare_lane h m lr cwd l") (auto simp: guarded_lane_def)
  have none: "before_breaches p = []"
  proof (rule ccontr)
    assume "before_breaches p \<noteq> []"
    with run p past show False
      by (auto simp: guarded_lane_def Let_def raise_breach_def split: prod.splits sum.splits)
  qed
  obtain status out err m1 where "run (sandbox_profile (prepared_targets p)) c m = Some (status, out, err, m1)"
    using run p none past by (cases "run (sandbox_profile (prepared_targets p)) c m") (auto simp: guarded_lane_def Let_def)
  moreover from this run p none have "m1 = m'"
    by (auto simp: guarded_lane_def Let_def split: sum.splits verdict.splits prod.splits)
  ultimately show thesis using p none by (intro that) auto
qed

lemma guarded_lane_Inr:
  assumes run: "guarded_lane h ssh run s w clock j l lr cwd c m d = (Inr r, m', d')"
  obtains p q where "prepare_lane h m lr cwd l = Inr p" "before_breaches p = []" "inspect_lane h m' p = Inr q"
    "judge p q = Clean (result_observedPaths r)" "afterInventory r = inspected_inventory q"
    "beforeInventory r = prepared_inventory p" "d' = d"
proof -
  obtain p status out err where p: "prepare_lane h m lr cwd l = Inr p" "before_breaches p = []"
    "run (sandbox_profile (prepared_targets p)) c m = Some (status, out, err, m')"
    using run by (rule guarded_lane_ran) simp
  with run have after: "(case inspect_lane h m' p of
                   Inl e \<Rightarrow> (Inl e, m', d)
                 | Inr q \<Rightarrow>
                     (case judge p q of
                        Breached observed \<Rightarrow>
                          (case raise_breach h ssh s w clock j l p (inspected_node q) observed d of
                             (r, d') \<Rightarrow> (r, m', d'))
                      | Left_Ephemeral remaining \<Rightarrow>
                          (Inl (Breach ''EPHEMERAL_PATH_NOT_REMOVED'' remaining), m', d)
                      | Clean observed \<Rightarrow>
                          (Inr \<lparr>result_returncode = status, result_stdout = out, result_stderr = err,
                                beforeInventory = prepared_inventory p,
                                afterInventory = inspected_inventory q,
                                result_observedPaths = observed\<rparr>, m', d))) = (Inr r, m', d')"
    by (simp add: guarded_lane_def)
  then obtain q where q: "inspect_lane h m' p = Inr q" by (cases "inspect_lane h m' p") auto
  with after obtain observed where "judge p q = Clean observed"
    by (cases "judge p q") (auto simp: raise_breach_def split: sum.splits prod.splits)
  with after q p show thesis by (intro that) auto
qed

section \<open>After the command\<close>

text \<open>A clean verdict: nothing undeclared, nothing ephemeral left.\<close>

lemma judge_Clean:
  assumes "judge p q = Clean observed"
  shows "after_breaches p q = []" "observed = observed_changes p q"
    "remaining_ephemeral (inspected_node q) (inspected_inventory q) (prepared_ephemeral p) = []"
  using assms by (auto simp: judge_def Let_def split: if_splits)

lemma persistent_breaches_Nil:
  "persistent_breaches ps exact ephemeral = [] \<longleftrightarrow> (\<forall>p\<in>set ps. declared_path exact ephemeral p)"
  by (simp add: persistent_breaches_def sort_Nil_iff filter_empty_conv)

text \<open>A path below a declared path is declared, unless only exact paths further down declare it.\<close>

definition holds_exact :: "string list \<Rightarrow> string \<Rightarrow> bool" where
  "holds_exact exact path = list_ex (\<lambda>allowed. path_is_within allowed path) exact"

lemma path_is_within_iff: "path_is_within path root \<longleftrightarrow> path = root \<or> (\<exists>s. path = root @ slash # s)"
proof -
  have "take (Suc (length root)) path = root @ [slash] \<longleftrightarrow> (\<exists>s. path = root @ slash # s)"
    by (metis append.assoc append_Cons append_Nil append_take_drop_id length_append_singleton append_eq_conv_conj)
  then show ?thesis by (simp add: path_is_within_def has_prefix_def)
qed

lemma path_is_within_trans: "path_is_within a b \<Longrightarrow> path_is_within b c \<Longrightarrow> path_is_within a c"
  by (auto simp: path_is_within_iff)

lemma declared_below:
  assumes "declared_path exact ephemeral i" "path_is_within x i"
  shows "declared_path exact ephemeral x \<or> holds_exact exact i"
  using assms path_is_within_trans[OF assms(2)] unfolding declared_path_def holds_exact_def list_ex_iff by blast

lemma clean_changes:
  assumes before: "before_breaches p = []" and clean: "judge p q = Clean observed"
    and x: "x \<in> set (snapshot_changes (prepared_snapshot p) (inspected_snapshot q))"
  shows "declared_path (prepared_exact p) (prepared_ephemeral p) x
      \<or> (\<exists>i\<in>set (paths (prepared_inventory p)) \<union> set (paths (inspected_inventory q)).
           path_is_within x i \<and> holds_exact (prepared_exact p) i)"
    "list_ex (path_is_within x) observed"
proof -
  let ?coverage = "paths (prepared_inventory p) @ paths (inspected_inventory q)"
  let ?changes = "snapshot_changes (prepared_snapshot p) (inspected_snapshot q)"
  have "set (after_breaches p q) = {}" using judge_Clean(1)[OF clean] by simp
  then have none: "persistent_breaches (paths (inspected_inventory q)) (prepared_exact p) (prepared_ephemeral p) = []"
    "persistent_breaches (uncovered_changes ?changes ?coverage) (prepared_exact p) (prepared_ephemeral p) = []"
    by (simp_all add: after_breaches_def Let_def)
  show "declared_path (prepared_exact p) (prepared_ephemeral p) x
      \<or> (\<exists>i\<in>set (paths (prepared_inventory p)) \<union> set (paths (inspected_inventory q)).
           path_is_within x i \<and> holds_exact (prepared_exact p) i)"
  proof (cases "list_ex (path_is_within x) ?coverage")
    case False
    with x have "x \<in> set (uncovered_changes ?changes ?coverage)" by (simp add: uncovered_changes_def)
    with none(2) show ?thesis by (simp add: persistent_breaches_Nil)
  next
    case True
    then obtain i where i: "i \<in> set ?coverage" "path_is_within x i" by (auto simp: list_ex_iff)
    with before none(1) have "declared_path (prepared_exact p) (prepared_ephemeral p) i"
      by (auto simp: persistent_breaches_Nil)
    from declared_below[OF this i(2)] i show ?thesis by auto
  qed
  show "list_ex (path_is_within x) observed"
    using x by (auto simp: judge_Clean(2)[OF clean] observed_changes_def Let_def uncovered_changes_def list_ex_iff
        path_is_within_iff)
qed

section \<open>Changes of the tree\<close>

text \<open>A file, link or special node that is not the same before and after, or a directory with another mode.\<close>

definition changed_at :: "'h scan_host_scheme \<Rightarrow> lane_node \<Rightarrow> lane_node \<Rightarrow> string list \<Rightarrow> bool" where
  "changed_at h lane lane' parts =
     (let a = node_at lane parts; b = node_at lane' parts in
      visible_path parts \<and> map_option (entry_of h) a \<noteq> map_option (entry_of h) b
      \<and> (pred_option (\<lambda>n. \<not> is_leaf n) a \<and> pred_option (\<lambda>n. \<not> is_leaf n) b \<longrightarrow>
           map_option kind_of a = Some Directory_Kind \<and> map_option kind_of b = Some Directory_Kind))"

lemma scan_lookup:
  assumes scan: "scan_lane_tree h lane = Inr (nodes, leaves)" "unique_names (children lane)" and parts: "visible_path parts"
  shows "map_of nodes (path_str [] parts) = map_option (entry_of h) (node_at lane parts)"
    "path_str [] parts \<in> set leaves \<longleftrightarrow> pred_option is_leaf (node_at lane parts) \<and> node_at lane parts \<noteq> None"
proof -
  have "map_of nodes (path_str [] parts) = Some e \<longleftrightarrow> map_option (entry_of h) (node_at lane parts) = Some e" for e
    unfolding scan_lane_tree_nodes(1)[OF scan] using parts by (auto simp: path_str_inject)
  then show "map_of nodes (path_str [] parts) = map_option (entry_of h) (node_at lane parts)"
    by (metis option.exhaust)
  show "path_str [] parts \<in> set leaves \<longleftrightarrow> pred_option is_leaf (node_at lane parts) \<and> node_at lane parts \<noteq> None"
    unfolding scan_lane_tree_nodes(2)[OF scan] using parts by (auto simp: path_str_inject)
qed

lemma directory_entry: "entry_type (entry_of h n) = ''DIRECTORY'' \<longleftrightarrow> is_directory n"
  by (cases n) (simp_all add: plain_entry_def blob_entry_def)

lemma changed_in_snapshot:
  assumes before: "scan_lane_tree h lane = Inr before" "unique_names (children lane)"
    and after: "scan_lane_tree h lane' = Inr after" "unique_names (children lane')"
    and changed: "changed_at h lane lane' parts"
  shows "path_str [] parts \<in> set (snapshot_changes before after)"
proof -
  obtain nodes leaves nodes' leaves' where eq: "before = (nodes, leaves)" "after = (nodes', leaves')"
    by (cases before; cases after)
  have parts: "visible_path parts" using changed by (simp add: changed_at_def Let_def)
  note a = scan_lookup[OF before(1)[unfolded eq] before(2) parts]
  note b = scan_lookup[OF after(1)[unfolded eq] after(2) parts]
  let ?x = "path_str [] parts"
  from changed have differ: "map_of nodes ?x \<noteq> map_of nodes' ?x" by (simp add: a b changed_at_def Let_def)
  have "?x \<in> set leaves \<or> ?x \<in> set leaves'
      \<or> map_option entry_type (map_of nodes ?x) = Some ''DIRECTORY'' \<and> map_option entry_type (map_of nodes' ?x) = Some ''DIRECTORY''"
    using changed by (cases "node_at lane parts"; cases "node_at lane' parts")
      (auto simp: a b changed_at_def Let_def directory_entry)
  moreover have "?x \<in> fst ` set nodes" if "map_option entry_type (map_of nodes ?x) = Some ''DIRECTORY''"
    using that by (auto simp: image_iff dest!: map_of_SomeD) force
  ultimately show ?thesis
    using differ by (auto simp: snapshot_changes_def eq Let_def)
qed

section \<open>Lanes\<close>

lemma open_directories_unique:
  "open_directories n ps = Inr n' \<Longrightarrow> unique_names (children n) \<Longrightarrow> unique_names (children n')"
proof (induction ps arbitrary: n)
  case (Cons p ps)
  from Cons.prems(1) obtain m where m: "open_directory n p = Inr m" "open_directories m ps = Inr n'"
    by (auto simp: result_simps)
  from m(1) have "map_of (children n) p = Some m" by (auto simp: open_directory_def split: option.splits if_splits)
  with Cons.prems(2) have "unique_names (children m)" by (rule unique_names_children)
  with m(2) show ?case by (rule Cons.IH)
qed simp

lemma lane_unique:
  "open_absolute_directory root path = Inr n \<Longrightarrow> unique_names (children root) \<Longrightarrow> unique_names (children n)"
  by (simp add: open_absolute_directory_def open_directories_unique)

lemma open_git_boundary_fields:
  assumes "open_git_boundary m lr lane code = Inr b"
  shows "boundary_lane b = lr" "lane_identity_of b = node_identity lane" "boundary_code b = code"
  using assms by (auto simp: open_git_boundary_def result_simps)

lemma open_leased_lane_Inr:
  assumes "open_leased_lane m l lr = Inr lane"
  shows "open_absolute_directory (machine_root m) lr = Inr lane"
    "lanePhysicalIdentity l = \<lparr>identity_device = node_device (stat_of lane), identity_inode = node_inode (stat_of lane)\<rparr>"
  using assms by (auto simp: open_leased_lane_def result_simps)

lemma reopen_lane_Inr:
  assumes "reopen_lane m b = Inr lane"
  shows "open_absolute_directory (machine_root m) (boundary_lane b) = Inr lane" "node_identity lane = lane_identity_of b"
  using assms by (auto simp: reopen_lane_def same_node_def result_simps)

end
