(* ===== verification/Guard_Properties.thy ===== *)
theory Guard_Properties
  imports Guard_Correct
begin

text \<open>
  The properties of the write guard: what a run that returns guarantees of the lane, when the
  command runs at all, what a breach leaves on disk, and that the inputs of the verdict are the
  tree on disk and the objects of the commit.
\<close>

section \<open>Runs\<close>



section \<open>Breaches\<close>

text \<open>The breach a run meets: paths the lane holds before the command, or after it.\<close>

definition breach_met :: "guard_host \<Rightarrow> runner \<Rightarrow> guarded_command \<Rightarrow> machine \<Rightarrow> prepared_lane
    \<Rightarrow> (machine \<times> lane_node \<times> string list) option" where
  "breach_met h run c m p =
     (if before_breaches p \<noteq> [] then Some (m, prepared_node p, before_breaches p)
      else (case run (sandbox_profile (prepared_targets p)) c m of
          None \<Rightarrow> None
        | Some (_, _, _, m') \<Rightarrow>
            (case inspect_lane h m' p of
               Inl _ \<Rightarrow> None
             | Inr q \<Rightarrow> if after_breaches p q = [] then None else Some (m', inspected_node q, after_breaches p q))))"

lemma breach_met_paths:
  assumes p: "prepare_lane h m path cwd l = Inr p" and met: "breach_met h run c m p = Some (m', n, observed)"
  shows "path_list observed"
proof -
  note p = prepare_lane_Inr[OF p]
  have before: "path_list (before_breaches p)"
    by (rule persistent_breaches_list[OF inventory_path_list[OF p(5)]])
  have after: "path_list (after_breaches p q)" if "inspect_lane h m1 p = Inr q" for q m1
  proof -
    note q = inspect_lane_Inr[OF that]
    show ?thesis
      unfolding after_breaches_def Let_def
      by (intro sorted_union_list persistent_breaches_list uncovered_list inventory_path_list[OF q(3)]
          snapshot_changes_list[OF p(4) q(2)])
  qed
  from met before after show ?thesis
    by (auto simp: breach_met_def split: if_splits option.splits sum.splits)
qed

lemma guarded_lane_breach:
  assumes p: "prepare_lane h m path cwd l = Inr p" and met: "breach_met h run c m p = Some (m', n, observed)"
  shows "guarded_lane h ssh run s w clock j l path cwd c m d =
    (case raise_breach h ssh s w clock j l p n observed d of (r, d') \<Rightarrow> (r, m', d'))"
  using assms
  by (auto simp: breach_met_def guarded_lane_def judge_def Let_def split: if_splits option.splits sum.splits)


section \<open>Inputs of the verdict\<close>

text \<open>C20: A scan is the tree. Under every path that does not start at \<open>.git\<close>, the nodes of a scan
  that returns hold exactly the node of the tree, with its device, inode, mode and hashes; its leaves are the
  nodes that have no children, and it holds no other path.\<close>

theorem scan_reads_the_tree:
  assumes "scan_lane_tree h lane = Inr (nodes, leaves)" "unique_names (children lane)"
  shows "(\<forall>parts. visible_path parts \<longrightarrow>
        map_of nodes (path_str [] parts) = map_option (entry_of h) (node_at lane parts)
        \<and> (path_str [] parts \<in> set leaves \<longleftrightarrow> (\<exists>n. node_at lane parts = Some n \<and> is_leaf n)))
    \<and> fst ` set nodes \<union> set leaves \<subseteq> path_str [] ` {parts. visible_path parts \<and> node_at lane parts \<noteq> None}"
proof -
  let ?visible = "path_str [] ` {parts. visible_path parts \<and> node_at lane parts \<noteq> None}"
  have "p \<in> ?visible" if "p \<in> fst ` set nodes" for p
  proof -
    from that obtain e where "map_of nodes p = Some e" by (metis domD dom_map_of_conv_image_fst)
    then obtain parts n where "visible_path parts" "p = path_str [] parts" "node_at lane parts = Some n"
      unfolding scan_lane_tree_nodes(1)[OF assms] by blast
    then show ?thesis by blast
  qed
  moreover have "p \<in> ?visible" if "p \<in> set leaves" for p
    using that unfolding scan_lane_tree_nodes(2)[OF assms] by blast
  ultimately have "fst ` set nodes \<union> set leaves \<subseteq> ?visible" by blast
  moreover have "path_str [] parts \<in> set leaves \<longleftrightarrow> (\<exists>n. node_at lane parts = Some n \<and> is_leaf n)"
    if "visible_path parts" for parts
    using scan_lookup(2)[OF assms that] by (cases "node_at lane parts") simp_all
  ultimately show ?thesis using scan_lookup(1)[OF assms] by blast
qed

lemma sum_set_le: "sum f (set xs) \<le> sum_list (map f xs)" for f :: "'a \<Rightarrow> nat"
proof (induction xs)
  case (Cons x xs)
  then show ?case by (cases "x \<in> set xs") (simp_all add: insert_absorb)
qed simp

definition visible_paths :: "lane_node \<Rightarrow> string list set" where
  "visible_paths lane = {parts. visible_path parts \<and> node_at lane parts \<noteq> None}"

text \<open>C37: A scan is bounded. A lane that is scanned has at most 100000 paths, none of more than 65
  components, no file above 256 MiB, at most 1 GiB in all, and no path that changed while it was read.\<close>

theorem scan_bounds:
  assumes scan: "scan_lane_tree h lane = Inr (nodes, leaves)" and unique: "unique_names (children lane)"
  shows "finite (visible_paths lane) \<and> card (visible_paths lane) \<le> 100000
    \<and> (\<Sum>parts\<in>visible_paths lane. file_bytes (the (node_at lane parts))) \<le> 1073741824
    \<and> (\<forall>parts n. visible_path parts \<and> node_at lane parts = Some n \<longrightarrow>
        length parts \<le> 65 \<and> file_bytes n \<le> 268435456 \<and> \<not> unstable h (path_str [] parts))"
proof -
  let ?flat = "flat [] (children lane)"
  obtain st where st: "st = scanned h ?flat empty_scan"
    and checked: "\<forall>c\<in>set ?flat. path_checked h (Suc max_depth) c" and limits: "within_limits st"
    using scan by (rule scan_lane_tree_Inr)
  note flat = in_flat_root[OF unique checked]
  have "parts \<in> fst ` set ?flat \<longleftrightarrow> (\<exists>n. (parts, n) \<in> set ?flat)" for parts by force
  then have visible: "visible_paths lane = set (map fst ?flat)" by (auto simp: visible_paths_def flat)
  have limits: "length ?flat \<le> 100000" "(\<Sum>(p, n)\<leftarrow>?flat. file_bytes n) \<le> 1073741824"
    using limits by (simp_all add: within_limits_def st scanned_def empty_scan_def)
  have "(\<Sum>parts\<in>visible_paths lane. file_bytes (the (node_at lane parts))) \<le>
      sum_list (map (\<lambda>parts. file_bytes (the (node_at lane parts))) (map fst ?flat))"
    unfolding visible by (rule sum_set_le)
  also have "map (\<lambda>parts. file_bytes (the (node_at lane parts))) (map fst ?flat) = map (\<lambda>(p, n). file_bytes n) ?flat"
    by (auto simp: flat)
  finally have "(\<Sum>parts\<in>visible_paths lane. file_bytes (the (node_at lane parts))) \<le> 1073741824" using limits(2) by simp
  moreover have "card (visible_paths lane) \<le> 100000" unfolding visible using card_length[of "map fst ?flat"] limits(1) by simp
  moreover have "length parts \<le> 65 \<and> file_bytes n \<le> 268435456 \<and> \<not> unstable h (path_str [] parts)"
    if "visible_path parts" "node_at lane parts = Some n" for parts n
    using checked that flat[of parts n] by (auto simp: path_checked_def)
  ultimately show ?thesis by (auto simp: visible)
qed

text \<open>C19: The committed entries are the commit. What is read as the committed state of a lane are
  exactly the blobs of the tree of the commit that \<open>HEAD\<close> leads to, each under the names that lead to it;
  and every object on the way, the commit and its trees, reproduces the identity it was named by.\<close>

theorem committed_entries_authentic:
  assumes "read_committed_entries h m b = Inr es"
  shows "\<exists>head body tree. read_git_head m b = Inr head
    \<and> object_hash h head (object_bytes ''commit'' body) = head \<and> commit_tree_identity body = Inr tree
    \<and> distinct (map fst es)
    \<and> set es = {(path_str [] ps, x) |ps x.
        in_tree (\<lambda>i. read_git_object h m b i ''tree'' 67108864) (length tree div 2) tree ps x}
    \<and> (\<forall>i body. read_git_object h m b i ''tree'' 67108864 = Inr body \<longrightarrow>
        object_hash h i (object_bytes ''tree'' body) = i)"
proof -
  obtain head body tree where head: "read_git_head m b = Inr head" "commit_tree_identity body = Inr tree"
    and commit: "read_git_object h m b head ''commit'' max_object = Inr body"
    and tree: "read_tree_entries h m b tree None = Inr es"
    using assms by (rule read_committed_entries_Inr)
  have "object_hash h i (object_bytes type body) = i" if "read_git_object h m b i type k = Inr body" for i type k body
    using that by (rule read_git_object_Inr)
  with head commit read_tree_entries_Inr(2,3)[OF tree] show ?thesis by blast
qed

text \<open>The text Git stores for an entry of a tree object: mode, name and raw object identity.\<close>

definition raw_entry :: "string \<times> string \<times> string \<Rightarrow> string" where
  "raw_entry = (\<lambda>(mode, name, raw). mode @ CHR '' '' # name @ nul # raw)"

definition raw_entry_ok :: "nat \<Rightarrow> string \<times> string \<times> string \<Rightarrow> bool" where
  "raw_entry_ok n = (\<lambda>(mode, name, raw).
     mode \<noteq> [] \<and> is_ascii mode \<and> CHR '' '' \<notin> set mode \<and> is_utf8 name \<and> safe_component name \<and> nul \<notin> set name
     \<and> length raw = n)"

text \<open>Tree objects are read back. The text Git stores for a list of entries, mode, name and raw
  object identity, is parsed to these entries, whatever bytes the identities consist of.\<close>

theorem tree_objects_roundtrip:
  assumes "list_all (raw_entry_ok n) es" "distinct (map (fst \<circ> snd) es)"
  shows "tree_entries n [] (concat (map raw_entry es)) =
    Inr (map (\<lambda>(mode, name, raw). \<lparr>tree_mode = mode, tree_name = name, tree_object = concat (map hex_of raw)\<rparr>) es)"
proof -
  have "tree_entries n seen (concat (map raw_entry es)) =
      Inr (map (\<lambda>(mode, name, raw). \<lparr>tree_mode = mode, tree_name = name, tree_object = concat (map hex_of raw)\<rparr>) es)"
    if "set (map (fst \<circ> snd) es) \<inter> set seen = {}" for seen
    using assms that
  proof (induction es arbitrary: seen)
    case Nil
    then show ?case by (subst tree_entries.simps) simp
  next
    case (Cons e es)
    obtain mode name raw where e: "e = (mode, name, raw)" by (cases e)
    let ?rest = "raw @ concat (map raw_entry es)"
    have raw_text: "concat (map raw_entry (e # es)) = mode @ CHR '' '' # name @ nul # ?rest" by (simp add: e raw_entry_def)
    from Cons.prems(1) have ok: "mode \<noteq> []" "is_ascii mode" "CHR '' '' \<notin> set mode" "is_utf8 name" "safe_component name"
      "nul \<notin> set name" "length raw = n" by (simp_all add: e raw_entry_ok_def)
    have ih: "tree_entries n (name # seen) (concat (map raw_entry es)) =
      Inr (map (\<lambda>(mode, name, raw). \<lparr>tree_mode = mode, tree_name = name, tree_object = concat (map hex_of raw)\<rparr>) es)"
      by (rule Cons.IH) (use Cons.prems in \<open>auto simp: e\<close>)
    show ?case
      unfolding raw_text using ok Cons.prems(3) ih
      by (subst tree_entries.simps) (simp add: partition_on_append safe_component_def e)
  qed
  then show ?thesis by simp
qed

section \<open>The sandbox profile\<close>

text \<open>
  A reader of the profile language: a string literal with its escapes, and the list of rules that ends
  the profile, each a filter name and a literal in parentheses.
\<close>

fun read_literal :: "string \<Rightarrow> (string \<times> string) option" where
  "read_literal [] = None"
| "read_literal (c # s) =
     (if c = quote_char then Some ([], s)
      else if c = backslash
        then (case s of [] \<Rightarrow> None | e # t \<Rightarrow> map_option (\<lambda>(v, r). (e # v, r)) (read_literal t))
      else map_option (\<lambda>(v, r). (c # v, r)) (read_literal s))"

fun read_rules :: "nat \<Rightarrow> string \<Rightarrow> (string \<times> string) list option" where
  "read_rules 0 s = None"
| "read_rules (Suc n) s =
     (if take 1 s \<noteq> ''('' then None
      else (case partition_on (CHR '' '') (drop 1 s) of
          Some (name, q # rest) \<Rightarrow>
            (case read_literal rest of
               Some (v, p # later) \<Rightarrow>
                 if q \<noteq> quote_char \<or> p \<noteq> CHR '')'' then None
                 else if later = '')'' then Some [(name, v)]
                 else if take 1 later = '' '' then map_option (Cons (name, v)) (read_rules n (drop 1 later))
                 else None
             | _ \<Rightarrow> None)
        | _ \<Rightarrow> None))"

definition profile_head :: string where
  "profile_head = ''(version 1) (deny default) (allow file-read*) (allow process-exec*) (deny process-fork) ''
     @ ''(allow sysctl-read) (allow mach-lookup) (allow file-write* ''"

definition read_profile :: "string \<Rightarrow> (string \<times> string) list option" where
  "read_profile s =
     (if has_prefix profile_head s then read_rules (length s) (drop (length profile_head) s) else None)"

lemma read_literal_escaped: "read_literal (concat (map sandbox_escape v) @ quote_char # s) = Some (v, s)"
  by (induction v) (auto simp: sandbox_escape_def)

definition rule_kind :: "string \<Rightarrow> bool" where
  "rule_kind name = (CHR '' '' \<notin> set name)"

lemma read_rules_join:
  assumes "rs \<noteq> []" "list_all (rule_kind \<circ> fst) rs" "length rs \<le> n"
  shows "read_rules n (join (CHR '' '') (map (\<lambda>(k, v). write_rule k v) rs) @ '')'') = Some rs"
  using assms
proof (induction n arbitrary: rs)
  case (Suc n)
  then obtain name v later where rs: "rs = (name, v) # later" by (cases rs) auto
  from Suc.prems(2) have name: "CHR '' '' \<notin> set name" by (simp add: rs rule_kind_def)
  have one: "write_rule name v @ s = CHR ''('' # name @ CHR '' '' # quote_char # concat (map sandbox_escape v)
      @ quote_char # CHR '')'' # s" for s
    by (simp add: write_rule_def sandbox_literal_def)
  show ?case
  proof (cases later)
    case Nil
    have "join (CHR '' '') (map (\<lambda>(k, v). write_rule k v) rs) @ '')'' = write_rule name v @ '')''"
      by (simp add: rs Nil)
    then show ?thesis unfolding one by (simp add: rs Nil partition_on_append[OF name] read_literal_escaped)
  next
    case (Cons r rest)
    let ?later = "join (CHR '' '') (map (\<lambda>(k, v). write_rule k v) later) @ '')''"
    have ih: "read_rules n ?later = Some later" using Suc.prems by (intro Suc.IH) (simp_all add: rs Cons)
    have "join (CHR '' '') (map (\<lambda>(k, v). write_rule k v) rs) @ '')'' = write_rule name v @ CHR '' '' # ?later"
      by (simp add: rs Cons)
    then show ?thesis unfolding one by (simp add: rs partition_on_append[OF name] read_literal_escaped ih)
  qed
qed simp

text \<open>The write rules a list of targets stands for.\<close>

definition granted_rules :: "anchored_target \<Rightarrow> (string \<times> string) list" where
  "granted_rules t =
     (''literal'', target_absolute t)
     # (if target_is_directory t \<or> target_is_ephemeral t then [(''subpath'', target_absolute t)] else [])"

text \<open>C36: The sandbox profile grants what the lease declares. Read in the profile language, the
  profile of a run denies by default and lets the command write to the two terminal devices, to each declared
  target by its absolute path, and below a target that is a directory or ephemeral: nothing else, whatever
  quotes, backslashes or parentheses the paths contain.\<close>

theorem sandbox_profile_roundtrip:
  "read_profile (sandbox_profile targets) =
     Some ([(''literal'', ''/dev/null''), (''literal'', ''/dev/tty'')] @ concat (map granted_rules targets))"
proof -
  let ?rs = "[(''literal'', ''/dev/null''), (''literal'', ''/dev/tty'')] @ concat (map granted_rules targets)"
  have rules_of: "map (\<lambda>(k, v). write_rule k v) (granted_rules t) = target_rules t" for t
    by (simp add: granted_rules_def target_rules_def)
  have rules: "map (\<lambda>(k, v). write_rule k v) ?rs =
      [write_rule ''literal'' ''/dev/null'', write_rule ''literal'' ''/dev/tty''] @ concat (map target_rules targets)"
    using rules_of by (simp add: map_concat comp_def)
  let ?tail = "join (CHR '' '') (map (\<lambda>(k, v). write_rule k v) ?rs) @ '')''"
  have profile: "sandbox_profile targets = profile_head @ ?tail"
    unfolding rules by (simp add: sandbox_profile_def profile_head_def)
  have kinds: "list_all (rule_kind \<circ> fst) ?rs"
    by (auto simp: list_all_iff rule_kind_def granted_rules_def)
  have long: "length xs \<le> length (join (CHR '' '') (map (\<lambda>(k, v). write_rule k v) xs))" for xs
  proof (induction xs)
    case (Cons x xs)
    then show ?case by (cases xs) (simp_all add: write_rule_def case_prod_unfold)
  qed simp
  have "length ?rs \<le> length (sandbox_profile targets)"
    using long[of ?rs] unfolding profile length_append by linarith
  with kinds have "read_rules (length (sandbox_profile targets)) ?tail = Some ?rs"
    by (intro read_rules_join) (simp_all only: append_Cons list.distinct not_False_eq_True)
  moreover have "read_profile (profile_head @ t) = read_rules (length (profile_head @ t)) t" for t
    by (simp add: read_profile_def has_prefix_def)
  note read = this[of ?tail, folded profile]
  from calculation show ?thesis unfolding read .
qed

end
