(* ===== verification/Coordinator_Views.thy ===== *)
theory Coordinator_Views
  imports Coordinator_Liveness Coordinator_Schema
begin

text \<open>
  What a caller sees of the coordinator: the answer to a command that is sent again, the documents
  that are written, and the projection that tells a planner which of its admissions still fit.
\<close>

section \<open>Documents\<close>

text \<open>C40: every document the coordinator writes matches its JSON schema: from a journal that does, each of
  the four commands proposes a journal and a receipt that do.\<close>

theorem documents_match_schemas:
  assumes "hex_digest sha" "coordinated sha key j" "journal_schema j" "natural_lanes live"
    "is_execution_key (projectExecutionKey identity)"
  shows "(acquire_step sha live identity j a = Inr (Commit j1 r1) \<longrightarrow> journal_schema j1 \<and> receipt_schema r1)
    \<and> (transition_step sha live identity j t = Inr (Commit j2 r2) \<longrightarrow> journal_schema j2 \<and> receipt_schema r2)
    \<and> (normalize_write_observation_command sha raw = Inr c \<and> observe_step sha live (Some j) c = Inr (Commit j3 r3) \<longrightarrow>
         journal_schema j3 \<and> receipt_schema r3)
    \<and> (normalize_recovery_command sha raw' = Inr c' \<and> recovery_step sha live identity (Some j) c' = Inr (Commit j4 r4) \<longrightarrow>
         journal_schema j4 \<and> receipt_schema r4)"
proof -
  have ids: "distinct (map leaseId (leases j))"
    using coordinated_ok[OF assms(2)] by (simp add: journal_ok_def lanes_ok_def)
  show ?thesis
    using acquire_step_schema[OF assms(1,3,5,4)] transition_step_schema[OF assms(1,3) ids assms(5)]
      observe_step_schema[OF assms(1,3) ids] recovery_step_schema[OF assms(1,3)] by blast
qed

lemma lane_key_ok: "is_execution_key lane_key" "chomp lane_key = lane_key"
  by code_simp+

lemma lane_natural: "natural_lanes lane_live"
  by (simp add: natural_lanes_def lane_open_def lane_inode_def)

lemma lane_empty_schema: "journal_schema (empty_journal lane_key)"
  using lane_key_ok by (simp add: journal_schema_def empty_journal_def)

lemma acquired_schema: "journal_schema acquired_journal"
  using acquire_step_schema[OF hex_digest_lane lane_empty_schema _ lane_natural lane_acquire_steps(1)] lane_key_ok by simp

theorem documents_match_schemas_witness:
  "journal_schema two_lanes \<and> receipt_schema two_lanes_receipt"
  using documents_match_schemas[OF hex_digest_lane acquired_coordinated acquired_schema lane_natural, of lane_identity]
    lane_key_ok lane_acquire_steps(2) by simp

section \<open>Answers\<close>

lemma coordinated_bound:
  assumes "coordinated sha key j"
  shows "\<forall>r\<in>set (receipts j). evidence_bound sha (leases j) r"
  using assms
proof (cases rule: coordinated.cases)
  case (step k)
  from step(2) obtain host where "validate_journal_integrity sha host j True = Inr ()"
    by (rule coordinator_step_integrity)
  then show ?thesis using accepted_bound by blast
qed (simp add: empty_journal_def)

lemma find_new: "find P xs = None \<Longrightarrow> P x \<Longrightarrow> find P (xs @ [x]) = Some x"
  by (induction xs) auto

lemma normalize_acquire_digest:
  assumes "normalize_acquire_command sha raw = Inr c"
  shows "acquire_digest c = acquire_digest raw"
proof -
  from assms obtain f where "normalize_acquire_evidence sha (raw\<lparr>acquire_footprint := f\<rparr>) = Inr c"
    unfolding normalize_acquire_command_def by (elim raise_ifE bindE_InrE) simp
  then show ?thesis unfolding normalize_acquire_evidence_def by (elim bindE_InrE) auto
qed

text \<open>C33: an acquisition that is sent again, because its answer was lost, gets the same answer and changes
  nothing: the lease it created, with the receipt and the journal version of that moment.\<close>

theorem acquisition_replay_same_answer:
  assumes "coordinated sha key j" "projectExecutionKey identity = key"
    "acquire_step sha live identity j raw = Inr (Commit j' r)"
  shows "\<exists>res. acquire_step sha live identity j' raw = Inr (Replayed res) \<and> result_lease res = last (leases j')
    \<and> result_receiptId res = receiptId r \<and> result_journalVersion res = journalVersion j' \<and> leaseRetained res"
proof -
  obtain c lane graph where c: "normalize_acquire_command sha raw = Inr c" and clear: "recoveryState j = CLEAR"
    and new: "\<forall>l\<in>set (leases j). lease_tuple l \<noteq> idempotency_tuple key raw"
    and live: "validate_live_bindings live identity c = Inr lane"
    and j': "j' = fst (commit_acquisition sha key j c lane graph)" and r: "r = snd (commit_acquisition sha key j c lane graph)"
    using assms(2,3) by (auto elim: acquire_step_Commit)
  let ?l = "new_lease sha key (nextFencingToken j) c lane graph"
  have key: "acquisition_key c = acquisition_key raw" using normalize_acquire_Inr(2)[OF c] .
  have keys: "lease_executionKey m = key" if "m \<in> set (leases j)" for m
    using that coordinated_ok[OF assms(1)] by (simp add: journal_ok_def)
  have l: "lease_key ?l = acquisition_key c" "lease_tuple ?l = idempotency_tuple key raw" "is_nonterminal ?l"
    "lanePhysicalIdentity ?l = lane"
    by (simp_all add: new_lease_def lease_key_def acquisition_key_def lease_tuple_def idempotency_tuple_def
        is_nonterminal_def key[unfolded acquisition_key_def, simplified])
  have earlier: "acquisition_key c0 \<noteq> acquisition_key c"
    if r0: "r0 \<in> set (receipts j)" "receipt_evidence_of r0 = Acquire_Evidence c0" for r0 c0
  proof -
    from coordinated_bound[OF assms(1)] r0 have "evidence_bound sha (leases j) r0" by blast
    then obtain m where "filter (\<lambda>l. lease_key l = acquisition_key c0) (leases j) = [m]"
      using r0(2) by (auto simp: evidence_bound_def)
    then have "m \<in> set (filter (\<lambda>l. lease_key l = acquisition_key c0) (leases j))" by simp
    then have "m \<in> set (leases j)" "lease_key m = acquisition_key c0" by simp_all
    with new keys key show ?thesis by (auto simp: lease_tuple_def idempotency_tuple_def)
  qed
  have leases: "leases j' = leases j @ [?l]" unfolding j' by (rule commit_fields)
  have receipts: "receipts j' = receipts j @ [r]" unfolding j' r by (rule acquisition_sealed)
  have r_ev: "receipt_evidence_of r = Acquire_Evidence c" unfolding r by (rule acquisition_sealed)
  have old: "find (\<lambda>l. lease_tuple l = idempotency_tuple key raw) (leases j) = None"
    using new by (simp add: find_None_iff)
  have found: "find (\<lambda>l. lease_tuple l = idempotency_tuple key raw) (leases j') = Some ?l"
    unfolding leases by (rule find_new[OF old]) (rule l(2))
  have none: "find (\<lambda>r. case acquire_command_in (receipt_evidence_of r) of None \<Rightarrow> False
      | Some c0 \<Rightarrow> acquisition_key c0 = lease_key ?l) (receipts j) = None"
    unfolding find_None_iff l(1)
  proof clarify
    fix r0 assume r0: "r0 \<in> set (receipts j)" "case acquire_command_in (receipt_evidence_of r0) of None \<Rightarrow> False
      | Some c0 \<Rightarrow> acquisition_key c0 = acquisition_key c"
    then show False using earlier by (cases "receipt_evidence_of r0") auto
  qed
  have receipt: "acquire_receipt_for j' ?l = Some (r, c)"
    unfolding acquire_receipt_for_def receipts
    by (subst find_new[OF none]) (simp_all add: r_ev l(1))
  have digest: "receipt_commandDigest r = acquire_digest raw"
    using normalize_acquire_digest[OF c] by (simp add: r acquisition_sealed)
  have result: "acquire_result_for_receipt ?l r c = Inr (lease_result_of ?l r)"
    by (simp add: acquire_result_for_receipt_def r acquisition_sealed commit_acquisition_def Let_def
        acquire_receipt_def new_lease_def lease_key_def acquisition_key_def)
  have "replay_acquisition sha live identity j' ?l raw = Inr (lease_result_of ?l r)"
    by (simp add: replay_acquisition_def l receipt digest c live result)
  moreover have "recoveryState j' = CLEAR" using clear unfolding j' commit_fields .
  moreover have "journalVersion j' = nextJournalVersion r" by (simp add: j' r acquisition_sealed)
  ultimately show ?thesis
    using found assms(2) by (simp add: acquire_step_def leases lease_result_of_def) (simp add: new_lease_def)
qed

theorem acquisition_replay_same_answer_witness:
  "\<exists>res. acquire_step lane_sha lane_live lane_identity two_lanes (lane_acquire False) = Inr (Replayed res)
    \<and> result_lease res = lane_lease False \<and> result_journalVersion res = 2"
  using acquisition_replay_same_answer[OF acquired_coordinated lane_identity_select(1) lane_acquire_steps(2)] by auto

section \<open>The projection\<close>

text \<open>The footprint the projection uses for an admission.\<close>

definition planned_footprint :: "conflict_report \<Rightarrow> string \<Rightarrow> conflict_footprint option" where
  "planned_footprint report i = map_of (dict_of (map (\<lambda>f. (sliceId f, f)) (footprints report))) i"

definition fits_beside :: "lease list \<Rightarrow> conflict_report \<Rightarrow> admission \<Rightarrow> bool" where
  "fits_beside active report a =
     (\<exists>f. planned_footprint report (admission_sliceId a) = Some f
        \<and> (\<forall>l\<in>set active. conflict_reasons (lease_footprint l) f [] [] = []))"

lemma project_admissions:
  assumes "foldE (project_admission active graph (dict_of (map (\<lambda>f. (sliceId f, f)) (footprints report))) cap) as (ps, qs) = Inr (rs, us)"
  shows "mset (map admission_sliceId rs) + mset (map entry_sliceId us) =
      mset (map admission_sliceId ps) + mset (map entry_sliceId qs) + mset (map admission_sliceId as)
    \<and> (\<forall>a\<in>set rs. a \<in> set ps \<or> fits_beside active report a)
    \<and> (rs = ps \<or> int (length active) + int (length rs) \<le> cap)"
  using assms
proof (induction as arbitrary: ps qs)
  case Nil
  then show ?case by simp
next
  case (Cons a as)
  let ?d = "dict_of (map (\<lambda>f. (sliceId f, f)) (footprints report))"
  from Cons.prems obtain st where st: "project_admission active graph ?d cap a (ps, qs) = Inr st"
    and rest: "foldE (project_admission active graph ?d cap) as st = Inr (rs, us)"
    by (auto simp: bindE_eq_Inr)
  from st obtain f where f: "map_of ?d (admission_sliceId a) = Some f"
    and st': "st = (if list_ex (\<lambda>l. footprints_conflict (lease_footprint l) f graph) active
            then (ps, qs @ [\<lparr>entry_sliceId = admission_sliceId a, entry_reasons = [''ACTIVE_LEASE_CONFLICT'']\<rparr>])
            else if int (length active) + int (length ps) \<ge> cap
            then (ps, qs @ [\<lparr>entry_sliceId = admission_sliceId a, entry_reasons = [''PROJECT_CAPACITY_LIMIT'']\<rparr>])
            else (ps @ [a], qs))"
    by (auto simp: project_admission_def result_simps)
  show ?case
  proof (cases "st = (ps @ [a], qs)")
    case True
    then have free: "\<not> list_ex (\<lambda>l. footprints_conflict (lease_footprint l) f graph) active"
      and room: "int (length active) + int (length ps) < cap"
      using st' by (auto split: if_splits)
    have "fits_beside active report a"
      using free f conflict_reasons_no_graph
      by (fastforce simp: fits_beside_def planned_footprint_def footprints_conflict_def list_ex_iff)
    with Cons.IH[OF rest[unfolded True]] room show ?thesis by auto
  next
    case False
    then obtain why where "st = (ps, qs @ [\<lparr>entry_sliceId = admission_sliceId a, entry_reasons = [why]\<rparr>])"
      using st' by (auto split: if_splits)
    with Cons.IH rest show ?thesis by fastforce
  qed
qed

text \<open>the projection tells the planner exactly what still fits: every proposed admission is retained or
  queued, once; the retained ones have a footprint that no lane in use conflicts with; and together
  with the lanes in use they never exceed the project's lane cap.\<close>

theorem projection_fits:
  assumes "build_coordinator_projection sha host r p report s = Inr q"
  shows "mset (map admission_sliceId (retainedAdmissions q)) + mset (map entry_sliceId (projection_queued q)) =
      mset (map admission_sliceId (proposedAdmissions p))
    \<and> (\<forall>a\<in>set (retainedAdmissions q). fits_beside (active_leases (coordinator_journal s)) report a)
    \<and> (retainedAdmissions q \<noteq> [] \<longrightarrow>
         int (length (active_leases (coordinator_journal s))) + int (length (retainedAdmissions q)) \<le> projectLaneCap p)
    \<and> availableProjectLanes q = max 0 (projectLaneCap p - int (length (active_leases (coordinator_journal s))))"
proof -
  let ?active = "active_leases (coordinator_journal s)"
  from assms obtain graph retained queued where
    run: "foldE (project_admission ?active graph (dict_of (map (\<lambda>f. (sliceId f, f)) (footprints report))) (projectLaneCap p))
       (proposedAdmissions p) ([], []) = Inr (retained, queued)"
    and q: "retainedAdmissions q = retained" "projection_queued q = sort_key entry_sliceId queued"
      "availableProjectLanes q = max 0 (projectLaneCap p - int (length ?active))"
    unfolding build_coordinator_projection_def Let_def by (elim bindE_InrE) (auto simp: result_simps)
  from project_admissions[OF run] q show ?thesis by auto
qed

text \<open>The second sample lane, planned while the first one is in use: it still fits.\<close>

definition lane_coordinator :: coordinator_snapshot where
  "lane_coordinator =
     \<lparr>coordinator_projectId = ''demo'', coordinator_executionKey = lane_key, baseBatchPlanId = lane_batch,
      coordinator_journalVersion = 1, coordinator_journalDigest = digest_a, coordinator_recoveryState = CLEAR,
      coordinator_envelopeDigest = digest_a, coordinator_policyVersion = ''controlled-conflict-policy/v1'',
      coordinator_laneBase = replicate 40 (CHR ''0''), coordinator_journal = acquired_journal\<rparr>"

lemma lane_coordinator_select [simp]:
  "coordinator_projectId lane_coordinator = ''demo''" "coordinator_executionKey lane_coordinator = lane_key"
  "baseBatchPlanId lane_coordinator = lane_batch" "coordinator_journalVersion lane_coordinator = 1"
  "coordinator_journalDigest lane_coordinator = digest_a" "coordinator_recoveryState lane_coordinator = CLEAR"
  "coordinator_envelopeDigest lane_coordinator = digest_a"
  "coordinator_policyVersion lane_coordinator = ''controlled-conflict-policy/v1''"
  "coordinator_laneBase lane_coordinator = replicate 40 (CHR ''0'')" "coordinator_journal lane_coordinator = acquired_journal"
  by (simp_all add: lane_coordinator_def)

lemma lane_cap_planned: "projectLaneCap (lane_plan first) = 2"
proof -
  obtain r i x t depths where p: "lane_plan first = final_plan lane_sha (lane_request first) i x t depths r"
    by (rule lane_bundle)
  show ?thesis unfolding p by (simp add: final_plan_def draft_plan_def Let_def lane_cap)
qed

lemma lane_coordinator_checked:
  "check_coordinator_snapshot lane_sha lane_ssh (lane_request False) (lane_plan False) lane_coordinator = Inr ()"
proof -
  have schema: "coordinator_snapshot_schema lane_coordinator"
  proof -
    have "is_id ''demo''" "is_stable_id ''batch-plan'' lane_batch" "is_digest digest_a" "is_commit (replicate 40 (CHR ''0''))"
      by code_simp+
    then show ?thesis using acquired_schema lane_key_ok by (simp add: coordinator_snapshot_schema_def)
  qed
  obtain persisted where "validate_journal_integrity lane_sha lane_ssh acquired_journal persisted = Inr ()"
    using lane_acquired_steps(2) by (rule lane_reachedE)
  then have integrity: "validate_journal_integrity lane_sha lane_ssh acquired_journal False = Inr ()"
    by (simp add: integrity_iff validate_leases_def result_simps)
  have "receipt_journalDigest acquired_receipt = digest_a"
    by (simp add: acquired_receipt_def commit_acquisition_def Let_def append_receipt_digest journal_digest_def journal_json_def)
  moreover have "envelopeDigest lane_envelope = digest_a" by (simp add: lane_envelope_def)
  ultimately show ?thesis
    using schema integrity
    by (simp add: check_coordinator_snapshot_def Let_def snapshot_digest_of_def active_leases_def lane_plan_select
        List.map_filter_simps) (simp add: lane_request_def)
qed

theorem projection_fits_witness:
  "\<exists>report q. build_coordinator_projection lane_sha lane_ssh (lane_request False) (lane_plan False) report lane_coordinator = Inr q
    \<and> map admission_sliceId (retainedAdmissions q) = [''web''] \<and> projection_queued q = [] \<and> availableProjectLanes q = 1
    \<and> (\<forall>a\<in>set (retainedAdmissions q). fits_beside [lane_lease True] report a)"
proof -
  obtain report :: conflict_report where report: "footprints report = [lane_footprint False]" using lane_report[of False] by blast
  obtain a where a: "proposedAdmissions (lane_plan False) = [a]" "admission_sliceId a = ''web''"
    by (rule lane_admission[of False]) (simp add: lane_name_def)
  have f: "sliceId (lane_footprint False) = ''web''" by (simp add: lane_footprint_def lane_name_def)
  have "admission_schema a" using lane_plan_schema[of False] a(1) by (simp add: plan_schema_def)
  moreover have "is_id ''demo''" "is_stable_id ''batch-plan'' lane_batch" "is_digest digest_a" by code_simp+
  ultimately have "\<exists>q. build_coordinator_projection lane_sha lane_ssh (lane_request False) (lane_plan False) report lane_coordinator = Inr q
    \<and> retainedAdmissions q = [a] \<and> projection_queued q = []"
    using lane_key_ok
    by (simp add: build_coordinator_projection_def Let_def lane_coordinator_checked projection_graph_def active_leases_def
        report lane_merged a f project_admission_def lane_disjoint lane_cap_planned lane_plan_select projection_schema_def
        dict_of_def lookupE_def)
  then obtain q where q: "build_coordinator_projection lane_sha lane_ssh (lane_request False) (lane_plan False) report lane_coordinator = Inr q"
    "retainedAdmissions q = [a]" "projection_queued q = []" by blast
  from projection_fits[OF q(1)] q a show ?thesis
    by (auto simp: active_leases_def lane_cap_planned intro!: exI[of _ report] exI[of _ q])
qed

end
