(* ===== verification/Store_Witnesses.thy ===== *)
theory Store_Witnesses
  imports Store_Properties Coordinator_Views
begin

text \<open>
  The store properties applied to one state directory: opened for the first time, and holding the
  journal of the first sample lane.
\<close>

definition lane_world :: store_world where
  "lane_world =
     \<lparr>world_uid = 1000, lock_free = True, writes_ok = True, marker_fault = None, rename_ok = True,
      dir_sync_ok = True, before_cas = (\<lambda>d. d), before_reread = (\<lambda>d. d)\<rparr>"

definition lane_store :: state_store where
  "lane_store = opened_store lane_world ''/srv/state'' lane_key"

definition lane_stat :: "int \<Rightarrow> file_stat" where
  "lane_stat inode =
     \<lparr>st_dev = 1, st_ino = inode, st_kind = Regular, st_uid = 1000, st_perms = 384, st_nlink = 1\<rparr>"

definition fresh_directory :: directory where
  "fresh_directory =
     \<lparr>dir_stat = \<lparr>st_dev = 1, st_ino = 20, st_kind = Directory_Kind, st_uid = 1000, st_perms = 448, st_nlink = 2\<rparr>,
      dir_files = [Root_Identity \<mapsto> (lane_stat 21, Root_Identity_Doc ''/srv/state'' 1 20 1000)], next_inode = 22\<rparr>"

definition stored_directory :: directory where
  "stored_directory =
     fresh_directory\<lparr>dir_files := (dir_files fresh_directory)
       (Lock_File \<mapsto> (lane_stat 22, Empty_Doc), Lock_Identity \<mapsto> (lane_stat 23, Lock_Identity_Doc lane_key 1 22),
        Initialized_Marker \<mapsto> (lane_stat 24, Marker_Doc lane_key),
        Journal_Name \<mapsto> (lane_stat 25, Journal_Doc acquired_journal)), next_inode := 26\<rparr>"

definition lost_directory :: directory where
  "lost_directory = stored_directory\<lparr>dir_files := (dir_files stored_directory)(Journal_Name := None)\<rparr>"

lemma lane_quiet: "quiet lane_world"
  by (simp add: quiet_def lane_world_def)

lemma lane_store_select [simp]:
  "store_root lane_store = ''/srv/state''" "store_owner lane_store = 1000" "store_key lane_store = lane_key"
  "world_uid lane_world = 1000"
  by (simp_all add: lane_store_def opened_store_def lane_world_def)

lemma lane_rooted:
  "store_rooted lane_store lane_world fresh_directory" "store_rooted lane_store lane_world stored_directory"
  "store_rooted lane_store lane_world lost_directory"
  by (simp_all add: store_rooted_def own_file_def fresh_directory_def stored_directory_def lost_directory_def
      root_identity_def lane_stat_def)

lemma fresh_holds: "store_holds lane_sha lane_ssh lane_store lane_world None fresh_directory"
  using lane_rooted(1) by (simp add: store_holds_def lock_unbound_def fresh_directory_def)

lemma acquired_integrity: "validate_journal_integrity lane_sha lane_ssh acquired_journal True = Inr ()"
proof -
  obtain persisted where "validate_journal_integrity lane_sha lane_ssh acquired_journal persisted = Inr ()"
    using lane_acquired_steps(2) by (rule lane_reachedE)
  then show ?thesis by (simp add: integrity_iff validate_leases_def result_simps)
qed

lemma stored_holds: "store_holds lane_sha lane_ssh lane_store lane_world (Some acquired_journal) stored_directory"
proof -
  have "lock_bound lane_store 1000 stored_directory"
    by (simp add: lock_bound_def own_file_def stored_directory_def lock_identity_def lane_stat_def)
  then show ?thesis
    using lane_rooted(2) acquired_schema acquired_integrity
    by (simp add: store_holds_def own_file_def stored_directory_def lane_stat_def)
qed



theorem lost_journal_never_restarts_witness:
  "\<exists>e. acquire_lane_lease lane_sha lane_live (Inr lane_identity) ''/srv/state'' lane_world (lane_acquire True)
      lost_directory = (Inl e, lost_directory)"
proof -
  have root: "store_rooted (opened_store lane_world ''/srv/state'' lane_key) lane_world lost_directory"
    using lane_rooted(3) by (simp add: lane_store_def)
  have files: "own_file (world_uid lane_world) lost_directory Initialized_Marker (lane_stat 24) (Marker_Doc lane_key)"
    "dir_files lost_directory Journal_Name = None"
    by (simp_all add: own_file_def lost_directory_def stored_directory_def lane_stat_def)
  from lost_journal_never_restarts[OF root lane_key_ok lane_identity_select(1) files] show ?thesis by blast
qed

theorem replacement_is_compare_and_swap_witness:
  "\<exists>d. replace_journal lane_sha lane_ssh (lane_store\<lparr>store_locked := True\<rparr>) lane_world 1 two_lanes two_lanes_receipt
      stored_directory = (Inr two_lanes, d)
    \<and> read_journal lane_sha lane_ssh (lane_store\<lparr>store_locked := True\<rparr>) lane_world d = Inr (Some two_lanes)"
proof -
  let ?s = "lane_store\<lparr>store_locked := True\<rparr>"
  have d: "store_holds lane_sha lane_ssh ?s lane_world (Some acquired_journal) stored_directory"
    using stored_holds by simp
  have bound: "lock_bound ?s (world_uid lane_world) stored_directory"
    by (simp add: lock_bound_def own_file_def stored_directory_def lock_identity_def lane_stat_def)
  have ok: "validate_journal_integrity lane_sha lane_ssh two_lanes True = Inr ()"
  proof -
    obtain persisted where "validate_journal_integrity lane_sha lane_ssh two_lanes persisted = Inr ()"
      using lane_acquired_steps(4) by (rule lane_reachedE)
    then show ?thesis by (simp add: integrity_iff validate_leases_def result_simps)
  qed
  have schema: "journal_schema two_lanes" "receipt_schema two_lanes_receipt"
    using acquire_step_schema[OF hex_digest_lane acquired_schema _ lane_natural lane_acquire_steps(2)] lane_key_ok by simp_all
  have "next_journal lane_sha lane_ssh ?s (Some acquired_journal) two_lanes two_lanes_receipt"
    using ok schema by (simp add: next_journal_def two_lanes_receipt_def acquisition_sealed)
  from replace_journal_ok[OF d bound lane_quiet _ this] obtain d' where
    "replace_journal lane_sha lane_ssh ?s lane_world 1 two_lanes two_lanes_receipt stored_directory = (Inr two_lanes, d')"
    by auto
  with replacement_is_compare_and_swap[OF this] show ?thesis by auto
qed

end
