(* ===== verification/Guard_Sample.thy ===== *)
theory Guard_Sample
  imports Guard_Properties Store_Witnesses
begin

text \<open>
  A guarded run on the first sample lane: a machine with the lane, its Git administration and an
  empty commit, a command that writes the declared path, and one that also writes a page of the
  second lane.
\<close>

section \<open>The machine\<close>

definition plain_stat :: "int \<Rightarrow> int \<Rightarrow> node_stat" where
  "plain_stat inode perms =
     \<lparr>node_device = 1, node_inode = inode, node_perms = perms, node_uid = 0, node_gid = 0\<rparr>"

abbreviation plain_directory :: "int \<Rightarrow> (string \<times> lane_node) list \<Rightarrow> lane_node" where
  "plain_directory inode cs \<equiv> Lane_Directory (plain_stat inode 493) cs"

abbreviation plain_file :: "int \<Rightarrow> string \<Rightarrow> lane_node" where
  "plain_file inode contents \<equiv> Lane_Regular (plain_stat inode 420) contents"

definition commit_oid :: string where "commit_oid = replicate 40 (CHR ''1'')"
definition tree_oid :: string where "tree_oid = replicate 40 (CHR ''2'')"

definition commit_text :: string where
  "commit_text = ''tree '' @ tree_oid @ [newline, newline]"

definition guard_objects :: lane_node where
  "guard_objects = plain_directory 33 []"

definition guard_admin :: lane_node where
  "guard_admin = plain_directory 31
     [(''HEAD'', plain_file 32 (commit_oid @ [newline])), (''objects'', guard_objects), (''index'', plain_file 34 [])]"

definition guard_tree :: "(string \<times> lane_node) list \<Rightarrow> lane_node" where
  "guard_tree srcs = plain_directory 11 [(''.git'', guard_admin), (''src'', plain_directory 35 srcs)]"

definition guard_machine :: "(string \<times> lane_node) list \<Rightarrow> machine" where
  "guard_machine srcs =
     \<lparr>machine_root = plain_directory 2 [(''srv'', plain_directory 3
        [(''demo-lanes'', plain_directory 4 [(''tool'', guard_tree srcs)])])],
      git_executable = Some (Lane_Regular (plain_stat 40 493) ''git''),
      sandbox_executable = Some (Lane_Regular (plain_stat 41 493) [])\<rparr>"

definition object_reply :: "bool \<Rightarrow> string \<Rightarrow> string" where
  "object_reply check oid =
     (let (type, body) = (if oid = tree_oid then (''tree'', []) else (''commit'', commit_text));
          header = oid @ CHR '' '' # type @ CHR '' '' # dec_nat (length body) @ [newline]
      in if check then header else header @ body @ [newline])"

definition guard_sample :: guard_host where
  "guard_sample =
     \<lparr>host_sha256 = lane_sha, host_sha1 = (\<lambda>s. if s = object_bytes ''tree'' [] then tree_oid else commit_oid),
      unstable = (\<lambda>_. False), git_batch = (\<lambda>_ check oid. Some (object_reply check oid)),
      git_stage = (\<lambda>_ _. Some [])\<rparr>"

lemma guard_sample_select [simp]:
  "host_sha256 guard_sample = lane_sha" "unstable guard_sample p = False"
  "host_sha1 guard_sample s = (if s = object_bytes ''tree'' [] then tree_oid else commit_oid)"
  "git_batch guard_sample n check oid = Some (object_reply check oid)" "git_stage guard_sample n i = Some []"
  by (simp_all add: guard_sample_def)

lemma guard_machine_select [simp]:
  "git_executable (guard_machine srcs) = Some (Lane_Regular (plain_stat 40 493) ''git'')"
  "sandbox_executable (guard_machine srcs) = Some (Lane_Regular (plain_stat 41 493) [])"
  by (simp_all add: guard_machine_def)

section \<open>The boundary\<close>

lemma lane_path: "path_names (lane_root True) = [''srv'', ''demo-lanes'', ''tool'']"
  "path_names (lane_root True @ ''/.git'') = [''srv'', ''demo-lanes'', ''tool'', ''.git'']"
  by code_simp+

lemma guard_open [simp]:
  "open_absolute_directory (machine_root (guard_machine srcs)) (lane_root True) = Inr (guard_tree srcs)"
  "open_absolute_directory (machine_root (guard_machine srcs)) (lane_root True @ ''/.git'') = Inr guard_admin"
  by (simp_all add: open_absolute_directory_def lane_path guard_machine_def guard_tree_def guard_admin_def open_directory_def)

lemma plain_stat_select [simp]:
  "node_device (plain_stat i p) = 1" "node_inode (plain_stat i p) = i" "node_perms (plain_stat i p) = p"
  "node_uid (plain_stat i p) = 0" "node_gid (plain_stat i p) = 0"
  by (simp_all add: plain_stat_def)

lemma sample_perms: "\<not> others_write 493" "any_execute 493" "\<not> any_execute 420"
  by (simp_all add: others_write_def any_execute_def)

definition guard_boundary :: git_boundary where
  "guard_boundary =
     \<lparr>boundary_lane = lane_root True, lane_identity_of = (1, 11, Directory_Kind),
      dot_git_identity = (1, 31, Directory_Kind), dot_git_directory = True, dot_git_contents = None,
      admin_root = lane_root True @ ''/.git'', admin_identity = (1, 31, Directory_Kind), commondir = None,
      common_admin_root = lane_root True @ ''/.git'', common_admin_identity = (1, 31, Directory_Kind),
      objects_identity = (1, 33, Directory_Kind), git_identity = (1, 40, Regular),
      boundary_code = ''LANE_INVENTORY_UNAVAILABLE''\<rparr>"

lemma guard_boundary_select [simp]:
  "boundary_lane guard_boundary = lane_root True" "lane_identity_of guard_boundary = (1, 11, Directory_Kind)"
  "dot_git_identity guard_boundary = (1, 31, Directory_Kind)" "dot_git_directory guard_boundary"
  "dot_git_contents guard_boundary = None" "admin_root guard_boundary = lane_root True @ ''/.git''"
  "admin_identity guard_boundary = (1, 31, Directory_Kind)" "commondir guard_boundary = None"
  "common_admin_root guard_boundary = lane_root True @ ''/.git''"
  "common_admin_identity guard_boundary = (1, 31, Directory_Kind)"
  "objects_identity guard_boundary = (1, 33, Directory_Kind)" "git_identity guard_boundary = (1, 40, Regular)"
  "boundary_code guard_boundary = ''LANE_INVENTORY_UNAVAILABLE''"
  by (simp_all add: guard_boundary_def)

lemma guard_objects_open [simp]: "open_directory guard_admin ''objects'' = Inr guard_objects" "no_alternates guard_objects = Inr ()"
  by (simp_all add: open_directory_def guard_admin_def guard_objects_def no_alternates_def)

lemma guard_boundary_opened:
  "open_git_boundary (guard_machine srcs) (lane_root True) (guard_tree srcs) ''LANE_INVENTORY_UNAVAILABLE'' = Inr guard_boundary"
proof -
  have "checked_git (guard_machine srcs) = Inr (Lane_Regular (plain_stat 40 493) ''git'')"
    by (simp add: checked_git_def system_executable_def sample_perms)
  moreover have "open_admin (guard_machine srcs) (lane_root True) (guard_tree srcs)
      = Inr (guard_admin, None, lane_root True @ ''/.git'', guard_admin)"
    by (simp add: open_admin_def stat_name_def guard_tree_def guard_admin_def)
  moreover have "open_common (guard_machine srcs) (lane_root True @ ''/.git'') guard_admin
      = Inr (None, lane_root True @ ''/.git'', guard_admin)"
    by (simp add: open_common_def stat_name_def guard_admin_def)
  moreover have "node_identity (guard_tree srcs) = (1, 11, Directory_Kind)" "node_identity guard_admin = (1, 31, Directory_Kind)"
    "node_identity guard_objects = (1, 33, Directory_Kind)" "is_directory guard_admin"
    by (simp_all add: node_identity_def guard_tree_def guard_admin_def guard_objects_def)
  ultimately show ?thesis
    by (simp add: open_git_boundary_def sealed_error_def guard_boundary_def node_identity_def[of "Lane_Regular _ _"])
qed

definition guard_view :: "(string \<times> lane_node) list \<Rightarrow> sealed_view" where
  "guard_view srcs =
     \<lparr>view_lane = guard_tree srcs, view_admin = guard_admin, view_common = guard_admin, view_objects = guard_objects\<rparr>"

lemma guard_verified: "verify_git_boundary (guard_machine srcs) guard_boundary = Inr (guard_view srcs)"
proof -
  have ids: "node_identity (guard_tree srcs) = (1, 11, Directory_Kind)" "node_identity guard_admin = (1, 31, Directory_Kind)"
    "node_identity guard_objects = (1, 33, Directory_Kind)"
    by (simp_all add: node_identity_def guard_tree_def guard_admin_def guard_objects_def)
  have "verify_dot_git guard_boundary (guard_tree srcs) = Inr ()"
    by (simp add: verify_dot_git_def stat_name_def guard_tree_def open_directory_def same_node_def
        guard_admin_def node_identity_def)
  moreover have "verify_commondir guard_boundary guard_admin = Inr ()"
    by (simp add: verify_commondir_def guard_admin_def)
  ultimately show ?thesis
    by (simp add: verify_git_boundary_def guard_view_def same_node_def ids
        node_identity_def[of "Lane_Regular _ _"])
qed

section \<open>The commit and the index\<close>

lemma commit_oid_facts:
  "git_oid commit_oid = Some commit_oid" "sole_line (commit_oid @ [newline]) = Some commit_oid"
  "length commit_oid = 40" "path_parts ''HEAD'' = [''HEAD'']"
  by code_simp+

lemma guard_head: "read_git_head (guard_machine srcs) guard_boundary = Inr commit_oid"
proof -
  have "read_bounded guard_admin ''HEAD'' 4096 = Inr (commit_oid @ [newline])"
    by (simp add: read_bounded_def open_relative_def commit_oid_facts open_file_def guard_admin_def Let_def)
  then show ?thesis
    by (simp add: read_git_head_def guard_verified guard_view_def numeral_eq_Suc commit_oid_facts)
qed

lemma object_replies:
  "object_header commit_oid ''commit'' (chomp (object_reply True commit_oid)) = Inr 47"
  "object_header tree_oid ''tree'' (chomp (object_reply True tree_oid)) = Inr 0"
  "object_body commit_oid ''commit'' 47 (object_reply False commit_oid) = Inr commit_text"
  "object_body tree_oid ''tree'' 0 (object_reply False tree_oid) = Inr []"
  "object_bytes ''commit'' commit_text \<noteq> object_bytes ''tree'' []"
  "length tree_oid = 40" "git_oid tree_oid = Some tree_oid" "commit_tree_identity commit_text = Inr tree_oid"
  by code_simp+

lemma guard_commit: "read_git_object guard_sample (guard_machine srcs) guard_boundary commit_oid ''commit'' max_object = Inr commit_text"
  by (simp add: read_git_object_def guard_verified checked_object_def object_replies commit_oid_facts object_hash_def)

lemma guard_tree_object: "read_git_object guard_sample (guard_machine srcs) guard_boundary tree_oid ''tree'' max_object = Inr []"
  by (simp add: read_git_object_def guard_verified checked_object_def object_replies object_hash_def)

lemma guard_committed: "read_committed_entries guard_sample (guard_machine srcs) guard_boundary = Inr []"
proof -
  have "tree_entries 20 [] [] = Inr []" by (subst tree_entries.simps) simp
  then have "walk_tree (\<lambda>i. read_git_object guard_sample (guard_machine srcs) guard_boundary i ''tree'' max_object) 20
      None tree_fuel [] tree_oid [] st = Inr st" for st
    unfolding tree_fuel_def walk_tree.simps(2) by (simp add: guard_tree_object)
  then have "read_tree_entries guard_sample (guard_machine srcs) guard_boundary tree_oid None = Inr []"
    by (simp add: read_tree_entries_def object_replies)
  then show ?thesis
    by (simp add: read_committed_entries_def guard_head guard_commit object_replies)
qed

lemma guard_index: "read_git_index guard_sample (guard_machine srcs) guard_boundary = Inr []"
proof -
  have "parse_index [] = Inr []" by code_simp
  moreover have "open_file guard_admin ''index'' = Inr (plain_file 34 [])"
    by (simp add: open_file_def guard_admin_def)
  ultimately show ?thesis
    by (simp add: read_git_index_def staged_index_def guard_verified guard_view_def)
qed

lemma guard_roots: "literal_ignored_roots (guard_tree srcs) = Inr []"
proof -
  have "path_parts ''.gitignore'' = [''.gitignore'']" by code_simp
  then show ?thesis
    by (simp add: literal_ignored_roots_def read_bounded_def open_relative_def open_file_def guard_tree_def Let_def)
qed

section \<open>Inventories\<close>

definition directory_entry_at :: "int \<Rightarrow> lane_entry" where
  "directory_entry_at inode = entry_of guard_sample (plain_directory inode [])"

definition file_entry_at :: "int \<Rightarrow> string \<Rightarrow> lane_entry" where
  "file_entry_at inode contents = entry_of guard_sample (plain_file inode contents)"

lemma scan_names:
  "scan_name [] ''src'' = Inr ''src''" "scan_name [''src''] ''tools'' = Inr ''src/tools''"
  "scan_name [''src''] ''web'' = Inr ''src/web''" "scan_name [''src'', ''web''] ''page'' = Inr ''src/web/page''"
  by code_simp+

definition before_scan :: lane_snapshot where
  "before_scan = ([(''src'', directory_entry_at 35)], [''src''])"

lemma guard_before_scan: "scan_lane_tree guard_sample (guard_tree []) = Inr before_scan"
  by (simp add: scan_lane_tree_def guard_tree_def scan_children.simps scan_names count_entry_def empty_scan_def
      put_entry_def put_leaf_def before_scan_def directory_entry_at_def)

definition clean_sources :: "(string \<times> lane_node) list" where
  "clean_sources = [(''tools'', plain_file 36 ''ok'')]"

definition clean_scan :: lane_snapshot where
  "clean_scan = ([(''src'', directory_entry_at 35), (''src/tools'', file_entry_at 36 ''ok'')], [''src/tools''])"

lemma guard_clean_scan: "scan_lane_tree guard_sample (guard_tree clean_sources) = Inr clean_scan"
  by (simp add: scan_lane_tree_def guard_tree_def clean_sources_def scan_children.simps scan_names count_entry_def empty_scan_def
      put_entry_def put_leaf_def clean_scan_def directory_entry_at_def file_entry_at_def)

definition breach_sources :: "(string \<times> lane_node) list" where
  "breach_sources = [(''tools'', plain_file 36 ''ok''), (''web'', plain_directory 37 [(''page'', plain_file 38 ''page'')])]"

definition breach_scan :: lane_snapshot where
  "breach_scan = ([(''src'', directory_entry_at 35), (''src/tools'', file_entry_at 36 ''ok''), (''src/web'', directory_entry_at 37),
      (''src/web/page'', file_entry_at 38 ''page'')], [''src/tools'', ''src/web/page''])"

lemma guard_breach_scan: "scan_lane_tree guard_sample (guard_tree breach_sources) = Inr breach_scan"
  by (simp add: scan_lane_tree_def guard_tree_def breach_sources_def scan_children.simps scan_names count_entry_def empty_scan_def
      put_entry_def put_leaf_def breach_scan_def directory_entry_at_def file_entry_at_def)

definition guard_inventory :: "lane_snapshot \<Rightarrow> lane_inventory" where
  "guard_inventory snapshot = inventory_of [] [] snapshot []"

lemma guard_inventory_with:
  "lane_inventory_with guard_sample (guard_machine srcs) guard_boundary (guard_tree srcs) (Inr snapshot) =
     Inr (guard_inventory snapshot)"
  by (simp add: lane_inventory_with_def guard_verified guard_committed guard_index guard_roots guard_inventory_def)

lemma guard_inventory_select:
  "paths (guard_inventory (nodes, leaves)) = sort (remdups leaves)"
  "entries (guard_inventory (nodes, leaves)) = map (inventory_entry_of nodes) (sort (remdups leaves))"
  by (simp_all add: guard_inventory_def inventory_of_def Let_def tracked_changes_def untracked_leaves_def ignored_paths_def
      covering_roots_def distinct_remdups_id)

section \<open>The prepared run\<close>

definition active_lane :: lease where
  "active_lane = lane_at ACTIVE"

lemma active_lane_select [simp]:
  "leaseId active_lane = leaseId (lane_lease True)" "lease_executionKey active_lane = lane_key"
  "lease_attemptId active_lane = ''attempt-1''" "lease_fencingToken active_lane = 1" "lease_state active_lane = ACTIVE"
  "\<not> released active_lane" "recoveryStatus active_lane = CLEAR" "lease_laneRoot active_lane = lane_root True"
  "lease_footprint active_lane = lane_footprint True" "lanePhysicalIdentity active_lane = lane_inode True"
  "lease_candidate active_lane = None"
  using lane_lease_select[of True]
  by (simp_all add: active_lane_def candidate_at_def candidate_states_def lane_at_def lane_attempt_def del: lane_lease_select)

lemma active_sets [simp]: "exactWriteSet (lane_footprint True) = [''src/tools'']" "ephemeralWriteSet (lane_footprint True) = []"
  by (simp_all add: lane_footprint_def)

definition guard_target :: anchored_target where
  "guard_target =
     \<lparr>target_relative = ''src/tools'', target_absolute = ''/srv/demo-lanes/tool/src/tools'', target_identity = None,
      target_is_directory = False, target_is_ephemeral = False,
      target_ancestors = [([], 1, 11, Directory_Kind), (''src'', 1, 35, Directory_Kind)]\<rparr>"

lemma guard_target_opened: "open_target (guard_tree []) (lane_root True) False ''src/tools'' = Inr guard_target"
proof -
  have "path_parts ''src/tools'' = [''src'', ''tools'']" "path_str [] [''src''] = ''src''"
    "as_posix (lane_root True @ ''/'' @ ''src/tools'') = ''/srv/demo-lanes/tool/src/tools''"
    by code_simp+
  then show ?thesis
    by (simp add: open_target_def guard_tree_def open_directory_def open_file_def node_identity_def guard_target_def)
qed

lemma guard_declared:
  "validate_declared_sets guard_sample (guard_machine []) guard_boundary (lane_root True) (guard_tree []) active_lane =
     Inr ([guard_target], [''src/tools''], [])"
proof -
  have "guard_relative ''src/tools'' = Inr ''src/tools''" by code_simp
  then show ?thesis
    by (simp add: validate_declared_sets_def add_target_def guard_target_opened validate_ephemeral_paths_def guard_roots
        guard_index guard_committed)
qed

definition guard_prepared :: prepared_lane where
  "guard_prepared =
     \<lparr>prepared_node = guard_tree [], prepared_boundary = guard_boundary, prepared_targets = [guard_target],
      prepared_exact = [''src/tools''], prepared_ephemeral = [], prepared_snapshot = before_scan,
      prepared_inventory = guard_inventory before_scan\<rparr>"

lemma guard_prepared_select [simp]:
  "prepared_node guard_prepared = guard_tree []" "prepared_boundary guard_prepared = guard_boundary"
  "prepared_targets guard_prepared = [guard_target]" "prepared_exact guard_prepared = [''src/tools'']"
  "prepared_ephemeral guard_prepared = []" "prepared_snapshot guard_prepared = before_scan"
  "prepared_inventory guard_prepared = guard_inventory before_scan"
  by (simp_all add: guard_prepared_def)

lemma guard_lane_prepared:
  "prepare_lane guard_sample (guard_machine []) (lane_root True) (lane_root True) active_lane = Inr guard_prepared"
proof -
  have "open_leased_lane (guard_machine []) active_lane (lane_root True) = Inr (guard_tree [])"
    by (simp add: open_leased_lane_def lane_inode_def) (simp add: guard_tree_def)
  then show ?thesis
    by (simp add: prepare_lane_def guard_boundary_opened guard_declared guard_before_scan guard_inventory_with guard_prepared_def)
qed

lemma within_sources:
  "declared_path [''src/tools''] [] ''src''" "declared_path [''src/tools''] [] ''src/tools''"
  "\<not> declared_path [''src/tools''] [] ''src/web/page''"
  by code_simp+

lemma guard_before_clean: "before_breaches guard_prepared = []"
  by (simp add: before_scan_def guard_inventory_select persistent_breaches_def within_sources)

section \<open>The inspected lane\<close>

lemma guard_targets_valid:
  "revalidate_targets (guard_tree clean_sources) [guard_target] = Inr ()"
  "revalidate_targets (guard_tree breach_sources) [guard_target] = Inr ()"
proof -
  have "path_parts ''src/tools'' = [''src'', ''tools'']" "path_parts ''src'' = [''src'']" by code_simp+
  then show "revalidate_targets (guard_tree clean_sources) [guard_target] = Inr ()"
    "revalidate_targets (guard_tree breach_sources) [guard_target] = Inr ()"
    by (simp_all add: revalidate_targets_def check_ancestor_def check_target_def guard_target_def open_relative_def
        guard_tree_def open_directory_def open_file_def node_identity_def clean_sources_def breach_sources_def Let_def)
qed

definition inspected_with :: "(string \<times> lane_node) list \<Rightarrow> lane_snapshot \<Rightarrow> inspected_lane" where
  "inspected_with srcs snapshot =
     \<lparr>inspected_node = guard_tree srcs, inspected_snapshot = snapshot, inspected_inventory = guard_inventory snapshot\<rparr>"

lemma guard_reopened: "reopen_lane (guard_machine srcs) guard_boundary = Inr (guard_tree srcs)"
  by (simp add: reopen_lane_def same_node_def node_identity_def) (simp add: guard_tree_def)

lemma guard_inspected:
  "inspect_lane guard_sample (guard_machine clean_sources) guard_prepared = Inr (inspected_with clean_sources clean_scan)"
  "inspect_lane guard_sample (guard_machine breach_sources) guard_prepared = Inr (inspected_with breach_sources breach_scan)"
  by (simp_all add: inspect_lane_def guard_reopened guard_clean_scan guard_breach_scan guard_inventory_with guard_targets_valid
      inspected_with_def)

lemma sample_orders: "''src'' < ''src/tools''" "''src/tools'' < ''src/web/page''" "''src'' < ''src/web/page''"
  by code_simp+

lemma sample_entries:
  "entry_type (directory_entry_at i) = ''DIRECTORY''" "entry_type (file_entry_at i s) = ''REGULAR''"
  by (simp_all add: directory_entry_at_def file_entry_at_def plain_entry_def blob_entry_def)

lemma guard_changes:
  "snapshot_changes before_scan clean_scan = [''src/tools'']"
  "snapshot_changes before_scan breach_scan = [''src/tools'', ''src/web/page'']"
  using sample_orders
  by (simp_all add: snapshot_changes_def before_scan_def clean_scan_def breach_scan_def Let_def sample_entries)

lemma sample_within: "path_is_within ''src/tools'' ''src''" "path_is_within ''src/web/page'' ''src''"
  "path_is_within ''src/tools'' ''src/tools''"
  by code_simp+

lemma guard_judged:
  "judge guard_prepared (inspected_with clean_sources clean_scan) = Clean [''src/tools'']"
  "after_breaches guard_prepared (inspected_with breach_sources breach_scan) = [''src/web/page'']"
  using sample_orders
  by (simp_all add: judge_def after_breaches_def inspected_with_def Let_def guard_changes guard_inventory_select
      before_scan_def clean_scan_def breach_scan_def persistent_breaches_def within_sources uncovered_changes_def sample_within
      sorted_union_def remaining_ephemeral_def observed_changes_def inventory_entry_of_def guard_changes[unfolded before_scan_def clean_scan_def breach_scan_def])

end
