(* ===== verification/Guard_Witnesses.thy ===== *)
theory Guard_Witnesses
  imports Guard_Sample
begin

text \<open>
  The properties of the write guard applied to the first sample lane once it is active: a run that
  writes the declared path, and a run that also writes a page of the second lane.
\<close>

section \<open>The journal of the active lane\<close>

definition active_journal :: journal where
  "active_journal = fst (move_lane acquired_journal (ADMITTED, ACTIVE))"

definition active_directory :: directory where
  "active_directory =
     stored_directory\<lparr>dir_files := (dir_files stored_directory)
       (Journal_Name \<mapsto> (lane_stat 25, Journal_Doc active_journal))\<rparr>"

lemma active_move: "(ADMITTED, ACTIVE) \<in> set lane_moves" "(ADMITTED, ACTIVE) \<notin> set []"
  by (simp_all add: lane_moves_def)

lemma active_stage: "lane_stage ACTIVE [(ADMITTED, ACTIVE)] active_journal"
  using lane_stage_step(3)[OF lane_stage_acquired active_move] by (simp add: active_journal_def)

lemma active_journal_select:
  "leases active_journal = [active_lane]" "recoveryState active_journal = CLEAR" "lane_reached active_journal"
  using active_stage by (simp_all add: lane_stage_def active_lane_def)

lemmas active_coordinated = lane_coordinated[OF active_journal_select(3)]

lemma active_holds: "store_holds lane_sha lane_ssh lane_store lane_world (Some active_journal) active_directory"
proof -
  obtain persisted h where reached: "validate_journal_integrity lane_sha lane_ssh acquired_journal persisted = Inr ()"
    "journal_ok lane_key acquired_journal" "sourced acquired_journal h"
    using lane_acquired_steps(2) by (rule lane_reachedE)
  note step = lane_stage_step(1)[OF lane_stage_acquired active_move]
  from accepted_transition[OF reached lane_identity_select(1) step]
  have integrity: "validate_journal_integrity lane_sha lane_ssh active_journal True = Inr ()"
    by (simp add: active_journal_def)
  have "distinct (map leaseId (leases acquired_journal))" by (simp del: lane_lease_select(1))
  then have schema: "journal_schema active_journal"
    using transition_step_schema[OF hex_digest_lane acquired_schema _ _ step] lane_key_ok
    by (simp add: active_journal_def)
  have key: "journal_executionKey active_journal = lane_key"
    using coordinated_ok[OF active_coordinated] by (simp add: journal_ok_def)
  have "lock_bound lane_store 1000 active_directory"
    by (simp add: lock_bound_def own_file_def active_directory_def stored_directory_def lock_identity_def lane_stat_def)
  moreover have "store_rooted lane_store lane_world active_directory"
    by (simp add: store_rooted_def own_file_def active_directory_def fresh_directory_def stored_directory_def
        root_identity_def lane_stat_def)
  ultimately show ?thesis
    using schema integrity key
    by (simp add: store_holds_def own_file_def active_directory_def stored_directory_def lane_stat_def)
qed

lemma active_current: "current_durable_lease (Some active_journal) active_lane = Inr active_lane"
  by (simp add: current_durable_lease_def active_journal_select find_lease_def)

section \<open>The runs\<close>

definition guard_command :: guarded_command where
  "guard_command = \<lparr>command_argv = [''build''], command_cwd = lane_root True, command_environment = []\<rparr>"

definition runs_to :: "(string \<times> lane_node) list \<Rightarrow> runner" where
  "runs_to srcs = (\<lambda>profile c m. Some (0, [], [], guard_machine srcs))"

lemma guard_args: "guard_arguments guard_sample (guard_machine []) (lane_root True) guard_command = Inr (lane_root True, lane_root True)"
proof -
  have "guard_absolute (lane_root True) = Inr (lane_root True)" "contains_path (lane_root True) (lane_root True)"
    by code_simp+
  moreover have "validate_sandbox_exec guard_sample (guard_machine []) = Inr ()"
    by (simp add: validate_sandbox_exec_def system_executable_def sample_perms lane_sha_def sandbox_digest_def)
  ultimately show ?thesis by (simp add: guard_arguments_def guard_command_def)
qed

lemma unique_names_simps:
  "unique_names []"
  "unique_names ((name, n) # cs) \<longleftrightarrow> name \<notin> fst ` set cs \<and> unique_names (children n) \<and> unique_names cs"
proof -
  show "unique_names []" by (subst unique_names.simps) simp
  have "unique_names ((name, n) # cs) \<longleftrightarrow> distinct (name # map fst cs) \<and> unique_names (children n)
      \<and> list_all (\<lambda>(name, n). unique_names (children n)) cs"
    unfolding unique_names.simps[of "(name, n) # cs"] by simp
  moreover have "unique_names cs \<longleftrightarrow> distinct (map fst cs) \<and> list_all (\<lambda>(name, n). unique_names (children n)) cs"
    by (rule unique_names.simps)
  ultimately show "unique_names ((name, n) # cs) \<longleftrightarrow> name \<notin> fst ` set cs \<and> unique_names (children n) \<and> unique_names cs"
    by auto
qed

lemma sources_unique: "unique_names []" "unique_names clean_sources" "unique_names breach_sources"
  by (simp_all add: clean_sources_def breach_sources_def unique_names_simps)

lemma guard_unique:
  assumes "unique_names srcs"
  shows "unique_names (children (guard_tree srcs))" "unique_names (children (machine_root (guard_machine srcs)))"
  using assms by (simp_all add: guard_machine_def guard_tree_def guard_admin_def guard_objects_def unique_names_simps)

lemma inspected_with_select [simp]:
  "inspected_node (inspected_with srcs snapshot) = guard_tree srcs"
  "inspected_snapshot (inspected_with srcs snapshot) = snapshot"
  "inspected_inventory (inspected_with srcs snapshot) = guard_inventory snapshot"
  by (simp_all add: inspected_with_def)

definition clean_result :: guarded_result where
  "clean_result =
     \<lparr>result_returncode = 0, result_stdout = [], result_stderr = [], beforeInventory = guard_inventory before_scan,
      afterInventory = guard_inventory clean_scan, result_observedPaths = [''src/tools'']\<rparr>"

lemma guard_lane_clean:
  "guarded_lane guard_sample ssh (runs_to clean_sources) s w clock j active_lane (lane_root True) (lane_root True)
     guard_command (guard_machine []) d = (Inr clean_result, guard_machine clean_sources, d)"
  using guard_before_clean
  by (simp add: guarded_lane_def guard_lane_prepared runs_to_def guard_inspected guard_judged
      clean_result_def)

lemma guard_run_clean:
  "\<exists>d. run_guarded_command guard_sample lane_ssh (runs_to clean_sources) ''/srv/state'' lane_world lane_moment active_lane
     (lane_root True) guard_command (guard_machine []) active_directory = (Inr clean_result, guard_machine clean_sources, d)"
proof -
  have opened: "open_store lane_world ''/srv/state'' lane_key active_directory = Inr (lane_store, active_directory)"
    using active_holds lane_key_ok open_rooted unfolding lane_store_def by (auto simp: store_holds_def)
  have "\<not> store_locked lane_store" by (simp add: lane_store_def)
  from enter_holds[OF active_holds lane_quiet this] obtain st d where
    enter: "enter_project_lock lane_store lane_world active_directory = Inr (lane_store\<lparr>store_locked := True\<rparr>, st, d)"
    and d: "lock_still_named d st" "store_holds lane_sha lane_ssh lane_store lane_world (Some active_journal) d"
    by blast
  have read: "read_journal lane_sha lane_ssh (lane_store\<lparr>store_locked := True\<rparr>) lane_world d = Inr (Some active_journal)"
    by (rule read_journal_holds) (simp add: d(2))
  show ?thesis
    by (simp add: run_guarded_command_def guard_args opened enter read active_current guard_lane_clean
        leave_project_lock_def d(1))
qed

section \<open>Witnesses of runs\<close>




section \<open>Witnesses of the inputs\<close>

theorem scan_reads_the_tree_witness:
  "map_of (fst breach_scan) ''src/web/page'' = Some (file_entry_at 38 ''page'') \<and> ''src/web/page'' \<in> set (snd breach_scan)"
proof -
  have "scan_lane_tree guard_sample (guard_tree breach_sources) = Inr (fst breach_scan, snd breach_scan)"
    by (simp add: guard_breach_scan)
  note scan = scan_reads_the_tree[OF this guard_unique(1)[OF sources_unique(3)]]
  have "visible_path [''src'', ''web'', ''page'']" by (simp add: visible_path_def safe_component_def)
  moreover have "node_at (guard_tree breach_sources) [''src'', ''web'', ''page''] = Some (plain_file 38 ''page'')"
    by (simp add: guard_tree_def breach_sources_def)
  moreover have "path_str [] [''src'', ''web'', ''page''] = ''src/web/page''" by code_simp
  ultimately show ?thesis using scan by (auto simp: file_entry_at_def is_leaf_def)
qed

theorem scan_bounds_witness:
  "finite (visible_paths (guard_tree breach_sources)) \<and> card (visible_paths (guard_tree breach_sources)) \<le> 100000
    \<and> [''src'', ''web'', ''page''] \<in> visible_paths (guard_tree breach_sources)"
proof -
  have "scan_lane_tree guard_sample (guard_tree breach_sources) = Inr (fst breach_scan, snd breach_scan)"
    by (simp add: guard_breach_scan)
  note scan = scan_bounds[OF this guard_unique(1)[OF sources_unique(3)]]
  have "[''src'', ''web'', ''page''] \<in> visible_paths (guard_tree breach_sources)"
    by (simp add: visible_paths_def visible_path_def safe_component_def guard_tree_def breach_sources_def)
  with scan show ?thesis by blast
qed

theorem committed_entries_authentic_witness:
  "\<exists>body tree. read_git_head (guard_machine []) guard_boundary = Inr commit_oid
    \<and> object_hash guard_sample commit_oid (object_bytes ''commit'' body) = commit_oid \<and> commit_tree_identity body = Inr tree"
  using committed_entries_authentic[OF guard_committed[of "[]"]] unfolding guard_head by auto

theorem tree_objects_roundtrip_witness:
  "tree_entries 2 [] (concat (map raw_entry [(''100644'', ''a.txt'', [CHR 0x0A, CHR 0x00]), (''40000'', ''src'', ''zz'')])) =
     Inr [\<lparr>tree_mode = ''100644'', tree_name = ''a.txt'', tree_object = ''0a00''\<rparr>,
          \<lparr>tree_mode = ''40000'', tree_name = ''src'', tree_object = ''7a7a''\<rparr>]"
proof -
  let ?es = "[(''100644'', ''a.txt'', [CHR 0x0A, CHR 0x00]), (''40000'', ''src'', ''zz'')]"
  have ok: "list_all (raw_entry_ok 2) ?es" "distinct (map (fst \<circ> snd) ?es)" by code_simp+
  have hex: "concat (map hex_of [CHR 0x0A, CHR 0x00]) = ''0a00''" "concat (map hex_of ''zz'') = ''7a7a''" by code_simp+
  show ?thesis unfolding tree_objects_roundtrip[OF ok] using hex by simp
qed

end
