(* ===== verification/Coordinator_Inspection.thy ===== *)
theory Coordinator_Inspection
  imports Coordinator_Recovery Coordinator_Projection "HOL-Library.AList"
begin

text \<open>
  The state root and the read-only side of the store: \<open>_configured_root\<close>, \<open>_open_or_create_root\<close>,
  \<open>_open_existing_root\<close>, \<open>open_read_only\<close> and \<open>exclusive_existing_project_lock\<close> of
  \<open>coordinator_state.py\<close>, and \<open>inspect_project_coordinator\<close> of \<open>controlled_coordinator.py\<close>.
\<close>

section \<open>The configured root\<close>

abbreviation unsafe_root :: harness_error where
  "unsafe_root \<equiv> Coordination_Error ''UNSAFE_COORDINATOR_ROOT''"

text \<open>The environment variable if it is set, a directory below the home directory otherwise.\<close>

definition configured_root :: "string option \<Rightarrow> string \<Rightarrow> string result" where
  "configured_root configured home =
     (case configured of
        None \<Rightarrow> Inr (home @ ''/.codex/state/agent-evolution-harness/coordinator/v1'')
      | Some path \<Rightarrow>
          bindE (raise_if (path = [] \<or> CHR 0x00 \<in> set path) unsafe_root) (\<lambda>_.
          bindE (raise_if (\<not> is_absolute path \<or> list_ex (\<lambda>p. p \<in> {''.'', ''..''}) (path_parts path)) unsafe_root) (\<lambda>_.
            Inr path)))"

section \<open>The root directory\<close>

text \<open>A directory with its entries, or anything that \<open>O_DIRECTORY | O_NOFOLLOW\<close> refuses to open.\<close>

datatype root_node = Root_Directory file_stat "(string \<times> root_node) list" | Root_Other

text \<open>
  What the outside decides when a component is missing: what another process has put under the
  name in the meantime, whether \<open>mkdir\<close> and \<open>fsync\<close> succeed, and the status of the new directory.
\<close>

record root_world =
  root_uid :: int
  raced :: "nat \<Rightarrow> root_node option"
  mkdir_ok :: bool
  root_sync_ok :: bool
  made_directory :: "nat \<Rightarrow> file_stat"

text \<open>
  The walk of \<open>_open_or_create_root\<close> from an opened directory: the status of the last component or
  the error, and the directory after it. Components made before a failure stay.
\<close>

fun make_root :: "root_world \<Rightarrow> nat \<Rightarrow> string list \<Rightarrow> root_node \<Rightarrow> file_stat result \<times> root_node" where
  "make_root w i [] (Root_Directory st entries) = (Inr st, Root_Directory st entries)"
| "make_root w i ps Root_Other = (Inl unsafe_root, Root_Other)"
| "make_root w i (p # ps) (Root_Directory st entries) =
     (case map_of entries p of
        Some Root_Other \<Rightarrow> (Inl unsafe_root, Root_Directory st entries)
      | Some (Root_Directory st' entries') \<Rightarrow>
          (case (if ps = [] then validate_directory st' (root_uid w) else Inr ()) of
             Inl e \<Rightarrow> (Inl e, Root_Directory st entries)
           | Inr _ \<Rightarrow>
               (case make_root w (Suc i) ps (Root_Directory st' entries') of
                  (r, n) \<Rightarrow> (r, Root_Directory st (AList.update p n entries))))
      | None \<Rightarrow>
          if raced w i = None \<and> \<not> mkdir_ok w then (Inl unsafe_root, Root_Directory st entries)
          else
            let n = (case raced w i of None \<Rightarrow> Root_Directory (made_directory w i) [] | Some other \<Rightarrow> other);
                made = AList.update p n entries in
            (case n of
               Root_Other \<Rightarrow> (Inl unsafe_root, Root_Directory st made)
             | Root_Directory st' entries' \<Rightarrow>
                 (case bindE (validate_directory st' (root_uid w)) (\<lambda>_. raise_if (\<not> root_sync_ok w) unsafe_root) of
                    Inl e \<Rightarrow> (Inl e, Root_Directory st made)
                  | Inr _ \<Rightarrow>
                      (case make_root w (Suc i) ps n of
                         (r, n') \<Rightarrow> (r, Root_Directory st (AList.update p n' entries))))))"

definition open_or_create_root :: "root_world \<Rightarrow> string \<Rightarrow> root_node \<Rightarrow> file_stat result \<times> root_node" where
  "open_or_create_root w path tree =
     (let parts = drop 1 (path_parts path) in
      if parts = [] then (Inl unsafe_root, tree) else make_root w 0 parts tree)"

fun find_root :: "int \<Rightarrow> string list \<Rightarrow> root_node \<Rightarrow> file_stat option result" where
  "find_root uid [] (Root_Directory st entries) = Inr (Some st)"
| "find_root uid ps Root_Other = Inl unsafe_root"
| "find_root uid (p # ps) (Root_Directory st entries) =
     (case map_of entries p of
        None \<Rightarrow> Inr None
      | Some Root_Other \<Rightarrow> Inl unsafe_root
      | Some (Root_Directory st' entries') \<Rightarrow>
          bindE (if ps = [] then validate_directory st' uid else Inr ()) (\<lambda>_.
            find_root uid ps (Root_Directory st' entries')))"

definition open_existing_root :: "int \<Rightarrow> string \<Rightarrow> root_node \<Rightarrow> file_stat option result" where
  "open_existing_root uid path tree =
     (let parts = drop 1 (path_parts path) in
      if parts = [] then Inl unsafe_root else find_root uid parts tree)"

section \<open>The read-only store\<close>

definition project_identity_ok :: "string \<Rightarrow> bool" where
  "project_identity_ok key = (is_execution_key key \<and> chomp key = key)"

text \<open>
  \<open>open_read_only\<close>: \<open>state_at\<close> gives the state directory for the status of an opened root.
\<close>

definition open_read_only ::
    "store_world \<Rightarrow> root_node \<Rightarrow> (file_stat \<Rightarrow> directory) \<Rightarrow> string \<Rightarrow> string
      \<Rightarrow> (state_store \<times> directory) option result" where
  "open_read_only w tree state_at root key =
     bindE (raise_if (\<not> project_identity_ok key) (Coordination_Error ''PROJECT_EXECUTION_IDENTITY_INVALID'')) (\<lambda>_.
     bindE (open_existing_root (world_uid w) root tree) (\<lambda>opened.
     case opened of
       None \<Rightarrow> Inr None
     | Some st \<Rightarrow>
         let s = \<lparr>store_root = root, store_owner = world_uid w, store_key = key, store_locked = False\<rparr>; d = state_at st in
         bindE (verify_root_identity s d) (\<lambda>_. Inr (Some (s, d)))))"

definition optional_regular_stat :: "store_world \<Rightarrow> state_name \<Rightarrow> string \<Rightarrow> directory \<Rightarrow> file_stat option result" where
  "optional_regular_stat w name code d =
     (case dir_files d name of
        None \<Rightarrow> Inr None
      | Some (st, _) \<Rightarrow> bindE (validate_regular st (world_uid w) code) (\<lambda>_. Inr (Some st)))"

abbreviation state_inconsistent :: harness_error where
  "state_inconsistent \<equiv> Coordination_Error ''COORDINATOR_STATE_INCONSISTENT''"

abbreviation lock_mismatch_code :: string where
  "lock_mismatch_code \<equiv> ''COORDINATOR_LOCK_IDENTITY_MISMATCH''"

text \<open>Opening the lock file that was seen, and taking the lock without creating anything.\<close>

definition take_existing_lock ::
    "state_store \<Rightarrow> store_world \<Rightarrow> file_stat \<Rightarrow> state_doc option \<Rightarrow> directory \<Rightarrow> file_stat result" where
  "take_existing_lock s w seen identity d =
     (case dir_files d Lock_File of
        None \<Rightarrow> Inl (Coordination_Error unsafe_file)
      | Some (opened, _) \<Rightarrow>
          bindE (raise_if (st_kind opened = Symlink) (Coordination_Error unsafe_file)) (\<lambda>_.
          bindE (validate_regular opened (world_uid w) lock_mismatch_code) (\<lambda>_.
          bindE (raise_if (\<not> same_inode seen opened) lock_mismatch) (\<lambda>_.
          bindE (raise_if (\<not> lock_free w) (Coordination_Error ''COORDINATOR_LOCK_BUSY'')) (\<lambda>_.
          bindE (bind_or_validate_lock_identity s w opened identity d) (\<lambda>_. Inr opened))))))"

text \<open>
  Entering \<open>exclusive_existing_project_lock\<close>: nothing for a project that was never initialised, the
  locked store and the lock's status otherwise.
\<close>

definition enter_existing_lock ::
    "state_store \<Rightarrow> store_world \<Rightarrow> directory \<Rightarrow> (state_store \<times> file_stat) option result" where
  "enter_existing_lock s w d =
     bindE (verify_root_identity s d) (\<lambda>_.
     bindE (raise_if (store_locked s) (Coordination_Error ''COORDINATOR_LOCK_BUSY'')) (\<lambda>_.
     bindE (read_marker s w d) (\<lambda>initialized.
     bindE (read_lock_identity w d) (\<lambda>identity.
     bindE (optional_regular_stat w Lock_File lock_mismatch_code d) (\<lambda>lock.
     bindE (optional_regular_stat w Journal_Name unsafe_file d) (\<lambda>journal.
     if \<not> initialized
     then
       (case lock of
          Some seen \<Rightarrow>
            if identity \<noteq> None \<and> journal = None
            then bindE (take_existing_lock s w seen identity d) (\<lambda>_. Inl state_inconsistent)
            else Inl state_inconsistent
        | None \<Rightarrow> if identity \<noteq> None \<or> journal \<noteq> None then Inl state_inconsistent else Inr None)
     else
       (case lock of
          None \<Rightarrow> Inl lock_mismatch
        | Some seen \<Rightarrow>
            bindE (raise_if (identity = None) lock_mismatch) (\<lambda>_.
            bindE (take_existing_lock s w seen identity d) (\<lambda>opened.
            bindE (verify_root_identity s d) (\<lambda>_.
            bindE (read_lock_identity w d) (\<lambda>identity'.
            bindE (bind_or_validate_lock_identity s w opened identity' d) (\<lambda>_.
              Inr (Some (s\<lparr>store_locked := True\<rparr>, opened))))))))))))))"

text \<open>Leaving it without an exception: an uninitialised project must still be one.\<close>

definition leave_existing_lock ::
    "state_store \<Rightarrow> store_world \<Rightarrow> (state_store \<times> file_stat) option \<Rightarrow> directory \<Rightarrow> unit result" where
  "leave_existing_lock s w entered d =
     (case entered of
        Some (_, opened) \<Rightarrow> raise_if (\<not> lock_still_named d opened) inode_changed
      | None \<Rightarrow>
          bindE (verify_root_identity s d) (\<lambda>_.
          bindE (read_marker s w d) (\<lambda>initialized.
          bindE (raise_if initialized inode_changed) (\<lambda>_.
          bindE (read_lock_identity w d) (\<lambda>identity.
          bindE (raise_if (identity \<noteq> None) inode_changed) (\<lambda>_.
          bindE (optional_regular_stat w Lock_File lock_mismatch_code d) (\<lambda>lock.
          bindE (raise_if (lock \<noteq> None) inode_changed) (\<lambda>_.
          bindE (optional_regular_stat w Journal_Name unsafe_file d) (\<lambda>journal.
            raise_if (journal \<noteq> None) inode_changed)))))))))"

section \<open>Inspection\<close>

text \<open>
  \<open>inspect_project_coordinator\<close>. The directory is read once more when the lock is left:
  \<open>later\<close> is what it has become by then.
\<close>

definition inspect_project_coordinator ::
    "(string \<Rightarrow> string) \<Rightarrow> ssh_host \<Rightarrow> project_identity result \<Rightarrow> store_world \<Rightarrow> root_node
      \<Rightarrow> (file_stat \<Rightarrow> directory) \<Rightarrow> (directory \<Rightarrow> directory) \<Rightarrow> string \<Rightarrow> coordinator_status result" where
  "inspect_project_coordinator sha ssh identity w tree state_at later root =
     bindE identity (\<lambda>i.
     bindE (open_read_only w tree state_at root (projectExecutionKey i)) (\<lambda>opened.
     case opened of
       None \<Rightarrow> Inr (coordinator_status_of (projectExecutionKey i) None)
     | Some (s, d) \<Rightarrow>
         bindE (enter_existing_lock s w d) (\<lambda>entered.
         bindE (case entered of None \<Rightarrow> Inr None | Some (locked, _) \<Rightarrow> read_journal sha ssh locked w d) (\<lambda>journal.
         bindE (leave_existing_lock s w entered (later d)) (\<lambda>_.
           Inr (coordinator_status_of (projectExecutionKey i) journal))))))"

end
