(* ===== verification/Inspection_Properties.thy ===== *)
theory Inspection_Properties
  imports Coordinator_Inspection Store_Witnesses
begin

text \<open>
  The state root and the read-only side of the store: opening the root twice gives the same
  directory and changes nothing that was there, and inspection reports the journal that the
  commands work on, unless a refused first command has left its lock behind.
\<close>

section \<open>The state root\<close>

fun root_at :: "root_node \<Rightarrow> string list \<Rightarrow> root_node option" where
  "root_at n [] = Some n"
| "root_at Root_Other (p # ps) = None"
| "root_at (Root_Directory st entries) (p # ps) =
     (case map_of entries p of None \<Rightarrow> None | Some n \<Rightarrow> root_at n ps)"

definition root_status :: "root_node \<Rightarrow> file_stat option" where
  "root_status n = (case n of Root_Directory st _ \<Rightarrow> Some st | Root_Other \<Rightarrow> None)"

definition root_grows :: "root_node \<Rightarrow> root_node \<Rightarrow> bool" where
  "root_grows n n' =
     (\<forall>ps m. root_at n ps = Some m \<longrightarrow> (\<exists>m'. root_at n' ps = Some m' \<and> root_status m' = root_status m))"

lemma root_grows_refl [simp]: "root_grows n n"
  by (simp add: root_grows_def)

lemma root_grows_trans: "root_grows a b \<Longrightarrow> root_grows b c \<Longrightarrow> root_grows a c"
  unfolding root_grows_def by metis

lemma root_grows_update:
  assumes "\<And>m. map_of entries p = Some m \<Longrightarrow> root_grows m n"
  shows "root_grows (Root_Directory st entries) (Root_Directory st (AList.update p n entries))"
  unfolding root_grows_def
proof (intro allI impI)
  fix ps m assume m: "root_at (Root_Directory st entries) ps = Some m"
  show "\<exists>m'. root_at (Root_Directory st (AList.update p n entries)) ps = Some m' \<and> root_status m' = root_status m"
  proof (cases ps)
    case Nil
    then show ?thesis using m by (auto simp: root_status_def)
  next
    case (Cons q qs)
    from m Cons obtain k where k: "map_of entries q = Some k" "root_at k qs = Some m" by (auto split: option.splits)
    show ?thesis
    proof (cases "q = p")
      case True
      with k assms have "root_grows k n" by simp
      with k(2) show ?thesis by (simp add: Cons True update_conv' root_grows_def)
    next
      case False
      with k show ?thesis by (simp add: Cons update_conv')
    qed
  qed
qed

lemma update_same: "map_of xs p = Some n \<Longrightarrow> AList.update p n xs = xs"
  by (induction xs) (auto split: if_splits)

text \<open>What a walk that ends well has found or made.\<close>

lemma make_root_Inr:
  assumes "make_root w i ps n = (Inr st, n')"
  shows "find_root (root_uid w) ps n' = Inr (Some st)" "root_status n' = root_status n" "root_status n \<noteq> None"
    "root_uid w' = root_uid w \<Longrightarrow> make_root w' k ps n' = (Inr st, n')"
    "ps \<noteq> [] \<Longrightarrow> validate_directory st (root_uid w) = Inr ()"
  using assms
proof (induction ps arbitrary: i n n' k)
  case Nil
  { case 1 then show ?case by (cases n) auto
  next case 2 then show ?case by (cases n) auto
  next case 3 then show ?case by (cases n) (auto simp: root_status_def)
  next case 4 then show ?case by (cases n) auto
  next case 5 then show ?case by simp }
next
  case (Cons p ps)
  have step: "\<exists>s entries m m'. n = Root_Directory s entries \<and> n' = Root_Directory s (AList.update p m' entries)
      \<and> make_root w (Suc i) ps m = (Inr st, m') \<and> (ps = [] \<longrightarrow> (\<exists>s' e'. m = Root_Directory s' e' \<and> validate_directory s' (root_uid w) = Inr ()))"
    if "make_root w i (p # ps) n = (Inr st, n')" for i n n'
    using that
    by (cases n; auto simp: Let_def result_simps split: option.splits root_node.splits sum.splits prod.splits if_splits; force)
  have found: "\<exists>s' e'. m' = Root_Directory s' e' \<and> (ps = [] \<longrightarrow> s' = st \<and> validate_directory s' (root_uid w) = Inr ())"
    if "make_root w j ps m = (Inr st, m')" "ps = [] \<longrightarrow> (\<exists>s' e'. m = Root_Directory s' e' \<and> validate_directory s' (root_uid w) = Inr ())" for j m m'
    using Cons.IH(2,3)[OF that(1)] that by (cases m') (auto simp: root_status_def split: root_node.splits)
  { case 1
    from step[OF this] found show ?case using Cons.IH(1) by (fastforce simp: update_conv' result_simps)
  next
    case 2
    from step[OF this] show ?case by (auto simp: root_status_def)
  next
    case 3
    from step[OF this] show ?case by (auto simp: root_status_def)
  next
    case 4
    from step[OF 4(2)] obtain s entries m m' where n: "n' = Root_Directory s (AList.update p m' entries)"
      and m: "make_root w (Suc i) ps m = (Inr st, m')"
        "ps = [] \<longrightarrow> (\<exists>s' e'. m = Root_Directory s' e' \<and> validate_directory s' (root_uid w) = Inr ())" by blast
    from found[OF m] obtain s' e' where m': "m' = Root_Directory s' e'" "ps = [] \<Longrightarrow> validate_directory s' (root_uid w) = Inr ()"
      by blast
    from Cons.IH(4)[OF 4(1) m(1)] m' 4(1) show ?case
      by (auto simp: n update_conv' update_same split: if_splits)
  next
    case 5
    from step[OF 5(2)] obtain m m' where m: "make_root w (Suc i) ps m = (Inr st, m')"
        "ps = [] \<longrightarrow> (\<exists>s' e'. m = Root_Directory s' e' \<and> validate_directory s' (root_uid w) = Inr ())" by blast
    from found[OF m] Cons.IH(5)[OF _ m(1)] show ?case by blast }
qed

lemma make_root_grows: "make_root w i ps n = (r, n') \<Longrightarrow> root_grows n n'"
proof (induction w i ps n arbitrary: r n' rule: make_root.induct)
  case (3 w i p ps st entries)
  have made: "root_grows (Root_Directory st entries) (Root_Directory st (AList.update p m entries))"
    if "map_of entries p = None" for m
    by (rule root_grows_update) (simp add: that)
  show ?case
  proof (cases "map_of entries p")
    case None
    with 3 made show ?thesis
      by (auto simp: Let_def split: option.splits root_node.splits sum.splits prod.splits if_splits)
  next
    case (Some m)
    with 3 show ?thesis
      by (auto simp: Let_def split: root_node.splits sum.splits prod.splits if_splits intro!: root_grows_update)
  qed
qed simp_all

text \<open>C28: The state root is one directory. Whenever the root was opened or created, every later opening, for
  writing or for reading, finds the directory with the same status, owned by the user and with mode 0700, and creates
  nothing more; and opening it, also where it fails half way, changes no directory that was there.\<close>

theorem state_root_is_stable:
  assumes "open_or_create_root w path tree = (r, tree')"
  shows "root_grows tree tree'
    \<and> (\<forall>st. r = Inr st \<longrightarrow> validate_directory st (root_uid w) = Inr ()
        \<and> open_existing_root (root_uid w) path tree' = Inr (Some st)
        \<and> (\<forall>w'. root_uid w' = root_uid w \<longrightarrow> open_or_create_root w' path tree' = (Inr st, tree')))"
proof (cases "drop 1 (path_parts path) = []")
  case True
  then show ?thesis using assms by (auto simp: open_or_create_root_def)
next
  case False
  with assms have make: "make_root w 0 (drop 1 (path_parts path)) tree = (r, tree')"
    by (simp add: open_or_create_root_def Let_def)
  have "validate_directory st (root_uid w) = Inr ()
        \<and> open_existing_root (root_uid w) path tree' = Inr (Some st)
        \<and> (\<forall>w'. root_uid w' = root_uid w \<longrightarrow> open_or_create_root w' path tree' = (Inr st, tree'))"
    if r: "r = Inr st" for st
    using make_root_Inr[OF make[unfolded r]] False
    by (auto simp: open_existing_root_def open_or_create_root_def Let_def)
  with make_root_grows[OF make] show ?thesis by blast
qed

section \<open>Inspection\<close>

lemma regular_stat:
  assumes "own_file (world_uid w) d name st doc"
  shows "optional_regular_stat w name code d = Inr (Some st)"
  using assms by (simp add: optional_regular_stat_def own_file_def validate_regular_def)

lemma read_identity_absent: "dir_files d Lock_Identity = None \<Longrightarrow> read_lock_identity w d = Inr None"
  by (simp add: read_lock_identity_def missing_read)

lemma bound_lock_taken:
  assumes "lock_bound s (world_uid w) d" "lock_free w"
  obtains st where "optional_regular_stat w Lock_File code d = Inr (Some st)"
    "read_lock_identity w d = Inr (Some (lock_identity s st))" "lock_still_named d st"
    "take_existing_lock s w st (Some (lock_identity s st)) d = Inr st"
    "bind_or_validate_lock_identity s w st (Some (lock_identity s st)) d = Inr d"
proof -
  obtain st doc where st: "dir_files d Lock_File = Some (st, doc)" "lock_still_named d st"
    "validate_regular st (world_uid w) unsafe_file = Inr ()" "st_kind st \<noteq> Symlink"
    and id: "read_lock_identity w d = Inr (Some (lock_identity s st))"
    using assms(1) by (rule lock_bound_reads)
  have valid: "validate_regular st (world_uid w) code = Inr ()" for code
    using st(3) by (simp add: validate_regular_def raise_if_def split: if_splits)
  show thesis
    by (rule that[of st]) (use st id assms(2) valid bound_lock_kept[OF st(2), of s w] in
      \<open>simp_all add: optional_regular_stat_def take_existing_lock_def same_inode_def\<close>)
qed

text \<open>What entering the lock for reading gives on a healthy directory.\<close>

lemma enter_existing:
  assumes d: "store_holds sha ssh s w jo d" and w: "lock_free w" and s: "\<not> store_locked s"
  shows "jo \<noteq> None \<Longrightarrow> \<exists>st. enter_existing_lock s w d = Inr (Some (s\<lparr>store_locked := True\<rparr>, st)) \<and> lock_still_named d st"
    and "jo = None \<Longrightarrow> dir_files d Lock_File = None \<Longrightarrow> enter_existing_lock s w d = Inr None \<and> leave_existing_lock s w None d = Inr ()"
    and "jo = None \<Longrightarrow> dir_files d Lock_File \<noteq> None \<Longrightarrow> enter_existing_lock s w d = Inl state_inconsistent"
proof -
  have root: "verify_root_identity s d = Inr ()" using d rooted_verified[of s w d] by (simp add: store_holds_def)
  note marker = marker_read[OF d]
  have no_journal: "optional_regular_stat w Journal_Name code d = Inr None" if "jo = None" for code
    using d that by (simp add: store_holds_def optional_regular_stat_def)
  {
    assume "jo \<noteq> None"
    with d obtain j st' where j: "jo = Some j" "own_file (world_uid w) d Journal_Name st' (Journal_Doc j)"
      and bound: "lock_bound s (world_uid w) d"
      by (auto simp: store_holds_def)
    from bound w obtain st where "optional_regular_stat w Lock_File lock_mismatch_code d = Inr (Some st)"
      "read_lock_identity w d = Inr (Some (lock_identity s st))" "lock_still_named d st"
      "take_existing_lock s w st (Some (lock_identity s st)) d = Inr st"
      "bind_or_validate_lock_identity s w st (Some (lock_identity s st)) d = Inr d"
      by (rule bound_lock_taken)
    then show "\<exists>st. enter_existing_lock s w d = Inr (Some (s\<lparr>store_locked := True\<rparr>, st)) \<and> lock_still_named d st"
      using root marker s regular_stat[OF j(2)] j(1) by (simp add: enter_existing_lock_def)
  next
    assume none: "jo = None" "dir_files d Lock_File = None"
    with d have "dir_files d Lock_Identity = None"
      by (auto simp: store_holds_def lock_unbound_def lock_bound_def own_file_def)
    then have id: "read_lock_identity w d = Inr None" by (rule read_identity_absent)
    have lock: "optional_regular_stat w Lock_File code d = Inr None" for code using none(2) by (simp add: optional_regular_stat_def)
    show "enter_existing_lock s w d = Inr None \<and> leave_existing_lock s w None d = Inr ()"
      using root marker s id lock no_journal none(1) by (simp add: enter_existing_lock_def leave_existing_lock_def)
  next
    assume none: "jo = None" "dir_files d Lock_File \<noteq> None"
    with d consider "lock_bound s (world_uid w) d" | st doc where "dir_files d Lock_Identity = None"
        "own_file (world_uid w) d Lock_File st doc"
      by (auto simp: store_holds_def lock_unbound_def)
    then show "enter_existing_lock s w d = Inl state_inconsistent"
    proof cases
      case 1
      from this w obtain st where "optional_regular_stat w Lock_File lock_mismatch_code d = Inr (Some st)"
        "read_lock_identity w d = Inr (Some (lock_identity s st))"
        "take_existing_lock s w st (Some (lock_identity s st)) d = Inr st"
        by (rule bound_lock_taken)
      then show ?thesis using root marker s no_journal none(1) by (simp add: enter_existing_lock_def)
    next
      case 2
      then show ?thesis
        using root marker s no_journal none(1) regular_stat[OF 2(2)] read_identity_absent[OF 2(1)]
        by (simp add: enter_existing_lock_def)
    qed
  }
qed

lemma open_read_only_rooted:
  assumes root: "open_existing_root (world_uid w) root tree = Inr (Some st)"
    and holds: "store_holds sha ssh (opened_store w root key) w jo (state_at st)" and key: "is_execution_key key" "chomp key = key"
  shows "open_read_only w tree state_at root key = Inr (Some (opened_store w root key, state_at st))"
proof -
  have "verify_root_identity (opened_store w root key) (state_at st) = Inr ()"
    using holds rooted_verified by (auto simp: store_holds_def)
  then show ?thesis using root key
    by (simp add: open_read_only_def project_identity_ok_def opened_store_def Let_def)
qed

text \<open>C27: Inspection shows the journal the commands work on. On a healthy state directory it answers with the status of
  the journal on disk; before the first journal it answers that the project is not initialised, unless
  a lock file is there, which it reports as an inconsistent state.\<close>

theorem inspection_shows_journal:
  assumes root: "open_existing_root (world_uid w) root tree = Inr (Some st)"
    and d: "store_holds sha ssh (opened_store w root key) w jo (state_at st)"
    and w: "lock_free w" and key: "is_execution_key key" "chomp key = key" "projectExecutionKey i = key"
  shows "inspect_project_coordinator sha ssh (Inr i) w tree state_at (\<lambda>d. d) root =
    (if jo = None \<and> dir_files (state_at st) Lock_File \<noteq> None then Inl state_inconsistent
     else Inr (coordinator_status_of key jo))"
proof -
  have opened: "open_read_only w tree state_at root key = Inr (Some (opened_store w root key, state_at st))"
    by (rule open_read_only_rooted[where state_at = state_at]) (rule root d key)+
  have unlocked: "\<not> store_locked (opened_store w root key)" by simp
  note enter = enter_existing[OF d w unlocked]
  have read: "read_journal sha ssh ((opened_store w root key)\<lparr>store_locked := True\<rparr>) w (state_at st) = Inr jo"
    by (rule read_journal_holds) (simp add: d)
  show ?thesis
  proof (cases "jo = None")
    case True
    then show ?thesis using opened enter(2,3) key(3)
      by (cases "dir_files (state_at st) Lock_File = None") (simp_all add: inspect_project_coordinator_def)
  next
    case False
    with enter(1) obtain l where "enter_existing_lock (opened_store w root key) w (state_at st) =
        Inr (Some ((opened_store w root key)\<lparr>store_locked := True\<rparr>, l))" "lock_still_named (state_at st) l" by blast
    with opened read key(3) False show ?thesis
      by (auto simp: inspect_project_coordinator_def leave_existing_lock_def)
  qed
qed

text \<open>C35: A refused first command breaks inspection. When the first acquisition of a project is refused by its checks,
  the directory stays healthy and later commands work on it, but the lock files it has left make every
  inspection fail with an inconsistent state, until an acquisition succeeds.\<close>

theorem refused_acquisition_blocks_inspection:
  assumes d: "store_holds sha (live_ssh live) (opened_store w root key) w None d" and w: "quiet w"
    and key: "is_execution_key key" "chomp key = key" "projectExecutionKey i = key"
    and refused: "acquire_step sha live i (empty_journal key) c = Inl e"
  shows "\<exists>d'. acquire_lane_lease sha live (Inr i) root w c d = (Inl e, d')
    \<and> store_holds sha (live_ssh live) (opened_store w root key) w None d'
    \<and> (\<forall>tree st state_at. open_existing_root (world_uid w) root tree = Inr (Some st) \<and> state_at st = d' \<longrightarrow>
        inspect_project_coordinator sha (live_ssh live) (Inr i) w tree state_at (\<lambda>d. d) root = Inl state_inconsistent)"
proof -
  let ?s = "opened_store w root key"
  have unlocked: "\<not> store_locked ?s" by simp
  obtain st d' where enter: "enter_project_lock ?s w d = Inr (?s\<lparr>store_locked := True\<rparr>, st, d')"
    and d': "store_holds sha (live_ssh live) ?s w None d'" "lock_bound ?s (world_uid w) d'"
    using enter_holds[OF d w unlocked] by blast
  have read: "read_journal sha (live_ssh live) (?s\<lparr>store_locked := True\<rparr>) w d' = Inr None"
    by (rule read_journal_holds) (simp add: d'(1))
  have run: "acquire_lane_lease sha live (Inr i) root w c d = (Inl e, d')"
    unfolding acquire_lane_lease_def holds_open[OF d key]
    using enter read refused key(3) by (simp add: under_lock_def)
  have locked: "dir_files d' Lock_File \<noteq> None" using d'(2) by (auto simp: lock_bound_def own_file_def)
  have "inspect_project_coordinator sha (live_ssh live) (Inr i) w tree state_at (\<lambda>d. d) root = Inl state_inconsistent"
    if root: "open_existing_root (world_uid w) root tree = Inr (Some st)" "state_at st = d'" for tree st state_at
  proof -
    have "open_read_only w tree state_at root key = Inr (Some (?s, d'))"
      using open_read_only_rooted[OF root(1) _ key(1,2), where state_at = state_at] d'(1) root(2) by simp
    moreover have "enter_existing_lock ?s w d' = Inl state_inconsistent"
      using enter_existing(3)[OF d'(1) _ unlocked] w locked by (simp add: quiet_def)
    ultimately show ?thesis using key(3) by (simp add: inspect_project_coordinator_def)
  qed
  with run d'(1) show ?thesis by blast
qed

section \<open>Witnesses\<close>

definition sample_root_world :: root_world where
  "sample_root_world =
     \<lparr>root_uid = 1000, raced = (\<lambda>_. None), mkdir_ok = True, root_sync_ok = True,
      made_directory = (\<lambda>_. dir_stat fresh_directory)\<rparr>"

definition sample_tree :: "root_node" where
  "sample_tree = Root_Directory (lane_stat 2) [(''srv'', Root_Directory (lane_stat 3) [])]"

definition grown_tree :: "root_node" where
  "grown_tree = Root_Directory (lane_stat 2)
     [(''srv'', Root_Directory (lane_stat 3) [(''state'', Root_Directory (dir_stat fresh_directory) [])])]"

lemma sample_created:
  "open_or_create_root sample_root_world ''/srv/state'' sample_tree = (Inr (dir_stat fresh_directory), grown_tree)"
proof -
  have "path_parts ''/srv/state'' = [''/'', ''srv'', ''state'']" by code_simp
  moreover have "validate_directory (dir_stat fresh_directory) 1000 = Inr ()" by code_simp
  ultimately show ?thesis
    by (simp add: open_or_create_root_def sample_tree_def grown_tree_def sample_root_world_def)
qed

theorem state_root_is_stable_witness:
  "open_existing_root 1000 ''/srv/state'' grown_tree = Inr (Some (dir_stat fresh_directory))
    \<and> open_or_create_root sample_root_world ''/srv/state'' grown_tree = (Inr (dir_stat fresh_directory), grown_tree)"
  using state_root_is_stable[OF sample_created] by (simp add: sample_root_world_def)

lemma grown_opens: "open_existing_root (world_uid lane_world) ''/srv/state'' grown_tree = Inr (Some (dir_stat fresh_directory))"
proof -
  have "path_parts ''/srv/state'' = [''/'', ''srv'', ''state'']" by code_simp
  moreover have "validate_directory (dir_stat fresh_directory) 1000 = Inr ()" by code_simp
  ultimately show ?thesis by (simp add: open_existing_root_def grown_tree_def)
qed

theorem inspection_shows_journal_witness:
  "inspect_project_coordinator lane_sha lane_ssh (Inr lane_identity) lane_world grown_tree (\<lambda>_. stored_directory) (\<lambda>d. d)
     ''/srv/state'' = Inr (coordinator_status_of lane_key (Some acquired_journal))"
proof -
  have "store_holds lane_sha lane_ssh (opened_store lane_world ''/srv/state'' lane_key) lane_world (Some acquired_journal) stored_directory"
    using stored_holds by (simp add: lane_store_def)
  from inspection_shows_journal[where state_at = "\<lambda>_. stored_directory", OF grown_opens this _ lane_key_ok lane_identity_select(1)]
  show ?thesis by (simp add: lane_world_def)
qed

text \<open>An acquisition without a time is refused by its schema.\<close>

definition untimed_acquire :: acquire_command where
  "untimed_acquire = (lane_acquire True)\<lparr>acquire_asOf := []\<rparr>"

lemma untimed_refused: "\<exists>e. acquire_step lane_sha lane_live lane_identity (empty_journal lane_key) untimed_acquire = Inl e"
proof -
  have "\<not> acquire_schema untimed_acquire" by (simp add: acquire_schema_def untimed_acquire_def)
  then show ?thesis
    by (simp add: acquire_step_def empty_journal_def admit_command_def normalize_acquire_command_def validate_schema_def)
qed

theorem refused_acquisition_blocks_inspection_witness:
  "\<exists>e d. acquire_lane_lease lane_sha lane_live (Inr lane_identity) ''/srv/state'' lane_world untimed_acquire fresh_directory = (Inl e, d)
    \<and> inspect_project_coordinator lane_sha lane_ssh (Inr lane_identity) lane_world grown_tree (\<lambda>_. d) (\<lambda>d. d)
        ''/srv/state'' = Inl state_inconsistent"
proof -
  obtain e where e: "acquire_step lane_sha lane_live lane_identity (empty_journal lane_key) untimed_acquire = Inl e"
    using untimed_refused by blast
  have "store_holds lane_sha (live_ssh lane_live) (opened_store lane_world ''/srv/state'' lane_key) lane_world None fresh_directory"
    using fresh_holds by (simp add: lane_store_def)
  from refused_acquisition_blocks_inspection[OF this lane_quiet lane_key_ok lane_identity_select(1) e] grown_opens
  show ?thesis by fastforce
qed

end
