(* ===== verification/Growth_Assessment.thy ===== *)
theory Growth_Assessment
  imports Git_Text
begin

text \<open>
  \<open>growth_assessment.py\<close>: growth assessment requests, their schema, their normal form and the
  identities over it, receipts and capture results. \<open>\d\<close> in the patterns is an ASCII digit.
\<close>

section \<open>Requests\<close>

text \<open>\<open>GrowthAssessmentError\<close> with its code, and the \<open>OverflowError\<close> of \<open>datetime.astimezone\<close>.\<close>

datatype growth_error = Growth_Error string | Overflow_Error

type_synonym 'a growth = "growth_error + 'a"

record growth_evidence =
  item_kind :: string
  item_reference :: string
  item_revision :: string
  item_digest :: string
  item_availability :: string
  item_visibility :: string
  item_distillation :: string

datatype growth_source =
    Registered_Project string string string "string \<times> string" string string
  | Harness_Self string "string \<times> string"

record growth_task =
  task_taskId :: string
  task_attemptId :: string
  task_gateId :: string
  task_candidate :: "(string \<times> string \<times> string) option"

record growth_request =
  request_source :: growth_source
  request_task :: growth_task
  riskLevel :: string
  growth_trigger :: string
  projectGate :: string
  growth_verdict :: string
  reasonCodes :: "string list"
  growth_summary :: string
  growth_impact :: string
  capabilityHints :: "string list"
  growth_evidence_of :: "growth_evidence list"
  assessedAt :: string

definition revision_of_json :: "string \<times> string \<Rightarrow> json" where
  "revision_of_json r = JObj [(''kind'', JStr ''GIT''), (''head'', JStr (fst r)), (''tree'', JStr (snd r))]"

fun growth_source_json :: "growth_source \<Rightarrow> json" where
  "growth_source_json (Registered_Project project integration runtime revision authority lock) = JObj
     [(''sourceKind'', JStr ''REGISTERED_PROJECT''), (''projectId'', JStr project), (''integrationId'', JStr integration),
      (''runtime'', JStr runtime), (''sourceRevision'', revision_of_json revision),
      (''authoritySnapshotFingerprint'', JStr authority), (''capabilityLockFingerprint'', JStr lock)]"
| "growth_source_json (Harness_Self runtime revision) = JObj
     [(''sourceKind'', JStr ''HARNESS_SELF''), (''projectId'', JStr ''agent-evolution-harness''),
      (''runtime'', JStr runtime), (''sourceRevision'', revision_of_json revision)]"

definition growth_task_json :: "growth_task \<Rightarrow> json" where
  "growth_task_json t = JObj
     ([(''taskId'', JStr (task_taskId t)), (''attemptId'', JStr (task_attemptId t)), (''gateId'', JStr (task_gateId t))]
      @ (case task_candidate t of None \<Rightarrow> []
         | Some (candidate, parent, tree) \<Rightarrow>
             [(''candidate'', JStr candidate), (''parent'', JStr parent), (''tree'', JStr tree)]))"

definition growth_evidence_json :: "growth_evidence \<Rightarrow> json" where
  "growth_evidence_json e = JObj
     [(''kind'', JStr (item_kind e)), (''reference'', JStr (item_reference e)), (''revision'', JStr (item_revision e)),
      (''digest'', JStr (item_digest e)), (''availability'', JStr (item_availability e)),
      (''visibility'', JStr (item_visibility e)), (''distillation'', JStr (item_distillation e))]"

definition growth_request_json :: "growth_request \<Rightarrow> json" where
  "growth_request_json r = JObj
     [(''schemaVersion'', JStr ''growth-assessment-request/v1''), (''policyVersion'', JStr ''growth-assessment-policy/v1''),
      (''source'', growth_source_json (request_source r)), (''task'', growth_task_json (request_task r)),
      (''riskLevel'', JStr (riskLevel r)), (''trigger'', JStr (growth_trigger r)), (''projectGate'', JStr (projectGate r)),
      (''verdict'', JStr (growth_verdict r)), (''reasonCodes'', jstrs (reasonCodes r)), (''summary'', JStr (growth_summary r)),
      (''impact'', JStr (growth_impact r)), (''capabilityHints'', jstrs (capabilityHints r)),
      (''evidence'', JArr (map growth_evidence_json (growth_evidence_of r))), (''assessedAt'', JStr (assessedAt r))]"

section \<open>The schema\<close>

definition control_char :: "char \<Rightarrow> bool" where
  "control_char c = (byte c < 32 \<or> byte c = 127)"

definition length_within :: "nat \<Rightarrow> nat \<Rightarrow> string \<Rightarrow> bool" where
  "length_within low high s = (low \<le> text_length s \<and> text_length s \<le> high)"

definition project_char :: "char \<Rightarrow> bool" where
  "project_char c = (id_head_char c \<or> c \<in> set ''._-'')"

text \<open>\<open>[a-z0-9][a-z0-9._-]*\<close>\<close>

definition project_word :: "string \<Rightarrow> bool" where
  "project_word s = (case s of [] \<Rightarrow> False | c # r \<Rightarrow> id_head_char c \<and> list_all project_char r)"

definition is_project_id :: "string \<Rightarrow> bool" where
  "is_project_id s = (length_within 1 128 s \<and> project_word (chomp s))"

definition is_capability_id :: "string \<Rightarrow> bool" where
  "is_capability_id s =
     (length_within 1 128 s
      \<and> (case split_on (CHR '':'') (chomp s) of
           [kind, name_space, name] \<Rightarrow>
             kind \<in> {''principle'', ''framework'', ''skill'', ''workflow''} \<and> project_word name_space \<and> project_word name
         | _ \<Rightarrow> False))"

definition task_char :: "char \<Rightarrow> bool" where
  "task_char c = (c \<in> set ''ABCDEFGHIJKLMNOPQRSTUVWXYZ'' \<or> id_head_char c)"

definition is_task_id :: "string \<Rightarrow> bool" where
  "is_task_id s =
     (length_within 1 128 s
      \<and> (case chomp s of [] \<Rightarrow> False | c # r \<Rightarrow> task_char c \<and> list_all (\<lambda>d. task_char d \<or> d \<in> set ''._:-'') r))"

definition same_hex :: "string list \<Rightarrow> bool" where
  "same_hex xs = (list_all (\<lambda>s. is_hex_text 40 (chomp s)) xs \<or> list_all (\<lambda>s. is_hex_text 64 (chomp s)) xs)"

definition is_plain_text :: "string \<Rightarrow> bool" where
  "is_plain_text s = (chomp s \<noteq> [] \<and> list_all (\<lambda>c. \<not> control_char c) (chomp s))"

definition dot_name :: "string \<Rightarrow> bool" where
  "dot_name s = (s = ''.'' \<or> s = ''..'')"

definition replayable_reference :: "string \<Rightarrow> bool" where
  "replayable_reference s =
     (let t = chomp s in
      is_plain_text s \<and> hd t \<noteq> slash \<and> list_all (\<lambda>(a, b). \<not> (a = slash \<and> b = slash)) (zip t (tl t))
      \<and> backslash \<notin> set t \<and> list_all (\<lambda>p. \<not> dot_name p) (split_on slash t))"

definition is_letter :: "char \<Rightarrow> bool" where
  "is_letter c = (let n = byte c in 65 \<le> n \<and> n \<le> 90 \<or> 97 \<le> n \<and> n \<le> 122)"

definition opaque_reference :: "string \<Rightarrow> bool" where
  "opaque_reference s =
     (let t = chomp s in
      is_plain_text s \<and> hd t \<noteq> slash \<and> hd t \<noteq> backslash \<and> \<not> dot_name t
      \<and> (case t of a # b # c # _ \<Rightarrow> \<not> (is_letter a \<and> b = CHR '':'' \<and> (c = slash \<or> c = backslash)) | _ \<Rightarrow> True))"

definition growth_evidence_schema :: "growth_evidence \<Rightarrow> bool" where
  "growth_evidence_schema e =
     (item_kind e \<in> {''PROJECT_ARTIFACT'', ''FIXED_REVIEW'', ''HUMAN_CORRECTION'', ''TEST_RECEIPT'', ''GATE_RECEIPT'', ''OTHER''}
      \<and> length_within 1 512 (item_reference e)
      \<and> (item_availability e = ''REPLAYABLE'' \<and> replayable_reference (item_reference e)
         \<or> item_availability e = ''OPAQUE'' \<and> opaque_reference (item_reference e))
      \<and> length_within 1 128 (item_revision e) \<and> is_plain_text (item_revision e)
      \<and> is_digest (item_digest e)
      \<and> item_visibility e \<in> {''PRIVATE'', ''PROJECT'', ''SHARED'', ''PUBLIC''}
      \<and> length_within 1 1000 (item_distillation e))"

definition is_runtime :: "string \<Rightarrow> bool" where
  "is_runtime s = (s \<in> {''CHATGPT'', ''CODEX''})"

fun growth_source_schema :: "growth_source \<Rightarrow> bool" where
  "growth_source_schema (Registered_Project project integration runtime revision authority lock) =
     (is_project_id project \<and> is_project_id integration \<and> is_runtime runtime
      \<and> same_hex [fst revision, snd revision] \<and> is_digest authority \<and> is_digest lock)"
| "growth_source_schema (Harness_Self runtime revision) =
     (is_runtime runtime \<and> same_hex [fst revision, snd revision])"

definition growth_task_schema :: "growth_task \<Rightarrow> bool" where
  "growth_task_schema t =
     (is_task_id (task_taskId t) \<and> is_task_id (task_attemptId t) \<and> is_task_id (task_gateId t)
      \<and> (case task_candidate t of None \<Rightarrow> True
         | Some (candidate, parent, tree) \<Rightarrow> same_hex [candidate, parent, tree]))"

text \<open>\<open>(?:\.\d+)?\<close>: the digits of the fraction and the rest.\<close>

definition fraction_text :: "string \<Rightarrow> (string \<times> string) option" where
  "fraction_text s =
     (case s of
        c # r \<Rightarrow>
          if c = CHR ''.''
          then (if takeWhile is_digit r = [] then None else Some (takeWhile is_digit r, dropWhile is_digit r))
          else Some ([], s)
      | [] \<Rightarrow> Some ([], s))"

text \<open>The fields of a text of the timestamp pattern, before their ranges are checked.\<close>

definition timestamp_fields ::
    "string \<Rightarrow> ((int \<times> int \<times> int) \<times> (int \<times> int \<times> int) \<times> string \<times> int) option" where
  "timestamp_fields s = do {
     (y, r) \<leftarrow> read_digits 4 s;
     r \<leftarrow> expect (CHR ''-'') r;
     (mo, r) \<leftarrow> read_digits 2 r;
     r \<leftarrow> expect (CHR ''-'') r;
     (d, r) \<leftarrow> read_digits 2 r;
     r \<leftarrow> expect (CHR ''T'') r;
     (h, r) \<leftarrow> read_digits 2 r;
     r \<leftarrow> expect (CHR '':'') r;
     (mi, r) \<leftarrow> read_digits 2 r;
     r \<leftarrow> expect (CHR '':'') r;
     (sec, r) \<leftarrow> read_digits 2 r;
     (fraction, r) \<leftarrow> fraction_text r;
     offset \<leftarrow> read_offset r;
     Some ((y, mo, d), (h, mi, sec), fraction, offset)
   }"

definition is_timestamp_text :: "string \<Rightarrow> bool" where
  "is_timestamp_text s = (timestamp_fields (chomp s) \<noteq> None)"

definition reason_codes_for :: "string \<Rightarrow> string list" where
  "reason_codes_for verdict =
     (if verdict = ''SIGNAL''
      then [''REUSABLE_AGENT_BEHAVIOR'', ''CAPABILITY_MISMATCH'', ''CAPABILITY_GAP'', ''REVALIDATION_NEEDED'',
            ''CROSS_PROJECT_PATTERN'']
      else [''PROJECT_LOCAL_ONLY'', ''ACCIDENTAL'', ''INSUFFICIENT_EVIDENCE'', ''ALREADY_COVERED'', ''NON_TRANSFERABLE''])"

definition triggers_for :: "string \<Rightarrow> string list" where
  "triggers_for risk =
     (if risk = ''R1''
      then [''HUMAN_CORRECTION'', ''REPEATED_FRICTION'', ''SHARED_GUIDANCE_CONFLICT'', ''CONTRACT_AMBIGUITY'',
            ''VERIFICATION_GAP'']
      else [''FORMAL_CLOSURE'', ''FIXED_CANDIDATE_REVIEW'', ''GATE_FAILURE'', ''AUTHORITY_OR_GOVERNANCE_CHANGE'',
            ''SECURITY_RECOVERY_OR_CONCURRENCY_FINDING'', ''CONTRACT_SCHEMA_OR_PROJECTION_CHANGE''])"

definition growth_request_schema :: "growth_request \<Rightarrow> bool" where
  "growth_request_schema r =
     (growth_source_schema (request_source r) \<and> growth_task_schema (request_task r)
      \<and> riskLevel r \<in> {''R1'', ''R2''} \<and> growth_trigger r \<in> set (triggers_for (riskLevel r))
      \<and> projectGate r \<in> {''PASS'', ''FAIL'', ''BLOCKED'', ''NOT_RUN''}
      \<and> growth_verdict r \<in> {''SIGNAL'', ''NO_SIGNAL''}
      \<and> 1 \<le> length (reasonCodes r) \<and> length (reasonCodes r) \<le> 10 \<and> distinct (reasonCodes r)
      \<and> set (reasonCodes r) \<subseteq> set (reason_codes_for (growth_verdict r))
      \<and> length_within 1 2000 (growth_summary r) \<and> length_within 0 2000 (growth_impact r)
      \<and> (growth_verdict r = ''SIGNAL'' \<longrightarrow> 1 \<le> text_length (growth_impact r) \<and> growth_evidence_of r \<noteq> [])
      \<and> length (capabilityHints r) \<le> 20 \<and> distinct (capabilityHints r) \<and> list_all is_capability_id (capabilityHints r)
      \<and> length (growth_evidence_of r) \<le> 20 \<and> distinct (growth_evidence_of r)
      \<and> list_all growth_evidence_schema (growth_evidence_of r)
      \<and> is_timestamp_text (assessedAt r))"

section \<open>Timestamps\<close>

text \<open>
  \<open>_parse_rfc3339_parts\<close>: \<open>fromisoformat\<close> checks the ranges, \<open>astimezone\<close> that the year in UTC is one
  of 1 to 9999. The instant is counted in seconds from the start of the proleptic calendar, day 1 at \<open>86400\<close>.
\<close>

definition last_day :: int where "last_day = 3652059"

definition parse_rfc3339_parts :: "string \<Rightarrow> (int \<times> string) growth" where
  "parse_rfc3339_parts value =
     (case timestamp_fields value of
        None \<Rightarrow> Inl (Growth_Error ''TIMESTAMP_INVALID'')
      | Some ((y, mo, d), (h, mi, sec), fraction, offset) \<Rightarrow>
          bindE (raise_if (\<not> (valid_date y mo d \<and> h \<le> 23 \<and> mi \<le> 59 \<and> sec \<le> 59))
                   (Growth_Error ''TIMESTAMP_INVALID'')) (\<lambda>_.
          let seconds = ((ordinal y mo d * 24 + h) * 60 + mi - offset) * 60 + sec in
          bindE (raise_if (\<not> (1 \<le> seconds div 86400 \<and> seconds div 86400 \<le> last_day)) Overflow_Error) (\<lambda>_.
            Inr (seconds, rev (dropWhile (\<lambda>c. c = CHR ''0'') (rev fraction))))))"

text \<open>The calendar date of a day: the year by an estimate that is at most one off, then month and day.\<close>

definition year_start :: "int \<Rightarrow> int" where
  "year_start y = ordinal y 1 1"

definition year_of :: "int \<Rightarrow> int" where
  "year_of n =
     (let y = (400 * (n - 1)) div 146097 + 1 in
      if year_start (y + 1) \<le> n then y + 1 else if n < year_start y then y - 1 else y)"

fun month_of :: "int \<Rightarrow> int list \<Rightarrow> int \<times> int" where
  "month_of n [] = (1, n)"
| "month_of n (l # ls) = (if n \<le> l then (1, n) else (case month_of (n - l) ls of (m, d) \<Rightarrow> (m + 1, d)))"

definition date_of :: "int \<Rightarrow> int \<times> int \<times> int" where
  "date_of n =
     (let y = year_of n; (m, d) = month_of (n - year_start y + 1) (month_lengths y) in (y, m, d))"

definition two_digits :: "int \<Rightarrow> string" where
  "two_digits n = [digit_char (nat n div 10), digit_char (nat n mod 10)]"

text \<open>\<open>%Y\<close>: C libraries differ on whether a year before 1000 is padded with zeros.\<close>

definition year_text :: "bool \<Rightarrow> int \<Rightarrow> string" where
  "year_text padded y =
     (let s = dec_nat (nat y) in if padded then replicate (4 - length s) (CHR ''0'') @ s else s)"

definition utc_rfc3339 :: "bool \<Rightarrow> string \<Rightarrow> string growth" where
  "utc_rfc3339 padded value =
     bindE (parse_rfc3339_parts value) (\<lambda>(seconds, fraction).
       let (y, m, d) = date_of (seconds div 86400); rest = seconds mod 86400 in
       Inr (year_text padded y @ ''-'' @ two_digits m @ ''-'' @ two_digits d @ ''T'' @ two_digits (rest div 3600)
            @ '':'' @ two_digits (rest div 60 mod 60) @ '':'' @ two_digits (rest mod 60)
            @ (if fraction = [] then [] else CHR ''.'' # fraction) @ ''Z''))"

section \<open>Normal form\<close>

text \<open>\<open>_reject_non_prose_controls\<close>: the strings of a document, except under a prose field.\<close>

fun has_control :: "string option \<Rightarrow> json \<Rightarrow> bool" where
  "has_control field (JObj kvs) = list_ex (\<lambda>(k, v). has_control (Some k) v) kvs"
| "has_control field (JArr vs) = list_ex (has_control field) vs"
| "has_control field (JStr s) =
     (field \<notin> {Some ''summary'', Some ''impact'', Some ''distillation''}
      \<and> list_ex (\<lambda>c. control_char c \<and> c \<noteq> CHR 0x09) s)"
| "has_control field _ = False"

fun unix_lines :: "string \<Rightarrow> string" where
  "unix_lines [] = []"
| "unix_lines (c # s) =
     (if c = CHR 0x0D then newline # unix_lines (if s \<noteq> [] \<and> hd s = newline then tl s else s)
      else c # unix_lines s)"

text \<open>\<open>not s.strip()\<close>: white space only.\<close>

fun blank :: "nat list \<Rightarrow> bool" where
  "blank [] = True"
| "blank [a] = ([a] \<in> set space_encodings)"
| "blank [a, b] = ([a] \<in> set space_encodings \<and> blank [b] \<or> [a, b] \<in> set space_encodings)"
| "blank (a # b # c # s) =
     ([a] \<in> set space_encodings \<and> blank (b # c # s) \<or> [a, b] \<in> set space_encodings \<and> blank (c # s)
      \<or> [a, b, c] \<in> set space_encodings \<and> blank s)"

definition argument_invalid :: growth_error where
  "argument_invalid = Growth_Error ''GROWTH_ARGUMENT_INVALID''"

definition normalize_prose :: "bool \<Rightarrow> string \<Rightarrow> string growth" where
  "normalize_prose required value =
     (let normalized = unix_lines value in
      bindE (raise_if (list_ex (\<lambda>c. control_char c \<and> c \<noteq> CHR 0x09 \<and> c \<noteq> newline) normalized) argument_invalid) (\<lambda>_.
      bindE (raise_if (required \<and> blank (map byte normalized)) argument_invalid) (\<lambda>_.
        Inr normalized)))"

definition evidence_sort_key ::
    "growth_evidence \<Rightarrow> string \<times> string \<times> string \<times> string \<times> string \<times> string \<times> string" where
  "evidence_sort_key e =
     (item_kind e, item_reference e, item_revision e, item_digest e, item_availability e, item_visibility e,
      item_distillation e)"

definition keyed_evidence_identity :: "growth_evidence \<Rightarrow> string \<times> string \<times> string \<times> string" where
  "keyed_evidence_identity e = (item_kind e, item_reference e, item_revision e, item_digest e)"

definition normalize_evidence :: "growth_evidence \<Rightarrow> growth_evidence growth" where
  "normalize_evidence e =
     bindE (normalize_prose True (item_distillation e)) (\<lambda>distillation. Inr (e\<lparr>item_distillation := distillation\<rparr>))"

definition schema_invalid :: growth_error where
  "schema_invalid = Growth_Error ''ASSESSMENT_SCHEMA_INVALID''"

definition normalize_growth_assessment_request :: "bool \<Rightarrow> growth_request \<Rightarrow> growth_request growth" where
  "normalize_growth_assessment_request padded value =
     bindE (raise_if (\<not> growth_request_schema value) schema_invalid) (\<lambda>_.
     bindE (raise_if (has_control None (growth_request_json value)) argument_invalid) (\<lambda>_.
     bindE (normalize_prose True (growth_summary value)) (\<lambda>summary.
     bindE (normalize_prose (growth_verdict value = ''SIGNAL'') (growth_impact value)) (\<lambda>impact.
     bindE (mapE normalize_evidence (growth_evidence_of value)) (\<lambda>evidence.
     bindE (utc_rfc3339 padded (assessedAt value)) (\<lambda>assessed.
     bindE (raise_if (\<not> distinct (map keyed_evidence_identity evidence)) argument_invalid) (\<lambda>_.
     let normalized = value\<lparr>growth_summary := summary, growth_impact := impact,
           reasonCodes := sort (reasonCodes value), capabilityHints := sort (capabilityHints value),
           growth_evidence_of := sort_key evidence_sort_key evidence, assessedAt := assessed\<rparr> in
     bindE (raise_if (\<not> growth_request_schema normalized) schema_invalid) (\<lambda>_. Inr normalized))))))))"

section \<open>Identities and receipts\<close>

definition growth_key_payload :: "growth_request \<Rightarrow> json" where
  "growth_key_payload r = JObj
     [(''policyVersion'', JStr ''growth-assessment-policy/v1''), (''source'', growth_source_json (request_source r)),
      (''task'', growth_task_json (request_task r))]"

definition growth_assessment_key :: "(string \<Rightarrow> string) \<Rightarrow> growth_request \<Rightarrow> string" where
  "growth_assessment_key sha r = stable_id sha ''growth-key'' (growth_key_payload r)"

definition growth_assessment_id :: "(string \<Rightarrow> string) \<Rightarrow> growth_request \<Rightarrow> string" where
  "growth_assessment_id sha r = stable_id sha ''growth-assessment'' (growth_request_json r)"

definition growth_request_digest :: "(string \<Rightarrow> string) \<Rightarrow> growth_request \<Rightarrow> string" where
  "growth_request_digest sha r = sha256_json sha (growth_request_json r)"

datatype receipt_status = RECORDED | DUPLICATE

record growth_receipt =
  receipt_key :: string
  receipt_assessmentId :: string
  requestDigest :: string
  growth_status :: receipt_status
  assessment :: growth_request

definition build_growth_receipt :: "(string \<Rightarrow> string) \<Rightarrow> growth_request \<Rightarrow> growth_receipt" where
  "build_growth_receipt sha value =
     \<lparr>receipt_key = growth_assessment_key sha value, receipt_assessmentId = growth_assessment_id sha value,
      requestDigest = growth_request_digest sha value, growth_status = RECORDED, assessment = value\<rparr>"

definition receipt_status_str :: "receipt_status \<Rightarrow> string" where
  "receipt_status_str s = (case s of RECORDED \<Rightarrow> ''RECORDED'' | DUPLICATE \<Rightarrow> ''DUPLICATE'')"

definition growth_receipt_json :: "growth_receipt \<Rightarrow> json" where
  "growth_receipt_json r = JObj
     [(''schemaVersion'', JStr ''growth-assessment-receipt/v1''), (''policyVersion'', JStr ''growth-assessment-policy/v1''),
      (''assessmentKey'', JStr (receipt_key r)), (''assessmentId'', JStr (receipt_assessmentId r)),
      (''requestDigest'', JStr (requestDigest r)), (''status'', JStr (receipt_status_str (growth_status r))),
      (''growthCaptureGate'', JStr ''PASS''), (''assessment'', growth_request_json (assessment r))]"

definition growth_receipt_schema :: "growth_receipt \<Rightarrow> bool" where
  "growth_receipt_schema r =
     (is_stable_id ''growth-key'' (receipt_key r) \<and> is_stable_id ''growth-assessment'' (receipt_assessmentId r)
      \<and> is_digest (requestDigest r) \<and> growth_request_schema (assessment r))"

definition verify_receipt_identities :: "(string \<Rightarrow> string) \<Rightarrow> growth_receipt \<Rightarrow> growth_request \<Rightarrow> unit growth" where
  "verify_receipt_identities sha r normalized =
     bindE (raise_if (receipt_key r \<noteq> growth_assessment_key sha normalized) (Growth_Error ''ASSESSMENT_KEY_CONFLICT'')) (\<lambda>_.
     bindE (raise_if (receipt_assessmentId r \<noteq> growth_assessment_id sha normalized)
              (Growth_Error ''ASSESSMENT_ID_MISMATCH'')) (\<lambda>_.
     raise_if (requestDigest r \<noteq> growth_request_digest sha normalized) (Growth_Error ''REQUEST_DIGEST_MISMATCH'')))"

definition receipt_corrupt :: growth_error where
  "receipt_corrupt = Growth_Error ''RECEIPT_CORRUPT''"

text \<open>\<open>except GrowthAssessmentError\<close>, which lets the overflow pass.\<close>

definition except_growth :: "growth_error \<Rightarrow> 'a growth \<Rightarrow> 'a growth" where
  "except_growth e m = (case m of Inl (Growth_Error _) \<Rightarrow> Inl e | Inl Overflow_Error \<Rightarrow> Inl Overflow_Error | Inr x \<Rightarrow> Inr x)"

definition validate_growth_receipt :: "bool \<Rightarrow> (string \<Rightarrow> string) \<Rightarrow> growth_receipt \<Rightarrow> growth_receipt growth" where
  "validate_growth_receipt padded sha r =
     bindE (raise_if (\<not> growth_receipt_schema r) receipt_corrupt) (\<lambda>_.
     bindE (except_growth receipt_corrupt (normalize_growth_assessment_request padded (assessment r))) (\<lambda>normalized.
     bindE (raise_if (normalized \<noteq> assessment r) receipt_corrupt) (\<lambda>_.
     bindE (verify_receipt_identities sha r normalized) (\<lambda>_. Inr r))))"

section \<open>Capture results\<close>

datatype capture_result =
    Captured growth_receipt
  | Deferred string string string string

text \<open>\<open>build_growth_capture_result\<close>: exactly one of a receipt and a reason to defer.\<close>

definition build_growth_capture_result ::
    "(string \<Rightarrow> string) \<Rightarrow> growth_request \<Rightarrow> growth_receipt option \<Rightarrow> string option \<Rightarrow> capture_result growth" where
  "build_growth_capture_result sha value receipt deferred_reason =
     bindE (raise_if ((receipt = None) = (deferred_reason = None)) argument_invalid) (\<lambda>_.
     case deferred_reason of
       Some reason \<Rightarrow>
         bindE (raise_if (reason \<notin> {''STATE_ROOT_UNAVAILABLE'', ''INBOX_LOCKED''}) argument_invalid) (\<lambda>_.
           Inr (Deferred (growth_assessment_key sha value) (growth_assessment_id sha value)
                  (growth_request_digest sha value) reason))
     | None \<Rightarrow>
         bindE (raise_if (assessment (the receipt) \<noteq> value) (Growth_Error ''ASSESSMENT_ID_MISMATCH'')) (\<lambda>_.
         bindE (verify_receipt_identities sha (the receipt) value) (\<lambda>_. Inr (Captured (the receipt)))))"

end
