(* ===== verification/Growth_Inbox.thy ===== *)
theory Growth_Inbox
  imports Growth_Assessment
begin

text \<open>
  \<open>GrowthInbox\<close> of \<open>growth_store.py\<close>: the directory of receipts, one file per assessment key, that is
  only ever added to. The layout of the state root is taken as opened; other processes, and the outcome
  of a publication, are parameters.
\<close>

section \<open>The inbox\<close>

text \<open>
  A file holds the canonical text of a receipt, or some other text of which the size matters only:
  reading it gives \<open>RECEIPT_CORRUPT\<close> (a timestamp that overflows is modelled in canonical texts).
\<close>

datatype inbox_doc = Receipt_Doc growth_receipt | Other_Doc nat

definition receipt_bytes :: "growth_receipt \<Rightarrow> string" where
  "receipt_bytes r = canonical_json_bytes (growth_receipt_json r) @ [newline]"

fun doc_size :: "inbox_doc \<Rightarrow> nat" where
  "doc_size (Receipt_Doc r) = length (receipt_bytes r)"
| "doc_size (Other_Doc n) = n"

type_synonym inbox_entries = "(string, file_stat \<times> inbox_doc) dict"

record growth_inbox =
  inbox_entries :: inbox_entries
  publication_uncertain :: bool

text \<open>
  The process's uid, whether the lock is free, what others do between \<open>stat\<close> and \<open>open\<close>, the inode of a new
  file, and a failed publication: with the file left in place or not.
\<close>

record inbox_world =
  inbox_uid :: int
  inbox_lock_free :: bool
  before_open :: "inbox_entries \<Rightarrow> inbox_entries"
  fresh_inode :: "int \<times> int"
  publish_fault :: "bool option"

abbreviation receipt_limit :: nat where "receipt_limit \<equiv> 131072"
abbreviation scan_limit :: nat where "scan_limit \<equiv> 10000"

definition receipt_unsafe :: growth_error where
  "receipt_unsafe = Growth_Error ''RECEIPT_UNSAFE''"

definition state_unsafe :: growth_error where
  "state_unsafe = Growth_Error ''STATE_ROOT_UNSAFE''"

definition inbox_locked :: "inbox_world \<Rightarrow> unit growth" where
  "inbox_locked w = raise_if (\<not> inbox_lock_free w) (Growth_Error ''INBOX_LOCKED'')"

definition safe_entry :: "inbox_world \<Rightarrow> file_stat \<times> inbox_doc \<Rightarrow> bool" where
  "safe_entry w e =
     (st_kind (fst e) = Regular \<and> st_uid (fst e) = inbox_uid w \<and> st_perms (fst e) = 384
      \<and> doc_size (snd e) \<le> receipt_limit)"

definition read_receipt_bytes :: "inbox_world \<Rightarrow> inbox_entries \<Rightarrow> string \<Rightarrow> inbox_doc option growth" where
  "read_receipt_bytes w es name =
     (case map_of es name of
        None \<Rightarrow> Inr None
      | Some named \<Rightarrow>
          bindE (raise_if (\<not> safe_entry w named) receipt_unsafe) (\<lambda>_.
          case map_of (before_open w es) name of
            None \<Rightarrow> Inl receipt_unsafe
          | Some opened \<Rightarrow>
              bindE (raise_if (st_kind (fst opened) = Symlink
                               \<or> (st_dev (fst opened), st_ino (fst opened)) \<noteq> (st_dev (fst named), st_ino (fst named))
                               \<or> \<not> safe_entry w opened) receipt_unsafe) (\<lambda>_.
                Inr (Some (snd opened)))))"

text \<open>\<open>key.split(":", 1)[1] + ".json"\<close>\<close>

definition receipt_file :: "string \<Rightarrow> string" where
  "receipt_file key = (case partition_on (CHR '':'') key of None \<Rightarrow> [] | Some (_, name) \<Rightarrow> name @ ''.json'')"

definition validated_receipt :: "bool \<Rightarrow> (string \<Rightarrow> string) \<Rightarrow> string \<Rightarrow> inbox_doc \<Rightarrow> growth_receipt growth" where
  "validated_receipt padded sha name doc =
     (case doc of
        Other_Doc _ \<Rightarrow> Inl receipt_corrupt
      | Receipt_Doc r \<Rightarrow>
          bindE (except_growth receipt_corrupt (validate_growth_receipt padded sha r)) (\<lambda>r.
          bindE (raise_if (growth_status r \<noteq> RECORDED) receipt_corrupt) (\<lambda>_.
          bindE (raise_if (receipt_file (receipt_key r) \<noteq> name) receipt_corrupt) (\<lambda>_. Inr r))))"

section \<open>Recording\<close>

definition publish :: "inbox_world \<Rightarrow> string \<Rightarrow> growth_receipt \<Rightarrow> growth_inbox \<Rightarrow> growth_receipt growth \<times> growth_inbox" where
  "publish w name r i =
     (let entry = (\<lparr>st_dev = fst (fresh_inode w), st_ino = snd (fresh_inode w), st_kind = Regular,
                    st_uid = inbox_uid w, st_perms = 384, st_nlink = 1\<rparr>, Receipt_Doc r);
          added = i\<lparr>inbox_entries := inbox_entries i @ [(name, entry)]\<rparr> in
      case publish_fault w of
        None \<Rightarrow> (Inr r, added)
      | Some left \<Rightarrow> (Inl state_unsafe, (if left then added else i)\<lparr>publication_uncertain := True\<rparr>))"

text \<open>The part of \<open>record\<close> before the publication: the receipt to publish, and the one that is there already.\<close>

definition look_up_receipt ::
    "bool \<Rightarrow> (string \<Rightarrow> string) \<Rightarrow> inbox_world \<Rightarrow> growth_request \<Rightarrow> growth_inbox
      \<Rightarrow> (growth_receipt \<times> growth_receipt option) growth" where
  "look_up_receipt padded sha w request i =
     bindE (normalize_growth_assessment_request padded request) (\<lambda>normalized.
     bindE (raise_if (publication_uncertain i) state_unsafe) (\<lambda>_.
     let expected = build_growth_receipt sha normalized; name = receipt_file (receipt_key expected) in
     bindE (raise_if (receipt_limit < length (receipt_bytes expected)) receipt_unsafe) (\<lambda>_.
     bindE (inbox_locked w) (\<lambda>_.
     bindE (read_receipt_bytes w (inbox_entries i) name) (\<lambda>raw.
     case raw of
       None \<Rightarrow> Inr (expected, None)
     | Some doc \<Rightarrow>
         bindE (validated_receipt padded sha name doc) (\<lambda>current.
         bindE (raise_if (receipt_bytes current \<noteq> receipt_bytes expected)
                  (Growth_Error ''ASSESSMENT_KEY_CONFLICT'')) (\<lambda>_.
           Inr (expected, Some (current\<lparr>growth_status := DUPLICATE\<rparr>)))))))))"

definition record_growth ::
    "bool \<Rightarrow> (string \<Rightarrow> string) \<Rightarrow> inbox_world \<Rightarrow> growth_request \<Rightarrow> growth_inbox
      \<Rightarrow> growth_receipt growth \<times> growth_inbox" where
  "record_growth padded sha w request i =
     (case look_up_receipt padded sha w request i of
        Inl e \<Rightarrow> (Inl e, i)
      | Inr (expected, Some duplicate) \<Rightarrow> (Inr duplicate, i)
      | Inr (expected, None) \<Rightarrow> publish w (receipt_file (receipt_key expected)) expected i)"

section \<open>Reading\<close>

definition is_receipt_name :: "string \<Rightarrow> bool" where
  "is_receipt_name name = (is_hex_text 24 (take 24 name) \<and> drop 24 name = ''.json'')"

definition is_assessment_id :: "string \<Rightarrow> bool" where
  "is_assessment_id s = (is_stable_id ''growth-assessment'' s \<and> chomp s = s)"

text \<open>The valid receipts of a directory, in the order of its listing; the first bad one is an error.\<close>

definition all_receipts ::
    "bool \<Rightarrow> (string \<Rightarrow> string) \<Rightarrow> inbox_world \<Rightarrow> inbox_entries \<Rightarrow> growth_receipt list growth" where
  "all_receipts padded sha w es =
     bindE (mapE (\<lambda>name.
              bindE (read_receipt_bytes w es name) (\<lambda>raw.
              case raw of None \<Rightarrow> Inr None | Some doc \<Rightarrow> bindE (validated_receipt padded sha name doc) (\<lambda>r. Inr (Some r))))
            (filter is_receipt_name (dict_keys es)))
       (\<lambda>rs. Inr (concat (map (\<lambda>r. case r of None \<Rightarrow> [] | Some x \<Rightarrow> [x]) rs)))"

definition receipt_of ::
    "bool \<Rightarrow> (string \<Rightarrow> string) \<Rightarrow> inbox_world \<Rightarrow> string \<Rightarrow> inbox_entries \<Rightarrow> growth_receipt growth" where
  "receipt_of padded sha w assessment_id es =
     bindE (raise_if (\<not> is_assessment_id assessment_id) argument_invalid) (\<lambda>_.
     bindE (inbox_locked w) (\<lambda>_.
     bindE (all_receipts padded sha w es) (\<lambda>rs.
     case filter (\<lambda>r. receipt_assessmentId r = assessment_id) rs of
       [r] \<Rightarrow> Inr r
     | _ \<Rightarrow> Inl (Growth_Error ''RECEIPT_NOT_FOUND''))))"

section \<open>Scanning\<close>

datatype scan_record =
    Invalid_Record string string
  | Valid_Record string string string string string string string string string "string list" string

fun source_project :: "growth_source \<Rightarrow> string" where
  "source_project (Registered_Project project _ _ _ _ _) = project"
| "source_project (Harness_Self _ _) = ''agent-evolution-harness''"

fun source_kind :: "growth_source \<Rightarrow> string" where
  "source_kind (Registered_Project _ _ _ _ _ _) = ''REGISTERED_PROJECT''"
| "source_kind (Harness_Self _ _) = ''HARNESS_SELF''"

definition visibility_rank :: "string \<Rightarrow> nat" where
  "visibility_rank v =
     (if v = ''PRIVATE'' then 0 else if v = ''PROJECT'' then 1 else if v = ''SHARED'' then 2 else 3)"

text \<open>\<open>min(\<dots>, key=visibility_order)\<close>: the first of the least rank.\<close>

fun narrowest :: "string list \<Rightarrow> string" where
  "narrowest [] = ''NONE''"
| "narrowest [v] = v"
| "narrowest (v # u # vs) = narrowest ((if visibility_rank u < visibility_rank v then u else v) # vs)"

definition scan_record_of :: "growth_receipt \<Rightarrow> scan_record" where
  "scan_record_of r =
     (let a = assessment r in
      Valid_Record (receipt_key r) (receipt_assessmentId r) (requestDigest r) (source_project (request_source a))
        (source_kind (request_source a)) (riskLevel a) (growth_trigger a) (growth_verdict a)
        (narrowest (map item_visibility (growth_evidence_of a))) (capabilityHints a)
        (if growth_verdict a = ''SIGNAL'' then ''HUMAN_TRIAGE_REQUIRED'' else ''NO_ACTION''))"

definition entry_digest :: "(string \<Rightarrow> string) \<Rightarrow> string \<Rightarrow> string" where
  "entry_digest sha name = ''sha256:'' @ sha (''growth-inbox-entry/v1'' @ nul # name)"

definition scan_invalid :: "(string \<Rightarrow> string) \<Rightarrow> string \<Rightarrow> string \<Rightarrow> scan_record" where
  "scan_invalid sha name code = Invalid_Record (entry_digest sha name) code"

fun scan_sort_key :: "scan_record \<Rightarrow> string \<times> string \<times> string" where
  "scan_sort_key (Invalid_Record name_digest _) = (''INVALID_RECEIPT'', name_digest, [])"
| "scan_sort_key (Valid_Record key i _ _ _ _ _ _ _ _ disposition) = (disposition, key, i)"

fun record_verdict :: "scan_record \<Rightarrow> string option" where
  "record_verdict (Invalid_Record _ _) = None"
| "record_verdict (Valid_Record _ _ _ _ _ _ _ verdict _ _ _) = Some verdict"

text \<open>The order on instants: seconds, then the digits of the fraction.\<close>

definition later_than :: "int \<times> string \<Rightarrow> int \<times> string \<Rightarrow> bool" where
  "later_than a b = (fst a > fst b \<or> fst a = fst b \<and> snd a > snd b)"

text \<open>One entry of a scan: unsafe and corrupt files are records of their own.\<close>

definition scan_entry ::
    "bool \<Rightarrow> (string \<Rightarrow> string) \<Rightarrow> inbox_world \<Rightarrow> inbox_entries \<Rightarrow> int \<times> string \<Rightarrow> string \<Rightarrow> scan_record growth" where
  "scan_entry padded sha w es observed_at name =
     (if \<not> is_receipt_name name then Inr (scan_invalid sha name ''RECEIPT_UNSAFE'')
      else
        (case bindE (read_receipt_bytes w es name) (\<lambda>raw.
              case raw of None \<Rightarrow> Inl receipt_unsafe | Some doc \<Rightarrow> validated_receipt padded sha name doc) of
           Inl Overflow_Error \<Rightarrow> Inl Overflow_Error
         | Inl (Growth_Error code) \<Rightarrow>
             Inr (scan_invalid sha name (if code = ''RECEIPT_UNSAFE'' then ''RECEIPT_UNSAFE'' else ''RECEIPT_CORRUPT''))
         | Inr r \<Rightarrow>
             bindE (parse_rfc3339_parts (assessedAt (assessment r))) (\<lambda>assessed.
             bindE (raise_if (later_than assessed observed_at) (Growth_Error ''TIMESTAMP_INVALID'')) (\<lambda>_.
               Inr (scan_record_of r)))))"

record scan_report =
  report_asOf :: string
  stateRootIdentity :: string
  report_records :: "scan_record list"
  signal_count :: nat
  no_signal_count :: nat
  invalid_count :: nat
  report_gate :: string

text \<open>The counts of a valid and an invalid record, and \<open>growth-scan-report.schema.json\<close>.\<close>

fun scan_record_schema :: "scan_record \<Rightarrow> bool" where
  "scan_record_schema (Invalid_Record name_digest code) =
     (is_digest name_digest \<and> code \<in> {''RECEIPT_UNSAFE'', ''RECEIPT_CORRUPT''})"
| "scan_record_schema (Valid_Record key i request_digest project kind risk trigger verdict visibility hints disposition) =
     (is_stable_id ''growth-key'' key \<and> is_stable_id ''growth-assessment'' i \<and> is_digest request_digest
      \<and> is_project_id project \<and> kind \<in> {''REGISTERED_PROJECT'', ''HARNESS_SELF''}
      \<and> risk \<in> {''R1'', ''R2''} \<and> trigger \<in> set (triggers_for risk) \<and> verdict \<in> {''SIGNAL'', ''NO_SIGNAL''}
      \<and> visibility \<in> {''NONE'', ''PRIVATE'', ''PROJECT'', ''SHARED'', ''PUBLIC''}
      \<and> length hints \<le> 20 \<and> distinct hints \<and> list_all is_capability_id hints
      \<and> disposition = (if verdict = ''SIGNAL'' then ''HUMAN_TRIAGE_REQUIRED'' else ''NO_ACTION''))"

definition scan_report_schema :: "scan_report \<Rightarrow> bool" where
  "scan_report_schema r =
     (is_timestamp_text (report_asOf r) \<and> is_digest (stateRootIdentity r)
      \<and> length (report_records r) \<le> scan_limit \<and> distinct (report_records r)
      \<and> list_all scan_record_schema (report_records r)
      \<and> signal_count r + no_signal_count r \<le> scan_limit \<and> invalid_count r \<le> scan_limit)"

text \<open>The sorted records of a scan with their counts and the gate.\<close>

definition scan_report_of ::
    "(string \<Rightarrow> string) \<Rightarrow> string \<Rightarrow> string \<Rightarrow> scan_record list \<Rightarrow> scan_report" where
  "scan_report_of sha root as_of records =
     (let signal = length (filter (\<lambda>r. record_verdict r = Some ''SIGNAL'') records);
          no_signal = length (filter (\<lambda>r. record_verdict r \<noteq> None \<and> record_verdict r \<noteq> Some ''SIGNAL'') records);
          invalid = length records - signal - no_signal in
      \<lparr>report_asOf = as_of, stateRootIdentity = ''sha256:'' @ sha (''growth-state-root/v1'' @ nul # root),
       report_records = sort_key scan_sort_key records, signal_count = signal, no_signal_count = no_signal,
       invalid_count = invalid, report_gate = (if invalid = 0 then ''PASS'' else ''FAIL'')\<rparr>)"

definition scan_inbox ::
    "bool \<Rightarrow> (string \<Rightarrow> string) \<Rightarrow> inbox_world \<Rightarrow> string \<Rightarrow> string \<Rightarrow> inbox_entries \<Rightarrow> scan_report growth" where
  "scan_inbox padded sha w root as_of es =
     bindE (utc_rfc3339 padded as_of) (\<lambda>normalized_as_of.
     bindE (parse_rfc3339_parts normalized_as_of) (\<lambda>observed_at.
     bindE (inbox_locked w) (\<lambda>_.
     bindE (raise_if (scan_limit < length es) (Growth_Error ''SCAN_LIMIT_EXCEEDED'')) (\<lambda>_.
     bindE (mapE (scan_entry padded sha w es observed_at) (dict_keys es)) (\<lambda>records.
     let report = scan_report_of sha root normalized_as_of records in
     bindE (raise_if (\<not> scan_report_schema report) receipt_corrupt) (\<lambda>_. Inr report))))))"

end
