(* ===== verification/Growth_Correct.thy ===== *)
theory Growth_Correct
  imports Growth_Inbox
begin

text \<open>
  The normal form of an assessment is stable: dates, prose and lists of a normalised request
  normalise to themselves, so a receipt that was recorded is accepted again.
\<close>

section \<open>The calendar\<close>

lemma year_start_eq: "year_start y = 365 * (y - 1) + (y - 1) div 4 - (y - 1) div 100 + (y - 1) div 400 + 1"
  by (simp add: year_start_def ordinal_def)

lemma div_step: "0 < k \<Longrightarrow> y div k - (y - 1) div k = (if k dvd y then 1 else 0)" for y k :: int
proof -
  assume k: "0 < k"
  show ?thesis
  proof (cases "k dvd y")
    case True
    then obtain q where q: "y = k * q" by (auto elim: dvdE)
    have "(k * q - 1) div k = q - 1"
      by (rule int_div_pos_eq[of _ _ _ "k - 1"]) (use k in \<open>auto simp: algebra_simps\<close>)
    then show ?thesis using k by (simp add: q)
  next
    case False
    then have r: "0 < y mod k" using k by (metis dvd_eq_mod_eq_0 pos_mod_sign order_le_less)
    have b: "y mod k < k" using k by (rule pos_mod_bound)
    have y: "y = k * (y div k) + y mod k" by simp
    have "(y - 1) div k = y div k"
      by (rule int_div_pos_eq[of _ _ _ "y mod k - 1"]) (use k r b y in linarith)+
    then show ?thesis using False by simp
  qed
qed

lemma year_length: "year_start (y + 1) = year_start y + sum_list (month_lengths y)"
proof -
  have "year_start (y + 1) - year_start y = 365 + (if 4 dvd y then 1 else 0) - (if 100 dvd y then 1 else 0) + (if 400 dvd y then 1 else 0)"
    using div_step[of 4 y] div_step[of 100 y] div_step[of 400 y] by (simp add: year_start_eq)
  moreover have "(100::int) dvd y \<Longrightarrow> 4 dvd y" "(400::int) dvd y \<Longrightarrow> 100 dvd y"
    by (rule dvd_trans[of _ 100], simp_all) (rule dvd_trans[of _ 400], simp_all)
  ultimately show ?thesis
    by (cases "4 dvd y"; cases "100 dvd y"; cases "400 dvd y") (simp_all add: month_lengths_def leap_year_def)
qed

lemma year_start_bounds:
  "146097 * (y - 1) - 800 < 400 * (year_start y - 1)" "400 * (year_start y - 1) < 146097 * (y - 1) + 400"
proof -
  have quotient: "\<exists>q. x div k = q \<and> k * q \<le> x \<and> x < k * q + k" if "0 < k" for x k :: int
    using that pos_mod_sign[of k x] pos_mod_bound[of k x] mult_div_mod_eq[of k x] by (intro exI[of _ "x div k"]) linarith
  obtain a where a: "(y - 1) div 4 = a" "4 * a \<le> y - 1" "y - 1 < 4 * a + 4" using quotient[of 4 "y - 1"] by auto
  obtain b where b: "(y - 1) div 100 = b" "100 * b \<le> y - 1" "y - 1 < 100 * b + 100" using quotient[of 100 "y - 1"] by auto
  obtain c where c: "(y - 1) div 400 = c" "400 * c \<le> y - 1" "y - 1 < 400 * c + 400" using quotient[of 400 "y - 1"] by auto
  have "year_start y = 365 * (y - 1) + a - b + c + 1" unfolding year_start_eq a(1) b(1) c(1) by simp
  then show "146097 * (y - 1) - 800 < 400 * (year_start y - 1)" "400 * (year_start y - 1) < 146097 * (y - 1) + 400"
    using a(2,3) b(2,3) c(2,3) by (simp_all add: algebra_simps)
qed

lemma year_of_bounds: "year_start (year_of n) \<le> n \<and> n < year_start (year_of n + 1)"
proof -
  let ?k = "(400 * (n - 1)) div 146097"
  have "146097 * ?k + 400 * (n - 1) mod 146097 = 400 * (n - 1)" by (rule mult_div_mod_eq)
  then obtain k where k: "k = ?k" "146097 * k \<le> 400 * (n - 1)" "400 * (n - 1) < 146097 * k + 146097"
    using pos_mod_sign[of 146097 "400 * (n - 1)"] pos_mod_bound[of 146097 "400 * (n - 1)"] that by fastforce
  have lower: "year_start k \<le> n" using year_start_bounds(2)[of k] k(2) by (simp add: algebra_simps)
  have upper: "n < year_start (k + 3)" using year_start_bounds(1)[of "k + 3"] k(3) by (simp add: algebra_simps)
  have "year_of n = (if year_start (k + 2) \<le> n then k + 2 else if n < year_start (k + 1) then k else k + 1)"
    unfolding year_of_def Let_def k(1)[symmetric] by (simp add: add.assoc)
  with lower upper show ?thesis by (auto simp: add.assoc)
qed


lemma month_of_sound:
  assumes "list_all (\<lambda>l. 0 < l) ls" "1 \<le> n" "n \<le> sum_list ls" "month_of n ls = (m, d)"
  shows "1 \<le> m \<and> m \<le> int (length ls) \<and> 1 \<le> d \<and> d \<le> ls ! nat (m - 1)
    \<and> sum_list (take (nat (m - 1)) ls) + d = n"
  using assms
proof (induction ls arbitrary: n m)
  case Nil
  then show ?case by simp
next
  case (Cons l ls)
  show ?case
  proof (cases "n \<le> l")
    case True
    with Cons.prems show ?thesis by auto
  next
    case False
    obtain m' where m': "month_of (n - l) ls = (m', d)" "m = m' + 1"
      using Cons.prems(4) False by (cases "month_of (n - l) ls") auto
    have "1 \<le> m' \<and> m' \<le> int (length ls) \<and> 1 \<le> d \<and> d \<le> ls ! nat (m' - 1)
      \<and> sum_list (take (nat (m' - 1)) ls) + d = n - l"
      using Cons.prems False by (intro Cons.IH[OF _ _ _ m'(1)]) auto
    moreover from this have "nat (m - 1) = Suc (nat (m' - 1))" using m'(2) by auto
    ultimately show ?thesis using m'(2) by auto
  qed
qed

text \<open>The date of a day is a date, and its day is that day.\<close>

lemma date_of_sound:
  assumes n: "1 \<le> n" "n \<le> last_day" and date: "date_of n = (y, m, d)"
  shows "valid_date y m d" "y \<le> 9999" "ordinal y m d = n"
proof -
  have y: "y = year_of n" and month: "month_of (n - year_start y + 1) (month_lengths y) = (m, d)"
    using date by (auto simp: date_of_def Let_def split: prod.splits)
  note bounds = year_of_bounds[of n, folded y]
  have len: "length (month_lengths y) = 12" "list_all (\<lambda>l. 0 < l) (month_lengths y)" by (simp_all add: month_lengths_def)
  have "n - year_start y + 1 \<le> sum_list (month_lengths y)" "1 \<le> n - year_start y + 1"
    using bounds year_length[of y] by simp_all
  note found = month_of_sound[OF len(2) this(2,1) month]
  have "0 < y"
    using year_start_bounds(2)[of "y + 1"] bounds n(1) by (simp add: algebra_simps)
  moreover have "y \<le> 9999"
  proof (rule ccontr)
    assume "\<not> y \<le> 9999"
    then consider "y = 10000" | "10001 \<le> y" by linarith
    then show False
    proof cases
      case 1
      then have "year_start y = 3652060" by (simp add: year_start_eq)
      then show False using bounds n(2) by (simp add: last_day_def)
    next
      case 2
      then show False using year_start_bounds(1)[of y] bounds n(2) by (simp add: last_day_def algebra_simps)
    qed
  qed
  ultimately show "valid_date y m d" "y \<le> 9999" using found len(1) by (auto simp: valid_date_def)
  have "ordinal y m d = year_start y - 1 + (sum_list (take (nat (m - 1)) (month_lengths y)) + d)"
    by (simp add: ordinal_def year_start_eq)
  then show "ordinal y m d = n" using found by simp
qed

section \<open>Timestamps\<close>

lemma read_int_nat: "read_int ds = int (read_nat ds)"
proof -
  have "foldl (\<lambda>n d. 10 * n + int (digit_value d)) (int k) ds = int (foldl (\<lambda>n d. 10 * n + digit_value d) k ds)" for k
  proof (induction ds arbitrary: k)
    case (Cons d ds)
    show ?case using Cons[of "10 * k + digit_value d"] by simp
  qed simp
  from this[of 0] show ?thesis by (simp add: read_int_def read_nat_def)
qed

lemma read_nat_zeros: "read_nat (replicate k (CHR ''0'') @ ds) = read_nat ds"
  by (induction k) (simp_all add: read_nat_def digit_value_def)

lemma dec_nat_length: "n < 10 ^ Suc k \<Longrightarrow> length (dec_nat n) \<le> Suc k"
proof (induction k arbitrary: n)
  case 0
  then show ?case by (subst dec_nat.simps) simp
next
  case (Suc k)
  then have "n div 10 < 10 ^ Suc k" by (simp add: less_mult_imp_div_less mult.commute)
  with Suc.IH[of "n div 10"] show ?case by (subst dec_nat.simps) simp
qed

lemma year_text_digits:
  assumes "1 \<le> y" "y \<le> 9999"
  shows "list_all is_digit (year_text padded y)" "read_int (year_text padded y) = y" "length (year_text padded y) \<le> 4"
  using assms dec_nat_digits[of "nat y"] dec_nat_length[of "nat y" 3]
  by (auto simp: year_text_def Let_def read_int_nat read_nat_zeros read_nat_dec_nat is_digit_def list_all_iff)

lemma read_digits_append:
  assumes "length ds = n" "list_all is_digit ds"
  shows "read_digits n (ds @ r) = Some (read_int ds, r)"
  using assms by (simp add: read_digits_def)

lemma read_digits_short:
  assumes "length ds < n" "\<not> is_digit c"
  shows "read_digits n (ds @ c # r) = None"
proof -
  have "c \<in> set (take n (ds @ c # r))" using assms(1) by (cases "n - length ds") simp_all
  with assms(2) show ?thesis by (auto simp: read_digits_def list_all_iff)
qed

lemma two_digits_read:
  assumes "0 \<le> n" "n \<le> 99"
  shows "read_digits 2 (two_digits n @ r) = Some (n, r)"
proof -
  have "nat n div 10 < 10" "nat n mod 10 < 10" using assms by simp_all
  moreover have "10 * int (nat n div 10) + int (nat n mod 10) = n"
    using assms by (metis div_mult_mod_eq int_nat_eq mult.commute of_nat_add of_nat_mult of_nat_numeral)
  ultimately show ?thesis
    by (subst read_digits_append) (simp_all add: two_digits_def read_int_def)
qed

text \<open>A normalised timestamp and what its parser makes of it.\<close>

definition utc_tail :: "int \<times> int \<Rightarrow> int \<Rightarrow> string \<Rightarrow> string" where
  "utc_tail md rest fraction =
     ''-'' @ two_digits (fst md) @ ''-'' @ two_digits (snd md) @ ''T'' @ two_digits (rest div 3600)
     @ '':'' @ two_digits (rest div 60 mod 60) @ '':'' @ two_digits (rest mod 60)
     @ (if fraction = [] then [] else CHR ''.'' # fraction) @ ''Z''"

lemma utc_rfc3339_eq:
  "utc_rfc3339 padded value =
     bindE (parse_rfc3339_parts value) (\<lambda>(seconds, fraction).
       let (y, md) = date_of (seconds div 86400) in Inr (year_text padded y @ utc_tail md (seconds mod 86400) fraction))"
  by (simp add: utc_rfc3339_def utc_tail_def Let_def split_def)

lemma fraction_read:
  assumes "list_all is_digit fraction"
  shows "fraction_text ((if fraction = [] then [] else CHR ''.'' # fraction) @ ''Z'') = Some (fraction, ''Z'')"
proof -
  have "takeWhile is_digit (fraction @ ''Z'') = fraction" "dropWhile is_digit (fraction @ ''Z'') = ''Z''"
    using assms by (simp_all add: takeWhile_append2 dropWhile_append2 list_all_iff is_digit_def)
  then show ?thesis by (simp add: fraction_text_def)
qed

lemma utc_tail_fields:
  assumes "0 \<le> m" "m \<le> 12" "0 \<le> d" "d \<le> 31" "0 \<le> rest" "rest < 86400" "list_all is_digit fraction"
    and year: "read_digits 4 s = Some (y, utc_tail (m, d) rest fraction)"
  shows "timestamp_fields s = Some ((y, m, d), (rest div 3600, rest div 60 mod 60, rest mod 60), fraction, 0)"
proof -
  have small: "0 \<le> rest div 3600" "rest div 3600 \<le> 99" "0 \<le> rest div 60 mod 60" "rest div 60 mod 60 \<le> 99"
    "0 \<le> rest mod 60" "rest mod 60 \<le> 99"
    using assms(5,6) zdiv_mono1[of rest 86399 3600] pos_mod_bound[of 60 rest] pos_mod_bound[of 60 "rest div 60"]
    by (simp_all add: pos_imp_zdiv_nonneg_iff del: pos_mod_bound)
  have "expect c (c # r) = Some r" for c r by (simp add: expect_def)
  moreover have "read_offset ''Z'' = Some 0" by (simp add: read_offset_def)
  moreover have "m \<le> 99" "d \<le> 99" using assms(2,4) by simp_all
  note read = two_digits_read[OF assms(1) this(1)] two_digits_read[OF assms(3) this(2)]
    two_digits_read[OF small(1,2)] two_digits_read[OF small(3,4)] two_digits_read[OF small(5,6)]
  ultimately show ?thesis
    unfolding timestamp_fields_def year utc_tail_def
    by (simp only: bind.simps prod.case fst_conv snd_conv append_Cons append_Nil append_assoc read fraction_read[OF assms(7)])
qed

definition plain_fraction :: "string \<Rightarrow> bool" where
  "plain_fraction f = (list_all is_digit f \<and> rev (dropWhile (\<lambda>c. c = CHR ''0'') (rev f)) = f)"

lemma timestamp_fields_fraction:
  assumes "timestamp_fields s = Some (a, b, f, c)"
  shows "list_all is_digit f"
proof -
  have "list_all is_digit f" if "fraction_text r = Some (f, r')" for r r'
    using that by (auto simp: fraction_text_def list_all_iff dest: set_takeWhileD split: list.splits if_splits)
  then show ?thesis using assms by (auto simp: timestamp_fields_def Option.bind_eq_Some_conv)
qed

lemma parse_parts_Inr:
  assumes "parse_rfc3339_parts value = Inr (seconds, f)"
  shows "1 \<le> seconds div 86400" "seconds div 86400 \<le> last_day" "plain_fraction f"
proof -
  obtain a b g c where fields: "timestamp_fields value = Some (a, b, g, c)"
    and f: "f = rev (dropWhile (\<lambda>c. c = CHR ''0'') (rev g))"
    and days: "1 \<le> seconds div 86400" "seconds div 86400 \<le> last_day"
    using assms by (auto simp: parse_rfc3339_parts_def Let_def result_simps split: option.splits prod.splits)
  show "1 \<le> seconds div 86400" "seconds div 86400 \<le> last_day" by (fact days)+
  have "list_all is_digit g" using fields by (rule timestamp_fields_fraction)
  then show "plain_fraction f" by (auto simp: plain_fraction_def f list_all_iff dest: set_dropWhileD)
qed

lemma year_tail_read:
  assumes "1 \<le> y" "y \<le> 9999" "read_digits 4 (year_text padded y @ utc_tail md rest f) \<noteq> None"
  shows "read_digits 4 (year_text padded y @ utc_tail md rest f) = Some (y, utc_tail md rest f)"
proof (cases "length (year_text padded y) = 4")
  case True
  then show ?thesis using year_text_digits[OF assms(1,2)] by (simp add: read_digits_append)
next
  case False
  then have short: "length (year_text padded y) < 4" using year_text_digits(3)[OF assms(1,2), of padded] by simp
  obtain r where "utc_tail md rest f = CHR ''-'' # r" by (simp add: utc_tail_def)
  then have "read_digits 4 (year_text padded y @ utc_tail md rest f) = None"
    by (simp only:) (rule read_digits_short[OF short], simp add: is_digit_def)
  then show ?thesis using assms(3) by simp
qed

lemma last_Z: "last (utc_tail md rest f) = CHR ''Z''" "utc_tail md rest f \<noteq> []"
  by (simp_all add: utc_tail_def)

lemma parse_of_fields:
  assumes "timestamp_fields t = Some ((y, m, d), (h, mi, sec), f, 0)" "valid_date y m d" "h \<le> 23" "mi \<le> 59" "sec \<le> 59"
    "((ordinal y m d * 24 + h) * 60 + mi - 0) * 60 + sec = seconds"
    "1 \<le> seconds div 86400" "seconds div 86400 \<le> last_day" "plain_fraction f"
  shows "parse_rfc3339_parts t = Inr (seconds, f)"
  using assms(2-5,7-9) unfolding parse_rfc3339_parts_def assms(1) by (simp add: plain_fraction_def Let_def assms(6)[simplified])

lemma digits_plain: "list_all is_digit s \<Longrightarrow> list_all (\<lambda>c. \<not> control_char c) s"
  by (auto simp: list_all_iff is_digit_def control_char_def)

lemma two_digits_plain: "0 \<le> n \<Longrightarrow> n \<le> 99 \<Longrightarrow> list_all is_digit (two_digits n)"
  by (auto simp: two_digits_def intro!: is_digit_digit_char)

lemma marks_plain:
  "\<not> control_char (CHR ''-'')" "\<not> control_char (CHR ''T'')" "\<not> control_char (CHR '':'')"
  "\<not> control_char (CHR ''.'')" "\<not> control_char (CHR ''Z'')"
  by (simp_all add: control_char_def)

lemma utc_tail_plain:
  assumes "0 \<le> m" "m \<le> 12" "0 \<le> d" "d \<le> 31" "0 \<le> rest" "rest < 86400" "list_all is_digit f"
  shows "list_all (\<lambda>c. \<not> control_char c) (utc_tail (m, d) rest f)"
proof -
  have "rest div 3600 \<le> 23" using zdiv_mono1[of rest 86399 3600] assms(6) by simp
  moreover have "0 \<le> rest div 3600" using assms(5) by simp
  moreover have "rest div 60 mod 60 \<le> 59" "rest mod 60 \<le> 59" "0 \<le> rest div 60 mod 60" "0 \<le> rest mod 60"
    using pos_mod_bound[of 60 rest] pos_mod_bound[of 60 "rest div 60"] by simp_all
  ultimately show ?thesis
    using assms(1-4) by (simp add: utc_tail_def digits_plain[OF two_digits_plain] digits_plain[OF assms(7)] marks_plain)
qed

text \<open>A timestamp that \<open>_utc_rfc3339\<close> has written and the schema accepts is read back and written again.\<close>

lemma utc_rfc3339_stable:
  assumes utc: "utc_rfc3339 padded value = Inr t" and schema: "is_timestamp_text t"
  shows "utc_rfc3339 padded t = Inr t" "parse_rfc3339_parts t = parse_rfc3339_parts value" "list_all (\<lambda>c. \<not> control_char c) t"
proof -
  obtain seconds f where parts: "parse_rfc3339_parts value = Inr (seconds, f)"
    and t0: "(let (y, md) = date_of (seconds div 86400) in Inr (year_text padded y @ utc_tail md (seconds mod 86400) f))
      = (Inr t :: string growth)"
    using utc by (auto simp: utc_rfc3339_eq result_simps simp del: Let_def)
  obtain y m d where date: "date_of (seconds div 86400) = (y, m, d)" by (metis prod_cases3)
  let ?rest = "seconds mod 86400"
  have t: "t = year_text padded y @ utc_tail (m, d) ?rest f" using t0 by (simp add: date)
  note days = parse_parts_Inr[OF parts]
  note dates = date_of_sound[OF days(1,2) date]
  have y: "1 \<le> y" "y \<le> 9999" using dates(1,2) by (simp_all add: valid_date_def)
  have md: "0 \<le> m" "m \<le> 12" "0 \<le> d" "d \<le> 31"
  proof -
    have "l \<in> set (month_lengths y) \<Longrightarrow> l \<le> 31" for l by (auto simp: month_lengths_def)
    moreover have "month_lengths y ! nat (m - 1) \<in> set (month_lengths y)"
      using dates(1) by (intro nth_mem) (auto simp: valid_date_def month_lengths_def)
    ultimately show "0 \<le> m" "m \<le> 12" "0 \<le> d" "d \<le> 31" using dates(1) by (force simp: valid_date_def)+
  qed
  have rest: "0 \<le> ?rest" "?rest < 86400" by simp_all
  have digits: "list_all is_digit f" using days(3) by (simp add: plain_fraction_def)
  have "chomp t = t" using last_Z[of "(m, d)" ?rest f] by (simp add: t chomp_def)
  then have "timestamp_fields t \<noteq> None" using schema by (simp add: is_timestamp_text_def)
  then have "read_digits 4 t \<noteq> None" unfolding timestamp_fields_def by (cases "read_digits 4 t") simp_all
  then have year: "read_digits 4 t = Some (y, utc_tail (m, d) ?rest f)" unfolding t by (rule year_tail_read[OF y])
  have fields: "timestamp_fields t = Some ((y, m, d), (?rest div 3600, ?rest div 60 mod 60, ?rest mod 60), f, 0)"
    by (rule utc_tail_fields[OF md rest digits year])
  have clock: "?rest div 3600 \<le> 23" "?rest div 60 mod 60 \<le> 59" "?rest mod 60 \<le> 59"
    using zdiv_mono1[of ?rest 86399 3600] rest pos_mod_bound[of 60 ?rest] pos_mod_bound[of 60 "?rest div 60"] by simp_all
  have recount: "(x div 3600) * 3600 + (x div 60 mod 60) * 60 + x mod 60 = x" for x :: int
  proof -
    have "x div 3600 = x div 60 div 60" by (simp add: zdiv_zmult2_eq[symmetric])
    then show ?thesis using div_mult_mod_eq[of x 60] div_mult_mod_eq[of "x div 60" 60] by linarith
  qed
  have seconds: "((ordinal y m d * 24 + ?rest div 3600) * 60 + ?rest div 60 mod 60 - 0) * 60 + ?rest mod 60 = seconds"
  proof -
    obtain h mi sec day r where
      vars: "h = ?rest div 3600" "mi = ?rest div 60 mod 60" "sec = ?rest mod 60" "day = seconds div 86400" "r = ?rest" by simp
    have "h * 3600 + mi * 60 + sec = r" unfolding vars by (rule recount)
    moreover have "day * 86400 + r = seconds" unfolding vars by (rule div_mult_mod_eq)
    moreover have "ordinal y m d = day" unfolding vars by (fact dates(3))
    ultimately show ?thesis unfolding vars(1-4)[symmetric] by (simp add: algebra_simps vars(5))
  qed
  have parse: "parse_rfc3339_parts t = Inr (seconds, f)"
    by (rule parse_of_fields[OF fields dates(1) clock seconds days])
  show "parse_rfc3339_parts t = parse_rfc3339_parts value" by (simp only: parse parts)
  show "utc_rfc3339 padded t = Inr t" by (simp add: utc_rfc3339_eq parse date) (simp add: t)
  show "list_all (\<lambda>c. \<not> control_char c) t"
    unfolding t list_all_append using digits_plain[OF year_text_digits(1)[OF y]] utc_tail_plain[OF md rest digits] by simp
qed

end
