(* ===== verification/Growth_Normal.thy ===== *)
theory Growth_Normal
  imports Growth_Inbox Growth_Correct
begin

text \<open>
  The normal form of a growth request: normalising is idempotent, so a receipt built over a normal
  form validates, and the identities of a request do not depend on how it was written down.
\<close>

section \<open>Prose\<close>

lemma unix_lines_no_return: "CHR 0x0D \<notin> set (unix_lines s)"
  by (induction s rule: unix_lines.induct) auto

lemma unix_lines_id: "CHR 0x0D \<notin> set s \<Longrightarrow> unix_lines s = s"
  by (induction s rule: unix_lines.induct) auto

lemma unix_lines_idem [simp]: "unix_lines (unix_lines s) = unix_lines s"
  by (rule unix_lines_id) (rule unix_lines_no_return)

lemma normalize_prose_idem: "normalize_prose required v = Inr s \<Longrightarrow> normalize_prose required s = Inr s"
  by (auto simp: normalize_prose_def Let_def result_simps)

lemma normalize_evidence_idem: "normalize_evidence e = Inr f \<Longrightarrow> normalize_evidence f = Inr f"
  by (auto simp: normalize_evidence_def result_simps dest: normalize_prose_idem)

lemma normalize_evidence_fields:
  assumes "normalize_evidence e = Inr f"
  shows "item_kind f = item_kind e" "item_reference f = item_reference e" "item_revision f = item_revision e"
    "item_digest f = item_digest e" "item_availability f = item_availability e" "item_visibility f = item_visibility e"
  using assms by (auto simp: normalize_evidence_def result_simps)

section \<open>Control characters\<close>

definition has_mark :: "string \<Rightarrow> bool" where
  "has_mark s = list_ex (\<lambda>c. control_char c \<and> c \<noteq> CHR 0x09) s"

definition evidence_marked :: "growth_evidence \<Rightarrow> bool" where
  "evidence_marked e =
     (has_mark (item_kind e) \<or> has_mark (item_reference e) \<or> has_mark (item_revision e) \<or> has_mark (item_digest e)
      \<or> has_mark (item_availability e) \<or> has_mark (item_visibility e))"

lemma has_control_JStr:
  "field \<notin> {Some ''summary'', Some ''impact'', Some ''distillation''} \<Longrightarrow> has_control field (JStr s) = has_mark s"
  by (simp add: has_mark_def)

lemma has_control_strs:
  "field \<notin> {Some ''summary'', Some ''impact'', Some ''distillation''} \<Longrightarrow>
     has_control field (jstrs ss) = (\<exists>s\<in>set ss. has_mark s)"
  by (simp add: jstrs_def has_mark_def list_ex_iff)

lemma has_control_evidence: "has_control field (growth_evidence_json e) = evidence_marked e"
  by (auto simp: growth_evidence_json_def evidence_marked_def has_mark_def)

lemma has_control_request:
  "has_control None (growth_request_json r) =
     (has_control (Some ''source'') (growth_source_json (request_source r))
      \<or> has_control (Some ''task'') (growth_task_json (request_task r))
      \<or> has_mark (riskLevel r) \<or> has_mark (growth_trigger r) \<or> has_mark (projectGate r) \<or> has_mark (growth_verdict r)
      \<or> (\<exists>s\<in>set (reasonCodes r). has_mark s) \<or> (\<exists>s\<in>set (capabilityHints r). has_mark s)
      \<or> (\<exists>e\<in>set (growth_evidence_of r). evidence_marked e) \<or> has_mark (assessedAt r))"
proof -
  have versions: "\<not> has_mark ''growth-assessment-request/v1''" "\<not> has_mark ''growth-assessment-policy/v1''"
    by (simp_all add: has_mark_def control_char_def)
  have evidence: "has_control field (JArr (map growth_evidence_json es)) = (\<exists>e\<in>set es. evidence_marked e)" for field es
    by (simp add: list_ex_iff has_control_evidence)
  show ?thesis
    unfolding growth_request_json_def
    by (simp add: has_control_strs has_control_JStr evidence versions del: has_control.simps(2,3)) (simp add: has_mark_def)
qed

section \<open>The normal form\<close>

lemma distinct_map_sort [simp]: "distinct (map g (sort_key f xs)) = distinct (map g xs)"
  by (rule mset_eq_imp_distinct_iff) simp

text \<open>What normalisation yields, and of what.\<close>

lemma normalize_request_Inr:
  assumes "normalize_growth_assessment_request padded value = Inr n"
  obtains summary impact evidence assessed where
    "growth_request_schema n" "\<not> has_control None (growth_request_json value)"
    "normalize_prose True (growth_summary value) = Inr summary"
    "normalize_prose (growth_verdict value = ''SIGNAL'') (growth_impact value) = Inr impact"
    "mapE normalize_evidence (growth_evidence_of value) = Inr evidence"
    "utc_rfc3339 padded (assessedAt value) = Inr assessed"
    "distinct (map keyed_evidence_identity evidence)"
    "n = value\<lparr>growth_summary := summary, growth_impact := impact,
       reasonCodes := sort (reasonCodes value), capabilityHints := sort (capabilityHints value),
       growth_evidence_of := sort_key evidence_sort_key evidence, assessedAt := assessed\<rparr>"
  using assms unfolding normalize_growth_assessment_request_def
  by (auto simp: Let_def result_simps)

lemma normalize_request_idem:
  assumes "normalize_growth_assessment_request padded value = Inr n"
  shows "normalize_growth_assessment_request padded n = Inr n"
  using assms
proof (rule normalize_request_Inr)
  fix summary impact evidence assessed
  assume schema: "growth_request_schema n" and clean: "\<not> has_control None (growth_request_json value)"
    and prose: "normalize_prose True (growth_summary value) = Inr summary"
      "normalize_prose (growth_verdict value = ''SIGNAL'') (growth_impact value) = Inr impact"
    and evidence: "mapE normalize_evidence (growth_evidence_of value) = Inr evidence"
    and assessed: "utc_rfc3339 padded (assessedAt value) = Inr assessed"
    and keys: "distinct (map keyed_evidence_identity evidence)"
    and n: "n = value\<lparr>growth_summary := summary, growth_impact := impact,
       reasonCodes := sort (reasonCodes value), capabilityHints := sort (capabilityHints value),
       growth_evidence_of := sort_key evidence_sort_key evidence, assessedAt := assessed\<rparr>"
  have "is_timestamp_text assessed" using schema by (simp add: growth_request_schema_def n)
  note stable = utc_rfc3339_stable[OF assessed this]
  have item: "\<exists>e\<in>set (growth_evidence_of value). normalize_evidence e = Inr f" if "f \<in> set evidence" for f
    using evidence that by (rule mapE_set)
  have same: "mapE normalize_evidence (sort_key evidence_sort_key evidence) = Inr (sort_key evidence_sort_key evidence)"
    by (rule mapE_Inr_map[where g = id, simplified]) (auto dest!: item normalize_evidence_idem)
  have "\<not> evidence_marked f" if "f \<in> set evidence" for f
    using item[OF that] clean by (auto simp: has_control_request evidence_marked_def normalize_evidence_fields)
  moreover have "\<not> has_mark assessed" using stable(3) by (auto simp: has_mark_def list_ex_iff list_all_iff)
  ultimately have clean': "\<not> has_control None (growth_request_json n)"
    using clean by (auto simp: has_control_request n)
  show ?thesis
    unfolding normalize_growth_assessment_request_def
    using schema clean' prose[THEN normalize_prose_idem] same stable(1) keys
    by (simp add: n Let_def)
qed

lemma normalize_request_schema:
  "normalize_growth_assessment_request padded value = Inr n \<Longrightarrow> growth_request_schema n"
  by (erule normalize_request_Inr)

section \<open>Receipts over a normal form\<close>

lemma growth_receipt_schema_built:
  assumes "hex_digest sha" "growth_request_schema n"
  shows "growth_receipt_schema (build_growth_receipt sha n)"
  using assms
  by (simp add: growth_receipt_schema_def build_growth_receipt_def growth_assessment_key_def growth_assessment_id_def
      growth_request_digest_def is_stable_id_stable_id is_digest_sha256_json)

lemma verify_built: "verify_receipt_identities sha (build_growth_receipt sha n) n = Inr ()"
  by (simp add: verify_receipt_identities_def build_growth_receipt_def)

lemma validate_built:
  assumes "hex_digest sha" "normalize_growth_assessment_request padded value = Inr n"
  shows "validate_growth_receipt padded sha (build_growth_receipt sha n) = Inr (build_growth_receipt sha n)"
proof -
  have "assessment (build_growth_receipt sha n) = n" by (simp add: build_growth_receipt_def)
  then show ?thesis
    using growth_receipt_schema_built[OF assms(1) normalize_request_schema[OF assms(2)]]
      normalize_request_idem[OF assms(2)]
    by (simp add: validate_growth_receipt_def except_growth_def verify_built)
qed

end
