(* ===== verification/Growth_Records.thy ===== *)
theory Growth_Records
  imports Growth_Normal
begin

text \<open>
  What recording does to the inbox: every entry it adds is a receipt that validates under its name, no
  entry is ever changed or removed, and the recorded request is found again whatever is recorded after it.
\<close>

section \<open>Calls in a row\<close>

type_synonym growth_call = "inbox_world \<times> growth_request"

text \<open>Any number of calls of \<open>record\<close> on one inbox, refusals and failed publications included.\<close>

fun record_calls ::
    "bool \<Rightarrow> (string \<Rightarrow> string) \<Rightarrow> growth_call list \<Rightarrow> growth_inbox \<Rightarrow> growth_inbox" where
  "record_calls padded sha [] i = i"
| "record_calls padded sha ((w, request) # calls) i =
     record_calls padded sha calls (snd (record_growth padded sha w request i))"

section \<open>Entries\<close>

text \<open>An entry as \<open>record\<close> publishes it: a private regular file with the canonical text of a built receipt.\<close>

definition recorded_entry ::
    "bool \<Rightarrow> (string \<Rightarrow> string) \<Rightarrow> int \<Rightarrow> string \<times> file_stat \<times> inbox_doc \<Rightarrow> bool" where
  "recorded_entry padded sha uid e =
     (case e of
        (name, st, Receipt_Doc r) \<Rightarrow>
          st_kind st = Regular \<and> st_uid st = uid \<and> st_perms st = 384 \<and> length (receipt_bytes r) \<le> receipt_limit
          \<and> name = receipt_file (receipt_key r) \<and> r = build_growth_receipt sha (assessment r)
          \<and> normalize_growth_assessment_request padded (assessment r) = Inr (assessment r)
      | (_, _, Other_Doc _) \<Rightarrow> False)"

lemma recorded_entry_Receipt:
  "recorded_entry padded sha uid e \<Longrightarrow>
     \<exists>st n. e = (receipt_file (growth_assessment_key sha n), st, Receipt_Doc (build_growth_receipt sha n))
       \<and> st_kind st = Regular \<and> st_uid st = uid \<and> st_perms st = 384
       \<and> length (receipt_bytes (build_growth_receipt sha n)) \<le> receipt_limit
       \<and> normalize_growth_assessment_request padded n = Inr n"
  by (cases e) (auto simp: recorded_entry_def build_growth_receipt_def split: inbox_doc.splits; metis growth_receipt.select_convs(1))

lemma validated_built:
  assumes "hex_digest sha" "normalize_growth_assessment_request padded n = Inr n"
  shows "validated_receipt padded sha (receipt_file (growth_assessment_key sha n))
           (Receipt_Doc (build_growth_receipt sha n)) = Inr (build_growth_receipt sha n)"
  using validate_built[OF assms]
  by (simp add: validated_receipt_def except_growth_def) (simp add: build_growth_receipt_def)

lemma recorded_entry_validated:
  assumes "hex_digest sha" "recorded_entry padded sha uid (name, st, doc)"
  shows "\<exists>r. doc = Receipt_Doc r \<and> validated_receipt padded sha name doc = Inr r"
  using recorded_entry_Receipt[OF assms(2)] validated_built[OF assms(1)] by blast

section \<open>One call\<close>

lemma read_absent: "read_receipt_bytes w es name = Inr None \<Longrightarrow> map_of es name = None"
  by (auto simp: read_receipt_bytes_def result_simps split: option.splits)

lemma look_up_receipt_Inr:
  assumes "look_up_receipt padded sha w request i = Inr (r, found)"
  obtains n where "normalize_growth_assessment_request padded request = Inr n" "r = build_growth_receipt sha n"
    "length (receipt_bytes r) \<le> receipt_limit"
    "found = None \<Longrightarrow> map_of (inbox_entries i) (receipt_file (receipt_key r)) = None"
    "\<And>d. found = Some d \<Longrightarrow> growth_status d = DUPLICATE"
  using assms read_absent unfolding look_up_receipt_def
  by (auto simp: Let_def result_simps split: option.splits)

definition new_entry :: "inbox_world \<Rightarrow> growth_receipt \<Rightarrow> string \<times> file_stat \<times> inbox_doc" where
  "new_entry w r =
     (receipt_file (receipt_key r),
      \<lparr>st_dev = fst (fresh_inode w), st_ino = snd (fresh_inode w), st_kind = Regular,
       st_uid = inbox_uid w, st_perms = 384, st_nlink = 1\<rparr>, Receipt_Doc r)"

lemma publish_eq:
  "publish w (receipt_file (receipt_key r)) r i =
     (case publish_fault w of
        None \<Rightarrow> (Inr r, i\<lparr>inbox_entries := inbox_entries i @ [new_entry w r]\<rparr>)
      | Some left \<Rightarrow>
          (Inl state_unsafe,
           (if left then i\<lparr>inbox_entries := inbox_entries i @ [new_entry w r]\<rparr> else i)\<lparr>publication_uncertain := True\<rparr>))"
  unfolding publish_def new_entry_def Let_def by (rule refl)

lemma new_entry_recorded:
  assumes "normalize_growth_assessment_request padded request = Inr n" "r = build_growth_receipt sha n"
    "length (receipt_bytes r) \<le> receipt_limit"
  shows "recorded_entry padded sha (inbox_uid w) (new_entry w r)"
proof -
  have "assessment r = n" using assms(2) by (simp add: build_growth_receipt_def)
  then show ?thesis
    using assms normalize_request_idem[OF assms(1)] by (simp add: recorded_entry_def new_entry_def)
qed

text \<open>A call leaves the entries alone or appends one, under a name that was free.\<close>

lemma record_growth_entries:
  assumes "record_growth padded sha w request i = (result, i')"
  shows "inbox_entries i' = inbox_entries i
    \<or> (\<exists>e. inbox_entries i' = inbox_entries i @ [e] \<and> map_of (inbox_entries i) (fst e) = None
         \<and> recorded_entry padded sha (inbox_uid w) e)"
proof (cases "look_up_receipt padded sha w request i")
  case (Inl e)
  then show ?thesis using assms by (simp add: record_growth_def)
next
  case (Inr b)
  obtain r found where b: "b = (r, found)" by fastforce
  show ?thesis
  proof (cases found)
    case (Some d)
    then show ?thesis using assms by (simp add: record_growth_def Inr b)
  next
    case None
    obtain n where n: "normalize_growth_assessment_request padded request = Inr n" "r = build_growth_receipt sha n"
        "length (receipt_bytes r) \<le> receipt_limit"
      and free: "map_of (inbox_entries i) (fst (new_entry w r)) = None"
      using Inr unfolding b by (rule look_up_receipt_Inr) (use None in \<open>simp add: new_entry_def\<close>)
    have "(result, i') = publish w (receipt_file (receipt_key r)) r i"
      using assms by (simp add: record_growth_def Inr b None)
    then have "inbox_entries i' = inbox_entries i \<or> inbox_entries i' = inbox_entries i @ [new_entry w r]"
      by (auto simp: publish_eq split: option.splits if_splits)
    then show ?thesis using free new_entry_recorded[OF n, of w] by blast
  qed
qed

section \<open>Many calls\<close>

lemma record_calls_append:
  "record_calls padded sha (as @ bs) i = record_calls padded sha bs (record_calls padded sha as i)"
  by (induction "as" arbitrary: i) (auto split: prod.splits)

lemma record_calls_entries:
  assumes "list_all (\<lambda>(w, _). inbox_uid w = uid) calls"
  shows "\<exists>added. inbox_entries (record_calls padded sha calls i) = inbox_entries i @ added
    \<and> list_all (recorded_entry padded sha uid) added \<and> distinct (map fst added)
    \<and> fst ` set added \<inter> fst ` set (inbox_entries i) = {}"
  using assms
proof (induction calls arbitrary: i)
  case Nil
  then show ?case by simp
next
  case (Cons call calls)
  obtain w request where call: "call = (w, request)" by fastforce
  obtain result j where step: "record_growth padded sha w request i = (result, j)" by fastforce
  have uid: "inbox_uid w = uid" "list_all (\<lambda>(w, _). inbox_uid w = uid) calls" using Cons.prems by (simp_all add: call)
  obtain added where added: "inbox_entries (record_calls padded sha calls j) = inbox_entries j @ added"
      "list_all (recorded_entry padded sha uid) added" "distinct (map fst added)"
      "fst ` set added \<inter> fst ` set (inbox_entries j) = {}"
    using Cons.IH[OF uid(2), of j] by blast
  have run: "record_calls padded sha (call # calls) i = record_calls padded sha calls j" by (simp add: call step)
  show ?case using record_growth_entries[OF step]
  proof (elim disjE exE conjE)
    assume "inbox_entries j = inbox_entries i"
    then show ?thesis using added unfolding run by auto
  next
    fix e
    assume e: "inbox_entries j = inbox_entries i @ [e]" "map_of (inbox_entries i) (fst e) = None"
      "recorded_entry padded sha (inbox_uid w) e"
    have "inbox_entries (record_calls padded sha calls j) = inbox_entries i @ (e # added)" using added(1) e(1) by simp
    moreover have "list_all (recorded_entry padded sha uid) (e # added)" using added(2) e(3) uid(1) by simp
    moreover have "distinct (map fst (e # added))" using added(3,4) e(1) by auto
    moreover have "fst ` set (e # added) \<inter> fst ` set (inbox_entries i) = {}"
      using added(4) e(1,2) by (auto simp: map_of_eq_None_iff)
    ultimately show ?thesis unfolding run by blast
  qed
qed

lemma record_calls_kept:
  assumes "map_of (inbox_entries i) name = Some e"
  shows "map_of (inbox_entries (record_calls padded sha calls i)) name = Some e"
proof -
  have step: "map_of (inbox_entries j) name = Some e \<Longrightarrow>
      map_of (inbox_entries (snd (record_growth padded sha w request j))) name = Some e" for w request j
    using record_growth_entries[of padded sha w request j "fst (record_growth padded sha w request j)"
        "snd (record_growth padded sha w request j)"]
    by (auto simp: map_add_def)
  show ?thesis using assms
  proof (induction calls arbitrary: i)
    case (Cons call calls)
    then show ?case by (cases call) (simp add: step)
  qed simp
qed

section \<open>Recording again\<close>

text \<open>Nobody interferes and nothing fails.\<close>

definition quiet :: "int \<Rightarrow> inbox_world \<Rightarrow> bool" where
  "quiet uid w = (inbox_uid w = uid \<and> inbox_lock_free w \<and> publish_fault w = None)"

lemma read_recorded:
  assumes "map_of es name = Some (st, doc)" "recorded_entry padded sha uid (name, st, doc)"
    "inbox_uid w = uid" "before_open w es = es"
  shows "read_receipt_bytes w es name = Inr (Some doc)"
  using assms
  by (auto simp: read_receipt_bytes_def recorded_entry_def safe_entry_def raise_if_def split: inbox_doc.splits)

lemma record_growth_fresh:
  assumes "record_growth padded sha w request i = (Inr r, i')" "growth_status r = RECORDED"
    "normalize_growth_assessment_request padded request = Inr n"
  shows "r = build_growth_receipt sha n" "map_of (inbox_entries i') (receipt_file (receipt_key r)) = Some (snd (new_entry w r))"
    "recorded_entry padded sha (inbox_uid w) (new_entry w r)"
proof -
  obtain r0 found where look: "look_up_receipt padded sha w request i = Inr (r0, found)"
    using assms(1) by (auto simp: record_growth_def split: sum.splits)
  have facts: "r0 = build_growth_receipt sha n" "length (receipt_bytes r0) \<le> receipt_limit"
    "found = None \<Longrightarrow> map_of (inbox_entries i) (receipt_file (receipt_key r0)) = None"
    "found = Some d \<Longrightarrow> growth_status d = DUPLICATE" for d
    using look by (rule look_up_receipt_Inr, use assms(3) in simp)+
  have none: "found = None"
    using assms(1,2) facts(4) by (cases found) (auto simp: record_growth_def look)
  have pub: "publish w (receipt_file (receipt_key r0)) r0 i = (Inr r, i')"
    using assms(1) by (simp add: record_growth_def look none)
  then have r: "r = r0" and i': "inbox_entries i' = inbox_entries i @ [new_entry w r0]"
    by (auto simp: publish_eq split: option.splits if_splits)
  show "r = build_growth_receipt sha n" using facts(1) r by simp
  show "map_of (inbox_entries i') (receipt_file (receipt_key r)) = Some (snd (new_entry w r))"
    using facts(3)[OF none] by (simp add: i' r map_add_def) (simp add: new_entry_def)
  show "recorded_entry padded sha (inbox_uid w) (new_entry w r)"
    unfolding r by (rule new_entry_recorded[OF assms(3) facts(1,2)])
qed

lemma record_growth_again:
  assumes "hex_digest sha" "normalize_growth_assessment_request padded request = Inr n"
    and entry: "map_of (inbox_entries i) (receipt_file (growth_assessment_key sha n))
        = Some (st, Receipt_Doc (build_growth_receipt sha n))"
      "recorded_entry padded sha uid (receipt_file (growth_assessment_key sha n), st, Receipt_Doc (build_growth_receipt sha n))"
    and w: "quiet uid w" "before_open w (inbox_entries i) = inbox_entries i" "\<not> publication_uncertain i"
  shows "record_growth padded sha w request i = (Inr ((build_growth_receipt sha n)\<lparr>growth_status := DUPLICATE\<rparr>), i)"
proof -
  let ?r = "build_growth_receipt sha n"
  have key: "receipt_key ?r = growth_assessment_key sha n" by (simp add: build_growth_receipt_def)
  have read: "read_receipt_bytes w (inbox_entries i) (receipt_file (growth_assessment_key sha n)) = Inr (Some (Receipt_Doc ?r))"
    using entry w by (intro read_recorded[where uid = uid]) (auto simp: quiet_def)
  have small: "length (receipt_bytes ?r) \<le> receipt_limit" using entry(2) by (simp add: recorded_entry_def)
  show ?thesis
    using assms(2) read small w validated_built[OF assms(1) normalize_request_idem[OF assms(2)]]
    by (simp add: record_growth_def look_up_receipt_def Let_def key raise_if_def inbox_locked_def quiet_def)
qed

end
