(* ===== verification/Growth_Scan.thy ===== *)
theory Growth_Scan
  imports Growth_Records
begin

text \<open>
  A scan over what was recorded: every entry becomes the record of its receipt, the report fits its
  schema and its gate passes.
\<close>

section \<open>Names\<close>

lemma key_name:
  assumes "hex_digest sha"
  shows "receipt_file (growth_assessment_key sha n) = take 24 (sha (canonical_json_bytes (growth_key_payload n))) @ ''.json''"
    "is_receipt_name (receipt_file (growth_assessment_key sha n))"
proof -
  show name: "receipt_file (growth_assessment_key sha n) = take 24 (sha (canonical_json_bytes (growth_key_payload n))) @ ''.json''"
    using partition_on_append[of "CHR '':''" "''growth-key''"]
    by (simp add: receipt_file_def growth_assessment_key_def stable_id_def)
  have "length (take 24 (sha (canonical_json_bytes (growth_key_payload n)))) = 24"
    "list_all is_hex (take 24 (sha (canonical_json_bytes (growth_key_payload n))))"
    using hex_digest_text[OF assms] by (auto simp: is_hex_text_def list_all_iff dest: in_set_takeD)
  then show "is_receipt_name (receipt_file (growth_assessment_key sha n))"
    by (simp add: name is_receipt_name_def is_hex_text_def)
qed

section \<open>One entry\<close>

text \<open>The receipt of a recorded entry.\<close>

fun entry_receipt :: "string \<times> file_stat \<times> inbox_doc \<Rightarrow> growth_receipt option" where
  "entry_receipt (_, _, Receipt_Doc r) = Some r"
| "entry_receipt (_, _, Other_Doc _) = None"

definition entry_record :: "string \<times> file_stat \<times> inbox_doc \<Rightarrow> scan_record" where
  "entry_record e = scan_record_of (the (entry_receipt e))"

text \<open>Not assessed after the instant.\<close>

definition seen_by :: "int \<times> string \<Rightarrow> string \<times> file_stat \<times> inbox_doc \<Rightarrow> bool" where
  "seen_by instant e =
     (case entry_receipt e of
        None \<Rightarrow> False
      | Some r \<Rightarrow>
          (case parse_rfc3339_parts (assessedAt (assessment r)) of
             Inl _ \<Rightarrow> False
           | Inr assessed \<Rightarrow> \<not> later_than assessed instant))"

lemma scan_entry_recorded:
  assumes sha: "hex_digest sha" and e: "e \<in> set es" "recorded_entry padded sha uid e" and es: "distinct (map fst es)"
    and w: "inbox_uid w = uid" "before_open w es = es" and seen: "seen_by instant e"
  shows "scan_entry padded sha w es instant (fst e) = Inr (entry_record e)"
proof -
  obtain st n where entry: "e = (receipt_file (growth_assessment_key sha n), st, Receipt_Doc (build_growth_receipt sha n))"
    and norm: "normalize_growth_assessment_request padded n = Inr n"
    using recorded_entry_Receipt[OF e(2)] by blast
  let ?name = "receipt_file (growth_assessment_key sha n)" and ?r = "build_growth_receipt sha n"
  have "map_of es ?name = Some (st, Receipt_Doc ?r)" using e(1) es by (simp add: entry)
  then have read: "read_receipt_bytes w es ?name = Inr (Some (Receipt_Doc ?r))"
    by (rule read_recorded) (use e(2) w entry in simp_all)
  obtain assessed where "parse_rfc3339_parts (assessedAt (assessment ?r)) = Inr assessed" "\<not> later_than assessed instant"
    using seen by (auto simp: seen_by_def entry split: sum.splits)
  then show ?thesis
    by (simp add: scan_entry_def entry key_name(2)[OF sha] read validated_built[OF sha norm] entry_record_def raise_if_def)
qed

lemma narrowest_in: "narrowest vs = ''NONE'' \<or> narrowest vs \<in> set vs"
  by (induction vs rule: narrowest.induct) (auto split: if_splits)

lemma harness_project: "is_project_id ''agent-evolution-harness''"
  by code_simp

lemma scan_record_fits:
  assumes "hex_digest sha" "growth_request_schema n"
  shows "scan_record_schema (scan_record_of (build_growth_receipt sha n))"
proof -
  have project: "is_project_id (source_project (request_source n))" "source_kind (request_source n) \<in> {''REGISTERED_PROJECT'', ''HARNESS_SELF''}"
    using assms(2) harness_project by (cases "request_source n"; simp add: growth_request_schema_def)+
  define V where "V = {''PRIVATE'', ''PROJECT'', ''SHARED'', ''PUBLIC''}"
  have "item_visibility e \<in> V" if "e \<in> set (growth_evidence_of n)" for e
  proof -
    have "growth_evidence_schema e" using assms(2) that unfolding growth_request_schema_def list_all_iff by blast
    then show ?thesis unfolding growth_evidence_schema_def V_def by blast
  qed
  then have "narrowest (map item_visibility (growth_evidence_of n)) \<in> insert ''NONE'' V"
    using narrowest_in[of "map item_visibility (growth_evidence_of n)"] by (auto simp del: narrowest.simps)
  then have visibility: "narrowest (map item_visibility (growth_evidence_of n)) \<in> {''NONE'', ''PRIVATE'', ''PROJECT'', ''SHARED'', ''PUBLIC''}"
    unfolding V_def .
  have built: "receipt_key (build_growth_receipt sha n) = growth_assessment_key sha n"
    "receipt_assessmentId (build_growth_receipt sha n) = growth_assessment_id sha n"
    "requestDigest (build_growth_receipt sha n) = growth_request_digest sha n" "assessment (build_growth_receipt sha n) = n"
    by (simp_all add: build_growth_receipt_def)
  have ids: "is_stable_id ''growth-key'' (growth_assessment_key sha n)"
    "is_stable_id ''growth-assessment'' (growth_assessment_id sha n)" "is_digest (growth_request_digest sha n)"
    using assms(1) by (simp_all only: growth_assessment_key_def growth_assessment_id_def growth_request_digest_def
      is_stable_id_stable_id is_digest_sha256_json)
  have fields: "riskLevel n \<in> {''R1'', ''R2''}" "growth_trigger n \<in> set (triggers_for (riskLevel n))"
    "growth_verdict n \<in> {''SIGNAL'', ''NO_SIGNAL''}" "length (capabilityHints n) \<le> 20" "distinct (capabilityHints n)"
    "list_all is_capability_id (capabilityHints n)"
    using assms(2) by (simp_all add: growth_request_schema_def)
  show ?thesis
    unfolding scan_record_of_def Let_def built scan_record_schema.simps
    by (intro conjI) (fact ids project visibility fields refl)+
qed

lemma entry_record_recorded:
  assumes "hex_digest sha" "recorded_entry padded sha uid e"
  shows "scan_record_schema (entry_record e)" "record_verdict (entry_record e) \<noteq> None"
    "\<exists>k i d p s r t v c h q. entry_record e = Valid_Record k i d p s r t v c h q \<and> receipt_file k = fst e"
proof -
  obtain st n where e: "e = (receipt_file (growth_assessment_key sha n), st, Receipt_Doc (build_growth_receipt sha n))"
    and norm: "normalize_growth_assessment_request padded n = Inr n"
    using recorded_entry_Receipt[OF assms(2)] by blast
  have entry: "entry_record e = scan_record_of (build_growth_receipt sha n)" by (simp add: e entry_record_def)
  show "scan_record_schema (entry_record e)"
    unfolding entry by (rule scan_record_fits[OF assms(1) normalize_request_schema[OF norm]])
  show "record_verdict (entry_record e) \<noteq> None" by (simp add: entry scan_record_of_def Let_def)
  show "\<exists>k i d p s r t v c h q. entry_record e = Valid_Record k i d p s r t v c h q \<and> receipt_file k = fst e"
    unfolding entry scan_record_of_def Let_def by (auto simp: e build_growth_receipt_def)
qed

section \<open>The report\<close>

fun record_key :: "scan_record \<Rightarrow> string" where
  "record_key (Invalid_Record d _) = d"
| "record_key (Valid_Record k _ _ _ _ _ _ _ _ _ _) = k"

lemma records_distinct:
  assumes "hex_digest sha" "list_all (recorded_entry padded sha uid) es" "distinct (map fst es)"
  shows "distinct (map entry_record es)"
proof -
  have "receipt_file (record_key (entry_record e)) = fst e" if "e \<in> set es" for e
    using entry_record_recorded(3)[OF assms(1), of padded uid e] assms(2) that by (auto simp: list_all_iff)
  then have "map (receipt_file \<circ> record_key) (map entry_record es) = map fst es" by simp
  then have "distinct (map (receipt_file \<circ> record_key) (map entry_record es))" using assms(3) by (simp only:)
  then show ?thesis by (simp only: distinct_map)
qed

lemma utc_text_schema:
  assumes "utc_rfc3339 padded value = Inr t" "parse_rfc3339_parts t = Inr instant"
  shows "is_timestamp_text t"
proof -
  have "last t = CHR ''Z'' \<and> t \<noteq> []"
    using assms(1) by (auto simp: utc_rfc3339_eq result_simps split_def Let_def last_Z)
  then have "chomp t = t" by (simp add: chomp_def)
  moreover have "timestamp_fields t \<noteq> None" using assms(2) by (cases "timestamp_fields t") (simp_all add: parse_rfc3339_parts_def)
  ultimately show ?thesis by (simp add: is_timestamp_text_def)
qed

text \<open>The counts partition the records.\<close>

lemma scan_report_counts:
  "signal_count (scan_report_of sha root t records) + no_signal_count (scan_report_of sha root t records)
     + invalid_count (scan_report_of sha root t records) = length records"
  "invalid_count (scan_report_of sha root t records) = length (filter (\<lambda>r. record_verdict r = None) records)"
  "(report_gate (scan_report_of sha root t records) = ''PASS'') = (\<forall>r\<in>set records. record_verdict r \<noteq> None)"
proof -
  have split: "length (filter (\<lambda>r. record_verdict r = Some ''SIGNAL'') rs)
      + length (filter (\<lambda>r. record_verdict r \<noteq> None \<and> record_verdict r \<noteq> Some ''SIGNAL'') rs)
      + length (filter (\<lambda>r. record_verdict r = None) rs) = length rs" for rs
    by (induction rs) auto
  show "signal_count (scan_report_of sha root t records) + no_signal_count (scan_report_of sha root t records)
     + invalid_count (scan_report_of sha root t records) = length records"
    using split[of records] by (simp add: scan_report_of_def Let_def)
  show invalid: "invalid_count (scan_report_of sha root t records) = length (filter (\<lambda>r. record_verdict r = None) records)"
    using split[of records] by (simp add: scan_report_of_def Let_def)
  have "(report_gate (scan_report_of sha root t records) = ''PASS'') = (invalid_count (scan_report_of sha root t records) = 0)"
    by (simp add: scan_report_of_def Let_def)
  then show "(report_gate (scan_report_of sha root t records) = ''PASS'') = (\<forall>r\<in>set records. record_verdict r \<noteq> None)"
    by (simp only: invalid) (simp add: filter_empty_conv)
qed

lemma scan_report_fields:
  "report_asOf (scan_report_of sha root t records) = t"
  "stateRootIdentity (scan_report_of sha root t records) = ''sha256:'' @ sha (''growth-state-root/v1'' @ nul # root)"
  "report_records (scan_report_of sha root t records) = sort_key scan_sort_key records"
  "signal_count (scan_report_of sha root t records) = length (filter (\<lambda>r. record_verdict r = Some ''SIGNAL'') records)"
  by (simp_all add: scan_report_of_def Let_def)

lemma scan_recorded:
  assumes sha: "hex_digest sha" and es: "list_all (recorded_entry padded sha uid) es" "distinct (map fst es)"
    "length es \<le> scan_limit" and w: "quiet uid w" "before_open w es = es"
    and instant: "utc_rfc3339 padded as_of = Inr t" "parse_rfc3339_parts t = Inr instant" and seen: "list_all (seen_by instant) es"
  shows "scan_inbox padded sha w root as_of es = Inr (scan_report_of sha root t (map entry_record es))"
    "report_gate (scan_report_of sha root t (map entry_record es)) = ''PASS''"
proof -
  let ?records = "map entry_record es" and ?report = "scan_report_of sha root t (map entry_record es)"
  have item: "recorded_entry padded sha uid e" "seen_by instant e" if "e \<in> set es" for e
    using es(1) seen that by (simp_all add: list_all_iff)
  have "scan_entry padded sha w es instant (fst e) = Inr (entry_record e)" if "e \<in> set es" for e
    using that item[OF that] es(2) w by (intro scan_entry_recorded[OF sha]) (auto simp: quiet_def)
  then have "list_all2 (\<lambda>name r. scan_entry padded sha w es instant name = Inr r) (map fst es) ?records"
    by (simp add: list_all2_conv_all_nth)
  then have records: "mapE (scan_entry padded sha w es instant) (dict_keys es) = Inr ?records"
    by (simp add: mapE_eq_Inr dict_keys_def)
  have "record_verdict r \<noteq> None" if r: "r \<in> set ?records" for r
  proof -
    obtain e where "e \<in> set es" "r = entry_record e" using r by (auto simp del: split_paired_Ex)
    then show ?thesis using entry_record_recorded(2)[OF sha item(1)] by simp
  qed
  then show gate: "report_gate ?report = ''PASS''" by (simp only: scan_report_counts(3)) blast
  have "is_digest (stateRootIdentity ?report)"
    using hex_digest_text[OF sha] chomp_hex[OF hex_digest_text[OF sha], of "''sha256:''"]
    by (simp add: scan_report_fields is_digest_def has_prefix_def)
  moreover have "list_all scan_record_schema (report_records ?report)"
    using entry_record_recorded(1)[OF sha item(1)] by (auto simp: scan_report_fields list_all_iff)
  moreover have "distinct (report_records ?report)" using records_distinct[OF sha es(1,2)] by (simp add: scan_report_fields)
  ultimately have schema: "scan_report_schema ?report"
    using utc_text_schema[OF instant] es(3) scan_report_counts(1)[of sha root t ?records]
    by (simp add: scan_report_schema_def) (simp add: scan_report_fields)
  show "scan_inbox padded sha w root as_of es = Inr ?report"
    using schema es(3) w by (simp add: scan_inbox_def instant records Let_def inbox_locked_def quiet_def raise_if_def)
qed

end
