(* ===== verification/Growth_Sample.thy ===== *)
theory Growth_Sample
  imports Growth_Scan
begin

text \<open>
  A finding of the harness about itself, written down twice in different ways; the size of its receipt;
  the inbox it is recorded in.
\<close>

section \<open>A sample\<close>

definition growth_sha :: "string \<Rightarrow> string" where
  "growth_sha _ = replicate 64 (CHR ''a'')"

definition hex_run :: "nat \<Rightarrow> string" where
  "hex_run n = replicate n (CHR ''b'')"

text \<open>The same finding, as it is first written down and as it is written down the second time.\<close>

definition growth_finding :: "string \<Rightarrow> string list \<Rightarrow> string \<Rightarrow> growth_request" where
  "growth_finding summary codes at =
     \<lparr>request_source = Harness_Self ''CODEX'' (hex_run 40, hex_run 40),
      request_task = \<lparr>task_taskId = ''T-1'', task_attemptId = ''A-1'', task_gateId = ''G-1'', task_candidate = None\<rparr>,
      riskLevel = ''R1'', growth_trigger = ''REPEATED_FRICTION'', projectGate = ''PASS'', growth_verdict = ''SIGNAL'',
      reasonCodes = codes, growth_summary = summary, growth_impact = ''slow'', capabilityHints = [''skill:a:b''],
      growth_evidence_of = [\<lparr>item_kind = ''OTHER'', item_reference = ''docs/a.md'', item_revision = ''r1'',
        item_digest = ''sha256:'' @ hex_run 64, item_availability = ''REPLAYABLE'', item_visibility = ''PROJECT'',
        item_distillation = ''seen''\<rparr>],
      assessedAt = at\<rparr>"

definition first_finding :: growth_request where
  "first_finding = growth_finding (''a'' @ [CHR 0x0D, CHR 0x0A] @ ''b'') [''CAPABILITY_MISMATCH'', ''CAPABILITY_GAP''] ''2024-03-01T01:30:00.50+02:00''"

definition second_finding :: growth_request where
  "second_finding = growth_finding (''a'' @ [CHR 0x0D] @ ''b'') [''CAPABILITY_GAP'', ''CAPABILITY_MISMATCH''] ''2024-02-29T23:30:00.5Z''"

definition normal_finding :: growth_request where
  "normal_finding = growth_finding (''a'' @ [CHR 0x0A] @ ''b'') [''CAPABILITY_GAP'', ''CAPABILITY_MISMATCH''] ''2024-02-29T23:30:00.5Z''"

definition calm :: inbox_world where
  "calm = \<lparr>inbox_uid = 1000, inbox_lock_free = True, before_open = (\<lambda>es. es), fresh_inode = (1, 7), publish_fault = None\<rparr>"

definition empty_inbox :: growth_inbox where
  "empty_inbox = \<lparr>inbox_entries = [], publication_uncertain = False\<rparr>"

lemma growth_sha_hex: "hex_digest growth_sha"
proof -
  have "is_hex (CHR ''a'')" by code_simp
  then show ?thesis by (simp add: hex_digest_def growth_sha_def list_all_iff)
qed

lemma first_normal: "normalize_growth_assessment_request True first_finding = Inr normal_finding"
  by code_simp

lemma second_normal: "normalize_growth_assessment_request True second_finding = Inr normal_finding"
  by code_simp

text \<open>A bound on the length of a canonical text, by the lengths of its strings.\<close>

fun json_bound :: "json \<Rightarrow> nat" where
  "json_bound (JStr s) = 2 + 6 * length s"
| "json_bound (JArr vs) = 2 + sum_list (map (\<lambda>v. 1 + json_bound v) vs)"
| "json_bound (JObj kvs) = 2 + sum_list (map (\<lambda>kv. 4 + 6 * length (fst kv) + json_bound (snd kv)) kvs)"
| "json_bound v = length (render v)"

lemma length_escape: "length (escape_char c) \<le> 6"
  by (simp add: escape_char_def)

lemma length_quote: "length (quote s) \<le> 2 + 6 * length s"
proof -
  have "length (concat (map escape_char s)) \<le> 6 * length s"
    by (induction s) (use length_escape in \<open>auto simp: add_mono\<close>)
  then show ?thesis by (simp add: quote_def)
qed

lemma length_join_bound: "length (join c ss) \<le> sum_list (map (\<lambda>s. 1 + length s) ss)"
  by (induction ss rule: induct_list012) auto

lemma length_render: "length (render v) \<le> json_bound v"
proof (induction v)
  case (JStr s)
  show ?case using length_quote by simp
next
  case (JArr vs)
  then have "sum_list (map (\<lambda>s. 1 + length s) (map render vs)) \<le> sum_list (map (\<lambda>v. 1 + json_bound v) vs)"
    by (auto simp: comp_def intro!: sum_list_mono)
  then show ?case using length_join_bound[of "CHR '',''" "map render vs"] by simp
next
  case (JObj kvs)
  let ?text = "\<lambda>kv. quote (fst kv) @ CHR '':'' # render (snd kv)"
  have "sum_list (map (\<lambda>s. 1 + length s) (map ?text kvs))
      \<le> sum_list (map (\<lambda>kv. 4 + 6 * length (fst kv) + json_bound (snd kv)) kvs)"
    unfolding map_map
  proof (rule sum_list_mono)
    fix kv assume "kv \<in> set kvs"
    then have "length (render (snd kv)) \<le> json_bound (snd kv)" using JObj.IH[of kv "snd kv"] by (simp add: prod_set_defs)
    then show "((\<lambda>s. 1 + length s) \<circ> ?text) kv \<le> 4 + 6 * length (fst kv) + json_bound (snd kv)"
      using length_quote[of "fst kv"] by simp
  qed
  then show ?case using length_join_bound[of "CHR '',''" "map ?text kvs"] by simp
qed simp_all

lemma json_bound_canon: "json_bound (canon_form v) = json_bound v"
proof (induction v)
  case (JArr vs)
  then have "map (json_bound \<circ> canon_form) vs = map json_bound vs" by simp
  then show ?case by (simp add: comp_def) (metis (mono_tags, lifting) JArr map_eq_conv)
next
  case (JObj kvs)
  have sums: "sum_list (map f (sort_key g xs)) = sum_list (map f xs)" for f :: "string \<times> json \<Rightarrow> nat" and g :: "string \<times> json \<Rightarrow> string" and xs
    by (metis mset_map mset_sort sum_mset_sum_list)
  have "map (\<lambda>kv. 4 + 6 * length (fst kv) + json_bound (canon_form (snd kv))) kvs
      = map (\<lambda>kv. 4 + 6 * length (fst kv) + json_bound (snd kv)) kvs"
    by (rule map_cong[OF refl]) (simp add: JObj.IH prod_set_defs)
  note same = arg_cong[OF this, of sum_list]
  have "json_bound (canon_form (JObj kvs))
      = 2 + sum_list (map (\<lambda>kv. 4 + 6 * length (fst kv) + json_bound (canon_form (snd kv))) kvs)"
    by (simp add: sums comp_def)
  then show ?case by (simp only: same json_bound.simps)
qed simp_all

lemma canonical_length: "length (canonical_json_bytes v) \<le> json_bound v"
  using length_render[of "canon_form v"] by (simp add: canonical_json_bytes_def json_bound_canon)

lemma normal_size: "length (receipt_bytes (build_growth_receipt growth_sha normal_finding)) \<le> receipt_limit"
proof -
  have "json_bound (growth_receipt_json (build_growth_receipt growth_sha normal_finding)) < receipt_limit"
    by (simp add: growth_receipt_json_def build_growth_receipt_def growth_request_json_def normal_finding_def
        growth_finding_def growth_source_json.simps growth_task_json_def growth_evidence_json_def revision_of_json_def
        growth_assessment_key_def growth_assessment_id_def growth_request_digest_def stable_id_def sha256_json_def
        growth_sha_def hex_run_def jstrs_def receipt_status_str_def)
  then show ?thesis
    using canonical_length[of "growth_receipt_json (build_growth_receipt growth_sha normal_finding)"]
    by (simp add: receipt_bytes_def)
qed

section \<open>The inbox with the finding\<close>

abbreviation finding_receipt :: growth_receipt where
  "finding_receipt \<equiv> build_growth_receipt growth_sha normal_finding"

definition finding_inbox :: growth_inbox where
  "finding_inbox = empty_inbox\<lparr>inbox_entries := [new_entry calm finding_receipt]\<rparr>"

definition busy :: inbox_world where
  "busy = calm\<lparr>inbox_lock_free := False\<rparr>"

lemma first_recorded: "record_growth True growth_sha calm first_finding empty_inbox = (Inr finding_receipt, finding_inbox)"
proof -
  have "look_up_receipt True growth_sha calm first_finding empty_inbox = Inr (finding_receipt, None)"
    using normal_size
    by (simp add: look_up_receipt_def first_normal Let_def raise_if_def inbox_locked_def read_receipt_bytes_def empty_inbox_def)
      (simp add: calm_def)
  moreover have "publish_fault calm = None" by (simp add: calm_def)
  ultimately show ?thesis
    by (simp add: record_growth_def publish_eq finding_inbox_def) (simp add: empty_inbox_def)
qed

lemma busy_refused: "record_growth True growth_sha busy second_finding i = (r, j) \<Longrightarrow> j = i"
  by (auto simp: record_growth_def look_up_receipt_def second_normal Let_def raise_if_def inbox_locked_def busy_def
      split: if_splits)

lemma busy_inbox: "snd (record_growth True growth_sha busy second_finding i) = i"
  using busy_refused[of i "fst (record_growth True growth_sha busy second_finding i)"
    "snd (record_growth True growth_sha busy second_finding i)"] by simp

lemma calm_quiet: "quiet 1000 calm" "before_open calm es = es" "inbox_uid calm = 1000"
  by (simp_all add: quiet_def calm_def)

lemma finding_inbox_entries:
  "inbox_entries finding_inbox = [new_entry calm finding_receipt]" "\<not> publication_uncertain finding_inbox"
  by (simp_all add: finding_inbox_def empty_inbox_def)

lemma finding_time: "parse_rfc3339_parts (assessedAt normal_finding) = Inr (63844932600, ''5'')"
  by code_simp

lemma scan_time: "utc_rfc3339 True ''2024-03-01T00:00:00Z'' = Inr ''2024-03-01T00:00:00Z''"
  "parse_rfc3339_parts ''2024-03-01T00:00:00Z'' = Inr (63844934400, [])"
  by code_simp+

lemma finding_seen: "list_all (seen_by (63844934400, [])) (inbox_entries finding_inbox)"
proof -
  have "assessment finding_receipt = normal_finding" by (simp add: build_growth_receipt_def)
  then show ?thesis by (simp add: finding_inbox_entries seen_by_def new_entry_def finding_time later_than_def)
qed

end
