(* ===== verification/Growth_Properties.thy ===== *)
theory Growth_Properties
  imports Growth_Sample
begin

text \<open>
  The properties of the inbox: recording again, the receipts that are only ever added, and the scan over them.
\<close>

text \<open>C29: Once a request has been recorded, recording any request with the same normal form in an inbox
  that any calls have gone over since, and that is not marked uncertain, returns the receipt of the first
  call as a duplicate and leaves the inbox as it is.\<close>

theorem growth_record_idempotent:
  assumes "hex_digest sha"
    and "record_growth padded sha w request i = (Inr r, recorded)" "growth_status r = RECORDED"
    and "normalize_growth_assessment_request padded request = Inr n" "normalize_growth_assessment_request padded again = Inr n"
    and "record_calls padded sha calls recorded = later" "\<not> publication_uncertain later"
    and "quiet (inbox_uid w) w'" "before_open w' (inbox_entries later) = inbox_entries later"
  shows "record_growth padded sha w' again later = (Inr (r\<lparr>growth_status := DUPLICATE\<rparr>), later)"
proof -
  note fresh = record_growth_fresh[OF assms(2,3,4)]
  have key: "receipt_key r = growth_assessment_key sha n" by (simp add: fresh(1) build_growth_receipt_def)
  obtain st where entry: "new_entry w r = (receipt_file (growth_assessment_key sha n), st, Receipt_Doc r)"
    using key by (simp add: new_entry_def)
  have "map_of (inbox_entries later) (receipt_file (growth_assessment_key sha n)) = Some (st, Receipt_Doc r)"
    using record_calls_kept[OF fresh(2), of padded sha calls] by (simp add: assms(6) key entry)
  then show ?thesis
    using record_growth_again[OF assms(1,5) _ _ assms(8,9,7), of st] fresh(3) entry fresh(1) by simp
qed

theorem growth_record_idempotent_witness:
  "record_growth True growth_sha calm second_finding (record_calls True growth_sha [(busy, second_finding)] finding_inbox)
     = (Inr (finding_receipt\<lparr>growth_status := DUPLICATE\<rparr>), record_calls True growth_sha [(busy, second_finding)] finding_inbox)"
  by (rule growth_record_idempotent[OF growth_sha_hex first_recorded _ first_normal second_normal refl])
    (simp_all add: busy_inbox finding_inbox_entries calm_quiet, simp add: build_growth_receipt_def)

text \<open>C30: The inbox is append only: whatever is recorded, refused or left by a failed publication, the
  entries of before stay as they are and in place, and every entry added is under a name of its own that was
  free and holds a receipt that validates under that name.\<close>

theorem growth_inbox_append_only:
  assumes "hex_digest sha" "list_all (\<lambda>(w, _). inbox_uid w = uid) calls"
  shows "\<exists>added. inbox_entries (record_calls padded sha calls i) = inbox_entries i @ added
    \<and> distinct (map fst added) \<and> fst ` set added \<inter> fst ` set (inbox_entries i) = {}
    \<and> list_all (\<lambda>(name, _, doc). \<exists>r. doc = Receipt_Doc r \<and> validated_receipt padded sha name doc = Inr r) added"
proof -
  obtain added where added: "inbox_entries (record_calls padded sha calls i) = inbox_entries i @ added"
      "list_all (recorded_entry padded sha uid) added" "distinct (map fst added)"
      "fst ` set added \<inter> fst ` set (inbox_entries i) = {}"
    using record_calls_entries[OF assms(2)] by blast
  have "list_all (\<lambda>(name, _, doc). \<exists>r. doc = Receipt_Doc r \<and> validated_receipt padded sha name doc = Inr r) added"
    using added(2) recorded_entry_validated[OF assms(1)] by (fastforce simp: list_all_iff)
  then show ?thesis using added by blast
qed

theorem growth_inbox_append_only_witness:
  "\<exists>added. inbox_entries (record_calls True growth_sha [(calm, first_finding), (busy, second_finding)] empty_inbox)
      = inbox_entries empty_inbox @ added
    \<and> distinct (map fst added) \<and> fst ` set added \<inter> fst ` set (inbox_entries empty_inbox) = {}
    \<and> list_all (\<lambda>(name, _, doc). \<exists>r. doc = Receipt_Doc r \<and> validated_receipt True growth_sha name doc = Inr r) added"
  by (rule growth_inbox_append_only[OF growth_sha_hex, of 1000]) (simp add: busy_def calm_quiet)

text \<open>C32: An inbox that was only ever written by recording can be scanned at any instant that is not
  before an assessment in it: the report fits its schema, its gate is PASS, it has one record for each
  entry, and its counts partition the entries by their verdict.\<close>

theorem growth_scan_complete:
  assumes "hex_digest sha" "list_all (\<lambda>(w, _). inbox_uid w = uid) calls"
    and "inbox_entries (record_calls padded sha calls \<lparr>inbox_entries = [], publication_uncertain = False\<rparr>) = es"
    and "length es \<le> scan_limit" "quiet uid w" "before_open w es = es"
    and "utc_rfc3339 padded as_of = Inr t" "parse_rfc3339_parts t = Inr instant" "list_all (seen_by instant) es"
  shows "\<exists>report. scan_inbox padded sha w root as_of es = Inr report \<and> report_gate report = ''PASS''
    \<and> mset (report_records report) = mset (map entry_record es)
    \<and> signal_count report = length (filter (\<lambda>e. record_verdict (entry_record e) = Some ''SIGNAL'') es)
    \<and> signal_count report + no_signal_count report = length es"
proof -
  have es: "list_all (recorded_entry padded sha uid) es" "distinct (map fst es)"
    using record_calls_entries[OF assms(2), of padded sha "\<lparr>inbox_entries = [], publication_uncertain = False\<rparr>"]
    by (auto simp: assms(3))
  let ?report = "scan_report_of sha root t (map entry_record es)"
  note scan = scan_recorded[OF assms(1) es assms(4-9)]
  have "invalid_count ?report = 0" using scan(2) by (simp add: scan_report_of_def Let_def split: if_splits)
  then have "signal_count ?report + no_signal_count ?report = length es"
    using scan_report_counts(1)[of sha root t "map entry_record es"] by simp
  then show ?thesis
    using scan by (intro exI[of _ ?report]) (simp add: scan_report_fields filter_map comp_def)
qed

theorem growth_scan_complete_witness:
  "\<exists>report. scan_inbox True growth_sha calm ''/state'' ''2024-03-01T00:00:00Z'' (inbox_entries finding_inbox) = Inr report
    \<and> report_gate report = ''PASS''
    \<and> mset (report_records report) = mset (map entry_record (inbox_entries finding_inbox))
    \<and> signal_count report = length (filter (\<lambda>e. record_verdict (entry_record e) = Some ''SIGNAL'') (inbox_entries finding_inbox))
    \<and> signal_count report + no_signal_count report = length (inbox_entries finding_inbox)"
  by (rule growth_scan_complete[OF growth_sha_hex, of 1000 "[(calm, first_finding)]", OF _ _ _ _ _ scan_time finding_seen])
    (simp_all add: calm_quiet first_recorded[unfolded empty_inbox_def] finding_inbox_entries)

end
