(* ===== verification/Spec2Isabelle.thy ===== *)
theory Spec2Isabelle
  imports Planning_Properties Guard_Witnesses Inspection_Properties Growth_Properties
begin

text \<open>
  A verification development for the evolution harness: the controlled execution of parallel work
  on one project, under \<open>src/evolution_harness\<close>.

  \<^bold>\<open>The program.\<close> A planner turns a request (a batch of slices, a conflict policy, an authorization
  envelope and a snapshot of authority files) into a provisional execution plan. A coordinator
  admits slices of the plan one by one: it leases each a lane, a directory of its own, with a
  fencing token, and moves the lease through its lifecycle on signed transition commands. It keeps its leases and an
  append-only list of receipts in a journal, a JSON file that is only replaced under a project lock by
  compare-and-swap. A write guard runs the commands of a lane in a sandbox and compares the
  lane before and after; a path outside the declared write sets quarantines the project, and a
  signed recovery releases the lanes. The planner reads the journal back as a projection. Beside it, what
  was learned from a task is recorded in the growth inbox, a directory of receipts under content keys.

  \<^bold>\<open>Theories and code.\<close>
  \<^item> \<open>Harness_Prelude\<close> holds what all theories share: errors as values of \<open>harness_error\<close>, the result
    type with its sequencing operators (each \<open>raise\<close> of the source is an \<open>Inl\<close>), Python dictionaries as association
    lists, and the collections of facts on them.
  \<^item> \<open>Canonical_Json\<close> (\<open>hashing.py\<close>), \<open>Harness_Paths\<close> (\<open>paths.py\<close>, \<open>PurePosixPath\<close>), \<open>Harness_Time\<close>
    (\<open>parse_rfc3339\<close> of \<open>controlled_inputs.py\<close>).
  \<^item> Planning: \<open>Planning_Data\<close> and \<open>Planning_Inputs\<close> (\<open>controlled_inputs.py\<close> and the schemas it
    applies), \<open>Graph_Closure\<close> and \<open>Conflict_Graph\<close> (\<open>controlled_conflicts.py\<close>), \<open>Dependency_Order\<close> and
    \<open>Execution_Planner\<close> (\<open>controlled_planner.py\<close>); proved in \<open>Planner_Correct\<close>, \<open>Plan_Permutation\<close> and
    \<open>Planning_Properties\<close>, whose witnesses are on the request of \<open>Sample_Batch\<close>.
  \<^item> Coordinator: \<open>Coordinator_Data\<close> (commands, leases, receipts and journal, with their JSON
    encodings and schemas), \<open>Coordinator_Inputs\<close> (\<open>controlled_coordinator_inputs.py\<close>), \<open>Coordinator_Journal\<close> and
    \<open>Coordinator_Store\<close> (\<open>coordinator_state.py\<close>: the integrity check, and the directory with its
    lock), \<open>Coordinator_Authority\<close> and \<open>Coordinator\<close> (\<open>controlled_coordinator.py\<close>), \<open>Coordinator_Recovery\<close>
    (\<open>controlled_recovery.py\<close>), \<open>Coordinator_Projection\<close> and \<open>Coordinator_Inspection\<close> (the state root
    and the two read-only views).
  \<^item> Coordinator, proved: \<open>Coordinator_Steps\<close>, \<open>Coordinator_Invariant\<close>, \<open>Coordinator_History\<close>,
    \<open>Coordinator_Properties\<close> and \<open>Coordinator_Signatures\<close> are about every sequence of commands; \<open>Coordinator_Index\<close>,
    \<open>Coordinator_Complete\<close>, \<open>Coordinator_Accepted\<close>, \<open>Coordinator_Closure\<close>, \<open>Coordinator_Schema\<close> and
    \<open>Coordinator_Liveness\<close> show that no command proposes a journal that the store refuses; \<open>Store_Correct\<close>,
    \<open>Store_Properties\<close>, \<open>Coordinator_Views\<close> and \<open>Inspection_Properties\<close> are about the directory and the answers.
  \<^item> Write guard (\<open>controlled_write_guard.py\<close>): \<open>Git_Text\<close> (texts read from Git), \<open>Lane_Tree\<close> (the
    file tree, opens without following links, the scan), \<open>Git_Boundary\<close> (sealed repository, \<open>HEAD\<close>,
    objects), \<open>Git_Entries\<close> (index, tree objects, ignore file), \<open>Lane_Inventory\<close> (inventories, changes,
    breaches, declared targets) and \<open>Write_Guard\<close> (profile, lease check, quarantine, the run); proved
    in \<open>Scan_Correct\<close>, \<open>Guard_Journal\<close>, \<open>Inventory_Correct\<close>, \<open>Guard_Correct\<close> and \<open>Guard_Properties\<close>.
  \<^item> Growth inbox: \<open>Growth_Assessment\<close> (\<open>growth_assessment.py\<close> and the schemas of requests and receipts) and
    \<open>Growth_Inbox\<close> (\<open>growth_store.py\<close>); proved in \<open>Growth_Correct\<close> (the calendar, canonical timestamps),
    \<open>Growth_Normal\<close> (normalising is idempotent), \<open>Growth_Records\<close> (what calls in a row leave),
    \<open>Growth_Scan\<close> and \<open>Growth_Properties\<close>, whose witnesses are on the finding of \<open>Growth_Sample\<close>.
  \<^item> Samples: \<open>Sample_Lanes\<close>, \<open>Sample_Commands\<close>, \<open>Sample_Project\<close>, \<open>Sample_Journals\<close>, \<open>Sample_Recovery\<close> and
    \<open>Guard_Sample\<close> build two lanes from the request to their recovery, on which \<open>Coordinator_Witnesses\<close>,
    \<open>Store_Witnesses\<close> and \<open>Guard_Witnesses\<close> apply the properties.
  \<^item> This theory joins the coordinator and the guard.

  \<^bold>\<open>State and operations.\<close> A JSON document that passed its schema is a record (\<open>journal\<close>, \<open>lease\<close>,
    \<open>receipt\<close>, the four commands), a state name a datatype. A handler is split as the code runs
    it: a pure step (\<open>acquire_step\<close>, \<open>transition_step\<close>, \<open>observe_step\<close>, \<open>recovery_step\<close>) from journal and command to a refusal,
    a replayed answer or a journal to commit; and the run of it under the lock (\<open>acquire_lane_lease\<close> and
    its siblings), from directory to answer and directory. \<open>coordinator_step\<close> and \<open>coordinated\<close> are the
    steps on journals and the journals they reach; the abstract machine they refine is \<open>lane_step\<close> on lists of leases. \<open>run_guarded_command\<close> maps machine and
    directory to result, machine and directory.

  \<^bold>\<open>Interfaces.\<close> \<open>conflict_policy\<close> is the contract between the conflict rules and those who rely on
    them: it is interpreted for slices of a batch and for leases that occupy lanes. \<open>reachability\<close> is the contract of
    a transitive closure, provided by the Warshall loop of the code. \<open>sealed_record\<close> is a record that
    carries a digest over its own fields, provided by descriptors and envelopes.

  \<^bold>\<open>What is assumed.\<close> SHA-256, SHA-1, \<open>ssh-keygen\<close>, \<open>git\<close> and the live project (registration, HEAD, authority
    files, lane directories) are parameters: functions and the records \<open>ssh_host\<close>, \<open>guard_host\<close> and \<open>live_project\<close>. No property assumes that a digest is free
    of collisions; where one needs it, it says so for the two texts in question. The sandboxed
    process is any function on machines: that a run is safe does not rest on the sandbox. The world
    of the store says whether writes, renames and syncs succeed and what another process does to the directory
    between the reads of a replacement; liveness is claimed for a quiet world only.

  \<^bold>\<open>Bounds and fuel.\<close> The JSON parser takes the length of its text as fuel, which its round trip shows
    to be enough. \<open>follow_head\<close> follows at most 8 references and \<open>walk_tree\<close> 64 levels of trees, as the
    code does; running out is the error that the code raises there. Everything else terminates by itself. The scan has
    the limits of the code: 64 levels, 100000 entries, 256 MiB per file and 1 GiB in all.

  \<^bold>\<open>Not modelled.\<close> Opening and closing of descriptors, and changes to the tree during a single scan,
    beyond the check the code makes for one (\<open>unstable\<close>): a tree is read at one instant before and one after the
    command. A lane that is gone under its name after a run fails the boundary check. YAML and the command
    line; the text of error messages (their codes are kept).
    Of the growth inbox, the opening of its state root and the reading of a source revision with git.
    \<open>\d\<close> in the patterns of growth timestamps is an ASCII digit, and how a year before 1000 is
    written is a parameter (\<open>padded\<close>), since C libraries differ.
    The rest of the repository (capability packs, toolchains, projections, learning, catalogues) does
    not take part in the controlled execution; the manifest lists it with the reasons.
\<close>

section \<open>The coordinator and the write guard\<close>

text \<open>The paths a lease declares: those at or below a path of its write sets.\<close>

definition lane_grants :: "lease \<Rightarrow> string \<Rightarrow> bool" where
  "lane_grants l p = list_ex (path_is_within p) (write_paths (lease_footprint l))"

lemma split_on_split: "split_on c (a @ c # s) = split_on c a @ split_on c s"
  by (induction a) (auto split: list.splits)

lemma join_split: "join c (split_on c s) = s"
proof (induction s)
  case (Cons x s)
  have "join c ((x # a) # rest) = x # join c (a # rest)" for a rest by (cases rest) simp_all
  with Cons show ?case by (auto simp: join_Cons split: list.splits)
qed simp

lemma canonical_within:
  assumes p: "canonical p" and within: "path_is_within p a"
  shows "contains_path a p"
proof (cases "p = a")
  case False
  with within obtain s where s: "p = a @ slash # s" by (auto simp: path_is_within_iff)
  let ?ns = "path_parts p"
  have ns: "?ns \<noteq> []" 
  proof
    assume "?ns = []"
    then have "p = ''.''" using canonical_parts(2)[OF p] by (simp add: path_str_def)
    then show False using s by (cases a) auto
  qed
  have "\<And>n. n \<in> set ?ns \<Longrightarrow> slash \<notin> set n"
    using canonical_parts(1)[OF p] by (simp add: list_all_iff safe_component_def)
  then have "split_on slash (join slash ?ns) = ?ns" by (rule split_on_join[OF ns])
  moreover have "join slash ?ns = p" using canonical_parts(2)[OF p] ns by (simp add: path_str_def)
  ultimately have parts: "?ns = split_on slash a @ split_on slash s" by (simp add: s split_on_split)
  have "list_all safe_component (split_on slash a)" using canonical_parts(1)[OF p] by (simp add: parts)
  from canonical_text(2)[OF _ this] have "path_parts a = split_on slash a"
    by (simp add: path_str_def join_split)
  then show ?thesis using parts by (auto simp: contains_path_iff)
qed simp

text \<open>C18: No two lanes in which commands may run declare the same path. Of two leases that the guard accepts on
  one journal, whoever presents them, a path of normal form is at or below a declared path of one of them
  only.\<close>

theorem guarded_path_has_one_lane:
  assumes j: "coordinated sha key j"
    and current: "current_durable_lease (Some j) a = Inr l" "current_durable_lease (Some j) b = Inr m"
    and path: "canonical p" "lane_grants l p" "lane_grants m p"
  shows "l = m"
proof (rule ccontr)
  assume "l \<noteq> m"
  have l: "l \<in> set (leases j)" "lease_state l = ACTIVE" "find_lease (leaseId l) (leases j) = Some l"
    and m: "m \<in> set (leases j)" "lease_state m = ACTIVE" "find_lease (leaseId m) (leases j) = Some m"
    using current find_lease_Some by (elim current_durable_lease_Inr; fastforce)+
  have ok: "lanes_ok (leases j)" using coordinated_ok[OF j] by (simp add: journal_ok_def)
  from \<open>l \<noteq> m\<close> l(3) m(3) have "leaseId l \<noteq> leaseId m" by auto
  with ok l m have "\<not> lane_conflict l m" by (auto simp: lanes_ok_def is_nonterminal_def)
  from lanes.free_outputs[OF this] path canonical_within[OF path(1)] show False
    unfolding lane_grants_def list_ex_iff by metis
qed

theorem guarded_path_has_one_lane_witness:
  "\<exists>l. current_durable_lease (Some active_journal) active_lane = Inr l \<and> l = active_lane \<and> lane_grants l ''src/tools/main''"
proof -
  have path: "canonical ''src/tools/main''" "lane_grants active_lane ''src/tools/main''"
    by (code_simp, simp add: lane_grants_def write_paths_def sample_within) code_simp
  from guarded_path_has_one_lane[OF active_coordinated active_current active_current path(1) path(2) path(2)] path(2) active_current
  show ?thesis by blast
qed

text \<open>Lanes are inspected with the write guard.\<close>

definition guard_inspects :: "guard_host \<Rightarrow> machine \<Rightarrow> live_project \<Rightarrow> bool" where
  "guard_inspects h m live =
     (\<forall>l. case complete_breach_inventory h m l of
        Inl _ \<Rightarrow> (\<exists>e. breach_inventory live l = Inl e)
      | Inr (inventory, observed, remaining) \<Rightarrow>
          breach_inventory live l = Inr (inventory_json inventory, observed, remaining))"

lemma mapE_same: "mapE f xs = Inr ys \<Longrightarrow> (\<And>x y. f x = Inr y \<Longrightarrow> y = x) \<Longrightarrow> ys = xs"
  by (induction xs arbitrary: ys) (auto simp: result_simps)

lemma complete_breach_Inr:
  assumes "complete_breach_inventory h m l = Inr (inventory, observed, remaining)"
  shows "observed = sort (filter (\<lambda>p. \<not> declared_path (exactWriteSet (lease_footprint l)) (ephemeralWriteSet (lease_footprint l)) p)
      (paths inventory))"
proof -
  from assms obtain exact ephemeral where "mapE guard_relative (exactWriteSet (lease_footprint l)) = Inr exact"
    "mapE guard_relative (ephemeralWriteSet (lease_footprint l)) = Inr ephemeral"
    "observed = persistent_breaches (paths inventory) exact ephemeral"
    by (auto simp: complete_breach_inventory_def result_simps)
  then show ?thesis using mapE_same guard_relative_Inr(1) by (metis persistent_breaches_def)
qed


text \<open>The first sample lane, inspected after the second sample run.\<close>

definition guarded_live :: live_project where
  "guarded_live = lane_live\<lparr>breach_inventory := (\<lambda>l.
     case complete_breach_inventory guard_sample (guard_machine breach_sources) l of
       Inl _ \<Rightarrow> Inl (Coordination_Error ''LANE_INVENTORY_UNAVAILABLE'')
     | Inr (inventory, observed, remaining) \<Rightarrow> Inr (inventory_json inventory, observed, remaining))\<rparr>"

lemma sample_breach:
  "complete_breach_inventory guard_sample (guard_machine breach_sources) (lane_lease True) =
     Inr (guard_inventory breach_scan, [lane_page], [])"
proof -
  have "open_leased_lane (guard_machine breach_sources) (lane_lease True) (lane_root True) = Inr (guard_tree breach_sources)"
    by (simp add: open_leased_lane_def lane_inode_def) (simp add: guard_tree_def)
  moreover have "guard_absolute (lane_root True) = Inr (lane_root True)" "guard_relative ''src/tools'' = Inr ''src/tools''"
    by code_simp+
  moreover have "persistent_breaches (paths (guard_inventory breach_scan)) [''src/tools''] [] = [lane_page]"
    using sample_orders by (simp add: persistent_breaches_def breach_scan_def guard_inventory_select within_sources lane_page_def)
  ultimately show ?thesis
    by (simp add: complete_breach_inventory_def guard_boundary_opened guard_breach_scan guard_inventory_with remaining_ephemeral_def)
qed

lemma sample_observe:
  "observe_step lane_sha guarded_live (Some two_lanes) lane_observation = Inr (Commit quarantined_journal quarantine_receipt)"
proof -
  have "check_observed_lane lane_sha guarded_live (lane_lease True) lane_observation =
      check_observed_lane lane_sha lane_live (lane_lease True) lane_observation"
    by (simp add: check_observed_lane_def guarded_live_def sample_breach inventory_json_def)
  moreover have "find_lease (leaseId (lane_lease True)) (leases two_lanes) = Some (lane_lease True)"
    by (simp add: find_lease_def)
  moreover have "live_source guarded_live = live_source lane_live" by (simp add: guarded_live_def)
  ultimately show ?thesis using lane_observe_step by (simp add: observe_step_def cong: option.case_cong)
qed


end
